(* ===== verification/Base.thy ===== *)
theory Base
  imports Main "HOL-Library.Word"
begin

text \<open>
  Prelude of the snappy-java development: the machine types of the Java and C++ sources,
  array segments and block copies, and the result type of code that may throw.
  Every other theory builds on it.

  A Java \<open>byte\<close> is an 8-bit word. A Java \<open>int\<close> is a 32-bit word where the code works on its
  bits, and a HOL \<open>int\<close> where it counts; every arithmetic step that can leave the 32-bit
  range is wrapped with \<open>i32\<close>.
\<close>

unbundle bit_operations_syntax

named_theorems segment_simps \<open>rewriting segments and block copies\<close>
named_theorems result_simps \<open>unfolding the result combinators\<close>

type_synonym byte = "8 word"
type_synonym bytes = "byte list"
type_synonym jint = "32 word"

section \<open>32-bit and 64-bit wrap-around on counting integers\<close>

definition i32 :: "int \<Rightarrow> int" where
  "i32 x = (x + 2147483648) mod 4294967296 - 2147483648"

definition i64 :: "int \<Rightarrow> int" where
  "i64 x = (x + 9223372036854775808) mod 18446744073709551616 - 9223372036854775808"

definition int_max :: int where "int_max = 2147483647"

definition is_i32 :: "int \<Rightarrow> bool" where
  "is_i32 x \<longleftrightarrow> - 2147483648 \<le> x \<and> x \<le> 2147483647"

lemma i32_id [simp]: "is_i32 x \<Longrightarrow> i32 x = x"
  by (simp add: is_i32_def i32_def)

lemma is_i32_i32 [simp]: "is_i32 (i32 x)"
proof -
  have "0 \<le> (x + 2147483648) mod 4294967296" "(x + 2147483648) mod 4294967296 < 4294967296"
    by simp_all
  then show ?thesis by (simp add: is_i32_def i32_def)
qed

lemma i32_unsigned:
  assumes "0 \<le> x" and "x < 4294967296"
  shows "i32 x = (if x \<le> 2147483647 then x else x - 4294967296)"
proof (cases "x \<le> 2147483647")
  case True
  with assms show ?thesis by (simp add: i32_def)
next
  case False
  have "(x + 2147483648) mod 4294967296 = (x - 2147483648 + 4294967296) mod 4294967296"
    by (simp add: algebra_simps)
  also have "\<dots> = (x - 2147483648) mod 4294967296"
    by (rule mod_add_self2)
  also have "\<dots> = x - 2147483648"
    using False assms by simp
  finally show ?thesis using False by (simp add: i32_def)
qed

lemma i32_int_len: "int n \<le> int_max \<Longrightarrow> i32 (int n) = int n"
  by (simp add: i32_def int_max_def)

section \<open>Array ranges, segments and block copies\<close>

text \<open>\<open>in_range off len n\<close>: the index range \<open>[off, off + len)\<close> lies inside an array of length \<open>n\<close>.\<close>

definition in_range :: "int \<Rightarrow> int \<Rightarrow> nat \<Rightarrow> bool" where
  "in_range off len n \<longleftrightarrow> 0 \<le> off \<and> 0 \<le> len \<and> off + len \<le> int n"

definition segment :: "int \<Rightarrow> int \<Rightarrow> 'a list \<Rightarrow> 'a list" where
  "segment off len xs = take (nat len) (drop (nat off) xs)"

text \<open>\<open>blit dst off xs\<close> overwrites \<open>dst\<close> from index \<open>off\<close> on with the elements of \<open>xs\<close>.\<close>

definition blit :: "'a list \<Rightarrow> int \<Rightarrow> 'a list \<Rightarrow> 'a list" where
  "blit dst off xs = take (nat off) dst @ xs @ drop (nat off + length xs) dst"

lemma length_segment [segment_simps]:
  "in_range off len (length xs) \<Longrightarrow> length (segment off len xs) = nat len"
  by (auto simp: in_range_def segment_def)

lemma length_blit [segment_simps]:
  "in_range off (int (length xs)) (length dst) \<Longrightarrow> length (blit dst off xs) = length dst"
  by (auto simp: in_range_def blit_def)

lemma segment_blit_same [segment_simps]:
  "in_range off (int (length xs)) (length dst) \<Longrightarrow> segment off (int (length xs)) (blit dst off xs) = xs"
  by (auto simp: in_range_def blit_def segment_def)

lemma take_blit_before [segment_simps]:
  "in_range off (int (length xs)) (length dst) \<Longrightarrow> n \<le> nat off \<Longrightarrow> take n (blit dst off xs) = take n dst"
  by (auto simp: in_range_def blit_def)

text \<open>Writing at \<open>off\<close> extends the valid prefix of length \<open>off\<close> by what was written.\<close>

lemma take_blit_extend [segment_simps]:
  assumes "in_range off (int (length xs)) (length dst)" and "nat off \<le> length dst"
  shows "take (nat off + length xs) (blit dst off xs) = take (nat off) dst @ xs"
proof -
  have "length (take (nat off) dst) = nat off" using assms(2) by simp
  then show ?thesis by (simp add: blit_def)
qed

lemma segment_all [simp]: "segment 0 (int (length xs)) xs = xs"
  by (simp add: segment_def)

lemma segment_zero_len [simp]: "segment off 0 xs = []"
  by (simp add: segment_def)

lemma blit_Nil [simp]: "blit dst off [] = dst"
  by (simp add: blit_def)

lemma segment_append_segment [segment_simps]:
  assumes "0 \<le> a" "0 \<le> m" "0 \<le> n"
  shows "segment a m xs @ segment (a + m) n xs = segment a (m + n) xs"
proof -
  have "nat (a + m) = nat a + nat m" "nat (m + n) = nat m + nat n"
    using assms by (simp_all add: nat_add_distrib)
  then show ?thesis
    by (simp add: segment_def take_add add.commute)
qed

lemma segment_0 [simp]: "segment 0 n xs = take (nat n) xs"
  by (simp add: segment_def)

lemma take_nth_of_drop: "drop n xs = ys @ zs \<Longrightarrow> i < length ys \<Longrightarrow> xs ! (n + i) = ys ! i"
  by (metis append_take_drop_id length_drop nth_append nth_drop nat_le_linear drop_all
      append_is_Nil_conv list.size(3) not_less_zero)

section \<open>Results of code that may throw\<close>

text \<open>
  A computation that may throw returns \<open>Inl e\<close> with the exception or \<open>Inr x\<close> with its value.
  \<open>bindE\<close> is the sequencing of Java statements: the first exception ends the block.
\<close>

fun bindE :: "'e + 'a \<Rightarrow> ('a \<Rightarrow> 'e + 'b) \<Rightarrow> 'e + 'b" where
  "bindE (Inl e) f = Inl e"
| "bindE (Inr x) f = f x"

lemma bindE_Inr_iff [result_simps]: "bindE m f = Inr y \<longleftrightarrow> (\<exists>x. m = Inr x \<and> f x = Inr y)"
  by (cases m) auto

lemma bindE_Inl_iff [result_simps]:
  "bindE m f = Inl e \<longleftrightarrow> m = Inl e \<or> (\<exists>x. m = Inr x \<and> f x = Inl e)"
  by (cases m) auto

lemma bindE_cong [fundef_cong]:
  "m = m' \<Longrightarrow> (\<And>x. m' = Inr x \<Longrightarrow> f x = g x) \<Longrightarrow> bindE m f = bindE m' g"
  by (cases m') auto

text \<open>
  An operation on an object updates its state even when it throws, so it returns the
  result and the state it leaves. \<open>bindS\<close> sequences two such operations and \<open>finallyS\<close> is
  \<open>try { m } finally { f }\<close>: the state change \<open>f\<close> happens on both exits.
\<close>

type_synonym ('s, 'e, 'a) op = "'s \<Rightarrow> ('e + 'a) \<times> 's"

definition bindS :: "('s, 'e, 'a) op \<Rightarrow> ('a \<Rightarrow> ('s, 'e, 'b) op) \<Rightarrow> ('s, 'e, 'b) op" where
  "bindS m f s = (case m s of (Inl e, s') \<Rightarrow> (Inl e, s') | (Inr x, s') \<Rightarrow> f x s')"

definition returnS :: "'a \<Rightarrow> ('s, 'e, 'a) op" where
  "returnS x s = (Inr x, s)"

definition throwS :: "'e \<Rightarrow> ('s, 'e, 'a) op" where
  "throwS e s = (Inl e, s)"

definition modifyS :: "('s \<Rightarrow> 's) \<Rightarrow> ('s, 'e, unit) op" where
  "modifyS f s = (Inr (), f s)"

definition getS :: "('s \<Rightarrow> ('s, 'e, 'a) op) \<Rightarrow> ('s, 'e, 'a) op" where
  "getS f s = f s s"

definition liftE :: "'e + 'a \<Rightarrow> ('s, 'e, 'a) op" where
  "liftE r s = (r, s)"

definition finallyS :: "('s, 'e, 'a) op \<Rightarrow> ('s \<Rightarrow> 's) \<Rightarrow> ('s, 'e, 'a) op" where
  "finallyS m f s = (case m s of (r, s') \<Rightarrow> (r, f s'))"

lemmas op_simps = bindS_def returnS_def throwS_def modifyS_def getS_def liftE_def finallyS_def

lemma bindS_Inr_iff [result_simps]:
  "bindS m f s = (Inr y, s'') \<longleftrightarrow> (\<exists>x s'. m s = (Inr x, s') \<and> f x s' = (Inr y, s''))"
  by (auto simp: bindS_def split: prod.splits sum.splits)

lemma bindS_assoc: "bindS (bindS m f) g = bindS m (\<lambda>x. bindS (f x) g)"
  by (rule ext) (auto simp: bindS_def split: prod.splits sum.splits)

text \<open>Running a block statement by statement.\<close>

lemma bind_return: "bindS (returnS x) f s = f x s"
  by (simp add: op_simps)

lemma bind_throw: "bindS (throwS e) f s = (Inl e, s)"
  by (simp add: op_simps)

lemma bind_modify: "bindS (modifyS g) f s = f () (g s)"
  by (simp add: op_simps)

lemma bind_get: "bindS (getS h) f s = bindS (h s) f s"
  by (simp add: op_simps)

lemma bind_lift: "bindS (liftE (Inr x)) f s = f x s" "bindS (liftE (Inl e)) g s = (Inl e, s)"
  by (simp_all add: op_simps)

lemma bind_ok: "m s = (Inr x, s') \<Longrightarrow> bindS m f s = f x s'"
  by (simp add: op_simps)

lemma bind_fail: "m s = (Inl e, s') \<Longrightarrow> bindS m f s = (Inl e, s')"
  by (simp add: op_simps)

lemmas bind_run = bind_return bind_throw bind_modify bind_get bind_lift

lemma bindS_cong [fundef_cong]:
  assumes "m s = m' s'" and "s = s'" and "\<And>x t. m' s' = (Inr x, t) \<Longrightarrow> f x t = g x t"
  shows "bindS m f s = bindS m' g s'"
  using assms by (auto simp: bindS_def split: prod.splits sum.splits)

end
