(* ===== verification/Errors.thy ===== *)
theory Errors
  imports Base
begin

text \<open>
  The error vocabulary of snappy-java: the enum \<open>SnappyErrorCode\<close> with its numeric ids, the
  mapping of an id sent by the native code back to the enum, and the exceptions the modelled
  Java code throws. The native code only knows the ids; \<open>SnappyNative.throw_error\<close> turns an
  id into an \<open>IOException\<close> whose message names the code.
\<close>

section \<open>SnappyErrorCode\<close>

datatype SnappyErrorCode =
    UNKNOWN
  | FAILED_TO_LOAD_NATIVE_LIBRARY
  | PARSING_ERROR
  | NOT_A_DIRECT_BUFFER
  | OUT_OF_MEMORY
  | FAILED_TO_UNCOMPRESS
  | EMPTY_INPUT
  | INCOMPATIBLE_VERSION
  | INVALID_CHUNK_SIZE
  | UNSUPPORTED_PLATFORM
  | TOO_LARGE_INPUT

fun error_id :: "SnappyErrorCode \<Rightarrow> int" where
  "error_id UNKNOWN = 0"
| "error_id FAILED_TO_LOAD_NATIVE_LIBRARY = 1"
| "error_id PARSING_ERROR = 2"
| "error_id NOT_A_DIRECT_BUFFER = 3"
| "error_id OUT_OF_MEMORY = 4"
| "error_id FAILED_TO_UNCOMPRESS = 5"
| "error_id EMPTY_INPUT = 6"
| "error_id INCOMPATIBLE_VERSION = 7"
| "error_id INVALID_CHUNK_SIZE = 8"
| "error_id UNSUPPORTED_PLATFORM = 9"
| "error_id TOO_LARGE_INPUT = 10"

text \<open>\<open>SnappyErrorCode.values()\<close>: the constants in declaration order.\<close>

definition error_values :: "SnappyErrorCode list" where
  "error_values = [UNKNOWN, FAILED_TO_LOAD_NATIVE_LIBRARY, PARSING_ERROR, NOT_A_DIRECT_BUFFER,
     OUT_OF_MEMORY, FAILED_TO_UNCOMPRESS, EMPTY_INPUT, INCOMPATIBLE_VERSION,
     INVALID_CHUNK_SIZE, UNSUPPORTED_PLATFORM, TOO_LARGE_INPUT]"

fun find_code :: "int \<Rightarrow> SnappyErrorCode list \<Rightarrow> SnappyErrorCode" where
  "find_code i [] = UNKNOWN"
| "find_code i (code # codes) = (if error_id code = i then code else find_code i codes)"

definition getErrorCode :: "int \<Rightarrow> SnappyErrorCode" where
  "getErrorCode i = find_code i error_values"

fun error_name :: "SnappyErrorCode \<Rightarrow> string" where
  "error_name UNKNOWN = ''UNKNOWN''"
| "error_name FAILED_TO_LOAD_NATIVE_LIBRARY = ''FAILED_TO_LOAD_NATIVE_LIBRARY''"
| "error_name PARSING_ERROR = ''PARSING_ERROR''"
| "error_name NOT_A_DIRECT_BUFFER = ''NOT_A_DIRECT_BUFFER''"
| "error_name OUT_OF_MEMORY = ''OUT_OF_MEMORY''"
| "error_name FAILED_TO_UNCOMPRESS = ''FAILED_TO_UNCOMPRESS''"
| "error_name EMPTY_INPUT = ''EMPTY_INPUT''"
| "error_name INCOMPATIBLE_VERSION = ''INCOMPATIBLE_VERSION''"
| "error_name INVALID_CHUNK_SIZE = ''INVALID_CHUNK_SIZE''"
| "error_name UNSUPPORTED_PLATFORM = ''UNSUPPORTED_PLATFORM''"
| "error_name TOO_LARGE_INPUT = ''TOO_LARGE_INPUT''"

definition getErrorMessage :: "int \<Rightarrow> string" where
  "getErrorMessage i = error_name (getErrorCode i)"

text \<open>A Java enum is ordered by its declaration order, which here is the order of the ids.\<close>

instantiation SnappyErrorCode :: linorder
begin

definition less_eq_SnappyErrorCode :: "SnappyErrorCode \<Rightarrow> SnappyErrorCode \<Rightarrow> bool" where
  "less_eq_SnappyErrorCode a b \<longleftrightarrow> error_id a \<le> error_id b"

definition less_SnappyErrorCode :: "SnappyErrorCode \<Rightarrow> SnappyErrorCode \<Rightarrow> bool" where
  "less_SnappyErrorCode a b \<longleftrightarrow> error_id a < error_id b"

instance
proof
  fix x y z :: SnappyErrorCode
  show "(x < y) = (x \<le> y \<and> \<not> y \<le> x)"
    by (auto simp: less_eq_SnappyErrorCode_def less_SnappyErrorCode_def)
  show "x \<le> x" by (simp add: less_eq_SnappyErrorCode_def)
  show "x \<le> y \<Longrightarrow> y \<le> z \<Longrightarrow> x \<le> z" by (simp add: less_eq_SnappyErrorCode_def)
  show "x \<le> y \<Longrightarrow> y \<le> x \<Longrightarrow> x = y"
    by (cases x; cases y) (simp_all add: less_eq_SnappyErrorCode_def)
  show "x \<le> y \<or> y \<le> x" by (auto simp: less_eq_SnappyErrorCode_def)
qed

end

section \<open>Exceptions\<close>

text \<open>
  The exceptions of the modelled code. \<open>NativeFault\<close> is no Java exception: it marks a native
  access outside the memory it was given, which the C++ code does not check. \<open>Diverges\<close> is the value
  of a loop that runs out of the fuel its model was given.
\<close>

datatype exc =
    IOException string
  | SnappyIOException SnappyErrorCode
  | SnappyErrorExc SnappyErrorCode
  | EOFException
  | ClosedChannelException
  | IllegalArgumentException
  | NullPointerException
  | IndexOutOfBoundsException
  | NegativeArraySizeException
  | BufferOverflowException
  | BufferUnderflowException
  | UnsatisfiedLinkError
  | UnsupportedEncodingException
  | IllegalStateException
  | ExceptionInInitializerError
  | NativeFault
  | Diverges

type_synonym 'a result = "exc + 'a"

text \<open>Decimal rendering of an \<open>int\<close>, as \<open>%d\<close> prints it.\<close>

fun show_digits :: "nat \<Rightarrow> string" where
  "show_digits n = (if n < 10 then [char_of (48 + n)]
                    else show_digits (n div 10) @ [char_of (48 + n mod 10)])"

declare show_digits.simps [simp del]

definition show_int :: "int \<Rightarrow> string" where
  "show_int i = (if i < 0 then ''-'' @ show_digits (nat (- i)) else show_digits (nat i))"

definition throw_error :: "int \<Rightarrow> exc" where
  "throw_error errorCode =
     IOException (getErrorMessage errorCode @ ''('' @ show_int errorCode @ '')'')"

section \<open>Array primitives of the Java runtime\<close>

text \<open>\<open>System.arraycopy\<close> checks both ranges before it copies.\<close>

definition arraycopy :: "'a list \<Rightarrow> int \<Rightarrow> 'a list \<Rightarrow> int \<Rightarrow> int \<Rightarrow> 'a list result" where
  "arraycopy src srcPos dst dstPos len =
     (if in_range srcPos len (length src) \<and> in_range dstPos len (length dst)
      then Inr (blit dst dstPos (segment srcPos len src))
      else Inl IndexOutOfBoundsException)"

definition array_get :: "'a list \<Rightarrow> int \<Rightarrow> 'a result" where
  "array_get a i = (if 0 \<le> i \<and> i < int (length a) then Inr (a ! nat i)
                    else Inl IndexOutOfBoundsException)"

definition array_set :: "'a list \<Rightarrow> int \<Rightarrow> 'a \<Rightarrow> 'a list result" where
  "array_set a i x = (if 0 \<le> i \<and> i < int (length a) then Inr (a[nat i := x])
                      else Inl IndexOutOfBoundsException)"

definition new_array :: "int \<Rightarrow> bytes result" where
  "new_array n = (if n < 0 then Inl NegativeArraySizeException else Inr (replicate (nat n) 0))"

lemma arraycopy_ok:
  "in_range sp len (length src) \<Longrightarrow> in_range dp len (length dst) \<Longrightarrow>
   arraycopy src sp dst dp len = Inr (blit dst dp (segment sp len src))"
  by (simp add: arraycopy_def)

lemma new_array_ok [simp]: "0 \<le> n \<Longrightarrow> new_array n = Inr (replicate (nat n) 0)"
  by (simp add: new_array_def)

section \<open>Properties of the error codes\<close>

lemma find_code_notin: "i \<notin> error_id ` set codes \<Longrightarrow> find_code i codes = UNKNOWN"
  by (induction codes) auto

lemma error_values_all: "code \<in> set error_values"
  by (cases code) (simp_all add: error_values_def)

lemma getErrorCode_id: "getErrorCode (error_id code) = code"
  by (cases code) (simp_all add: getErrorCode_def error_values_def)

lemma error_id_range: "0 \<le> error_id code \<and> error_id code \<le> 10"
  by (cases code) simp_all

end
