(* ===== verification/Crc32c.thy ===== *)
theory Crc32c
  imports Crc32c_Tables Errors
begin

text \<open>
  \<open>PureJavaCrc32C\<close>: the CRC-32C checksum of the framing format. The class keeps the
  bit-flipped register \<open>crc\<close>; \<open>update(byte[],int,int)\<close> consumes eight bytes per round through
  the eight tables and the rest byte by byte; \<open>update(int)\<close> consumes one byte.

  The reference is the bit-serial definition of the CRC with the reflected polynomial
  \<open>0x82F63B78\<close>. The theory proves that the tables are the ones this polynomial gives, that
  the slicing loop computes the bit-serial CRC of exactly the bytes in range, and that it
  throws on every other range without touching the register.
\<close>

section \<open>The class\<close>

record PureJavaCrc32C =
  crc :: jint

definition crc_reset :: "PureJavaCrc32C \<Rightarrow> PureJavaCrc32C" where
  "crc_reset o' = o'\<lparr>crc := 0xffffffff\<rparr>"

definition new_crc :: PureJavaCrc32C where
  "new_crc = crc_reset \<lparr>crc = 0\<rparr>"

definition getIntegerValue :: "PureJavaCrc32C \<Rightarrow> jint" where
  "getIntegerValue o' = NOT (crc o')"

definition getValue :: "PureJavaCrc32C \<Rightarrow> 64 word" where
  "getValue o' = (scast (NOT (crc o')) :: 64 word) AND 0xffffffff"

text \<open>\<open>T[c & 0xff]\<close>: the tables have 256 entries, so the masked index is always in range.\<close>

definition tab :: "jint list \<Rightarrow> jint \<Rightarrow> jint" where
  "tab T c = T ! unat (c AND 0xff)"

text \<open>One round of the \<open>while (len > 7)\<close> loop; a byte is widened with its sign.\<close>

definition crc_round :: "bytes \<Rightarrow> int \<Rightarrow> jint \<Rightarrow> jint result" where
  "crc_round b off localCrc =
     bindE (array_get b off) (\<lambda>b0.
     let c0 = scast b0 XOR localCrc; localCrc = drop_bit 8 localCrc in
     bindE (array_get b (off + 1)) (\<lambda>b1.
     let c1 = scast b1 XOR localCrc; localCrc = drop_bit 8 localCrc in
     bindE (array_get b (off + 2)) (\<lambda>b2.
     let c2 = scast b2 XOR localCrc; localCrc = drop_bit 8 localCrc in
     bindE (array_get b (off + 3)) (\<lambda>b3.
     let c3 = scast b3 XOR localCrc;
         localCrc = (tab T8_7 c0 XOR tab T8_6 c1) XOR (tab T8_5 c2 XOR tab T8_4 c3) in
     bindE (array_get b (off + 4)) (\<lambda>b4.
     bindE (array_get b (off + 5)) (\<lambda>b5.
     bindE (array_get b (off + 6)) (\<lambda>b6.
     bindE (array_get b (off + 7)) (\<lambda>b7.
     Inr (localCrc XOR
          ((tab T8_3 (scast b4) XOR tab T8_2 (scast b5)) XOR
           (tab T8_1 (scast b6) XOR tab T8_0 (scast b7)))))))))))) "

function crc_loop1 :: "bytes \<Rightarrow> int \<Rightarrow> int \<Rightarrow> jint \<Rightarrow> jint result" where
  "crc_loop1 b off len localCrc =
     (if len > 0 then
        bindE (array_get b off) (\<lambda>x.
        crc_loop1 b (off + 1) (len - 1)
          (drop_bit 8 localCrc XOR tab T8_0 (localCrc XOR scast x)))
      else Inr localCrc)"
  by pat_completeness auto
termination by (relation "measure (\<lambda>(b, off, len, c). nat len)") auto

function crc_loop8 :: "bytes \<Rightarrow> int \<Rightarrow> int \<Rightarrow> jint \<Rightarrow> jint result" where
  "crc_loop8 b off len localCrc =
     (if len > 7 then
        bindE (crc_round b off localCrc) (\<lambda>localCrc. crc_loop8 b (off + 8) (len - 8) localCrc)
      else crc_loop1 b off len localCrc)"
  by pat_completeness auto
termination by (relation "measure (\<lambda>(b, off, len, c). nat len)") auto

declare crc_loop1.simps [simp del] crc_loop8.simps [simp del]

text \<open>The register is published only when the loops end without an exception.\<close>

definition crc_update_bytes :: "bytes \<Rightarrow> int \<Rightarrow> int \<Rightarrow> (PureJavaCrc32C, exc, unit) op" where
  "crc_update_bytes b off len o' =
     (case crc_loop8 b off len (crc o') of
        Inl e \<Rightarrow> (Inl e, o')
      | Inr localCrc \<Rightarrow> (Inr (), o'\<lparr>crc := localCrc\<rparr>))"

definition crc_update_byte :: "jint \<Rightarrow> PureJavaCrc32C \<Rightarrow> PureJavaCrc32C" where
  "crc_update_byte b o' =
     o'\<lparr>crc := drop_bit 8 (crc o') XOR tab T8_0 (crc o' XOR b)\<rparr>"

section \<open>The bit-serial reference\<close>

definition crc_step :: "jint \<Rightarrow> jint" where
  "crc_step c = (if bit c 0 then drop_bit 1 c XOR 0x82F63B78 else drop_bit 1 c)"

definition crc_steps :: "nat \<Rightarrow> jint \<Rightarrow> jint" where
  "crc_steps n = crc_step ^^ n"

definition crc_byte :: "jint \<Rightarrow> byte \<Rightarrow> jint" where
  "crc_byte c b = crc_steps 8 (c XOR ucast b)"

definition crc_bytes :: "jint \<Rightarrow> bytes \<Rightarrow> jint" where
  "crc_bytes c bs = foldl crc_byte c bs"

definition crc32c :: "bytes \<Rightarrow> jint" where
  "crc32c bs = NOT (crc_bytes 0xffffffff bs)"

section \<open>Linearity\<close>

lemma crc_step_xor: "crc_step (a XOR b) = crc_step a XOR crc_step b"
  by (auto simp: crc_step_def bit_xor_iff xor.assoc xor.left_commute xor.commute)

lemma crc_steps_xor: "crc_steps n (a XOR b) = crc_steps n a XOR crc_steps n b"
  by (induction n) (simp_all add: crc_steps_def crc_step_xor)

lemma crc_steps_0 [simp]: "crc_steps n 0 = 0"
  by (induction n) (simp_all add: crc_steps_def crc_step_def)

lemma crc_steps_add: "crc_steps m (crc_steps n x) = crc_steps (m + n) x"
  by (simp add: crc_steps_def funpow_add)

lemma crc_steps_Suc: "crc_steps (Suc n) x = crc_steps n (crc_step x)"
  by (simp add: crc_steps_def funpow_swap1)

text \<open>While the low bits are clear the register is only shifted.\<close>

lemma crc_steps_drop: "take_bit n x = 0 \<Longrightarrow> crc_steps n x = drop_bit n x"
proof (induction n arbitrary: x)
  case 0
  then show ?case by (simp add: crc_steps_def)
next
  case (Suc n)
  have low: "\<not> bit x k" if "k < Suc n" for k
  proof -
    have "\<not> bit (take_bit (Suc n) x) k" using Suc.prems by simp
    then show ?thesis using that by (simp add: bit_take_bit_iff)
  qed
  have s: "crc_step x = drop_bit 1 x" using low [of 0] by (simp add: crc_step_def)
  have "take_bit n (drop_bit 1 x) = 0"
  proof (rule bit_word_eqI)
    fix k
    show "bit (take_bit n (drop_bit 1 x)) k = bit (0 :: jint) k"
      using low [of "Suc k"] by (auto simp: bit_take_bit_iff bit_drop_bit_eq)
  qed
  from Suc.IH [OF this] show ?case
    by (simp add: crc_steps_Suc s drop_bit_drop_bit)
qed

lemma word_low_high_split: "x = take_bit n x XOR push_bit n (drop_bit n x)" for x :: jint
  by (rule bit_word_eqI)
     (auto simp: bit_xor_iff bit_take_bit_iff bit_push_bit_iff bit_drop_bit_eq)

lemma mask_ff: "x AND 0xff = take_bit 8 x" for x :: jint
  by (simp add: take_bit_eq_mask mask_eq_exp_minus_1)

text \<open>One byte of the register leaves through its table entry, the rest moves down.\<close>

lemma crc_steps_byte: "crc_steps (n + 8) x = crc_steps (n + 8) (x AND 0xff) XOR crc_steps n (drop_bit 8 x)"
proof -
  let ?h = "push_bit 8 (drop_bit 8 x)"
  have z: "take_bit 8 ?h = 0"
    by (rule bit_word_eqI) (auto simp: bit_take_bit_iff bit_push_bit_iff)
  have d: "drop_bit 8 ?h = drop_bit 8 x"
    by (rule bit_word_eqI) (auto simp: bit_drop_bit_eq bit_push_bit_iff dest: bit_imp_le_length)
  have "crc_steps (n + 8) ?h = crc_steps n (crc_steps 8 ?h)"
    by (simp add: crc_steps_add)
  also have "\<dots> = crc_steps n (drop_bit 8 x)"
    using crc_steps_drop [OF z] d by simp
  finally have h: "crc_steps (n + 8) ?h = crc_steps n (drop_bit 8 x)" .
  have "crc_steps (n + 8) x = crc_steps (n + 8) ((x AND 0xff) XOR ?h)"
    using word_low_high_split [of x 8] by (simp add: mask_ff)
  also have "\<dots> = crc_steps (n + 8) (x AND 0xff) XOR crc_steps (n + 8) ?h"
    by (rule crc_steps_xor)
  finally show ?thesis using h by simp
qed

section \<open>The tables are the ones of the polynomial\<close>

text \<open>
  By linearity a table is determined by its entries at the powers of two: each half of it is
  the half below, shifted by one basis entry. \<open>span\<close> rebuilds a table from its basis.
\<close>

fun span :: "jint list \<Rightarrow> jint list" where
  "span [] = [0]"
| "span (v # vs) = (let t = span vs in t @ map (\<lambda>x. v XOR x) t)"

fun basis :: "nat \<Rightarrow> nat \<Rightarrow> jint list" where
  "basis n 0 = []"
| "basis n (Suc k) = crc_steps n (2 ^ k) # basis n k"

lemma of_nat_xor_high:
  assumes "i < 2 ^ k"
  shows "(of_nat (2 ^ k + i) :: jint) = 2 ^ k XOR of_nat i"
proof -
  have z: "(2 :: jint) ^ k AND of_nat i = 0"
  proof (rule bit_word_eqI)
    fix n
    have "\<not> bit (of_nat i :: jint) k"
    proof
      assume "bit (of_nat i :: jint) k"
      then have "bit i k" by (simp add: bit_of_nat_iff)
      then have "i \<noteq> take_bit k i" by (metis bit_take_bit_iff less_irrefl)
      with assms show False by (simp add: take_bit_nat_eq_self)
    qed
    then show "bit ((2 :: jint) ^ k AND of_nat i) n = bit (0 :: jint) n"
      by (auto simp: bit_and_iff bit_exp_iff)
  qed
  then have "(2 :: jint) ^ k + of_nat i = 2 ^ k XOR of_nat i"
    by (metis disjunctive_add_eq_xor)
  then show ?thesis by simp
qed

lemma span_basis: "span (basis n k) = map (\<lambda>i. crc_steps n (of_nat i)) [0..<2 ^ k]"
proof (induction k)
  case 0
  then show ?case by simp
next
  case (Suc k)
  have e: "[0..<2 ^ Suc k] = [0..<2 ^ k] @ map (\<lambda>i. 2 ^ k + i) [0..<2 ^ k]"
    using upt_add_eq_append [of 0 "2 ^ k" "2 ^ k"] map_add_upt [of "2 ^ k" "2 ^ k"]
    by (simp add: mult_2 add.commute)
  have h: "map (\<lambda>x. crc_steps n (2 ^ k) XOR x) (map (\<lambda>i. crc_steps n (of_nat i)) [0..<2 ^ k])
      = map (\<lambda>i. crc_steps n (of_nat (2 ^ k + i))) [0..<2 ^ k]"
    by (simp add: of_nat_xor_high crc_steps_xor del: of_nat_add)
  have "map (\<lambda>i. crc_steps n (of_nat i)) [0..<2 ^ Suc k]
      = map (\<lambda>i. crc_steps n (of_nat i)) [0..<2 ^ k]
        @ map (\<lambda>i. crc_steps n (of_nat (2 ^ k + i))) [0..<2 ^ k]"
    by (simp only: e map_append map_map comp_def)
  then show ?case
    by (simp only: span.simps basis.simps Suc.IH Let_def h)
qed

lemma crc_steps_numeral: "crc_steps (numeral n) x = crc_steps (pred_numeral n) (crc_step x)"
  by (simp add: numeral_eq_Suc crc_steps_Suc)

lemma crc_steps_zero_steps: "crc_steps 0 x = x"
  by (simp add: crc_steps_def)

lemma basis_numeral: "basis n (numeral k) = crc_steps n (2 ^ pred_numeral k) # basis n (pred_numeral k)"
  by (simp add: numeral_eq_Suc)

lemmas crc_eval = basis_numeral crc_steps_numeral crc_steps_Suc crc_steps_zero_steps crc_step_def

text \<open>\<open>T8_k\<close> holds the register after \<open>8 * (k + 1)\<close> steps from each byte value.\<close>

definition table_for :: "nat \<Rightarrow> jint list" where
  "table_for n = map (\<lambda>i. crc_steps n (of_nat i)) [0..<256]"

lemma table_for_span: "table_for n = span (basis n 8)"
  using span_basis [of n 8] by (simp add: table_for_def)

lemma basis_0: "basis 8 8 =
    [0x82F63B78, 0x417B1DBC, 0x20BD8EDE, 0x105EC76F, 0x8AD958CF, 0xC79A971F, 0xE13B70F7, 0xF26B8303]"
  by (simp add: crc_eval)

lemma T8_0_table: "T8_0 = table_for 8"
  by (simp add: table_for_span basis_0 T8_0_def)

lemma basis_1: "basis 16 8 =
    [0xFBC3FAF9, 0xFF17C604, 0x7F8BE302, 0x3FC5F181, 0x9D14C3B8, 0x4E8A61DC, 0x274530EE, 0x13A29877]"
  by (simp add: crc_eval)

lemma T8_1_table: "T8_1 = table_for 16"
  by (simp add: table_for_span basis_1 T8_1_def)

lemma basis_2: "basis 24 8 =
    [0x8B277743, 0xC76580D9, 0xE144FB14, 0x70A27D8A, 0x38513EC5, 0x9EDEA41A, 0x4F6F520D, 0xA541927E]"
  by (simp add: crc_eval)

lemma T8_2_table: "T8_2 = table_for 24"
  by (simp add: table_for_span basis_2 T8_2_def)

lemma basis_3: "basis 32 8 =
    [0x52A0C93F, 0xABA65FE7, 0xD725148B, 0xE964B13D, 0xF64463E6, 0x7B2231F3, 0xBF672381, 0xDD45AAB8]"
  by (simp add: crc_eval)

lemma T8_3_table: "T8_3 = table_for 32"
  by (simp add: table_for_span basis_3 T8_3_def)

lemma basis_4: "basis 40 8 =
    [0x6EA2D55C, 0x37516AAE, 0x1BA8B557, 0x8F2261D3, 0xC5670B91, 0xE045BEB0, 0x7022DF58, 0x38116FAC]"
  by (simp add: crc_eval)

lemma T8_4_table: "T8_4 = table_for 40"
  by (simp add: table_for_span basis_4 T8_4_def)

lemma basis_5: "basis 48 8 =
    [0x1C08B7D6, 0x0E045BEB, 0x85F4168D, 0xC00C303E, 0x6006181F, 0xB2F53777, 0xDB8CA0C3, 0xEF306B19]"
  by (simp add: crc_eval)

lemma T8_5_table: "T8_5 = table_for 48"
  by (simp add: table_for_span basis_5 T8_5_def)

lemma basis_6: "basis 56 8 =
    [0xF56E0EF4, 0x7AB7077A, 0x3D5B83BD, 0x9C5BFAA6, 0x4E2DFD53, 0xA5E0C5D1, 0xD0065990, 0x68032CC8]"
  by (simp add: crc_eval)

lemma T8_6_table: "T8_6 = table_for 56"
  by (simp add: table_for_span basis_6 T8_6_def)

lemma basis_7: "basis 64 8 =
    [0x34019664, 0x1A00CB32, 0x0D006599, 0x847609B4, 0x423B04DA, 0x211D826D, 0x9278FA4E, 0x493C7D27]"
  by (simp add: crc_eval)

lemma T8_7_table: "T8_7 = table_for 64"
  by (simp add: table_for_span basis_7 T8_7_def)

lemmas T8_table = T8_0_table T8_1_table T8_2_table T8_3_table
  T8_4_table T8_5_table T8_6_table T8_7_table

lemma tab_table_for: "tab (table_for n) c = crc_steps n (c AND 0xff)"
proof -
  have "unat (c AND 0xff) < 256"
    using take_bit_nat_less_exp [of 8 "unat c"] by (simp add: mask_ff unsigned_take_bit_eq)
  then show ?thesis
    by (simp add: tab_def table_for_def)
qed

section \<open>The slicing loop computes the bit-serial CRC\<close>

lemma bit_byte_low: "n < 32 \<Longrightarrow> n < 8 \<and> bit b (min 7 n) \<longleftrightarrow> bit b n" for b :: byte
  by (cases "n = 7") (auto simp: min_def dest: bit_imp_le_length)

lemma ucast_byte_mask: "(scast (b :: byte) XOR c) AND 0xff = ucast b XOR (c AND 0xff)" for c :: jint
  by (rule bit_word_eqI)
     (use bit_byte_low in \<open>auto simp: mask_ff bit_take_bit_iff bit_xor_iff bit_signed_iff bit_unsigned_iff\<close>)

lemma scast_byte_mask: "(scast (b :: byte) :: jint) AND 0xff = ucast b"
  using ucast_byte_mask [of b 0] by simp

lemma tab_xor: "tab (table_for n) (scast b XOR c) = crc_steps n (ucast (b :: byte)) XOR crc_steps n (c AND 0xff)"
  by (simp add: tab_table_for ucast_byte_mask crc_steps_xor)

lemma tab_byte: "tab (table_for n) (scast b) = crc_steps n (ucast (b :: byte))"
  by (simp add: tab_table_for scast_byte_mask)

lemma byte_step: "drop_bit 8 c XOR tab T8_0 (c XOR scast b) = crc_byte c b"
proof -
  have "crc_steps 8 c = crc_steps 8 (c AND 0xff) XOR drop_bit 8 c"
    using crc_steps_byte [of 0 c] by (simp add: crc_steps_zero_steps)
  then show ?thesis
    using tab_xor [of 8 b c] by (simp add: crc_byte_def crc_steps_xor T8_0_table xor.commute
        xor.left_commute)
qed

text \<open>Eight bytes at once: the register's four bytes leave through the upper tables.\<close>

lemma crc_steps_64: "crc_steps 64 c =
    crc_steps 64 (c AND 0xff) XOR (crc_steps 56 (drop_bit 8 c AND 0xff) XOR
    (crc_steps 48 (drop_bit 16 c AND 0xff) XOR crc_steps 40 (drop_bit 24 c AND 0xff)))"
proof -
  have "crc_steps 64 c = crc_steps 64 (c AND 0xff) XOR crc_steps 56 (drop_bit 8 c)"
    using crc_steps_byte [of 56 c] by simp
  also have "crc_steps 56 (drop_bit 8 c)
      = crc_steps 56 (drop_bit 8 c AND 0xff) XOR crc_steps 48 (drop_bit 16 c)"
    using crc_steps_byte [of 48 "drop_bit 8 c"] by (simp add: drop_bit_drop_bit)
  also have "crc_steps 48 (drop_bit 16 c)
      = crc_steps 48 (drop_bit 16 c AND 0xff) XOR crc_steps 40 (drop_bit 24 c)"
    using crc_steps_byte [of 40 "drop_bit 16 c"] by (simp add: drop_bit_drop_bit)
  also have "crc_steps 40 (drop_bit 24 c) = crc_steps 40 (drop_bit 24 c AND 0xff)"
  proof -
    have "drop_bit 24 c = drop_bit 24 c AND 0xff"
      by (rule bit_word_eqI)
         (auto simp: mask_ff bit_take_bit_iff bit_drop_bit_eq dest: bit_imp_le_length)
    then show ?thesis by simp
  qed
  finally show ?thesis .
qed

lemma eight_bytes: "foldl crc_byte c [b0, b1, b2, b3, b4, b5, b6, b7] =
    crc_steps 64 c XOR (crc_steps 64 (ucast b0) XOR (crc_steps 56 (ucast b1) XOR
    (crc_steps 48 (ucast b2) XOR (crc_steps 40 (ucast b3) XOR (crc_steps 32 (ucast b4) XOR
    (crc_steps 24 (ucast b5) XOR (crc_steps 16 (ucast b6) XOR crc_steps 8 (ucast b7))))))))"
  by (simp add: crc_byte_def crc_steps_xor crc_steps_add xor.assoc)

lemma xor_regroup: "((((a XOR p) XOR (b XOR q)) XOR ((c XOR r) XOR (d XOR s))) XOR ((e XOR f) XOR (g XOR h)))
    = (p XOR (q XOR (r XOR s))) XOR (a XOR (b XOR (c XOR (d XOR (e XOR (f XOR (g XOR h)))))))" for a :: jint
  by (rule bit_word_eqI) (simp add: bit_xor_iff, argo)

lemma array_get_in: "in_range off n (length b) \<Longrightarrow> 0 \<le> k \<Longrightarrow> k < n \<Longrightarrow>
    array_get b (off + k) = Inr (segment off n b ! nat k)"
  by (auto simp: in_range_def array_get_def segment_def nat_add_distrib)

lemma crc_round_ok:
  assumes "in_range off 8 (length b)"
  shows "crc_round b off c = Inr (crc_bytes c (segment off 8 b))"
proof -
  let ?s = "segment off 8 b"
  have len: "length ?s = 8" using assms by (simp add: segment_simps)
  have s: "?s = [?s ! 0, ?s ! 1, ?s ! 2, ?s ! 3, ?s ! 4, ?s ! 5, ?s ! 6, ?s ! 7]"
    using len by (intro nth_equalityI) (auto simp: less_Suc_eq numeral_eq_Suc)
  have g: "array_get b off = Inr (?s ! 0)" "array_get b (off + 1) = Inr (?s ! 1)"
    "array_get b (off + 2) = Inr (?s ! 2)" "array_get b (off + 3) = Inr (?s ! 3)"
    "array_get b (off + 4) = Inr (?s ! 4)" "array_get b (off + 5) = Inr (?s ! 5)"
    "array_get b (off + 6) = Inr (?s ! 6)" "array_get b (off + 7) = Inr (?s ! 7)"
    using array_get_in [OF assms, of 0] array_get_in [OF assms, of 1]
      array_get_in [OF assms, of 2] array_get_in [OF assms, of 3]
      array_get_in [OF assms, of 4] array_get_in [OF assms, of 5]
      array_get_in [OF assms, of 6] array_get_in [OF assms, of 7] by simp_all
  have run: "crc_bytes c ?s =
      foldl crc_byte c [?s ! 0, ?s ! 1, ?s ! 2, ?s ! 3, ?s ! 4, ?s ! 5, ?s ! 6, ?s ! 7]"
    using s unfolding crc_bytes_def by (rule arg_cong)
  have "crc_round b off c = Inr (
      ((tab T8_7 (scast (?s ! 0) XOR c) XOR tab T8_6 (scast (?s ! 1) XOR drop_bit 8 c)) XOR
      (tab T8_5 (scast (?s ! 2) XOR drop_bit 16 c) XOR tab T8_4 (scast (?s ! 3) XOR drop_bit 24 c))) XOR
      ((tab T8_3 (scast (?s ! 4)) XOR tab T8_2 (scast (?s ! 5))) XOR
       (tab T8_1 (scast (?s ! 6)) XOR tab T8_0 (scast (?s ! 7)))))"
    by (simp add: crc_round_def g drop_bit_drop_bit)
  also have "\<dots> = Inr (crc_bytes c ?s)"
    unfolding run eight_bytes crc_steps_64 [of c] T8_table tab_xor tab_byte
    by (simp only: xor_regroup)
  finally show ?thesis .
qed

lemma crc_bytes_append: "crc_bytes c (xs @ ys) = crc_bytes (crc_bytes c xs) ys"
  by (simp add: crc_bytes_def)

lemma segment_Cons: "in_range off len (length b) \<Longrightarrow> 0 < len \<Longrightarrow>
    segment off len b = b ! nat off # segment (off + 1) (len - 1) b"
proof -
  assume a: "in_range off len (length b)" "0 < len"
  then have n: "nat off < length b" by (auto simp: in_range_def)
  have "nat len = Suc (nat (len - 1))" "nat (off + 1) = Suc (nat off)"
    using a by (auto simp: in_range_def)
  then show ?thesis
    using Cons_nth_drop_Suc [OF n, symmetric] by (simp add: segment_def)
qed

lemma crc_loop1_ok:
  "in_range off len (length b) \<Longrightarrow> crc_loop1 b off len c = Inr (crc_bytes c (segment off len b))"
proof (induction b off len c rule: crc_loop1.induct)
  case (1 b off len c)
  show ?case
  proof (cases "len > 0")
    case True
    have g: "array_get b off = Inr (b ! nat off)"
      using "1.prems" True by (auto simp: array_get_def in_range_def)
    have r: "in_range (off + 1) (len - 1) (length b)"
      using "1.prems" True by (auto simp: in_range_def)
    have "crc_loop1 b off len c = crc_loop1 b (off + 1) (len - 1) (crc_byte c (b ! nat off))"
      using True by (simp add: crc_loop1.simps [of b off len c] g byte_step)
    also have "\<dots> = Inr (crc_bytes (crc_byte c (b ! nat off)) (segment (off + 1) (len - 1) b))"
      using "1.IH" [OF True g r] by (simp add: byte_step)
    finally show ?thesis
      using segment_Cons [OF "1.prems" True] by (simp add: crc_bytes_def)
  next
    case False
    then have "len = 0" using "1.prems" by (simp add: in_range_def)
    then show ?thesis by (simp add: crc_loop1.simps crc_bytes_def)
  qed
qed

lemma crc_loop8_ok:
  "in_range off len (length b) \<Longrightarrow> crc_loop8 b off len c = Inr (crc_bytes c (segment off len b))"
proof (induction b off len c rule: crc_loop8.induct)
  case (1 b off len c)
  show ?case
  proof (cases "len > 7")
    case True
    have r8: "in_range off 8 (length b)" and r: "in_range (off + 8) (len - 8) (length b)"
      using "1.prems" True by (auto simp: in_range_def)
    have "0 \<le> off" using r8 by (simp add: in_range_def)
    then have "segment off 8 b @ segment (off + 8) (len - 8) b = segment off len b"
      using segment_append_segment [of off 8 "len - 8" b] True by simp
    then show ?thesis
      using True "1.IH" [OF True _ r] crc_round_ok [OF r8, of c]
      by (simp add: crc_loop8.simps [of b off len c] flip: crc_bytes_append)
  next
    case False
    then show ?thesis using crc_loop1_ok [OF "1.prems"] by (simp add: crc_loop8.simps)
  qed
qed

section \<open>Ranges outside the array\<close>

lemma array_get_err: "array_get b i = Inl e \<Longrightarrow> e = IndexOutOfBoundsException"
  by (simp add: array_get_def split: if_splits)

lemma array_get_okD: "array_get b i = Inr x \<Longrightarrow> 0 \<le> i \<and> i < int (length b)"
  by (simp add: array_get_def split: if_splits)

lemma crc_round_err: "crc_round b off c = Inl e \<Longrightarrow> e = IndexOutOfBoundsException"
  by (auto simp: crc_round_def Let_def result_simps dest: array_get_err)

lemma crc_round_okD: "crc_round b off c = Inr x \<Longrightarrow> in_range off 8 (length b)"
  by (auto simp: crc_round_def Let_def result_simps in_range_def dest!: array_get_okD)

lemma crc_loop1_err:
  "0 < len \<Longrightarrow> \<not> in_range off len (length b) \<Longrightarrow>
   crc_loop1 b off len c = Inl IndexOutOfBoundsException"
proof (induction b off len c rule: crc_loop1.induct)
  case (1 b off len c)
  show ?case
  proof (cases "array_get b off")
    case (Inl e)
    then show ?thesis
      using "1.prems" array_get_err [OF Inl] by (simp add: crc_loop1.simps [of b off len c])
  next
    case (Inr x)
    then have "0 < len - 1 \<and> \<not> in_range (off + 1) (len - 1) (length b)"
      using "1.prems" array_get_okD [OF Inr] by (auto simp: in_range_def)
    then show ?thesis
      using "1.IH" [OF _ Inr] "1.prems" Inr by (simp add: crc_loop1.simps [of b off len c])
  qed
qed

lemma crc_loop8_err:
  "0 < len \<Longrightarrow> \<not> in_range off len (length b) \<Longrightarrow>
   crc_loop8 b off len c = Inl IndexOutOfBoundsException"
proof (induction b off len c rule: crc_loop8.induct)
  case (1 b off len c)
  show ?case
  proof (cases "len > 7")
    case True
    show ?thesis
    proof (cases "crc_round b off c")
      case (Inl e)
      then show ?thesis
        using True crc_round_err [OF Inl] by (simp add: crc_loop8.simps [of b off len c])
    next
      case (Inr x)
      then have "0 < len - 8 \<and> \<not> in_range (off + 8) (len - 8) (length b)"
        using "1.prems" True crc_round_okD [OF Inr] by (auto simp: in_range_def)
      then show ?thesis
        using "1.IH" [OF True Inr] True Inr by (simp add: crc_loop8.simps [of b off len c])
    qed
  next
    case False
    then show ?thesis using crc_loop1_err [OF "1.prems"] by (simp add: crc_loop8.simps)
  qed
qed

lemma crc_update_in_range:
  "in_range off len (length b) \<Longrightarrow>
   crc_update_bytes b off len o' = (Inr (), o'\<lparr>crc := crc_bytes (crc o') (segment off len b)\<rparr>)"
  by (simp add: crc_update_bytes_def crc_loop8_ok)

lemma getValue_ucast: "getValue o' = ucast (NOT (crc o'))"
proof -
  have m: "(0xffffffff :: 64 word) = mask 32"
    by (simp add: mask_eq_exp_minus_1)
  have w: "take_bit 32 (scast w :: 64 word) = ucast w" for w :: jint
  proof (rule bit_word_eqI)
    fix n
    show "bit (take_bit 32 (scast w :: 64 word)) n = bit (ucast w :: 64 word) n"
      if "n < LENGTH(64)"
      using that by (cases "n = 31")
        (auto simp: bit_take_bit_iff bit_signed_iff bit_unsigned_iff min_def dest: bit_imp_le_length)
  qed
  show ?thesis by (simp only: getValue_def m w flip: take_bit_eq_mask)
qed

lemma crc_update_session:
  assumes "in_range off len (length b)"
  shows "\<exists>o''. crc_update_bytes b off len (crc_reset o') = (Inr (), o'')
           \<and> getValue o'' = ucast (crc32c (segment off len b))"
  using assms by (simp add: crc_update_in_range getValue_ucast crc32c_def crc_reset_def)

section \<open>Properties\<close>

text \<open>
  C10: The slicing-by-eight \<open>update\<close> of \<open>PureJavaCrc32C\<close>, run on a freshly reset object over any
  range inside the array, leaves \<open>getValue\<close> equal to the bit-serial CRC-32C of the bytes of
  that range, as a non-negative 64-bit value.
\<close>

theorem crc_update_is_crc32c:
  assumes "in_range off len (length b)"
  shows "\<exists>o''. crc_update_bytes b off len (crc_reset o') = (Inr (), o'')
           \<and> getValue o'' = ucast (crc32c (segment off len b))"
  using crc_update_session [OF assms] .

definition check_input :: bytes where
  "check_input = [0x31, 0x32, 0x33, 0x34, 0x35, 0x36, 0x37, 0x38, 0x39]"

lemma crc_steps_2: "crc_bytes c (x # xs) = crc_bytes (crc_steps 8 (c XOR ucast x)) xs"
  by (simp add: crc_bytes_def crc_byte_def)

lemma crc32c_check_value: "crc32c check_input = 0xE3069283"
  by (simp add: crc32c_def check_input_def crc_steps_2 crc_eval) (simp add: crc_bytes_def)

theorem crc_update_is_crc32c_witness:
  "\<exists>o''. crc_update_bytes check_input 0 9 (crc_reset new_crc) = (Inr (), o'')
     \<and> getValue o'' = 0xE3069283"
proof -
  have r: "in_range 0 9 (length check_input)" by (simp add: in_range_def check_input_def)
  have s: "segment 0 9 check_input = check_input" by (simp add: check_input_def segment_def)
  show ?thesis
    using crc_update_is_crc32c [OF r, of new_crc]
    by (simp add: s crc32c_check_value del: segment_0)
qed

text \<open>
  The eight lookup tables are exactly those of the polynomial: entry \<open>i\<close> of \<open>T8_k\<close> is the
  register after \<open>8 * (k + 1)\<close> bit-serial steps from \<open>i\<close>, for all 2048 entries.
\<close>

theorem crc_tables_correct:
  "[T8_0, T8_1, T8_2, T8_3, T8_4, T8_5, T8_6, T8_7] = map (\<lambda>k. table_for (8 * (k + 1))) [0..<8]"
  by (simp add: T8_table upt_rec)

text \<open>
  \<open>update\<close> composes: two calls over adjacent ranges leave the same register as one call
  over both, and a call over a single byte leaves the same register as \<open>update(int)\<close>.
\<close>

theorem crc_update_composes:
  assumes "in_range off (m + n) (length b)" and "0 \<le> m" and "0 \<le> n"
  shows "bindS (crc_update_bytes b off m) (\<lambda>_. crc_update_bytes b (off + m) n) o'
           = crc_update_bytes b off (m + n) o'
       \<and> (m = 1 \<longrightarrow> snd (crc_update_bytes b off m o') = crc_update_byte (scast (b ! nat off)) o')"
proof -
  have r: "in_range off m (length b)" "in_range (off + m) n (length b)"
    and p: "0 \<le> off"
    using assms by (auto simp: in_range_def)
  have byte: "m = 1 \<Longrightarrow> segment off m b = [b ! nat off]"
    using segment_Cons [OF r(1)] by simp
  have "bindS (crc_update_bytes b off m) (\<lambda>_. crc_update_bytes b (off + m) n) o'
      = crc_update_bytes b off (m + n) o'"
    by (simp add: bindS_def crc_update_in_range r assms(1) crc_bytes_append
        flip: segment_append_segment [OF p assms(2,3)])
  moreover have "snd (crc_update_bytes b off m o') = crc_update_byte (scast (b ! nat off)) o'"
    if "m = 1"
    using byte [OF that] by (simp add: crc_update_in_range r(1) crc_update_byte_def byte_step crc_bytes_def)
  ultimately show ?thesis by blast
qed

theorem crc_update_composes_witness:
  "bindS (crc_update_bytes check_input 0 1) (\<lambda>_. crc_update_bytes check_input 1 8) new_crc
     = crc_update_bytes check_input 0 9 new_crc
   \<and> snd (crc_update_bytes check_input 0 1 new_crc) = crc_update_byte (scast (check_input ! 0)) new_crc"
proof -
  have "in_range 0 (1 + 8) (length check_input)" by (simp add: in_range_def check_input_def)
  from crc_update_composes [OF this, of new_crc] show ?thesis by simp
qed

text \<open>
  A non-empty range that leaves the array makes \<open>update\<close> throw, and the object's register
  is left as it was: a failed update publishes nothing.
\<close>

theorem crc_update_out_of_range:
  assumes "0 < len" and "\<not> in_range off len (length b)"
  shows "crc_update_bytes b off len o' = (Inl IndexOutOfBoundsException, o')"
  by (simp add: crc_update_bytes_def crc_loop8_err [OF assms])

theorem crc_update_out_of_range_witness:
  "crc_update_bytes check_input 0 10 new_crc = (Inl IndexOutOfBoundsException, new_crc)"
  by (rule crc_update_out_of_range) (simp_all add: in_range_def check_input_def)

end
