(* ===== verification/Jni_Types.thy ===== *)
theory Jni_Types
  imports Base
begin

text \<open>
  The vocabulary of \<open>lib/inc_*/jni.h\<close>, the header the native sources are compiled against on
  each platform: the C types, the slots of the function table \<open>JNINativeInterface_\<close>, the
  inline C++ methods of \<open>JNIEnv_\<close> and how they run, and the machine-dependent typedefs of
  \<open>jni_md.h\<close>. The table and the methods of each header are in the theories \<open>Jni_Linux\<close>,
  \<open>Jni_Mac\<close> and \<open>Jni_Win\<close>; what they have in common is proved in \<open>Jni_Interface\<close>.
\<close>

section \<open>C types and function prototypes\<close>

datatype ctype =
    CVoid | CChar | VaList
  | Jboolean | Jbyte | Jchar | Jshort | Jint | Jlong | Jfloat | Jdouble | Jsize
  | Jobject | Jclass | Jthrowable | Jstring | Jweak
  | Jarray | JbooleanArray | JbyteArray | JcharArray | JshortArray | JintArray
  | JlongArray | JfloatArray | JdoubleArray | JobjectArray
  | Jvalue | JfieldID | JmethodID | JobjectRefType | JNINativeMethod | JNIEnv | JavaVM | JavaVMOption
  | Ptr ctype | Const ctype

type_synonym param = "ctype \<times> string"

text \<open>
  An entry of the function table: a reserved pointer, or a function pointer with its return
  type, its parameters and whether it takes \<open>...\<close> after them.
\<close>

datatype slot =
    Reserved (slot_name: string)
  | Slot (slot_name: string) (slot_ret: ctype) (slot_params: "param list") (slot_variadic: bool)

section \<open>Inline C++ methods\<close>

text \<open>\<open>Fn f as\<close> is the call \<open>functions->f(this, as)\<close> through the table.\<close>

datatype call = Fn string "string list"

datatype stmt =
    DeclVaList string           \<comment> \<open>\<open>va_list args;\<close>\<close>
  | DeclVar ctype string        \<comment> \<open>\<open>jobject result;\<close>\<close>
  | VaStart string string       \<comment> \<open>\<open>va_start(args, methodID);\<close>\<close>
  | Assign string call          \<comment> \<open>\<open>result = functions->f(this, ...);\<close>\<close>
  | Do call                     \<comment> \<open>\<open>functions->f(this, ...);\<close>\<close>
  | Return call                 \<comment> \<open>\<open>return functions->f(this, ...);\<close>\<close>
  | VaEnd string                \<comment> \<open>\<open>va_end(args);\<close>\<close>
  | ReturnVar string            \<comment> \<open>\<open>return result;\<close>\<close>

datatype cxx_method =
  Method (m_name: string) (m_ret: ctype) (m_params: "param list") (m_variadic: bool)
    (m_body: "stmt list")

text \<open>
  Running a method. A variable holds an argument value, the \<open>va_list\<close> of the variadic
  arguments once it is started, or nothing yet. The table is a function from slot names;
  its first argument is \<open>this\<close>. \<open>None\<close> is undefined behaviour: an unbound or uninitialised
  variable, \<open>va_start\<close> on anything but the last named parameter, \<open>va_end\<close> without
  \<open>va_start\<close>, or leaving the method with a started \<open>va_list\<close>.
\<close>

datatype 'v cval = This | Val 'v | Va "'v list" | Uninit

type_synonym ('v, 's) vtable = "string \<Rightarrow> 'v cval list \<Rightarrow> 's \<Rightarrow> 'v \<times> 's"

fun read_vars :: "(string \<rightharpoonup> 'v cval) \<Rightarrow> string list \<Rightarrow> 'v cval list option" where
  "read_vars env [] = Some []"
| "read_vars env (x # xs) =
     (case env x of
        None \<Rightarrow> None
      | Some Uninit \<Rightarrow> None
      | Some v \<Rightarrow> map_option (\<lambda>vs. v # vs) (read_vars env xs))"

fun run_call :: "('v, 's) vtable \<Rightarrow> (string \<rightharpoonup> 'v cval) \<Rightarrow> call \<Rightarrow> 's \<Rightarrow> ('v \<times> 's) option" where
  "run_call tbl env (Fn f as) s = map_option (\<lambda>vs. tbl f (This # vs) s) (read_vars env as)"

fun run_stmts :: "('v, 's) vtable \<Rightarrow> string \<Rightarrow> 'v list \<Rightarrow> bool \<Rightarrow> (string \<rightharpoonup> 'v cval) \<Rightarrow> stmt list \<Rightarrow> 's
    \<Rightarrow> ('v option \<times> 's) option" where
  "run_stmts tbl lastp extra started env [] s = (if started then None else Some (None, s))"
| "run_stmts tbl lastp extra started env (DeclVaList x # ps) s =
     run_stmts tbl lastp extra started (env(x \<mapsto> Uninit)) ps s"
| "run_stmts tbl lastp extra started env (DeclVar t x # ps) s =
     run_stmts tbl lastp extra started (env(x \<mapsto> Uninit)) ps s"
| "run_stmts tbl lastp extra started env (VaStart x p # ps) s =
     (if p = lastp \<and> \<not> started then run_stmts tbl lastp extra True (env(x \<mapsto> Va extra)) ps s else None)"
| "run_stmts tbl lastp extra started env (Assign x c # ps) s =
     (case run_call tbl env c s of
        None \<Rightarrow> None
      | Some (v, s') \<Rightarrow> run_stmts tbl lastp extra started (env(x \<mapsto> Val v)) ps s')"
| "run_stmts tbl lastp extra started env (Do c # ps) s =
     (case run_call tbl env c s of
        None \<Rightarrow> None
      | Some (v, s') \<Rightarrow> run_stmts tbl lastp extra started env ps s')"
| "run_stmts tbl lastp extra started env (Return c # ps) s =
     (if started then None
      else case run_call tbl env c s of None \<Rightarrow> None | Some (v, s') \<Rightarrow> Some (Some v, s'))"
| "run_stmts tbl lastp extra started env (VaEnd x # ps) s =
     (if started \<and> env x = Some (Va extra)
      then run_stmts tbl lastp extra False (env(x \<mapsto> Uninit)) ps s else None)"
| "run_stmts tbl lastp extra started env (ReturnVar x # ps) s =
     (if started then None
      else case env x of Some (Val v) \<Rightarrow> Some (Some v, s) | _ \<Rightarrow> None)"

definition run_method :: "('v, 's) vtable \<Rightarrow> cxx_method \<Rightarrow> 'v list \<Rightarrow> 'v list \<Rightarrow> 's \<Rightarrow> ('v option \<times> 's) option" where
  "run_method tbl m actuals extra s =
     run_stmts tbl (if m_params m = [] then [] else snd (last (m_params m))) extra False
       (map_of (zip (map snd (m_params m)) (map Val actuals))) (m_body m) s"

section \<open>The forwarding pattern\<close>

text \<open>
  What an inline method is for: it calls one slot, with \<open>this\<close> (a \<open>JNIEnv *\<close> or a \<open>JavaVM *\<close>) and
  its own parameters in order, and returns what the slot returns. A variadic method calls the \<open>V\<close> variant of its
  slot with the packed \<open>va_list\<close>.
\<close>

definition dispatch_target :: "cxx_method \<Rightarrow> string" where
  "dispatch_target m = (if m_variadic m then m_name m @ ''V'' else m_name m)"

definition forwarding_body :: "cxx_method \<Rightarrow> stmt list" where
  "forwarding_body m =
     (let ps = map snd (m_params m); t = dispatch_target m in
      if m_variadic m then
        (if m_ret m = CVoid
         then [DeclVaList ''args'', VaStart ''args'' (last ps), Do (Fn t (ps @ [''args''])), VaEnd ''args'']
         else [DeclVaList ''args'', DeclVar (m_ret m) ''result'', VaStart ''args'' (last ps),
               Assign ''result'' (Fn t (ps @ [''args''])), VaEnd ''args'', ReturnVar ''result''])
      else if m_ret m = CVoid then [Do (Fn t ps)]
      else [Return (Fn t ps)])"

definition well_formed :: "cxx_method \<Rightarrow> bool" where
  "well_formed m \<longleftrightarrow> m_body m = forwarding_body m \<and> distinct (map snd (m_params m)) \<and>
     (m_variadic m \<longrightarrow> m_params m \<noteq> [] \<and> ''args'' \<notin> set (map snd (m_params m)) \<and>
        ''result'' \<notin> set (map snd (m_params m)))"

definition accepts :: "ctype \<Rightarrow> slot \<Rightarrow> cxx_method \<Rightarrow> bool" where
  "accepts self sl m \<longleftrightarrow> (case sl of
      Reserved _ \<Rightarrow> False
    | Slot n r ps v \<Rightarrow> n = dispatch_target m \<and> r = m_ret m \<and> \<not> v \<and>
        map fst ps = Ptr self # map fst (m_params m) @ (if m_variadic m then [VaList] else []))"

definition declares :: "ctype \<Rightarrow> slot \<Rightarrow> cxx_method \<Rightarrow> bool" where
  "declares self sl m \<longleftrightarrow> (case sl of
      Reserved _ \<Rightarrow> False
    | Slot n r ps v \<Rightarrow> n = m_name m \<and> r = m_ret m \<and> v = m_variadic m \<and>
        map fst ps = Ptr self # map fst (m_params m))"

text \<open>
  \<open>self\<close> is the type of the object whose methods are checked.
  The methods of a class checked against the slots of its table, position by position; a
  variadic method is checked against the slot after its own, its \<open>V\<close> variant.
\<close>

fun matches :: "ctype \<Rightarrow> cxx_method list \<Rightarrow> slot list \<Rightarrow> bool" where
  "matches self [] ss = (ss = [])"
| "matches self (m # ms) [] = False"
| "matches self (m # ms) (sl # ss) =
     (well_formed m \<and> declares self sl m \<and>
      (if m_variadic m then (case ss of [] \<Rightarrow> False | v # _ \<Rightarrow> accepts self v m)
       else accepts self sl m) \<and>
      matches self ms ss)"

lemma matches_append:
  "matches self ms ss \<Longrightarrow> matches self ms' ss' \<Longrightarrow> matches self (ms @ ms') (ss @ ss')"
  by (induction self ms ss rule: matches.induct) (auto split: list.splits if_splits)

lemma matches_target:
  "matches self ms ss \<Longrightarrow> m \<in> set ms \<Longrightarrow> well_formed m \<and> (\<exists>sl \<in> set ss. accepts self sl m)"
  by (induction self ms ss rule: matches.induct) (auto split: list.splits if_splits)

lemmas forwarding_simps = well_formed_def declares_def accepts_def forwarding_body_def dispatch_target_def

section \<open>A well-formed method forwards\<close>

lemma read_vars_params:
  assumes "distinct ps" and "length vs = length ps"
    and "\<And>x v. map_of (zip ps (map Val vs)) x = Some v \<Longrightarrow> env x = Some v"
  shows "read_vars env (ps @ qs) = map_option (\<lambda>ws. map Val vs @ ws) (read_vars env qs)"
  using assms
proof (induction ps arbitrary: vs)
  case Nil
  then show ?case by (simp add: option.map_ident)
next
  case (Cons p ps)
  then obtain v vs' where vs: "vs = v # vs'" by (cases vs) auto
  have e: "env p = Some (Val v)" using Cons.prems(3) by (simp add: vs)
  have IH: "read_vars env (ps @ qs) = map_option (\<lambda>ws. map Val vs' @ ws) (read_vars env qs)"
  proof (rule Cons.IH)
    show "distinct ps" "length vs' = length ps" using Cons.prems by (simp_all add: vs)
    fix x w
    assume a: "map_of (zip ps (map Val vs')) x = Some w"
    then have "x \<in> set ps" by (metis map_of_SomeD set_zip_leftD)
    then have "x \<noteq> p" using Cons.prems(1) by auto
    with a show "env x = Some w" using Cons.prems(3) by (simp add: vs)
  qed
  show ?case by (simp add: e IH vs option.map_comp comp_def)
qed

text \<open>What a forwarding method returns: the slot's result, or nothing for a \<open>void\<close> method.\<close>

definition forwarded :: "('v, 's) vtable \<Rightarrow> cxx_method \<Rightarrow> 'v list \<Rightarrow> 'v list \<Rightarrow> 's \<Rightarrow> 'v option \<times> 's" where
  "forwarded tbl m actuals extra s =
     (case tbl (dispatch_target m)
         (This # map Val actuals @ (if m_variadic m then [Va extra] else [])) s of
        (v, s') \<Rightarrow> (if m_ret m = CVoid then None else Some v, s'))"

lemma well_formed_forwards:
  assumes wf: "well_formed m" and len: "length actuals = length (m_params m)"
  shows "run_method tbl m actuals extra s = Some (forwarded tbl m actuals extra s)"
proof -
  let ?ps = "map snd (m_params m)"
  let ?env = "map_of (zip ?ps (map Val actuals))"
  have body: "m_body m = forwarding_body m" and d: "distinct ?ps"
    using wf by (auto simp: well_formed_def)
  have l: "length actuals = length ?ps" using len by simp
  show ?thesis
  proof (cases "m_variadic m")
    case True
    then have ne: "m_params m \<noteq> []" and a: "''args'' \<notin> set ?ps" and r: "''result'' \<notin> set ?ps"
      using wf by (auto simp: well_formed_def)
    have la: "last ?ps = snd (last (m_params m))" using ne by (simp add: last_map)
    have dom: "x \<in> set ?ps" if "?env x = Some v" for x v
      using that by (metis map_of_SomeD set_zip_leftD)
    have 1: "read_vars (?env(''args'' \<mapsto> Va extra)) (?ps @ [''args'']) = Some (map Val actuals @ [Va extra])"
      using read_vars_params [OF d l, of "?env(''args'' \<mapsto> Va extra)" "[''args'']"] a dom by fastforce
    have 2: "read_vars (?env(''args'' \<mapsto> Va extra, ''result'' \<mapsto> Uninit)) (?ps @ [''args''])
        = Some (map Val actuals @ [Va extra])"
      using read_vars_params [OF d l, of "?env(''args'' \<mapsto> Va extra, ''result'' \<mapsto> Uninit)" "[''args'']"]
        a r dom by fastforce
    have 3: "?env(''args'' \<mapsto> Uninit, ''result'' \<mapsto> Uninit, ''args'' \<mapsto> Va extra)
        = ?env(''args'' \<mapsto> Va extra, ''result'' \<mapsto> Uninit)"
      by (rule ext) auto
    show ?thesis
      using True ne
      by (simp add: run_method_def body forwarding_body_def Let_def la 1 2 3 forwarded_def
          split: prod.splits)
  next
    case False
    have "read_vars ?env (?ps @ []) = Some (map Val actuals)"
      using read_vars_params [OF d l, of ?env "[]"] by simp
    then have 1: "read_vars ?env ?ps = Some (map Val actuals)" by simp
    show ?thesis
      using False 1 len by (cases "m_params m = []")
        (simp_all add: run_method_def body forwarding_body_def forwarded_def split: prod.splits)
  qed
qed

end
