(* ===== verification/Jni_Win.thy ===== *)
theory Jni_Win
  imports Jni_Types
begin

text \<open>
  \<open>lib/inc_win/jni.h\<close>, the header of the Windows builds for x86 and x86_64: its function table
  and the inline methods of \<open>JNIEnv_\<close>.
\<close>

section \<open>The function table\<close>

definition win_slots_reserved :: "slot list" where
  "win_slots_reserved = [Reserved ''reserved0'', Reserved ''reserved1'', Reserved ''reserved2'', Reserved
    ''reserved3'']"

definition win_slots_core :: "slot list" where
  "win_slots_core = [
     Slot ''GetVersion'' Jint [(Ptr JNIEnv, ''env'')] False,
     Slot ''DefineClass'' Jclass [(Ptr JNIEnv, ''env''), (Ptr (Const CChar), ''name''),
       (Jobject, ''loader''), (Ptr (Const Jbyte), ''buf''), (Jsize, ''len'')] False,
     Slot ''FindClass'' Jclass [(Ptr JNIEnv, ''env''), (Ptr (Const CChar), ''name'')] False,
     Slot ''FromReflectedMethod'' JmethodID [(Ptr JNIEnv, ''env''), (Jobject, ''method'')] False,
     Slot ''FromReflectedField'' JfieldID [(Ptr JNIEnv, ''env''), (Jobject, ''field'')] False,
     Slot ''ToReflectedMethod'' Jobject [(Ptr JNIEnv, ''env''), (Jclass, ''cls''),
       (JmethodID, ''methodID''), (Jboolean, ''isStatic'')] False,
     Slot ''GetSuperclass'' Jclass [(Ptr JNIEnv, ''env''), (Jclass, ''sub'')] False,
     Slot ''IsAssignableFrom'' Jboolean [(Ptr JNIEnv, ''env''), (Jclass, ''sub''), (Jclass, ''sup'')] False,
     Slot ''ToReflectedField'' Jobject [(Ptr JNIEnv, ''env''), (Jclass, ''cls''), (JfieldID, ''fieldID''),
       (Jboolean, ''isStatic'')] False,
     Slot ''Throw'' Jint [(Ptr JNIEnv, ''env''), (Jthrowable, ''obj'')] False,
     Slot ''ThrowNew'' Jint [(Ptr JNIEnv, ''env''), (Jclass, ''clazz''), (Ptr (Const CChar), ''msg'')] False,
     Slot ''ExceptionOccurred'' Jthrowable [(Ptr JNIEnv, ''env'')] False,
     Slot ''ExceptionDescribe'' CVoid [(Ptr JNIEnv, ''env'')] False,
     Slot ''ExceptionClear'' CVoid [(Ptr JNIEnv, ''env'')] False,
     Slot ''FatalError'' CVoid [(Ptr JNIEnv, ''env''), (Ptr (Const CChar), ''msg'')] False,
     Slot ''PushLocalFrame'' Jint [(Ptr JNIEnv, ''env''), (Jint, ''capacity'')] False,
     Slot ''PopLocalFrame'' Jobject [(Ptr JNIEnv, ''env''), (Jobject, ''result'')] False,
     Slot ''NewGlobalRef'' Jobject [(Ptr JNIEnv, ''env''), (Jobject, ''lobj'')] False,
     Slot ''DeleteGlobalRef'' CVoid [(Ptr JNIEnv, ''env''), (Jobject, ''gref'')] False,
     Slot ''DeleteLocalRef'' CVoid [(Ptr JNIEnv, ''env''), (Jobject, ''obj'')] False,
     Slot ''IsSameObject'' Jboolean [(Ptr JNIEnv, ''env''), (Jobject, ''obj1''), (Jobject, ''obj2'')] False,
     Slot ''NewLocalRef'' Jobject [(Ptr JNIEnv, ''env''), (Jobject, ''ref'')] False,
     Slot ''EnsureLocalCapacity'' Jint [(Ptr JNIEnv, ''env''), (Jint, ''capacity'')] False,
     Slot ''AllocObject'' Jobject [(Ptr JNIEnv, ''env''), (Jclass, ''clazz'')] False,
     Slot ''NewObject'' Jobject [(Ptr JNIEnv, ''env''), (Jclass, ''clazz''), (JmethodID, ''methodID'')] True,
     Slot ''NewObjectV'' Jobject [(Ptr JNIEnv, ''env''), (Jclass, ''clazz''), (JmethodID, ''methodID''),
       (VaList, ''args'')] False,
     Slot ''NewObjectA'' Jobject [(Ptr JNIEnv, ''env''), (Jclass, ''clazz''), (JmethodID, ''methodID''),
       (Ptr (Const Jvalue), ''args'')] False,
     Slot ''GetObjectClass'' Jclass [(Ptr JNIEnv, ''env''), (Jobject, ''obj'')] False,
     Slot ''IsInstanceOf'' Jboolean [(Ptr JNIEnv, ''env''), (Jobject, ''obj''), (Jclass, ''clazz'')] False,
     Slot ''GetMethodID'' JmethodID [(Ptr JNIEnv, ''env''), (Jclass, ''clazz''),
       (Ptr (Const CChar), ''name''), (Ptr (Const CChar), ''sig'')] False]"

definition win_slots_call1 :: "slot list" where
  "win_slots_call1 = [
     Slot ''CallObjectMethod'' Jobject [(Ptr JNIEnv, ''env''), (Jobject, ''obj''),
       (JmethodID, ''methodID'')] True,
     Slot ''CallObjectMethodV'' Jobject [(Ptr JNIEnv, ''env''), (Jobject, ''obj''),
       (JmethodID, ''methodID''), (VaList, ''args'')] False,
     Slot ''CallObjectMethodA'' Jobject [(Ptr JNIEnv, ''env''), (Jobject, ''obj''),
       (JmethodID, ''methodID''), (Ptr (Const Jvalue), ''args'')] False,
     Slot ''CallBooleanMethod'' Jboolean [(Ptr JNIEnv, ''env''), (Jobject, ''obj''),
       (JmethodID, ''methodID'')] True,
     Slot ''CallBooleanMethodV'' Jboolean [(Ptr JNIEnv, ''env''), (Jobject, ''obj''),
       (JmethodID, ''methodID''), (VaList, ''args'')] False,
     Slot ''CallBooleanMethodA'' Jboolean [(Ptr JNIEnv, ''env''), (Jobject, ''obj''),
       (JmethodID, ''methodID''), (Ptr (Const Jvalue), ''args'')] False,
     Slot ''CallByteMethod'' Jbyte [(Ptr JNIEnv, ''env''), (Jobject, ''obj''),
       (JmethodID, ''methodID'')] True,
     Slot ''CallByteMethodV'' Jbyte [(Ptr JNIEnv, ''env''), (Jobject, ''obj''), (JmethodID, ''methodID''),
       (VaList, ''args'')] False,
     Slot ''CallByteMethodA'' Jbyte [(Ptr JNIEnv, ''env''), (Jobject, ''obj''), (JmethodID, ''methodID''),
       (Ptr (Const Jvalue), ''args'')] False,
     Slot ''CallCharMethod'' Jchar [(Ptr JNIEnv, ''env''), (Jobject, ''obj''),
       (JmethodID, ''methodID'')] True,
     Slot ''CallCharMethodV'' Jchar [(Ptr JNIEnv, ''env''), (Jobject, ''obj''), (JmethodID, ''methodID''),
       (VaList, ''args'')] False,
     Slot ''CallCharMethodA'' Jchar [(Ptr JNIEnv, ''env''), (Jobject, ''obj''), (JmethodID, ''methodID''),
       (Ptr (Const Jvalue), ''args'')] False,
     Slot ''CallShortMethod'' Jshort [(Ptr JNIEnv, ''env''), (Jobject, ''obj''),
       (JmethodID, ''methodID'')] True,
     Slot ''CallShortMethodV'' Jshort [(Ptr JNIEnv, ''env''), (Jobject, ''obj''),
       (JmethodID, ''methodID''), (VaList, ''args'')] False,
     Slot ''CallShortMethodA'' Jshort [(Ptr JNIEnv, ''env''), (Jobject, ''obj''),
       (JmethodID, ''methodID''), (Ptr (Const Jvalue), ''args'')] False]"

definition win_slots_call2 :: "slot list" where
  "win_slots_call2 = [
     Slot ''CallIntMethod'' Jint [(Ptr JNIEnv, ''env''), (Jobject, ''obj''), (JmethodID, ''methodID'')] True,
     Slot ''CallIntMethodV'' Jint [(Ptr JNIEnv, ''env''), (Jobject, ''obj''), (JmethodID, ''methodID''),
       (VaList, ''args'')] False,
     Slot ''CallIntMethodA'' Jint [(Ptr JNIEnv, ''env''), (Jobject, ''obj''), (JmethodID, ''methodID''),
       (Ptr (Const Jvalue), ''args'')] False,
     Slot ''CallLongMethod'' Jlong [(Ptr JNIEnv, ''env''), (Jobject, ''obj''),
       (JmethodID, ''methodID'')] True,
     Slot ''CallLongMethodV'' Jlong [(Ptr JNIEnv, ''env''), (Jobject, ''obj''), (JmethodID, ''methodID''),
       (VaList, ''args'')] False,
     Slot ''CallLongMethodA'' Jlong [(Ptr JNIEnv, ''env''), (Jobject, ''obj''), (JmethodID, ''methodID''),
       (Ptr (Const Jvalue), ''args'')] False,
     Slot ''CallFloatMethod'' Jfloat [(Ptr JNIEnv, ''env''), (Jobject, ''obj''),
       (JmethodID, ''methodID'')] True,
     Slot ''CallFloatMethodV'' Jfloat [(Ptr JNIEnv, ''env''), (Jobject, ''obj''),
       (JmethodID, ''methodID''), (VaList, ''args'')] False,
     Slot ''CallFloatMethodA'' Jfloat [(Ptr JNIEnv, ''env''), (Jobject, ''obj''),
       (JmethodID, ''methodID''), (Ptr (Const Jvalue), ''args'')] False,
     Slot ''CallDoubleMethod'' Jdouble [(Ptr JNIEnv, ''env''), (Jobject, ''obj''),
       (JmethodID, ''methodID'')] True,
     Slot ''CallDoubleMethodV'' Jdouble [(Ptr JNIEnv, ''env''), (Jobject, ''obj''),
       (JmethodID, ''methodID''), (VaList, ''args'')] False,
     Slot ''CallDoubleMethodA'' Jdouble [(Ptr JNIEnv, ''env''), (Jobject, ''obj''),
       (JmethodID, ''methodID''), (Ptr (Const Jvalue), ''args'')] False,
     Slot ''CallVoidMethod'' CVoid [(Ptr JNIEnv, ''env''), (Jobject, ''obj''),
       (JmethodID, ''methodID'')] True,
     Slot ''CallVoidMethodV'' CVoid [(Ptr JNIEnv, ''env''), (Jobject, ''obj''), (JmethodID, ''methodID''),
       (VaList, ''args'')] False,
     Slot ''CallVoidMethodA'' CVoid [(Ptr JNIEnv, ''env''), (Jobject, ''obj''), (JmethodID, ''methodID''),
       (Ptr (Const Jvalue), ''args'')] False]"

definition win_slots_nonvirtual1 :: "slot list" where
  "win_slots_nonvirtual1 = [
     Slot ''CallNonvirtualObjectMethod'' Jobject [(Ptr JNIEnv, ''env''), (Jobject, ''obj''),
       (Jclass, ''clazz''), (JmethodID, ''methodID'')] True,
     Slot ''CallNonvirtualObjectMethodV'' Jobject [(Ptr JNIEnv, ''env''), (Jobject, ''obj''),
       (Jclass, ''clazz''), (JmethodID, ''methodID''), (VaList, ''args'')] False,
     Slot ''CallNonvirtualObjectMethodA'' Jobject [(Ptr JNIEnv, ''env''), (Jobject, ''obj''),
       (Jclass, ''clazz''), (JmethodID, ''methodID''), (Ptr (Const Jvalue), ''args'')] False,
     Slot ''CallNonvirtualBooleanMethod'' Jboolean [(Ptr JNIEnv, ''env''), (Jobject, ''obj''),
       (Jclass, ''clazz''), (JmethodID, ''methodID'')] True,
     Slot ''CallNonvirtualBooleanMethodV'' Jboolean [(Ptr JNIEnv, ''env''), (Jobject, ''obj''),
       (Jclass, ''clazz''), (JmethodID, ''methodID''), (VaList, ''args'')] False,
     Slot ''CallNonvirtualBooleanMethodA'' Jboolean [(Ptr JNIEnv, ''env''), (Jobject, ''obj''),
       (Jclass, ''clazz''), (JmethodID, ''methodID''), (Ptr (Const Jvalue), ''args'')] False,
     Slot ''CallNonvirtualByteMethod'' Jbyte [(Ptr JNIEnv, ''env''), (Jobject, ''obj''),
       (Jclass, ''clazz''), (JmethodID, ''methodID'')] True,
     Slot ''CallNonvirtualByteMethodV'' Jbyte [(Ptr JNIEnv, ''env''), (Jobject, ''obj''),
       (Jclass, ''clazz''), (JmethodID, ''methodID''), (VaList, ''args'')] False,
     Slot ''CallNonvirtualByteMethodA'' Jbyte [(Ptr JNIEnv, ''env''), (Jobject, ''obj''),
       (Jclass, ''clazz''), (JmethodID, ''methodID''), (Ptr (Const Jvalue), ''args'')] False,
     Slot ''CallNonvirtualCharMethod'' Jchar [(Ptr JNIEnv, ''env''), (Jobject, ''obj''),
       (Jclass, ''clazz''), (JmethodID, ''methodID'')] True,
     Slot ''CallNonvirtualCharMethodV'' Jchar [(Ptr JNIEnv, ''env''), (Jobject, ''obj''),
       (Jclass, ''clazz''), (JmethodID, ''methodID''), (VaList, ''args'')] False,
     Slot ''CallNonvirtualCharMethodA'' Jchar [(Ptr JNIEnv, ''env''), (Jobject, ''obj''),
       (Jclass, ''clazz''), (JmethodID, ''methodID''), (Ptr (Const Jvalue), ''args'')] False,
     Slot ''CallNonvirtualShortMethod'' Jshort [(Ptr JNIEnv, ''env''), (Jobject, ''obj''),
       (Jclass, ''clazz''), (JmethodID, ''methodID'')] True,
     Slot ''CallNonvirtualShortMethodV'' Jshort [(Ptr JNIEnv, ''env''), (Jobject, ''obj''),
       (Jclass, ''clazz''), (JmethodID, ''methodID''), (VaList, ''args'')] False,
     Slot ''CallNonvirtualShortMethodA'' Jshort [(Ptr JNIEnv, ''env''), (Jobject, ''obj''),
       (Jclass, ''clazz''), (JmethodID, ''methodID''), (Ptr (Const Jvalue), ''args'')] False]"

definition win_slots_nonvirtual2 :: "slot list" where
  "win_slots_nonvirtual2 = [
     Slot ''CallNonvirtualIntMethod'' Jint [(Ptr JNIEnv, ''env''), (Jobject, ''obj''),
       (Jclass, ''clazz''), (JmethodID, ''methodID'')] True,
     Slot ''CallNonvirtualIntMethodV'' Jint [(Ptr JNIEnv, ''env''), (Jobject, ''obj''),
       (Jclass, ''clazz''), (JmethodID, ''methodID''), (VaList, ''args'')] False,
     Slot ''CallNonvirtualIntMethodA'' Jint [(Ptr JNIEnv, ''env''), (Jobject, ''obj''),
       (Jclass, ''clazz''), (JmethodID, ''methodID''), (Ptr (Const Jvalue), ''args'')] False,
     Slot ''CallNonvirtualLongMethod'' Jlong [(Ptr JNIEnv, ''env''), (Jobject, ''obj''),
       (Jclass, ''clazz''), (JmethodID, ''methodID'')] True,
     Slot ''CallNonvirtualLongMethodV'' Jlong [(Ptr JNIEnv, ''env''), (Jobject, ''obj''),
       (Jclass, ''clazz''), (JmethodID, ''methodID''), (VaList, ''args'')] False,
     Slot ''CallNonvirtualLongMethodA'' Jlong [(Ptr JNIEnv, ''env''), (Jobject, ''obj''),
       (Jclass, ''clazz''), (JmethodID, ''methodID''), (Ptr (Const Jvalue), ''args'')] False,
     Slot ''CallNonvirtualFloatMethod'' Jfloat [(Ptr JNIEnv, ''env''), (Jobject, ''obj''),
       (Jclass, ''clazz''), (JmethodID, ''methodID'')] True,
     Slot ''CallNonvirtualFloatMethodV'' Jfloat [(Ptr JNIEnv, ''env''), (Jobject, ''obj''),
       (Jclass, ''clazz''), (JmethodID, ''methodID''), (VaList, ''args'')] False,
     Slot ''CallNonvirtualFloatMethodA'' Jfloat [(Ptr JNIEnv, ''env''), (Jobject, ''obj''),
       (Jclass, ''clazz''), (JmethodID, ''methodID''), (Ptr (Const Jvalue), ''args'')] False,
     Slot ''CallNonvirtualDoubleMethod'' Jdouble [(Ptr JNIEnv, ''env''), (Jobject, ''obj''),
       (Jclass, ''clazz''), (JmethodID, ''methodID'')] True,
     Slot ''CallNonvirtualDoubleMethodV'' Jdouble [(Ptr JNIEnv, ''env''), (Jobject, ''obj''),
       (Jclass, ''clazz''), (JmethodID, ''methodID''), (VaList, ''args'')] False,
     Slot ''CallNonvirtualDoubleMethodA'' Jdouble [(Ptr JNIEnv, ''env''), (Jobject, ''obj''),
       (Jclass, ''clazz''), (JmethodID, ''methodID''), (Ptr (Const Jvalue), ''args'')] False,
     Slot ''CallNonvirtualVoidMethod'' CVoid [(Ptr JNIEnv, ''env''), (Jobject, ''obj''),
       (Jclass, ''clazz''), (JmethodID, ''methodID'')] True,
     Slot ''CallNonvirtualVoidMethodV'' CVoid [(Ptr JNIEnv, ''env''), (Jobject, ''obj''),
       (Jclass, ''clazz''), (JmethodID, ''methodID''), (VaList, ''args'')] False,
     Slot ''CallNonvirtualVoidMethodA'' CVoid [(Ptr JNIEnv, ''env''), (Jobject, ''obj''),
       (Jclass, ''clazz''), (JmethodID, ''methodID''), (Ptr (Const Jvalue), ''args'')] False]"

definition win_slots_field :: "slot list" where
  "win_slots_field = [
     Slot ''GetFieldID'' JfieldID [(Ptr JNIEnv, ''env''), (Jclass, ''clazz''),
       (Ptr (Const CChar), ''name''), (Ptr (Const CChar), ''sig'')] False,
     Slot ''GetObjectField'' Jobject [(Ptr JNIEnv, ''env''), (Jobject, ''obj''),
       (JfieldID, ''fieldID'')] False,
     Slot ''GetBooleanField'' Jboolean [(Ptr JNIEnv, ''env''), (Jobject, ''obj''),
       (JfieldID, ''fieldID'')] False,
     Slot ''GetByteField'' Jbyte [(Ptr JNIEnv, ''env''), (Jobject, ''obj''), (JfieldID, ''fieldID'')] False,
     Slot ''GetCharField'' Jchar [(Ptr JNIEnv, ''env''), (Jobject, ''obj''), (JfieldID, ''fieldID'')] False,
     Slot ''GetShortField'' Jshort [(Ptr JNIEnv, ''env''), (Jobject, ''obj''), (JfieldID, ''fieldID'')] False,
     Slot ''GetIntField'' Jint [(Ptr JNIEnv, ''env''), (Jobject, ''obj''), (JfieldID, ''fieldID'')] False,
     Slot ''GetLongField'' Jlong [(Ptr JNIEnv, ''env''), (Jobject, ''obj''), (JfieldID, ''fieldID'')] False,
     Slot ''GetFloatField'' Jfloat [(Ptr JNIEnv, ''env''), (Jobject, ''obj''), (JfieldID, ''fieldID'')] False,
     Slot ''GetDoubleField'' Jdouble [(Ptr JNIEnv, ''env''), (Jobject, ''obj''),
       (JfieldID, ''fieldID'')] False,
     Slot ''SetObjectField'' CVoid [(Ptr JNIEnv, ''env''), (Jobject, ''obj''), (JfieldID, ''fieldID''),
       (Jobject, ''val'')] False,
     Slot ''SetBooleanField'' CVoid [(Ptr JNIEnv, ''env''), (Jobject, ''obj''), (JfieldID, ''fieldID''),
       (Jboolean, ''val'')] False,
     Slot ''SetByteField'' CVoid [(Ptr JNIEnv, ''env''), (Jobject, ''obj''), (JfieldID, ''fieldID''),
       (Jbyte, ''val'')] False,
     Slot ''SetCharField'' CVoid [(Ptr JNIEnv, ''env''), (Jobject, ''obj''), (JfieldID, ''fieldID''),
       (Jchar, ''val'')] False,
     Slot ''SetShortField'' CVoid [(Ptr JNIEnv, ''env''), (Jobject, ''obj''), (JfieldID, ''fieldID''),
       (Jshort, ''val'')] False,
     Slot ''SetIntField'' CVoid [(Ptr JNIEnv, ''env''), (Jobject, ''obj''), (JfieldID, ''fieldID''),
       (Jint, ''val'')] False,
     Slot ''SetLongField'' CVoid [(Ptr JNIEnv, ''env''), (Jobject, ''obj''), (JfieldID, ''fieldID''),
       (Jlong, ''val'')] False,
     Slot ''SetFloatField'' CVoid [(Ptr JNIEnv, ''env''), (Jobject, ''obj''), (JfieldID, ''fieldID''),
       (Jfloat, ''val'')] False,
     Slot ''SetDoubleField'' CVoid [(Ptr JNIEnv, ''env''), (Jobject, ''obj''), (JfieldID, ''fieldID''),
       (Jdouble, ''val'')] False,
     Slot ''GetStaticMethodID'' JmethodID [(Ptr JNIEnv, ''env''), (Jclass, ''clazz''),
       (Ptr (Const CChar), ''name''), (Ptr (Const CChar), ''sig'')] False]"

definition win_slots_static1 :: "slot list" where
  "win_slots_static1 = [
     Slot ''CallStaticObjectMethod'' Jobject [(Ptr JNIEnv, ''env''), (Jclass, ''clazz''),
       (JmethodID, ''methodID'')] True,
     Slot ''CallStaticObjectMethodV'' Jobject [(Ptr JNIEnv, ''env''), (Jclass, ''clazz''),
       (JmethodID, ''methodID''), (VaList, ''args'')] False,
     Slot ''CallStaticObjectMethodA'' Jobject [(Ptr JNIEnv, ''env''), (Jclass, ''clazz''),
       (JmethodID, ''methodID''), (Ptr (Const Jvalue), ''args'')] False,
     Slot ''CallStaticBooleanMethod'' Jboolean [(Ptr JNIEnv, ''env''), (Jclass, ''clazz''),
       (JmethodID, ''methodID'')] True,
     Slot ''CallStaticBooleanMethodV'' Jboolean [(Ptr JNIEnv, ''env''), (Jclass, ''clazz''),
       (JmethodID, ''methodID''), (VaList, ''args'')] False,
     Slot ''CallStaticBooleanMethodA'' Jboolean [(Ptr JNIEnv, ''env''), (Jclass, ''clazz''),
       (JmethodID, ''methodID''), (Ptr (Const Jvalue), ''args'')] False,
     Slot ''CallStaticByteMethod'' Jbyte [(Ptr JNIEnv, ''env''), (Jclass, ''clazz''),
       (JmethodID, ''methodID'')] True,
     Slot ''CallStaticByteMethodV'' Jbyte [(Ptr JNIEnv, ''env''), (Jclass, ''clazz''),
       (JmethodID, ''methodID''), (VaList, ''args'')] False,
     Slot ''CallStaticByteMethodA'' Jbyte [(Ptr JNIEnv, ''env''), (Jclass, ''clazz''),
       (JmethodID, ''methodID''), (Ptr (Const Jvalue), ''args'')] False,
     Slot ''CallStaticCharMethod'' Jchar [(Ptr JNIEnv, ''env''), (Jclass, ''clazz''),
       (JmethodID, ''methodID'')] True,
     Slot ''CallStaticCharMethodV'' Jchar [(Ptr JNIEnv, ''env''), (Jclass, ''clazz''),
       (JmethodID, ''methodID''), (VaList, ''args'')] False,
     Slot ''CallStaticCharMethodA'' Jchar [(Ptr JNIEnv, ''env''), (Jclass, ''clazz''),
       (JmethodID, ''methodID''), (Ptr (Const Jvalue), ''args'')] False,
     Slot ''CallStaticShortMethod'' Jshort [(Ptr JNIEnv, ''env''), (Jclass, ''clazz''),
       (JmethodID, ''methodID'')] True,
     Slot ''CallStaticShortMethodV'' Jshort [(Ptr JNIEnv, ''env''), (Jclass, ''clazz''),
       (JmethodID, ''methodID''), (VaList, ''args'')] False,
     Slot ''CallStaticShortMethodA'' Jshort [(Ptr JNIEnv, ''env''), (Jclass, ''clazz''),
       (JmethodID, ''methodID''), (Ptr (Const Jvalue), ''args'')] False]"

definition win_slots_static2 :: "slot list" where
  "win_slots_static2 = [
     Slot ''CallStaticIntMethod'' Jint [(Ptr JNIEnv, ''env''), (Jclass, ''clazz''),
       (JmethodID, ''methodID'')] True,
     Slot ''CallStaticIntMethodV'' Jint [(Ptr JNIEnv, ''env''), (Jclass, ''clazz''),
       (JmethodID, ''methodID''), (VaList, ''args'')] False,
     Slot ''CallStaticIntMethodA'' Jint [(Ptr JNIEnv, ''env''), (Jclass, ''clazz''),
       (JmethodID, ''methodID''), (Ptr (Const Jvalue), ''args'')] False,
     Slot ''CallStaticLongMethod'' Jlong [(Ptr JNIEnv, ''env''), (Jclass, ''clazz''),
       (JmethodID, ''methodID'')] True,
     Slot ''CallStaticLongMethodV'' Jlong [(Ptr JNIEnv, ''env''), (Jclass, ''clazz''),
       (JmethodID, ''methodID''), (VaList, ''args'')] False,
     Slot ''CallStaticLongMethodA'' Jlong [(Ptr JNIEnv, ''env''), (Jclass, ''clazz''),
       (JmethodID, ''methodID''), (Ptr (Const Jvalue), ''args'')] False,
     Slot ''CallStaticFloatMethod'' Jfloat [(Ptr JNIEnv, ''env''), (Jclass, ''clazz''),
       (JmethodID, ''methodID'')] True,
     Slot ''CallStaticFloatMethodV'' Jfloat [(Ptr JNIEnv, ''env''), (Jclass, ''clazz''),
       (JmethodID, ''methodID''), (VaList, ''args'')] False,
     Slot ''CallStaticFloatMethodA'' Jfloat [(Ptr JNIEnv, ''env''), (Jclass, ''clazz''),
       (JmethodID, ''methodID''), (Ptr (Const Jvalue), ''args'')] False,
     Slot ''CallStaticDoubleMethod'' Jdouble [(Ptr JNIEnv, ''env''), (Jclass, ''clazz''),
       (JmethodID, ''methodID'')] True,
     Slot ''CallStaticDoubleMethodV'' Jdouble [(Ptr JNIEnv, ''env''), (Jclass, ''clazz''),
       (JmethodID, ''methodID''), (VaList, ''args'')] False,
     Slot ''CallStaticDoubleMethodA'' Jdouble [(Ptr JNIEnv, ''env''), (Jclass, ''clazz''),
       (JmethodID, ''methodID''), (Ptr (Const Jvalue), ''args'')] False,
     Slot ''CallStaticVoidMethod'' CVoid [(Ptr JNIEnv, ''env''), (Jclass, ''cls''),
       (JmethodID, ''methodID'')] True,
     Slot ''CallStaticVoidMethodV'' CVoid [(Ptr JNIEnv, ''env''), (Jclass, ''cls''),
       (JmethodID, ''methodID''), (VaList, ''args'')] False,
     Slot ''CallStaticVoidMethodA'' CVoid [(Ptr JNIEnv, ''env''), (Jclass, ''cls''),
       (JmethodID, ''methodID''), (Ptr (Const Jvalue), ''args'')] False]"

definition win_slots_static_field :: "slot list" where
  "win_slots_static_field = [
     Slot ''GetStaticFieldID'' JfieldID [(Ptr JNIEnv, ''env''), (Jclass, ''clazz''),
       (Ptr (Const CChar), ''name''), (Ptr (Const CChar), ''sig'')] False,
     Slot ''GetStaticObjectField'' Jobject [(Ptr JNIEnv, ''env''), (Jclass, ''clazz''),
       (JfieldID, ''fieldID'')] False,
     Slot ''GetStaticBooleanField'' Jboolean [(Ptr JNIEnv, ''env''), (Jclass, ''clazz''),
       (JfieldID, ''fieldID'')] False,
     Slot ''GetStaticByteField'' Jbyte [(Ptr JNIEnv, ''env''), (Jclass, ''clazz''),
       (JfieldID, ''fieldID'')] False,
     Slot ''GetStaticCharField'' Jchar [(Ptr JNIEnv, ''env''), (Jclass, ''clazz''),
       (JfieldID, ''fieldID'')] False,
     Slot ''GetStaticShortField'' Jshort [(Ptr JNIEnv, ''env''), (Jclass, ''clazz''),
       (JfieldID, ''fieldID'')] False,
     Slot ''GetStaticIntField'' Jint [(Ptr JNIEnv, ''env''), (Jclass, ''clazz''),
       (JfieldID, ''fieldID'')] False,
     Slot ''GetStaticLongField'' Jlong [(Ptr JNIEnv, ''env''), (Jclass, ''clazz''),
       (JfieldID, ''fieldID'')] False,
     Slot ''GetStaticFloatField'' Jfloat [(Ptr JNIEnv, ''env''), (Jclass, ''clazz''),
       (JfieldID, ''fieldID'')] False,
     Slot ''GetStaticDoubleField'' Jdouble [(Ptr JNIEnv, ''env''), (Jclass, ''clazz''),
       (JfieldID, ''fieldID'')] False,
     Slot ''SetStaticObjectField'' CVoid [(Ptr JNIEnv, ''env''), (Jclass, ''clazz''),
       (JfieldID, ''fieldID''), (Jobject, ''value'')] False,
     Slot ''SetStaticBooleanField'' CVoid [(Ptr JNIEnv, ''env''), (Jclass, ''clazz''),
       (JfieldID, ''fieldID''), (Jboolean, ''value'')] False,
     Slot ''SetStaticByteField'' CVoid [(Ptr JNIEnv, ''env''), (Jclass, ''clazz''),
       (JfieldID, ''fieldID''), (Jbyte, ''value'')] False,
     Slot ''SetStaticCharField'' CVoid [(Ptr JNIEnv, ''env''), (Jclass, ''clazz''),
       (JfieldID, ''fieldID''), (Jchar, ''value'')] False,
     Slot ''SetStaticShortField'' CVoid [(Ptr JNIEnv, ''env''), (Jclass, ''clazz''),
       (JfieldID, ''fieldID''), (Jshort, ''value'')] False,
     Slot ''SetStaticIntField'' CVoid [(Ptr JNIEnv, ''env''), (Jclass, ''clazz''),
       (JfieldID, ''fieldID''), (Jint, ''value'')] False,
     Slot ''SetStaticLongField'' CVoid [(Ptr JNIEnv, ''env''), (Jclass, ''clazz''),
       (JfieldID, ''fieldID''), (Jlong, ''value'')] False,
     Slot ''SetStaticFloatField'' CVoid [(Ptr JNIEnv, ''env''), (Jclass, ''clazz''),
       (JfieldID, ''fieldID''), (Jfloat, ''value'')] False,
     Slot ''SetStaticDoubleField'' CVoid [(Ptr JNIEnv, ''env''), (Jclass, ''clazz''),
       (JfieldID, ''fieldID''), (Jdouble, ''value'')] False]"

definition win_slots_string_array :: "slot list" where
  "win_slots_string_array = [
     Slot ''NewString'' Jstring [(Ptr JNIEnv, ''env''), (Ptr (Const Jchar), ''unicode''),
       (Jsize, ''len'')] False,
     Slot ''GetStringLength'' Jsize [(Ptr JNIEnv, ''env''), (Jstring, ''str'')] False,
     Slot ''GetStringChars'' (Ptr (Const Jchar)) [(Ptr JNIEnv, ''env''), (Jstring, ''str''),
       (Ptr Jboolean, ''isCopy'')] False,
     Slot ''ReleaseStringChars'' CVoid [(Ptr JNIEnv, ''env''), (Jstring, ''str''),
       (Ptr (Const Jchar), ''chars'')] False,
     Slot ''NewStringUTF'' Jstring [(Ptr JNIEnv, ''env''), (Ptr (Const CChar), ''utf'')] False,
     Slot ''GetStringUTFLength'' Jsize [(Ptr JNIEnv, ''env''), (Jstring, ''str'')] False,
     Slot ''GetStringUTFChars'' (Ptr (Const CChar)) [(Ptr JNIEnv, ''env''), (Jstring, ''str''),
       (Ptr Jboolean, ''isCopy'')] False,
     Slot ''ReleaseStringUTFChars'' CVoid [(Ptr JNIEnv, ''env''), (Jstring, ''str''),
       (Ptr (Const CChar), ''chars'')] False,
     Slot ''GetArrayLength'' Jsize [(Ptr JNIEnv, ''env''), (Jarray, ''array'')] False,
     Slot ''NewObjectArray'' JobjectArray [(Ptr JNIEnv, ''env''), (Jsize, ''len''), (Jclass, ''clazz''),
       (Jobject, ''init'')] False,
     Slot ''GetObjectArrayElement'' Jobject [(Ptr JNIEnv, ''env''), (JobjectArray, ''array''),
       (Jsize, ''index'')] False,
     Slot ''SetObjectArrayElement'' CVoid [(Ptr JNIEnv, ''env''), (JobjectArray, ''array''),
       (Jsize, ''index''), (Jobject, ''val'')] False,
     Slot ''NewBooleanArray'' JbooleanArray [(Ptr JNIEnv, ''env''), (Jsize, ''len'')] False,
     Slot ''NewByteArray'' JbyteArray [(Ptr JNIEnv, ''env''), (Jsize, ''len'')] False,
     Slot ''NewCharArray'' JcharArray [(Ptr JNIEnv, ''env''), (Jsize, ''len'')] False,
     Slot ''NewShortArray'' JshortArray [(Ptr JNIEnv, ''env''), (Jsize, ''len'')] False,
     Slot ''NewIntArray'' JintArray [(Ptr JNIEnv, ''env''), (Jsize, ''len'')] False,
     Slot ''NewLongArray'' JlongArray [(Ptr JNIEnv, ''env''), (Jsize, ''len'')] False,
     Slot ''NewFloatArray'' JfloatArray [(Ptr JNIEnv, ''env''), (Jsize, ''len'')] False,
     Slot ''NewDoubleArray'' JdoubleArray [(Ptr JNIEnv, ''env''), (Jsize, ''len'')] False]"

definition win_slots_elements :: "slot list" where
  "win_slots_elements = [
     Slot ''GetBooleanArrayElements'' (Ptr Jboolean) [(Ptr JNIEnv, ''env''), (JbooleanArray, ''array''),
       (Ptr Jboolean, ''isCopy'')] False,
     Slot ''GetByteArrayElements'' (Ptr Jbyte) [(Ptr JNIEnv, ''env''), (JbyteArray, ''array''),
       (Ptr Jboolean, ''isCopy'')] False,
     Slot ''GetCharArrayElements'' (Ptr Jchar) [(Ptr JNIEnv, ''env''), (JcharArray, ''array''),
       (Ptr Jboolean, ''isCopy'')] False,
     Slot ''GetShortArrayElements'' (Ptr Jshort) [(Ptr JNIEnv, ''env''), (JshortArray, ''array''),
       (Ptr Jboolean, ''isCopy'')] False,
     Slot ''GetIntArrayElements'' (Ptr Jint) [(Ptr JNIEnv, ''env''), (JintArray, ''array''),
       (Ptr Jboolean, ''isCopy'')] False,
     Slot ''GetLongArrayElements'' (Ptr Jlong) [(Ptr JNIEnv, ''env''), (JlongArray, ''array''),
       (Ptr Jboolean, ''isCopy'')] False,
     Slot ''GetFloatArrayElements'' (Ptr Jfloat) [(Ptr JNIEnv, ''env''), (JfloatArray, ''array''),
       (Ptr Jboolean, ''isCopy'')] False,
     Slot ''GetDoubleArrayElements'' (Ptr Jdouble) [(Ptr JNIEnv, ''env''), (JdoubleArray, ''array''),
       (Ptr Jboolean, ''isCopy'')] False,
     Slot ''ReleaseBooleanArrayElements'' CVoid [(Ptr JNIEnv, ''env''), (JbooleanArray, ''array''),
       (Ptr Jboolean, ''elems''), (Jint, ''mode'')] False,
     Slot ''ReleaseByteArrayElements'' CVoid [(Ptr JNIEnv, ''env''), (JbyteArray, ''array''),
       (Ptr Jbyte, ''elems''), (Jint, ''mode'')] False,
     Slot ''ReleaseCharArrayElements'' CVoid [(Ptr JNIEnv, ''env''), (JcharArray, ''array''),
       (Ptr Jchar, ''elems''), (Jint, ''mode'')] False,
     Slot ''ReleaseShortArrayElements'' CVoid [(Ptr JNIEnv, ''env''), (JshortArray, ''array''),
       (Ptr Jshort, ''elems''), (Jint, ''mode'')] False,
     Slot ''ReleaseIntArrayElements'' CVoid [(Ptr JNIEnv, ''env''), (JintArray, ''array''),
       (Ptr Jint, ''elems''), (Jint, ''mode'')] False,
     Slot ''ReleaseLongArrayElements'' CVoid [(Ptr JNIEnv, ''env''), (JlongArray, ''array''),
       (Ptr Jlong, ''elems''), (Jint, ''mode'')] False,
     Slot ''ReleaseFloatArrayElements'' CVoid [(Ptr JNIEnv, ''env''), (JfloatArray, ''array''),
       (Ptr Jfloat, ''elems''), (Jint, ''mode'')] False,
     Slot ''ReleaseDoubleArrayElements'' CVoid [(Ptr JNIEnv, ''env''), (JdoubleArray, ''array''),
       (Ptr Jdouble, ''elems''), (Jint, ''mode'')] False]"

definition win_slots_region :: "slot list" where
  "win_slots_region = [
     Slot ''GetBooleanArrayRegion'' CVoid [(Ptr JNIEnv, ''env''), (JbooleanArray, ''array''),
       (Jsize, ''start''), (Jsize, ''l''), (Ptr Jboolean, ''buf'')] False,
     Slot ''GetByteArrayRegion'' CVoid [(Ptr JNIEnv, ''env''), (JbyteArray, ''array''),
       (Jsize, ''start''), (Jsize, ''len''), (Ptr Jbyte, ''buf'')] False,
     Slot ''GetCharArrayRegion'' CVoid [(Ptr JNIEnv, ''env''), (JcharArray, ''array''),
       (Jsize, ''start''), (Jsize, ''len''), (Ptr Jchar, ''buf'')] False,
     Slot ''GetShortArrayRegion'' CVoid [(Ptr JNIEnv, ''env''), (JshortArray, ''array''),
       (Jsize, ''start''), (Jsize, ''len''), (Ptr Jshort, ''buf'')] False,
     Slot ''GetIntArrayRegion'' CVoid [(Ptr JNIEnv, ''env''), (JintArray, ''array''), (Jsize, ''start''),
       (Jsize, ''len''), (Ptr Jint, ''buf'')] False,
     Slot ''GetLongArrayRegion'' CVoid [(Ptr JNIEnv, ''env''), (JlongArray, ''array''),
       (Jsize, ''start''), (Jsize, ''len''), (Ptr Jlong, ''buf'')] False,
     Slot ''GetFloatArrayRegion'' CVoid [(Ptr JNIEnv, ''env''), (JfloatArray, ''array''),
       (Jsize, ''start''), (Jsize, ''len''), (Ptr Jfloat, ''buf'')] False,
     Slot ''GetDoubleArrayRegion'' CVoid [(Ptr JNIEnv, ''env''), (JdoubleArray, ''array''),
       (Jsize, ''start''), (Jsize, ''len''), (Ptr Jdouble, ''buf'')] False,
     Slot ''SetBooleanArrayRegion'' CVoid [(Ptr JNIEnv, ''env''), (JbooleanArray, ''array''),
       (Jsize, ''start''), (Jsize, ''l''), (Ptr (Const Jboolean), ''buf'')] False,
     Slot ''SetByteArrayRegion'' CVoid [(Ptr JNIEnv, ''env''), (JbyteArray, ''array''),
       (Jsize, ''start''), (Jsize, ''len''), (Ptr (Const Jbyte), ''buf'')] False,
     Slot ''SetCharArrayRegion'' CVoid [(Ptr JNIEnv, ''env''), (JcharArray, ''array''),
       (Jsize, ''start''), (Jsize, ''len''), (Ptr (Const Jchar), ''buf'')] False,
     Slot ''SetShortArrayRegion'' CVoid [(Ptr JNIEnv, ''env''), (JshortArray, ''array''),
       (Jsize, ''start''), (Jsize, ''len''), (Ptr (Const Jshort), ''buf'')] False,
     Slot ''SetIntArrayRegion'' CVoid [(Ptr JNIEnv, ''env''), (JintArray, ''array''), (Jsize, ''start''),
       (Jsize, ''len''), (Ptr (Const Jint), ''buf'')] False,
     Slot ''SetLongArrayRegion'' CVoid [(Ptr JNIEnv, ''env''), (JlongArray, ''array''),
       (Jsize, ''start''), (Jsize, ''len''), (Ptr (Const Jlong), ''buf'')] False,
     Slot ''SetFloatArrayRegion'' CVoid [(Ptr JNIEnv, ''env''), (JfloatArray, ''array''),
       (Jsize, ''start''), (Jsize, ''len''), (Ptr (Const Jfloat), ''buf'')] False,
     Slot ''SetDoubleArrayRegion'' CVoid [(Ptr JNIEnv, ''env''), (JdoubleArray, ''array''),
       (Jsize, ''start''), (Jsize, ''len''), (Ptr (Const Jdouble), ''buf'')] False]"

definition win_slots_misc :: "slot list" where
  "win_slots_misc = [
     Slot ''RegisterNatives'' Jint [(Ptr JNIEnv, ''env''), (Jclass, ''clazz''),
       (Ptr (Const JNINativeMethod), ''methods''), (Jint, ''nMethods'')] False,
     Slot ''UnregisterNatives'' Jint [(Ptr JNIEnv, ''env''), (Jclass, ''clazz'')] False,
     Slot ''MonitorEnter'' Jint [(Ptr JNIEnv, ''env''), (Jobject, ''obj'')] False,
     Slot ''MonitorExit'' Jint [(Ptr JNIEnv, ''env''), (Jobject, ''obj'')] False,
     Slot ''GetJavaVM'' Jint [(Ptr JNIEnv, ''env''), (Ptr (Ptr JavaVM), ''vm'')] False,
     Slot ''GetStringRegion'' CVoid [(Ptr JNIEnv, ''env''), (Jstring, ''str''), (Jsize, ''start''),
       (Jsize, ''len''), (Ptr Jchar, ''buf'')] False,
     Slot ''GetStringUTFRegion'' CVoid [(Ptr JNIEnv, ''env''), (Jstring, ''str''), (Jsize, ''start''),
       (Jsize, ''len''), (Ptr CChar, ''buf'')] False,
     Slot ''GetPrimitiveArrayCritical'' (Ptr CVoid) [(Ptr JNIEnv, ''env''), (Jarray, ''array''),
       (Ptr Jboolean, ''isCopy'')] False,
     Slot ''ReleasePrimitiveArrayCritical'' CVoid [(Ptr JNIEnv, ''env''), (Jarray, ''array''),
       (Ptr CVoid, ''carray''), (Jint, ''mode'')] False,
     Slot ''GetStringCritical'' (Ptr (Const Jchar)) [(Ptr JNIEnv, ''env''), (Jstring, ''string''),
       (Ptr Jboolean, ''isCopy'')] False,
     Slot ''ReleaseStringCritical'' CVoid [(Ptr JNIEnv, ''env''), (Jstring, ''string''),
       (Ptr (Const Jchar), ''cstring'')] False,
     Slot ''NewWeakGlobalRef'' Jweak [(Ptr JNIEnv, ''env''), (Jobject, ''obj'')] False,
     Slot ''DeleteWeakGlobalRef'' CVoid [(Ptr JNIEnv, ''env''), (Jweak, ''ref'')] False,
     Slot ''ExceptionCheck'' Jboolean [(Ptr JNIEnv, ''env'')] False,
     Slot ''NewDirectByteBuffer'' Jobject [(Ptr JNIEnv, ''env''), (Ptr CVoid, ''address''),
       (Jlong, ''capacity'')] False,
     Slot ''GetDirectBufferAddress'' (Ptr CVoid) [(Ptr JNIEnv, ''env''), (Jobject, ''buf'')] False,
     Slot ''GetDirectBufferCapacity'' Jlong [(Ptr JNIEnv, ''env''), (Jobject, ''buf'')] False,
     Slot ''GetObjectRefType'' JobjectRefType [(Ptr JNIEnv, ''env''), (Jobject, ''obj'')] False]"

text \<open>The function pointers of the table, in declaration order.\<close>

definition win_functions :: "slot list" where
  "win_functions = win_slots_core @ win_slots_call1 @ win_slots_call2 @ win_slots_nonvirtual1 @
    win_slots_nonvirtual2 @ win_slots_field @ win_slots_static1 @ win_slots_static2 @
      win_slots_static_field @ win_slots_string_array @ win_slots_elements @ win_slots_region @
        win_slots_misc"

definition win_native_interface :: "slot list" where
  "win_native_interface = win_slots_reserved @ win_functions"

section \<open>The inline methods of JNIEnv_\<close>

definition win_env_core :: "cxx_method list" where
  "win_env_core = [
     Method ''GetVersion'' Jint
       [] False
       [Return (Fn ''GetVersion'' [])],
     Method ''DefineClass'' Jclass
       [(Ptr (Const CChar), ''name''), (Jobject, ''loader''), (Ptr (Const Jbyte), ''buf''),
         (Jsize, ''len'')] False
       [Return (Fn ''DefineClass'' [''name'', ''loader'', ''buf'', ''len''])],
     Method ''FindClass'' Jclass
       [(Ptr (Const CChar), ''name'')] False
       [Return (Fn ''FindClass'' [''name''])],
     Method ''FromReflectedMethod'' JmethodID
       [(Jobject, ''method'')] False
       [Return (Fn ''FromReflectedMethod'' [''method''])],
     Method ''FromReflectedField'' JfieldID
       [(Jobject, ''field'')] False
       [Return (Fn ''FromReflectedField'' [''field''])],
     Method ''ToReflectedMethod'' Jobject
       [(Jclass, ''cls''), (JmethodID, ''methodID''), (Jboolean, ''isStatic'')] False
       [Return (Fn ''ToReflectedMethod'' [''cls'', ''methodID'', ''isStatic''])],
     Method ''GetSuperclass'' Jclass
       [(Jclass, ''sub'')] False
       [Return (Fn ''GetSuperclass'' [''sub''])],
     Method ''IsAssignableFrom'' Jboolean
       [(Jclass, ''sub''), (Jclass, ''sup'')] False
       [Return (Fn ''IsAssignableFrom'' [''sub'', ''sup''])],
     Method ''ToReflectedField'' Jobject
       [(Jclass, ''cls''), (JfieldID, ''fieldID''), (Jboolean, ''isStatic'')] False
       [Return (Fn ''ToReflectedField'' [''cls'', ''fieldID'', ''isStatic''])],
     Method ''Throw'' Jint
       [(Jthrowable, ''obj'')] False
       [Return (Fn ''Throw'' [''obj''])],
     Method ''ThrowNew'' Jint
       [(Jclass, ''clazz''), (Ptr (Const CChar), ''msg'')] False
       [Return (Fn ''ThrowNew'' [''clazz'', ''msg''])],
     Method ''ExceptionOccurred'' Jthrowable
       [] False
       [Return (Fn ''ExceptionOccurred'' [])],
     Method ''ExceptionDescribe'' CVoid
       [] False
       [Do (Fn ''ExceptionDescribe'' [])],
     Method ''ExceptionClear'' CVoid
       [] False
       [Do (Fn ''ExceptionClear'' [])],
     Method ''FatalError'' CVoid
       [(Ptr (Const CChar), ''msg'')] False
       [Do (Fn ''FatalError'' [''msg''])],
     Method ''PushLocalFrame'' Jint
       [(Jint, ''capacity'')] False
       [Return (Fn ''PushLocalFrame'' [''capacity''])],
     Method ''PopLocalFrame'' Jobject
       [(Jobject, ''result'')] False
       [Return (Fn ''PopLocalFrame'' [''result''])],
     Method ''NewGlobalRef'' Jobject
       [(Jobject, ''lobj'')] False
       [Return (Fn ''NewGlobalRef'' [''lobj''])],
     Method ''DeleteGlobalRef'' CVoid
       [(Jobject, ''gref'')] False
       [Do (Fn ''DeleteGlobalRef'' [''gref''])],
     Method ''DeleteLocalRef'' CVoid
       [(Jobject, ''obj'')] False
       [Do (Fn ''DeleteLocalRef'' [''obj''])],
     Method ''IsSameObject'' Jboolean
       [(Jobject, ''obj1''), (Jobject, ''obj2'')] False
       [Return (Fn ''IsSameObject'' [''obj1'', ''obj2''])],
     Method ''NewLocalRef'' Jobject
       [(Jobject, ''ref'')] False
       [Return (Fn ''NewLocalRef'' [''ref''])],
     Method ''EnsureLocalCapacity'' Jint
       [(Jint, ''capacity'')] False
       [Return (Fn ''EnsureLocalCapacity'' [''capacity''])],
     Method ''AllocObject'' Jobject
       [(Jclass, ''clazz'')] False
       [Return (Fn ''AllocObject'' [''clazz''])],
     Method ''NewObject'' Jobject
       [(Jclass, ''clazz''), (JmethodID, ''methodID'')] True
       [DeclVaList ''args'', DeclVar Jobject ''result'', VaStart ''args'' ''methodID'',
         Assign ''result'' (Fn ''NewObjectV'' [''clazz'', ''methodID'',
           ''args'']), VaEnd ''args'', ReturnVar ''result''],
     Method ''NewObjectV'' Jobject
       [(Jclass, ''clazz''), (JmethodID, ''methodID''), (VaList, ''args'')] False
       [Return (Fn ''NewObjectV'' [''clazz'', ''methodID'', ''args''])],
     Method ''NewObjectA'' Jobject
       [(Jclass, ''clazz''), (JmethodID, ''methodID''), (Ptr (Const Jvalue), ''args'')] False
       [Return (Fn ''NewObjectA'' [''clazz'', ''methodID'', ''args''])],
     Method ''GetObjectClass'' Jclass
       [(Jobject, ''obj'')] False
       [Return (Fn ''GetObjectClass'' [''obj''])],
     Method ''IsInstanceOf'' Jboolean
       [(Jobject, ''obj''), (Jclass, ''clazz'')] False
       [Return (Fn ''IsInstanceOf'' [''obj'', ''clazz''])],
     Method ''GetMethodID'' JmethodID
       [(Jclass, ''clazz''), (Ptr (Const CChar), ''name''), (Ptr (Const CChar), ''sig'')] False
       [Return (Fn ''GetMethodID'' [''clazz'', ''name'', ''sig''])]]"

definition win_env_call1 :: "cxx_method list" where
  "win_env_call1 = [
     Method ''CallObjectMethod'' Jobject
       [(Jobject, ''obj''), (JmethodID, ''methodID'')] True
       [DeclVaList ''args'', DeclVar Jobject ''result'', VaStart ''args'' ''methodID'',
         Assign ''result'' (Fn ''CallObjectMethodV'' [''obj'', ''methodID'',
           ''args'']), VaEnd ''args'', ReturnVar ''result''],
     Method ''CallObjectMethodV'' Jobject
       [(Jobject, ''obj''), (JmethodID, ''methodID''), (VaList, ''args'')] False
       [Return (Fn ''CallObjectMethodV'' [''obj'', ''methodID'', ''args''])],
     Method ''CallObjectMethodA'' Jobject
       [(Jobject, ''obj''), (JmethodID, ''methodID''), (Ptr (Const Jvalue), ''args'')] False
       [Return (Fn ''CallObjectMethodA'' [''obj'', ''methodID'', ''args''])],
     Method ''CallBooleanMethod'' Jboolean
       [(Jobject, ''obj''), (JmethodID, ''methodID'')] True
       [DeclVaList ''args'', DeclVar Jboolean ''result'', VaStart ''args'' ''methodID'',
         Assign ''result'' (Fn ''CallBooleanMethodV'' [''obj'', ''methodID'',
           ''args'']), VaEnd ''args'', ReturnVar ''result''],
     Method ''CallBooleanMethodV'' Jboolean
       [(Jobject, ''obj''), (JmethodID, ''methodID''), (VaList, ''args'')] False
       [Return (Fn ''CallBooleanMethodV'' [''obj'', ''methodID'', ''args''])],
     Method ''CallBooleanMethodA'' Jboolean
       [(Jobject, ''obj''), (JmethodID, ''methodID''), (Ptr (Const Jvalue), ''args'')] False
       [Return (Fn ''CallBooleanMethodA'' [''obj'', ''methodID'', ''args''])],
     Method ''CallByteMethod'' Jbyte
       [(Jobject, ''obj''), (JmethodID, ''methodID'')] True
       [DeclVaList ''args'', DeclVar Jbyte ''result'', VaStart ''args'' ''methodID'',
         Assign ''result'' (Fn ''CallByteMethodV'' [''obj'', ''methodID'',
           ''args'']), VaEnd ''args'', ReturnVar ''result''],
     Method ''CallByteMethodV'' Jbyte
       [(Jobject, ''obj''), (JmethodID, ''methodID''), (VaList, ''args'')] False
       [Return (Fn ''CallByteMethodV'' [''obj'', ''methodID'', ''args''])],
     Method ''CallByteMethodA'' Jbyte
       [(Jobject, ''obj''), (JmethodID, ''methodID''), (Ptr (Const Jvalue), ''args'')] False
       [Return (Fn ''CallByteMethodA'' [''obj'', ''methodID'', ''args''])],
     Method ''CallCharMethod'' Jchar
       [(Jobject, ''obj''), (JmethodID, ''methodID'')] True
       [DeclVaList ''args'', DeclVar Jchar ''result'', VaStart ''args'' ''methodID'',
         Assign ''result'' (Fn ''CallCharMethodV'' [''obj'', ''methodID'',
           ''args'']), VaEnd ''args'', ReturnVar ''result''],
     Method ''CallCharMethodV'' Jchar
       [(Jobject, ''obj''), (JmethodID, ''methodID''), (VaList, ''args'')] False
       [Return (Fn ''CallCharMethodV'' [''obj'', ''methodID'', ''args''])],
     Method ''CallCharMethodA'' Jchar
       [(Jobject, ''obj''), (JmethodID, ''methodID''), (Ptr (Const Jvalue), ''args'')] False
       [Return (Fn ''CallCharMethodA'' [''obj'', ''methodID'', ''args''])],
     Method ''CallShortMethod'' Jshort
       [(Jobject, ''obj''), (JmethodID, ''methodID'')] True
       [DeclVaList ''args'', DeclVar Jshort ''result'', VaStart ''args'' ''methodID'',
         Assign ''result'' (Fn ''CallShortMethodV'' [''obj'', ''methodID'',
           ''args'']), VaEnd ''args'', ReturnVar ''result''],
     Method ''CallShortMethodV'' Jshort
       [(Jobject, ''obj''), (JmethodID, ''methodID''), (VaList, ''args'')] False
       [Return (Fn ''CallShortMethodV'' [''obj'', ''methodID'', ''args''])],
     Method ''CallShortMethodA'' Jshort
       [(Jobject, ''obj''), (JmethodID, ''methodID''), (Ptr (Const Jvalue), ''args'')] False
       [Return (Fn ''CallShortMethodA'' [''obj'', ''methodID'', ''args''])]]"

definition win_env_call2 :: "cxx_method list" where
  "win_env_call2 = [
     Method ''CallIntMethod'' Jint
       [(Jobject, ''obj''), (JmethodID, ''methodID'')] True
       [DeclVaList ''args'', DeclVar Jint ''result'', VaStart ''args'' ''methodID'',
         Assign ''result'' (Fn ''CallIntMethodV'' [''obj'', ''methodID'',
           ''args'']), VaEnd ''args'', ReturnVar ''result''],
     Method ''CallIntMethodV'' Jint
       [(Jobject, ''obj''), (JmethodID, ''methodID''), (VaList, ''args'')] False
       [Return (Fn ''CallIntMethodV'' [''obj'', ''methodID'', ''args''])],
     Method ''CallIntMethodA'' Jint
       [(Jobject, ''obj''), (JmethodID, ''methodID''), (Ptr (Const Jvalue), ''args'')] False
       [Return (Fn ''CallIntMethodA'' [''obj'', ''methodID'', ''args''])],
     Method ''CallLongMethod'' Jlong
       [(Jobject, ''obj''), (JmethodID, ''methodID'')] True
       [DeclVaList ''args'', DeclVar Jlong ''result'', VaStart ''args'' ''methodID'',
         Assign ''result'' (Fn ''CallLongMethodV'' [''obj'', ''methodID'',
           ''args'']), VaEnd ''args'', ReturnVar ''result''],
     Method ''CallLongMethodV'' Jlong
       [(Jobject, ''obj''), (JmethodID, ''methodID''), (VaList, ''args'')] False
       [Return (Fn ''CallLongMethodV'' [''obj'', ''methodID'', ''args''])],
     Method ''CallLongMethodA'' Jlong
       [(Jobject, ''obj''), (JmethodID, ''methodID''), (Ptr (Const Jvalue), ''args'')] False
       [Return (Fn ''CallLongMethodA'' [''obj'', ''methodID'', ''args''])],
     Method ''CallFloatMethod'' Jfloat
       [(Jobject, ''obj''), (JmethodID, ''methodID'')] True
       [DeclVaList ''args'', DeclVar Jfloat ''result'', VaStart ''args'' ''methodID'',
         Assign ''result'' (Fn ''CallFloatMethodV'' [''obj'', ''methodID'',
           ''args'']), VaEnd ''args'', ReturnVar ''result''],
     Method ''CallFloatMethodV'' Jfloat
       [(Jobject, ''obj''), (JmethodID, ''methodID''), (VaList, ''args'')] False
       [Return (Fn ''CallFloatMethodV'' [''obj'', ''methodID'', ''args''])],
     Method ''CallFloatMethodA'' Jfloat
       [(Jobject, ''obj''), (JmethodID, ''methodID''), (Ptr (Const Jvalue), ''args'')] False
       [Return (Fn ''CallFloatMethodA'' [''obj'', ''methodID'', ''args''])],
     Method ''CallDoubleMethod'' Jdouble
       [(Jobject, ''obj''), (JmethodID, ''methodID'')] True
       [DeclVaList ''args'', DeclVar Jdouble ''result'', VaStart ''args'' ''methodID'',
         Assign ''result'' (Fn ''CallDoubleMethodV'' [''obj'', ''methodID'',
           ''args'']), VaEnd ''args'', ReturnVar ''result''],
     Method ''CallDoubleMethodV'' Jdouble
       [(Jobject, ''obj''), (JmethodID, ''methodID''), (VaList, ''args'')] False
       [Return (Fn ''CallDoubleMethodV'' [''obj'', ''methodID'', ''args''])],
     Method ''CallDoubleMethodA'' Jdouble
       [(Jobject, ''obj''), (JmethodID, ''methodID''), (Ptr (Const Jvalue), ''args'')] False
       [Return (Fn ''CallDoubleMethodA'' [''obj'', ''methodID'', ''args''])],
     Method ''CallVoidMethod'' CVoid
       [(Jobject, ''obj''), (JmethodID, ''methodID'')] True
       [DeclVaList ''args'', VaStart ''args'' ''methodID'', Do (Fn ''CallVoidMethodV'' [''obj'',
         ''methodID'', ''args'']), VaEnd ''args''],
     Method ''CallVoidMethodV'' CVoid
       [(Jobject, ''obj''), (JmethodID, ''methodID''), (VaList, ''args'')] False
       [Do (Fn ''CallVoidMethodV'' [''obj'', ''methodID'', ''args''])],
     Method ''CallVoidMethodA'' CVoid
       [(Jobject, ''obj''), (JmethodID, ''methodID''), (Ptr (Const Jvalue), ''args'')] False
       [Do (Fn ''CallVoidMethodA'' [''obj'', ''methodID'', ''args''])]]"

definition win_env_nonvirtual1 :: "cxx_method list" where
  "win_env_nonvirtual1 = [
     Method ''CallNonvirtualObjectMethod'' Jobject
       [(Jobject, ''obj''), (Jclass, ''clazz''), (JmethodID, ''methodID'')] True
       [DeclVaList ''args'', DeclVar Jobject ''result'', VaStart ''args'' ''methodID'',
         Assign ''result'' (Fn ''CallNonvirtualObjectMethodV'' [''obj'', ''clazz'', ''methodID'',
           ''args'']), VaEnd ''args'', ReturnVar ''result''],
     Method ''CallNonvirtualObjectMethodV'' Jobject
       [(Jobject, ''obj''), (Jclass, ''clazz''), (JmethodID, ''methodID''), (VaList, ''args'')] False
       [Return (Fn ''CallNonvirtualObjectMethodV'' [''obj'', ''clazz'', ''methodID'', ''args''])],
     Method ''CallNonvirtualObjectMethodA'' Jobject
       [(Jobject, ''obj''), (Jclass, ''clazz''), (JmethodID, ''methodID''),
         (Ptr (Const Jvalue), ''args'')] False
       [Return (Fn ''CallNonvirtualObjectMethodA'' [''obj'', ''clazz'', ''methodID'', ''args''])],
     Method ''CallNonvirtualBooleanMethod'' Jboolean
       [(Jobject, ''obj''), (Jclass, ''clazz''), (JmethodID, ''methodID'')] True
       [DeclVaList ''args'', DeclVar Jboolean ''result'', VaStart ''args'' ''methodID'',
         Assign ''result'' (Fn ''CallNonvirtualBooleanMethodV'' [''obj'', ''clazz'', ''methodID'',
           ''args'']), VaEnd ''args'', ReturnVar ''result''],
     Method ''CallNonvirtualBooleanMethodV'' Jboolean
       [(Jobject, ''obj''), (Jclass, ''clazz''), (JmethodID, ''methodID''), (VaList, ''args'')] False
       [Return (Fn ''CallNonvirtualBooleanMethodV'' [''obj'', ''clazz'', ''methodID'', ''args''])],
     Method ''CallNonvirtualBooleanMethodA'' Jboolean
       [(Jobject, ''obj''), (Jclass, ''clazz''), (JmethodID, ''methodID''),
         (Ptr (Const Jvalue), ''args'')] False
       [Return (Fn ''CallNonvirtualBooleanMethodA'' [''obj'', ''clazz'', ''methodID'', ''args''])],
     Method ''CallNonvirtualByteMethod'' Jbyte
       [(Jobject, ''obj''), (Jclass, ''clazz''), (JmethodID, ''methodID'')] True
       [DeclVaList ''args'', DeclVar Jbyte ''result'', VaStart ''args'' ''methodID'',
         Assign ''result'' (Fn ''CallNonvirtualByteMethodV'' [''obj'', ''clazz'', ''methodID'',
           ''args'']), VaEnd ''args'', ReturnVar ''result''],
     Method ''CallNonvirtualByteMethodV'' Jbyte
       [(Jobject, ''obj''), (Jclass, ''clazz''), (JmethodID, ''methodID''), (VaList, ''args'')] False
       [Return (Fn ''CallNonvirtualByteMethodV'' [''obj'', ''clazz'', ''methodID'', ''args''])],
     Method ''CallNonvirtualByteMethodA'' Jbyte
       [(Jobject, ''obj''), (Jclass, ''clazz''), (JmethodID, ''methodID''),
         (Ptr (Const Jvalue), ''args'')] False
       [Return (Fn ''CallNonvirtualByteMethodA'' [''obj'', ''clazz'', ''methodID'', ''args''])],
     Method ''CallNonvirtualCharMethod'' Jchar
       [(Jobject, ''obj''), (Jclass, ''clazz''), (JmethodID, ''methodID'')] True
       [DeclVaList ''args'', DeclVar Jchar ''result'', VaStart ''args'' ''methodID'',
         Assign ''result'' (Fn ''CallNonvirtualCharMethodV'' [''obj'', ''clazz'', ''methodID'',
           ''args'']), VaEnd ''args'', ReturnVar ''result''],
     Method ''CallNonvirtualCharMethodV'' Jchar
       [(Jobject, ''obj''), (Jclass, ''clazz''), (JmethodID, ''methodID''), (VaList, ''args'')] False
       [Return (Fn ''CallNonvirtualCharMethodV'' [''obj'', ''clazz'', ''methodID'', ''args''])],
     Method ''CallNonvirtualCharMethodA'' Jchar
       [(Jobject, ''obj''), (Jclass, ''clazz''), (JmethodID, ''methodID''),
         (Ptr (Const Jvalue), ''args'')] False
       [Return (Fn ''CallNonvirtualCharMethodA'' [''obj'', ''clazz'', ''methodID'', ''args''])],
     Method ''CallNonvirtualShortMethod'' Jshort
       [(Jobject, ''obj''), (Jclass, ''clazz''), (JmethodID, ''methodID'')] True
       [DeclVaList ''args'', DeclVar Jshort ''result'', VaStart ''args'' ''methodID'',
         Assign ''result'' (Fn ''CallNonvirtualShortMethodV'' [''obj'', ''clazz'', ''methodID'',
           ''args'']), VaEnd ''args'', ReturnVar ''result''],
     Method ''CallNonvirtualShortMethodV'' Jshort
       [(Jobject, ''obj''), (Jclass, ''clazz''), (JmethodID, ''methodID''), (VaList, ''args'')] False
       [Return (Fn ''CallNonvirtualShortMethodV'' [''obj'', ''clazz'', ''methodID'', ''args''])],
     Method ''CallNonvirtualShortMethodA'' Jshort
       [(Jobject, ''obj''), (Jclass, ''clazz''), (JmethodID, ''methodID''),
         (Ptr (Const Jvalue), ''args'')] False
       [Return (Fn ''CallNonvirtualShortMethodA'' [''obj'', ''clazz'', ''methodID'', ''args''])]]"

definition win_env_nonvirtual2 :: "cxx_method list" where
  "win_env_nonvirtual2 = [
     Method ''CallNonvirtualIntMethod'' Jint
       [(Jobject, ''obj''), (Jclass, ''clazz''), (JmethodID, ''methodID'')] True
       [DeclVaList ''args'', DeclVar Jint ''result'', VaStart ''args'' ''methodID'',
         Assign ''result'' (Fn ''CallNonvirtualIntMethodV'' [''obj'', ''clazz'', ''methodID'',
           ''args'']), VaEnd ''args'', ReturnVar ''result''],
     Method ''CallNonvirtualIntMethodV'' Jint
       [(Jobject, ''obj''), (Jclass, ''clazz''), (JmethodID, ''methodID''), (VaList, ''args'')] False
       [Return (Fn ''CallNonvirtualIntMethodV'' [''obj'', ''clazz'', ''methodID'', ''args''])],
     Method ''CallNonvirtualIntMethodA'' Jint
       [(Jobject, ''obj''), (Jclass, ''clazz''), (JmethodID, ''methodID''),
         (Ptr (Const Jvalue), ''args'')] False
       [Return (Fn ''CallNonvirtualIntMethodA'' [''obj'', ''clazz'', ''methodID'', ''args''])],
     Method ''CallNonvirtualLongMethod'' Jlong
       [(Jobject, ''obj''), (Jclass, ''clazz''), (JmethodID, ''methodID'')] True
       [DeclVaList ''args'', DeclVar Jlong ''result'', VaStart ''args'' ''methodID'',
         Assign ''result'' (Fn ''CallNonvirtualLongMethodV'' [''obj'', ''clazz'', ''methodID'',
           ''args'']), VaEnd ''args'', ReturnVar ''result''],
     Method ''CallNonvirtualLongMethodV'' Jlong
       [(Jobject, ''obj''), (Jclass, ''clazz''), (JmethodID, ''methodID''), (VaList, ''args'')] False
       [Return (Fn ''CallNonvirtualLongMethodV'' [''obj'', ''clazz'', ''methodID'', ''args''])],
     Method ''CallNonvirtualLongMethodA'' Jlong
       [(Jobject, ''obj''), (Jclass, ''clazz''), (JmethodID, ''methodID''),
         (Ptr (Const Jvalue), ''args'')] False
       [Return (Fn ''CallNonvirtualLongMethodA'' [''obj'', ''clazz'', ''methodID'', ''args''])],
     Method ''CallNonvirtualFloatMethod'' Jfloat
       [(Jobject, ''obj''), (Jclass, ''clazz''), (JmethodID, ''methodID'')] True
       [DeclVaList ''args'', DeclVar Jfloat ''result'', VaStart ''args'' ''methodID'',
         Assign ''result'' (Fn ''CallNonvirtualFloatMethodV'' [''obj'', ''clazz'', ''methodID'',
           ''args'']), VaEnd ''args'', ReturnVar ''result''],
     Method ''CallNonvirtualFloatMethodV'' Jfloat
       [(Jobject, ''obj''), (Jclass, ''clazz''), (JmethodID, ''methodID''), (VaList, ''args'')] False
       [Return (Fn ''CallNonvirtualFloatMethodV'' [''obj'', ''clazz'', ''methodID'', ''args''])],
     Method ''CallNonvirtualFloatMethodA'' Jfloat
       [(Jobject, ''obj''), (Jclass, ''clazz''), (JmethodID, ''methodID''),
         (Ptr (Const Jvalue), ''args'')] False
       [Return (Fn ''CallNonvirtualFloatMethodA'' [''obj'', ''clazz'', ''methodID'', ''args''])],
     Method ''CallNonvirtualDoubleMethod'' Jdouble
       [(Jobject, ''obj''), (Jclass, ''clazz''), (JmethodID, ''methodID'')] True
       [DeclVaList ''args'', DeclVar Jdouble ''result'', VaStart ''args'' ''methodID'',
         Assign ''result'' (Fn ''CallNonvirtualDoubleMethodV'' [''obj'', ''clazz'', ''methodID'',
           ''args'']), VaEnd ''args'', ReturnVar ''result''],
     Method ''CallNonvirtualDoubleMethodV'' Jdouble
       [(Jobject, ''obj''), (Jclass, ''clazz''), (JmethodID, ''methodID''), (VaList, ''args'')] False
       [Return (Fn ''CallNonvirtualDoubleMethodV'' [''obj'', ''clazz'', ''methodID'', ''args''])],
     Method ''CallNonvirtualDoubleMethodA'' Jdouble
       [(Jobject, ''obj''), (Jclass, ''clazz''), (JmethodID, ''methodID''),
         (Ptr (Const Jvalue), ''args'')] False
       [Return (Fn ''CallNonvirtualDoubleMethodA'' [''obj'', ''clazz'', ''methodID'', ''args''])],
     Method ''CallNonvirtualVoidMethod'' CVoid
       [(Jobject, ''obj''), (Jclass, ''clazz''), (JmethodID, ''methodID'')] True
       [DeclVaList ''args'', VaStart ''args'' ''methodID'', Do (Fn ''CallNonvirtualVoidMethodV'' [''obj'',
         ''clazz'', ''methodID'', ''args'']), VaEnd ''args''],
     Method ''CallNonvirtualVoidMethodV'' CVoid
       [(Jobject, ''obj''), (Jclass, ''clazz''), (JmethodID, ''methodID''), (VaList, ''args'')] False
       [Do (Fn ''CallNonvirtualVoidMethodV'' [''obj'', ''clazz'', ''methodID'', ''args''])],
     Method ''CallNonvirtualVoidMethodA'' CVoid
       [(Jobject, ''obj''), (Jclass, ''clazz''), (JmethodID, ''methodID''),
         (Ptr (Const Jvalue), ''args'')] False
       [Do (Fn ''CallNonvirtualVoidMethodA'' [''obj'', ''clazz'', ''methodID'', ''args''])]]"

definition win_env_field :: "cxx_method list" where
  "win_env_field = [
     Method ''GetFieldID'' JfieldID
       [(Jclass, ''clazz''), (Ptr (Const CChar), ''name''), (Ptr (Const CChar), ''sig'')] False
       [Return (Fn ''GetFieldID'' [''clazz'', ''name'', ''sig''])],
     Method ''GetObjectField'' Jobject
       [(Jobject, ''obj''), (JfieldID, ''fieldID'')] False
       [Return (Fn ''GetObjectField'' [''obj'', ''fieldID''])],
     Method ''GetBooleanField'' Jboolean
       [(Jobject, ''obj''), (JfieldID, ''fieldID'')] False
       [Return (Fn ''GetBooleanField'' [''obj'', ''fieldID''])],
     Method ''GetByteField'' Jbyte
       [(Jobject, ''obj''), (JfieldID, ''fieldID'')] False
       [Return (Fn ''GetByteField'' [''obj'', ''fieldID''])],
     Method ''GetCharField'' Jchar
       [(Jobject, ''obj''), (JfieldID, ''fieldID'')] False
       [Return (Fn ''GetCharField'' [''obj'', ''fieldID''])],
     Method ''GetShortField'' Jshort
       [(Jobject, ''obj''), (JfieldID, ''fieldID'')] False
       [Return (Fn ''GetShortField'' [''obj'', ''fieldID''])],
     Method ''GetIntField'' Jint
       [(Jobject, ''obj''), (JfieldID, ''fieldID'')] False
       [Return (Fn ''GetIntField'' [''obj'', ''fieldID''])],
     Method ''GetLongField'' Jlong
       [(Jobject, ''obj''), (JfieldID, ''fieldID'')] False
       [Return (Fn ''GetLongField'' [''obj'', ''fieldID''])],
     Method ''GetFloatField'' Jfloat
       [(Jobject, ''obj''), (JfieldID, ''fieldID'')] False
       [Return (Fn ''GetFloatField'' [''obj'', ''fieldID''])],
     Method ''GetDoubleField'' Jdouble
       [(Jobject, ''obj''), (JfieldID, ''fieldID'')] False
       [Return (Fn ''GetDoubleField'' [''obj'', ''fieldID''])],
     Method ''SetObjectField'' CVoid
       [(Jobject, ''obj''), (JfieldID, ''fieldID''), (Jobject, ''val'')] False
       [Do (Fn ''SetObjectField'' [''obj'', ''fieldID'', ''val''])],
     Method ''SetBooleanField'' CVoid
       [(Jobject, ''obj''), (JfieldID, ''fieldID''), (Jboolean, ''val'')] False
       [Do (Fn ''SetBooleanField'' [''obj'', ''fieldID'', ''val''])],
     Method ''SetByteField'' CVoid
       [(Jobject, ''obj''), (JfieldID, ''fieldID''), (Jbyte, ''val'')] False
       [Do (Fn ''SetByteField'' [''obj'', ''fieldID'', ''val''])],
     Method ''SetCharField'' CVoid
       [(Jobject, ''obj''), (JfieldID, ''fieldID''), (Jchar, ''val'')] False
       [Do (Fn ''SetCharField'' [''obj'', ''fieldID'', ''val''])],
     Method ''SetShortField'' CVoid
       [(Jobject, ''obj''), (JfieldID, ''fieldID''), (Jshort, ''val'')] False
       [Do (Fn ''SetShortField'' [''obj'', ''fieldID'', ''val''])],
     Method ''SetIntField'' CVoid
       [(Jobject, ''obj''), (JfieldID, ''fieldID''), (Jint, ''val'')] False
       [Do (Fn ''SetIntField'' [''obj'', ''fieldID'', ''val''])],
     Method ''SetLongField'' CVoid
       [(Jobject, ''obj''), (JfieldID, ''fieldID''), (Jlong, ''val'')] False
       [Do (Fn ''SetLongField'' [''obj'', ''fieldID'', ''val''])],
     Method ''SetFloatField'' CVoid
       [(Jobject, ''obj''), (JfieldID, ''fieldID''), (Jfloat, ''val'')] False
       [Do (Fn ''SetFloatField'' [''obj'', ''fieldID'', ''val''])],
     Method ''SetDoubleField'' CVoid
       [(Jobject, ''obj''), (JfieldID, ''fieldID''), (Jdouble, ''val'')] False
       [Do (Fn ''SetDoubleField'' [''obj'', ''fieldID'', ''val''])],
     Method ''GetStaticMethodID'' JmethodID
       [(Jclass, ''clazz''), (Ptr (Const CChar), ''name''), (Ptr (Const CChar), ''sig'')] False
       [Return (Fn ''GetStaticMethodID'' [''clazz'', ''name'', ''sig''])]]"

definition win_env_static1 :: "cxx_method list" where
  "win_env_static1 = [
     Method ''CallStaticObjectMethod'' Jobject
       [(Jclass, ''clazz''), (JmethodID, ''methodID'')] True
       [DeclVaList ''args'', DeclVar Jobject ''result'', VaStart ''args'' ''methodID'',
         Assign ''result'' (Fn ''CallStaticObjectMethodV'' [''clazz'', ''methodID'',
           ''args'']), VaEnd ''args'', ReturnVar ''result''],
     Method ''CallStaticObjectMethodV'' Jobject
       [(Jclass, ''clazz''), (JmethodID, ''methodID''), (VaList, ''args'')] False
       [Return (Fn ''CallStaticObjectMethodV'' [''clazz'', ''methodID'', ''args''])],
     Method ''CallStaticObjectMethodA'' Jobject
       [(Jclass, ''clazz''), (JmethodID, ''methodID''), (Ptr (Const Jvalue), ''args'')] False
       [Return (Fn ''CallStaticObjectMethodA'' [''clazz'', ''methodID'', ''args''])],
     Method ''CallStaticBooleanMethod'' Jboolean
       [(Jclass, ''clazz''), (JmethodID, ''methodID'')] True
       [DeclVaList ''args'', DeclVar Jboolean ''result'', VaStart ''args'' ''methodID'',
         Assign ''result'' (Fn ''CallStaticBooleanMethodV'' [''clazz'', ''methodID'',
           ''args'']), VaEnd ''args'', ReturnVar ''result''],
     Method ''CallStaticBooleanMethodV'' Jboolean
       [(Jclass, ''clazz''), (JmethodID, ''methodID''), (VaList, ''args'')] False
       [Return (Fn ''CallStaticBooleanMethodV'' [''clazz'', ''methodID'', ''args''])],
     Method ''CallStaticBooleanMethodA'' Jboolean
       [(Jclass, ''clazz''), (JmethodID, ''methodID''), (Ptr (Const Jvalue), ''args'')] False
       [Return (Fn ''CallStaticBooleanMethodA'' [''clazz'', ''methodID'', ''args''])],
     Method ''CallStaticByteMethod'' Jbyte
       [(Jclass, ''clazz''), (JmethodID, ''methodID'')] True
       [DeclVaList ''args'', DeclVar Jbyte ''result'', VaStart ''args'' ''methodID'',
         Assign ''result'' (Fn ''CallStaticByteMethodV'' [''clazz'', ''methodID'',
           ''args'']), VaEnd ''args'', ReturnVar ''result''],
     Method ''CallStaticByteMethodV'' Jbyte
       [(Jclass, ''clazz''), (JmethodID, ''methodID''), (VaList, ''args'')] False
       [Return (Fn ''CallStaticByteMethodV'' [''clazz'', ''methodID'', ''args''])],
     Method ''CallStaticByteMethodA'' Jbyte
       [(Jclass, ''clazz''), (JmethodID, ''methodID''), (Ptr (Const Jvalue), ''args'')] False
       [Return (Fn ''CallStaticByteMethodA'' [''clazz'', ''methodID'', ''args''])],
     Method ''CallStaticCharMethod'' Jchar
       [(Jclass, ''clazz''), (JmethodID, ''methodID'')] True
       [DeclVaList ''args'', DeclVar Jchar ''result'', VaStart ''args'' ''methodID'',
         Assign ''result'' (Fn ''CallStaticCharMethodV'' [''clazz'', ''methodID'',
           ''args'']), VaEnd ''args'', ReturnVar ''result''],
     Method ''CallStaticCharMethodV'' Jchar
       [(Jclass, ''clazz''), (JmethodID, ''methodID''), (VaList, ''args'')] False
       [Return (Fn ''CallStaticCharMethodV'' [''clazz'', ''methodID'', ''args''])],
     Method ''CallStaticCharMethodA'' Jchar
       [(Jclass, ''clazz''), (JmethodID, ''methodID''), (Ptr (Const Jvalue), ''args'')] False
       [Return (Fn ''CallStaticCharMethodA'' [''clazz'', ''methodID'', ''args''])],
     Method ''CallStaticShortMethod'' Jshort
       [(Jclass, ''clazz''), (JmethodID, ''methodID'')] True
       [DeclVaList ''args'', DeclVar Jshort ''result'', VaStart ''args'' ''methodID'',
         Assign ''result'' (Fn ''CallStaticShortMethodV'' [''clazz'', ''methodID'',
           ''args'']), VaEnd ''args'', ReturnVar ''result''],
     Method ''CallStaticShortMethodV'' Jshort
       [(Jclass, ''clazz''), (JmethodID, ''methodID''), (VaList, ''args'')] False
       [Return (Fn ''CallStaticShortMethodV'' [''clazz'', ''methodID'', ''args''])],
     Method ''CallStaticShortMethodA'' Jshort
       [(Jclass, ''clazz''), (JmethodID, ''methodID''), (Ptr (Const Jvalue), ''args'')] False
       [Return (Fn ''CallStaticShortMethodA'' [''clazz'', ''methodID'', ''args''])]]"

definition win_env_static2 :: "cxx_method list" where
  "win_env_static2 = [
     Method ''CallStaticIntMethod'' Jint
       [(Jclass, ''clazz''), (JmethodID, ''methodID'')] True
       [DeclVaList ''args'', DeclVar Jint ''result'', VaStart ''args'' ''methodID'',
         Assign ''result'' (Fn ''CallStaticIntMethodV'' [''clazz'', ''methodID'',
           ''args'']), VaEnd ''args'', ReturnVar ''result''],
     Method ''CallStaticIntMethodV'' Jint
       [(Jclass, ''clazz''), (JmethodID, ''methodID''), (VaList, ''args'')] False
       [Return (Fn ''CallStaticIntMethodV'' [''clazz'', ''methodID'', ''args''])],
     Method ''CallStaticIntMethodA'' Jint
       [(Jclass, ''clazz''), (JmethodID, ''methodID''), (Ptr (Const Jvalue), ''args'')] False
       [Return (Fn ''CallStaticIntMethodA'' [''clazz'', ''methodID'', ''args''])],
     Method ''CallStaticLongMethod'' Jlong
       [(Jclass, ''clazz''), (JmethodID, ''methodID'')] True
       [DeclVaList ''args'', DeclVar Jlong ''result'', VaStart ''args'' ''methodID'',
         Assign ''result'' (Fn ''CallStaticLongMethodV'' [''clazz'', ''methodID'',
           ''args'']), VaEnd ''args'', ReturnVar ''result''],
     Method ''CallStaticLongMethodV'' Jlong
       [(Jclass, ''clazz''), (JmethodID, ''methodID''), (VaList, ''args'')] False
       [Return (Fn ''CallStaticLongMethodV'' [''clazz'', ''methodID'', ''args''])],
     Method ''CallStaticLongMethodA'' Jlong
       [(Jclass, ''clazz''), (JmethodID, ''methodID''), (Ptr (Const Jvalue), ''args'')] False
       [Return (Fn ''CallStaticLongMethodA'' [''clazz'', ''methodID'', ''args''])],
     Method ''CallStaticFloatMethod'' Jfloat
       [(Jclass, ''clazz''), (JmethodID, ''methodID'')] True
       [DeclVaList ''args'', DeclVar Jfloat ''result'', VaStart ''args'' ''methodID'',
         Assign ''result'' (Fn ''CallStaticFloatMethodV'' [''clazz'', ''methodID'',
           ''args'']), VaEnd ''args'', ReturnVar ''result''],
     Method ''CallStaticFloatMethodV'' Jfloat
       [(Jclass, ''clazz''), (JmethodID, ''methodID''), (VaList, ''args'')] False
       [Return (Fn ''CallStaticFloatMethodV'' [''clazz'', ''methodID'', ''args''])],
     Method ''CallStaticFloatMethodA'' Jfloat
       [(Jclass, ''clazz''), (JmethodID, ''methodID''), (Ptr (Const Jvalue), ''args'')] False
       [Return (Fn ''CallStaticFloatMethodA'' [''clazz'', ''methodID'', ''args''])],
     Method ''CallStaticDoubleMethod'' Jdouble
       [(Jclass, ''clazz''), (JmethodID, ''methodID'')] True
       [DeclVaList ''args'', DeclVar Jdouble ''result'', VaStart ''args'' ''methodID'',
         Assign ''result'' (Fn ''CallStaticDoubleMethodV'' [''clazz'', ''methodID'',
           ''args'']), VaEnd ''args'', ReturnVar ''result''],
     Method ''CallStaticDoubleMethodV'' Jdouble
       [(Jclass, ''clazz''), (JmethodID, ''methodID''), (VaList, ''args'')] False
       [Return (Fn ''CallStaticDoubleMethodV'' [''clazz'', ''methodID'', ''args''])],
     Method ''CallStaticDoubleMethodA'' Jdouble
       [(Jclass, ''clazz''), (JmethodID, ''methodID''), (Ptr (Const Jvalue), ''args'')] False
       [Return (Fn ''CallStaticDoubleMethodA'' [''clazz'', ''methodID'', ''args''])],
     Method ''CallStaticVoidMethod'' CVoid
       [(Jclass, ''cls''), (JmethodID, ''methodID'')] True
       [DeclVaList ''args'', VaStart ''args'' ''methodID'', Do (Fn ''CallStaticVoidMethodV'' [''cls'',
         ''methodID'', ''args'']), VaEnd ''args''],
     Method ''CallStaticVoidMethodV'' CVoid
       [(Jclass, ''cls''), (JmethodID, ''methodID''), (VaList, ''args'')] False
       [Do (Fn ''CallStaticVoidMethodV'' [''cls'', ''methodID'', ''args''])],
     Method ''CallStaticVoidMethodA'' CVoid
       [(Jclass, ''cls''), (JmethodID, ''methodID''), (Ptr (Const Jvalue), ''args'')] False
       [Do (Fn ''CallStaticVoidMethodA'' [''cls'', ''methodID'', ''args''])]]"

definition win_env_static_field :: "cxx_method list" where
  "win_env_static_field = [
     Method ''GetStaticFieldID'' JfieldID
       [(Jclass, ''clazz''), (Ptr (Const CChar), ''name''), (Ptr (Const CChar), ''sig'')] False
       [Return (Fn ''GetStaticFieldID'' [''clazz'', ''name'', ''sig''])],
     Method ''GetStaticObjectField'' Jobject
       [(Jclass, ''clazz''), (JfieldID, ''fieldID'')] False
       [Return (Fn ''GetStaticObjectField'' [''clazz'', ''fieldID''])],
     Method ''GetStaticBooleanField'' Jboolean
       [(Jclass, ''clazz''), (JfieldID, ''fieldID'')] False
       [Return (Fn ''GetStaticBooleanField'' [''clazz'', ''fieldID''])],
     Method ''GetStaticByteField'' Jbyte
       [(Jclass, ''clazz''), (JfieldID, ''fieldID'')] False
       [Return (Fn ''GetStaticByteField'' [''clazz'', ''fieldID''])],
     Method ''GetStaticCharField'' Jchar
       [(Jclass, ''clazz''), (JfieldID, ''fieldID'')] False
       [Return (Fn ''GetStaticCharField'' [''clazz'', ''fieldID''])],
     Method ''GetStaticShortField'' Jshort
       [(Jclass, ''clazz''), (JfieldID, ''fieldID'')] False
       [Return (Fn ''GetStaticShortField'' [''clazz'', ''fieldID''])],
     Method ''GetStaticIntField'' Jint
       [(Jclass, ''clazz''), (JfieldID, ''fieldID'')] False
       [Return (Fn ''GetStaticIntField'' [''clazz'', ''fieldID''])],
     Method ''GetStaticLongField'' Jlong
       [(Jclass, ''clazz''), (JfieldID, ''fieldID'')] False
       [Return (Fn ''GetStaticLongField'' [''clazz'', ''fieldID''])],
     Method ''GetStaticFloatField'' Jfloat
       [(Jclass, ''clazz''), (JfieldID, ''fieldID'')] False
       [Return (Fn ''GetStaticFloatField'' [''clazz'', ''fieldID''])],
     Method ''GetStaticDoubleField'' Jdouble
       [(Jclass, ''clazz''), (JfieldID, ''fieldID'')] False
       [Return (Fn ''GetStaticDoubleField'' [''clazz'', ''fieldID''])],
     Method ''SetStaticObjectField'' CVoid
       [(Jclass, ''clazz''), (JfieldID, ''fieldID''), (Jobject, ''value'')] False
       [Do (Fn ''SetStaticObjectField'' [''clazz'', ''fieldID'', ''value''])],
     Method ''SetStaticBooleanField'' CVoid
       [(Jclass, ''clazz''), (JfieldID, ''fieldID''), (Jboolean, ''value'')] False
       [Do (Fn ''SetStaticBooleanField'' [''clazz'', ''fieldID'', ''value''])],
     Method ''SetStaticByteField'' CVoid
       [(Jclass, ''clazz''), (JfieldID, ''fieldID''), (Jbyte, ''value'')] False
       [Do (Fn ''SetStaticByteField'' [''clazz'', ''fieldID'', ''value''])],
     Method ''SetStaticCharField'' CVoid
       [(Jclass, ''clazz''), (JfieldID, ''fieldID''), (Jchar, ''value'')] False
       [Do (Fn ''SetStaticCharField'' [''clazz'', ''fieldID'', ''value''])],
     Method ''SetStaticShortField'' CVoid
       [(Jclass, ''clazz''), (JfieldID, ''fieldID''), (Jshort, ''value'')] False
       [Do (Fn ''SetStaticShortField'' [''clazz'', ''fieldID'', ''value''])],
     Method ''SetStaticIntField'' CVoid
       [(Jclass, ''clazz''), (JfieldID, ''fieldID''), (Jint, ''value'')] False
       [Do (Fn ''SetStaticIntField'' [''clazz'', ''fieldID'', ''value''])],
     Method ''SetStaticLongField'' CVoid
       [(Jclass, ''clazz''), (JfieldID, ''fieldID''), (Jlong, ''value'')] False
       [Do (Fn ''SetStaticLongField'' [''clazz'', ''fieldID'', ''value''])],
     Method ''SetStaticFloatField'' CVoid
       [(Jclass, ''clazz''), (JfieldID, ''fieldID''), (Jfloat, ''value'')] False
       [Do (Fn ''SetStaticFloatField'' [''clazz'', ''fieldID'', ''value''])],
     Method ''SetStaticDoubleField'' CVoid
       [(Jclass, ''clazz''), (JfieldID, ''fieldID''), (Jdouble, ''value'')] False
       [Do (Fn ''SetStaticDoubleField'' [''clazz'', ''fieldID'', ''value''])]]"

definition win_env_string_array :: "cxx_method list" where
  "win_env_string_array = [
     Method ''NewString'' Jstring
       [(Ptr (Const Jchar), ''unicode''), (Jsize, ''len'')] False
       [Return (Fn ''NewString'' [''unicode'', ''len''])],
     Method ''GetStringLength'' Jsize
       [(Jstring, ''str'')] False
       [Return (Fn ''GetStringLength'' [''str''])],
     Method ''GetStringChars'' (Ptr (Const Jchar))
       [(Jstring, ''str''), (Ptr Jboolean, ''isCopy'')] False
       [Return (Fn ''GetStringChars'' [''str'', ''isCopy''])],
     Method ''ReleaseStringChars'' CVoid
       [(Jstring, ''str''), (Ptr (Const Jchar), ''chars'')] False
       [Do (Fn ''ReleaseStringChars'' [''str'', ''chars''])],
     Method ''NewStringUTF'' Jstring
       [(Ptr (Const CChar), ''utf'')] False
       [Return (Fn ''NewStringUTF'' [''utf''])],
     Method ''GetStringUTFLength'' Jsize
       [(Jstring, ''str'')] False
       [Return (Fn ''GetStringUTFLength'' [''str''])],
     Method ''GetStringUTFChars'' (Ptr (Const CChar))
       [(Jstring, ''str''), (Ptr Jboolean, ''isCopy'')] False
       [Return (Fn ''GetStringUTFChars'' [''str'', ''isCopy''])],
     Method ''ReleaseStringUTFChars'' CVoid
       [(Jstring, ''str''), (Ptr (Const CChar), ''chars'')] False
       [Do (Fn ''ReleaseStringUTFChars'' [''str'', ''chars''])],
     Method ''GetArrayLength'' Jsize
       [(Jarray, ''array'')] False
       [Return (Fn ''GetArrayLength'' [''array''])],
     Method ''NewObjectArray'' JobjectArray
       [(Jsize, ''len''), (Jclass, ''clazz''), (Jobject, ''init'')] False
       [Return (Fn ''NewObjectArray'' [''len'', ''clazz'', ''init''])],
     Method ''GetObjectArrayElement'' Jobject
       [(JobjectArray, ''array''), (Jsize, ''index'')] False
       [Return (Fn ''GetObjectArrayElement'' [''array'', ''index''])],
     Method ''SetObjectArrayElement'' CVoid
       [(JobjectArray, ''array''), (Jsize, ''index''), (Jobject, ''val'')] False
       [Do (Fn ''SetObjectArrayElement'' [''array'', ''index'', ''val''])],
     Method ''NewBooleanArray'' JbooleanArray
       [(Jsize, ''len'')] False
       [Return (Fn ''NewBooleanArray'' [''len''])],
     Method ''NewByteArray'' JbyteArray
       [(Jsize, ''len'')] False
       [Return (Fn ''NewByteArray'' [''len''])],
     Method ''NewCharArray'' JcharArray
       [(Jsize, ''len'')] False
       [Return (Fn ''NewCharArray'' [''len''])],
     Method ''NewShortArray'' JshortArray
       [(Jsize, ''len'')] False
       [Return (Fn ''NewShortArray'' [''len''])],
     Method ''NewIntArray'' JintArray
       [(Jsize, ''len'')] False
       [Return (Fn ''NewIntArray'' [''len''])],
     Method ''NewLongArray'' JlongArray
       [(Jsize, ''len'')] False
       [Return (Fn ''NewLongArray'' [''len''])],
     Method ''NewFloatArray'' JfloatArray
       [(Jsize, ''len'')] False
       [Return (Fn ''NewFloatArray'' [''len''])],
     Method ''NewDoubleArray'' JdoubleArray
       [(Jsize, ''len'')] False
       [Return (Fn ''NewDoubleArray'' [''len''])]]"

definition win_env_elements :: "cxx_method list" where
  "win_env_elements = [
     Method ''GetBooleanArrayElements'' (Ptr Jboolean)
       [(JbooleanArray, ''array''), (Ptr Jboolean, ''isCopy'')] False
       [Return (Fn ''GetBooleanArrayElements'' [''array'', ''isCopy''])],
     Method ''GetByteArrayElements'' (Ptr Jbyte)
       [(JbyteArray, ''array''), (Ptr Jboolean, ''isCopy'')] False
       [Return (Fn ''GetByteArrayElements'' [''array'', ''isCopy''])],
     Method ''GetCharArrayElements'' (Ptr Jchar)
       [(JcharArray, ''array''), (Ptr Jboolean, ''isCopy'')] False
       [Return (Fn ''GetCharArrayElements'' [''array'', ''isCopy''])],
     Method ''GetShortArrayElements'' (Ptr Jshort)
       [(JshortArray, ''array''), (Ptr Jboolean, ''isCopy'')] False
       [Return (Fn ''GetShortArrayElements'' [''array'', ''isCopy''])],
     Method ''GetIntArrayElements'' (Ptr Jint)
       [(JintArray, ''array''), (Ptr Jboolean, ''isCopy'')] False
       [Return (Fn ''GetIntArrayElements'' [''array'', ''isCopy''])],
     Method ''GetLongArrayElements'' (Ptr Jlong)
       [(JlongArray, ''array''), (Ptr Jboolean, ''isCopy'')] False
       [Return (Fn ''GetLongArrayElements'' [''array'', ''isCopy''])],
     Method ''GetFloatArrayElements'' (Ptr Jfloat)
       [(JfloatArray, ''array''), (Ptr Jboolean, ''isCopy'')] False
       [Return (Fn ''GetFloatArrayElements'' [''array'', ''isCopy''])],
     Method ''GetDoubleArrayElements'' (Ptr Jdouble)
       [(JdoubleArray, ''array''), (Ptr Jboolean, ''isCopy'')] False
       [Return (Fn ''GetDoubleArrayElements'' [''array'', ''isCopy''])],
     Method ''ReleaseBooleanArrayElements'' CVoid
       [(JbooleanArray, ''array''), (Ptr Jboolean, ''elems''), (Jint, ''mode'')] False
       [Do (Fn ''ReleaseBooleanArrayElements'' [''array'', ''elems'', ''mode''])],
     Method ''ReleaseByteArrayElements'' CVoid
       [(JbyteArray, ''array''), (Ptr Jbyte, ''elems''), (Jint, ''mode'')] False
       [Do (Fn ''ReleaseByteArrayElements'' [''array'', ''elems'', ''mode''])],
     Method ''ReleaseCharArrayElements'' CVoid
       [(JcharArray, ''array''), (Ptr Jchar, ''elems''), (Jint, ''mode'')] False
       [Do (Fn ''ReleaseCharArrayElements'' [''array'', ''elems'', ''mode''])],
     Method ''ReleaseShortArrayElements'' CVoid
       [(JshortArray, ''array''), (Ptr Jshort, ''elems''), (Jint, ''mode'')] False
       [Do (Fn ''ReleaseShortArrayElements'' [''array'', ''elems'', ''mode''])],
     Method ''ReleaseIntArrayElements'' CVoid
       [(JintArray, ''array''), (Ptr Jint, ''elems''), (Jint, ''mode'')] False
       [Do (Fn ''ReleaseIntArrayElements'' [''array'', ''elems'', ''mode''])],
     Method ''ReleaseLongArrayElements'' CVoid
       [(JlongArray, ''array''), (Ptr Jlong, ''elems''), (Jint, ''mode'')] False
       [Do (Fn ''ReleaseLongArrayElements'' [''array'', ''elems'', ''mode''])],
     Method ''ReleaseFloatArrayElements'' CVoid
       [(JfloatArray, ''array''), (Ptr Jfloat, ''elems''), (Jint, ''mode'')] False
       [Do (Fn ''ReleaseFloatArrayElements'' [''array'', ''elems'', ''mode''])],
     Method ''ReleaseDoubleArrayElements'' CVoid
       [(JdoubleArray, ''array''), (Ptr Jdouble, ''elems''), (Jint, ''mode'')] False
       [Do (Fn ''ReleaseDoubleArrayElements'' [''array'', ''elems'', ''mode''])]]"

definition win_env_region :: "cxx_method list" where
  "win_env_region = [
     Method ''GetBooleanArrayRegion'' CVoid
       [(JbooleanArray, ''array''), (Jsize, ''start''), (Jsize, ''len''), (Ptr Jboolean, ''buf'')] False
       [Do (Fn ''GetBooleanArrayRegion'' [''array'', ''start'', ''len'', ''buf''])],
     Method ''GetByteArrayRegion'' CVoid
       [(JbyteArray, ''array''), (Jsize, ''start''), (Jsize, ''len''), (Ptr Jbyte, ''buf'')] False
       [Do (Fn ''GetByteArrayRegion'' [''array'', ''start'', ''len'', ''buf''])],
     Method ''GetCharArrayRegion'' CVoid
       [(JcharArray, ''array''), (Jsize, ''start''), (Jsize, ''len''), (Ptr Jchar, ''buf'')] False
       [Do (Fn ''GetCharArrayRegion'' [''array'', ''start'', ''len'', ''buf''])],
     Method ''GetShortArrayRegion'' CVoid
       [(JshortArray, ''array''), (Jsize, ''start''), (Jsize, ''len''), (Ptr Jshort, ''buf'')] False
       [Do (Fn ''GetShortArrayRegion'' [''array'', ''start'', ''len'', ''buf''])],
     Method ''GetIntArrayRegion'' CVoid
       [(JintArray, ''array''), (Jsize, ''start''), (Jsize, ''len''), (Ptr Jint, ''buf'')] False
       [Do (Fn ''GetIntArrayRegion'' [''array'', ''start'', ''len'', ''buf''])],
     Method ''GetLongArrayRegion'' CVoid
       [(JlongArray, ''array''), (Jsize, ''start''), (Jsize, ''len''), (Ptr Jlong, ''buf'')] False
       [Do (Fn ''GetLongArrayRegion'' [''array'', ''start'', ''len'', ''buf''])],
     Method ''GetFloatArrayRegion'' CVoid
       [(JfloatArray, ''array''), (Jsize, ''start''), (Jsize, ''len''), (Ptr Jfloat, ''buf'')] False
       [Do (Fn ''GetFloatArrayRegion'' [''array'', ''start'', ''len'', ''buf''])],
     Method ''GetDoubleArrayRegion'' CVoid
       [(JdoubleArray, ''array''), (Jsize, ''start''), (Jsize, ''len''), (Ptr Jdouble, ''buf'')] False
       [Do (Fn ''GetDoubleArrayRegion'' [''array'', ''start'', ''len'', ''buf''])],
     Method ''SetBooleanArrayRegion'' CVoid
       [(JbooleanArray, ''array''), (Jsize, ''start''), (Jsize, ''len''),
         (Ptr (Const Jboolean), ''buf'')] False
       [Do (Fn ''SetBooleanArrayRegion'' [''array'', ''start'', ''len'', ''buf''])],
     Method ''SetByteArrayRegion'' CVoid
       [(JbyteArray, ''array''), (Jsize, ''start''), (Jsize, ''len''), (Ptr (Const Jbyte), ''buf'')] False
       [Do (Fn ''SetByteArrayRegion'' [''array'', ''start'', ''len'', ''buf''])],
     Method ''SetCharArrayRegion'' CVoid
       [(JcharArray, ''array''), (Jsize, ''start''), (Jsize, ''len''), (Ptr (Const Jchar), ''buf'')] False
       [Do (Fn ''SetCharArrayRegion'' [''array'', ''start'', ''len'', ''buf''])],
     Method ''SetShortArrayRegion'' CVoid
       [(JshortArray, ''array''), (Jsize, ''start''), (Jsize, ''len''), (Ptr (Const Jshort), ''buf'')] False
       [Do (Fn ''SetShortArrayRegion'' [''array'', ''start'', ''len'', ''buf''])],
     Method ''SetIntArrayRegion'' CVoid
       [(JintArray, ''array''), (Jsize, ''start''), (Jsize, ''len''), (Ptr (Const Jint), ''buf'')] False
       [Do (Fn ''SetIntArrayRegion'' [''array'', ''start'', ''len'', ''buf''])],
     Method ''SetLongArrayRegion'' CVoid
       [(JlongArray, ''array''), (Jsize, ''start''), (Jsize, ''len''), (Ptr (Const Jlong), ''buf'')] False
       [Do (Fn ''SetLongArrayRegion'' [''array'', ''start'', ''len'', ''buf''])],
     Method ''SetFloatArrayRegion'' CVoid
       [(JfloatArray, ''array''), (Jsize, ''start''), (Jsize, ''len''), (Ptr (Const Jfloat), ''buf'')] False
       [Do (Fn ''SetFloatArrayRegion'' [''array'', ''start'', ''len'', ''buf''])],
     Method ''SetDoubleArrayRegion'' CVoid
       [(JdoubleArray, ''array''), (Jsize, ''start''), (Jsize, ''len''), (Ptr (Const Jdouble), ''buf'')] False
       [Do (Fn ''SetDoubleArrayRegion'' [''array'', ''start'', ''len'', ''buf''])]]"

definition win_env_misc :: "cxx_method list" where
  "win_env_misc = [
     Method ''RegisterNatives'' Jint
       [(Jclass, ''clazz''), (Ptr (Const JNINativeMethod), ''methods''), (Jint, ''nMethods'')] False
       [Return (Fn ''RegisterNatives'' [''clazz'', ''methods'', ''nMethods''])],
     Method ''UnregisterNatives'' Jint
       [(Jclass, ''clazz'')] False
       [Return (Fn ''UnregisterNatives'' [''clazz''])],
     Method ''MonitorEnter'' Jint
       [(Jobject, ''obj'')] False
       [Return (Fn ''MonitorEnter'' [''obj''])],
     Method ''MonitorExit'' Jint
       [(Jobject, ''obj'')] False
       [Return (Fn ''MonitorExit'' [''obj''])],
     Method ''GetJavaVM'' Jint
       [(Ptr (Ptr JavaVM), ''vm'')] False
       [Return (Fn ''GetJavaVM'' [''vm''])],
     Method ''GetStringRegion'' CVoid
       [(Jstring, ''str''), (Jsize, ''start''), (Jsize, ''len''), (Ptr Jchar, ''buf'')] False
       [Do (Fn ''GetStringRegion'' [''str'', ''start'', ''len'', ''buf''])],
     Method ''GetStringUTFRegion'' CVoid
       [(Jstring, ''str''), (Jsize, ''start''), (Jsize, ''len''), (Ptr CChar, ''buf'')] False
       [Do (Fn ''GetStringUTFRegion'' [''str'', ''start'', ''len'', ''buf''])],
     Method ''GetPrimitiveArrayCritical'' (Ptr CVoid)
       [(Jarray, ''array''), (Ptr Jboolean, ''isCopy'')] False
       [Return (Fn ''GetPrimitiveArrayCritical'' [''array'', ''isCopy''])],
     Method ''ReleasePrimitiveArrayCritical'' CVoid
       [(Jarray, ''array''), (Ptr CVoid, ''carray''), (Jint, ''mode'')] False
       [Do (Fn ''ReleasePrimitiveArrayCritical'' [''array'', ''carray'', ''mode''])],
     Method ''GetStringCritical'' (Ptr (Const Jchar))
       [(Jstring, ''string''), (Ptr Jboolean, ''isCopy'')] False
       [Return (Fn ''GetStringCritical'' [''string'', ''isCopy''])],
     Method ''ReleaseStringCritical'' CVoid
       [(Jstring, ''string''), (Ptr (Const Jchar), ''cstring'')] False
       [Do (Fn ''ReleaseStringCritical'' [''string'', ''cstring''])],
     Method ''NewWeakGlobalRef'' Jweak
       [(Jobject, ''obj'')] False
       [Return (Fn ''NewWeakGlobalRef'' [''obj''])],
     Method ''DeleteWeakGlobalRef'' CVoid
       [(Jweak, ''ref'')] False
       [Do (Fn ''DeleteWeakGlobalRef'' [''ref''])],
     Method ''ExceptionCheck'' Jboolean
       [] False
       [Return (Fn ''ExceptionCheck'' [])],
     Method ''NewDirectByteBuffer'' Jobject
       [(Ptr CVoid, ''address''), (Jlong, ''capacity'')] False
       [Return (Fn ''NewDirectByteBuffer'' [''address'', ''capacity''])],
     Method ''GetDirectBufferAddress'' (Ptr CVoid)
       [(Jobject, ''buf'')] False
       [Return (Fn ''GetDirectBufferAddress'' [''buf''])],
     Method ''GetDirectBufferCapacity'' Jlong
       [(Jobject, ''buf'')] False
       [Return (Fn ''GetDirectBufferCapacity'' [''buf''])],
     Method ''GetObjectRefType'' JobjectRefType
       [(Jobject, ''obj'')] False
       [Return (Fn ''GetObjectRefType'' [''obj''])]]"

definition win_env_methods :: "cxx_method list" where
  "win_env_methods = win_env_core @ win_env_call1 @ win_env_call2 @ win_env_nonvirtual1 @
    win_env_nonvirtual2 @ win_env_field @ win_env_static1 @ win_env_static2 @ win_env_static_field @
      win_env_string_array @ win_env_elements @ win_env_region @ win_env_misc"

lemmas win_slot_defs = win_slots_reserved_def win_slots_core_def win_slots_call1_def win_slots_call2_def
  win_slots_nonvirtual1_def win_slots_nonvirtual2_def win_slots_field_def win_slots_static1_def
    win_slots_static2_def win_slots_static_field_def win_slots_string_array_def win_slots_elements_def
      win_slots_region_def win_slots_misc_def win_functions_def

lemmas win_env_defs = win_env_core_def win_env_call1_def win_env_call2_def win_env_nonvirtual1_def
  win_env_nonvirtual2_def win_env_field_def win_env_static1_def win_env_static2_def
    win_env_static_field_def win_env_string_array_def win_env_elements_def win_env_region_def
      win_env_misc_def win_env_methods_def

end
