(* ===== verification/Jni_Interface.thy ===== *)
theory Jni_Interface
  imports Jni_Linux Jni_Mac Jni_Win
begin

text \<open>
  What the platform headers have in common. The native sources are compiled once per platform
  against one of the three \<open>jni.h\<close> files and one of the \<open>jni_md.h\<close> files, and every library has
  to find each function at the slot where the Java VM put it. This theory adds the invocation
  interface \<open>JavaVM_\<close> and the machine-dependent types, and proves that the headers agree.
\<close>

section \<open>The invocation interface\<close>

definition linux_invoke_functions :: "slot list" where
  "linux_invoke_functions = [
     Slot ''DestroyJavaVM'' Jint [(Ptr JavaVM, ''vm'')] False,
     Slot ''AttachCurrentThread'' Jint [(Ptr JavaVM, ''vm''), (Ptr (Ptr CVoid), ''penv''), (Ptr CVoid, ''args'')] False,
     Slot ''DetachCurrentThread'' Jint [(Ptr JavaVM, ''vm'')] False,
     Slot ''GetEnv'' Jint [(Ptr JavaVM, ''vm''), (Ptr (Ptr CVoid), ''penv''), (Jint, ''version'')] False,
     Slot ''AttachCurrentThreadAsDaemon'' Jint [(Ptr JavaVM, ''vm''), (Ptr (Ptr CVoid), ''penv''), (Ptr CVoid, ''args'')] False]"

definition mac_invoke_functions :: "slot list" where
  "mac_invoke_functions = [
     Slot ''DestroyJavaVM'' Jint [(Ptr JavaVM, ''vm'')] False,
     Slot ''AttachCurrentThread'' Jint [(Ptr JavaVM, ''vm''), (Ptr (Ptr CVoid), ''penv''), (Ptr CVoid, ''args'')] False,
     Slot ''DetachCurrentThread'' Jint [(Ptr JavaVM, ''vm'')] False,
     Slot ''GetEnv'' Jint [(Ptr JavaVM, ''vm''), (Ptr (Ptr CVoid), ''penv''), (Jint, ''version'')] False,
     Slot ''AttachCurrentThreadAsDaemon'' Jint [(Ptr JavaVM, ''vm''), (Ptr (Ptr CVoid), ''penv''), (Ptr CVoid, ''args'')] False]"

definition win_invoke_functions :: "slot list" where
  "win_invoke_functions = [
     Slot ''DestroyJavaVM'' Jint [(Ptr JavaVM, ''vm'')] False,
     Slot ''AttachCurrentThread'' Jint [(Ptr JavaVM, ''vm''), (Ptr (Ptr CVoid), ''penv''), (Ptr CVoid, ''args'')] False,
     Slot ''DetachCurrentThread'' Jint [(Ptr JavaVM, ''vm'')] False,
     Slot ''GetEnv'' Jint [(Ptr JavaVM, ''vm''), (Ptr (Ptr CVoid), ''penv''), (Jint, ''version'')] False,
     Slot ''AttachCurrentThreadAsDaemon'' Jint [(Ptr JavaVM, ''vm''), (Ptr (Ptr CVoid), ''penv''), (Ptr CVoid, ''args'')] False]"

definition invoke_reserved :: "slot list" where
  "invoke_reserved = [Reserved ''reserved0'', Reserved ''reserved1'', Reserved ''reserved2'']"

definition mac_invoke_interface :: "bool \<Rightarrow> bool \<Rightarrow> slot list" where
  "mac_invoke_interface cfm ppc =
     invoke_reserved @ (if \<not> cfm \<and> ppc then replicate 4 (Reserved ''cfm_vectors'') else []) @
     mac_invoke_functions @ (if cfm \<and> ppc then replicate 5 (Reserved ''real_functions'') else [])"

definition linux_vm_methods :: "cxx_method list" where
  "linux_vm_methods = [
     Method ''DestroyJavaVM'' Jint
       [] False
       [Return (Fn ''DestroyJavaVM'' [])],
     Method ''AttachCurrentThread'' Jint
       [(Ptr (Ptr CVoid), ''penv''), (Ptr CVoid, ''args'')] False
       [Return (Fn ''AttachCurrentThread'' [''penv'', ''args''])],
     Method ''DetachCurrentThread'' Jint
       [] False
       [Return (Fn ''DetachCurrentThread'' [])],
     Method ''GetEnv'' Jint
       [(Ptr (Ptr CVoid), ''penv''), (Jint, ''version'')] False
       [Return (Fn ''GetEnv'' [''penv'', ''version''])],
     Method ''AttachCurrentThreadAsDaemon'' Jint
       [(Ptr (Ptr CVoid), ''penv''), (Ptr CVoid, ''args'')] False
       [Return (Fn ''AttachCurrentThreadAsDaemon'' [''penv'', ''args''])]]"

definition mac_vm_methods :: "cxx_method list" where
  "mac_vm_methods = [
     Method ''DestroyJavaVM'' Jint
       [] False
       [Return (Fn ''DestroyJavaVM'' [])],
     Method ''AttachCurrentThread'' Jint
       [(Ptr (Ptr CVoid), ''penv''), (Ptr CVoid, ''args'')] False
       [Return (Fn ''AttachCurrentThread'' [''penv'', ''args''])],
     Method ''DetachCurrentThread'' Jint
       [] False
       [Return (Fn ''DetachCurrentThread'' [])],
     Method ''GetEnv'' Jint
       [(Ptr (Ptr CVoid), ''penv''), (Jint, ''version'')] False
       [Return (Fn ''GetEnv'' [''penv'', ''version''])],
     Method ''AttachCurrentThreadAsDaemon'' Jint
       [(Ptr (Ptr CVoid), ''penv''), (Ptr CVoid, ''args'')] False
       [Return (Fn ''AttachCurrentThreadAsDaemon'' [''penv'', ''args''])]]"

definition win_vm_methods :: "cxx_method list" where
  "win_vm_methods = [
     Method ''DestroyJavaVM'' Jint
       [] False
       [Return (Fn ''DestroyJavaVM'' [])],
     Method ''AttachCurrentThread'' Jint
       [(Ptr (Ptr CVoid), ''penv''), (Ptr CVoid, ''args'')] False
       [Return (Fn ''AttachCurrentThread'' [''penv'', ''args''])],
     Method ''DetachCurrentThread'' Jint
       [] False
       [Return (Fn ''DetachCurrentThread'' [])],
     Method ''GetEnv'' Jint
       [(Ptr (Ptr CVoid), ''penv''), (Jint, ''version'')] False
       [Return (Fn ''GetEnv'' [''penv'', ''version''])],
     Method ''AttachCurrentThreadAsDaemon'' Jint
       [(Ptr (Ptr CVoid), ''penv''), (Ptr CVoid, ''args'')] False
       [Return (Fn ''AttachCurrentThreadAsDaemon'' [''penv'', ''args''])]]"

section \<open>Machine-dependent types\<close>

text \<open>
  The C data model of a target decides how wide \<open>long\<close> is: \<open>ILP32\<close> and \<open>LLP64\<close> (Windows) give it
  four bytes, \<open>LP64\<close> eight. A header may leave a type undefined.
\<close>

datatype data_model = ILP32 | LP64 | LLP64

datatype c_int = CSignedChar | CInt | CLong | CLongLong | CInt64

fun c_sizeof :: "data_model \<Rightarrow> c_int \<Rightarrow> nat" where
  "c_sizeof dm CSignedChar = 1"
| "c_sizeof dm CInt = 4"
| "c_sizeof dm CLong = (if dm = LP64 then 8 else 4)"
| "c_sizeof dm CLongLong = 8"
| "c_sizeof dm CInt64 = 8"

record jni_md =
  md_jbyte :: c_int
  md_jint :: c_int
  md_jlong :: "c_int option"

definition linux_jni_md :: "data_model \<Rightarrow> jni_md" where
  "linux_jni_md dm = \<lparr>md_jbyte = CSignedChar, md_jint = CInt,
     md_jlong = (if dm = LP64 then Some CLong else Some CLongLong)\<rparr>"

definition mac_jni_md :: "data_model \<Rightarrow> jni_md" where
  "mac_jni_md dm = \<lparr>md_jbyte = CSignedChar, md_jint = (if dm = LP64 then CInt else CLong),
     md_jlong = Some CLongLong\<rparr>"

definition win_jni_md :: "data_model \<Rightarrow> jni_md" where
  "win_jni_md dm = \<lparr>md_jbyte = CSignedChar, md_jint = CLong, md_jlong = Some CInt64\<rparr>"

definition ibm_jni_md :: "data_model \<Rightarrow> jni_md" where
  "ibm_jni_md dm = \<lparr>md_jbyte = CSignedChar, md_jint = CInt,
     md_jlong = (if dm = LP64 then Some CLong else None)\<rparr>"

text \<open>\<open>jniport.h\<close>, by whether the target is one of its Windows-like ones.\<close>

definition ibm_jniport :: "bool \<Rightarrow> jni_md" where
  "ibm_jniport win32 = \<lparr>md_jbyte = CSignedChar, md_jint = CInt,
     md_jlong = (if win32 then Some CInt64 else None)\<rparr>"

text \<open>The widths the Java VM fixes: 8, 32 and 64 bits.\<close>

definition java_widths :: "data_model \<Rightarrow> jni_md \<Rightarrow> bool" where
  "java_widths dm md \<longleftrightarrow> c_sizeof dm (md_jbyte md) = 1 \<and> c_sizeof dm (md_jint md) = 4 \<and>
     (case md_jlong md of None \<Rightarrow> True | Some t \<Rightarrow> c_sizeof dm t = 8)"

section \<open>The headers agree\<close>

lemma mac_functions_eq: "mac_functions = linux_functions"
  unfolding mac_slot_defs linux_slot_defs by (rule refl)

lemma win_functions_eq: "win_functions = linux_functions"
  unfolding win_slot_defs linux_slot_defs by (rule refl)

lemma mac_env_eq: "mac_env_methods = linux_env_methods"
  unfolding mac_env_defs linux_env_defs by (rule refl)

lemma win_env_eq: "win_env_methods = linux_env_methods"
  unfolding win_env_defs linux_env_defs by (rule refl)

lemma reserved_eq: "mac_slots_reserved = linux_slots_reserved" "win_slots_reserved = linux_slots_reserved"
  unfolding mac_slots_reserved_def win_slots_reserved_def linux_slots_reserved_def by (rule refl)+

lemma invoke_eq: "mac_invoke_functions = linux_invoke_functions" "win_invoke_functions = linux_invoke_functions"
  "mac_vm_methods = linux_vm_methods" "win_vm_methods = linux_vm_methods"
  unfolding mac_invoke_functions_def win_invoke_functions_def linux_invoke_functions_def
    mac_vm_methods_def win_vm_methods_def linux_vm_methods_def by (rule refl)+

lemma linux_vm_matches: "matches JavaVM linux_vm_methods linux_invoke_functions"
  by (simp add: linux_vm_methods_def linux_invoke_functions_def forwarding_simps)

lemma all_env_methods: "set (linux_env_methods @ mac_env_methods @ win_env_methods) = set linux_env_methods"
  by (simp add: mac_env_eq win_env_eq)

text \<open>The functions of the table that the native sources of snappy-java call, with their slots.\<close>

definition used_functions :: "(nat \<times> string) list" where
  "used_functions = [(6, ''FindClass''), (31, ''GetObjectClass''), (33, ''GetMethodID''),
     (62, ''CallVoidMethodV''), (167, ''NewStringUTF''), (222, ''GetPrimitiveArrayCritical''),
     (223, ''ReleasePrimitiveArrayCritical''), (230, ''GetDirectBufferAddress'')]"

lemma linux_lengths:
  "length linux_slots_reserved = 4" "length linux_functions = 229"
  by (simp_all add: linux_slot_defs)

section \<open>Properties\<close>

text \<open>
  C39: Every inline method of \<open>JNIEnv_\<close>, in each of the three headers, run on as many arguments as
  it has parameters, is free of undefined behaviour and does exactly one thing: it calls the
  slot of its name (for a variadic method the \<open>V\<close> slot, with the packed \<open>va_list\<close>) with \<open>this\<close>
  and its arguments in order, and returns what the slot returns.
\<close>

theorem env_methods_forward:
  assumes "m \<in> set (linux_env_methods @ mac_env_methods @ win_env_methods)"
    and "length actuals = length (m_params m)"
  shows "run_method tbl m actuals extra s = Some (forwarded tbl m actuals extra s)"
proof -
  have "m \<in> set linux_env_methods" using assms(1) unfolding all_env_methods .
  then have "well_formed m" using matches_target [OF linux_matches] by blast
  then show ?thesis using assms(2) by (rule well_formed_forwards)
qed

definition call_void_method :: cxx_method where
  "call_void_method = Method ''CallVoidMethod'' CVoid
     [(Jobject, ''obj''), (JmethodID, ''methodID'')] True
     [DeclVaList ''args'', VaStart ''args'' ''methodID'',
      Do (Fn ''CallVoidMethodV'' [''obj'', ''methodID'', ''args'']), VaEnd ''args'']"

theorem env_methods_forward_witness:
  "run_method (\<lambda>f args trace. (0 :: int, (f, args) # trace)) call_void_method [7, 8] [5] []
     = Some (None, [(''CallVoidMethodV'', [This, Val 7, Val 8, Va [5]])])"
proof -
  have "call_void_method \<in> set linux_env_call2"
    by (simp add: call_void_method_def linux_env_call2_def)
  then have m: "call_void_method \<in> set (linux_env_methods @ mac_env_methods @ win_env_methods)"
    unfolding all_env_methods linux_env_methods_def by simp
  have "length [7, 8 :: int] = length (m_params call_void_method)"
    by (simp add: call_void_method_def)
  from env_methods_forward [OF m this,
      of "\<lambda>f args trace. (0 :: int, (f, args) # trace)" "[5]" "[]"]
  show ?thesis
    by (simp add: forwarded_def call_void_method_def dispatch_target_def)
qed

text \<open>
  In each header the inline methods fit the function table, slot by slot and in the same
  order: a method has the name, the return type and the parameter types of its slot, and a
  variadic one passes its \<open>va_list\<close> to the following \<open>V\<close> slot, whose prototype it satisfies. The
  same holds of the five methods of \<open>JavaVM_\<close> and the invocation table.
\<close>

theorem env_methods_typed:
  "matches JNIEnv linux_env_methods linux_functions
   \<and> matches JNIEnv mac_env_methods mac_functions
   \<and> matches JNIEnv win_env_methods win_functions
   \<and> matches JavaVM linux_vm_methods linux_invoke_functions
   \<and> matches JavaVM mac_vm_methods mac_invoke_functions
   \<and> matches JavaVM win_vm_methods win_invoke_functions"
  by (simp add: linux_matches linux_vm_matches mac_functions_eq win_functions_eq mac_env_eq
      win_env_eq invoke_eq)

text \<open>
  The function tables agree across the platforms: Windows and every Mac build that is not
  for PowerPC have the Linux table, slot for slot, with its 233 entries. The functions the
  native sources call sit at the indexes of \<open>used_functions\<close>; a PowerPC Mac build without CFM
  has every function 225 slots later, and one with CFM has 228 more slots at the end.
\<close>

theorem jni_tables_agree:
  "win_native_interface = linux_native_interface
   \<and> mac_native_interface cfm False = linux_native_interface
   \<and> length linux_native_interface = 233
   \<and> map (\<lambda>(k, f). slot_name (linux_native_interface ! k)) used_functions = map snd used_functions
   \<and> drop (4 + 225) (mac_native_interface False True) = drop 4 linux_native_interface
   \<and> take 233 (mac_native_interface True True) = linux_native_interface
   \<and> length (mac_native_interface True True) = 233 + 228"
proof -
  have "map (\<lambda>(k, f). slot_name (linux_native_interface ! k)) used_functions = map snd used_functions"
    by (simp add: used_functions_def linux_slot_defs)
  then show ?thesis
    by (simp add: win_native_interface_def mac_native_interface_def linux_native_interface_def
        win_functions_eq mac_functions_eq reserved_eq linux_lengths mac_cfm_vectors_def
        mac_real_functions_def)
qed

text \<open>
  Each machine-dependent header gives \<open>jbyte\<close>, \<open>jint\<close> and \<open>jlong\<close> the widths of the Java VM on
  every data model it distinguishes. The IBM headers leave \<open>jlong\<close> undefined exactly on the
  targets that are not \<open>LP64\<close> (\<open>jni_md.h\<close>) and not Windows-like (\<open>jniport.h\<close>).
\<close>

theorem jni_md_widths:
  "java_widths dm (linux_jni_md dm) \<and> java_widths dm (mac_jni_md dm)
   \<and> (java_widths dm (win_jni_md dm) \<longleftrightarrow> dm \<noteq> LP64)
   \<and> java_widths dm (ibm_jni_md dm) \<and> java_widths dm (ibm_jniport w)
   \<and> md_jlong (linux_jni_md dm) \<noteq> None \<and> md_jlong (mac_jni_md dm) \<noteq> None
   \<and> md_jlong (win_jni_md dm) \<noteq> None
   \<and> (md_jlong (ibm_jni_md dm) = None \<longleftrightarrow> dm \<noteq> LP64) \<and> (md_jlong (ibm_jniport w) = None \<longleftrightarrow> \<not> w)"
  by (cases dm; cases w)
     (simp_all add: java_widths_def linux_jni_md_def mac_jni_md_def win_jni_md_def
        ibm_jni_md_def ibm_jniport_def)

end
