(* ===== verification/Jni_Vocabulary.thy ===== *)
theory Jni_Vocabulary
  imports Jni_Interface
begin

text \<open>
  The rest of \<open>lib/inc_*/jni.h\<close>: the types the function table is written in, in the C++ and in the C view
  of the header, the constants, the structures of the invocation interface, the exported functions and
  the version numbers. The primitive types are those of Java, both views have the same conversions up to
  what C can tell apart, and the headers agree except for one version number.
\<close>

section \<open>What a header declares\<close>

datatype c_basic = UnsignedChar | UnsignedShort | SignedShort | Float | Double

text \<open>Exported functions are the virtual machine's, or the native library's for the machine to call.\<close>

datatype provider = ByVM | ByLibrary

text \<open>
  \<open>classes\<close> names the base class of each class, \<open>pointers\<close> the class a reference type points to in
  C++; \<open>aliases\<close> are the typedefs of the C view.
\<close>

record vocabulary =
  basic_types :: "(ctype \<times> c_basic) list"
  classes :: "(string \<times> string option) list"
  pointers :: "(ctype \<times> string) list"
  aliases :: "(ctype \<times> ctype) list"
  jvalue_members :: "(string \<times> ctype) list"
  ref_types :: "(string \<times> int) list"
  jni_constants :: "(string \<times> int) list"
  structs :: "(string \<times> param list) list"
  entry_points :: "(provider \<times> slot) list"
  versions :: "(string \<times> int) list"

section \<open>The headers\<close>

definition linux_basic_types :: "(ctype \<times> c_basic) list" where
  "linux_basic_types = [
     (Jboolean, UnsignedChar), (Jchar, UnsignedShort), (Jshort, SignedShort), (Jfloat, Float),
       (Jdouble, Double)]"

definition linux_classes :: "(string \<times> string option) list" where
  "linux_classes = [
     (''_jobject'', None), (''_jclass'', Some ''_jobject''), (''_jthrowable'', Some ''_jobject''),
     (''_jstring'', Some ''_jobject''), (''_jarray'', Some ''_jobject''),
     (''_jbooleanArray'', Some ''_jarray''), (''_jbyteArray'', Some ''_jarray''),
     (''_jcharArray'', Some ''_jarray''), (''_jshortArray'', Some ''_jarray''),
     (''_jintArray'', Some ''_jarray''), (''_jlongArray'', Some ''_jarray''),
     (''_jfloatArray'', Some ''_jarray''), (''_jdoubleArray'', Some ''_jarray''),
     (''_jobjectArray'', Some ''_jarray'')]"

definition linux_pointers :: "(ctype \<times> string) list" where
  "linux_pointers = [
     (Jobject, ''_jobject''), (Jclass, ''_jclass''), (Jthrowable, ''_jthrowable''), (Jstring, ''_jstring''),
     (Jarray, ''_jarray''), (JbooleanArray, ''_jbooleanArray''), (JbyteArray, ''_jbyteArray''),
     (JcharArray, ''_jcharArray''), (JshortArray, ''_jshortArray''), (JintArray, ''_jintArray''),
     (JlongArray, ''_jlongArray''), (JfloatArray, ''_jfloatArray''), (JdoubleArray, ''_jdoubleArray''),
     (JobjectArray, ''_jobjectArray'')]"

definition linux_aliases :: "(ctype \<times> ctype) list" where
  "linux_aliases = [
     (Jclass, Jobject), (Jthrowable, Jobject), (Jstring, Jobject), (Jarray, Jobject), (JbooleanArray, Jarray),
     (JbyteArray, Jarray), (JcharArray, Jarray), (JshortArray, Jarray), (JintArray, Jarray),
     (JlongArray, Jarray), (JfloatArray, Jarray), (JdoubleArray, Jarray), (JobjectArray, Jarray),
     (Jweak, Jobject), (Jsize, Jint)]"

definition linux_jvalue :: "(string \<times> ctype) list" where
  "linux_jvalue = [
     (''z'', Jboolean), (''b'', Jbyte), (''c'', Jchar), (''s'', Jshort), (''i'', Jint), (''j'', Jlong),
     (''f'', Jfloat), (''d'', Jdouble), (''l'', Jobject)]"

definition linux_ref_types :: "(string \<times> int) list" where
  "linux_ref_types = [
     (''JNIInvalidRefType'', 0), (''JNILocalRefType'', 1), (''JNIGlobalRefType'', 2),
     (''JNIWeakGlobalRefType'', 3)]"

definition linux_constants :: "(string \<times> int) list" where
  "linux_constants = [
     (''JNI_FALSE'', 0), (''JNI_TRUE'', 1), (''JNI_OK'', 0), (''JNI_ERR'', - 1), (''JNI_EDETACHED'', - 2),
     (''JNI_EVERSION'', - 3), (''JNI_ENOMEM'', - 4), (''JNI_EEXIST'', - 5), (''JNI_EINVAL'', - 6),
     (''JNI_COMMIT'', 1), (''JNI_ABORT'', 2)]"

definition linux_native_method :: "(string \<times> param list) list" where
  "linux_native_method = [
     (''JNINativeMethod'', [(Ptr CChar, ''name''), (Ptr CChar, ''signature''), (Ptr CVoid, ''fnPtr'')])]"

definition linux_vm_structs :: "(string \<times> param list) list" where
  "linux_vm_structs = [
     (''JavaVMOption'', [(Ptr CChar, ''optionString''), (Ptr CVoid, ''extraInfo'')]),
     (''JavaVMInitArgs'', [(Jint, ''version''), (Jint, ''nOptions''), (Ptr JavaVMOption, ''options''),
       (Jboolean, ''ignoreUnrecognized'')]),
     (''JavaVMAttachArgs'', [(Jint, ''version''), (Ptr CChar, ''name''), (Jobject, ''group'')])]"

definition linux_entry_points :: "(provider \<times> slot) list" where
  "linux_entry_points = [
     (ByVM, Slot ''JNI_GetDefaultJavaVMInitArgs'' Jint [(Ptr CVoid, ''args'')] False),
     (ByVM, Slot ''JNI_CreateJavaVM'' Jint [(Ptr (Ptr JavaVM), ''pvm''), (Ptr (Ptr CVoid), ''penv''),
       (Ptr CVoid, ''args'')] False),
     (ByVM, Slot ''JNI_GetCreatedJavaVMs'' Jint [(Ptr (Ptr JavaVM), ''''), (Jsize, ''''),
       (Ptr Jsize, '''')] False),
     (ByLibrary, Slot ''JNI_OnLoad'' Jint [(Ptr JavaVM, ''vm''), (Ptr CVoid, ''reserved'')] False),
     (ByLibrary, Slot ''JNI_OnUnload'' CVoid [(Ptr JavaVM, ''vm''), (Ptr CVoid, ''reserved'')] False)]"

definition linux_versions :: "(string \<times> int) list" where
  "linux_versions = [
     (''JNI_VERSION_1_1'', 0x00010001), (''JNI_VERSION_1_2'', 0x00010002), (''JNI_VERSION_1_4'', 0x00010004),
     (''JNI_VERSION_1_6'', 0x00010006), (''JNI_VERSION_1_8'', 0x00010008)]"

definition linux_vocabulary :: vocabulary where
  "linux_vocabulary = \<lparr>basic_types = linux_basic_types, classes = linux_classes, pointers = linux_pointers,
     aliases = linux_aliases, jvalue_members = linux_jvalue, ref_types = linux_ref_types, jni_constants = linux_constants,
     structs = linux_native_method @ linux_vm_structs, entry_points = linux_entry_points,
     versions = linux_versions\<rparr>"

definition mac_basic_types :: "(ctype \<times> c_basic) list" where
  "mac_basic_types = [
     (Jboolean, UnsignedChar), (Jchar, UnsignedShort), (Jshort, SignedShort), (Jfloat, Float),
       (Jdouble, Double)]"

definition mac_classes :: "(string \<times> string option) list" where
  "mac_classes = [
     (''_jobject'', None), (''_jclass'', Some ''_jobject''), (''_jthrowable'', Some ''_jobject''),
     (''_jstring'', Some ''_jobject''), (''_jarray'', Some ''_jobject''),
     (''_jbooleanArray'', Some ''_jarray''), (''_jbyteArray'', Some ''_jarray''),
     (''_jcharArray'', Some ''_jarray''), (''_jshortArray'', Some ''_jarray''),
     (''_jintArray'', Some ''_jarray''), (''_jlongArray'', Some ''_jarray''),
     (''_jfloatArray'', Some ''_jarray''), (''_jdoubleArray'', Some ''_jarray''),
     (''_jobjectArray'', Some ''_jarray'')]"

definition mac_pointers :: "(ctype \<times> string) list" where
  "mac_pointers = [
     (Jobject, ''_jobject''), (Jclass, ''_jclass''), (Jthrowable, ''_jthrowable''), (Jstring, ''_jstring''),
     (Jarray, ''_jarray''), (JbooleanArray, ''_jbooleanArray''), (JbyteArray, ''_jbyteArray''),
     (JcharArray, ''_jcharArray''), (JshortArray, ''_jshortArray''), (JintArray, ''_jintArray''),
     (JlongArray, ''_jlongArray''), (JfloatArray, ''_jfloatArray''), (JdoubleArray, ''_jdoubleArray''),
     (JobjectArray, ''_jobjectArray'')]"

definition mac_aliases :: "(ctype \<times> ctype) list" where
  "mac_aliases = [
     (Jclass, Jobject), (Jthrowable, Jobject), (Jstring, Jobject), (Jarray, Jobject), (JbooleanArray, Jarray),
     (JbyteArray, Jarray), (JcharArray, Jarray), (JshortArray, Jarray), (JintArray, Jarray),
     (JlongArray, Jarray), (JfloatArray, Jarray), (JdoubleArray, Jarray), (JobjectArray, Jarray),
     (Jweak, Jobject), (Jsize, Jint)]"

definition mac_jvalue :: "(string \<times> ctype) list" where
  "mac_jvalue = [
     (''z'', Jboolean), (''b'', Jbyte), (''c'', Jchar), (''s'', Jshort), (''i'', Jint), (''j'', Jlong),
     (''f'', Jfloat), (''d'', Jdouble), (''l'', Jobject)]"

definition mac_ref_types :: "(string \<times> int) list" where
  "mac_ref_types = [
     (''JNIInvalidRefType'', 0), (''JNILocalRefType'', 1), (''JNIGlobalRefType'', 2),
     (''JNIWeakGlobalRefType'', 3)]"

definition mac_constants :: "(string \<times> int) list" where
  "mac_constants = [
     (''JNI_FALSE'', 0), (''JNI_TRUE'', 1), (''JNI_OK'', 0), (''JNI_ERR'', - 1), (''JNI_EDETACHED'', - 2),
     (''JNI_EVERSION'', - 3), (''JNI_ENOMEM'', - 4), (''JNI_EEXIST'', - 5), (''JNI_EINVAL'', - 6),
     (''JNI_COMMIT'', 1), (''JNI_ABORT'', 2)]"

definition mac_native_method :: "(string \<times> param list) list" where
  "mac_native_method = [
     (''JNINativeMethod'', [(Ptr CChar, ''name''), (Ptr CChar, ''signature''), (Ptr CVoid, ''fnPtr'')])]"

definition mac_vm_structs :: "(string \<times> param list) list" where
  "mac_vm_structs = [
     (''JavaVMOption'', [(Ptr CChar, ''optionString''), (Ptr CVoid, ''extraInfo'')]),
     (''JavaVMInitArgs'', [(Jint, ''version''), (Jint, ''nOptions''), (Ptr JavaVMOption, ''options''),
       (Jboolean, ''ignoreUnrecognized'')]),
     (''JavaVMAttachArgs'', [(Jint, ''version''), (Ptr CChar, ''name''), (Jobject, ''group'')])]"

definition mac_entry_points :: "(provider \<times> slot) list" where
  "mac_entry_points = [
     (ByVM, Slot ''JNI_GetDefaultJavaVMInitArgs'' Jint [(Ptr CVoid, ''args'')] False),
     (ByVM, Slot ''JNI_CreateJavaVM'' Jint [(Ptr (Ptr JavaVM), ''pvm''), (Ptr (Ptr CVoid), ''penv''),
       (Ptr CVoid, ''args'')] False),
     (ByVM, Slot ''JNI_GetCreatedJavaVMs'' Jint [(Ptr (Ptr JavaVM), ''''), (Jsize, ''''),
       (Ptr Jsize, '''')] False),
     (ByLibrary, Slot ''JNI_OnLoad'' Jint [(Ptr JavaVM, ''vm''), (Ptr CVoid, ''reserved'')] False),
     (ByLibrary, Slot ''JNI_OnUnload'' CVoid [(Ptr JavaVM, ''vm''), (Ptr CVoid, ''reserved'')] False)]"

definition mac_versions :: "(string \<times> int) list" where
  "mac_versions = [
     (''JNI_VERSION_1_1'', 0x00010001), (''JNI_VERSION_1_2'', 0x00010002), (''JNI_VERSION_1_4'', 0x00010004),
     (''JNI_VERSION_1_6'', 0x00010006)]"

definition mac_vocabulary :: vocabulary where
  "mac_vocabulary = \<lparr>basic_types = mac_basic_types, classes = mac_classes, pointers = mac_pointers,
     aliases = mac_aliases, jvalue_members = mac_jvalue, ref_types = mac_ref_types, jni_constants = mac_constants,
     structs = mac_native_method @ mac_vm_structs, entry_points = mac_entry_points,
     versions = mac_versions\<rparr>"

definition win_basic_types :: "(ctype \<times> c_basic) list" where
  "win_basic_types = [
     (Jboolean, UnsignedChar), (Jchar, UnsignedShort), (Jshort, SignedShort), (Jfloat, Float),
       (Jdouble, Double)]"

definition win_classes :: "(string \<times> string option) list" where
  "win_classes = [
     (''_jobject'', None), (''_jclass'', Some ''_jobject''), (''_jthrowable'', Some ''_jobject''),
     (''_jstring'', Some ''_jobject''), (''_jarray'', Some ''_jobject''),
     (''_jbooleanArray'', Some ''_jarray''), (''_jbyteArray'', Some ''_jarray''),
     (''_jcharArray'', Some ''_jarray''), (''_jshortArray'', Some ''_jarray''),
     (''_jintArray'', Some ''_jarray''), (''_jlongArray'', Some ''_jarray''),
     (''_jfloatArray'', Some ''_jarray''), (''_jdoubleArray'', Some ''_jarray''),
     (''_jobjectArray'', Some ''_jarray'')]"

definition win_pointers :: "(ctype \<times> string) list" where
  "win_pointers = [
     (Jobject, ''_jobject''), (Jclass, ''_jclass''), (Jthrowable, ''_jthrowable''), (Jstring, ''_jstring''),
     (Jarray, ''_jarray''), (JbooleanArray, ''_jbooleanArray''), (JbyteArray, ''_jbyteArray''),
     (JcharArray, ''_jcharArray''), (JshortArray, ''_jshortArray''), (JintArray, ''_jintArray''),
     (JlongArray, ''_jlongArray''), (JfloatArray, ''_jfloatArray''), (JdoubleArray, ''_jdoubleArray''),
     (JobjectArray, ''_jobjectArray'')]"

definition win_aliases :: "(ctype \<times> ctype) list" where
  "win_aliases = [
     (Jclass, Jobject), (Jthrowable, Jobject), (Jstring, Jobject), (Jarray, Jobject), (JbooleanArray, Jarray),
     (JbyteArray, Jarray), (JcharArray, Jarray), (JshortArray, Jarray), (JintArray, Jarray),
     (JlongArray, Jarray), (JfloatArray, Jarray), (JdoubleArray, Jarray), (JobjectArray, Jarray),
     (Jweak, Jobject), (Jsize, Jint)]"

definition win_jvalue :: "(string \<times> ctype) list" where
  "win_jvalue = [
     (''z'', Jboolean), (''b'', Jbyte), (''c'', Jchar), (''s'', Jshort), (''i'', Jint), (''j'', Jlong),
     (''f'', Jfloat), (''d'', Jdouble), (''l'', Jobject)]"

definition win_ref_types :: "(string \<times> int) list" where
  "win_ref_types = [
     (''JNIInvalidRefType'', 0), (''JNILocalRefType'', 1), (''JNIGlobalRefType'', 2),
     (''JNIWeakGlobalRefType'', 3)]"

definition win_constants :: "(string \<times> int) list" where
  "win_constants = [
     (''JNI_FALSE'', 0), (''JNI_TRUE'', 1), (''JNI_OK'', 0), (''JNI_ERR'', - 1), (''JNI_EDETACHED'', - 2),
     (''JNI_EVERSION'', - 3), (''JNI_ENOMEM'', - 4), (''JNI_EEXIST'', - 5), (''JNI_EINVAL'', - 6),
     (''JNI_COMMIT'', 1), (''JNI_ABORT'', 2)]"

definition win_native_method :: "(string \<times> param list) list" where
  "win_native_method = [
     (''JNINativeMethod'', [(Ptr CChar, ''name''), (Ptr CChar, ''signature''), (Ptr CVoid, ''fnPtr'')])]"

definition win_vm_structs :: "(string \<times> param list) list" where
  "win_vm_structs = [
     (''JavaVMOption'', [(Ptr CChar, ''optionString''), (Ptr CVoid, ''extraInfo'')]),
     (''JavaVMInitArgs'', [(Jint, ''version''), (Jint, ''nOptions''), (Ptr JavaVMOption, ''options''),
       (Jboolean, ''ignoreUnrecognized'')]),
     (''JavaVMAttachArgs'', [(Jint, ''version''), (Ptr CChar, ''name''), (Jobject, ''group'')])]"

definition win_entry_points :: "(provider \<times> slot) list" where
  "win_entry_points = [
     (ByVM, Slot ''JNI_GetDefaultJavaVMInitArgs'' Jint [(Ptr CVoid, ''args'')] False),
     (ByVM, Slot ''JNI_CreateJavaVM'' Jint [(Ptr (Ptr JavaVM), ''pvm''), (Ptr (Ptr CVoid), ''penv''),
       (Ptr CVoid, ''args'')] False),
     (ByVM, Slot ''JNI_GetCreatedJavaVMs'' Jint [(Ptr (Ptr JavaVM), ''''), (Jsize, ''''),
       (Ptr Jsize, '''')] False),
     (ByLibrary, Slot ''JNI_OnLoad'' Jint [(Ptr JavaVM, ''vm''), (Ptr CVoid, ''reserved'')] False),
     (ByLibrary, Slot ''JNI_OnUnload'' CVoid [(Ptr JavaVM, ''vm''), (Ptr CVoid, ''reserved'')] False)]"

definition win_versions :: "(string \<times> int) list" where
  "win_versions = [
     (''JNI_VERSION_1_1'', 0x00010001), (''JNI_VERSION_1_2'', 0x00010002), (''JNI_VERSION_1_4'', 0x00010004),
     (''JNI_VERSION_1_6'', 0x00010006)]"

definition win_vocabulary :: vocabulary where
  "win_vocabulary = \<lparr>basic_types = win_basic_types, classes = win_classes, pointers = win_pointers,
     aliases = win_aliases, jvalue_members = win_jvalue, ref_types = win_ref_types, jni_constants = win_constants,
     structs = win_native_method @ win_vm_structs, entry_points = win_entry_points,
     versions = win_versions\<rparr>"

definition jni_headers :: "vocabulary list" where
  "jni_headers = [linux_vocabulary, mac_vocabulary, win_vocabulary]"

text \<open>
  What a library is compiled with: a header, a data model, and the machine-dependent header of the same
  directory under that model. The Windows header is not for a model where \<open>long\<close> has eight bytes.
\<close>

definition jni_targets :: "(vocabulary \<times> data_model \<times> jni_md) list" where
  "jni_targets = map (\<lambda>dm. (linux_vocabulary, dm, linux_jni_md dm)) [ILP32, LP64, LLP64]
     @ map (\<lambda>dm. (mac_vocabulary, dm, mac_jni_md dm)) [ILP32, LP64, LLP64]
     @ map (\<lambda>dm. (win_vocabulary, dm, win_jni_md dm)) [ILP32, LLP64]"

section \<open>The two views\<close>

text \<open>The class and its bases; a hierarchy of \<open>n\<close> classes is at most \<open>n\<close> deep.\<close>

fun bases :: "nat \<Rightarrow> (string \<times> string option) list \<Rightarrow> string \<Rightarrow> string list" where
  "bases 0 cs c = []"
| "bases (Suc n) cs c =
     c # (case map_of cs c of None \<Rightarrow> [] | Some None \<Rightarrow> [] | Some (Some b) \<Rightarrow> bases n cs b)"

definition cxx_resolve :: "vocabulary \<Rightarrow> ctype \<Rightarrow> ctype" where
  "cxx_resolve h t = (if t = Jweak \<or> t = Jsize then (case map_of (aliases h) t of None \<Rightarrow> t | Some u \<Rightarrow> u) else t)"

text \<open>The implicit conversions of C++ between the types of the header: to the same type, or to a base class.\<close>

definition cxx_converts :: "vocabulary \<Rightarrow> ctype \<Rightarrow> ctype \<Rightarrow> bool" where
  "cxx_converts h t u \<longleftrightarrow>
     (case (map_of (pointers h) (cxx_resolve h t), map_of (pointers h) (cxx_resolve h u)) of
        (Some c, Some d) \<Rightarrow> d \<in> set (bases (length (classes h)) (classes h) c)
      | _ \<Rightarrow> cxx_resolve h t = cxx_resolve h u)"

fun c_resolve :: "nat \<Rightarrow> (ctype \<times> ctype) list \<Rightarrow> ctype \<Rightarrow> ctype" where
  "c_resolve 0 as t = t"
| "c_resolve (Suc n) as t = (case map_of as t of None \<Rightarrow> t | Some u \<Rightarrow> c_resolve n as u)"

definition c_type :: "vocabulary \<Rightarrow> ctype \<Rightarrow> ctype" where
  "c_type h = c_resolve (length (aliases h)) (aliases h)"

definition reference_types :: "vocabulary \<Rightarrow> ctype list" where
  "reference_types h = map fst (pointers h)"

section \<open>The primitive types\<close>

datatype scalar = Unsigned nat | Signed nat | Floating nat

fun basic_scalar :: "c_basic \<Rightarrow> scalar" where
  "basic_scalar UnsignedChar = Unsigned 8"
| "basic_scalar UnsignedShort = Unsigned 16"
| "basic_scalar SignedShort = Signed 16"
| "basic_scalar Float = Floating 32"
| "basic_scalar Double = Floating 64"

text \<open>\<open>jni_md.h\<close> writes the integer types of C, of which \<open>char\<close> alone needs the word \<open>signed\<close>.\<close>

fun c_scalar :: "data_model \<Rightarrow> c_int \<Rightarrow> scalar" where
  "c_scalar dm CSignedChar = Signed 8"
| "c_scalar dm CInt = Signed 32"
| "c_scalar dm CLong = Signed (if dm = LP64 then 64 else 32)"
| "c_scalar dm CLongLong = Signed 64"
| "c_scalar dm CInt64 = Signed 64"

text \<open>A type of \<open>jni.h\<close>, or one of the three that \<open>jni_md.h\<close> gives for a data model.\<close>

definition scalar_of :: "vocabulary \<Rightarrow> data_model \<Rightarrow> jni_md \<Rightarrow> ctype \<Rightarrow> scalar option" where
  "scalar_of h dm md t =
     (case map_of (basic_types h) t of
        Some b \<Rightarrow> Some (basic_scalar b)
      | None \<Rightarrow>
          if t = Jbyte then Some (c_scalar dm (md_jbyte md))
          else if t = Jint then Some (c_scalar dm (md_jint md))
          else if t = Jlong then map_option (c_scalar dm) (md_jlong md)
          else None)"

text \<open>What Java fixes.\<close>

definition java_primitives :: "(ctype \<times> scalar) list" where
  "java_primitives = [(Jboolean, Unsigned 8), (Jbyte, Signed 8), (Jchar, Unsigned 16), (Jshort, Signed 16),
     (Jint, Signed 32), (Jlong, Signed 64), (Jfloat, Floating 32), (Jdouble, Floating 64)]"

section \<open>The headers agree\<close>

lemmas linux_vocabulary_defs = linux_vocabulary_def linux_basic_types_def linux_classes_def linux_pointers_def
  linux_aliases_def linux_jvalue_def linux_ref_types_def linux_constants_def linux_native_method_def
  linux_vm_structs_def linux_entry_points_def linux_versions_def

lemmas mac_vocabulary_defs = mac_vocabulary_def mac_basic_types_def mac_classes_def mac_pointers_def
  mac_aliases_def mac_jvalue_def mac_ref_types_def mac_constants_def mac_native_method_def
  mac_vm_structs_def mac_entry_points_def mac_versions_def

lemmas win_vocabulary_defs = win_vocabulary_def win_basic_types_def win_classes_def win_pointers_def
  win_aliases_def win_jvalue_def win_ref_types_def win_constants_def win_native_method_def
  win_vm_structs_def win_entry_points_def win_versions_def

text \<open>The Linux header alone knows the version of Java 8.\<close>

lemma vocabularies_agree:
  "mac_vocabulary = linux_vocabulary\<lparr>versions := butlast (versions linux_vocabulary)\<rparr>"
  "win_vocabulary = linux_vocabulary\<lparr>versions := butlast (versions linux_vocabulary)\<rparr>"
  by (simp_all add: linux_vocabulary_defs mac_vocabulary_defs win_vocabulary_defs)

text \<open>The facts below do not mention the versions.\<close>

lemma header_cases:
  assumes "h \<in> set jni_headers"
  shows "basic_types h = linux_basic_types \<and> classes h = linux_classes \<and> pointers h = linux_pointers
    \<and> aliases h = linux_aliases \<and> jvalue_members h = linux_jvalue"
  using assms by (auto simp: jni_headers_def vocabularies_agree linux_vocabulary_def)

lemma linux_c_references: "list_all (\<lambda>t. c_resolve (length linux_aliases) linux_aliases t = Jobject) (map fst linux_pointers)"
  by (simp add: linux_aliases_def linux_pointers_def eval_nat_numeral)

lemma linux_c_weak: "c_resolve (length linux_aliases) linux_aliases Jweak = Jobject"
  "c_resolve (length linux_aliases) linux_aliases Jsize = Jint" "c_resolve (length linux_aliases) linux_aliases Jint = Jint"
  by (simp_all add: linux_aliases_def eval_nat_numeral)

text \<open>The classes form a tree below \<open>_jobject\<close>, and every reference type points to one of them.\<close>

lemma linux_hierarchy:
  "list_all (\<lambda>(t, c). ''_jobject'' \<in> set (bases 14 linux_classes c)) linux_pointers"
  "list_all (\<lambda>(t, c). list_all (\<lambda>b. length (bases 14 linux_classes b) < length (bases 14 linux_classes c))
      (tl (bases 14 linux_classes c)) \<and> hd (bases 14 linux_classes c) = c) linux_pointers"
  "distinct (map snd linux_pointers)"
  "length linux_classes = 14" "map_of linux_pointers Jobject = Some ''_jobject''" "cxx_resolve h Jobject = Jobject"
  by code_simp+

lemma distinct_map_snd_inj: "distinct (map snd xs) \<Longrightarrow> (x, c) \<in> set xs \<Longrightarrow> (y, c) \<in> set xs \<Longrightarrow> x = y"
  by (induction xs) force+

text \<open>A proper base class has fewer bases.\<close>

lemma linux_bases_antisym:
  assumes "(t, a) \<in> set linux_pointers" and "(u, b) \<in> set linux_pointers"
    and m: "b \<in> set (bases 14 linux_classes a)" "a \<in> set (bases 14 linux_classes b)"
  shows "a = b"
proof (rule ccontr)
  assume ne: "a \<noteq> b"
  have shorter: "length (bases 14 linux_classes d) < length (bases 14 linux_classes c)"
    if "(v, c) \<in> set linux_pointers" "d \<in> set (bases 14 linux_classes c)" "d \<noteq> c" for v c d
  proof -
    have "hd (bases 14 linux_classes c) = c" and
      l: "list_all (\<lambda>b. length (bases 14 linux_classes b) < length (bases 14 linux_classes c)) (tl (bases 14 linux_classes c))"
      using linux_hierarchy(2) that(1) by (auto simp: list_all_iff)
    then have "d \<in> set (tl (bases 14 linux_classes c))" using that(2,3) by (cases "bases 14 linux_classes c") auto
    then show ?thesis using l by (simp add: list_all_iff)
  qed
  show False using shorter [OF assms(1) m(1)] shorter [OF assms(2) m(2)] ne by force
qed

lemma cxx_converts_c:
  assumes h: "aliases h = linux_aliases" "pointers h = linux_pointers" and c: "cxx_converts h t u"
  shows "c_type h t = c_type h u"
proof -
  note w = linux_c_weak
  have same: "c_type h t = c_type h (cxx_resolve h t)" for t
    using w by (auto simp: cxx_resolve_def c_type_def h linux_aliases_def)
  have ref: "c_type h v = Jobject" if "map_of (pointers h) v = Some d" for v d
  proof -
    have "(v, d) \<in> set linux_pointers" using that by (simp add: h map_of_SomeD)
    then show ?thesis using linux_c_references by (auto simp: list_all_iff c_type_def h)
  qed
  show ?thesis
    using c ref [of "cxx_resolve h t"] ref [of "cxx_resolve h u"] same [of t] same [of u]
    by (auto simp: cxx_converts_def split: option.splits)
qed

lemma cxx_converts_antisym:
  assumes h: "classes h = linux_classes" "pointers h = linux_pointers"
    and c: "cxx_converts h t u" "cxx_converts h u t"
  shows "cxx_resolve h t = cxx_resolve h u"
proof (cases "map_of linux_pointers (cxx_resolve h t)")
  case None
  then show ?thesis using c(1) by (simp add: cxx_converts_def h)
next
  case t: (Some a)
  show ?thesis
  proof (cases "map_of linux_pointers (cxx_resolve h u)")
    case None
    then show ?thesis using c(1) t by (simp add: cxx_converts_def h)
  next
    case (Some b)
    have m: "b \<in> set (bases 14 linux_classes a)" "a \<in> set (bases 14 linux_classes b)"
      using c t Some linux_hierarchy(4) by (simp_all add: cxx_converts_def h)
    have p: "(cxx_resolve h t, a) \<in> set linux_pointers" "(cxx_resolve h u, b) \<in> set linux_pointers"
      using t Some by (auto dest: map_of_SomeD)
    have "a = b" by (rule linux_bases_antisym [OF p m])
    then show ?thesis using p linux_hierarchy(3) by (metis distinct_map_snd_inj)
  qed
qed

lemma cxx_converts_root:
  assumes h: "classes h = linux_classes" "pointers h = linux_pointers" and t: "t \<in> set (reference_types h)"
  shows "cxx_converts h t Jobject"
proof -
  have r: "cxx_resolve h t = t" using t by (auto simp: cxx_resolve_def reference_types_def h linux_pointers_def)
  obtain c where c: "map_of linux_pointers t = Some c"
    using t by (metis h(2) list.set_map map_of_eq_None_iff not_None_eq reference_types_def)
  then have "(t, c) \<in> set linux_pointers" by (rule map_of_SomeD)
  then have "''_jobject'' \<in> set (bases 14 linux_classes c)" using linux_hierarchy(1) by (auto simp: list_all_iff)
  then show ?thesis using c linux_hierarchy(4-6) by (simp add: cxx_converts_def h r)
qed

lemma target_header: "(h, dm, md) \<in> set jni_targets \<Longrightarrow> h \<in> set jni_headers"
  by (auto simp: jni_targets_def jni_headers_def)

lemma scalars_java:
  assumes "(h, dm, md) \<in> set jni_targets"
  shows "map (\<lambda>(t, k). scalar_of h dm md t) java_primitives = map (\<lambda>(t, k). Some k) java_primitives"
proof -
  have b: "basic_types h = linux_basic_types" using header_cases [OF target_header [OF assms]] by simp
  have "c_scalar dm (md_jbyte md) = Signed 8 \<and> c_scalar dm (md_jint md) = Signed 32
      \<and> map_option (c_scalar dm) (md_jlong md) = Some (Signed 64)"
    using assms by (auto simp: jni_targets_def linux_jni_md_def mac_jni_md_def win_jni_md_def)
  then show ?thesis by (simp add: java_primitives_def scalar_of_def b linux_basic_types_def)
qed

section \<open>The property\<close>



end
