(* ===== verification/Snappy_Config.thy ===== *)
theory Snappy_Config
  imports Jni_Vocabulary
begin

unbundle bit_operations_syntax

text \<open>
  The configuration of the snappy library the Linux builds are compiled with: \<open>lib/inc_linux/config.h\<close> and
  \<open>lib/inc_linux/snappy-stubs-public.h\<close>. The two must describe one machine, and the types of the second
  must not depend on the branch that is taken. Its version macro does not expand to an expression.
\<close>

section \<open>config.h\<close>

text \<open>What the header defines to 1, and what it leaves undefined.\<close>

definition linux_config :: "(string \<times> bool) list" where
  "linux_config = [
     (''HAVE_BUILTIN_CTZ'', True), (''HAVE_BUILTIN_EXPECT'', True), (''HAVE_BYTESWAP_H'', False),
     (''HAVE_FUNC_MMAP'', True), (''HAVE_FUNC_SYSCONF'', True), (''HAVE_GFLAGS'', False), (''HAVE_GTEST'', False),
     (''HAVE_LIBLZO2'', False), (''HAVE_LIBZ'', True), (''HAVE_STDDEF_H'', True), (''HAVE_STDINT_H'', True),
     (''HAVE_SYS_ENDIAN_H'', False), (''HAVE_SYS_MMAN_H'', True), (''HAVE_SYS_RESOURCE_H'', True),
     (''HAVE_SYS_TIME_H'', True), (''HAVE_SYS_UIO_H'', True), (''HAVE_UNISTD_H'', True), (''HAVE_WINDOWS_H'', False),
     (''SNAPPY_IS_BIG_ENDIAN'', False)]"

section \<open>snappy-stubs-public.h\<close>

text \<open>The conditions of its \<open>#if\<close>s, which were substituted when it was generated, with the header each includes.\<close>

definition stubs_guards :: "(string \<times> bool \<times> string) list" where
  "stubs_guards = [
     (''HAVE_STDINT_H'', True, ''stdint.h''), (''HAVE_STDDEF_H'', True, ''stddef.h''),
     (''HAVE_SYS_UIO_H'', True, ''sys/uio.h'')]"

text \<open>\<open>int8_t\<close> and the like, and the built-in types, each signed or not.\<close>

datatype c_integer = ExactWidth bool nat | CharT bool | ShortT bool | IntT bool | LongLongT bool

fun integer_scalar :: "c_integer \<Rightarrow> scalar" where
  "integer_scalar (ExactWidth is_signed n) = (if is_signed then Signed n else Unsigned n)"
| "integer_scalar (CharT is_signed) = (if is_signed then Signed 8 else Unsigned 8)"
| "integer_scalar (ShortT is_signed) = (if is_signed then Signed 16 else Unsigned 16)"
| "integer_scalar (IntT is_signed) = (if is_signed then Signed 32 else Unsigned 32)"
| "integer_scalar (LongLongT is_signed) = (if is_signed then Signed 64 else Unsigned 64)"

definition stubs_integers :: "bool \<Rightarrow> (string \<times> c_integer) list" where
  "stubs_integers have_stdint =
     (if have_stdint then
        [(''int8'', ExactWidth True 8), (''uint8'', ExactWidth False 8), (''int16'', ExactWidth True 16),
         (''uint16'', ExactWidth False 16), (''int32'', ExactWidth True 32), (''uint32'', ExactWidth False 32),
         (''int64'', ExactWidth True 64), (''uint64'', ExactWidth False 64)]
      else
        [(''int8'', CharT True), (''uint8'', CharT False), (''int16'', ShortT True), (''uint16'', ShortT False),
         (''int32'', IntT True), (''uint32'', IntT False), (''int64'', LongLongT True), (''uint64'', LongLongT False)])"

text \<open>The structure the header defines where the system has none.\<close>

definition stubs_iovec :: "bool \<Rightarrow> string list option" where
  "stubs_iovec have_sys_uio = (if \<not> have_sys_uio then Some [''iov_base'', ''iov_len''] else None)"

section \<open>The version macro\<close>

datatype tok = TLParen | TRParen | TShl | TOr | TNum nat

text \<open>The replacement lists of \<open>SNAPPY_MAJOR\<close>, \<open>SNAPPY_MINOR\<close> and \<open>SNAPPY_PATCHLEVEL\<close>, and of \<open>SNAPPY_VERSION\<close>.\<close>

definition linux_version_parts :: "tok list \<times> tok list \<times> tok list" where
  "linux_version_parts = ([], [], [])"

definition snappy_version :: "tok list \<times> tok list \<times> tok list \<Rightarrow> tok list" where
  "snappy_version = (\<lambda>(major, minor, patchlevel).
     [TLParen, TLParen] @ major @ [TShl, TNum 16, TRParen, TOr, TLParen] @ minor @ [TShl, TNum 8, TRParen, TOr]
       @ patchlevel @ [TRParen])"

text \<open>
  Expressions of C over numbers, parentheses, \<open><<\<close> and \<open>|\<close>, the first binding tighter; the parser evaluates
  as it goes. Five levels for each token are enough.
\<close>

datatype parsing = ParseOr | MoreOr nat | ParseShift | MoreShift nat | ParsePrimary

primrec c_parse :: "nat \<Rightarrow> parsing \<Rightarrow> tok list \<Rightarrow> (nat \<times> tok list) option" where
  "c_parse 0 p ts = None"
| "c_parse (Suc n) p ts =
     (case p of
        ParseOr \<Rightarrow> (case c_parse n ParseShift ts of None \<Rightarrow> None | Some (v, ts') \<Rightarrow> c_parse n (MoreOr v) ts')
      | MoreOr v \<Rightarrow>
          (case ts of
             TOr # ts1 \<Rightarrow> (case c_parse n ParseShift ts1 of None \<Rightarrow> None | Some (w, ts') \<Rightarrow> c_parse n (MoreOr (v OR w)) ts')
           | _ \<Rightarrow> Some (v, ts))
      | ParseShift \<Rightarrow> (case c_parse n ParsePrimary ts of None \<Rightarrow> None | Some (v, ts') \<Rightarrow> c_parse n (MoreShift v) ts')
      | MoreShift v \<Rightarrow>
          (case ts of
             TShl # ts1 \<Rightarrow>
               (case c_parse n ParsePrimary ts1 of None \<Rightarrow> None | Some (k, ts') \<Rightarrow> c_parse n (MoreShift (push_bit k v)) ts')
           | _ \<Rightarrow> Some (v, ts))
      | ParsePrimary \<Rightarrow>
          (case ts of
             TNum k # ts1 \<Rightarrow> Some (k, ts1)
           | TLParen # ts1 \<Rightarrow> (case c_parse n ParseOr ts1 of Some (v, TRParen # ts') \<Rightarrow> Some (v, ts') | _ \<Rightarrow> None)
           | _ \<Rightarrow> None))"

definition c_value :: "tok list \<Rightarrow> nat option" where
  "c_value ts = (case c_parse (5 * length ts) ParseOr ts of Some (v, []) \<Rightarrow> Some v | _ \<Rightarrow> None)"

section \<open>Lemmas\<close>

text \<open>The two headers describe one machine, and the types are the same in both branches.\<close>

lemma stubs_match_config:
  "list_all (\<lambda>(g, v, f). map_of linux_config g = Some v) stubs_guards"
  "map (\<lambda>(n, t). (n, integer_scalar t)) (stubs_integers True) = map (\<lambda>(n, t). (n, integer_scalar t)) (stubs_integers False)"
  "stubs_iovec v = None \<longleftrightarrow> v"
  by (simp_all add: stubs_guards_def linux_config_def stubs_integers_def stubs_iovec_def)

text \<open>The equations of the parser for a fuel that is a numeral.\<close>

lemmas c_parse_numeral = c_parse.simps(2) [of "pred_numeral k" for k, folded numeral_eq_Suc]

text \<open>
  With a number for each part the macro has the value of its documentation; with the empty parts of the
  header it is not an expression.
\<close>

lemma snappy_version_value:
  "c_value (snappy_version ([TNum a], [TNum b], [TNum c])) = Some ((push_bit 16 a OR push_bit 8 b) OR c)"
  by (simp add: c_value_def snappy_version_def c_parse_numeral)

lemma snappy_version_undefined: "c_value (snappy_version linux_version_parts) = None"
  by (simp add: c_value_def snappy_version_def linux_version_parts_def c_parse_numeral)

end
