(* ===== verification/Jni_Linkage.thy ===== *)
theory Jni_Linkage
  imports Jni_Interface
begin

text \<open>
  The linkage macros of \<open>lib/inc_*/jni_md.h\<close> and \<open>lib/inc_ibm/jniport.h\<close>, as what the preprocessor makes of
  them: a state of macros with their replacements, and each header a function on it. A function declared
  \<open>JNIEXPORT\<close> must be visible outside the library on every platform.
\<close>

section \<open>Macros\<close>

datatype replacement = Empty | DefaultVisibility | DllExport | DllImport | StdCall | Macro string

type_synonym macros = "string \<Rightarrow> replacement option"

definition macro_defined :: "macros \<Rightarrow> string \<Rightarrow> bool" where
  "macro_defined m n \<longleftrightarrow> m n \<noteq> None"

text \<open>\<open>#ifndef n\<close>, \<open>#define n t\<close>, \<open>#endif\<close>.\<close>

definition define_if_absent :: "string \<Rightarrow> replacement \<Rightarrow> macros \<Rightarrow> macros" where
  "define_if_absent n t m = (if macro_defined m n then m else m(n \<mapsto> t))"

text \<open>The body of a header inside its include guard.\<close>

definition guarded :: "string \<Rightarrow> (macros \<Rightarrow> macros) \<Rightarrow> macros \<Rightarrow> macros" where
  "guarded g body m = (if macro_defined m g then m else body (m(g \<mapsto> Empty)))"

section \<open>The headers\<close>

definition defines_linkage :: "replacement \<Rightarrow> replacement \<Rightarrow> replacement \<Rightarrow> macros \<Rightarrow> macros" where
  "defines_linkage export_as import_as call_as m =
     m(''JNIEXPORT'' \<mapsto> export_as, ''JNIIMPORT'' \<mapsto> import_as, ''JNICALL'' \<mapsto> call_as)"

definition linux_linkage :: "macros \<Rightarrow> macros" where
  "linux_linkage = guarded ''_JAVASOFT_JNI_MD_H_'' (defines_linkage DefaultVisibility Empty Empty)"

definition mac_linkage :: "macros \<Rightarrow> macros" where
  "mac_linkage = guarded ''_JAVASOFT_JNI_MD_H_'' (defines_linkage DefaultVisibility Empty Empty)"

definition win_linkage :: "macros \<Rightarrow> macros" where
  "win_linkage = guarded ''_JAVASOFT_JNI_MD_H_'' (defines_linkage DllExport DllImport StdCall)"

definition ibm_linkage :: "macros \<Rightarrow> macros" where
  "ibm_linkage = guarded ''_JAVASOFT_JNI_MD_H_'' (defines_linkage DefaultVisibility Empty Empty)"

text \<open>\<open>jniport.h\<close>. What \<open>AEEFile.h\<close> of the BREW platform defines is a parameter.\<close>

definition windows_like :: "macros \<Rightarrow> bool" where
  "windows_like m \<longleftrightarrow> macro_defined m ''WIN32'' \<or> macro_defined m ''_WIN32'' \<or> macro_defined m ''RIM386''
     \<or> macro_defined m ''BREW'' \<and> macro_defined m ''AEE_SIMULATOR''"

definition jniport_platform :: "(macros \<Rightarrow> macros) \<Rightarrow> macros \<Rightarrow> macros" where
  "jniport_platform aee_file m =
     (if windows_like m then m(''JNIEXPORT'' \<mapsto> DllExport, ''JNICALL'' \<mapsto> StdCall)
      else
        (let m1 = m(''JNIEXPORT'' \<mapsto> DefaultVisibility) in
         if macro_defined m1 ''BREW'' then (aee_file m1)(''FILE'' \<mapsto> Macro ''IFile'') else m1))"

definition jniport_linkage :: "(macros \<Rightarrow> macros) \<Rightarrow> macros \<Rightarrow> macros" where
  "jniport_linkage aee_file = guarded ''jniport_h''
     (\<lambda>m.
       (let m1 = define_if_absent ''JNIIMPORT'' Empty
                   (define_if_absent ''JNIEXPORT'' DefaultVisibility
                     (define_if_absent ''JNICALL'' Empty (jniport_platform aee_file m))) in
        m1(''_JNI_IMPORT_OR_EXPORT_'' \<mapsto>
          (if macro_defined m1 ''_JNI_IMPLEMENTATION_'' then Macro ''JNIEXPORT'' else Macro ''JNIIMPORT''))))"

section \<open>Lemmas\<close>

text \<open>The replacement after one more expansion, which is all these headers need.\<close>

definition expansion :: "macros \<Rightarrow> string \<Rightarrow> replacement option" where
  "expansion m n = (case m n of Some (Macro k) \<Rightarrow> m k | r \<Rightarrow> r)"

definition visible_outside :: "macros \<Rightarrow> string \<Rightarrow> bool" where
  "visible_outside m n \<longleftrightarrow> expansion m n = Some DefaultVisibility \<or> expansion m n = Some DllExport"

lemma linkage_header:
  assumes "h = guarded ''_JAVASOFT_JNI_MD_H_'' (defines_linkage e i c)" and "m ''_JAVASOFT_JNI_MD_H_'' = None"
    and "e = DefaultVisibility \<or> e = DllExport"
  shows "visible_outside (h m) ''JNIEXPORT'' \<and> h (h m) = h m \<and> macro_defined (h m) ''JNIIMPORT'' \<and> macro_defined (h m) ''JNICALL''"
  using assms(2,3) unfolding assms(1)
  by (auto simp: guarded_def defines_linkage_def macro_defined_def visible_outside_def expansion_def)

text \<open>Whichever header is included first, and however often, exported functions are visible.\<close>

lemma linkage_visible:
  assumes "m ''_JAVASOFT_JNI_MD_H_'' = None" and "h \<in> {linux_linkage, mac_linkage, win_linkage, ibm_linkage}"
  shows "visible_outside (h m) ''JNIEXPORT''" and "h (h m) = h m" and "macro_defined (h m) ''JNIIMPORT''"
    and "macro_defined (h m) ''JNICALL''"
proof -
  have "visible_outside (h m) ''JNIEXPORT'' \<and> h (h m) = h m \<and> macro_defined (h m) ''JNIIMPORT'' \<and> macro_defined (h m) ''JNICALL''"
    using assms(2) linkage_header [where m = m, OF _ assms(1)] linux_linkage_def mac_linkage_def win_linkage_def ibm_linkage_def
    by (elim insertE emptyE) metis+
  then show "visible_outside (h m) ''JNIEXPORT''" "h (h m) = h m" "macro_defined (h m) ''JNIIMPORT''"
    "macro_defined (h m) ''JNICALL''" by simp_all
qed

text \<open>
  In \<open>jniport.h\<close> the calling convention and the visibility agree: Windows-like targets get both attributes
  of Windows, the others none of them. The functions of the virtual machine itself are exported by its
  implementation only.
\<close>

definition aee_neutral :: "(macros \<Rightarrow> macros) \<Rightarrow> bool" where
  "aee_neutral aee_file \<longleftrightarrow> (\<forall>m. list_all (\<lambda>n. aee_file m n = m n)
     [''JNIEXPORT'', ''JNICALL'', ''JNIIMPORT'', ''_JNI_IMPLEMENTATION_'', ''jniport_h''])"

lemma jniport_platform_macros:
  assumes "aee_neutral aee_file"
  shows "jniport_platform aee_file m ''JNIEXPORT'' = Some (if windows_like m then DllExport else DefaultVisibility)"
    and "jniport_platform aee_file m ''JNICALL'' = (if windows_like m then Some StdCall else m ''JNICALL'')"
    and "n \<in> {''JNIIMPORT'', ''_JNI_IMPLEMENTATION_'', ''jniport_h''} \<Longrightarrow> jniport_platform aee_file m n = m n"
proof -
  have a: "aee_file k ''JNIEXPORT'' = k ''JNIEXPORT''" "aee_file k ''JNICALL'' = k ''JNICALL''"
    "n \<in> {''JNIIMPORT'', ''_JNI_IMPLEMENTATION_'', ''jniport_h''} \<Longrightarrow> aee_file k n = k n" for k n
    using assms by (auto simp: aee_neutral_def)
  show "jniport_platform aee_file m ''JNIEXPORT'' = Some (if windows_like m then DllExport else DefaultVisibility)"
    by (simp add: jniport_platform_def Let_def a)
  show "jniport_platform aee_file m ''JNICALL'' = (if windows_like m then Some StdCall else m ''JNICALL'')"
    by (simp add: jniport_platform_def Let_def a)
  show "n \<in> {''JNIIMPORT'', ''_JNI_IMPLEMENTATION_'', ''jniport_h''} \<Longrightarrow> jniport_platform aee_file m n = m n"
    using a(3) by (auto simp: jniport_platform_def Let_def)
qed

lemma jniport_visible:
  assumes m: "m ''jniport_h'' = None" "m ''JNICALL'' = None" "m ''JNIIMPORT'' = None" and aee: "aee_neutral aee_file"
  defines "p \<equiv> jniport_linkage aee_file m"
  shows "p ''JNIEXPORT'' = Some (if windows_like m then DllExport else DefaultVisibility)"
    and "p ''JNICALL'' = Some (if windows_like m then StdCall else Empty)"
    and "visible_outside p ''_JNI_IMPORT_OR_EXPORT_'' \<longleftrightarrow> macro_defined m ''_JNI_IMPLEMENTATION_''"
    and "jniport_linkage aee_file p = p"
proof -
  define q where "q = jniport_platform aee_file (m(''jniport_h'' \<mapsto> Empty))"
  have w: "windows_like (m(''jniport_h'' \<mapsto> Empty)) = windows_like m" by (simp add: windows_like_def macro_defined_def)
  have q: "q ''JNIEXPORT'' = Some (if windows_like m then DllExport else DefaultVisibility)"
    "q ''JNICALL'' = (if windows_like m then Some StdCall else None)" "q ''JNIIMPORT'' = None"
    "q ''_JNI_IMPLEMENTATION_'' = m ''_JNI_IMPLEMENTATION_''" "q ''jniport_h'' = Some Empty"
    using jniport_platform_macros [OF aee, where m = "m(''jniport_h'' \<mapsto> Empty)"] m(2,3) unfolding q_def w by simp_all
  define c where "c = (if windows_like m then StdCall else Empty)"
  have d: "define_if_absent ''JNICALL'' Empty q = q(''JNICALL'' \<mapsto> c)"
    using q(2) by (auto simp: define_if_absent_def macro_defined_def c_def)
  have p: "p = q(''JNICALL'' \<mapsto> c, ''JNIIMPORT'' \<mapsto> Empty, ''_JNI_IMPORT_OR_EXPORT_'' \<mapsto>
      (if macro_defined m ''_JNI_IMPLEMENTATION_'' then Macro ''JNIEXPORT'' else Macro ''JNIIMPORT''))"
    using m(1) q(1,3,4) unfolding p_def jniport_linkage_def guarded_def Let_def q_def [symmetric] d
    by (simp add: define_if_absent_def macro_defined_def)
  show "p ''JNIEXPORT'' = Some (if windows_like m then DllExport else DefaultVisibility)"
    "p ''JNICALL'' = Some (if windows_like m then StdCall else Empty)"
    using q(1) by (simp_all add: p c_def)
  show "visible_outside p ''_JNI_IMPORT_OR_EXPORT_'' \<longleftrightarrow> macro_defined m ''_JNI_IMPLEMENTATION_''"
    using q(1) by (simp add: p visible_outside_def expansion_def)
  have "p ''jniport_h'' \<noteq> None" using q(5) by (simp add: p)
  then show "jniport_linkage aee_file p = p" by (simp add: jniport_linkage_def guarded_def macro_defined_def)
qed

end
