(* ===== verification/Native_Jvm.thy ===== *)
theory Native_Jvm
  imports Errors
begin

text \<open>
  What the C++ sources run against: the Java VM as far as the JNI functions they call expose
  it, raw memory behind pointers, and the snappy and bitshuffle libraries. The libraries are not
  part of the repository, so they are parameters (\<open>snappy_lib\<close>, \<open>bitshuffle_lib\<close>); what the sources
  rely on is stated in \<open>lib_roundtrip\<close>, \<open>lib_space\<close> and \<open>lib_lengths\<close>.

  Undefined behaviour is a value: an operation ends in \<open>Inl\<close> of a \<open>fault\<close> where the C++ program
  would read or write outside the memory it was given, break a JNI rule, or use an
  uninitialised variable. A pending Java exception is part of the state, as in JNI.
\<close>

section \<open>Pointers, faults and the state of the VM\<close>

datatype fault = OutOfBounds | Misuse | Uninitialized | DivisionByZero | Overlap

datatype ptr = Null | ArrayPtr nat int | DirectPtr nat int | RawPtr int

fun ptr_add :: "ptr \<Rightarrow> int \<Rightarrow> ptr" where
  "ptr_add Null n = Null"
| "ptr_add (ArrayPtr h i) n = ArrayPtr h (i + n)"
| "ptr_add (DirectPtr h i) n = DirectPtr h (i + n)"
| "ptr_add (RawPtr a) n = RawPtr (a + n)"

datatype pending = ThrowError int | LinkageError

text \<open>
  \<open>arrays\<close> are the primitive arrays by handle, as bytes; \<open>directs\<close> the memory of the direct
  buffers (a handle outside its domain is not a direct buffer); \<open>grants k\<close> tells whether the
  \<open>k\<close>-th request for a critical array succeeds; \<open>pinned\<close> are the arrays held critical.
\<close>

record jvm =
  arrays :: "nat \<Rightarrow> bytes option"
  directs :: "nat \<Rightarrow> bytes option"
  memory :: "int \<Rightarrow> byte option"
  grants :: "nat \<Rightarrow> bool"
  requests :: nat
  pinned :: "nat list"
  pending_exc :: "pending option"
  class_of :: "nat \<Rightarrow> string"
  loadable :: "string \<Rightarrow> bool"

type_synonym 'a native = "(jvm, fault, 'a) op"

section \<open>Memory access\<close>

definition size_t :: "int \<Rightarrow> int" where
  "size_t n = n mod 18446744073709551616"

fun all_some :: "'a option list \<Rightarrow> 'a list option" where
  "all_some [] = Some []"
| "all_some (None # xs) = None"
| "all_some (Some x # xs) = map_option (\<lambda>ys. x # ys) (all_some xs)"

text \<open>The \<open>n\<close> bytes a pointer leads to, if all of them may be accessed.\<close>

fun accessible :: "jvm \<Rightarrow> ptr \<Rightarrow> int \<Rightarrow> bytes option" where
  "accessible s Null n = None"
| "accessible s (ArrayPtr h i) n =
     (case arrays s h of
        None \<Rightarrow> None
      | Some a \<Rightarrow> if h \<in> set (pinned s) \<and> in_range i n (length a) then Some (segment i n a) else None)"
| "accessible s (DirectPtr h i) n =
     (case directs s h of
        None \<Rightarrow> None
      | Some a \<Rightarrow> if in_range i n (length a) then Some (segment i n a) else None)"
| "accessible s (RawPtr a) n =
     (if 0 \<le> n then all_some (map (\<lambda>k. memory s (a + int k)) [0..<nat n]) else None)"

definition load :: "ptr \<Rightarrow> int \<Rightarrow> bytes native" where
  "load p n s = (case accessible s p n of None \<Rightarrow> (Inl OutOfBounds, s) | Some bs \<Rightarrow> (Inr bs, s))"

definition require_space :: "ptr \<Rightarrow> int \<Rightarrow> unit native" where
  "require_space p n s = (case accessible s p n of None \<Rightarrow> (Inl OutOfBounds, s) | Some _ \<Rightarrow> (Inr (), s))"

fun write_bytes :: "ptr \<Rightarrow> bytes \<Rightarrow> jvm \<Rightarrow> jvm" where
  "write_bytes Null bs s = s"
| "write_bytes (ArrayPtr h i) bs s =
     s\<lparr>arrays := (arrays s)(h := map_option (\<lambda>a. blit a i bs) (arrays s h))\<rparr>"
| "write_bytes (DirectPtr h i) bs s =
     s\<lparr>directs := (directs s)(h := map_option (\<lambda>a. blit a i bs) (directs s h))\<rparr>"
| "write_bytes (RawPtr a) bs s =
     s\<lparr>memory := (\<lambda>x. if a \<le> x \<and> x < a + int (length bs) then Some (bs ! nat (x - a)) else memory s x)\<rparr>"

definition store :: "ptr \<Rightarrow> bytes \<Rightarrow> unit native" where
  "store p bs = bindS (require_space p (int (length bs))) (\<lambda>_. modifyS (write_bytes p bs))"

definition ranges_meet :: "int \<Rightarrow> int \<Rightarrow> int \<Rightarrow> int \<Rightarrow> bool" where
  "ranges_meet i m j n \<longleftrightarrow> 0 < m \<and> 0 < n \<and> i < j + n \<and> j < i + m"

fun overlap :: "ptr \<Rightarrow> int \<Rightarrow> ptr \<Rightarrow> int \<Rightarrow> bool" where
  "overlap (ArrayPtr h i) m (ArrayPtr h' j) n = (h = h' \<and> ranges_meet i m j n)"
| "overlap (DirectPtr h i) m (DirectPtr h' j) n = (h = h' \<and> ranges_meet i m j n)"
| "overlap (RawPtr i) m (RawPtr j) n = ranges_meet i m j n"
| "overlap _ _ _ _ = False"

definition disjoint_ranges :: "ptr \<Rightarrow> int \<Rightarrow> ptr \<Rightarrow> int \<Rightarrow> unit native" where
  "disjoint_ranges p m q n = (if overlap p m q n then throwS Overlap else returnS ())"

text \<open>Reading a local that a failed call may have left unset.\<close>

definition initialized :: "'a option \<Rightarrow> 'a native" where
  "initialized v = (case v of None \<Rightarrow> throwS Uninitialized | Some x \<Rightarrow> returnS x)"

definition memcpy :: "ptr \<Rightarrow> ptr \<Rightarrow> int \<Rightarrow> unit native" where
  "memcpy dest src n =
     bindS (load src n) (\<lambda>bs.
     bindS (require_space dest n) (\<lambda>_.
     bindS (disjoint_ranges src n dest n) (\<lambda>_.
     store dest bs)))"

section \<open>The JNI functions the sources call\<close>

text \<open>
  Outside a critical section and with no exception pending any JNI function may be called;
  inside one only the two critical functions may.
\<close>

definition jni_call :: "unit native" where
  "jni_call s = (if pinned s = [] \<and> pending_exc s = None then (Inr (), s) else (Inl Misuse, s))"

definition GetPrimitiveArrayCritical :: "nat \<Rightarrow> ptr native" where
  "GetPrimitiveArrayCritical h s =
     (if arrays s h = None \<or> pending_exc s \<noteq> None then (Inl Misuse, s)
      else if grants s (requests s)
      then (Inr (ArrayPtr h 0), s\<lparr>requests := Suc (requests s), pinned := h # pinned s\<rparr>)
      else (Inr Null, s\<lparr>requests := Suc (requests s)\<rparr>))"

definition ReleasePrimitiveArrayCritical :: "nat \<Rightarrow> ptr \<Rightarrow> unit native" where
  "ReleasePrimitiveArrayCritical h p s =
     (if h \<in> set (pinned s) \<and> p = ArrayPtr h 0
      then (Inr (), s\<lparr>pinned := remove1 h (pinned s)\<rparr>) else (Inl Misuse, s))"

definition GetDirectBufferAddress :: "nat \<Rightarrow> ptr native" where
  "GetDirectBufferAddress h = bindS jni_call (\<lambda>_ s.
     (Inr (if directs s h = None then Null else DirectPtr h 0), s))"

definition GetObjectClass :: "nat \<Rightarrow> string option native" where
  "GetObjectClass h = bindS jni_call (\<lambda>_ s. (Inr (Some (class_of s h)), s))"

definition FindClass :: "string \<Rightarrow> string option native" where
  "FindClass c = bindS jni_call (\<lambda>_ s.
     if loadable s c then (Inr (Some c), s) else (Inr None, s\<lparr>pending_exc := Some LinkageError\<rparr>))"

text \<open>Only \<open>SnappyNative\<close> declares \<open>throw_error\<close>; \<open>BitShuffleNative\<close> declares nothing but natives.\<close>

definition SnappyNative :: string where "SnappyNative = ''org/xerial/snappy/SnappyNative''"
definition BitShuffleNative :: string where "BitShuffleNative = ''org/xerial/snappy/BitShuffleNative''"

definition declares_throw_error :: "string \<Rightarrow> bool" where
  "declares_throw_error c \<longleftrightarrow> c = SnappyNative"

definition GetMethodID_throw_error :: "string \<Rightarrow> string option native" where
  "GetMethodID_throw_error c = bindS jni_call (\<lambda>_ s.
     if declares_throw_error c then (Inr (Some c), s) else (Inr None, s\<lparr>pending_exc := Some LinkageError\<rparr>))"

text \<open>
  \<open>CallVoidMethod\<close> with a method id needs an object of the class the id was taken from. The
  method called here is \<open>throw_error\<close>, which always throws.
\<close>

definition CallVoidMethod_throw_error :: "nat \<Rightarrow> string \<Rightarrow> int \<Rightarrow> unit native" where
  "CallVoidMethod_throw_error self mid code = bindS jni_call (\<lambda>_ s.
     if class_of s self = mid then (Inr (), s\<lparr>pending_exc := Some (ThrowError code)\<rparr>)
     else (Inl Misuse, s))"

text \<open>The exception the Java caller sees when a native method returns with one pending.\<close>

fun java_exception :: "pending \<Rightarrow> exc option" where
  "java_exception (ThrowError code) = Some (throw_error code)"
| "java_exception LinkageError = None"

section \<open>The libraries\<close>

text \<open>
  \<open>compress_spill x\<close> is what \<open>RawCompress\<close> leaves in the destination behind the compressed bytes;
  \<open>uncompress_raw x\<close> tells whether \<open>RawUncompress\<close> succeeds and what it has written by then.
\<close>

record snappy_lib =
  compress_raw :: "bytes \<Rightarrow> bytes"
  compress_spill :: "bytes \<Rightarrow> bytes"
  max_compressed :: "nat \<Rightarrow> nat"
  parse_length :: "bytes \<Rightarrow> nat option"
  uncompress_raw :: "bytes \<Rightarrow> bool \<times> bytes"
  valid_compressed :: "bytes \<Rightarrow> bool"

definition lib_roundtrip :: "snappy_lib \<Rightarrow> bool" where
  "lib_roundtrip lib \<longleftrightarrow> (\<forall>x. length x < 2 ^ 32 \<longrightarrow>
     parse_length lib (compress_raw lib x) = Some (length x) \<and>
     uncompress_raw lib (compress_raw lib x) = (True, x) \<and>
     valid_compressed lib (compress_raw lib x))"

definition lib_space :: "snappy_lib \<Rightarrow> bool" where
  "lib_space lib \<longleftrightarrow>
     (\<forall>x. length (compress_raw lib x) + length (compress_spill lib x) \<le> max_compressed lib (length x))"

definition lib_lengths :: "snappy_lib \<Rightarrow> bool" where
  "lib_lengths lib \<longleftrightarrow>
     (\<forall>y. (parse_length lib y = None \<longrightarrow> uncompress_raw lib y = (False, [])) \<and>
       (\<forall>n. parse_length lib y = Some n \<longrightarrow> n < 2 ^ 32 \<and> length (snd (uncompress_raw lib y)) \<le> n \<and>
          (fst (uncompress_raw lib y) \<longrightarrow> length (snd (uncompress_raw lib y)) = n)))"

definition RawCompress :: "snappy_lib \<Rightarrow> ptr \<Rightarrow> int \<Rightarrow> ptr \<Rightarrow> nat native" where
  "RawCompress lib src n dst =
     bindS (load src n) (\<lambda>x.
     bindS (require_space dst (int (max_compressed lib (nat n)))) (\<lambda>_.
     bindS (disjoint_ranges src n dst (int (max_compressed lib (nat n)))) (\<lambda>_.
     bindS (store dst (compress_raw lib x @ compress_spill lib x)) (\<lambda>_.
     returnS (length (compress_raw lib x))))))"

definition GetUncompressedLength :: "snappy_lib \<Rightarrow> ptr \<Rightarrow> int \<Rightarrow> nat option native" where
  "GetUncompressedLength lib src n = bindS (load src n) (\<lambda>y. returnS (parse_length lib y))"

definition RawUncompress :: "snappy_lib \<Rightarrow> ptr \<Rightarrow> int \<Rightarrow> ptr \<Rightarrow> bool native" where
  "RawUncompress lib src n dst =
     bindS (load src n) (\<lambda>y.
       case parse_length lib y of
         None \<Rightarrow> returnS (fst (uncompress_raw lib y))
       | Some m \<Rightarrow>
           bindS (require_space dst (int m)) (\<lambda>_.
           bindS (disjoint_ranges src n dst (int m)) (\<lambda>_.
           bindS (store dst (snd (uncompress_raw lib y))) (\<lambda>_.
           returnS (fst (uncompress_raw lib y))))))"

definition IsValidCompressedBuffer :: "snappy_lib \<Rightarrow> ptr \<Rightarrow> int \<Rightarrow> bool native" where
  "IsValidCompressedBuffer lib src n = bindS (load src n) (\<lambda>y. returnS (valid_compressed lib y))"

text \<open>
  The bitshuffle library transposes the bits of \<open>size\<close> elements of \<open>elem_size\<close> bytes from one
  buffer into another of the same size, or refuses with a negative code.
\<close>

record bitshuffle_lib =
  bit_shuffle :: "nat \<Rightarrow> bytes \<Rightarrow> int + bytes"
  bit_unshuffle :: "nat \<Rightarrow> bytes \<Rightarrow> int + bytes"

definition bshuf_call :: "(nat \<Rightarrow> bytes \<Rightarrow> int + bytes) \<Rightarrow> ptr \<Rightarrow> ptr \<Rightarrow> int \<Rightarrow> int \<Rightarrow> int native" where
  "bshuf_call f src dst n elem_size =
     bindS (load src (n * elem_size)) (\<lambda>x.
     bindS (require_space dst (n * elem_size)) (\<lambda>_.
     bindS (disjoint_ranges src (n * elem_size) dst (n * elem_size)) (\<lambda>_.
       case f (nat elem_size) x of
         Inl code \<Rightarrow> returnS code
       | Inr y \<Rightarrow> bindS (store dst y) (\<lambda>_. returnS (int (length y))))))"

definition bshuf_ok :: "bitshuffle_lib \<Rightarrow> bool" where
  "bshuf_ok lib \<longleftrightarrow>
     (\<forall>k x. 0 < k \<and> k dvd length x \<longrightarrow>
        (\<exists>y. bit_shuffle lib k x = Inr y \<and> length y = length x \<and> bit_unshuffle lib k y = Inr x))"

end
