(* ===== verification/Snappy_Native.thy ===== *)
theory Snappy_Native
  imports Native_Jvm
begin

text \<open>
  \<open>SnappyNative.cpp\<close>, function by function. Each definition follows the C++ body: the pointers
  are fetched in the same order, the error branch releases what was pinned before it throws,
  and the result is narrowed by the same cast. \<open>self\<close> is the \<open>SnappyNative\<close> object.

  The lemmas give the exact outcome of each function on a VM with no exception pending and
  nothing pinned. The properties collect them.
\<close>

section \<open>The functions\<close>

definition throw_exception :: "nat \<Rightarrow> int \<Rightarrow> unit native" where
  "throw_exception self errorCode =
     bindS (GetObjectClass self) (\<lambda>c.
       case c of None \<Rightarrow> returnS () | Some c \<Rightarrow>
         bindS (GetMethodID_throw_error c) (\<lambda>mth_throwex.
           case mth_throwex of None \<Rightarrow> returnS () | Some mth_throwex \<Rightarrow>
             CallVoidMethod_throw_error self mth_throwex errorCode))"

definition nativeLibraryVersion :: "string native" where
  "nativeLibraryVersion = bindS jni_call (\<lambda>_. returnS ''1.1.3'')"

definition rawCompress_JJJ :: "snappy_lib \<Rightarrow> nat \<Rightarrow> int \<Rightarrow> int \<Rightarrow> int \<Rightarrow> int native" where
  "rawCompress_JJJ lib self srcAddr len destAddr =
     bindS (RawCompress lib (RawPtr srcAddr) (size_t len) (RawPtr destAddr)) (\<lambda>compressedLength.
     returnS (i64 (int compressedLength)))"

definition rawUncompress_JJJ :: "snappy_lib \<Rightarrow> nat \<Rightarrow> int \<Rightarrow> int \<Rightarrow> int \<Rightarrow> int native" where
  "rawUncompress_JJJ lib self srcAddr len destAddr =
     bindS (GetUncompressedLength lib (RawPtr srcAddr) (size_t len)) (\<lambda>uncompressedLength.
     bindS (RawUncompress lib (RawPtr srcAddr) (size_t len) (RawPtr destAddr)) (\<lambda>ret.
     if \<not> ret then bindS (throw_exception self 5) (\<lambda>_. returnS 0)
     else bindS (initialized uncompressedLength) (\<lambda>l. returnS (i64 (int l)))))"

definition rawCompress_direct :: "snappy_lib \<Rightarrow> nat \<Rightarrow> nat \<Rightarrow> int \<Rightarrow> int \<Rightarrow> nat \<Rightarrow> int \<Rightarrow> int native" where
  "rawCompress_direct lib self uncompressed upos ulen compressed cpos =
     bindS (GetDirectBufferAddress uncompressed) (\<lambda>uncompressedBuffer.
     bindS (GetDirectBufferAddress compressed) (\<lambda>compressedBuffer.
     if uncompressedBuffer = Null \<or> compressedBuffer = Null
     then bindS (throw_exception self 3) (\<lambda>_. returnS 0)
     else
       bindS (RawCompress lib (ptr_add uncompressedBuffer upos) (size_t ulen) (ptr_add compressedBuffer cpos))
         (\<lambda>compressedLength. returnS (i32 (int compressedLength)))))"

text \<open>
  The prologue shared by the array functions: pin both arrays; if either request fails,
  release the other one and throw \<open>OUT_OF_MEMORY\<close>.
\<close>

definition with_arrays :: "nat \<Rightarrow> nat \<Rightarrow> nat \<Rightarrow> 'a \<Rightarrow> (ptr \<Rightarrow> ptr \<Rightarrow> 'a native) \<Rightarrow> 'a native" where
  "with_arrays self input output zero body =
     bindS (GetPrimitiveArrayCritical input) (\<lambda>inp.
     bindS (GetPrimitiveArrayCritical output) (\<lambda>outp.
     if inp = Null \<or> outp = Null then
       bindS (if inp \<noteq> Null then ReleasePrimitiveArrayCritical input inp else returnS ()) (\<lambda>_.
       bindS (if outp \<noteq> Null then ReleasePrimitiveArrayCritical output outp else returnS ()) (\<lambda>_.
       bindS (throw_exception self 4) (\<lambda>_.
       returnS zero)))
     else body inp outp))"

definition rawCompress_array :: "snappy_lib \<Rightarrow> nat \<Rightarrow> nat \<Rightarrow> int \<Rightarrow> int \<Rightarrow> nat \<Rightarrow> int \<Rightarrow> int native" where
  "rawCompress_array lib self input inputOffset inputLen output outputOffset =
     with_arrays self input output 0 (\<lambda>inp outp.
       bindS (RawCompress lib (ptr_add inp inputOffset) (size_t inputLen) (ptr_add outp outputOffset))
         (\<lambda>compressedLength.
       bindS (ReleasePrimitiveArrayCritical input inp) (\<lambda>_.
       bindS (ReleasePrimitiveArrayCritical output outp) (\<lambda>_.
       returnS (i32 (int compressedLength))))))"

definition rawUncompress_array :: "snappy_lib \<Rightarrow> nat \<Rightarrow> nat \<Rightarrow> int \<Rightarrow> int \<Rightarrow> nat \<Rightarrow> int \<Rightarrow> int native" where
  "rawUncompress_array lib self input inputOffset inputLength output outputOffset =
     with_arrays self input output 0 (\<lambda>inp outp.
       bindS (GetUncompressedLength lib (ptr_add inp inputOffset) (size_t inputLength))
         (\<lambda>uncompressedLength.
       bindS (RawUncompress lib (ptr_add inp inputOffset) (size_t inputLength) (ptr_add outp outputOffset))
         (\<lambda>ret.
       bindS (ReleasePrimitiveArrayCritical input inp) (\<lambda>_.
       bindS (ReleasePrimitiveArrayCritical output outp) (\<lambda>_.
       if \<not> ret then bindS (throw_exception self 5) (\<lambda>_. returnS 0)
       else bindS (initialized uncompressedLength) (\<lambda>l. returnS (i32 (int l))))))))"

definition rawUncompress_direct :: "snappy_lib \<Rightarrow> nat \<Rightarrow> nat \<Rightarrow> int \<Rightarrow> int \<Rightarrow> nat \<Rightarrow> int \<Rightarrow> int native" where
  "rawUncompress_direct lib self compressed cpos clen decompressed dpos =
     bindS (GetDirectBufferAddress compressed) (\<lambda>compressedBuffer.
     bindS (GetDirectBufferAddress decompressed) (\<lambda>decompressedBuffer.
     if compressedBuffer = Null \<or> decompressedBuffer = Null
     then bindS (throw_exception self 3) (\<lambda>_. returnS 0)
     else
       bindS (GetUncompressedLength lib (ptr_add compressedBuffer cpos) (size_t clen))
         (\<lambda>decompressedLength.
       bindS (RawUncompress lib (ptr_add compressedBuffer cpos) (size_t clen) (ptr_add decompressedBuffer dpos))
         (\<lambda>ret.
       if \<not> ret then bindS (throw_exception self 5) (\<lambda>_. returnS 0)
       else bindS (initialized decompressedLength) (\<lambda>l. returnS (i32 (int l)))))))"

definition maxCompressedLength :: "snappy_lib \<Rightarrow> int \<Rightarrow> int" where
  "maxCompressedLength lib sz = i32 (int (max_compressed lib (nat (size_t sz))))"

definition uncompressedLength_direct :: "snappy_lib \<Rightarrow> nat \<Rightarrow> nat \<Rightarrow> int \<Rightarrow> int \<Rightarrow> int native" where
  "uncompressedLength_direct lib self compressed cpos clen =
     bindS (GetDirectBufferAddress compressed) (\<lambda>compressedBuffer.
     if compressedBuffer = Null then bindS (throw_exception self 3) (\<lambda>_. returnS 0)
     else
       bindS (GetUncompressedLength lib (ptr_add compressedBuffer cpos) (size_t clen)) (\<lambda>result.
       case result of
         None \<Rightarrow> bindS (throw_exception self 2) (\<lambda>_. returnS 0)
       | Some l \<Rightarrow> returnS (i32 (int l))))"

definition uncompressedLength_array :: "snappy_lib \<Rightarrow> nat \<Rightarrow> nat \<Rightarrow> int \<Rightarrow> int \<Rightarrow> int native" where
  "uncompressedLength_array lib self input offset len =
     bindS (GetPrimitiveArrayCritical input) (\<lambda>inp.
     if inp = Null then bindS (throw_exception self 4) (\<lambda>_. returnS 0)
     else
       bindS (GetUncompressedLength lib (ptr_add inp offset) (size_t len)) (\<lambda>result.
       bindS (ReleasePrimitiveArrayCritical input inp) (\<lambda>_.
       case result of
         None \<Rightarrow> bindS (throw_exception self 2) (\<lambda>_. returnS 0)
       | Some l \<Rightarrow> returnS (i32 (int l)))))"

text \<open>This one returns a \<open>jlong\<close>, but the source casts to \<open>jint\<close>.\<close>

definition uncompressedLength_JJ :: "snappy_lib \<Rightarrow> nat \<Rightarrow> int \<Rightarrow> int \<Rightarrow> int native" where
  "uncompressedLength_JJ lib self inputAddr len =
     bindS (GetUncompressedLength lib (RawPtr inputAddr) (size_t len)) (\<lambda>result.
     case result of
       None \<Rightarrow> bindS (throw_exception self 2) (\<lambda>_. returnS 0)
     | Some l \<Rightarrow> returnS (i32 (int l)))"

definition isValidCompressedBuffer_direct :: "snappy_lib \<Rightarrow> nat \<Rightarrow> nat \<Rightarrow> int \<Rightarrow> int \<Rightarrow> bool native" where
  "isValidCompressedBuffer_direct lib self compressed cpos clen =
     bindS (GetDirectBufferAddress compressed) (\<lambda>compressedBuffer.
     if compressedBuffer = Null then bindS (throw_exception self 3) (\<lambda>_. returnS False)
     else IsValidCompressedBuffer lib (ptr_add compressedBuffer cpos) (size_t clen))"

definition isValidCompressedBuffer_array :: "snappy_lib \<Rightarrow> nat \<Rightarrow> nat \<Rightarrow> int \<Rightarrow> int \<Rightarrow> bool native" where
  "isValidCompressedBuffer_array lib self input offset len =
     bindS (GetPrimitiveArrayCritical input) (\<lambda>inp.
     if inp = Null then bindS (throw_exception self 4) (\<lambda>_. returnS False)
     else
       bindS (IsValidCompressedBuffer lib (ptr_add inp offset) (size_t len)) (\<lambda>ret.
       bindS (ReleasePrimitiveArrayCritical input inp) (\<lambda>_.
       returnS ret)))"

definition isValidCompressedBuffer_JJJ :: "snappy_lib \<Rightarrow> nat \<Rightarrow> int \<Rightarrow> int \<Rightarrow> int \<Rightarrow> bool native" where
  "isValidCompressedBuffer_JJJ lib self inputAddr offset len =
     (if inputAddr = 0 then bindS (throw_exception self 4) (\<lambda>_. returnS False)
      else IsValidCompressedBuffer lib (RawPtr (i64 (inputAddr + offset))) (size_t len))"

definition arrayCopy :: "nat \<Rightarrow> nat \<Rightarrow> int \<Rightarrow> int \<Rightarrow> nat \<Rightarrow> int \<Rightarrow> unit native" where
  "arrayCopy self input offset len output output_offset =
     with_arrays self input output () (\<lambda>src dest.
       bindS (memcpy (ptr_add dest output_offset) (ptr_add src offset) (size_t len)) (\<lambda>_.
       bindS (ReleasePrimitiveArrayCritical input src) (\<lambda>_.
       ReleasePrimitiveArrayCritical output dest)))"

section \<open>Outcome lemmas\<close>

text \<open>A VM in the state a Java caller hands over: nothing pinned, no exception pending.\<close>

definition idle :: "nat \<Rightarrow> jvm \<Rightarrow> bool" where
  "idle self s \<longleftrightarrow> pinned s = [] \<and> pending_exc s = None \<and> class_of s self = SnappyNative"

definition throwing :: "int \<Rightarrow> jvm \<Rightarrow> jvm" where
  "throwing code s = s\<lparr>pending_exc := Some (ThrowError code)\<rparr>"

definition both_granted :: "jvm \<Rightarrow> bool" where
  "both_granted s \<longleftrightarrow> grants s (requests s) \<and> grants s (Suc (requests s))"

definition asked :: "nat \<Rightarrow> jvm \<Rightarrow> jvm" where
  "asked n s = s\<lparr>requests := requests s + n\<rparr>"

lemma throw_exception_idle:
  "idle self s \<Longrightarrow> throw_exception self code s = (Inr (), throwing code s)"
  by (simp add: idle_def throwing_def throw_exception_def GetObjectClass_def GetMethodID_throw_error_def
      CallVoidMethod_throw_error_def declares_throw_error_def jni_call_def op_simps)

lemma idle_asked [simp]: "idle self (asked n s) = idle self s"
  by (simp add: idle_def asked_def)

lemma with_arrays_outcome:
  assumes "idle self s" and "arrays s input = Some a" and "arrays s output = Some b"
  shows "with_arrays self input output z body s =
    (if both_granted s
     then body (ArrayPtr input 0) (ArrayPtr output 0) ((asked 2 s)\<lparr>pinned := [output, input]\<rparr>)
     else (Inr z, throwing 4 (asked 2 s)))"
proof -
  have t: "throw_exception self 4 (asked 2 s) = (Inr (), throwing 4 (asked 2 s))"
    using assms(1) by (simp add: throw_exception_idle)
  have p: "(asked 2 s)\<lparr>pinned := []\<rparr> = asked 2 s"
    using assms(1) by (cases s) (simp add: asked_def idle_def)
  have t': "throw_exception self 4 (s\<lparr>requests := Suc (Suc (requests s)), pinned := []\<rparr>)
      = (Inr (), throwing 4 (asked 2 s))"
    using t p by (simp add: asked_def)
  show ?thesis
    using assms t t'
    by (auto simp: with_arrays_def GetPrimitiveArrayCritical_def ReleasePrimitiveArrayCritical_def
        both_granted_def asked_def idle_def op_simps)
qed

lemma size_t_array [simp]: "0 \<le> n \<Longrightarrow> n \<le> int_max \<Longrightarrow> size_t n = n"
  by (simp add: size_t_def int_max_def)

text \<open>A negative length becomes a huge \<open>size_t\<close>, which no Java array has.\<close>

lemma in_range_size_t:
  assumes "is_i32 n" and "int (length a) \<le> int_max"
  shows "in_range off (size_t n) (length a) = in_range off n (length a)"
proof (cases "0 \<le> n")
  case True
  then show ?thesis using assms by (simp add: is_i32_def int_max_def)
next
  case False
  have "size_t n = (n + 18446744073709551616) mod 18446744073709551616"
    by (simp add: size_t_def)
  also have "\<dots> = n + 18446744073709551616"
    using False assms(1) by (intro mod_pos_pos_trivial) (auto simp: is_i32_def)
  finally have "size_t n = n + 18446744073709551616" .
  then show ?thesis
    using False assms by (auto simp: in_range_def is_i32_def int_max_def)
qed

section \<open>Memory lemmas\<close>

lemma all_some_map: "all_some (map f xs) = (if \<forall>x \<in> set xs. f x \<noteq> None then Some (map (the \<circ> f) xs) else None)"
proof (induction xs)
  case (Cons a xs)
  then show ?case by (cases "f a") auto
qed simp

lemma length_accessible: "accessible s p n = Some x \<Longrightarrow> 0 \<le> n \<and> length x = nat n"
  by (cases p) (auto simp: all_some_map in_range_def segment_simps split: option.splits if_splits)

lemma accessible_prefix:
  "accessible s p n = Some x \<Longrightarrow> 0 \<le> m \<Longrightarrow> m \<le> n \<Longrightarrow> accessible s p m \<noteq> None"
  by (cases p) (auto simp: all_some_map in_range_def split: option.splits if_splits)

lemma store_ok:
  "accessible s p n = Some y \<Longrightarrow> int (length bs) \<le> n \<Longrightarrow> store p bs s = (Inr (), write_bytes p bs s)"
  using accessible_prefix [of s p n y "int (length bs)"]
  by (auto simp: store_def require_space_def op_simps)

lemma RawCompress_ok:
  assumes "lib_space lib" and "accessible s src n = Some x"
    and "accessible s dst (int (max_compressed lib (length x))) = Some y"
    and "\<not> overlap src n dst (int (max_compressed lib (length x)))"
  shows "RawCompress lib src n dst s
    = (Inr (length (compress_raw lib x)), write_bytes dst (compress_raw lib x @ compress_spill lib x) s)"
proof -
  have "length (compress_raw lib x @ compress_spill lib x) \<le> max_compressed lib (length x)"
    using assms(1) by (simp add: lib_space_def)
  then have "store dst (compress_raw lib x @ compress_spill lib x) s
      = (Inr (), write_bytes dst (compress_raw lib x @ compress_spill lib x) s)"
    using store_ok [OF assms(3)] by simp
  then show ?thesis
    using assms length_accessible [OF assms(2)]
    by (simp add: RawCompress_def load_def require_space_def disjoint_ranges_def op_simps)
qed

lemma RawCompress_fault:
  assumes "accessible s src n = None \<or> accessible s dst (int (max_compressed lib (nat n))) = None"
  shows "RawCompress lib src n dst s = (Inl OutOfBounds, s)"
  using assms by (auto simp: RawCompress_def load_def require_space_def op_simps split: option.splits)

lemma RawUncompress_ok:
  assumes "lib_lengths lib" and "accessible s src n = Some y"
    and "\<And>m. parse_length lib y = Some m \<Longrightarrow>
           accessible s dst (int m) \<noteq> None \<and> \<not> overlap src n dst (int m)"
  shows "RawUncompress lib src n dst s
    = (Inr (fst (uncompress_raw lib y)),
       if parse_length lib y = None then s else write_bytes dst (snd (uncompress_raw lib y)) s)"
proof (cases "parse_length lib y")
  case None
  then show ?thesis using assms(2) by (simp add: RawUncompress_def load_def op_simps)
next
  case (Some m)
  then obtain z where z: "accessible s dst (int m) = Some z" and "\<not> overlap src n dst (int m)"
    using assms(3) by blast
  moreover have "length (snd (uncompress_raw lib y)) \<le> m"
    using assms(1) Some by (auto simp: lib_lengths_def)
  ultimately show ?thesis
    using assms(2) Some store_ok [OF z, of "snd (uncompress_raw lib y)"]
    by (simp add: RawUncompress_def load_def require_space_def disjoint_ranges_def op_simps)
qed

lemma RawUncompress_fault:
  assumes "accessible s src n = Some y" and "parse_length lib y = Some m" and "accessible s dst (int m) = None"
  shows "RawUncompress lib src n dst s = (Inl OutOfBounds, s)"
  using assms by (simp add: RawUncompress_def load_def require_space_def op_simps)

text \<open>The state between the two sides of a critical section over two arrays.\<close>

definition pinning :: "nat \<Rightarrow> nat \<Rightarrow> jvm \<Rightarrow> jvm" where
  "pinning input output s = (asked 2 s)\<lparr>pinned := [output, input]\<rparr>"

definition array_put :: "nat \<Rightarrow> bytes \<Rightarrow> jvm \<Rightarrow> jvm" where
  "array_put h a s = s\<lparr>arrays := (arrays s)(h \<mapsto> a)\<rparr>"

lemma accessible_pinning:
  "arrays s h = Some a \<Longrightarrow> h = input \<or> h = output \<Longrightarrow>
   accessible (pinning input output s) (ArrayPtr h i) n
     = (if in_range i n (length a) then Some (segment i n a) else None)"
  by (auto simp: pinning_def asked_def)

lemma pinned_source:
  assumes "arrays s input = Some a" and "is_i32 n" and "int (length a) \<le> int_max"
  shows "accessible (pinning input output s) (ArrayPtr input i) (size_t n)
    = (if in_range i n (length a) then Some (segment i n a) else None)"
proof (cases "in_range i n (length a)")
  case True
  then have "size_t n = n" using assms(3) by (simp add: in_range_def)
  with True show ?thesis by (simp only: accessible_pinning [OF assms(1)] simp_thms if_True)
next
  case False
  then show ?thesis
    using in_range_size_t [OF assms(2,3), of i] accessible_pinning [OF assms(1), of "input" "output" i "size_t n"]
    by simp
qed

lemma write_pinning:
  "arrays s h = Some a \<Longrightarrow>
   write_bytes (ArrayPtr h i) bs (pinning input output s) = pinning input output (array_put h (blit a i bs) s)"
  by (simp add: pinning_def asked_def array_put_def)

definition pinning1 :: "nat \<Rightarrow> jvm \<Rightarrow> jvm" where
  "pinning1 output s = (asked 2 s)\<lparr>pinned := [output]\<rparr>"

lemma idle_array_put [simp]: "idle self (array_put h a s) = idle self s"
  by (simp add: idle_def array_put_def)

lemma release_pinning:
  "ReleasePrimitiveArrayCritical input (ArrayPtr input 0) (pinning input output s) = (Inr (), pinning1 output s)"
  by (simp add: ReleasePrimitiveArrayCritical_def pinning_def pinning1_def)

lemma release_pinning1:
  "idle self s \<Longrightarrow>
   ReleasePrimitiveArrayCritical output (ArrayPtr output 0) (pinning1 output s) = (Inr (), asked 2 s)"
  by (cases s) (simp add: ReleasePrimitiveArrayCritical_def pinning1_def asked_def idle_def)

lemma both_granted_array_put [simp]: "both_granted (array_put h a s) = both_granted s"
  by (simp add: both_granted_def array_put_def)

declare accessible.simps [simp del] write_bytes.simps [simp del]

section \<open>What each array function does\<close>

text \<open>
  \<open>compressed_into lib a i n b j\<close> is \<open>b\<close> after the range \<open>[i, i + n)\<close> of \<open>a\<close> was compressed into it
  at \<open>j\<close>; \<open>uncompressed_into\<close> is its counterpart.
\<close>

definition compressed_into :: "snappy_lib \<Rightarrow> bytes \<Rightarrow> int \<Rightarrow> int \<Rightarrow> bytes \<Rightarrow> int \<Rightarrow> bytes" where
  "compressed_into lib a i n b j =
     blit b j (compress_raw lib (segment i n a) @ compress_spill lib (segment i n a))"

definition uncompressed_into :: "snappy_lib \<Rightarrow> bytes \<Rightarrow> int \<Rightarrow> int \<Rightarrow> bytes \<Rightarrow> int \<Rightarrow> bytes" where
  "uncompressed_into lib a i n b j = blit b j (snd (uncompress_raw lib (segment i n a)))"

lemma rawCompress_array_outcome:
  assumes s: "idle self s" and a: "arrays s input = Some a" and b: "arrays s output = Some b"
    and ne: "input \<noteq> output" and lib: "lib_space lib"
    and n: "is_i32 n" and big: "int (length a) \<le> int_max"
  shows "rawCompress_array lib self input i n output j s =
    (if \<not> both_granted s then (Inr 0, throwing 4 (asked 2 s))
     else if in_range i n (length a) \<and> in_range j (int (max_compressed lib (nat n))) (length b)
     then (Inr (i32 (int (length (compress_raw lib (segment i n a))))),
           asked 2 (array_put output (compressed_into lib a i n b j) s))
     else (Inl OutOfBounds, pinning input output s))"
proof -
  let ?t = "pinning input output s"
  have src: "accessible ?t (ArrayPtr input i) (size_t n) = (if in_range i n (length a) then Some (segment i n a) else None)"
    using pinned_source [where a = a] a n big by simp
  have dst: "accessible ?t (ArrayPtr output j) m = (if in_range j m (length b) then Some (segment j m b) else None)" for m
    using b by (simp add: accessible_pinning)
  consider (denied) "\<not> both_granted s" | (fault) "both_granted s" "\<not> in_range i n (length a)"
    | (fault') "both_granted s" "in_range i n (length a)" "\<not> in_range j (int (max_compressed lib (nat n))) (length b)"
    | (ok) "both_granted s" "in_range i n (length a)" "in_range j (int (max_compressed lib (nat n))) (length b)"
    by blast
  then show ?thesis
  proof cases
    case denied
    then show ?thesis by (simp add: rawCompress_array_def with_arrays_outcome [OF s a b])
  next
    case fault
    then have "RawCompress lib (ArrayPtr input i) (size_t n) (ArrayPtr output j) ?t = (Inl OutOfBounds, ?t)"
      by (intro RawCompress_fault) (simp add: src)
    with fault show ?thesis
      by (simp add: rawCompress_array_def with_arrays_outcome [OF s a b] bindS_def pinning_def)
  next
    case fault'
    then have "size_t n = n" using big by (simp add: in_range_def)
    with fault' have "RawCompress lib (ArrayPtr input i) (size_t n) (ArrayPtr output j) ?t = (Inl OutOfBounds, ?t)"
      by (intro RawCompress_fault) (simp add: dst)
    with fault' show ?thesis
      by (simp add: rawCompress_array_def with_arrays_outcome [OF s a b] bindS_def pinning_def)
  next
    case ok
    let ?x = "segment i n a"
    have len: "length ?x = nat n" using ok by (simp add: segment_simps)
    have "RawCompress lib (ArrayPtr input i) (size_t n) (ArrayPtr output j) ?t
        = (Inr (length (compress_raw lib ?x)), pinning input output (array_put output (compressed_into lib a i n b j) s))"
      using RawCompress_ok [OF lib, of ?t "ArrayPtr input i" "size_t n" ?x "ArrayPtr output j"] ok ne b
      by (simp add: src dst len write_pinning compressed_into_def)
    with ok show ?thesis
      using release_pinning1 [of self "array_put output (compressed_into lib a i n b j) s" "output"] s
      by (simp add: rawCompress_array_def with_arrays_outcome [OF s a b] bindS_def returnS_def
          release_pinning flip: pinning_def)
  qed
qed

text \<open>The part both uncompressing functions share once the arrays are pinned.\<close>

lemma pinned_uncompress:
  assumes a: "arrays s input = Some a" and b: "arrays s output = Some b" and ne: "input \<noteq> output"
    and lib: "lib_lengths lib" and r: "in_range i n (length a)"
    and y: "y = segment i n a"
    and dst: "\<And>m. parse_length lib y = Some m \<Longrightarrow> in_range j (int m) (length b)"
  shows "RawUncompress lib (ArrayPtr input i) n (ArrayPtr output j) (pinning input output s)
    = (Inr (fst (uncompress_raw lib y)),
       pinning input output (array_put output (uncompressed_into lib a i n b j) s))"
proof -
  let ?t = "pinning input output s"
  have src: "accessible ?t (ArrayPtr input i) n = Some y"
    using accessible_pinning [OF a, of "input" "output" i n] r y by simp
  have acc: "accessible ?t (ArrayPtr output j) m
      = (if in_range j m (length b) then Some (segment j m b) else None)" for m
    using accessible_pinning [OF b, of "input" "output" j m] by simp
  have "RawUncompress lib (ArrayPtr input i) n (ArrayPtr output j) ?t
      = (Inr (fst (uncompress_raw lib y)),
         if parse_length lib y = None then ?t
         else write_bytes (ArrayPtr output j) (snd (uncompress_raw lib y)) ?t)"
    using RawUncompress_ok [OF lib src] acc dst ne by simp
  moreover have "snd (uncompress_raw lib y) = []" if "parse_length lib y = None"
    using lib that by (simp add: lib_lengths_def)
  moreover have "array_put output b s = s" using b by (cases s) (simp add: array_put_def fun_upd_idem)
  ultimately show ?thesis
    using b by (auto simp: write_pinning uncompressed_into_def y)
qed

lemma rawUncompress_array_outcome:
  assumes s: "idle self s" and a: "arrays s input = Some a" and b: "arrays s output = Some b"
    and ne: "input \<noteq> output" and lib: "lib_lengths lib"
    and r: "in_range i n (length a)" and big: "int (length a) \<le> int_max"
    and dst: "\<And>m. parse_length lib (segment i n a) = Some m \<Longrightarrow> in_range j (int m) (length b)"
  shows "rawUncompress_array lib self input i n output j s =
    (if \<not> both_granted s then (Inr 0, throwing 4 (asked 2 s))
     else if fst (uncompress_raw lib (segment i n a))
     then (Inr (i32 (int (length (snd (uncompress_raw lib (segment i n a)))))),
           asked 2 (array_put output (uncompressed_into lib a i n b j) s))
     else (Inr 0, throwing 5 (asked 2 (array_put output (uncompressed_into lib a i n b j) s))))"
proof (cases "both_granted s")
  case False
  then show ?thesis by (simp add: rawUncompress_array_def with_arrays_outcome [OF s a b])
next
  case True
  let ?t = "pinning input output s"
  let ?y = "segment i n a"
  let ?s' = "array_put output (uncompressed_into lib a i n b j) s"
  have n: "size_t n = n" using r big by (simp add: in_range_def)
  have src: "accessible ?t (ArrayPtr input i) n = Some ?y"
    using accessible_pinning [OF a, of "input" "output" i n] r by simp
  have ul: "GetUncompressedLength lib (ArrayPtr input i) n ?t = (Inr (parse_length lib ?y), ?t)"
    by (simp add: GetUncompressedLength_def load_def op_simps src)
  have un: "RawUncompress lib (ArrayPtr input i) n (ArrayPtr output j) ?t
      = (Inr (fst (uncompress_raw lib ?y)), pinning input output ?s')"
    by (rule pinned_uncompress [OF a b ne lib r refl dst])
  have len: "parse_length lib ?y = Some (length (snd (uncompress_raw lib ?y)))" if "fst (uncompress_raw lib ?y)"
    using lib that by (cases "parse_length lib ?y") (auto simp: lib_lengths_def)
  have "rawUncompress_array lib self input i n output j s =
      (if \<not> fst (uncompress_raw lib ?y) then bindS (throw_exception self 5) (\<lambda>_. returnS 0)
       else bindS (initialized (parse_length lib ?y)) (\<lambda>l. returnS (i32 (int l)))) (asked 2 ?s')"
    using True release_pinning1 [of self ?s' "output"] s
    by (simp add: rawUncompress_array_def with_arrays_outcome [OF s a b] n bindS_def ul un
        release_pinning flip: pinning_def)
  then show ?thesis
    using True s len
    by (simp add: bindS_def returnS_def initialized_def throw_exception_idle)
qed

text \<open>The same for the functions that pin one array.\<close>

definition pinning_one :: "nat \<Rightarrow> jvm \<Rightarrow> jvm" where
  "pinning_one input s = (asked 1 s)\<lparr>pinned := [input]\<rparr>"

lemma pin_one:
  "idle self s \<Longrightarrow> arrays s input = Some a \<Longrightarrow> GetPrimitiveArrayCritical input s
     = (if grants s (requests s) then (Inr (ArrayPtr input 0), pinning_one input s) else (Inr Null, asked 1 s))"
  by (simp add: GetPrimitiveArrayCritical_def idle_def asked_def pinning_one_def)

lemma release_one:
  "idle self s \<Longrightarrow>
   ReleasePrimitiveArrayCritical input (ArrayPtr input 0) (pinning_one input s) = (Inr (), asked 1 s)"
  by (cases s) (simp add: ReleasePrimitiveArrayCritical_def idle_def asked_def pinning_one_def)

lemma accessible_one:
  assumes a: "arrays s input = Some a" and n: "is_i32 n" and big: "int (length a) \<le> int_max"
  shows "accessible (pinning_one input s) (ArrayPtr input i) (size_t n)
      = (if in_range i n (length a) then Some (segment i n a) else None)"
  using in_range_size_t [OF n big, of i] a big
  by (auto simp: accessible.simps asked_def in_range_def pinning_one_def)

lemma uncompressedLength_array_outcome:
  assumes s: "idle self s" and a: "arrays s input = Some a"
    and n: "is_i32 n" and big: "int (length a) \<le> int_max"
  shows "uncompressedLength_array lib self input i n s =
    (if \<not> grants s (requests s) then (Inr 0, throwing 4 (asked 1 s))
     else if \<not> in_range i n (length a) then (Inl OutOfBounds, pinning_one input s)
     else case parse_length lib (segment i n a) of
         None \<Rightarrow> (Inr 0, throwing 2 (asked 1 s))
       | Some m \<Rightarrow> (Inr (i32 (int m)), asked 1 s))"
  using s a
  by (simp add: uncompressedLength_array_def bindS_def pin_one release_one GetUncompressedLength_def load_def
      accessible_one [OF a n big] returnS_def throw_exception_idle split: option.splits)

lemma isValid_array_outcome:
  assumes s: "idle self s" and a: "arrays s input = Some a"
    and n: "is_i32 n" and big: "int (length a) \<le> int_max"
  shows "isValidCompressedBuffer_array lib self input i n s =
    (if \<not> grants s (requests s) then (Inr False, throwing 4 (asked 1 s))
     else if \<not> in_range i n (length a) then (Inl OutOfBounds, pinning_one input s)
     else (Inr (valid_compressed lib (segment i n a)), asked 1 s))"
  using s a
  by (simp add: isValidCompressedBuffer_array_def bindS_def pin_one release_one IsValidCompressedBuffer_def
      load_def accessible_one [OF a n big] returnS_def throw_exception_idle)

lemma arrayCopy_outcome:
  assumes s: "idle self s" and a: "arrays s input = Some a" and b: "arrays s output = Some b"
    and ne: "input \<noteq> output"
    and n: "is_i32 n" and big: "int (length a) \<le> int_max"
  shows "arrayCopy self input i n output j s =
    (if \<not> both_granted s then (Inr (), throwing 4 (asked 2 s))
     else if in_range i n (length a) \<and> in_range j n (length b)
     then (Inr (), asked 2 (array_put output (blit b j (segment i n a)) s))
     else (Inl OutOfBounds, pinning input output s))"
proof -
  let ?t = "pinning input output s"
  have src: "accessible ?t (ArrayPtr input i) (size_t n)
      = (if in_range i n (length a) then Some (segment i n a) else None)"
    using pinned_source [where a = a] a n big by simp
  have dst: "accessible ?t (ArrayPtr output j) m
      = (if in_range j m (length b) then Some (segment j m b) else None)" for m
    using accessible_pinning [OF b, of "input" "output" j m] by simp
  show ?thesis
  proof (cases "both_granted s \<and> in_range i n (length a)")
    case True
    then have n': "size_t n = n" and l: "int (length (segment i n a)) = n"
      using big by (auto simp: in_range_def segment_simps)
    have put: "write_bytes (ArrayPtr output j) (segment i n a) ?t
        = pinning input output (array_put output (blit b j (segment i n a)) s)"
      using b by (simp add: write_pinning)
    have "memcpy (ArrayPtr output j) (ArrayPtr input i) n ?t
        = (if in_range j n (length b)
           then (Inr (), pinning input output (array_put output (blit b j (segment i n a)) s))
           else (Inl OutOfBounds, ?t))"
      using True ne src dst [of n] l n'
      by (simp add: memcpy_def load_def require_space_def disjoint_ranges_def store_def op_simps put)
    then show ?thesis
      using True n' release_pinning1 [of self "array_put output (blit b j (segment i n a)) s" "output"] s
      by (simp add: arrayCopy_def with_arrays_outcome [OF s a b] bindS_def release_pinning flip: pinning_def)
  next
    case False
    then show ?thesis
      using src
      by (auto simp: arrayCopy_def with_arrays_outcome [OF s a b] bindS_def memcpy_def load_def
          simp flip: pinning_def)
  qed
qed

section \<open>What each direct-buffer and address function does\<close>

definition direct_put :: "nat \<Rightarrow> bytes \<Rightarrow> jvm \<Rightarrow> jvm" where
  "direct_put h a s = s\<lparr>directs := (directs s)(h \<mapsto> a)\<rparr>"

lemma idle_direct_put [simp]: "idle self (direct_put h a s) = idle self s"
  by (simp add: idle_def direct_put_def)

lemma direct_address:
  "idle self s \<Longrightarrow>
   GetDirectBufferAddress h s = (Inr (if directs s h = None then Null else DirectPtr h 0), s)"
  by (simp add: GetDirectBufferAddress_def jni_call_def idle_def bindS_def)

lemma accessible_direct:
  "directs s h = Some a \<Longrightarrow>
   accessible s (DirectPtr h i) n = (if in_range i n (length a) then Some (segment i n a) else None)"
  by (simp add: accessible.simps)

lemma accessible_direct_size_t:
  "directs s h = Some a \<Longrightarrow> is_i32 n \<Longrightarrow> int (length a) \<le> int_max \<Longrightarrow>
   accessible s (DirectPtr h i) (size_t n) = (if in_range i n (length a) then Some (segment i n a) else None)"
  using in_range_size_t [of n a i] by (auto simp: accessible.simps in_range_def)

lemma rawCompress_direct_outcome:
  assumes s: "idle self s" and ne: "u \<noteq> c" and lib: "lib_space lib" and n: "is_i32 n"
    and big: "\<And>a. directs s u = Some a \<Longrightarrow> int (length a) \<le> int_max"
  shows "rawCompress_direct lib self u i n c j s =
    (case (directs s u, directs s c) of
       (Some a, Some b) \<Rightarrow>
         if in_range i n (length a) \<and> in_range j (int (max_compressed lib (nat n))) (length b)
         then (Inr (i32 (int (length (compress_raw lib (segment i n a))))),
               direct_put c (compressed_into lib a i n b j) s)
         else (Inl OutOfBounds, s)
     | _ \<Rightarrow> (Inr 0, throwing 3 s))"
proof (cases "directs s u = None \<or> directs s c = None")
  case True
  then show ?thesis
    by (auto simp: rawCompress_direct_def bindS_def direct_address [OF s] returnS_def
        throw_exception_idle [OF s] split: option.splits)
next
  case False
  then obtain a b where a: "directs s u = Some a" and b: "directs s c = Some b" by auto
  have src: "accessible s (DirectPtr u i) (size_t n) = (if in_range i n (length a) then Some (segment i n a) else None)"
    using accessible_direct_size_t [OF a n big] a by simp
  have dst: "accessible s (DirectPtr c j) m = (if in_range j m (length b) then Some (segment j m b) else None)" for m
    using accessible_direct [OF b] .
  have n': "size_t n = n" if "in_range i n (length a)" using that big [OF a] by (simp add: in_range_def)
  have put: "write_bytes (DirectPtr c j) bs s = direct_put c (blit b j bs) s" for bs
    using b by (simp add: write_bytes.simps direct_put_def)
  have "RawCompress lib (DirectPtr u i) (size_t n) (DirectPtr c j) s =
      (if in_range i n (length a) \<and> in_range j (int (max_compressed lib (nat n))) (length b)
       then (Inr (length (compress_raw lib (segment i n a))), direct_put c (compressed_into lib a i n b j) s)
       else (Inl OutOfBounds, s))"
  proof (cases "in_range i n (length a) \<and> in_range j (int (max_compressed lib (nat n))) (length b)")
    case True
    then show ?thesis
      using RawCompress_ok [OF lib, of s "DirectPtr u i" "size_t n" "segment i n a" "DirectPtr c j"] ne
      by (simp add: src dst put compressed_into_def length_segment)
  next
    case False
    then show ?thesis
      using RawCompress_fault [of s "DirectPtr u i" "size_t n" "DirectPtr c j" lib] n'
      by (auto simp: src dst)
  qed
  then show ?thesis
    by (simp add: rawCompress_direct_def bindS_def direct_address [OF s] a b returnS_def)
qed

lemma rawUncompress_direct_outcome:
  assumes s: "idle self s" and ne: "c \<noteq> d" and lib: "lib_lengths lib"
    and a: "directs s c = Some a" and b: "directs s d = Some b"
    and r: "in_range i n (length a)" and big: "int (length a) \<le> int_max"
    and dst: "\<And>m. parse_length lib (segment i n a) = Some m \<Longrightarrow> in_range j (int m) (length b)"
  shows "rawUncompress_direct lib self c i n d j s =
    (if fst (uncompress_raw lib (segment i n a))
     then (Inr (i32 (int (length (snd (uncompress_raw lib (segment i n a)))))),
           direct_put d (uncompressed_into lib a i n b j) s)
     else (Inr 0, throwing 5 (direct_put d (uncompressed_into lib a i n b j) s)))"
proof -
  let ?y = "segment i n a"
  let ?s' = "direct_put d (uncompressed_into lib a i n b j) s"
  have n: "size_t n = n" using r big by (simp add: in_range_def)
  have src: "accessible s (DirectPtr c i) n = Some ?y" using accessible_direct [OF a] r by simp
  have put: "write_bytes (DirectPtr d j) bs s = direct_put d (blit b j bs) s" for bs
    using b by (simp add: write_bytes.simps direct_put_def)
  have id: "direct_put d b s = s" using b by (cases s) (simp add: direct_put_def fun_upd_idem)
  have ul: "GetUncompressedLength lib (DirectPtr c i) n s = (Inr (parse_length lib ?y), s)"
    by (simp add: GetUncompressedLength_def load_def op_simps src)
  have empty: "snd (uncompress_raw lib ?y) = []" if "parse_length lib ?y = None"
    using lib that by (simp add: lib_lengths_def)
  have un: "RawUncompress lib (DirectPtr c i) n (DirectPtr d j) s = (Inr (fst (uncompress_raw lib ?y)), ?s')"
    using RawUncompress_ok [OF lib src, of "DirectPtr d j"] dst ne empty
    by (simp add: accessible_direct [OF b] put uncompressed_into_def id)
  have len: "parse_length lib ?y = Some (length (snd (uncompress_raw lib ?y)))" if "fst (uncompress_raw lib ?y)"
    using lib that by (cases "parse_length lib ?y") (auto simp: lib_lengths_def)
  show ?thesis
    using len s
    by (simp add: rawUncompress_direct_def bindS_def direct_address [OF s] a b n ul un returnS_def
        initialized_def throw_exception_idle)
qed

lemma uncompressedLength_JJ_outcome:
  assumes "idle self s" and "accessible s (RawPtr p) (size_t n) = Some y"
  shows "uncompressedLength_JJ lib self p n s =
    (case parse_length lib y of
       None \<Rightarrow> (Inr 0, throwing 2 s)
     | Some l \<Rightarrow> (Inr (i32 (int l)), s))"
  using assms
  by (simp add: uncompressedLength_JJ_def bindS_def GetUncompressedLength_def load_def returnS_def
      throw_exception_idle split: option.splits)

section \<open>JNI rules\<close>

text \<open>
  \<open>safe P m Q\<close>: started in a state of \<open>P\<close>, \<open>m\<close> breaks no JNI rule and reads no unset local; it either
  stops at a memory fault or ends in a state of \<open>Q\<close>.
\<close>

definition safe :: "(jvm \<Rightarrow> bool) \<Rightarrow> 'a native \<Rightarrow> ('a \<Rightarrow> jvm \<Rightarrow> bool) \<Rightarrow> bool" where
  "safe P m Q \<longleftrightarrow> (\<forall>s. P s \<longrightarrow>
     (case m s of (Inl f, s') \<Rightarrow> f = OutOfBounds \<or> f = Overlap | (Inr x, s') \<Rightarrow> Q x s'))"

text \<open>The critical section \<open>H\<close> is open over live arrays and no exception is pending.\<close>

definition holding :: "nat \<Rightarrow> nat set \<Rightarrow> nat list \<Rightarrow> jvm \<Rightarrow> bool" where
  "holding self As H s \<longleftrightarrow> pinned s = H \<and> pending_exc s = None \<and> class_of s self = SnappyNative \<and>
     (\<forall>h\<in>As. arrays s h \<noteq> None)"

text \<open>Back in Java: nothing pinned, and at most an exception with one of the given codes.\<close>

definition back_in_java :: "int set \<Rightarrow> jvm \<Rightarrow> bool" where
  "back_in_java codes s \<longleftrightarrow> pinned s = [] \<and>
     (pending_exc s = None \<or> (\<exists>c\<in>codes. pending_exc s = Some (ThrowError c)))"

lemma safe_bind:
  "safe P m Q \<Longrightarrow> (\<And>x. safe (Q x) (f x) R) \<Longrightarrow> safe P (bindS m f) R"
  unfolding safe_def bindS_def by (fastforce split: prod.splits sum.splits)

lemma safe_return: "(\<And>s. P s \<Longrightarrow> Q x s) \<Longrightarrow> safe P (returnS x) Q"
  by (simp add: safe_def returnS_def)

lemma holding_back: "holding self As [] s \<Longrightarrow> back_in_java C s"
  by (simp add: holding_def back_in_java_def)

lemma safe_done: "safe (holding self As []) (returnS x) (\<lambda>_. back_in_java C)"
  by (rule safe_return) (rule holding_back)

lemma safe_nativeLibraryVersion: "safe (holding self As []) nativeLibraryVersion (\<lambda>_. back_in_java C)"
  unfolding nativeLibraryVersion_def
  by (auto simp: safe_def jni_call_def bindS_def returnS_def holding_def back_in_java_def)

lemma safe_throw:
  "c \<in> C \<Longrightarrow> safe (holding self As []) (bindS (throw_exception self c) (\<lambda>_. returnS z)) (\<lambda>_. back_in_java C)"
  by (auto simp: safe_def bindS_def returnS_def holding_def back_in_java_def idle_def
      throw_exception_idle throwing_def)

lemma holding_write [simp]: "holding self As H (write_bytes p bs s) = holding self As H s"
  by (cases p) (auto simp: holding_def write_bytes.simps)

lemma safe_RawCompress:
  "safe (holding self As H) (RawCompress lib p n q) (\<lambda>_. holding self As H)"
  by (auto simp: safe_def RawCompress_def load_def require_space_def disjoint_ranges_def store_def
      op_simps split: option.splits)

lemma safe_IsValid:
  "safe (holding self As H) (IsValidCompressedBuffer lib p n) (\<lambda>_. holding self As H)"
  by (auto simp: safe_def IsValidCompressedBuffer_def load_def op_simps split: option.splits)

lemma safe_IsValid_back:
  "safe (holding self As []) (IsValidCompressedBuffer lib p n) (\<lambda>_. back_in_java C)"
  by (auto simp: safe_def IsValidCompressedBuffer_def load_def op_simps holding_back split: option.splits)

lemma safe_GetUncompressedLength:
  "safe (holding self As H) (GetUncompressedLength lib p n) (\<lambda>_. holding self As H)"
  by (auto simp: safe_def GetUncompressedLength_def load_def op_simps split: option.splits)

lemma safe_memcpy:
  "safe (holding self As H) (memcpy q p n) (\<lambda>_. holding self As H)"
  by (auto simp: safe_def memcpy_def load_def require_space_def disjoint_ranges_def store_def
      op_simps split: option.splits)

text \<open>A successful \<open>RawUncompress\<close> has a length that \<open>GetUncompressedLength\<close> has set.\<close>

lemma safe_uncompress:
  assumes lib: "lib_lengths lib"
    and f: "\<And>l ok. (ok \<Longrightarrow> l \<noteq> None) \<Longrightarrow> safe (holding self As H) (f l ok) R"
  shows "safe (holding self As H)
    (bindS (GetUncompressedLength lib p n) (\<lambda>l. bindS (RawUncompress lib p n q) (f l))) R"
proof -
  have "case bindS (GetUncompressedLength lib p n) (\<lambda>l. bindS (RawUncompress lib p n q) (f l)) s of
      (Inl g, s') \<Rightarrow> g = OutOfBounds \<or> g = Overlap | (Inr x, s') \<Rightarrow> R x s'"
    if h: "holding self As H s" for s
  proof (cases "accessible s p n")
    case None
    then show ?thesis by (simp add: GetUncompressedLength_def load_def op_simps)
  next
    case (Some y)
    let ?l = "parse_length lib y" and ?ok = "fst (uncompress_raw lib y)"
    have "?ok \<Longrightarrow> ?l \<noteq> None" using lib by (auto simp: lib_lengths_def)
    then have 1: "safe (holding self As H) (f ?l ?ok) R" by (rule f)
    have "safe (\<lambda>t. t = s) (RawUncompress lib p n q) (\<lambda>r t. r = ?ok \<and> holding self As H t)"
      using h Some
      by (auto simp: safe_def RawUncompress_def load_def require_space_def
          disjoint_ranges_def store_def op_simps split: option.splits)
    moreover have "safe (\<lambda>t. r = ?ok \<and> holding self As H t) (f ?l r) R" for r
      using 1 by (auto simp: safe_def)
    ultimately have "safe (\<lambda>t. t = s) (bindS (RawUncompress lib p n q) (f ?l)) R"
      by (rule safe_bind)
    moreover have "bindS (GetUncompressedLength lib p n) (\<lambda>l. bindS (RawUncompress lib p n q) (f l)) s
        = bindS (RawUncompress lib p n q) (f ?l) s"
      using Some by (simp add: GetUncompressedLength_def load_def op_simps)
    ultimately show ?thesis by (auto simp: safe_def)
  qed
  then show ?thesis unfolding safe_def by blast
qed

lemma safe_release2:
  assumes "safe (holding self As []) m R"
  shows "safe (holding self As [h', h])
    (bindS (ReleasePrimitiveArrayCritical h (ArrayPtr h 0)) (\<lambda>_.
     bindS (ReleasePrimitiveArrayCritical h' (ArrayPtr h' 0)) (\<lambda>_. m))) R"
  using assms
  by (auto simp: safe_def bindS_def ReleasePrimitiveArrayCritical_def holding_def)

lemma safe_release1:
  assumes "safe (holding self As []) m R"
  shows "safe (holding self As [h])
    (bindS (ReleasePrimitiveArrayCritical h (ArrayPtr h 0)) (\<lambda>_. m)) R"
  using assms
  by (auto simp: safe_def bindS_def ReleasePrimitiveArrayCritical_def holding_def)

lemma safe_with_arrays:
  assumes "input \<in> As" and "output \<in> As" and "4 \<in> C"
    and "safe (holding self As [output, input]) (body (ArrayPtr input 0) (ArrayPtr output 0))
           (\<lambda>_. back_in_java C)"
  shows "safe (holding self As []) (with_arrays self input output z body) (\<lambda>_. back_in_java C)"
proof -
  have "case with_arrays self input output z body s of
      (Inl g, s') \<Rightarrow> g = OutOfBounds \<or> g = Overlap | (Inr x, s') \<Rightarrow> back_in_java C s'"
    if h: "holding self As [] s" for s
  proof -
    obtain a b where "arrays s input = Some a" "arrays s output = Some b"
      using h assms(1,2) by (fastforce simp: holding_def)
    moreover have "idle self s" using h by (simp add: idle_def holding_def)
    moreover have "holding self As [output, input] ((asked 2 s)\<lparr>pinned := [output, input]\<rparr>)"
      using h by (simp add: holding_def asked_def)
    ultimately show ?thesis
      using assms(3,4) h
      by (auto simp: with_arrays_outcome safe_def back_in_java_def throwing_def asked_def holding_def)
  qed
  then show ?thesis unfolding safe_def by blast
qed

lemma safe_with_array:
  assumes "input \<in> As" and "4 \<in> C"
    and "safe (holding self As [input]) (body (ArrayPtr input 0)) (\<lambda>_. back_in_java C)"
  shows "safe (holding self As []) (bindS (GetPrimitiveArrayCritical input) (\<lambda>inp.
      if inp = Null then bindS (throw_exception self 4) (\<lambda>_. returnS z) else body inp)) (\<lambda>_. back_in_java C)"
proof (rule safe_bind [where Q = "\<lambda>p s. (p = Null \<and> holding self As [] s) \<or>
    (p = ArrayPtr input 0 \<and> holding self As [input] s)"])
  show "safe (holding self As []) (GetPrimitiveArrayCritical input)
      (\<lambda>p s. (p = Null \<and> holding self As [] s) \<or> (p = ArrayPtr input 0 \<and> holding self As [input] s))"
    using assms(1) by (auto simp: safe_def GetPrimitiveArrayCritical_def holding_def)
  have "safe (holding self As []) (bindS (throw_exception self 4) (\<lambda>_. returnS z)) (\<lambda>_. back_in_java C)"
    using assms(2) by (rule safe_throw)
  then show "safe (\<lambda>s. p = Null \<and> holding self As [] s \<or> p = ArrayPtr input 0 \<and> holding self As [input] s)
      (if p = Null then bindS (throw_exception self 4) (\<lambda>_. returnS z) else body p) (\<lambda>_. back_in_java C)" for p
    using assms(3) by (auto simp: safe_def)
qed

lemma safe_direct:
  assumes "\<And>p. safe (holding self As []) (body p) R"
  shows "safe (holding self As []) (bindS (GetDirectBufferAddress h) body) R"
  using assms
  by (auto simp: safe_def bindS_def GetDirectBufferAddress_def jni_call_def holding_def)

lemma safe_if:
  "safe P m R \<Longrightarrow> safe P m' R \<Longrightarrow> safe P (if b then m else m') R"
  by simp

lemma safe_length_result:
  assumes "c \<in> C"
  shows "safe (holding self As []) (case l of None \<Rightarrow> bindS (throw_exception self c) (\<lambda>_. returnS z)
      | Some n \<Rightarrow> returnS (g n)) (\<lambda>_. back_in_java C)"
  using safe_throw [OF assms] safe_done by (cases l) auto

lemma safe_uncompress_result:
  assumes "5 \<in> C" and "ok \<Longrightarrow> l \<noteq> None"
  shows "safe (holding self As [])
    (if \<not> ok then bindS (throw_exception self 5) (\<lambda>_. returnS z)
     else bindS (initialized l) (\<lambda>n. returnS (g n))) (\<lambda>_. back_in_java C)"
proof (cases ok)
  case True
  then obtain n where "l = Some n" using assms(2) by auto
  then have "bindS (initialized l) (\<lambda>n. returnS (g n)) = (returnS (g n) :: 'b native)"
    by (auto simp: bindS_def initialized_def returnS_def)
  with True show ?thesis by (simp add: safe_done)
qed (simp add: safe_throw [OF assms(1)])

lemma safe_bind_holding:
  "safe P m (\<lambda>_. holding self As H) \<Longrightarrow> (\<And>x. safe (holding self As H) (f x) R) \<Longrightarrow> safe P (bindS m f) R"
  by (rule safe_bind)

lemma safe_rawCompress_array:
  "{i, j} \<subseteq> As \<Longrightarrow> 4 \<in> C \<Longrightarrow> safe (holding self As []) (rawCompress_array lib self i a n j b) (\<lambda>_. back_in_java C)"
  unfolding rawCompress_array_def
  by (intro safe_with_arrays safe_bind_holding [OF safe_RawCompress] safe_release2 safe_done) auto

lemma safe_rawUncompress_array:
  assumes "{i, j} \<subseteq> As" and "{4, 5} \<subseteq> C" and "lib_lengths lib"
  shows "safe (holding self As []) (rawUncompress_array lib self i a n j b) (\<lambda>_. back_in_java C)"
  unfolding rawUncompress_array_def using assms
  by (intro safe_with_arrays safe_uncompress safe_release2 safe_uncompress_result) auto

lemma safe_arrayCopy:
  assumes "{i, j} \<subseteq> As" and "4 \<in> C"
  shows "safe (holding self As []) (arrayCopy self i a n j b) (\<lambda>_. back_in_java C)"
proof -
  have r: "safe (holding self As [j, i])
      (bindS (ReleasePrimitiveArrayCritical i (ArrayPtr i 0)) (\<lambda>_.
        ReleasePrimitiveArrayCritical j (ArrayPtr j 0))) (\<lambda>_. back_in_java C)"
    by (auto simp: safe_def bindS_def ReleasePrimitiveArrayCritical_def holding_def back_in_java_def)
  show ?thesis
    unfolding arrayCopy_def using assms
    by (intro safe_with_arrays safe_bind_holding [OF safe_memcpy] r) auto
qed

lemma safe_length_array:
  "i \<in> As \<Longrightarrow> {2, 4} \<subseteq> C \<Longrightarrow>
   safe (holding self As []) (uncompressedLength_array lib self i a n) (\<lambda>_. back_in_java C)"
  unfolding uncompressedLength_array_def
  by (intro safe_with_array safe_bind_holding [OF safe_GetUncompressedLength] safe_release1
      safe_length_result) auto

lemma safe_isValid_array:
  "i \<in> As \<Longrightarrow> 4 \<in> C \<Longrightarrow>
   safe (holding self As []) (isValidCompressedBuffer_array lib self i a n) (\<lambda>_. back_in_java C)"
  unfolding isValidCompressedBuffer_array_def
  by (intro safe_with_array safe_bind_holding [OF safe_IsValid] safe_release1 safe_done) auto

lemma safe_rawCompress_direct:
  "3 \<in> C \<Longrightarrow> safe (holding self As []) (rawCompress_direct lib self u i n c j) (\<lambda>_. back_in_java C)"
  unfolding rawCompress_direct_def
  by (intro safe_direct safe_if safe_throw safe_bind_holding [OF safe_RawCompress] safe_done)

lemma safe_rawUncompress_direct:
  assumes "{3, 5} \<subseteq> C" and "lib_lengths lib"
  shows "safe (holding self As []) (rawUncompress_direct lib self u i n c j) (\<lambda>_. back_in_java C)"
  unfolding rawUncompress_direct_def using assms
  by (intro safe_direct safe_if safe_throw safe_uncompress safe_uncompress_result) auto

lemma safe_length_direct:
  "{2, 3} \<subseteq> C \<Longrightarrow>
   safe (holding self As []) (uncompressedLength_direct lib self u i n) (\<lambda>_. back_in_java C)"
  unfolding uncompressedLength_direct_def
  by (intro safe_direct safe_if safe_throw safe_bind_holding [OF safe_GetUncompressedLength]
      safe_length_result) auto

lemma safe_isValid_direct:
  "3 \<in> C \<Longrightarrow>
   safe (holding self As []) (isValidCompressedBuffer_direct lib self u i n) (\<lambda>_. back_in_java C)"
  unfolding isValidCompressedBuffer_direct_def
  by (intro safe_direct safe_if safe_throw safe_IsValid_back)

lemma safe_rawCompress_JJJ:
  "safe (holding self As []) (rawCompress_JJJ lib self p n q) (\<lambda>_. back_in_java C)"
  unfolding rawCompress_JJJ_def by (intro safe_bind_holding [OF safe_RawCompress] safe_done)

lemma safe_rawUncompress_JJJ:
  assumes "5 \<in> C" and "lib_lengths lib"
  shows "safe (holding self As []) (rawUncompress_JJJ lib self p n q) (\<lambda>_. back_in_java C)"
  unfolding rawUncompress_JJJ_def using assms
  by (intro safe_uncompress safe_uncompress_result) auto

lemma safe_length_JJ:
  "2 \<in> C \<Longrightarrow> safe (holding self As []) (uncompressedLength_JJ lib self p n) (\<lambda>_. back_in_java C)"
  unfolding uncompressedLength_JJ_def
  by (intro safe_bind_holding [OF safe_GetUncompressedLength] safe_length_result)

lemma safe_isValid_JJJ:
  "4 \<in> C \<Longrightarrow> safe (holding self As []) (isValidCompressedBuffer_JJJ lib self p q n) (\<lambda>_. back_in_java C)"
  unfolding isValidCompressedBuffer_JJJ_def by (intro safe_if safe_throw safe_IsValid_back)

end
