(* ===== verification/Native_Props.thy ===== *)
theory Native_Props
  imports Snappy_Native
begin

text \<open>
  Properties of \<open>SnappyNative.cpp\<close>. The witnesses use \<open>stored_lib\<close>, a library that stores its input
  behind a tag byte, and the VM \<open>demo_vm\<close> with three arrays and three direct buffers.
\<close>

section \<open>Instances for the witnesses\<close>

definition stored_lib :: snappy_lib where
  "stored_lib = \<lparr>
     compress_raw = (\<lambda>x. 1 # x),
     compress_spill = (\<lambda>x. [0]),
     max_compressed = (\<lambda>n. 32 + n + n div 6),
     parse_length = (\<lambda>y. case y of [] \<Rightarrow> None
        | t # x \<Rightarrow> if t = 1 \<and> length x < 2 ^ 32 then Some (length x) else None),
     uncompress_raw = (\<lambda>y. case y of [] \<Rightarrow> (False, [])
        | t # x \<Rightarrow> if t = 1 \<and> length x < 2 ^ 32 then (True, x) else (False, [])),
     valid_compressed = (\<lambda>y. case y of [] \<Rightarrow> False | t # x \<Rightarrow> t = 1 \<and> length x < 2 ^ 32)\<rparr>"

lemma max_compressed_stored [simp]: "max_compressed stored_lib n = 32 + n + n div 6"
  by (simp add: stored_lib_def)

lemma stored_lib_roundtrip: "lib_roundtrip stored_lib"
  by (simp add: lib_roundtrip_def stored_lib_def)

lemma stored_lib_space: "lib_space stored_lib"
  by (simp add: lib_space_def stored_lib_def)

lemma stored_lib_lengths: "lib_lengths stored_lib"
  by (auto simp: lib_lengths_def stored_lib_def split: list.splits)

definition demo_vm :: jvm where
  "demo_vm = \<lparr>
     arrays = [1 \<mapsto> [10, 20, 30, 40], 2 \<mapsto> replicate 40 0, 3 \<mapsto> replicate 6 0],
     directs = [1 \<mapsto> [10, 20, 30, 40], 2 \<mapsto> replicate 40 0, 3 \<mapsto> replicate 6 0],
     memory = (\<lambda>_. None), grants = (\<lambda>_. True), requests = 0, pinned = [], pending_exc = None,
     class_of = (\<lambda>_. SnappyNative), loadable = (\<lambda>_. True)\<rparr>"

lemma demo_vm_idle: "idle 0 demo_vm"
  by (simp add: idle_def demo_vm_def)

section \<open>Properties\<close>

text \<open>
  C5: On live arrays, with nothing pinned and no exception pending, the fourteen functions of
  \<open>SnappyNative.cpp\<close> that work on the VM or on memory keep the JNI rules: each calls no JNI function
  inside a critical section or with an exception pending, never reads an unset local, releases exactly
  what it has pinned on every path that returns, and throws only the listed error codes. Memory faults
  are the only other way to end. (\<open>maxCompressedLength\<close>, the fifteenth, only computes; the functions of
  \<open>BitShuffleNative.cpp\<close> break the rules on their error paths, which \<open>BitShuffle_Native\<close> shows.)
\<close>

theorem native_jni_rules:
  assumes "lib_lengths lib"
  shows "safe (holding self {i, j} []) (rawCompress_array lib self i a n j b) (\<lambda>_. back_in_java {4})
    \<and> safe (holding self {i, j} []) (rawUncompress_array lib self i a n j b) (\<lambda>_. back_in_java {4, 5})
    \<and> safe (holding self {i, j} []) (arrayCopy self i a n j b) (\<lambda>_. back_in_java {4})
    \<and> safe (holding self {i} []) (uncompressedLength_array lib self i a n) (\<lambda>_. back_in_java {2, 4})
    \<and> safe (holding self {i} []) (isValidCompressedBuffer_array lib self i a n) (\<lambda>_. back_in_java {4})
    \<and> safe (holding self {} []) (rawCompress_direct lib self i a n j b) (\<lambda>_. back_in_java {3})
    \<and> safe (holding self {} []) (rawUncompress_direct lib self i a n j b) (\<lambda>_. back_in_java {3, 5})
    \<and> safe (holding self {} []) (uncompressedLength_direct lib self i a n) (\<lambda>_. back_in_java {2, 3})
    \<and> safe (holding self {} []) (isValidCompressedBuffer_direct lib self i a n) (\<lambda>_. back_in_java {3})
    \<and> safe (holding self {} []) (rawCompress_JJJ lib self p n q) (\<lambda>_. back_in_java {})
    \<and> safe (holding self {} []) (rawUncompress_JJJ lib self p n q) (\<lambda>_. back_in_java {5})
    \<and> safe (holding self {} []) (uncompressedLength_JJ lib self p n) (\<lambda>_. back_in_java {2})
    \<and> safe (holding self {} []) (isValidCompressedBuffer_JJJ lib self p q n) (\<lambda>_. back_in_java {4})
    \<and> safe (holding self {} []) nativeLibraryVersion (\<lambda>_. back_in_java {})"
  using assms
  by (intro conjI safe_rawCompress_array safe_rawUncompress_array safe_arrayCopy safe_length_array
      safe_isValid_array safe_rawCompress_direct safe_rawUncompress_direct safe_length_direct
      safe_isValid_direct safe_rawCompress_JJJ safe_rawUncompress_JJJ safe_length_JJ
      safe_isValid_JJJ safe_nativeLibraryVersion) auto

theorem native_jni_rules_witness:
  "safe (holding 0 {1, 2} []) (rawUncompress_array stored_lib 0 1 0 4 2 0) (\<lambda>_. back_in_java {4, 5})
   \<and> holding 0 {1, 2} [] demo_vm"
  using native_jni_rules [OF stored_lib_lengths, of 0 1 2 0 4 0 0 0]
  by (simp add: holding_def demo_vm_def)

lemma compressed_into_segment:
  assumes "lib_space lib" and "in_range i n (length a)"
    and "in_range j (int (max_compressed lib (nat n))) (length b)"
  shows "segment j (int (length (compress_raw lib (segment i n a)))) (compressed_into lib a i n b j)
      = compress_raw lib (segment i n a)"
    and "length (compressed_into lib a i n b j) = length b"
    and "in_range j (int (length (compress_raw lib (segment i n a)))) (length b)"
proof -
  let ?x = "segment i n a"
  let ?c = "compress_raw lib ?x" and ?z = "compress_spill lib ?x"
  have l: "length ?x = nat n" using assms(2) by (simp add: segment_simps)
  have le: "length ?c + length ?z \<le> max_compressed lib (nat n)"
    using assms(1) l by (auto simp: lib_space_def dest: spec [of _ ?x])
  have r: "in_range j (int (length (?c @ ?z))) (length b)"
    using assms(3) le by (simp add: in_range_def)
  show "in_range j (int (length ?c)) (length b)" using r by (simp add: in_range_def)
  show "length (compressed_into lib a i n b j) = length b"
    using length_blit [OF r] by (simp add: compressed_into_def)
  have "segment j (int (length ?c)) (compressed_into lib a i n b j)
      = take (length ?c) (segment j (int (length (?c @ ?z))) (compressed_into lib a i n b j))"
    by (simp add: segment_def nat_int_add)
  also have "\<dots> = ?c" using segment_blit_same [OF r] by (simp add: compressed_into_def)
  finally show "segment j (int (length ?c)) (compressed_into lib a i n b j) = ?c" .
qed

text \<open>
  C4: Compressing a range of one array into a second and uncompressing that into a third returns
  the length of the range and puts exactly its bytes at the destination; the source is unchanged
  and nothing stays pinned or pending.
\<close>

theorem native_array_roundtrip:
  assumes "idle self s" and "\<forall>k. grants s k"
    and "arrays s x = Some a" and "arrays s y = Some b" and "arrays s z = Some c" and "distinct [x, y, z]"
    and "lib_roundtrip lib" and "lib_space lib" and "lib_lengths lib"
    and "in_range i n (length a)" and "in_range j (int (max_compressed lib (nat n))) (length b)"
    and "in_range k n (length c)"
    and "int (length a) \<le> int_max" and "int (length b) \<le> int_max" and "is_i32 n"
  shows "\<exists>m t. rawCompress_array lib self x i n y j s = (Inr m, t)
    \<and> (\<exists>t'. rawUncompress_array lib self y j m z k t = (Inr n, t')
        \<and> arrays t' z = Some (blit c k (segment i n a)) \<and> arrays t' x = Some a \<and> idle self t')"
proof -
  let ?x = "segment i n a"
  let ?b = "compressed_into lib a i n b j"
  let ?m = "int (length (compress_raw lib ?x))"
  let ?t = "asked 2 (array_put y ?b s)"
  note c = compressed_into_segment [OF assms(8,10,11)]
  have len: "length ?x = nat n" using assms(10) by (simp add: segment_simps)
  then have small: "length ?x < 2 ^ 32" using assms(15) by (auto simp: is_i32_def)
  have rt: "parse_length lib (compress_raw lib ?x) = Some (length ?x)"
    "uncompress_raw lib (compress_raw lib ?x) = (True, ?x)"
    using assms(7) small by (simp_all add: lib_roundtrip_def)
  have bg: "both_granted s" "both_granted ?t" using assms(2) by (simp_all add: both_granted_def asked_def array_put_def)
  have m: "i32 ?m = ?m" using c(3) assms(14) by (intro i32_int_len) (simp add: in_range_def)
  have comp: "rawCompress_array lib self x i n y j s = (Inr ?m, ?t)"
    using rawCompress_array_outcome [OF assms(1,3,4) _ assms(8,15,13), of i j] assms(6,10,11) bg m
    by simp
  have n: "i32 (int (length ?x)) = n" using len assms(10,15) by (simp add: in_range_def)
  have ty: "arrays ?t y = Some ?b" and tz: "arrays ?t z = Some c"
    using assms(5,6) by (simp_all add: asked_def array_put_def)
  have "rawUncompress_array lib self y j ?m z k ?t
      = (Inr n, asked 2 (array_put z (uncompressed_into lib ?b j ?m c k) ?t))"
    using rawUncompress_array_outcome [OF _ ty tz _ assms(9), of self j ?m k] assms(1,6,12,14) c len bg rt n
    by (simp add: in_range_def)
  then show ?thesis
    using comp c(1) rt(2) assms(1,3,6)
    by (simp add: uncompressed_into_def) (simp add: asked_def array_put_def)
qed

theorem native_array_roundtrip_witness:
  "\<exists>m t. rawCompress_array stored_lib 0 1 1 3 2 0 demo_vm = (Inr m, t)
    \<and> (\<exists>t'. rawUncompress_array stored_lib 0 2 0 m 3 2 t = (Inr 3, t')
        \<and> arrays t' 3 = Some [0, 0, 20, 30, 40, 0] \<and> arrays t' 1 = Some [10, 20, 30, 40] \<and> idle 0 t')"
proof -
  have v: "\<forall>k. grants demo_vm k" "arrays demo_vm 1 = Some [10, 20, 30, 40]"
    "arrays demo_vm 2 = Some (replicate 40 0)" "arrays demo_vm 3 = Some (replicate 6 0)"
    by (simp_all add: demo_vm_def)
  have "[0, 0, 20, 30, 40, 0] = blit (replicate 6 0) 2 (segment 1 3 [10, 20, 30, 40 :: byte])"
    by (simp add: blit_def segment_def numeral_eq_Suc)
  moreover have "in_range 0 (int (max_compressed stored_lib (nat 3))) (length (replicate 40 (0 :: byte)))"
    by (simp add: in_range_def stored_lib_def)
  ultimately show ?thesis
    using native_array_roundtrip [OF demo_vm_idle v(1,2,3,4) _ stored_lib_roundtrip stored_lib_space
        stored_lib_lengths, of 1 3 0 2]
    by (simp add: in_range_def int_max_def is_i32_def)
qed

text \<open>
  The native code trusts its caller with the ranges: with both arrays granted,
  \<open>rawCompress\<close> on arrays stays inside memory exactly when the source range lies in the input
  and \<open>maxCompressedLength\<close> bytes are free at the output offset; \<open>arrayCopy\<close> exactly when both ranges
  lie in their arrays. A negative length is such a fault, since it becomes a huge \<open>size_t\<close>.
\<close>

theorem native_bounds_unchecked:
  assumes "idle self s" and "both_granted s" and "arrays s x = Some a" and "arrays s y = Some b"
    and "x \<noteq> y" and "lib_space lib" and "is_i32 n" and "int (length a) \<le> int_max"
  shows "(fst (rawCompress_array lib self x i n y j s) = Inl OutOfBounds
      \<longleftrightarrow> \<not> (in_range i n (length a) \<and> in_range j (int (max_compressed lib (nat n))) (length b)))
    \<and> (fst (arrayCopy self x i n y j s) = Inl OutOfBounds
      \<longleftrightarrow> \<not> (in_range i n (length a) \<and> in_range j n (length b)))"
  using rawCompress_array_outcome [OF assms(1,3,4,5,6,7,8), of i j]
    arrayCopy_outcome [OF assms(1,3,4,5,7,8), of i j] assms(2)
  by auto

theorem native_bounds_unchecked_witness:
  "fst (rawCompress_array stored_lib 0 1 0 (- 1) 2 0 demo_vm) = Inl OutOfBounds
   \<and> fst (rawCompress_array stored_lib 0 1 0 4 3 0 demo_vm) = Inl OutOfBounds
   \<and> fst (arrayCopy 0 1 0 4 3 2 demo_vm) \<noteq> Inl OutOfBounds"
proof -
  have v: "both_granted demo_vm" "arrays demo_vm 1 = Some [10, 20, 30, 40]"
    "arrays demo_vm 2 = Some (replicate 40 0)" "arrays demo_vm 3 = Some (replicate 6 0)"
    by (simp_all add: demo_vm_def both_granted_def)
  show ?thesis
    using native_bounds_unchecked [OF demo_vm_idle v(1,2,3) _ stored_lib_space, of "- 1" 0 0]
      native_bounds_unchecked [OF demo_vm_idle v(1,2,4) _ stored_lib_space, of 4 0 0]
      native_bounds_unchecked [OF demo_vm_idle v(1,2,4) _ stored_lib_space, of 4 0 2]
    by (simp add: in_range_def is_i32_def int_max_def)
qed

text \<open>
  Each rejection reports its own code and returns zero: an array that cannot be pinned is
  \<open>OUT_OF_MEMORY\<close>, a buffer that is not direct \<open>NOT_A_DIRECT_BUFFER\<close>, data that does not uncompress
  \<open>FAILED_TO_UNCOMPRESS\<close>, and a length that does not parse \<open>PARSING_ERROR\<close>. Nothing but the request
  count and the pending exception changes where nothing was written.
\<close>

theorem native_rejections:
  assumes s: "idle self s" and a: "arrays s x = Some a" and b: "arrays s y = Some b"
    and xy: "x \<noteq> y" and lib: "lib_space lib" "lib_lengths lib"
    and r: "in_range i n (length a)" and big: "int (length a) \<le> int_max"
    and n: "is_i32 n" and uv: "u \<noteq> v" and d: "\<And>d. directs s u = Some d \<Longrightarrow> int (length d) \<le> int_max"
  shows "(\<not> both_granted s \<longrightarrow>
      rawCompress_array lib self x i n y j s = (Inr 0, throwing (error_id OUT_OF_MEMORY) (asked 2 s)))
    \<and> (directs s u = None \<or> directs s v = None \<longrightarrow>
      rawCompress_direct lib self u i n v j s = (Inr 0, throwing (error_id NOT_A_DIRECT_BUFFER) s))
    \<and> (both_granted s \<and> parse_length lib (segment i n a) = None \<longrightarrow>
      (\<exists>t. rawUncompress_array lib self x i n y j s = (Inr 0, throwing (error_id FAILED_TO_UNCOMPRESS) t)
        \<and> arrays t = arrays s))
    \<and> (both_granted s \<and> parse_length lib (segment i n a) = None \<longrightarrow>
      uncompressedLength_array lib self x i n s = (Inr 0, throwing (error_id PARSING_ERROR) (asked 1 s)))"
proof (intro conjI impI)
  assume "\<not> both_granted s"
  then show "rawCompress_array lib self x i n y j s = (Inr 0, throwing (error_id OUT_OF_MEMORY) (asked 2 s))"
    using rawCompress_array_outcome [OF s a b xy lib(1) n big, of i j] by simp
next
  assume "directs s u = None \<or> directs s v = None"
  then show "rawCompress_direct lib self u i n v j s = (Inr 0, throwing (error_id NOT_A_DIRECT_BUFFER) s)"
    using rawCompress_direct_outcome [OF s uv lib(1) n d, of i j] by (auto split: option.splits)
next
  assume p: "both_granted s \<and> parse_length lib (segment i n a) = None"
  then have u: "uncompress_raw lib (segment i n a) = (False, [])"
    using lib(2) by (simp add: lib_lengths_def)
  have "arrays (asked 2 (array_put y (uncompressed_into lib a i n b j) s)) = arrays s"
    using b u by (auto simp: asked_def array_put_def uncompressed_into_def)
  then show "\<exists>t. rawUncompress_array lib self x i n y j s = (Inr 0, throwing (error_id FAILED_TO_UNCOMPRESS) t)
        \<and> arrays t = arrays s"
    using rawUncompress_array_outcome [OF s a b xy lib(2) r big, of j] p u by auto
next
  assume p: "both_granted s \<and> parse_length lib (segment i n a) = None"
  show "uncompressedLength_array lib self x i n s = (Inr 0, throwing (error_id PARSING_ERROR) (asked 1 s))"
    using uncompressedLength_array_outcome [OF s a n big, of lib i] r p by (simp add: both_granted_def)
qed

theorem native_rejections_witness:
  "rawCompress_array stored_lib 0 1 0 4 2 0 (demo_vm\<lparr>grants := (\<lambda>k. k = 1)\<rparr>)
     = (Inr 0, throwing 4 (asked 2 (demo_vm\<lparr>grants := (\<lambda>k. k = 1)\<rparr>)))
   \<and> uncompressedLength_array stored_lib 0 1 0 4 demo_vm = (Inr 0, throwing 2 (asked 1 demo_vm))"
proof -
  let ?s = "demo_vm\<lparr>grants := (\<lambda>k. k = 1)\<rparr>"
  have r: "in_range 0 4 (length [10, 20, 30, 40 :: byte])" "int (length [10, 20, 30, 40 :: byte]) \<le> int_max"
    by (simp_all add: in_range_def int_max_def)
  have n: "is_i32 4" by (simp add: is_i32_def)
  have d: "int (length z) \<le> int_max" if "directs (demo_vm\<lparr>grants := g\<rparr>) 1 = Some z" for g z
    using that by (auto simp: demo_vm_def int_max_def)
  have d': "int (length z) \<le> int_max" if "directs demo_vm 1 = Some z" for z
    using that by (auto simp: demo_vm_def int_max_def)
  have g: "\<not> both_granted ?s" "both_granted demo_vm" by (simp_all add: both_granted_def demo_vm_def)
  have p: "parse_length stored_lib (segment 0 4 [10, 20, 30, 40]) = None"
    by (simp add: stored_lib_def)
  have 1: "idle 0 ?s" "arrays ?s 1 = Some [10, 20, 30, 40]" "arrays ?s 2 = Some (replicate 40 0)"
    and 2: "idle 0 demo_vm" "arrays demo_vm 1 = Some [10, 20, 30, 40]" "arrays demo_vm 2 = Some (replicate 40 0)"
    by (simp_all add: demo_vm_def idle_def)
  have ne: "(1 :: nat) \<noteq> 2" by simp
  show ?thesis
    using native_rejections [OF 1 ne stored_lib_space stored_lib_lengths r n ne d [of "\<lambda>k. k = 1"], of 0] g(1)
      native_rejections [OF 2 ne stored_lib_space stored_lib_lengths r n ne d', of 0] g(2) p
    by (auto simp only: error_id.simps)
qed

text \<open>
  \<open>uncompressedLength(long, long)\<close> is declared to return a \<open>long\<close>, but the C++ code narrows the
  result to \<open>jint\<close>: a length of \<open>2 ^ 31\<close> bytes or more, which the format allows, comes back
  negative and off by \<open>2 ^ 32\<close>; smaller ones come back unchanged.
\<close>

theorem uncompressedLength_JJ_narrows:
  assumes "idle self s" and "accessible s (RawPtr p) (size_t n) = Some y"
    and "parse_length lib y = Some l" and "lib_lengths lib"
  shows "uncompressedLength_JJ lib self p n s
    = (Inr (if l < 2 ^ 31 then int l else int l - 2 ^ 32), s)"
proof -
  have "l < 2 ^ 32" using assms(3,4) by (auto simp: lib_lengths_def)
  then show ?thesis
    using uncompressedLength_JJ_outcome [OF assms(1,2)] assms(3) i32_unsigned [of "int l"] by auto
qed

definition varint_lib :: snappy_lib where
  "varint_lib = stored_lib\<lparr>
     parse_length := (\<lambda>y. if y = [128, 128, 128, 128, 8] then Some (2 ^ 31) else None),
     uncompress_raw := (\<lambda>y. (False, []))\<rparr>"

theorem uncompressedLength_JJ_narrows_witness:
  "fst (uncompressedLength_JJ varint_lib 0 1000 5
     (demo_vm\<lparr>memory := (\<lambda>x. if x = 1004 then Some 8 else Some 128)\<rparr>)) = Inr (- (2 ^ 31))"
proof -
  let ?s = "demo_vm\<lparr>memory := (\<lambda>x. if x = 1004 then Some 8 else Some 128)\<rparr>"
  have i: "idle 0 ?s" using demo_vm_idle by (simp add: idle_def)
  have a: "accessible ?s (RawPtr 1000) (size_t 5) = Some [128, 128, 128, 128, 8]"
    by (simp add: accessible.simps size_t_def upt_rec)
  have l: "lib_lengths varint_lib" by (auto simp: lib_lengths_def varint_lib_def)
  have p: "parse_length varint_lib [128, 128, 128, 128, 8] = Some (2 ^ 31)"
    by (simp add: varint_lib_def)
  show ?thesis using uncompressedLength_JJ_narrows [OF i a p l] by simp
qed

end
