(* ===== verification/Native_Exports.thy ===== *)
theory Native_Exports
  imports Jni_Types "HOL-Library.Multiset"
begin

text \<open>
  The seam between the Java classes and the native libraries. The Java VM finds the function of a
  native method by its mangled name, so the headers \<open>SnappyNative.h\<close> and \<open>BitShuffleNative.h\<close> and
  the functions the C++ files define must be exactly the mangled native methods of
  \<open>SnappyNative.java\<close> and \<open>BitShuffleNative.java\<close>, with the C types of their Java types.
\<close>

section \<open>Native methods and the JNI name of their functions\<close>

datatype jtype = TVoid | TBoolean | TInt | TLong | TClass string

datatype java_native = Native (n_name: string) (n_params: "jtype list") (n_ret: jtype)

text \<open>Function name, return type and parameter types of a C function.\<close>

type_synonym prototype = "string \<times> ctype \<times> ctype list"

fun descriptor :: "jtype \<Rightarrow> string" where
  "descriptor TVoid = ''V''"
| "descriptor TBoolean = ''Z''"
| "descriptor TInt = ''I''"
| "descriptor TLong = ''J''"
| "descriptor (TClass c) = ''L'' @ c @ '';''"

text \<open>The escapes of the JNI specification for ASCII names.\<close>

definition mangle_char :: "char \<Rightarrow> string" where
  "mangle_char c = (if c = CHR ''/'' then ''_'' else if c = CHR ''_'' then ''_1''
     else if c = CHR '';'' then ''_2'' else if c = CHR ''['' then ''_3'' else [c])"

definition mangle :: "string \<Rightarrow> string" where
  "mangle s = concat (map mangle_char s)"

definition has_overload :: "java_native list \<Rightarrow> java_native \<Rightarrow> bool" where
  "has_overload ms m \<longleftrightarrow> length (filter (\<lambda>m'. n_name m' = n_name m) ms) > 1"

definition jni_name :: "string \<Rightarrow> java_native list \<Rightarrow> java_native \<Rightarrow> string" where
  "jni_name cls ms m = ''Java_'' @ mangle cls @ ''_'' @ mangle (n_name m) @
     (if has_overload ms m then ''__'' @ mangle (concat (map descriptor (n_params m))) else [])"

fun c_type :: "jtype \<Rightarrow> ctype" where
  "c_type TVoid = CVoid"
| "c_type TBoolean = Jboolean"
| "c_type TInt = Jint"
| "c_type TLong = Jlong"
| "c_type (TClass c) = (if c = ''java/lang/String'' then Jstring else Jobject)"

definition prototype_of :: "string \<Rightarrow> java_native list \<Rightarrow> java_native \<Rightarrow> prototype" where
  "prototype_of cls ms m =
     (jni_name cls ms m, c_type (n_ret m), Ptr JNIEnv # Jobject # map c_type (n_params m))"

section \<open>The Java classes\<close>

definition snappy_natives :: "java_native list" where
  "snappy_natives = [
     Native ''nativeLibraryVersion'' [] (TClass ''java/lang/String''),
     Native ''rawCompress'' [TLong, TLong, TLong] TLong,
     Native ''rawUncompress'' [TLong, TLong, TLong] TLong,
     Native ''rawCompress'' [TClass ''java/nio/ByteBuffer'', TInt, TInt, TClass ''java/nio/ByteBuffer'', TInt] TInt,
     Native ''rawCompress'' [TClass ''java/lang/Object'', TInt, TInt, TClass ''java/lang/Object'', TInt] TInt,
     Native ''rawUncompress'' [TClass ''java/nio/ByteBuffer'', TInt, TInt, TClass ''java/nio/ByteBuffer'', TInt] TInt,
     Native ''rawUncompress'' [TClass ''java/lang/Object'', TInt, TInt, TClass ''java/lang/Object'', TInt] TInt,
     Native ''maxCompressedLength'' [TInt] TInt,
     Native ''uncompressedLength'' [TClass ''java/nio/ByteBuffer'', TInt, TInt] TInt,
     Native ''uncompressedLength'' [TClass ''java/lang/Object'', TInt, TInt] TInt,
     Native ''uncompressedLength'' [TLong, TLong] TLong,
     Native ''isValidCompressedBuffer'' [TClass ''java/nio/ByteBuffer'', TInt, TInt] TBoolean,
     Native ''isValidCompressedBuffer'' [TClass ''java/lang/Object'', TInt, TInt] TBoolean,
     Native ''isValidCompressedBuffer'' [TLong, TLong, TLong] TBoolean,
     Native ''arrayCopy'' [TClass ''java/lang/Object'', TInt, TInt, TClass ''java/lang/Object'', TInt] TVoid]"

definition bitshuffle_natives :: "java_native list" where
  "bitshuffle_natives = [
     Native ''shuffle'' [TClass ''java/lang/Object'', TInt, TInt, TInt, TClass ''java/lang/Object'', TInt] TInt,
     Native ''shuffleDirectBuffer'' [TClass ''java/nio/ByteBuffer'', TInt, TInt, TInt, TClass ''java/nio/ByteBuffer'', TInt] TInt,
     Native ''unshuffle'' [TClass ''java/lang/Object'', TInt, TInt, TInt, TClass ''java/lang/Object'', TInt] TInt,
     Native ''unshuffleDirectBuffer'' [TClass ''java/nio/ByteBuffer'', TInt, TInt, TInt, TClass ''java/nio/ByteBuffer'', TInt] TInt]"

section \<open>The headers and the definitions\<close>

definition snappy_header :: "prototype list" where
  "snappy_header = [
     (''Java_org_xerial_snappy_SnappyNative_nativeLibraryVersion'',
      Jstring, [Ptr JNIEnv, Jobject]),
     (''Java_org_xerial_snappy_SnappyNative_rawCompress__JJJ'',
      Jlong, [Ptr JNIEnv, Jobject, Jlong, Jlong, Jlong]),
     (''Java_org_xerial_snappy_SnappyNative_rawUncompress__JJJ'',
      Jlong, [Ptr JNIEnv, Jobject, Jlong, Jlong, Jlong]),
     (''Java_org_xerial_snappy_SnappyNative_rawCompress__Ljava_nio_ByteBuffer_2IILjava_nio_ByteBuffer_2I'',
      Jint, [Ptr JNIEnv, Jobject, Jobject, Jint, Jint, Jobject, Jint]),
     (''Java_org_xerial_snappy_SnappyNative_rawCompress__Ljava_lang_Object_2IILjava_lang_Object_2I'',
      Jint, [Ptr JNIEnv, Jobject, Jobject, Jint, Jint, Jobject, Jint]),
     (''Java_org_xerial_snappy_SnappyNative_rawUncompress__Ljava_nio_ByteBuffer_2IILjava_nio_ByteBuffer_2I'',
      Jint, [Ptr JNIEnv, Jobject, Jobject, Jint, Jint, Jobject, Jint]),
     (''Java_org_xerial_snappy_SnappyNative_rawUncompress__Ljava_lang_Object_2IILjava_lang_Object_2I'',
      Jint, [Ptr JNIEnv, Jobject, Jobject, Jint, Jint, Jobject, Jint]),
     (''Java_org_xerial_snappy_SnappyNative_maxCompressedLength'',
      Jint, [Ptr JNIEnv, Jobject, Jint]),
     (''Java_org_xerial_snappy_SnappyNative_uncompressedLength__Ljava_nio_ByteBuffer_2II'',
      Jint, [Ptr JNIEnv, Jobject, Jobject, Jint, Jint]),
     (''Java_org_xerial_snappy_SnappyNative_uncompressedLength__Ljava_lang_Object_2II'',
      Jint, [Ptr JNIEnv, Jobject, Jobject, Jint, Jint]),
     (''Java_org_xerial_snappy_SnappyNative_uncompressedLength__JJ'',
      Jlong, [Ptr JNIEnv, Jobject, Jlong, Jlong]),
     (''Java_org_xerial_snappy_SnappyNative_isValidCompressedBuffer__Ljava_nio_ByteBuffer_2II'',
      Jboolean, [Ptr JNIEnv, Jobject, Jobject, Jint, Jint]),
     (''Java_org_xerial_snappy_SnappyNative_isValidCompressedBuffer__Ljava_lang_Object_2II'',
      Jboolean, [Ptr JNIEnv, Jobject, Jobject, Jint, Jint]),
     (''Java_org_xerial_snappy_SnappyNative_isValidCompressedBuffer__JJJ'',
      Jboolean, [Ptr JNIEnv, Jobject, Jlong, Jlong, Jlong]),
     (''Java_org_xerial_snappy_SnappyNative_arrayCopy'',
      CVoid, [Ptr JNIEnv, Jobject, Jobject, Jint, Jint, Jobject, Jint])]"

definition bitshuffle_header :: "prototype list" where
  "bitshuffle_header = [
     (''Java_org_xerial_snappy_BitShuffleNative_shuffle'',
      Jint, [Ptr JNIEnv, Jobject, Jobject, Jint, Jint, Jint, Jobject, Jint]),
     (''Java_org_xerial_snappy_BitShuffleNative_shuffleDirectBuffer'',
      Jint, [Ptr JNIEnv, Jobject, Jobject, Jint, Jint, Jint, Jobject, Jint]),
     (''Java_org_xerial_snappy_BitShuffleNative_unshuffle'',
      Jint, [Ptr JNIEnv, Jobject, Jobject, Jint, Jint, Jint, Jobject, Jint]),
     (''Java_org_xerial_snappy_BitShuffleNative_unshuffleDirectBuffer'',
      Jint, [Ptr JNIEnv, Jobject, Jobject, Jint, Jint, Jint, Jobject, Jint])]"

definition snappy_exports :: "prototype list" where
  "snappy_exports = [
     (''Java_org_xerial_snappy_SnappyNative_nativeLibraryVersion'',
      Jstring, [Ptr JNIEnv, Jobject]),
     (''Java_org_xerial_snappy_SnappyNative_rawCompress__JJJ'',
      Jlong, [Ptr JNIEnv, Jobject, Jlong, Jlong, Jlong]),
     (''Java_org_xerial_snappy_SnappyNative_rawUncompress__JJJ'',
      Jlong, [Ptr JNIEnv, Jobject, Jlong, Jlong, Jlong]),
     (''Java_org_xerial_snappy_SnappyNative_rawCompress__Ljava_nio_ByteBuffer_2IILjava_nio_ByteBuffer_2I'',
      Jint, [Ptr JNIEnv, Jobject, Jobject, Jint, Jint, Jobject, Jint]),
     (''Java_org_xerial_snappy_SnappyNative_rawCompress__Ljava_lang_Object_2IILjava_lang_Object_2I'',
      Jint, [Ptr JNIEnv, Jobject, Jobject, Jint, Jint, Jobject, Jint]),
     (''Java_org_xerial_snappy_SnappyNative_rawUncompress__Ljava_lang_Object_2IILjava_lang_Object_2I'',
      Jint, [Ptr JNIEnv, Jobject, Jobject, Jint, Jint, Jobject, Jint]),
     (''Java_org_xerial_snappy_SnappyNative_rawUncompress__Ljava_nio_ByteBuffer_2IILjava_nio_ByteBuffer_2I'',
      Jint, [Ptr JNIEnv, Jobject, Jobject, Jint, Jint, Jobject, Jint]),
     (''Java_org_xerial_snappy_SnappyNative_maxCompressedLength'',
      Jint, [Ptr JNIEnv, Jobject, Jint]),
     (''Java_org_xerial_snappy_SnappyNative_uncompressedLength__Ljava_nio_ByteBuffer_2II'',
      Jint, [Ptr JNIEnv, Jobject, Jobject, Jint, Jint]),
     (''Java_org_xerial_snappy_SnappyNative_uncompressedLength__Ljava_lang_Object_2II'',
      Jint, [Ptr JNIEnv, Jobject, Jobject, Jint, Jint]),
     (''Java_org_xerial_snappy_SnappyNative_uncompressedLength__JJ'',
      Jlong, [Ptr JNIEnv, Jobject, Jlong, Jlong]),
     (''Java_org_xerial_snappy_SnappyNative_isValidCompressedBuffer__Ljava_nio_ByteBuffer_2II'',
      Jboolean, [Ptr JNIEnv, Jobject, Jobject, Jint, Jint]),
     (''Java_org_xerial_snappy_SnappyNative_isValidCompressedBuffer__Ljava_lang_Object_2II'',
      Jboolean, [Ptr JNIEnv, Jobject, Jobject, Jint, Jint]),
     (''Java_org_xerial_snappy_SnappyNative_isValidCompressedBuffer__JJJ'',
      Jboolean, [Ptr JNIEnv, Jobject, Jlong, Jlong, Jlong]),
     (''Java_org_xerial_snappy_SnappyNative_arrayCopy'',
      CVoid, [Ptr JNIEnv, Jobject, Jobject, Jint, Jint, Jobject, Jint])]"

definition bitshuffle_exports :: "prototype list" where
  "bitshuffle_exports = [
     (''Java_org_xerial_snappy_BitShuffleNative_shuffle'',
      Jint, [Ptr JNIEnv, Jobject, Jobject, Jint, Jint, Jint, Jobject, Jint]),
     (''Java_org_xerial_snappy_BitShuffleNative_shuffleDirectBuffer'',
      Jint, [Ptr JNIEnv, Jobject, Jobject, Jint, Jint, Jint, Jobject, Jint]),
     (''Java_org_xerial_snappy_BitShuffleNative_unshuffle'',
      Jint, [Ptr JNIEnv, Jobject, Jobject, Jint, Jint, Jint, Jobject, Jint]),
     (''Java_org_xerial_snappy_BitShuffleNative_unshuffleDirectBuffer'',
      Jint, [Ptr JNIEnv, Jobject, Jobject, Jint, Jint, Jint, Jobject, Jint])]"

section \<open>Properties\<close>

text \<open>
  Every native method of \<open>SnappyNative\<close> and \<open>BitShuffleNative\<close> has exactly one function in its
  header, under the name the VM looks up and with the C types of its signature, and the C++ files
  define exactly the functions the headers declare.
\<close>

theorem natives_linked:
  "snappy_header = map (prototype_of ''org/xerial/snappy/SnappyNative'' snappy_natives) snappy_natives
   \<and> mset snappy_exports = mset snappy_header
   \<and> bitshuffle_header
       = map (prototype_of ''org/xerial/snappy/BitShuffleNative'' bitshuffle_natives) bitshuffle_natives
   \<and> bitshuffle_exports = bitshuffle_header"
proof (intro conjI)
  show "snappy_header = map (prototype_of ''org/xerial/snappy/SnappyNative'' snappy_natives) snappy_natives"
    by (simp add: snappy_natives_def snappy_header_def prototype_of_def jni_name_def has_overload_def
        mangle_def mangle_char_def)
  show "mset snappy_exports = mset snappy_header"
    unfolding snappy_exports_def snappy_header_def mset.simps by (simp only: add_mset_commute)
  show "bitshuffle_header
      = map (prototype_of ''org/xerial/snappy/BitShuffleNative'' bitshuffle_natives) bitshuffle_natives"
    by (simp add: bitshuffle_natives_def bitshuffle_header_def prototype_of_def jni_name_def has_overload_def
        mangle_def mangle_char_def)
  show "bitshuffle_exports = bitshuffle_header"
    by (simp only: bitshuffle_exports_def bitshuffle_header_def)
qed

end
