(* ===== verification/Snappy_Api.thy ===== *)
theory Snappy_Api
  imports Snappy_Native
begin

text \<open>
  \<open>Snappy.java\<close>: the static methods that check their arguments and call the native methods through
  \<open>impl\<close>. A Java array is the list of its bytes; an array of \<open>k\<close>-byte elements is a list whose length
  is a multiple of \<open>k\<close>. A method that fills an array returns its result and the array.

  The first section states what \<open>impl\<close> does to arrays, and that the C++ functions do it
  (\<open>impl_rawCompress_refines\<close> and its companions), when the VM grants the arrays.
\<close>

section \<open>The native methods as operations on arrays\<close>

definition impl_rawCompress :: "snappy_lib \<Rightarrow> bytes \<Rightarrow> int \<Rightarrow> int \<Rightarrow> int \<Rightarrow> (bytes, exc, int) op" where
  "impl_rawCompress lib a i n j b =
     (if in_range i n (length a) \<and> in_range j (int (max_compressed lib (nat n))) (length b)
      then (Inr (i32 (int (length (compress_raw lib (segment i n a))))), compressed_into lib a i n b j)
      else (Inl NativeFault, b))"

definition impl_rawUncompress :: "snappy_lib \<Rightarrow> bytes \<Rightarrow> int \<Rightarrow> int \<Rightarrow> int \<Rightarrow> (bytes, exc, int) op" where
  "impl_rawUncompress lib a i n j b =
     (let y = segment i n a in
      if \<not> in_range i n (length a) then (Inl NativeFault, b)
      else case parse_length lib y of
          None \<Rightarrow> (Inl (throw_error 5), b)
        | Some m \<Rightarrow>
            if \<not> in_range j (int m) (length b) then (Inl NativeFault, b)
            else if fst (uncompress_raw lib y)
            then (Inr (i32 (int (length (snd (uncompress_raw lib y))))), uncompressed_into lib a i n b j)
            else (Inl (throw_error 5), uncompressed_into lib a i n b j))"

definition impl_uncompressedLength :: "snappy_lib \<Rightarrow> bytes \<Rightarrow> int \<Rightarrow> int \<Rightarrow> int result" where
  "impl_uncompressedLength lib a i n =
     (if \<not> in_range i n (length a) then Inl NativeFault
      else case parse_length lib (segment i n a) of
          None \<Rightarrow> Inl (throw_error 2)
        | Some m \<Rightarrow> Inr (i32 (int m)))"

definition impl_isValidCompressedBuffer :: "snappy_lib \<Rightarrow> bytes \<Rightarrow> int \<Rightarrow> int \<Rightarrow> bool result" where
  "impl_isValidCompressedBuffer lib a i n =
     (if \<not> in_range i n (length a) then Inl NativeFault
      else Inr (valid_compressed lib (segment i n a)))"

definition impl_arrayCopy :: "bytes \<Rightarrow> int \<Rightarrow> int \<Rightarrow> int \<Rightarrow> (bytes, exc, unit) op" where
  "impl_arrayCopy a i n j b =
     (if in_range i n (length a) \<and> in_range j n (length b)
      then (Inr (), blit b j (segment i n a)) else (Inl NativeFault, b))"

text \<open>What Java sees of a native call: a fault, the pending exception, or the returned value.\<close>

definition java_outcome :: "(fault + 'a) \<times> jvm \<Rightarrow> 'a result" where
  "java_outcome r = (case r of
       (Inl f, s) \<Rightarrow> Inl NativeFault
     | (Inr x, s) \<Rightarrow> (case pending_exc s of
           Some (ThrowError code) \<Rightarrow> Inl (throw_error code)
         | Some LinkageError \<Rightarrow> Inl NativeFault
         | None \<Rightarrow> Inr x))"

definition array_after :: "nat \<Rightarrow> (fault + 'a) \<times> jvm \<Rightarrow> bytes" where
  "array_after h r = the (arrays (snd r) h)"

lemma outcome_simps:
  "idle self s \<Longrightarrow> pending_exc (asked n (array_put h a s)) = None"
  "pending_exc (throwing c s) = Some (ThrowError c)"
  "idle self s \<Longrightarrow> pending_exc (asked n s) = None"
  "arrays (asked n s) = arrays s" "arrays (throwing c s) = arrays s"
  "arrays (pinning x y s) = arrays s" "arrays (array_put h a s) = (arrays s)(h \<mapsto> a)"
  "arrays (pinning_one x s) = arrays s"
  by (simp_all add: idle_def asked_def array_put_def throwing_def pinning_def pinning_one_def)

lemma impl_rawCompress_refines:
  assumes "idle self s" and "both_granted s" and "arrays s x = Some a" and "arrays s y = Some b"
    and "x \<noteq> y" and "lib_space lib" and "is_i32 n" and "int (length a) \<le> int_max"
  shows "(java_outcome (rawCompress_array lib self x i n y j s),
          array_after y (rawCompress_array lib self x i n y j s)) = impl_rawCompress lib a i n j b"
  using assms outcome_simps(1) [OF assms(1)]
  by (simp add: rawCompress_array_outcome [OF assms(1,3,4,5,6,7,8)] impl_rawCompress_def java_outcome_def
      array_after_def outcome_simps)

lemma impl_arrayCopy_refines:
  assumes "idle self s" and "both_granted s" and "arrays s x = Some a" and "arrays s y = Some b"
    and "x \<noteq> y" and "is_i32 n" and "int (length a) \<le> int_max"
  shows "(java_outcome (arrayCopy self x i n y j s), array_after y (arrayCopy self x i n y j s))
    = impl_arrayCopy a i n j b"
  using assms outcome_simps(1) [OF assms(1)]
  by (simp add: arrayCopy_outcome [OF assms(1,3,4,5,6,7)] impl_arrayCopy_def java_outcome_def
      array_after_def outcome_simps)

lemma impl_uncompressedLength_refines:
  assumes "idle self s" and "both_granted s" and "arrays s x = Some a"
    and "is_i32 n" and "int (length a) \<le> int_max"
  shows "java_outcome (uncompressedLength_array lib self x i n s) = impl_uncompressedLength lib a i n"
  using assms outcome_simps(3) [OF assms(1)]
  by (simp add: uncompressedLength_array_outcome [OF assms(1,3,4,5)] impl_uncompressedLength_def
      java_outcome_def outcome_simps both_granted_def split: option.splits)

lemma impl_isValid_refines:
  assumes "idle self s" and "both_granted s" and "arrays s x = Some a"
    and "is_i32 n" and "int (length a) \<le> int_max"
  shows "java_outcome (isValidCompressedBuffer_array lib self x i n s) = impl_isValidCompressedBuffer lib a i n"
  using assms outcome_simps(3) [OF assms(1)]
  by (simp add: isValid_array_outcome [OF assms(1,3,4,5)] impl_isValidCompressedBuffer_def
      java_outcome_def outcome_simps both_granted_def)

lemma impl_rawUncompress_refines:
  assumes "idle self s" and "both_granted s" and "arrays s x = Some a" and "arrays s y = Some b"
    and "x \<noteq> y" and "lib_lengths lib" and "in_range i n (length a)" and "int (length a) \<le> int_max"
    and "\<And>m. parse_length lib (segment i n a) = Some m \<Longrightarrow> in_range j (int m) (length b)"
  shows "(java_outcome (rawUncompress_array lib self x i n y j s),
          array_after y (rawUncompress_array lib self x i n y j s)) = impl_rawUncompress lib a i n j b"
proof (cases "parse_length lib (segment i n a)")
  case None
  then have "uncompress_raw lib (segment i n a) = (False, [])"
    using assms(6) by (simp add: lib_lengths_def)
  moreover have "rawUncompress_array lib self x i n y j s
      = (Inr 0, throwing 5 (asked 2 (array_put y (uncompressed_into lib a i n b j) s)))"
    using rawUncompress_array_outcome [OF assms(1,3,4,5,6,7,8), of j] assms(2) None calculation by simp
  ultimately show ?thesis
    using assms(7) None
    by (simp add: impl_rawUncompress_def java_outcome_def array_after_def outcome_simps uncompressed_into_def)
next
  case (Some m)
  have "rawUncompress_array lib self x i n y j s =
      (if fst (uncompress_raw lib (segment i n a))
       then (Inr (i32 (int (length (snd (uncompress_raw lib (segment i n a)))))),
             asked 2 (array_put y (uncompressed_into lib a i n b j) s))
       else (Inr 0, throwing 5 (asked 2 (array_put y (uncompressed_into lib a i n b j) s))))"
    using rawUncompress_array_outcome [OF assms(1,3,4,5,6,7,8), of j] assms(2) assms(9) by simp
  then show ?thesis
    using assms(7) Some assms(9) [OF Some] outcome_simps(1) [OF assms(1)]
    by (simp add: impl_rawUncompress_def java_outcome_def array_after_def outcome_simps)
qed

section \<open>Snappy.java: byte arrays\<close>

definition s_maxCompressedLength :: "snappy_lib \<Rightarrow> int \<Rightarrow> int" where
  "s_maxCompressedLength lib byteSize = maxCompressedLength lib byteSize"

text \<open>\<open>None\<close> is a null reference.\<close>

definition s_rawCompress :: "snappy_lib \<Rightarrow> bytes option \<Rightarrow> int \<Rightarrow> int \<Rightarrow> int \<Rightarrow> (bytes option, exc, int) op" where
  "s_rawCompress lib inp inputOffset inputLength outputOffset outp =
     (case (inp, outp) of
        (Some a, Some b) \<Rightarrow>
          (case impl_rawCompress lib a inputOffset inputLength outputOffset b of (r, b') \<Rightarrow> (r, Some b'))
      | _ \<Rightarrow> (Inl NullPointerException, outp))"

definition s_rawUncompress :: "snappy_lib \<Rightarrow> bytes option \<Rightarrow> int \<Rightarrow> int \<Rightarrow> int \<Rightarrow> (bytes option, exc, int) op" where
  "s_rawUncompress lib inp inputOffset inputLength outputOffset outp =
     (case (inp, outp) of
        (Some a, Some b) \<Rightarrow>
          (case impl_rawUncompress lib a inputOffset inputLength outputOffset b of (r, b') \<Rightarrow> (r, Some b'))
      | _ \<Rightarrow> (Inl NullPointerException, outp))"

definition s_compress :: "snappy_lib \<Rightarrow> bytes option \<Rightarrow> int \<Rightarrow> int \<Rightarrow> int \<Rightarrow> (bytes option, exc, int) op" where
  "s_compress = s_rawCompress"

definition s_uncompress :: "snappy_lib \<Rightarrow> bytes option \<Rightarrow> int \<Rightarrow> int \<Rightarrow> int \<Rightarrow> (bytes option, exc, int) op" where
  "s_uncompress = s_rawUncompress"

definition s_uncompressedLength :: "snappy_lib \<Rightarrow> bytes option \<Rightarrow> int \<Rightarrow> int \<Rightarrow> int result" where
  "s_uncompressedLength lib inp offset len =
     (case inp of None \<Rightarrow> Inl NullPointerException | Some a \<Rightarrow> impl_uncompressedLength lib a offset len)"

definition s_isValidCompressedBuffer :: "snappy_lib \<Rightarrow> bytes option \<Rightarrow> int \<Rightarrow> int \<Rightarrow> bool result" where
  "s_isValidCompressedBuffer lib inp offset len =
     (case inp of None \<Rightarrow> Inl NullPointerException | Some a \<Rightarrow> impl_isValidCompressedBuffer lib a offset len)"

text \<open>\<open>rawCompress(Object, int)\<close>: a fresh buffer of the maximal size, cut to the compressed size.\<close>

definition s_rawCompress_new :: "snappy_lib \<Rightarrow> bytes \<Rightarrow> int \<Rightarrow> bytes result" where
  "s_rawCompress_new lib data byteSize =
     bindE (new_array (s_maxCompressedLength lib byteSize)) (\<lambda>buf.
     case impl_rawCompress lib data 0 byteSize 0 buf of
       (Inl e, buf') \<Rightarrow> Inl e
     | (Inr compressedByteSize, buf') \<Rightarrow>
         bindE (new_array compressedByteSize) (\<lambda>result.
         arraycopy buf' 0 result 0 compressedByteSize))"

definition s_compress_bytes :: "snappy_lib \<Rightarrow> bytes \<Rightarrow> bytes result" where
  "s_compress_bytes lib input = s_rawCompress_new lib input (int (length input))"

definition s_uncompress_bytes :: "snappy_lib \<Rightarrow> bytes \<Rightarrow> bytes result" where
  "s_uncompress_bytes lib input =
     bindE (impl_uncompressedLength lib input 0 (int (length input))) (\<lambda>n.
     bindE (new_array n) (\<lambda>result.
     case s_uncompress lib (Some input) 0 (int (length input)) 0 (Some result) of
       (Inl e, _) \<Rightarrow> Inl e
     | (Inr _, result') \<Rightarrow> Inr (the result')))"

section \<open>Snappy.java: arrays of wider elements\<close>

text \<open>
  \<open>compress(char[])\<close>, \<open>compress(short[])\<close> (\<open>k = 2\<close>), \<open>compress(int[])\<close>, \<open>compress(float[])\<close> (\<open>k = 4\<close>),
  \<open>compress(long[])\<close> and \<open>compress(double[])\<close> (\<open>k = 8\<close>) have one body.
\<close>

definition byte_size_checked :: "int \<Rightarrow> int \<Rightarrow> int result" where
  "byte_size_checked k n =
     (let byteSize = i32 (n * k) in
      if byteSize < n then Inl (SnappyErrorExc TOO_LARGE_INPUT) else Inr byteSize)"

definition s_compress_elements :: "snappy_lib \<Rightarrow> int \<Rightarrow> bytes \<Rightarrow> bytes result" where
  "s_compress_elements lib k input =
     bindE (byte_size_checked k (int (length input) div k)) (\<lambda>byteSize.
     s_rawCompress_new lib input byteSize)"

text \<open>\<open>uncompressCharArray\<close> and its companions over a range of the input.\<close>

definition s_uncompress_elements :: "snappy_lib \<Rightarrow> int \<Rightarrow> bytes \<Rightarrow> int \<Rightarrow> int \<Rightarrow> bytes result" where
  "s_uncompress_elements lib k input offset len =
     bindE (s_uncompressedLength lib (Some input) offset len) (\<lambda>uncompressedLength.
     bindE (new_array (sgn uncompressedLength * (\<bar>uncompressedLength\<bar> div k) * k)) (\<lambda>result.
     case impl_rawUncompress lib input offset len 0 result of
       (Inl e, _) \<Rightarrow> Inl e
     | (Inr _, result') \<Rightarrow> Inr result'))"

section \<open>Snappy.java: direct byte buffers\<close>

text \<open>The capacity of a buffer is the length of its data.\<close>

record byte_buffer =
  bb_data :: bytes
  bb_pos :: int
  bb_limit :: int
  bb_direct :: bool

definition bb_remaining :: "byte_buffer \<Rightarrow> int" where
  "bb_remaining bb = bb_limit bb - bb_pos bb"

text \<open>\<open>Buffer.limit(int)\<close> of the Java library.\<close>

definition bb_set_limit :: "int \<Rightarrow> (byte_buffer, exc, unit) op" where
  "bb_set_limit n bb =
     (if n < 0 \<or> int (length (bb_data bb)) < n then (Inl IllegalArgumentException, bb)
      else (Inr (), bb\<lparr>bb_limit := n, bb_pos := min (bb_pos bb) n\<rparr>))"

definition bb_native :: "(bytes, exc, 'a) op \<Rightarrow> (byte_buffer, exc, 'a) op" where
  "bb_native f bb = (case f (bb_data bb) of (r, d) \<Rightarrow> (r, bb\<lparr>bb_data := d\<rparr>))"

definition s_compress_buffer :: "snappy_lib \<Rightarrow> byte_buffer \<Rightarrow> (byte_buffer, exc, int) op" where
  "s_compress_buffer lib uncompressed compressed =
     (if \<not> bb_direct uncompressed then (Inl (SnappyErrorExc NOT_A_DIRECT_BUFFER), compressed)
      else if \<not> bb_direct compressed then (Inl (SnappyErrorExc NOT_A_DIRECT_BUFFER), compressed)
      else
        (let uPos = bb_pos uncompressed; uLen = bb_remaining uncompressed; cPos = bb_pos compressed in
         bindS (bb_native (impl_rawCompress lib (bb_data uncompressed) uPos uLen cPos)) (\<lambda>compressedSize.
         bindS (bb_set_limit (i32 (cPos + compressedSize))) (\<lambda>_.
         returnS compressedSize)) compressed))"

definition s_uncompress_buffer :: "snappy_lib \<Rightarrow> byte_buffer \<Rightarrow> (byte_buffer, exc, int) op" where
  "s_uncompress_buffer lib compressed uncompressed =
     (if \<not> bb_direct compressed then (Inl (SnappyErrorExc NOT_A_DIRECT_BUFFER), uncompressed)
      else if \<not> bb_direct uncompressed then (Inl (SnappyErrorExc NOT_A_DIRECT_BUFFER), uncompressed)
      else
        (let cPos = bb_pos compressed; cLen = bb_remaining compressed; uPos = bb_pos uncompressed in
         bindS (bb_native (impl_rawUncompress lib (bb_data compressed) cPos cLen uPos)) (\<lambda>decompressedSize.
         bindS (bb_set_limit (i32 (uPos + decompressedSize))) (\<lambda>_.
         returnS decompressedSize)) uncompressed))"

definition s_uncompressedLength_buffer :: "snappy_lib \<Rightarrow> byte_buffer \<Rightarrow> int result" where
  "s_uncompressedLength_buffer lib compressed =
     (if \<not> bb_direct compressed then Inl (SnappyErrorExc NOT_A_DIRECT_BUFFER)
      else impl_uncompressedLength lib (bb_data compressed) (bb_pos compressed) (bb_remaining compressed))"

text \<open>This one leaves the check to the native method, which throws code 3.\<close>

definition s_isValidCompressedBuffer_buffer :: "snappy_lib \<Rightarrow> byte_buffer \<Rightarrow> bool result" where
  "s_isValidCompressedBuffer_buffer lib compressed =
     (if \<not> bb_direct compressed then Inl (throw_error 3)
      else impl_isValidCompressedBuffer lib (bb_data compressed) (bb_pos compressed) (bb_remaining compressed))"

section \<open>Lemmas for the clients\<close>

definition lib_ok :: "snappy_lib \<Rightarrow> bool" where
  "lib_ok lib \<longleftrightarrow> lib_roundtrip lib \<and> lib_space lib \<and> lib_lengths lib"

lemma compress_length_bound:
  "lib_space lib \<Longrightarrow> length (compress_raw lib x) \<le> max_compressed lib (length x)"
  by (drule lib_space_def [THEN iffD1], drule spec [of _ x]) simp

lemma maxCompressedLength_nat:
  "int n \<le> int_max \<Longrightarrow> int (max_compressed lib n) \<le> int_max \<Longrightarrow>
   s_maxCompressedLength lib (int n) = int (max_compressed lib n)"
  by (simp add: s_maxCompressedLength_def maxCompressedLength_def i32_int_len)

lemma roundtrip_facts:
  assumes "lib_roundtrip lib" and "int (length x) \<le> int_max"
  shows "parse_length lib (compress_raw lib x) = Some (length x)"
    and "uncompress_raw lib (compress_raw lib x) = (True, x)"
    and "valid_compressed lib (compress_raw lib x)"
proof -
  have "length x < 2 ^ 32" using assms(2) by (simp add: int_max_def)
  then show "parse_length lib (compress_raw lib x) = Some (length x)"
    "uncompress_raw lib (compress_raw lib x) = (True, x)" "valid_compressed lib (compress_raw lib x)"
    using assms(1) by (simp_all add: lib_roundtrip_def)
qed

text \<open>Compressing \<open>n\<close> bytes from the front of an array into a fresh one.\<close>

lemma rawCompress_new_eq:
  assumes lib: "lib_space lib" and n: "in_range 0 n (length x)" and big: "n \<le> int_max"
    and m: "int (max_compressed lib (nat n)) \<le> int_max"
  shows "s_rawCompress_new lib x n = Inr (compress_raw lib (take (nat n) x))"
proof -
  let ?x = "take (nat n) x" and ?M = "max_compressed lib (nat n)"
  let ?c = "compress_raw lib ?x" and ?z = "compress_spill lib ?x"
  have len: "length ?x = nat n" and n0: "0 \<le> n" using n by (auto simp: in_range_def)
  have le: "length ?c + length ?z \<le> ?M"
    using lib len by (auto simp: lib_space_def dest: spec [of _ ?x])
  have mc: "s_maxCompressedLength lib n = int ?M"
    using maxCompressedLength_nat [of "nat n" lib] big m n0 by simp
  have c: "i32 (int (length ?c)) = int (length ?c)" using le m by (intro i32_int_len) simp
  let ?b = "compressed_into lib x 0 n (replicate ?M 0) 0"
  have b: "?b = ?c @ ?z @ drop (length ?c + length ?z) (replicate ?M 0)"
    by (simp add: compressed_into_def blit_def)
  have imp: "impl_rawCompress lib x 0 n 0 (replicate ?M 0) = (Inr (int (length ?c)), ?b)"
    using n c by (simp add: impl_rawCompress_def in_range_def)
  have "arraycopy ?b 0 (replicate (length ?c) 0) 0 (int (length ?c)) = Inr ?c"
    using le by (simp add: arraycopy_def in_range_def b blit_def)
  then show ?thesis
    using mc imp by (simp add: s_rawCompress_new_def new_array_def)
qed

lemma compress_bytes_eq:
  "lib_space lib \<Longrightarrow> int (length x) \<le> int_max \<Longrightarrow> int (max_compressed lib (length x)) \<le> int_max \<Longrightarrow>
   s_compress_bytes lib x = Inr (compress_raw lib x)"
  using rawCompress_new_eq [of lib "int (length x)" x]
  by (simp add: s_compress_bytes_def in_range_def)

text \<open>Uncompressing compressed data into a large enough array.\<close>

lemma impl_rawUncompress_compressed:
  assumes lib: "lib_roundtrip lib" and x: "int (length x) \<le> int_max"
    and a: "in_range i n (length a)" "segment i n a = compress_raw lib x"
    and b: "in_range j (int (length x)) (length b)"
  shows "impl_rawUncompress lib a i n j b = (Inr (int (length x)), blit b j x)"
  using roundtrip_facts [OF lib x] a b x
  by (simp add: impl_rawUncompress_def uncompressed_into_def i32_int_len)

lemma impl_uncompressedLength_compressed:
  assumes "lib_roundtrip lib" and "int (length x) \<le> int_max"
    and "in_range i n (length a)" and "segment i n a = compress_raw lib x"
  shows "impl_uncompressedLength lib a i n = Inr (int (length x))"
  using roundtrip_facts [OF assms(1,2)] assms by (simp add: impl_uncompressedLength_def i32_int_len)

lemma uncompress_bytes_eq:
  assumes "lib_roundtrip lib" and "int (length x) \<le> int_max"
  shows "s_uncompress_bytes lib (compress_raw lib x) = Inr x"
proof -
  let ?c = "compress_raw lib x"
  have r: "in_range 0 (int (length ?c)) (length ?c)" by (simp add: in_range_def)
  have u: "impl_uncompressedLength lib ?c 0 (int (length ?c)) = Inr (int (length x))"
    using impl_uncompressedLength_compressed [OF assms r] by simp
  have "impl_rawUncompress lib ?c 0 (int (length ?c)) 0 (replicate (length x) 0)
      = (Inr (int (length x)), blit (replicate (length x) 0) 0 x)"
    using impl_rawUncompress_compressed [OF assms r, of 0 "replicate (length x) 0"] by (simp add: in_range_def)
  moreover have "blit (replicate (length x) 0) 0 x = x" by (simp add: blit_def)
  ultimately show ?thesis
    using u by (simp add: s_uncompress_bytes_def s_uncompress_def s_rawUncompress_def)
qed

lemma byte_size_exact:
  "0 < k \<Longrightarrow> 0 \<le> n \<Longrightarrow> n * k \<le> int_max \<Longrightarrow> byte_size_checked k n = Inr (n * k)"
proof -
  assume a: "0 < k" "0 \<le> n" "n * k \<le> int_max"
  have "0 \<le> n * k" using a by simp
  then have "is_i32 (n * k)" using a(3) unfolding is_i32_def int_max_def by linarith
  moreover have "n * 1 \<le> n * k" using a by (intro mult_left_mono) auto
  ultimately show ?thesis by (simp add: byte_size_checked_def Let_def)
qed

lemma uncompress_elements_eq:
  assumes "s_uncompressedLength lib (Some y) i l = Inr n" and "0 \<le> n" and "0 < k"
  shows "s_uncompress_elements lib k y i l =
    (case impl_rawUncompress lib y i l 0 (replicate (nat (n div k * k)) 0) of
       (Inl e, _) \<Rightarrow> Inl e | (Inr _, r) \<Rightarrow> Inr r)"
proof -
  have "sgn n * (\<bar>n\<bar> div k) = n div k" using assms(2) by (cases "n = 0") simp_all
  moreover have "0 \<le> n div k * k" using assms(2,3) by (simp add: pos_imp_zdiv_nonneg_iff)
  ultimately show ?thesis by (simp add: s_uncompress_elements_def assms(1))
qed

end
