(* ===== verification/Snappy_Codec.thy ===== *)
theory Snappy_Codec
  imports Errors
begin

text \<open>
  \<open>SnappyCodec.java\<close> and the integer format of \<open>SnappyOutputStream.java\<close>: \<open>writeInt\<close> and \<open>readInt\<close>,
  the sixteen-byte stream header and its checks. The locale \<open>int_code\<close> is the contract between
  the stream classes and the four-byte integers they frame their blocks with.
\<close>

section \<open>The contract of a four-byte integer code\<close>

locale int_code =
  fixes enc :: "jint \<Rightarrow> bytes" and dec :: "bytes \<Rightarrow> jint"
  assumes length_enc: "length (enc v) = 4"
    and dec_enc: "dec (enc v) = v"
begin

lemma enc_inject: "enc v = enc w \<longleftrightarrow> v = w"
  using dec_enc by metis

lemma dec_prefix: "dec (take 4 (enc v @ xs)) = v"
  by (simp add: length_enc dec_enc)

lemma drop_prefix: "drop 4 (enc v @ xs) = xs"
  by (simp add: length_enc)

lemma enc_nonempty: "enc v \<noteq> []"
  using length_enc [of v] by auto

end

section \<open>Big-endian integers\<close>

definition set_at :: "int \<Rightarrow> byte \<Rightarrow> (bytes, exc, unit) op" where
  "set_at i x b = (case array_set b i x of Inl e \<Rightarrow> (Inl e, b) | Inr b' \<Rightarrow> (Inr (), b'))"

definition writeInt :: "int \<Rightarrow> jint \<Rightarrow> (bytes, exc, unit) op" where
  "writeInt offset v =
     bindS (set_at offset (ucast (signed_drop_bit 24 v AND 0xFF))) (\<lambda>_.
     bindS (set_at (offset + 1) (ucast (signed_drop_bit 16 v AND 0xFF))) (\<lambda>_.
     bindS (set_at (offset + 2) (ucast (signed_drop_bit 8 v AND 0xFF))) (\<lambda>_.
     set_at (offset + 3) (ucast (signed_drop_bit 0 v AND 0xFF)))))"

definition readInt :: "bytes \<Rightarrow> int \<Rightarrow> jint result" where
  "readInt buffer pos =
     bindE (array_get buffer pos) (\<lambda>x1.
     bindE (array_get buffer (pos + 1)) (\<lambda>x2.
     bindE (array_get buffer (pos + 2)) (\<lambda>x3.
     bindE (array_get buffer (pos + 3)) (\<lambda>x4.
       let b1 = push_bit 24 (scast x1 AND 0xFF);
           b2 = push_bit 16 (scast x2 AND 0xFF);
           b3 = push_bit 8 (scast x3 AND 0xFF);
           b4 = scast x4 AND 0xFF
       in Inr (b1 OR b2 OR b3 OR b4)))))"

text \<open>The reference: four bytes, the most significant one first.\<close>

definition int_be :: "jint \<Rightarrow> bytes" where
  "int_be v = [ucast (drop_bit 24 v), ucast (drop_bit 16 v), ucast (drop_bit 8 v), ucast v]"

fun be_int :: "bytes \<Rightarrow> jint" where
  "be_int [a, b, c, d] = push_bit 24 (ucast a) OR push_bit 16 (ucast b) OR push_bit 8 (ucast c) OR ucast d"
| "be_int _ = 0"

lemma low_byte_mask: "(0xFF :: jint) = mask 8"
  by (simp add: mask_eq_exp_minus_1)

lemma ucast_mask_sdrop: "(ucast (signed_drop_bit n (v :: jint) AND 0xFF) :: byte) = ucast (drop_bit n v)"
  if "n \<le> 24"
  unfolding low_byte_mask
proof (rule bit_word_eqI)
  fix k assume k: "k < LENGTH(8)"
  have "\<not> 32 - n \<le> k" using that k by simp
  then show "bit (ucast (signed_drop_bit n v AND mask 8) :: byte) k = bit (ucast (drop_bit n v) :: byte) k"
    using k by (simp add: bit_simps)
qed

lemma scast_mask: "(scast (x :: byte) AND 0xFF :: jint) = ucast x"
  unfolding low_byte_mask
proof (rule bit_word_eqI)
  fix k assume "k < LENGTH(32)"
  have "bit x (min 7 k) = bit x k" if "k < 8"
  proof -
    have "min 7 k = k" using that by simp
    then show ?thesis by simp
  qed
  moreover have "bit x k \<Longrightarrow> k < 8" using bit_imp_le_length [of x k] by simp
  ultimately show "bit (scast x AND mask 8 :: jint) k = bit (ucast x :: jint) k"
    using \<open>k < LENGTH(32)\<close> by (auto simp: bit_simps)
qed

lemma be_int_int_be: "be_int (int_be v) = v"
proof (rule bit_word_eqI)
  fix k assume k: "k < LENGTH(32)"
  have "k < 8 \<or> (8 \<le> k \<and> k < 16) \<or> (16 \<le> k \<and> k < 24) \<or> (24 \<le> k \<and> k < 32)" using k by auto
  then show "bit (be_int (int_be v)) k = bit v k"
    unfolding int_be_def be_int.simps bit_or_iff bit_push_bit_iff bit_ucast_iff bit_drop_bit_eq comp_def
    using k by (elim disjE conjE) (simp_all add: less_diff_conv2)
qed

interpretation be: int_code int_be be_int
  by unfold_locales (simp add: int_be_def, rule be_int_int_be)

section \<open>What writeInt and readInt do\<close>

lemma blit4:
  assumes "in_range i 4 (length b)"
  shows "b[nat i := x0, nat (i + 1) := x1, nat (i + 2) := x2, nat (i + 3) := x3] = blit b i [x0, x1, x2, x3]"
proof (rule nth_equalityI)
  have n: "nat (i + 1) = nat i + 1" "nat (i + 2) = nat i + 2" "nat (i + 3) = nat i + 3"
    using assms by (auto simp: in_range_def)
  have l: "nat i + 4 \<le> length b" using assms by (auto simp: in_range_def)
  then show "length (b[nat i := x0, nat (i + 1) := x1, nat (i + 2) := x2, nat (i + 3) := x3])
      = length (blit b i [x0, x1, x2, x3])"
    by (simp add: blit_def)
  fix k
  assume "k < length (b[nat i := x0, nat (i + 1) := x1, nat (i + 2) := x2, nat (i + 3) := x3])"
  then have k: "k < length b" by simp
  consider "k < nat i" | "k = nat i" | "k = nat i + 1" | "k = nat i + 2" | "k = nat i + 3" | "nat i + 4 \<le> k"
    by linarith
  then show "b[nat i := x0, nat (i + 1) := x1, nat (i + 2) := x2, nat (i + 3) := x3] ! k
      = blit b i [x0, x1, x2, x3] ! k"
    using l k by cases (auto simp: n blit_def nth_append nth_Cons' numeral_eq_Suc
        intro!: arg_cong [where f = "(!) b"])
qed

lemma writeInt_in_range:
  assumes "in_range i 4 (length b)"
  shows "writeInt i v b = (Inr (), blit b i (int_be v))"
proof -
  have r: "0 \<le> i" "i + 3 < int (length b)" using assms by (auto simp: in_range_def)
  have "signed_drop_bit 0 v = v" by (rule bit_word_eqI) (auto simp: bit_simps)
  then have z: "ucast (signed_drop_bit 0 v AND 0xFF) = (ucast v :: byte)"
    using ucast_mask_sdrop [of 0 v] by simp
  show ?thesis
    using r z blit4 [OF assms, of "ucast (drop_bit 24 v)" "ucast (drop_bit 16 v)" "ucast (drop_bit 8 v)" "ucast v"]
    by (simp add: writeInt_def set_at_def array_set_def bindS_def int_be_def ucast_mask_sdrop)
qed

lemma segment4:
  assumes "in_range i 4 (length b)"
  shows "segment i 4 b = [b ! nat i, b ! nat (i + 1), b ! nat (i + 2), b ! nat (i + 3)]"
proof -
  have "nat (i + 1) = nat i + 1" "nat (i + 2) = nat i + 2" "nat (i + 3) = nat i + 3" "nat i + 4 \<le> length b"
    using assms by (auto simp: in_range_def)
  then show ?thesis
    by (intro nth_equalityI) (auto simp: segment_def less_Suc_eq numeral_eq_Suc)
qed

lemma readInt_in_range:
  assumes "in_range i 4 (length b)"
  shows "readInt b i = Inr (be_int (segment i 4 b))"
proof -
  have "0 \<le> i" "i + 3 < int (length b)" using assms by (auto simp: in_range_def)
  then show ?thesis
    by (simp add: readInt_def array_get_def segment4 [OF assms] scast_mask Let_def or.assoc)
qed

section \<open>The stream header\<close>

definition MAGIC_HEADER :: bytes where
  "MAGIC_HEADER = [- 126, 83, 78, 65, 80, 80, 89, 0]"

definition MAGIC_LEN :: int where "MAGIC_LEN = int (length MAGIC_HEADER)"
definition HEADER_SIZE :: int where "HEADER_SIZE = MAGIC_LEN + 8"

definition MAGIC_HEADER_HEAD :: "jint result" where
  "MAGIC_HEADER_HEAD = readInt MAGIC_HEADER 0"

record SnappyCodec =
  magic :: bytes
  version :: jint
  compatibleVersion :: jint
  headerArray :: bytes

text \<open>The constructor writes the fields through a \<open>DataOutputStream\<close>, which is big-endian.\<close>

definition new_SnappyCodec :: "bytes \<Rightarrow> jint \<Rightarrow> jint \<Rightarrow> SnappyCodec" where
  "new_SnappyCodec m v c =
     \<lparr>magic = m, version = v, compatibleVersion = c,
      headerArray = take (nat MAGIC_LEN) m @ int_be v @ int_be c\<rparr>"

definition DEFAULT_VERSION :: jint where "DEFAULT_VERSION = 1"
definition MINIMUM_COMPATIBLE_VERSION :: jint where "MINIMUM_COMPATIBLE_VERSION = 1"

definition currentHeader :: SnappyCodec where
  "currentHeader = new_SnappyCodec MAGIC_HEADER DEFAULT_VERSION MINIMUM_COMPATIBLE_VERSION"

definition codec_writeHeader :: "SnappyCodec \<Rightarrow> int \<Rightarrow> (bytes, exc, int) op" where
  "codec_writeHeader codec dstOffset dst =
     (case arraycopy (headerArray codec) 0 dst dstOffset (int (length (headerArray codec))) of
        Inl e \<Rightarrow> (Inl e, dst)
      | Inr dst' \<Rightarrow> (Inr (int (length (headerArray codec))), dst'))"

definition isValidMagicHeader :: "SnappyCodec \<Rightarrow> bool" where
  "isValidMagicHeader codec \<longleftrightarrow> MAGIC_HEADER = magic codec"

text \<open>The loop of \<open>hasMagicHeaderPrefix\<close>, which compares up to the shorter length.\<close>

fun prefix_loop :: "bytes \<Rightarrow> bytes \<Rightarrow> bool" where
  "prefix_loop (x # xs) (m # ms) = (if x \<noteq> m then False else prefix_loop xs ms)"
| "prefix_loop _ _ = True"

definition hasMagicHeaderPrefix :: "bytes \<Rightarrow> bool" where
  "hasMagicHeaderPrefix b = prefix_loop b MAGIC_HEADER"

text \<open>\<open>readHeader\<close> over a stream of which \<open>bs\<close> are the remaining bytes.\<close>

definition codec_readHeader :: "bytes \<Rightarrow> SnappyCodec result" where
  "codec_readHeader bs =
     (if length bs < 16 then Inl EOFException
      else Inr (new_SnappyCodec (take 8 bs) (be_int (take 4 (drop 8 bs))) (be_int (take 4 (drop 12 bs)))))"

lemma length_MAGIC [simp]: "length MAGIC_HEADER = 8" "MAGIC_LEN = 8" "HEADER_SIZE = 16"
  by (simp_all add: MAGIC_HEADER_def MAGIC_LEN_def HEADER_SIZE_def)

lemma prefix_loop_iff: "prefix_loop xs ms \<longleftrightarrow> take (length ms) xs = take (length xs) ms"
  by (induction xs ms rule: prefix_loop.induct) auto

definition stream_header :: bytes where
  "stream_header = headerArray currentHeader"

lemma stream_header_eq: "stream_header = MAGIC_HEADER @ int_be 1 @ int_be 1"
  by (simp add: stream_header_def currentHeader_def new_SnappyCodec_def DEFAULT_VERSION_def
      MINIMUM_COMPATIBLE_VERSION_def)

lemma length_stream_header [simp]: "length stream_header = 16"
  by (simp add: stream_header_eq be.length_enc)

lemma MAGIC_HEADER_HEAD_eq: "MAGIC_HEADER_HEAD = Inr 0x82534E41"
  by (simp add: MAGIC_HEADER_HEAD_def MAGIC_HEADER_def readInt_def array_get_def Let_def)

end
