(* ===== verification/Snappy_Input.thy ===== *)
theory Snappy_Input
  imports Snappy_Api Snappy_Codec
begin

text \<open>
  \<open>SnappyInputStream.java\<close>: the header test of the constructor, the chunk reader \<open>hasNextChunk\<close> and
  the read methods. The underlying stream delivers its bytes in portions of its own choosing and
  then reports the end of the data; exceptions of its own are not modelled.
\<close>

section \<open>The underlying stream\<close>

record source =
  src_data :: bytes
  src_chunk :: "nat \<Rightarrow> nat"
  src_calls :: nat
  src_closed :: bool

text \<open>\<open>read\<close> for \<open>len\<close> bytes: at least one byte unless none was asked for, \<open>None\<close> at the end.\<close>

definition source_read :: "int \<Rightarrow> source \<Rightarrow> bytes option \<times> source" where
  "source_read len s =
     (let s' = s\<lparr>src_calls := Suc (src_calls s)\<rparr> in
      if len \<le> 0 then (Some [], s')
      else if src_data s = [] then (None, s')
      else
        (let n = max 1 (min (src_chunk s (src_calls s)) (min (nat len) (length (src_data s))))
         in (Some (take n (src_data s)), s'\<lparr>src_data := drop n (src_data s)\<rparr>)))"

lemma source_read_Some:
  "source_read len s = (Some bs, s') \<Longrightarrow> 0 < len \<Longrightarrow>
   bs \<noteq> [] \<and> int (length bs) \<le> len \<and> src_data s = bs @ src_data s'"
proof -
  assume a: "source_read len s = (Some bs, s')" "0 < len"
  define n where "n = max 1 (min (src_chunk s (src_calls s)) (min (nat len) (length (src_data s))))"
  have sr: "source_read len s = (if src_data s = [] then (None, s\<lparr>src_calls := Suc (src_calls s)\<rparr>)
     else (Some (take n (src_data s)), s\<lparr>src_calls := Suc (src_calls s), src_data := drop n (src_data s)\<rparr>))"
    using a(2) by (simp add: source_read_def Let_def n_def)
  have ne: "src_data s \<noteq> []" using a(1) sr by (cases "src_data s = []") simp_all
  then have e: "bs = take n (src_data s)" "src_data s' = drop n (src_data s)"
    using a(1) sr by auto
  have "1 \<le> n" "n \<le> nat len" "n \<le> length (src_data s)" 
   unfolding n_def using a(2) ne by (simp_all add: Suc_le_eq)
  then show ?thesis using e ne by simp
qed

lemma source_read_None: "source_read len s = (None, s') \<Longrightarrow> 0 < len \<and> src_data s = [] \<and> src_data s' = []"
  by (auto simp: source_read_def Let_def split: if_splits)

text \<open>
  The loop that reads until \<open>len\<close> bytes arrived or the data ended, into \<open>buf\<close> at \<open>off\<close>. The class
  has it three times. It returns the count and whether it saw the end.
\<close>

function fill :: "int \<Rightarrow> int \<Rightarrow> int \<Rightarrow> bytes \<times> source \<Rightarrow> (exc + int \<times> bool) \<times> (bytes \<times> source)" where
  "fill off len readBytes (buf, src) =
     (if readBytes < len then
        if \<not> in_range (off + readBytes) (len - readBytes) (length buf)
        then (Inl IndexOutOfBoundsException, (buf, src))
        else case source_read (len - readBytes) src of
            (None, src') \<Rightarrow> (Inr (readBytes, True), (buf, src'))
          | (Some bs, src') \<Rightarrow>
              fill off len (readBytes + int (length bs)) (blit buf (off + readBytes) bs, src')
      else (Inr (readBytes, False), (buf, src)))"
  by pat_completeness auto
termination
  by (relation "measure (\<lambda>(off, len, r, _). nat (len - r))") (auto dest!: source_read_Some [OF sym])

declare fill.simps [simp del]

lemma fill_ok:
  "in_range off len (length buf) \<Longrightarrow> 0 \<le> r \<Longrightarrow> r \<le> len \<Longrightarrow>
   \<exists>src'. fill off len r (buf, src)
       = (Inr (min len (r + int (length (src_data src))), r + int (length (src_data src)) < len),
          (blit buf (off + r) (take (nat (len - r)) (src_data src)), src'))
     \<and> src_data src' = drop (nat (len - r)) (src_data src)"
proof (induction off len r "(buf, src)" arbitrary: buf src rule: fill.induct)
  case (1 off len r buf src)
  show ?case
  proof (cases "r < len")
    case False
    then show ?thesis using 1 by (simp add: fill.simps)
  next
    case True
    have ir: "in_range (off + r) (len - r) (length buf)" using 1 True by (auto simp: in_range_def)
    show ?thesis
    proof (cases "source_read (len - r) src")
      case (Pair o' src')
      show ?thesis
      proof (cases o')
        case None
        then have "src_data src = []" "src_data src' = []"
          using source_read_None [of "len - r" src src'] Pair by auto
        then show ?thesis using True ir Pair None by (simp add: fill.simps)
      next
        case (Some bs)
        then have bs: "bs \<noteq> []" "int (length bs) \<le> len - r" "src_data src = bs @ src_data src'"
          using source_read_Some [of "len - r" src bs src'] Pair True by auto
        let ?buf = "blit buf (off + r) bs" and ?r = "r + int (length bs)"
        have rb: "in_range (off + r) (int (length bs)) (length buf)"
          using ir bs(2) by (auto simp: in_range_def)
        then have lb: "length ?buf = length buf" by (rule length_blit)
        obtain s2 where s2: "fill off len ?r (?buf, src')
            = (Inr (min len (?r + int (length (src_data src'))), ?r + int (length (src_data src')) < len),
               (blit ?buf (off + ?r) (take (nat (len - ?r)) (src_data src')), s2))"
          "src_data s2 = drop (nat (len - ?r)) (src_data src')"
          using 1(1) [OF True _ Pair [symmetric] Some, of] ir 1(2,3) lb bs(2) by auto
        have n: "nat (len - r) = length bs + nat (len - ?r)" using bs(2) by auto
        have t: "take (nat (len - r)) (src_data src) = bs @ take (nat (len - ?r)) (src_data src')"
          by (simp add: bs(3) n)
        have "blit ?buf (off + ?r) (take (nat (len - ?r)) (src_data src'))
            = blit buf (off + r) (bs @ take (nat (len - ?r)) (src_data src'))"
        proof -
          have "nat (off + ?r) = nat (off + r) + length bs" "nat (off + r) + length bs \<le> length buf"
            using rb by (auto simp: in_range_def)
          then show ?thesis by (simp add: blit_def add_ac)
        qed
        then show ?thesis
          using True ir Pair Some s2 t n by (simp add: fill.simps [of off len r] bs(3) algebra_simps)
      qed
    qed
  qed
qed

section \<open>The stream\<close>

record SnappyInputStream =
  is_in :: source
  finishedReading :: bool
  maxChunkSize :: int
  compressed :: "bytes option"
  uncompressed :: "bytes option"
  uncompressedCursor :: int
  uncompressedLimit :: int
  is_header :: bytes

type_synonym 'a iop = "(SnappyInputStream, exc, 'a) op"

definition MAX_CHUNK_SIZE :: int where "MAX_CHUNK_SIZE = 512 * 1024 * 1024"

definition fill_header :: "int \<Rightarrow> int \<Rightarrow> (int \<times> bool) iop" where
  "fill_header off len s =
     (case fill off len 0 (is_header s, is_in s) of
        (r, (h, src)) \<Rightarrow> (r, s\<lparr>is_header := h, is_in := src\<rparr>))"

text \<open>\<open>readNext\<close> is only called on the header buffer.\<close>

definition readNext :: "int \<Rightarrow> int \<Rightarrow> int iop" where
  "readNext off len =
     bindS (fill_header off len) (\<lambda>(readBytes, eof).
     bindS (modifyS (\<lambda>s. if eof then s\<lparr>finishedReading := True\<rparr> else s)) (\<lambda>_.
     returnS readBytes))"

text \<open>The loop of \<open>readFully\<close>, which doubles the buffer whenever it is full.\<close>

fun grow_loop :: "nat \<Rightarrow> int \<Rightarrow> bytes \<times> source \<Rightarrow> (exc + int) \<times> (bytes \<times> source)" where
  "grow_loop 0 cursor st = (Inl Diverges, st)"
| "grow_loop (Suc fuel) cursor (buf, src) =
     (case source_read (int (length buf) - cursor) src of
        (None, src') \<Rightarrow> (Inr cursor, (buf, src'))
      | (Some bs, src') \<Rightarrow>
          (let buf = blit buf cursor bs; cursor = cursor + int (length bs) in
           if cursor \<ge> int (length buf) then
             (case new_array (i32 (int (length buf) * 2)) of
                Inl e \<Rightarrow> (Inl e, (buf, src'))
              | Inr newBuf \<Rightarrow> grow_loop fuel cursor (blit newBuf 0 buf, src'))
           else grow_loop fuel cursor (buf, src')))"

definition uncompress_loaded :: "snappy_lib \<Rightarrow> int \<Rightarrow> int iop" where
  "uncompress_loaded lib chunkSize s =
     (case s_uncompress lib (compressed s) 0 chunkSize 0 (uncompressed s) of
        (r, u') \<Rightarrow> (r, s\<lparr>uncompressed := u'\<rparr>))"

definition read_rest :: "int \<Rightarrow> int iop" where
  "read_rest cursor s =
     (case grow_loop (length (src_data (is_in s)) + 1) cursor (the (compressed s), is_in s) of
        (r, (c, src)) \<Rightarrow> (r, s\<lparr>compressed := Some c, is_in := src\<rparr>))"

definition decode_all :: "snappy_lib \<Rightarrow> int \<Rightarrow> unit iop" where
  "decode_all lib cursor =
     bindS (getS (\<lambda>s. liftE (s_uncompressedLength lib (compressed s) 0 cursor))) (\<lambda>n.
     bindS (liftE (new_array n)) (\<lambda>u.
     bindS (modifyS (\<lambda>s. s\<lparr>uncompressed := Some u\<rparr>)) (\<lambda>_.
     bindS (uncompress_loaded lib cursor) (\<lambda>_.
     modifyS (\<lambda>s. s\<lparr>uncompressedCursor := 0, uncompressedLimit := n\<rparr>)))))"

definition readFully :: "snappy_lib \<Rightarrow> bytes \<Rightarrow> int \<Rightarrow> unit iop" where
  "readFully lib fragment fragmentLength =
     (if fragmentLength = 0 then modifyS (\<lambda>s. s\<lparr>finishedReading := True\<rparr>)
      else
        bindS (liftE (bindE (new_array (max (8 * 1024) fragmentLength)) (\<lambda>c.
                 arraycopy fragment 0 c 0 fragmentLength))) (\<lambda>c.
        bindS (modifyS (\<lambda>s. s\<lparr>compressed := Some c\<rparr>)) (\<lambda>_.
        bindS (read_rest fragmentLength) (\<lambda>cursor.
        bindS (modifyS (\<lambda>s. s\<lparr>finishedReading := True\<rparr>)) (\<lambda>_.
        decode_all lib cursor)))))"

definition is_readHeader :: "snappy_lib \<Rightarrow> unit iop" where
  "is_readHeader lib =
     bindS (getS (\<lambda>s. fill_header 0 (int (length (is_header s))))) (\<lambda>(readBytes, _).
     getS (\<lambda>s.
       if readBytes = 0 then throwS (SnappyIOException EMPTY_INPUT)
       else if readBytes < int (length (is_header s)) \<or> \<not> hasMagicHeaderPrefix (is_header s)
       then readFully lib (is_header s) readBytes
       else returnS ()))"

definition new_SnappyInputStream :: "snappy_lib \<Rightarrow> source \<Rightarrow> int \<Rightarrow> SnappyInputStream result" where
  "new_SnappyInputStream lib input maxChunk =
     (case is_readHeader lib \<lparr>is_in = input, finishedReading = False, maxChunkSize = maxChunk,
          compressed = None, uncompressed = None, uncompressedCursor = 0, uncompressedLimit = 0,
          is_header = replicate (nat HEADER_SIZE) 0\<rparr> of
        (Inl e, _) \<Rightarrow> Inl e | (Inr _, s) \<Rightarrow> Inr s)"

definition isValidHeader :: "bytes \<Rightarrow> bool result" where
  "isValidHeader header =
     bindE (codec_readHeader header) (\<lambda>codec.
     if isValidMagicHeader codec then
       if sint (version codec) < sint MINIMUM_COMPATIBLE_VERSION
       then Inl (SnappyIOException INCOMPATIBLE_VERSION) else Inr True
     else Inr False)"

definition is_close :: "unit iop" where
  "is_close = modifyS (\<lambda>s. s\<lparr>compressed := None, uncompressed := None,
     is_in := (is_in s)\<lparr>src_closed := True\<rparr>\<rparr>)"

section \<open>hasNextChunk\<close>

text \<open>The part that reads and uncompresses a chunk of a given size.\<close>

definition load_compressed :: "int \<Rightarrow> (int \<times> bool) iop" where
  "load_compressed chunkSize s =
     (case fill 0 chunkSize 0 (the (compressed s), is_in s) of
        (r, (c, src)) \<Rightarrow> (r, s\<lparr>compressed := Some c, is_in := src\<rparr>))"

definition ensure_uncompressed :: "int \<Rightarrow> unit iop" where
  "ensure_uncompressed n = getS (\<lambda>s.
     if uncompressed s = None \<or> n > int (length (the (uncompressed s)))
     then bindS (liftE (new_array n)) (\<lambda>u. modifyS (\<lambda>s. s\<lparr>uncompressed := Some u\<rparr>))
     else returnS ())"

definition decode_chunk :: "snappy_lib \<Rightarrow> int \<Rightarrow> unit iop" where
  "decode_chunk lib chunkSize =
     bindS (getS (\<lambda>s. liftE (s_uncompressedLength lib (compressed s) 0 chunkSize))) (\<lambda>n.
     bindS (ensure_uncompressed n) (\<lambda>_.
     bindS (uncompress_loaded lib chunkSize) (\<lambda>actual.
     if n \<noteq> actual then throwS (SnappyIOException INVALID_CHUNK_SIZE)
     else modifyS (\<lambda>s. s\<lparr>uncompressedLimit := actual\<rparr>))))"

definition read_chunk :: "snappy_lib \<Rightarrow> int \<Rightarrow> unit iop" where
  "read_chunk lib chunkSize =
     bindS (modifyS (\<lambda>s.
       if compressed s = None \<or> chunkSize > int (length (the (compressed s)))
       then s\<lparr>compressed := Some (replicate (nat chunkSize) 0)\<rparr> else s)) (\<lambda>_.
     bindS (load_compressed chunkSize) (\<lambda>(readBytes, _).
     if readBytes < chunkSize then throwS (IOException ''failed to read chunk'')
     else decode_chunk lib chunkSize))"

text \<open>One call of \<open>hasNextChunk\<close>; \<open>Again\<close> is its recursive call after a header in the data.\<close>

datatype next_chunk = Ready | NoMore | Again

definition next_step :: "snappy_lib \<Rightarrow> next_chunk iop" where
  "next_step lib = getS (\<lambda>s.
     if finishedReading s then returnS NoMore
     else
       bindS (modifyS (\<lambda>s. s\<lparr>uncompressedCursor := 0, uncompressedLimit := 0\<rparr>)) (\<lambda>_.
       bindS (readNext 0 4) (\<lambda>readBytes.
       if readBytes < 4 then returnS NoMore
       else
         bindS (getS (\<lambda>s. liftE (readInt (is_header s) 0))) (\<lambda>chunkSize.
         if Inr chunkSize = MAGIC_HEADER_HEAD then
           bindS (readNext 4 (HEADER_SIZE - 4)) (\<lambda>readBytes.
           if readBytes < HEADER_SIZE - 4 then throwS (SnappyIOException FAILED_TO_UNCOMPRESS)
           else
             bindS (getS (\<lambda>s. liftE (isValidHeader (is_header s)))) (\<lambda>valid.
             returnS (if valid then Again else NoMore)))
         else if sint chunkSize < 0 then throwS (SnappyErrorExc INVALID_CHUNK_SIZE)
         else getS (\<lambda>s.
           if sint chunkSize > maxChunkSize s then throwS (SnappyErrorExc FAILED_TO_UNCOMPRESS)
           else bindS (read_chunk lib (sint chunkSize)) (\<lambda>_. returnS Ready))))))"

section \<open>Progress on the source\<close>

lemma fill_count:
  "fill off len r (buf, src) = (Inr (n, e), (buf', src')) \<Longrightarrow>
   int (length (src_data src)) = int (length (src_data src')) + (n - r)"
proof (induction off len r "(buf, src)" arbitrary: buf src rule: fill.induct)
  case (1 off len r buf src)
  show ?case
  proof (cases "r < len \<and> in_range (off + r) (len - r) (length buf)")
    case False
    then show ?thesis using 1(2) by (subst (asm) fill.simps) (auto split: if_splits)
  next
    case True
    obtain x t where x: "source_read (len - r) src = (x, t)" by fastforce
    show ?thesis
    proof (cases x)
      case None
      then show ?thesis using 1(2) True x source_read_None [of "len - r" src t]
        by (subst (asm) fill.simps) auto
    next
      case (Some bs)
      have "fill off len (r + int (length bs)) (blit buf (off + r) bs, t) = (Inr (n, e), (buf', src'))"
        using 1(2) True x Some by (subst (asm) fill.simps) simp
      then have "int (length (src_data t)) = int (length (src_data src')) + (n - (r + int (length bs)))"
        using 1(1) [OF _ _ x [symmetric] Some] True by blast
      moreover have "src_data src = bs @ src_data t"
        using source_read_Some [of "len - r" src bs t] x Some True by simp
      ultimately show ?thesis by simp
    qed
  qed
qed

lemma fill_source_le:
  "fill off len r (buf, src) = (res, (buf', src')) \<Longrightarrow> length (src_data src') \<le> length (src_data src)"
proof (induction off len r "(buf, src)" arbitrary: buf src rule: fill.induct)
  case (1 off len r buf src)
  show ?case
  proof (cases "r < len \<and> in_range (off + r) (len - r) (length buf)")
    case False
    then show ?thesis using 1(2) by (subst (asm) fill.simps) (auto split: if_splits)
  next
    case True
    obtain x t where x: "source_read (len - r) src = (x, t)" by fastforce
    show ?thesis
    proof (cases x)
      case None
      then show ?thesis using 1(2) True x source_read_None [of "len - r" src t]
        by (subst (asm) fill.simps) auto
    next
      case (Some bs)
      have "fill off len (r + int (length bs)) (blit buf (off + r) bs, t) = (res, (buf', src'))"
        using 1(2) True x Some by (subst (asm) fill.simps) simp
      then have "length (src_data src') \<le> length (src_data t)"
        using 1(1) [OF _ _ x [symmetric] Some] True by blast
      moreover have "src_data src = bs @ src_data t"
        using source_read_Some [of "len - r" src bs t] x Some True by simp
      ultimately show ?thesis by simp
    qed
  qed
qed

definition left :: "SnappyInputStream \<Rightarrow> nat" where
  "left s = length (src_data (is_in s))"

lemma readNext_left:
  assumes "readNext off len s = (Inr n, s')"
  shows "int (left s) = int (left s') + n"
  using assms
  by (auto simp: readNext_def fill_header_def op_simps left_def split: prod.splits sum.splits if_splits
      dest!: fill_count)

lemma readNext_left_le: "readNext off len s = (r, s') \<Longrightarrow> left s' \<le> left s"
  by (auto simp: readNext_def fill_header_def op_simps left_def split: prod.splits sum.splits if_splits
      dest!: fill_source_le)

lemma read_chunk_left: "read_chunk lib n s = (r, s') \<Longrightarrow> left s' \<le> left s"
  by (auto simp: read_chunk_def decode_chunk_def load_compressed_def ensure_uncompressed_def uncompress_loaded_def op_simps left_def split: prod.splits sum.splits if_splits
      dest!: fill_source_le)

lemma next_step_left:
  assumes "next_step lib s = (Inr r, s')" and "r \<noteq> NoMore"
  shows "left s' < left s"
proof -
  let ?s0 = "s\<lparr>uncompressedCursor := 0, uncompressedLimit := 0\<rparr>"
  have l0: "left ?s0 = left s" by (simp add: left_def)
  obtain x t where x: "readNext 0 4 ?s0 = (x, t)" by fastforce
  have "\<not> finishedReading s" using assms by (auto simp: next_step_def op_simps)
  then obtain n where n: "x = Inr n" "4 \<le> n"
    using assms x by (auto simp: next_step_def op_simps split: sum.splits if_splits)
  then have "left t < left s" using readNext_left [of 0 4 ?s0 n t] x l0 by simp
  moreover have "left s' \<le> left t"
    using assms x n \<open>\<not> finishedReading s\<close>
    by (auto simp: next_step_def op_simps split: sum.splits if_splits prod.splits
        dest!: readNext_left_le read_chunk_left)
  ultimately show ?thesis by simp
qed

section \<open>The public methods\<close>

function hasNextChunk :: "snappy_lib \<Rightarrow> bool iop" where
  "hasNextChunk lib s =
     (case next_step lib s of
        (Inl e, s') \<Rightarrow> (Inl e, s')
      | (Inr r, s') \<Rightarrow> (case r of Ready \<Rightarrow> (Inr True, s') | NoMore \<Rightarrow> (Inr False, s')
                           | Again \<Rightarrow> hasNextChunk lib s'))"
  by pat_completeness auto
termination
  by (relation "measure (\<lambda>(lib, s). left s)") (auto dest!: next_step_left [OF sym])

declare hasNextChunk.simps [simp del]

lemma hasNextChunk_left: "hasNextChunk lib s = (Inr True, s') \<Longrightarrow> left s' < left s"
proof (induction lib s rule: hasNextChunk.induct)
  case (1 lib s)
  obtain x t where x: "next_step lib s = (x, t)" by fastforce
  show ?case
  proof (cases x)
    case (Inl e)
    then show ?thesis using 1(2) x by (simp add: hasNextChunk.simps)
  next
    case (Inr r)
    have l: "r \<noteq> NoMore \<Longrightarrow> left t < left s" using next_step_left [of lib s r t] x Inr by simp
    show ?thesis
    proof (cases r)
      case Again
      have "hasNextChunk lib t = (Inr True, s')" using 1(2) x Inr Again by (subst (asm) hasNextChunk.simps) simp
      then show ?thesis using 1(1) [OF x [symmetric] Inr Again] l Again by simp
    qed (use 1(2) x Inr l in \<open>subst (asm) hasNextChunk.simps, simp\<close>)+
  qed
qed

text \<open>
  The loop of \<open>read(byte[], int, int)\<close> and of \<open>rawRead\<close>; they differ in the copy. The state is the
  destination array and the stream.
\<close>

function read_loop :: "snappy_lib \<Rightarrow> (bytes \<Rightarrow> int \<Rightarrow> int \<Rightarrow> int \<Rightarrow> (bytes, exc, unit) op) \<Rightarrow> int \<Rightarrow> int \<Rightarrow> int
    \<Rightarrow> (bytes \<times> SnappyInputStream, exc, int) op" where
  "read_loop lib copy byteOffset byteLength writtenBytes (b, s) =
     (if \<not> writtenBytes < byteLength then (Inr writtenBytes, (b, s))
      else if uncompressedCursor s \<ge> uncompressedLimit s then
        (case hasNextChunk lib s of
           (Inl e, s') \<Rightarrow> (Inl e, (b, s'))
         | (Inr found, s') \<Rightarrow>
             if found then read_loop lib copy byteOffset byteLength writtenBytes (b, s')
             else (Inr (if writtenBytes = 0 then - 1 else writtenBytes), (b, s')))
      else
        (let n = min (uncompressedLimit s - uncompressedCursor s) (byteLength - writtenBytes) in
         case uncompressed s of
           None \<Rightarrow> (Inl NullPointerException, (b, s))
         | Some u \<Rightarrow>
             (case copy u (uncompressedCursor s) n (byteOffset + writtenBytes) b of
                (Inl e, b') \<Rightarrow> (Inl e, (b', s))
              | (Inr _, b') \<Rightarrow>
                  read_loop lib copy byteOffset byteLength (writtenBytes + n)
                    (b', s\<lparr>uncompressedCursor := uncompressedCursor s + n\<rparr>))))"
  by pat_completeness auto
termination
  by (relation "measure (\<lambda>(lib, copy, off, len, w, (b, s)). left s + nat (len - w))")
     (auto dest!: hasNextChunk_left [OF sym] simp: left_def)

declare read_loop.simps [simp del]

definition copy_out_java :: "bytes \<Rightarrow> int \<Rightarrow> int \<Rightarrow> int \<Rightarrow> (bytes, exc, unit) op" where
  "copy_out_java src srcPos n dstPos b =
     (case arraycopy src srcPos b dstPos n of Inl e \<Rightarrow> (Inl e, b) | Inr b' \<Rightarrow> (Inr (), b'))"

definition is_read :: "snappy_lib \<Rightarrow> int \<Rightarrow> int \<Rightarrow> (bytes \<times> SnappyInputStream, exc, int) op" where
  "is_read lib byteOffset byteLength = read_loop lib copy_out_java byteOffset byteLength 0"

definition is_rawRead :: "snappy_lib \<Rightarrow> int \<Rightarrow> int \<Rightarrow> (bytes \<times> SnappyInputStream, exc, int) op" where
  "is_rawRead lib byteOffset byteLength = read_loop lib impl_arrayCopy byteOffset byteLength 0"

text \<open>\<open>read(long[], int, int)\<close> and its companions, by element size.\<close>

definition is_read_elements :: "snappy_lib \<Rightarrow> int \<Rightarrow> int \<Rightarrow> int \<Rightarrow> (bytes \<times> SnappyInputStream, exc, int) op" where
  "is_read_elements lib k off len = is_rawRead lib (i32 (off * k)) (i32 (len * k))"

definition is_read_all_elements :: "snappy_lib \<Rightarrow> int \<Rightarrow> (bytes \<times> SnappyInputStream, exc, int) op" where
  "is_read_all_elements lib k st = is_read_elements lib k 0 (int (length (fst st)) div k) st"

function is_read_byte :: "snappy_lib \<Rightarrow> int iop" where
  "is_read_byte lib s =
     (if uncompressedCursor s < uncompressedLimit s then
        (case uncompressed s of
           None \<Rightarrow> (Inl NullPointerException, s)
         | Some u \<Rightarrow>
             (case array_get u (uncompressedCursor s) of
                Inl e \<Rightarrow> (Inl e, s)
              | Inr x \<Rightarrow> (Inr (uint x), s\<lparr>uncompressedCursor := uncompressedCursor s + 1\<rparr>)))
      else
        (case hasNextChunk lib s of
           (Inl e, s') \<Rightarrow> (Inl e, s')
         | (Inr found, s') \<Rightarrow> if found then is_read_byte lib s' else (Inr (- 1), s')))"
  by pat_completeness auto
termination
  by (relation "measure (\<lambda>(lib, s). left s)") (auto dest!: hasNextChunk_left [OF sym])

declare is_read_byte.simps [simp del]

definition is_available :: "snappy_lib \<Rightarrow> int iop" where
  "is_available lib s =
     (if uncompressedCursor s < uncompressedLimit s
      then (Inr (uncompressedLimit s - uncompressedCursor s), s)
      else bindS (hasNextChunk lib) (\<lambda>found.
        if found then getS (\<lambda>s. returnS (uncompressedLimit s - uncompressedCursor s))
        else returnS 0) s)"

end
