(* ===== verification/Buffer_Alloc.thy ===== *)
theory Buffer_Alloc
  imports Errors
begin

text \<open>
  The package \<open>buffer\<close>: \<open>BufferAllocator\<close> is the contract the output stream uses, stated as a locale;
  \<open>CachedBufferAllocator\<close> and \<open>DefaultBufferAllocator\<close> implement it. The static table of
  \<open>CachedBufferAllocator\<close> maps buffer sizes to allocators.
\<close>

section \<open>The contract\<close>

text \<open>
  \<open>good n s\<close> says that \<open>s\<close> serves buffers of size \<open>n\<close>. A client that always asks for \<open>n\<close> bytes and
  only gives back buffers of that size always gets \<open>n\<close> bytes.
\<close>

locale buffer_allocator =
  fixes allocate :: "int \<Rightarrow> ('s, exc, bytes) op"
    and release :: "bytes \<Rightarrow> 's \<Rightarrow> 's"
    and good :: "int \<Rightarrow> 's \<Rightarrow> bool"
  assumes allocate_good: "good n s \<Longrightarrow> 0 \<le> n \<Longrightarrow>
      \<exists>b s'. allocate n s = (Inr b, s') \<and> int (length b) = n \<and> good n s'"
    and release_good: "good n s \<Longrightarrow> int (length b) = n \<Longrightarrow> good n (release b s)"
begin

text \<open>Any history of allocations and releases of size \<open>n\<close> keeps the allocator good.\<close>

inductive history :: "int \<Rightarrow> 's \<Rightarrow> 's \<Rightarrow> bool" where
  start: "history n s s"
| allocated: "history n s t \<Longrightarrow> allocate n t = (Inr b, u) \<Longrightarrow> history n s u"
| released: "history n s t \<Longrightarrow> int (length b) = n \<Longrightarrow> history n s (release b t)"

lemma history_good: "history n s t \<Longrightarrow> good n s \<Longrightarrow> 0 \<le> n \<Longrightarrow> good n t"
proof (induction rule: history.induct)
  case (allocated n s t b u)
  then show ?case using allocate_good [of n t] by auto
qed (auto intro: release_good)

lemma history_allocate:
  assumes "history n s t" and "good n s" and "0 \<le> n"
  obtains b u where "allocate n t = (Inr b, u)" and "int (length b) = n"
  using allocate_good [OF history_good [OF assms] assms(3)] by blast

end

section \<open>CachedBufferAllocator\<close>

record CachedBufferAllocator =
  bufferSize :: int
  bufferQueue :: "bytes list"

definition new_CachedBufferAllocator :: "int \<Rightarrow> CachedBufferAllocator" where
  "new_CachedBufferAllocator n = \<lparr>bufferSize = n, bufferQueue = []\<rparr>"

definition cached_allocate :: "int \<Rightarrow> (CachedBufferAllocator, exc, bytes) op" where
  "cached_allocate n a =
     (case bufferQueue a of
        [] \<Rightarrow> (new_array n, a)
      | b # bs \<Rightarrow> (Inr b, a\<lparr>bufferQueue := bs\<rparr>))"

definition cached_release :: "bytes \<Rightarrow> CachedBufferAllocator \<Rightarrow> CachedBufferAllocator" where
  "cached_release buffer a = a\<lparr>bufferQueue := bufferQueue a @ [buffer]\<rparr>"

text \<open>
  The static table: a size may be absent, present with a cleared soft reference (\<open>Some None\<close>), or
  present with its allocator. The garbage collector may clear references at any time.
\<close>

type_synonym queue_table = "int \<Rightarrow> CachedBufferAllocator option option"

definition getAllocator :: "int \<Rightarrow> queue_table \<Rightarrow> CachedBufferAllocator \<times> queue_table" where
  "getAllocator n table =
     (let result = (case table n of None \<Rightarrow> None | Some ref \<Rightarrow> ref) in
      case result of
        None \<Rightarrow> (new_CachedBufferAllocator n, table(n := Some (Some (new_CachedBufferAllocator n))))
      | Some a \<Rightarrow> (a, table))"

definition clear_reference :: "int \<Rightarrow> queue_table \<Rightarrow> queue_table" where
  "clear_reference n table = (if table n = None then table else table(n := Some None))"

definition cached_good :: "int \<Rightarrow> CachedBufferAllocator \<Rightarrow> bool" where
  "cached_good n a \<longleftrightarrow> bufferSize a = n \<and> (\<forall>b \<in> set (bufferQueue a). int (length b) = n)"

definition table_good :: "queue_table \<Rightarrow> bool" where
  "table_good table \<longleftrightarrow> (\<forall>n a. table n = Some (Some a) \<longrightarrow> cached_good n a)"

section \<open>DefaultBufferAllocator\<close>

definition default_allocate :: "int \<Rightarrow> (unit, exc, bytes) op" where
  "default_allocate n a = (new_array n, a)"

definition default_release :: "bytes \<Rightarrow> unit \<Rightarrow> unit" where
  "default_release buffer a = a"

interpretation cached: buffer_allocator cached_allocate cached_release cached_good
proof
  fix n s assume a: "cached_good n s" "0 \<le> n"
  then show "\<exists>b s'. cached_allocate n s = (Inr b, s') \<and> int (length b) = n \<and> cached_good n s'"
    by (cases "bufferQueue s") (auto simp: cached_allocate_def cached_good_def)
next
  fix n s and b :: bytes assume "cached_good n s" "int (length b) = n"
  then show "cached_good n (cached_release b s)" by (auto simp: cached_good_def cached_release_def)
qed

interpretation default: buffer_allocator default_allocate default_release "\<lambda>_ _. True"
  by unfold_locales (auto simp: default_allocate_def)

section \<open>Lemmas\<close>

lemma new_good: "cached_good n (new_CachedBufferAllocator n)"
  by (simp add: cached_good_def new_CachedBufferAllocator_def)

lemma getAllocator_good:
  "table_good table \<Longrightarrow> getAllocator n table = (a, table') \<Longrightarrow> cached_good n a \<and> table_good table'"
  by (auto simp: getAllocator_def table_good_def new_good Let_def split: option.splits if_splits)

lemma allocate_length:
  "cached_good n a \<Longrightarrow> cached_allocate n a = (Inr b, a') \<Longrightarrow> int (length b) = n \<and> cached_good n a'"
  by (auto simp: cached_allocate_def cached_good_def new_array_def split: list.splits if_splits)

section \<open>Properties\<close>

text \<open>
  Every buffer an allocator of the shared table hands out for its size has exactly that size,
  however often buffers were allocated, given back or dropped with a cleared reference before.
\<close>

theorem cached_allocator_sizes:
  assumes "table_good table" and "0 \<le> n"
    and "getAllocator n (clear_reference m table) = (a, table')"
    and "cached.history n a a'"
  shows "\<exists>b a''. cached_allocate n a' = (Inr b, a'') \<and> int (length b) = n
    \<and> table_good (table'(n := Some (Some a'')))"
proof -
  have "table_good (clear_reference m table)"
    using assms(1) by (auto simp: table_good_def clear_reference_def)
  then have g: "cached_good n a" "table_good table'" using getAllocator_good assms(3) by blast+
  obtain b a'' where b: "cached_allocate n a' = (Inr b, a'')" "int (length b) = n"
    using cached.history_allocate [OF assms(4) g(1) assms(2)] .
  moreover have "cached_good n a''"
    using allocate_length [OF cached.history_good [OF assms(4) g(1) assms(2)] b(1)] by simp
  ultimately show ?thesis using g(2) by (auto simp: table_good_def)
qed

theorem cached_allocator_sizes_witness:
  "\<exists>b a''. cached_allocate 3 (cached_release [1, 2, 3] (new_CachedBufferAllocator 3)) = (Inr b, a'')
    \<and> int (length b) = 3"
proof -
  let ?a = "new_CachedBufferAllocator 3"
  have t: "table_good (\<lambda>_. None)" by (simp add: table_good_def)
  have g: "getAllocator 3 (clear_reference 0 (\<lambda>_. None)) = (?a, (\<lambda>_. None)(3 := Some (Some ?a)))"
    by (simp add: getAllocator_def clear_reference_def)
  have "cached.history 3 ?a (cached_release [1, 2, 3] ?a)"
    by (rule cached.released) (auto intro: cached.start)
  from cached_allocator_sizes [OF t _ g this] show ?thesis by auto
qed

end
