(* ===== verification/Snappy_Output.thy ===== *)
theory Snappy_Output
  imports Snappy_Api Snappy_Codec Buffer_Alloc
begin

text \<open>
  \<open>SnappyOutputStream.java\<close> and its subclass \<open>SnappyHadoopCompatibleOutputStream.java\<close>: input is
  gathered in \<open>inputBuffer\<close> up to the block size, compressed into \<open>outputBuffer\<close> behind a
  four-byte length, and written to the underlying stream when the buffer may not hold another block.
\<close>

section \<open>The underlying stream\<close>

text \<open>\<open>sink_fail k\<close> tells whether the \<open>k\<close>-th call of the underlying stream throws.\<close>

record sink =
  sink_data :: bytes
  sink_closed :: bool
  sink_calls :: nat
  sink_fail :: "nat \<Rightarrow> bool"

definition sink_call :: "(sink \<Rightarrow> sink) \<Rightarrow> (sink, exc, unit) op" where
  "sink_call f s =
     (let s' = s\<lparr>sink_calls := Suc (sink_calls s)\<rparr> in
      if sink_fail s (sink_calls s) then (Inl (IOException ''sink''), s') else (Inr (), f s'))"

definition sink_write :: "bytes \<Rightarrow> (sink, exc, unit) op" where
  "sink_write bs = sink_call (\<lambda>s. s\<lparr>sink_data := sink_data s @ bs\<rparr>)"

definition sink_flush :: "(sink, exc, unit) op" where
  "sink_flush = sink_call (\<lambda>s. s)"

definition sink_close :: "(sink, exc, unit) op" where
  "sink_close = sink_call (\<lambda>s. s\<lparr>sink_closed := True\<rparr>)"

section \<open>The stream\<close>

definition MAX_BLOCK_SIZE :: int where "MAX_BLOCK_SIZE = 512 * 1024 * 1024"
definition MIN_BLOCK_SIZE :: int where "MIN_BLOCK_SIZE = 1 * 1024"
definition DEFAULT_BLOCK_SIZE :: int where "DEFAULT_BLOCK_SIZE = 32 * 1024"

text \<open>\<open>hadoop\<close> tells whether the object is of the Hadoop-compatible subclass.\<close>

record SnappyOutputStream =
  os_out :: sink
  blockSize :: int
  inputBufferAllocator :: CachedBufferAllocator
  outputBufferAllocator :: CachedBufferAllocator
  inputBuffer :: "bytes option"
  outputBuffer :: "bytes option"
  inputCursor :: int
  outputCursor :: int
  headerWritten :: bool
  os_closed :: bool
  hadoop :: bool

type_synonym 'a os = "(SnappyOutputStream, exc, 'a) op"

definition new_SnappyOutputStream ::
    "snappy_lib \<Rightarrow> bool \<Rightarrow> sink \<Rightarrow> int \<Rightarrow> (queue_table, exc, SnappyOutputStream) op" where
  "new_SnappyOutputStream lib isHadoop out bs table =
     (if max MIN_BLOCK_SIZE bs > MAX_BLOCK_SIZE then (Inl IllegalArgumentException, table)
      else
        (let inputSize = bs;
             outputSize = i32 (HEADER_SIZE + 4 + s_maxCompressedLength lib bs);
             (inAlloc, table1) = getAllocator inputSize table;
             (outAlloc, table2) = getAllocator outputSize table1
         in case cached_allocate inputSize inAlloc of
              (Inl e, _) \<Rightarrow> (Inl e, table2)
            | (Inr inBuf, inAlloc') \<Rightarrow>
                (case cached_allocate outputSize outAlloc of
                   (Inl e, _) \<Rightarrow> (Inl e, table2(inputSize := Some (Some inAlloc')))
                 | (Inr outBuf, outAlloc') \<Rightarrow>
                     (Inr \<lparr>os_out = out, blockSize = max MIN_BLOCK_SIZE bs,
                         inputBufferAllocator = inAlloc', outputBufferAllocator = outAlloc',
                         inputBuffer = Some inBuf, outputBuffer = Some outBuf,
                         inputCursor = 0, outputCursor = 0, headerWritten = False, os_closed = False,
                         hadoop = isHadoop\<rparr>,
                      table2(inputSize := Some (Some inAlloc'), outputSize := Some (Some outAlloc'))))))"

text \<open>Running an operation of a component of the stream.\<close>

definition on_sink :: "(sink, exc, 'a) op \<Rightarrow> 'a os" where
  "on_sink f s = (case f (os_out s) of (r, o') \<Rightarrow> (r, s\<lparr>os_out := o'\<rparr>))"

definition on_outputBuffer :: "(bytes, exc, 'a) op \<Rightarrow> 'a os" where
  "on_outputBuffer f s =
     (case outputBuffer s of
        None \<Rightarrow> (Inl NullPointerException, s)
      | Some b \<Rightarrow> (case f b of (r, b') \<Rightarrow> (r, s\<lparr>outputBuffer := Some b'\<rparr>)))"

definition on_inputBuffer :: "(bytes, exc, 'a) op \<Rightarrow> 'a os" where
  "on_inputBuffer f s =
     (case inputBuffer s of
        None \<Rightarrow> (Inl NullPointerException, s)
      | Some b \<Rightarrow> (case f b of (r, b') \<Rightarrow> (r, s\<lparr>inputBuffer := Some b'\<rparr>)))"

definition check_open :: "unit os" where
  "check_open = getS (\<lambda>s. if os_closed s then throwS (IOException ''Stream is closed'') else returnS ())"

definition dumpOutput :: "unit os" where
  "dumpOutput = getS (\<lambda>s.
     if outputCursor s > 0 then
       case outputBuffer s of
         None \<Rightarrow> throwS NullPointerException
       | Some b \<Rightarrow>
           if \<not> in_range 0 (outputCursor s) (length b) then throwS IndexOutOfBoundsException
           else
             bindS (on_sink (sink_write (take (nat (outputCursor s)) b))) (\<lambda>_.
             modifyS (\<lambda>s. s\<lparr>outputCursor := 0\<rparr>))
     else returnS ())"

definition os_writeHeader :: "int os" where
  "os_writeHeader = getS (\<lambda>s.
     if hadoop s then returnS 0 else on_outputBuffer (codec_writeHeader currentHeader 0))"

definition writeCurrentDataSize :: "unit os" where
  "writeCurrentDataSize = getS (\<lambda>s.
     bindS (on_outputBuffer (writeInt (outputCursor s) (word_of_int (inputCursor s)))) (\<lambda>_.
     modifyS (\<lambda>s. s\<lparr>outputCursor := outputCursor s + 4\<rparr>)))"

definition writeBlockPreemble :: "unit os" where
  "writeBlockPreemble = getS (\<lambda>s. if hadoop s then writeCurrentDataSize else returnS ())"

definition hasSufficientOutputBufferFor :: "snappy_lib \<Rightarrow> int \<Rightarrow> bool os" where
  "hasSufficientOutputBufferFor lib inputSize = getS (\<lambda>s.
     case outputBuffer s of
       None \<Rightarrow> throwS NullPointerException
     | Some b \<Rightarrow>
         returnS (s_maxCompressedLength lib inputSize < int (length b) - outputCursor s - 4))"

definition compress_block :: "snappy_lib \<Rightarrow> int os" where
  "compress_block lib s =
     (case s_compress lib (inputBuffer s) 0 (inputCursor s) (outputCursor s + 4) (outputBuffer s) of
        (r, b') \<Rightarrow> (r, s\<lparr>outputBuffer := b'\<rparr>))"

definition compressInput :: "snappy_lib \<Rightarrow> unit os" where
  "compressInput lib =
     bindS (getS (\<lambda>s. if \<not> headerWritten s then
         bindS os_writeHeader (\<lambda>n. modifyS (\<lambda>s. s\<lparr>outputCursor := n, headerWritten := True\<rparr>))
       else returnS ())) (\<lambda>_.
     getS (\<lambda>s. if inputCursor s \<le> 0 then returnS () else
       bindS (hasSufficientOutputBufferFor lib (inputCursor s)) (\<lambda>ok.
       bindS (if \<not> ok then dumpOutput else returnS ()) (\<lambda>_.
       bindS writeBlockPreemble (\<lambda>_.
       bindS (compress_block lib) (\<lambda>compressedSize.
       bindS (getS (\<lambda>s. on_outputBuffer (writeInt (outputCursor s) (word_of_int compressedSize)))) (\<lambda>_.
       modifyS (\<lambda>s. s\<lparr>outputCursor := outputCursor s + (4 + compressedSize), inputCursor := 0\<rparr>))))))))"

text \<open>
  The loop of \<open>write(byte[], int, int)\<close> and of \<open>rawWrite\<close>; they differ only in how they copy.
  An iteration that copies nothing empties a full buffer, so a write of \<open>n\<close> bytes takes at most
  \<open>n + 1\<close> iterations.
\<close>

fun write_loop :: "snappy_lib \<Rightarrow> (int \<Rightarrow> int \<Rightarrow> int \<Rightarrow> unit os) \<Rightarrow> nat \<Rightarrow> int \<Rightarrow> int \<Rightarrow> int \<Rightarrow> unit os" where
  "write_loop lib copy 0 byteOffset byteLength cursor = throwS Diverges"
| "write_loop lib copy (Suc fuel) byteOffset byteLength cursor = getS (\<lambda>s.
     if \<not> cursor < byteLength then returnS () else
       (let readLen = min (byteLength - cursor) (blockSize s - inputCursor s) in
        bindS (if readLen > 0 then
                 bindS (copy (byteOffset + cursor) (inputCursor s) readLen) (\<lambda>_.
                 modifyS (\<lambda>s. s\<lparr>inputCursor := inputCursor s + readLen\<rparr>))
               else returnS ()) (\<lambda>_.
        getS (\<lambda>s. if inputCursor s < blockSize s then returnS () else
          bindS (compressInput lib) (\<lambda>_.
          write_loop lib copy fuel byteOffset byteLength (cursor + readLen))))))"

definition copy_java :: "bytes \<Rightarrow> int \<Rightarrow> int \<Rightarrow> int \<Rightarrow> unit os" where
  "copy_java src srcPos dstPos len = on_inputBuffer (\<lambda>b.
     case arraycopy src srcPos b dstPos len of Inl e \<Rightarrow> (Inl e, b) | Inr b' \<Rightarrow> (Inr (), b'))"

definition copy_native :: "bytes \<Rightarrow> int \<Rightarrow> int \<Rightarrow> int \<Rightarrow> unit os" where
  "copy_native src srcPos dstPos len = on_inputBuffer (impl_arrayCopy src srcPos len dstPos)"

definition os_write :: "snappy_lib \<Rightarrow> bytes \<Rightarrow> int \<Rightarrow> int \<Rightarrow> unit os" where
  "os_write lib b byteOffset byteLength =
     bindS check_open (\<lambda>_. write_loop lib (copy_java b) (nat byteLength + 2) byteOffset byteLength 0)"

definition os_rawWrite :: "snappy_lib \<Rightarrow> bytes \<Rightarrow> int \<Rightarrow> int \<Rightarrow> unit os" where
  "os_rawWrite lib arr byteOffset byteLength =
     bindS check_open (\<lambda>_. write_loop lib (copy_native arr) (nat byteLength + 2) byteOffset byteLength 0)"

text \<open>\<open>write(long[], int, int)\<close> and its companions, by element size.\<close>

definition os_write_elements :: "snappy_lib \<Rightarrow> int \<Rightarrow> bytes \<Rightarrow> int \<Rightarrow> int \<Rightarrow> unit os" where
  "os_write_elements lib k arr off len = os_rawWrite lib arr (i32 (off * k)) (i32 (len * k))"

definition os_write_all_elements :: "snappy_lib \<Rightarrow> int \<Rightarrow> bytes \<Rightarrow> unit os" where
  "os_write_all_elements lib k arr = os_write_elements lib k arr 0 (int (length arr) div k)"

definition os_write_byte :: "snappy_lib \<Rightarrow> jint \<Rightarrow> unit os" where
  "os_write_byte lib b =
     bindS check_open (\<lambda>_.
     getS (\<lambda>s. case inputBuffer s of
         None \<Rightarrow> throwS NullPointerException
       | Some buf \<Rightarrow>
           bindS (if inputCursor s \<ge> int (length buf) then compressInput lib else returnS ()) (\<lambda>_.
           getS (\<lambda>s.
             bindS (on_inputBuffer (set_at (inputCursor s) (ucast b))) (\<lambda>_.
             modifyS (\<lambda>s. s\<lparr>inputCursor := inputCursor s + 1\<rparr>))))))"

definition os_flush :: "snappy_lib \<Rightarrow> unit os" where
  "os_flush lib =
     bindS check_open (\<lambda>_.
     bindS (compressInput lib) (\<lambda>_.
     bindS dumpOutput (\<lambda>_.
     on_sink sink_flush)))"

definition release_buffers :: "SnappyOutputStream \<Rightarrow> SnappyOutputStream" where
  "release_buffers s = s\<lparr>os_closed := True,
     inputBufferAllocator := cached_release (the (inputBuffer s)) (inputBufferAllocator s),
     outputBufferAllocator := cached_release (the (outputBuffer s)) (outputBufferAllocator s),
     inputBuffer := None, outputBuffer := None\<rparr>"

definition os_close :: "snappy_lib \<Rightarrow> unit os" where
  "os_close lib = getS (\<lambda>s.
     if os_closed s then returnS ()
     else finallyS (bindS (os_flush lib) (\<lambda>_. on_sink sink_close)) release_buffers)"

end
