(* ===== verification/Snappy_Output_Proofs.thy ===== *)
theory Snappy_Output_Proofs
  imports Snappy_Output
begin

text \<open>
  Invariant and abstraction of \<open>SnappyOutputStream\<close>. The abstract state is the list of blocks that
  were compressed so far and the bytes still gathered; \<open>os_rel\<close> ties it to the buffers: the bytes
  sent plus those waiting in the output buffer are the header and the encoded blocks.
\<close>

section \<open>Abstraction\<close>

definition block :: "snappy_lib \<Rightarrow> bytes \<Rightarrow> bytes" where
  "block lib x = int_be (word_of_int (int (length (compress_raw lib x)))) @ compress_raw lib x"

text \<open>The documented bound \<open>32 + n + n / 6\<close> grows with \<open>n\<close>.\<close>

definition lib_mono :: "snappy_lib \<Rightarrow> bool" where
  "lib_mono lib \<longleftrightarrow> (\<forall>m n. m \<le> n \<longrightarrow> max_compressed lib m \<le> max_compressed lib n)"

definition os_inv :: "snappy_lib \<Rightarrow> SnappyOutputStream \<Rightarrow> bool" where
  "os_inv lib s \<longleftrightarrow> \<not> os_closed s \<and> \<not> hadoop s \<and> 0 < blockSize s \<and> blockSize s \<le> MAX_BLOCK_SIZE \<and>
     20 + int (max_compressed lib (nat (blockSize s))) \<le> int_max \<and>
     (\<exists>ib. inputBuffer s = Some ib \<and> int (length ib) = blockSize s) \<and>
     (\<exists>ob. outputBuffer s = Some ob \<and>
        int (length ob) = 20 + int (max_compressed lib (nat (blockSize s)))) \<and>
     0 \<le> inputCursor s \<and> inputCursor s \<le> blockSize s \<and>
     0 \<le> outputCursor s \<and> outputCursor s \<le> int (length (the (outputBuffer s)))"

definition emitted :: "SnappyOutputStream \<Rightarrow> bytes" where
  "emitted s = sink_data (os_out s) @ take (nat (outputCursor s)) (the (outputBuffer s))"

definition gathered :: "SnappyOutputStream \<Rightarrow> bytes" where
  "gathered s = take (nat (inputCursor s)) (the (inputBuffer s))"

definition sink_ok :: "SnappyOutputStream \<Rightarrow> bool" where
  "sink_ok s \<longleftrightarrow> (\<forall>k. \<not> sink_fail (os_out s) k)"

definition os_rel :: "snappy_lib \<Rightarrow> bytes \<Rightarrow> bytes list \<Rightarrow> SnappyOutputStream \<Rightarrow> bool" where
  "os_rel lib d0 bs s \<longleftrightarrow> os_inv lib s \<and> sink_ok s \<and>
     emitted s = d0 @ (if headerWritten s then stream_header else []) @ concat (map (block lib) bs) \<and>
     (\<forall>b \<in> set bs. b \<noteq> [] \<and> int (length b) \<le> blockSize s) \<and>
     (\<not> headerWritten s \<longrightarrow> bs = [] \<and> outputCursor s = 0)"

lemma os_invE:
  assumes "os_inv lib s"
  obtains ib ob where "inputBuffer s = Some ib" "outputBuffer s = Some ob"
    "int (length ib) = blockSize s" "int (length ob) = 20 + int (max_compressed lib (nat (blockSize s)))"
    "0 \<le> inputCursor s" "inputCursor s \<le> blockSize s" "0 \<le> outputCursor s" "outputCursor s \<le> int (length ob)"
    "0 < blockSize s" "blockSize s \<le> MAX_BLOCK_SIZE" "\<not> os_closed s" "\<not> hadoop s"
    "int (length ob) \<le> int_max"
  using assms by (auto simp: os_inv_def)

lemma length_gathered: "os_inv lib s \<Longrightarrow> length (gathered s) = nat (inputCursor s)"
  by (elim os_invE) (simp add: gathered_def)

lemma os_rel_inv: "os_rel lib d0 bs s \<Longrightarrow> os_inv lib s"
  by (simp add: os_rel_def)

section \<open>Steps\<close>

lemma dumpOutput_rel:
  assumes "os_rel lib d0 bs s" and "headerWritten s"
  shows "\<exists>s'. dumpOutput s = (Inr (), s') \<and> os_rel lib d0 bs s' \<and> outputCursor s' = 0
    \<and> gathered s' = gathered s \<and> inputCursor s' = inputCursor s \<and> blockSize s' = blockSize s
    \<and> headerWritten s' \<and> sink_data (os_out s') = emitted s"
proof (cases "outputCursor s > 0")
  case True
  obtain ib ob where ob: "outputBuffer s = Some ob" "inputBuffer s = Some ib" "outputCursor s \<le> int (length ob)"
    using os_rel_inv [OF assms(1)] by (elim os_invE)
  have f: "\<not> sink_fail (os_out s) k" for k using assms(1) by (simp add: os_rel_def sink_ok_def)
  let ?s' = "s\<lparr>os_out := (os_out s)\<lparr>sink_calls := Suc (sink_calls (os_out s)),
      sink_data := sink_data (os_out s) @ take (nat (outputCursor s)) ob\<rparr>, outputCursor := 0\<rparr>"
  have "dumpOutput s = (Inr (), ?s')"
    using True ob f
    by (simp add: dumpOutput_def op_simps on_sink_def sink_write_def sink_call_def Let_def in_range_def)
  moreover have "os_rel lib d0 bs ?s'"
    using assms ob by (auto simp: os_rel_def os_inv_def sink_ok_def emitted_def)
  ultimately show ?thesis using assms(2) ob by (simp add: gathered_def emitted_def)
next
  case False
  then have z: "outputCursor s = 0" using os_rel_inv [OF assms(1)] by (auto elim: os_invE)
  then have "dumpOutput s = (Inr (), s)" by (simp add: dumpOutput_def op_simps)
  then show ?thesis using assms z by (simp add: emitted_def)
qed

lemma header_rel:
  assumes "os_rel lib d0 bs s" and "\<not> headerWritten s"
  shows "\<exists>s'. bindS os_writeHeader (\<lambda>n. modifyS (\<lambda>s. s\<lparr>outputCursor := n, headerWritten := True\<rparr>)) s = (Inr (), s')
    \<and> os_rel lib d0 bs s' \<and> gathered s' = gathered s \<and> inputCursor s' = inputCursor s
    \<and> blockSize s' = blockSize s \<and> headerWritten s'"
proof -
  obtain ib ob where ob: "inputBuffer s = Some ib" "outputBuffer s = Some ob"
      "int (length ob) = 20 + int (max_compressed lib (nat (blockSize s)))" "\<not> hadoop s"
    using os_rel_inv [OF assms(1)] by (elim os_invE)
  have r: "in_range 0 16 (length ob)" using ob(3) by (simp add: in_range_def)
  let ?ob = "blit ob 0 stream_header"
  have lb: "length ?ob = length ob" using r by (intro length_blit) simp
  let ?s' = "s\<lparr>outputBuffer := Some ?ob, outputCursor := 16, headerWritten := True\<rparr>"
  have seg: "segment 0 16 stream_header = stream_header" by simp
  have "bindS os_writeHeader (\<lambda>n. modifyS (\<lambda>s. s\<lparr>outputCursor := n, headerWritten := True\<rparr>)) s = (Inr (), ?s')"
    using ob r seg
    by (simp add: op_simps os_writeHeader_def on_outputBuffer_def codec_writeHeader_def arraycopy_def
        in_range_def flip: stream_header_def)
  moreover have "os_rel lib d0 bs ?s'"
    using assms ob lb
    by (auto simp: os_rel_def os_inv_def sink_ok_def emitted_def blit_def)
  ultimately show ?thesis by (simp add: gathered_def)
qed

lemma take_framed:
  assumes "0 \<le> i" and "in_range (i + 4) (int (length (c @ z))) (length ob)" and "length h = 4"
  shows "take (nat i + 4 + length c) (blit (blit ob (i + 4) (c @ z)) i h) = take (nat i) ob @ h @ c"
    and "length (blit (blit ob (i + 4) (c @ z)) i h) = length ob"
proof -
  have n: "nat (i + 4) = nat i + 4" "nat i + 4 + length c + length z \<le> length ob"
    using assms(1,2) by (auto simp: in_range_def)
  show "take (nat i + 4 + length c) (blit (blit ob (i + 4) (c @ z)) i h) = take (nat i) ob @ h @ c"
    using n assms(3) by (simp add: blit_def)
  show "length (blit (blit ob (i + 4) (c @ z)) i h) = length ob"
    using n assms(3) by (simp add: blit_def)
qed

text \<open>Compressing the gathered bytes when they have room behind the output cursor.\<close>

lemma block_step:
  assumes rel: "os_rel lib d0 bs s" and h: "headerWritten s" and lib: "lib_space lib"
    and pos: "0 < inputCursor s"
    and room: "outputCursor s + 4 + int (max_compressed lib (nat (inputCursor s))) \<le> int (length (the (outputBuffer s)))"
  shows "\<exists>s'. bindS (compress_block lib) (\<lambda>compressedSize.
       bindS (getS (\<lambda>s. on_outputBuffer (writeInt (outputCursor s) (word_of_int compressedSize)))) (\<lambda>_.
       modifyS (\<lambda>s. s\<lparr>outputCursor := outputCursor s + (4 + compressedSize), inputCursor := 0\<rparr>))) s = (Inr (), s')
    \<and> os_rel lib d0 (bs @ [gathered s]) s' \<and> inputCursor s' = 0 \<and> blockSize s' = blockSize s \<and> headerWritten s'"
proof -
  obtain ib ob where b: "inputBuffer s = Some ib" "outputBuffer s = Some ob" "int (length ib) = blockSize s"
    "inputCursor s \<le> blockSize s" "0 \<le> outputCursor s" "int (length ob) \<le> int_max"
    using os_rel_inv [OF rel] by (elim os_invE)
  let ?n = "inputCursor s" and ?i = "outputCursor s" and ?x = "gathered s"
  let ?c = "compress_raw lib ?x" and ?z = "compress_spill lib ?x"
  let ?k = "int (length ?c)"
  have seg: "segment 0 ?n ib = ?x" using b by (simp add: gathered_def)
  have lx: "length ?x = nat ?n" using length_gathered [OF os_rel_inv [OF rel]] .
  have le: "length ?c + length ?z \<le> max_compressed lib (nat ?n)"
    using lib lx by (auto simp: lib_space_def dest: spec [of _ ?x])
  have r: "in_range (?i + 4) (int (length (?c @ ?z))) (length ob)"
    using le room b by (simp add: in_range_def)
  have k: "i32 ?k = ?k" using le room b by (intro i32_int_len) simp
  let ?ob1 = "blit ob (?i + 4) (?c @ ?z)"
  have imp: "impl_rawCompress lib ib 0 ?n (?i + 4) ob = (Inr ?k, ?ob1)"
    using pos b room k seg by (simp add: impl_rawCompress_def in_range_def compressed_into_def)
  then have 1: "compress_block lib s = (Inr ?k, s\<lparr>outputBuffer := Some ?ob1\<rparr>)"
    using b by (simp add: compress_block_def s_compress_def s_rawCompress_def)
  have l1: "length ?ob1 = length ob" using length_blit [OF r] .
  have "in_range ?i 4 (length ?ob1)" using r b l1 by (simp add: in_range_def)
  then have 2: "writeInt ?i (word_of_int ?k) ?ob1 = (Inr (), blit ?ob1 ?i (int_be (word_of_int ?k)))"
    by (rule writeInt_in_range)
  let ?ob2 = "blit ?ob1 ?i (int_be (word_of_int ?k))"
  let ?s' = "s\<lparr>outputBuffer := Some ?ob2, outputCursor := ?i + (4 + ?k), inputCursor := 0\<rparr>"
  note t = take_framed [OF b(5) r be.length_enc]
  have "nat (?i + (4 + ?k)) = nat ?i + 4 + length ?c" using b(5) by simp
  then have em: "emitted ?s' = emitted s @ block lib ?x"
    using b t(1) by (simp add: emitted_def block_def)
  have "?x \<noteq> []" using lx pos by auto
  then have "os_rel lib d0 (bs @ [?x]) ?s'"
    using rel h b t(2) em lx pos r
    by (auto simp: os_rel_def os_inv_def sink_ok_def in_range_def)
  moreover have "bindS (compress_block lib) (\<lambda>compressedSize.
       bindS (getS (\<lambda>s. on_outputBuffer (writeInt (outputCursor s) (word_of_int compressedSize)))) (\<lambda>_.
       modifyS (\<lambda>s. s\<lparr>outputCursor := outputCursor s + (4 + compressedSize), inputCursor := 0\<rparr>))) s = (Inr (), ?s')"
    using 1 2 by (simp add: op_simps on_outputBuffer_def)
  ultimately show ?thesis using h by (intro exI [of _ ?s']) simp
qed

lemma compressInput_rel:
  assumes rel: "os_rel lib d0 bs s" and lib: "lib_space lib" "lib_mono lib"
  shows "\<exists>s'. compressInput lib s = (Inr (), s')
    \<and> os_rel lib d0 (if inputCursor s = 0 then bs else bs @ [gathered s]) s'
    \<and> inputCursor s' = 0 \<and> blockSize s' = blockSize s \<and> headerWritten s'"
proof -
  let ?hdr = "getS (\<lambda>s. if \<not> headerWritten s then
         bindS os_writeHeader (\<lambda>n. modifyS (\<lambda>s. s\<lparr>outputCursor := n, headerWritten := True\<rparr>))
       else returnS ())"
  obtain t where t: "?hdr s = (Inr (), t)" "os_rel lib d0 bs t" "gathered t = gathered s"
    "inputCursor t = inputCursor s" "blockSize t = blockSize s" "headerWritten t"
    using header_rel [OF rel] rel by (cases "headerWritten s") (auto simp: getS_def returnS_def)
  obtain ib ob where b: "outputBuffer t = Some ob" "inputBuffer t = Some ib" "0 \<le> inputCursor t"
    "inputCursor t \<le> blockSize t" "int (length ob) = 20 + int (max_compressed lib (nat (blockSize t)))"
    "\<not> hadoop t" "int (length ob) \<le> int_max" "blockSize t \<le> MAX_BLOCK_SIZE" "0 \<le> outputCursor t"
    using os_rel_inv [OF t(2)] by (elim os_invE)
  show ?thesis
  proof (cases "inputCursor s = 0")
    case True
    have "compressInput lib s = (Inr (), t)"
      unfolding compressInput_def using t True by (simp add: bindS_def) (simp add: getS_def returnS_def)
    then show ?thesis using t True by simp
  next
    case False
    let ?n = "inputCursor t"
    have n: "0 < ?n" using False t(4) b(3) by simp
    have "max_compressed lib (nat ?n) \<le> max_compressed lib (nat (blockSize t))"
      using lib(2) b(4) by (simp add: lib_mono_def)
    moreover have "s_maxCompressedLength lib ?n = int (max_compressed lib (nat ?n))"
      using maxCompressedLength_nat [of "nat ?n" lib] n b calculation by (simp add: MAX_BLOCK_SIZE_def int_max_def)
    ultimately have m: "s_maxCompressedLength lib ?n = int (max_compressed lib (nat ?n))"
      "int (max_compressed lib (nat ?n)) + 20 \<le> int (length ob)"
      using b(5) by simp_all
    let ?ok = "s_maxCompressedLength lib ?n < int (length ob) - outputCursor t - 4"
    have suf: "hasSufficientOutputBufferFor lib ?n t = (Inr ?ok, t)"
      by (simp add: hasSufficientOutputBufferFor_def getS_def b(1) returnS_def)
    obtain u where u: "(if \<not> ?ok then dumpOutput else returnS ()) t = (Inr (), u)" "os_rel lib d0 bs u"
      "gathered u = gathered s" "inputCursor u = inputCursor t" "blockSize u = blockSize t" "headerWritten u"
      "outputCursor u + 4 + int (max_compressed lib (nat ?n)) \<le> int (length (the (outputBuffer u)))"
    proof (cases ?ok)
      case True
      then show ?thesis using that [of t] t b m by (simp add: returnS_def)
    next
      case False
      obtain u where u: "dumpOutput t = (Inr (), u)" "os_rel lib d0 bs u" "outputCursor u = 0"
        "gathered u = gathered t" "inputCursor u = inputCursor t" "blockSize u = blockSize t" "headerWritten u"
        using dumpOutput_rel [OF t(2,6)] by blast
      moreover obtain ob' where "outputBuffer u = Some ob'"
        "int (length ob') = 20 + int (max_compressed lib (nat (blockSize u)))"
        using os_rel_inv [OF u(2)] by (elim os_invE)
      ultimately show ?thesis using that [of u] False t(3) m b(5) by simp
    qed
    have nh: "writeBlockPreemble u = (Inr (), u)"
      using os_rel_inv [OF u(2)] by (auto simp: writeBlockPreemble_def op_simps os_inv_def)
    obtain v where v: "bindS (compress_block lib) (\<lambda>compressedSize.
         bindS (getS (\<lambda>s. on_outputBuffer (writeInt (outputCursor s) (word_of_int compressedSize)))) (\<lambda>_.
         modifyS (\<lambda>s. s\<lparr>outputCursor := outputCursor s + (4 + compressedSize), inputCursor := 0\<rparr>))) u = (Inr (), v)"
      "os_rel lib d0 (bs @ [gathered u]) v" "inputCursor v = 0" "blockSize v = blockSize u" "headerWritten v"
      using block_step [OF u(2,6) lib(1)] u(4,7) n by auto
    have "compressInput lib s = (Inr (), v)"
      unfolding compressInput_def bindS_def [of ?hdr] t(1)
      using n suf u(1) nh v(1) by (simp add: getS_def [of _ t] bindS_def [of "hasSufficientOutputBufferFor lib ?n"]
          bindS_def [of "if \<not> ?ok then dumpOutput else returnS ()"] bindS_def [of writeBlockPreemble])
    then show ?thesis using v False u(3,5) t(5) by simp
  qed
qed

section \<open>Writing\<close>

text \<open>The contract of the copy into the input buffer, which \<open>write\<close> and \<open>rawWrite\<close> share.\<close>

locale buffer_copy =
  fixes copy :: "bytes \<Rightarrow> int \<Rightarrow> int \<Rightarrow> int \<Rightarrow> unit os"
  assumes copy_in_range: "inputBuffer s = Some ib \<Longrightarrow> in_range i n (length src) \<Longrightarrow> in_range j n (length ib) \<Longrightarrow>
    copy src i j n s = (Inr (), s\<lparr>inputBuffer := Some (blit ib j (segment i n src))\<rparr>)"
begin

text \<open>Gathering \<open>n\<close> more bytes.\<close>

lemma gather_step:
  assumes rel: "os_rel lib d0 bs s" and r: "in_range i n (length src)" and n: "0 < n"
    and room: "inputCursor s + n \<le> blockSize s"
  shows "\<exists>s'. bindS (copy src i (inputCursor s) n) (\<lambda>_.
         modifyS (\<lambda>s. s\<lparr>inputCursor := inputCursor s + n\<rparr>)) s = (Inr (), s')
    \<and> os_rel lib d0 bs s' \<and> gathered s' = gathered s @ segment i n src
    \<and> inputCursor s' = inputCursor s + n \<and> blockSize s' = blockSize s"
proof -
  obtain ib ob where b: "inputBuffer s = Some ib" "outputBuffer s = Some ob" "int (length ib) = blockSize s"
    "0 \<le> inputCursor s"
    using os_rel_inv [OF rel] by (elim os_invE)
  let ?x = "segment i n src"
  have lx: "int (length ?x) = n" using r n by (simp add: segment_simps)
  have rj: "in_range (inputCursor s) (int (length ?x)) (length ib)"
    using room b n lx by (simp add: in_range_def)
  let ?ib = "blit ib (inputCursor s) ?x"
  let ?s' = "s\<lparr>inputBuffer := Some ?ib, inputCursor := inputCursor s + n\<rparr>"
  have nn: "nat (inputCursor s + n) = nat (inputCursor s) + length ?x" "nat (inputCursor s) \<le> length ib"
    using lx b(4) n rj by (auto simp: in_range_def)
  have "take (nat (inputCursor s + n)) ?ib = take (nat (inputCursor s)) ib @ ?x"
    unfolding nn(1) by (rule take_blit_extend [OF rj nn(2)])
  then have g: "gathered ?s' = gathered s @ ?x" using b by (simp add: gathered_def)
  have "os_rel lib d0 bs ?s'"
    using rel b room n length_blit [OF rj] by (auto simp: os_rel_def os_inv_def sink_ok_def emitted_def)
  moreover have "bindS (copy src i (inputCursor s) n) (\<lambda>_.
         modifyS (\<lambda>s. s\<lparr>inputCursor := inputCursor s + n\<rparr>)) s = (Inr (), ?s')"
    using copy_in_range [OF b(1) r] rj lx by (simp add: op_simps)
  ultimately show ?thesis using g by (intro exI [of _ ?s']) simp
qed

lemma write_loop_rel:
  assumes lib: "lib_space lib" "lib_mono lib"
  shows "os_rel lib d0 bs s \<Longrightarrow> in_range off len (length src) \<Longrightarrow> 0 \<le> cursor \<Longrightarrow> cursor \<le> len \<Longrightarrow>
    len - cursor + (if inputCursor s = blockSize s then 1 else 0) < int fuel \<Longrightarrow>
    \<exists>s' bs'. write_loop lib (copy src) fuel off len cursor s = (Inr (), s') \<and> os_rel lib d0 bs' s'
      \<and> concat bs' @ gathered s' = concat bs @ gathered s @ segment (off + cursor) (len - cursor) src"
proof (induction fuel arbitrary: bs s cursor)
  case 0
  then show ?case by (auto split: if_splits)
next
  case (Suc fuel)
  show ?case
  proof (cases "cursor < len")
    case False
    then have "cursor = len" using Suc.prems by simp
    then show ?thesis using Suc.prems(1) False
      by (intro exI [of _ s] exI [of _ bs]) (simp add: getS_def returnS_def)
  next
    case True
    let ?r = "min (len - cursor) (blockSize s - inputCursor s)"
    let ?x = "segment (off + cursor) ?r src"
    let ?copy = "if ?r > 0 then bindS (copy src (off + cursor) (inputCursor s) ?r) (\<lambda>_.
        modifyS (\<lambda>s. s\<lparr>inputCursor := inputCursor s + ?r\<rparr>)) else returnS ()"
    have ic: "inputCursor s \<le> blockSize s" "0 < blockSize s"
      using os_rel_inv [OF Suc.prems(1)] by (auto elim: os_invE)
    have rr: "in_range (off + cursor) ?r (length src)"
      using Suc.prems(2,3) True ic by (auto simp: in_range_def)
    obtain t where t: "?copy s = (Inr (), t)" "os_rel lib d0 bs t" "gathered t = gathered s @ ?x"
      "inputCursor t = inputCursor s + ?r" "blockSize t = blockSize s"
    proof (cases "?r > 0")
      case True
      have "inputCursor s + ?r \<le> blockSize s" by simp
      from gather_step [OF Suc.prems(1) rr True this] obtain t where
        "bindS (copy src (off + cursor) (inputCursor s) ?r) (\<lambda>_.
           modifyS (\<lambda>s. s\<lparr>inputCursor := inputCursor s + ?r\<rparr>)) s = (Inr (), t)"
        "os_rel lib d0 bs t" "gathered t = gathered s @ ?x" "inputCursor t = inputCursor s + ?r"
        "blockSize t = blockSize s" by blast
      then show ?thesis using that [of t] True by (simp only: if_True)
    next
      case False
      then have "?r = 0" using True ic by auto
      then show ?thesis using that [of s] Suc.prems(1) by (simp add: returnS_def)
    qed
    have seg: "segment (off + cursor) (len - cursor) src
        = ?x @ segment (off + (cursor + ?r)) (len - (cursor + ?r)) src"
      using segment_append_segment [of "off + cursor" ?r "len - (cursor + ?r)" src] Suc.prems(2,3) True ic
      by (simp add: in_range_def algebra_simps)
    show ?thesis
    proof (cases "inputCursor t < blockSize t")
      case True
      then have "?r = len - cursor" using t(4,5) by auto
      moreover have "write_loop lib (copy src) (Suc fuel) off len cursor s = (Inr (), t)"
        using \<open>cursor < len\<close> t(1) True by (simp add: getS_def Let_def bindS_def returnS_def)
      ultimately show ?thesis using t by (intro exI [of _ t] exI [of _ bs]) simp
    next
      case full: False
      then have it: "inputCursor t \<noteq> 0" using ic(2) t(5) by simp
      obtain u where u: "compressInput lib t = (Inr (), u)" "os_rel lib d0 (bs @ [gathered t]) u"
        "inputCursor u = 0" "blockSize u = blockSize t"
        using compressInput_rel [OF t(2) lib] it by auto
      have fu: "len - (cursor + ?r) + (if inputCursor u = blockSize u then 1 else 0) < int fuel"
        using Suc.prems(5) u(3,4) t(5) ic True by (cases "inputCursor s = blockSize s") auto
      have c: "0 \<le> cursor + ?r" "cursor + ?r \<le> len" using Suc.prems(3) True ic by auto
      obtain s' bs' where s': "write_loop lib (copy src) fuel off len (cursor + ?r) u = (Inr (), s')"
        "os_rel lib d0 bs' s'"
        "concat bs' @ gathered s' = concat (bs @ [gathered t]) @ gathered u
           @ segment (off + (cursor + ?r)) (len - (cursor + ?r)) src"
        using Suc.IH [OF u(2) Suc.prems(2) c fu] by blast
      have "gathered u = []" using u(3) by (simp add: gathered_def)
      moreover have "write_loop lib (copy src) (Suc fuel) off len cursor s = (Inr (), s')"
        using \<open>cursor < len\<close> t(1) full u(1) s'(1) by (simp add: getS_def Let_def bindS_def)
      ultimately show ?thesis using s' t(3) seg by (intro exI [of _ s'] exI [of _ bs']) simp
    qed
  qed
qed

text \<open>A write of exactly one block into an empty buffer compresses it at once.\<close>

lemma write_full_block:
  assumes lib: "lib_space lib" "lib_mono lib" and rel: "os_rel lib d0 bs s" and c: "inputCursor s = 0"
    and r: "in_range off (blockSize s) (length src)"
  shows "\<exists>s'. write_loop lib (copy src) (Suc (Suc fuel)) off (blockSize s) 0 s = (Inr (), s')
    \<and> os_rel lib d0 (bs @ [segment off (blockSize s) src]) s' \<and> inputCursor s' = 0"
proof -
  let ?n = "blockSize s"
  have n: "0 < ?n" using os_rel_inv [OF rel] by (auto elim: os_invE)
  obtain t where t: "bindS (copy src off 0 ?n) (\<lambda>_. modifyS (\<lambda>s. s\<lparr>inputCursor := inputCursor s + ?n\<rparr>)) s = (Inr (), t)"
    "os_rel lib d0 bs t" "gathered t = segment off ?n src" "inputCursor t = ?n" "blockSize t = ?n"
    using gather_step [OF rel r n] c by (auto simp: gathered_def)
  obtain u where u: "compressInput lib t = (Inr (), u)" "os_rel lib d0 (bs @ [gathered t]) u" "inputCursor u = 0"
    using compressInput_rel [OF t(2) lib] t(4) n by auto
  have "write_loop lib (copy src) (Suc (Suc fuel)) off ?n 0 s = (Inr (), u)"
    unfolding write_loop.simps Let_def using c n t(1,4,5) u(1)
    by (simp add: getS_def bindS_def [of "bindS _ _"] bindS_def [of "compressInput lib"] returnS_def)
  then show ?thesis using u(2,3) t(3) by auto
qed

end

interpretation java_copy: buffer_copy copy_java
proof
  fix s :: SnappyOutputStream and ib i n j and src :: bytes
  assume "inputBuffer s = Some ib" "in_range i n (length src)" "in_range j n (length ib)"
  then show "copy_java src i j n s = (Inr (), s\<lparr>inputBuffer := Some (blit ib j (segment i n src))\<rparr>)"
    by (simp add: copy_java_def on_inputBuffer_def arraycopy_def)
qed

interpretation native_copy: buffer_copy copy_native
proof
  fix s :: SnappyOutputStream and ib i n j and src :: bytes
  assume "inputBuffer s = Some ib" "in_range i n (length src)" "in_range j n (length ib)"
  then show "copy_native src i j n s = (Inr (), s\<lparr>inputBuffer := Some (blit ib j (segment i n src))\<rparr>)"
    by (simp add: copy_native_def on_inputBuffer_def impl_arrayCopy_def)
qed

lemma check_open_inv: "os_inv lib s \<Longrightarrow> check_open s = (Inr (), s)"
  by (simp add: check_open_def getS_def returnS_def os_inv_def)

lemma os_write_rel:
  assumes "lib_space lib" "lib_mono lib" and "os_rel lib d0 bs s" and "in_range off len (length b)"
  shows "\<exists>s' bs'. os_write lib b off len s = (Inr (), s') \<and> os_rel lib d0 bs' s'
    \<and> concat bs' @ gathered s' = concat bs @ gathered s @ segment off len b"
    and "\<exists>s' bs'. os_rawWrite lib b off len s = (Inr (), s') \<and> os_rel lib d0 bs' s'
    \<and> concat bs' @ gathered s' = concat bs @ gathered s @ segment off len b"
proof -
  have len: "0 \<le> len" using assms(4) by (simp add: in_range_def)
  note c = check_open_inv [OF os_rel_inv [OF assms(3)]]
  show "\<exists>s' bs'. os_write lib b off len s = (Inr (), s') \<and> os_rel lib d0 bs' s'
    \<and> concat bs' @ gathered s' = concat bs @ gathered s @ segment off len b"
    using java_copy.write_loop_rel [OF assms(1,2,3,4) order_refl len, of "nat len + 2"] len
    by (simp add: os_write_def bindS_def c)
  show "\<exists>s' bs'. os_rawWrite lib b off len s = (Inr (), s') \<and> os_rel lib d0 bs' s'
    \<and> concat bs' @ gathered s' = concat bs @ gathered s @ segment off len b"
    using native_copy.write_loop_rel [OF assms(1,2,3,4) order_refl len, of "nat len + 2"] len
    by (simp add: os_rawWrite_def bindS_def c)
qed

lemma os_write_byte_rel:
  assumes lib: "lib_space lib" "lib_mono lib" and rel: "os_rel lib d0 bs s"
  shows "\<exists>s' bs'. os_write_byte lib x s = (Inr (), s') \<and> os_rel lib d0 bs' s'
    \<and> concat bs' @ gathered s' = concat bs @ gathered s @ [ucast x]"
proof -
  obtain ib where ib: "inputBuffer s = Some ib" "int (length ib) = blockSize s" "inputCursor s \<le> blockSize s"
    "0 < blockSize s" "0 \<le> inputCursor s"
    using os_rel_inv [OF rel] by (elim os_invE)
  obtain t bs' where t: "(if inputCursor s \<ge> int (length ib) then compressInput lib else returnS ()) s = (Inr (), t)"
    "os_rel lib d0 bs' t" "concat bs' @ gathered t = concat bs @ gathered s" "inputCursor t < blockSize t"
  proof (cases "inputCursor s \<ge> int (length ib)")
    case True
    then obtain t where "compressInput lib s = (Inr (), t)" "os_rel lib d0 (bs @ [gathered s]) t"
      "inputCursor t = 0" "blockSize t = blockSize s"
      using compressInput_rel [OF rel lib] ib by (auto split: if_splits)
    then show ?thesis using that [of t "bs @ [gathered s]"] True ib by (simp add: gathered_def)
  next
    case False
    then show ?thesis using that [of s bs] rel ib by (simp add: returnS_def)
  qed
  obtain tb where tb: "inputBuffer t = Some tb" "int (length tb) = blockSize t" "0 \<le> inputCursor t"
    using os_rel_inv [OF t(2)] by (elim os_invE)
  let ?b = "tb[nat (inputCursor t) := ucast x]"
  let ?s' = "t\<lparr>inputBuffer := Some ?b, inputCursor := inputCursor t + 1\<rparr>"
  have n: "nat (inputCursor t) < length tb" "nat (inputCursor t + 1) = Suc (nat (inputCursor t))"
    using t(4) tb by auto
  have "take (Suc (nat (inputCursor t))) ?b = take (nat (inputCursor t)) tb @ [ucast x]"
    using n by (simp add: take_Suc_conv_app_nth)
  then have g: "gathered ?s' = gathered t @ [ucast x]" using tb n by (simp add: gathered_def)
  have "os_rel lib d0 bs' ?s'"
    using t(2,4) tb by (auto simp: os_rel_def os_inv_def sink_ok_def emitted_def)
  moreover have "os_write_byte lib x s = (Inr (), ?s')"
    using check_open_inv [OF os_rel_inv [OF rel]] ib t(1,4) tb n(1)
    by (simp add: os_write_byte_def bindS_def getS_def on_inputBuffer_def set_at_def array_set_def modifyS_def)
  ultimately show ?thesis using g t(3) by (intro exI [of _ ?s'] exI [of _ bs']) simp
qed

lemma os_flush_rel:
  assumes lib: "lib_space lib" "lib_mono lib" and rel: "os_rel lib d0 bs s"
  shows "\<exists>s' bs'. os_flush lib s = (Inr (), s') \<and> os_rel lib d0 bs' s' \<and> headerWritten s'
    \<and> concat bs' = concat bs @ gathered s \<and> gathered s' = [] \<and> outputCursor s' = 0
    \<and> sink_data (os_out s') = d0 @ stream_header @ concat (map (block lib) bs')
    \<and> bs' = (if inputCursor s = 0 then bs else bs @ [gathered s])"
proof -
  let ?bs = "if inputCursor s = 0 then bs else bs @ [gathered s]"
  obtain t where t: "compressInput lib s = (Inr (), t)" "os_rel lib d0 ?bs t" "inputCursor t = 0" "headerWritten t"
    using compressInput_rel [OF rel lib] by blast
  obtain u where u: "dumpOutput t = (Inr (), u)" "os_rel lib d0 ?bs u" "outputCursor u = 0"
    "gathered u = gathered t" "headerWritten u" "sink_data (os_out u) = emitted t"
    using dumpOutput_rel [OF t(2,4)] by blast
  let ?s' = "u\<lparr>os_out := (os_out u)\<lparr>sink_calls := Suc (sink_calls (os_out u))\<rparr>\<rparr>"
  have f: "\<not> sink_fail (os_out u) k" for k using u(2) by (simp add: os_rel_def sink_ok_def)
  have "os_flush lib s = (Inr (), ?s')"
    using check_open_inv [OF os_rel_inv [OF rel]] t(1) u(1) f
    by (simp add: os_flush_def bindS_def on_sink_def sink_flush_def sink_call_def Let_def)
  moreover have "os_rel lib d0 ?bs ?s'"
    using u(2) by (auto simp: os_rel_def os_inv_def sink_ok_def emitted_def)
  moreover have "emitted t = d0 @ stream_header @ concat (map (block lib) ?bs)"
    using t(2,4) by (simp add: os_rel_def)
  moreover have "gathered t = []" using t(3) by (simp add: gathered_def)
  moreover have "concat ?bs = concat bs @ gathered s" by (simp add: gathered_def)
  ultimately show ?thesis
    using u(3,4,5,6) by (intro exI [of _ ?s'] exI [of _ ?bs]) (simp add: gathered_def)
qed

section \<open>The block size never changes\<close>

definition keeps_blockSize :: "'a os \<Rightarrow> bool" where
  "keeps_blockSize f \<longleftrightarrow> (\<forall>s. blockSize (snd (f s)) = blockSize s)"

named_theorems keeps \<open>operations that keep the block size\<close>

lemma keeps_bind [keeps]:
  assumes f: "keeps_blockSize f" and g: "\<And>x. keeps_blockSize (g x)"
  shows "keeps_blockSize (bindS f g)"
  unfolding keeps_blockSize_def
proof
  fix s
  obtain r t where r: "f s = (r, t)" by fastforce
  then have "blockSize t = blockSize s" using f by (metis keeps_blockSize_def snd_conv)
  then show "blockSize (snd (bindS f g s)) = blockSize s"
    using g r by (cases r) (simp_all add: bindS_def keeps_blockSize_def)
qed

lemma keeps_cases [keeps]:
  "keeps_blockSize f \<Longrightarrow> keeps_blockSize g \<Longrightarrow> keeps_blockSize (if c then f else g)"
  "keeps_blockSize f \<Longrightarrow> (\<And>x. keeps_blockSize (h x)) \<Longrightarrow>
     keeps_blockSize (case y of None \<Rightarrow> f | Some x \<Rightarrow> h x)"
  by (simp_all split: option.splits)

lemma keeps_get [keeps]: "(\<And>s. keeps_blockSize (f s)) \<Longrightarrow> keeps_blockSize (getS f)"
  by (simp add: keeps_blockSize_def getS_def)

lemma keeps_base [keeps]:
  "keeps_blockSize (returnS x)" "keeps_blockSize (throwS e)" "keeps_blockSize (on_sink f1)"
  "keeps_blockSize (on_outputBuffer f2)" "keeps_blockSize (on_inputBuffer f3)" "keeps_blockSize (compress_block lib)"
  by (simp_all add: keeps_blockSize_def op_simps on_sink_def on_outputBuffer_def on_inputBuffer_def
      compress_block_def split: prod.splits option.splits)

lemma keeps_modify [keeps]: "(\<And>s. blockSize (f s) = blockSize s) \<Longrightarrow> keeps_blockSize (modifyS f)"
  by (simp add: keeps_blockSize_def modifyS_def)

lemma keeps_steps [keeps]:
  "keeps_blockSize check_open" "keeps_blockSize dumpOutput" "keeps_blockSize os_writeHeader"
  "keeps_blockSize writeBlockPreemble" "keeps_blockSize (hasSufficientOutputBufferFor lib n)"
  unfolding check_open_def dumpOutput_def os_writeHeader_def writeBlockPreemble_def writeCurrentDataSize_def
    hasSufficientOutputBufferFor_def
  by ((intro keeps; simp)+)

lemma keeps_compressInput [keeps]: "keeps_blockSize (compressInput lib)"
  unfolding compressInput_def by (intro keeps; simp)

lemma keeps_write_loop [keeps]:
  "(\<And>i j n. keeps_blockSize (copy i j n)) \<Longrightarrow> keeps_blockSize (write_loop lib copy fuel off len cursor)"
proof (induction fuel arbitrary: cursor)
  case 0
  then show ?case by (simp add: keeps)
next
  case (Suc fuel)
  show ?case unfolding write_loop.simps Let_def by (intro keeps Suc; simp)
qed

lemma keeps_methods [keeps]:
  "keeps_blockSize (os_write lib b off len)" "keeps_blockSize (os_rawWrite lib b off len)"
  "keeps_blockSize (os_write_byte lib x)" "keeps_blockSize (os_flush lib)"
  unfolding os_write_def os_rawWrite_def os_write_byte_def os_flush_def copy_java_def copy_native_def
  by ((intro keeps; simp)+)

lemma keeps_close [keeps]: "keeps_blockSize (os_close lib)"
proof -
  have "keeps_blockSize (bindS (os_flush lib) (\<lambda>_. on_sink sink_close))" by (intro keeps)
  then show ?thesis
    by (auto simp: os_close_def keeps_blockSize_def getS_def finallyS_def release_buffers_def returnS_def
        split: prod.splits) (metis snd_conv)
qed

end
