(* ===== verification/Snappy_Input_Proofs.thy ===== *)
theory Snappy_Input_Proofs
  imports Snappy_Input Snappy_Output_Proofs
begin

text \<open>
  Reading back what the output stream writes. The data in the underlying stream is a list of
  items, headers and blocks; \<open>is_rel\<close> says that the stream object has exactly the items \<open>is\<close> before
  it, and \<open>unread\<close> is what is left of the current chunk.
\<close>

section \<open>Items\<close>

datatype item = Hdr jint jint | Blk bytes

fun enc_item :: "snappy_lib \<Rightarrow> item \<Rightarrow> bytes" where
  "enc_item lib (Hdr v c) = MAGIC_HEADER @ int_be v @ int_be c"
| "enc_item lib (Blk x) = block lib x"

fun item_data :: "item \<Rightarrow> bytes" where
  "item_data (Hdr v c) = []"
| "item_data (Blk x) = x"

fun item_ok :: "snappy_lib \<Rightarrow> int \<Rightarrow> item \<Rightarrow> bool" where
  "item_ok lib m (Hdr v c) = (1 \<le> sint v)"
| "item_ok lib m (Blk x) = (int (length x) \<le> int_max \<and> int (length (compress_raw lib x)) \<le> m)"

abbreviation items_data :: "item list \<Rightarrow> bytes" where
  "items_data its \<equiv> concat (map item_data its)"

definition is_rel :: "snappy_lib \<Rightarrow> item list \<Rightarrow> SnappyInputStream \<Rightarrow> bool" where
  "is_rel lib its s \<longleftrightarrow> src_data (is_in s) = concat (map (enc_item lib) its) \<and>
     (\<forall>i \<in> set its. item_ok lib (maxChunkSize s) i) \<and> maxChunkSize s \<le> int_max \<and>
     (finishedReading s \<longrightarrow> its = []) \<and> length (is_header s) = 16 \<and>
     0 \<le> uncompressedCursor s \<and> uncompressedCursor s \<le> uncompressedLimit s \<and>
     (0 < uncompressedLimit s \<longrightarrow>
        (\<exists>u. uncompressed s = Some u \<and> uncompressedLimit s \<le> int (length u)))"

definition unread :: "SnappyInputStream \<Rightarrow> bytes" where
  "unread s = (case uncompressed s of None \<Rightarrow> []
     | Some u \<Rightarrow> segment (uncompressedCursor s) (uncompressedLimit s - uncompressedCursor s) u)"

lemma length_unread:
  assumes "is_rel lib its s"
  shows "int (length (unread s)) = uncompressedLimit s - uncompressedCursor s"
proof (cases "uncompressedLimit s = 0")
  case True
  then show ?thesis using assms by (auto simp: is_rel_def unread_def split: option.splits)
next
  case False
  then obtain u where u: "uncompressed s = Some u" "uncompressedLimit s \<le> int (length u)"
    using assms by (auto simp: is_rel_def)
  then have "in_range (uncompressedCursor s) (uncompressedLimit s - uncompressedCursor s) (length u)"
    using assms by (auto simp: is_rel_def in_range_def)
  then show ?thesis using u assms by (simp add: unread_def segment_simps is_rel_def)
qed

section \<open>Steps\<close>

lemma readNext_ok:
  assumes "in_range off len (length (is_header s))"
  shows "\<exists>src'. readNext off len s
      = (Inr (min len (int (length (src_data (is_in s))))),
         s\<lparr>is_header := blit (is_header s) off (take (nat len) (src_data (is_in s))), is_in := src',
           finishedReading := finishedReading s \<or> int (length (src_data (is_in s))) < len\<rparr>)
    \<and> src_data src' = drop (nat len) (src_data (is_in s))"
proof -
  have "0 \<le> len" using assms by (simp add: in_range_def)
  from fill_ok [OF assms order_refl this, of "is_in s"] show ?thesis
    by (cases s) (auto simp: readNext_def fill_header_def op_simps)
qed

lemma sint_small: "0 \<le> n \<Longrightarrow> n \<le> int_max \<Longrightarrow> sint (word_of_int n :: jint) = n"
  by (simp add: int_max_def sint_sbintrunc' signed_take_bit_int_eq_self)

lemma magic_negative: "sint (0x82534E41 :: jint) < 0"
  by simp

text \<open>Once the bytes of a chunk are there, they are decoded.\<close>

lemma read_chunk_loaded:
  assumes n: "n = int (length c)" and data: "src_data (is_in s) = c @ rest"
  shows "\<exists>s2 c2. read_chunk lib n s = decode_chunk lib n s2 \<and> compressed s2 = Some c2
    \<and> in_range 0 n (length c2) \<and> segment 0 n c2 = c \<and> src_data (is_in s2) = rest
    \<and> uncompressed s2 = uncompressed s \<and> uncompressedCursor s2 = uncompressedCursor s
    \<and> uncompressedLimit s2 = uncompressedLimit s
    \<and> is_header s2 = is_header s \<and> maxChunkSize s2 = maxChunkSize s \<and> finishedReading s2 = finishedReading s"
proof -
  define s1 where "s1 = (if compressed s = None \<or> n > int (length (the (compressed s)))
       then s\<lparr>compressed := Some (replicate (nat n) 0)\<rparr> else s)"
  obtain c1 where c1: "compressed s1 = Some c1" "n \<le> int (length c1)"
  proof (cases "compressed s = None \<or> n > int (length (the (compressed s)))")
    case True
    then show ?thesis using that [of "replicate (nat n) 0"] by (simp add: s1_def)
  next
    case False
    then show ?thesis using that [of "the (compressed s)"] by (auto simp: s1_def)
  qed
  have same: "is_in s1 = is_in s" "uncompressed s1 = uncompressed s" "uncompressedCursor s1 = uncompressedCursor s"
    "uncompressedLimit s1 = uncompressedLimit s" "is_header s1 = is_header s"
    "maxChunkSize s1 = maxChunkSize s" "finishedReading s1 = finishedReading s"
    by (simp_all add: s1_def)
  have "in_range 0 n (length c1)" using n c1(2) by (simp add: in_range_def)
  from fill_ok [OF this order_refl, of "is_in s"] n data obtain src' where
    f: "fill 0 n 0 (c1, is_in s) = (Inr (n, False), (blit c1 0 c, src'))" "src_data src' = rest"
    by (auto simp: min_def)
  let ?s2 = "s1\<lparr>compressed := Some (blit c1 0 c), is_in := src'\<rparr>"
  have "load_compressed n s1 = (Inr (n, False), ?s2)"
    using f(1) c1(1) same(1) by (simp add: load_compressed_def)
  then have "read_chunk lib n s = decode_chunk lib n ?s2"
    unfolding read_chunk_def bind_modify s1_def [symmetric]
    by (simp add: bindS_def [of "load_compressed n"])
  moreover have "in_range 0 n (length (blit c1 0 c))" and "segment 0 n (blit c1 0 c) = c"
    using n c1(2) by (auto simp: in_range_def blit_def)
  ultimately show ?thesis using f(2) same
    by (intro exI [of _ ?s2] exI [of _ "blit c1 0 c"]) simp
qed

lemma read_chunk_ok:
  assumes lib: "lib_roundtrip lib" and x: "int (length x) \<le> int_max"
    and n: "n = int (length (compress_raw lib x))"
    and data: "src_data (is_in s) = compress_raw lib x @ rest"
  shows "\<exists>s' u. read_chunk lib n s = (Inr (), s') \<and> src_data (is_in s') = rest
    \<and> uncompressedLimit s' = int (length x) \<and> uncompressedCursor s' = uncompressedCursor s
    \<and> uncompressed s' = Some u \<and> length x \<le> length u \<and> take (length x) u = x
    \<and> (uncompressed s = None \<longrightarrow> length u = length x)
    \<and> is_header s' = is_header s \<and> maxChunkSize s' = maxChunkSize s \<and> finishedReading s' = finishedReading s"
proof -
  let ?c = "compress_raw lib x"
  obtain s2 c2 where s2: "read_chunk lib n s = decode_chunk lib n s2" "compressed s2 = Some c2"
    "src_data (is_in s2) = rest" "uncompressed s2 = uncompressed s" "uncompressedCursor s2 = uncompressedCursor s"
    "is_header s2 = is_header s" "maxChunkSize s2 = maxChunkSize s" "finishedReading s2 = finishedReading s"
    and r2: "in_range 0 n (length c2)" and seg: "segment 0 n c2 = ?c"
    using read_chunk_loaded [OF n data, of lib] by blast
  have ul: "s_uncompressedLength lib (compressed s2) 0 n = Inr (int (length x))"
    using impl_uncompressedLength_compressed [OF lib x r2 seg] by (simp add: s_uncompressedLength_def s2)
  obtain s3 u3 where s3: "ensure_uncompressed (int (length x)) s2 = (Inr (), s3)" "s3 = s2\<lparr>uncompressed := Some u3\<rparr>"
    "length x \<le> length u3" "uncompressed s = None \<longrightarrow> length u3 = length x"
  proof (cases "uncompressed s2 = None \<or> int (length x) > int (length (the (uncompressed s2)))")
    case True
    then show ?thesis using that [of "s2\<lparr>uncompressed := Some (replicate (length x) 0)\<rparr>" "replicate (length x) 0"]
      by (simp add: ensure_uncompressed_def op_simps)
  next
    case False
    then obtain u where "uncompressed s2 = Some u" "length x \<le> length u" by auto
    moreover from this have "s2 = s2\<lparr>uncompressed := Some u\<rparr>" "uncompressed s \<noteq> None" using s2(4) by simp_all
    moreover have "ensure_uncompressed (int (length x)) s2 = (Inr (), s2)"
      using False by (auto simp: ensure_uncompressed_def op_simps)
    ultimately show ?thesis using that [of s2 u] by metis
  qed
  have r3: "in_range 0 (int (length x)) (length u3)" using s3(3) by (simp add: in_range_def)
  have un: "uncompress_loaded lib n s3
      = (Inr (int (length x)), s3\<lparr>uncompressed := Some (blit u3 0 x)\<rparr>)"
    using impl_rawUncompress_compressed [OF lib x r2 seg r3]
    by (simp add: uncompress_loaded_def s_uncompress_def s_rawUncompress_def s3(2) s2)
  let ?s' = "s3\<lparr>uncompressed := Some (blit u3 0 x), uncompressedLimit := int (length x)\<rparr>"
  have "decode_chunk lib n s2 = (Inr (), ?s')"
    unfolding decode_chunk_def
    by (simp add: bind_run ul bindS_def [of "ensure_uncompressed _"] s3(1) bindS_def [of "uncompress_loaded lib n"] un)
       (simp add: modifyS_def)
  moreover have "take (length x) (blit u3 0 x) = x" "length (blit u3 0 x) = length u3"
    using s3(3) by (simp_all add: blit_def)
  ultimately show ?thesis using s2 s3 by (intro exI [of _ ?s'] exI [of _ "blit u3 0 x"]) simp
qed

text \<open>A length that does not fit an \<open>int\<close> comes back negative, and a buffer that exists is kept.\<close>

lemma read_chunk_negative:
  assumes n: "n = int (length c)" and data: "src_data (is_in s) = c @ rest"
    and k: "parse_length lib c = Some k" "2 ^ 31 \<le> k" "k < 2 ^ 32"
    and u: "uncompressed s = Some u" "int (length u) \<le> int_max"
  shows "fst (read_chunk lib n s) = Inl NativeFault"
proof -
  obtain s2 c2 where s2: "read_chunk lib n s = decode_chunk lib n s2" "compressed s2 = Some c2"
    "uncompressed s2 = Some u" and r2: "in_range 0 n (length c2)" and seg: "segment 0 n c2 = c"
    using read_chunk_loaded [OF n data, of lib] u(1) by auto
  have neg: "i32 (int k) < 0" using k(2,3) i32_unsigned [of "int k"] by simp
  have ul: "s_uncompressedLength lib (compressed s2) 0 n = Inr (i32 (int k))"
    using r2 seg k(1) by (simp add: s_uncompressedLength_def s2(2) impl_uncompressedLength_def)
  have en: "ensure_uncompressed (i32 (int k)) s2 = (Inr (), s2)"
    using neg s2(3) by (simp add: ensure_uncompressed_def op_simps)
  have "\<not> in_range 0 (int k) (length u)" using k(2) u(2) by (auto simp: in_range_def int_max_def)
  then have un: "uncompress_loaded lib n s2 = (Inl NativeFault, s2)"
    using r2 seg k(1) s2(2,3)
    by (simp add: uncompress_loaded_def s_uncompress_def s_rawUncompress_def impl_rawUncompress_def)
  show ?thesis
    unfolding s2(1) decode_chunk_def
    by (simp add: bind_run ul bindS_def [of "ensure_uncompressed _"] en bindS_def [of "uncompress_loaded lib n"] un)
qed

text \<open>What one step of \<open>hasNextChunk\<close> does, by the next item.\<close>

lemma next_step_Nil:
  assumes "is_rel lib [] s"
  shows "\<exists>s'. next_step lib s = (Inr NoMore, s') \<and> is_rel lib [] s'
    \<and> (uncompressedCursor s \<ge> uncompressedLimit s \<longrightarrow> unread s' = [])"
proof (cases "finishedReading s")
  case True
  have "uncompressedCursor s \<ge> uncompressedLimit s \<Longrightarrow> unread s = []"
    using length_unread [OF assms] by (simp flip: length_0_conv)
  then show ?thesis using True assms by (intro exI [of _ s]) (simp add: next_step_def op_simps)
next
  case False
  let ?s0 = "s\<lparr>uncompressedCursor := 0, uncompressedLimit := 0\<rparr>"
  have d: "src_data (is_in ?s0) = []" "length (is_header ?s0) = 16" using assms by (simp_all add: is_rel_def)
  obtain src' where r: "readNext 0 4 ?s0 = (Inr 0, ?s0\<lparr>is_header := is_header s, is_in := src', finishedReading := True\<rparr>)"
    "src_data src' = []"
    using readNext_ok [of 0 4 ?s0] d by (auto simp: in_range_def)
  have "next_step lib s = (Inr NoMore, ?s0\<lparr>is_header := is_header s, is_in := src', finishedReading := True\<rparr>)"
    using False by (simp add: next_step_def getS_def bind_modify bindS_def [of "readNext 0 4"] r(1)) (simp add: returnS_def)
  then show ?thesis using assms r(2) by (auto simp: is_rel_def unread_def split: option.splits)
qed

lemma header_word:
  assumes "length h = 16" and "take 4 d = int_be w" and "4 \<le> length d"
  shows "readInt (blit h 0 (take 4 d)) 0 = Inr w" and "length (blit h 0 (take 4 d)) = 16"
proof -
  have b: "blit h 0 (take 4 d) = int_be w @ drop 4 h"
    using assms by (simp add: blit_def be.length_enc)
  then show "length (blit h 0 (take 4 d)) = 16" using assms(1) by (simp add: be.length_enc)
  then show "readInt (blit h 0 (take 4 d)) 0 = Inr w"
    by (simp add: readInt_in_range in_range_def b be.length_enc be.dec_enc)
qed

lemma MAGIC_head: "take 4 MAGIC_HEADER = int_be 0x82534E41"
  by (simp add: MAGIC_HEADER_def int_be_def)

text \<open>The first word of a chunk decides what a step does with the rest.\<close>

definition at_chunk :: "SnappyInputStream \<Rightarrow> bytes \<Rightarrow> source \<Rightarrow> SnappyInputStream" where
  "at_chunk s h src = s\<lparr>uncompressedCursor := 0, uncompressedLimit := 0, is_header := h, is_in := src,
     finishedReading := False\<rparr>"

lemma at_chunk_simps [simp]:
  "is_header (at_chunk s h src) = h" "maxChunkSize (at_chunk s h src) = maxChunkSize s"
  "is_in (at_chunk s h src) = src" "uncompressed (at_chunk s h src) = uncompressed s"
  "uncompressedCursor (at_chunk s h src) = 0" "uncompressedLimit (at_chunk s h src) = 0"
  "finishedReading (at_chunk s h src) = False"
  by (simp_all add: at_chunk_def)

lemma next_step_word:
  assumes "\<not> finishedReading s" and "length (is_header s) = 16"
    and "src_data (is_in s) = int_be w @ rest" and w: "w \<noteq> 0x82534E41"
  shows "\<exists>h src. length h = 16 \<and> src_data src = rest \<and>
    next_step lib s =
      (if sint w < 0 then (Inl (SnappyErrorExc INVALID_CHUNK_SIZE), at_chunk s h src)
       else if sint w > maxChunkSize s then (Inl (SnappyErrorExc FAILED_TO_UNCOMPRESS), at_chunk s h src)
       else bindS (read_chunk lib (sint w)) (\<lambda>_. returnS Ready) (at_chunk s h src))"
proof -
  let ?s0 = "s\<lparr>uncompressedCursor := 0, uncompressedLimit := 0\<rparr>"
  have t4: "take 4 (src_data (is_in s)) = int_be w" "4 \<le> length (src_data (is_in s))"
    using assms(3) by (simp_all add: be.length_enc)
  let ?h1 = "blit (is_header s) 0 (take 4 (src_data (is_in s)))"
  have h1: "readInt ?h1 0 = Inr w" "length ?h1 = 16"
    using header_word [OF assms(2) t4] by simp_all
  obtain src1 where r1: "readNext 0 4 ?s0 = (Inr 4, at_chunk s ?h1 src1)" "src_data src1 = rest"
    using readNext_ok [of 0 4 ?s0] assms(1-3) t4 by (auto simp: in_range_def min_def be.length_enc at_chunk_def)
  have "next_step lib s = getS (\<lambda>s. if sint w < 0 then throwS (SnappyErrorExc INVALID_CHUNK_SIZE)
      else getS (\<lambda>s. if sint w > maxChunkSize s then throwS (SnappyErrorExc FAILED_TO_UNCOMPRESS)
        else bindS (read_chunk lib (sint w)) (\<lambda>_. returnS Ready))) (at_chunk s ?h1 src1)"
    using assms(1) h1(1) w
    by (simp add: next_step_def getS_def [of _ s] bind_modify bindS_def [of "readNext 0 4"] r1(1) bind_run
        MAGIC_HEADER_HEAD_eq)
       (simp add: getS_def)
  then show ?thesis using h1(2) r1(2)
    by (intro exI [of _ ?h1] exI [of _ src1]) (simp add: getS_def throwS_def)
qed

lemma next_step_header:
  assumes nf: "\<not> finishedReading s" and "length (is_header s) = 16"
    and "src_data (is_in s) = d @ rest" and ld: "length d = 16" and hd: "take 4 d = int_be 0x82534E41"
  shows "\<exists>src. src_data src = rest \<and>
    next_step lib s = (case isValidHeader d of
        Inl e \<Rightarrow> (Inl e, at_chunk s d src)
      | Inr valid \<Rightarrow> (Inr (if valid then Again else NoMore), at_chunk s d src))"
proof -
  let ?s0 = "s\<lparr>uncompressedCursor := 0, uncompressedLimit := 0\<rparr>"
  have t4: "take 4 (d @ rest) = int_be 0x82534E41" using hd ld by simp
  define h1 where "h1 = blit (is_header s) 0 (take 4 (d @ rest))"
  have h1: "readInt h1 0 = Inr 0x82534E41" "length h1 = 16"
    using header_word [OF assms(2) t4] ld unfolding h1_def [symmetric] by simp_all
  obtain src1 where r1: "readNext 0 4 ?s0 = (Inr 4, at_chunk s h1 src1)" "src_data src1 = drop 4 (d @ rest)"
    using readNext_ok [of 0 4 ?s0] assms(1-3) ld by (auto simp: in_range_def min_def h1_def at_chunk_def)
  have d1: "src_data src1 = drop 4 d @ rest" using r1(2) ld by simp
  have t12: "take 12 (drop 4 d @ rest) = drop 4 d" "drop 12 (drop 4 d @ rest) = rest" using ld by simp_all
  have "h1 = take 4 d @ drop 4 (is_header s)"
    using t4 hd assms(2) ld by (simp add: blit_def be.length_enc h1_def)
  then have h2: "blit h1 4 (drop 4 d) = d" using assms(2) ld by (simp add: blit_def)
  obtain src2 where r2: "readNext 4 12 (at_chunk s h1 src1) = (Inr 12, at_chunk s d src2)" "src_data src2 = rest"
    using readNext_ok [of 4 12 "at_chunk s h1 src1"] d1 h1(2) ld t12 h2
    by (auto simp: in_range_def min_def at_chunk_def)
  have "next_step lib s = bindS (liftE (isValidHeader d)) (\<lambda>valid. returnS (if valid then Again else NoMore)) (at_chunk s d src2)"
    using nf h1(1)
    by (simp add: next_step_def getS_def [of _ s] bind_modify bindS_def [of "readNext 0 4"] r1(1) bind_run
        MAGIC_HEADER_HEAD_eq bindS_def [of "readNext 4 _"] r2(1))
  then show ?thesis using r2(2)
    by (intro exI [of _ src2]) (cases "isValidHeader d"; simp add: op_simps)
qed

lemma valid_header:
  "isValidHeader (MAGIC_HEADER @ int_be v @ int_be c) =
     (if sint v < 1 then Inl (SnappyIOException INCOMPATIBLE_VERSION) else Inr True)"
  by (simp add: isValidHeader_def codec_readHeader_def new_SnappyCodec_def isValidMagicHeader_def
      be.length_enc be.dec_enc MINIMUM_COMPATIBLE_VERSION_def)

lemma header_bytes:
  "length (MAGIC_HEADER @ int_be v @ int_be c) = 16"
  "take 4 (MAGIC_HEADER @ int_be v @ int_be c) = int_be 0x82534E41"
  using MAGIC_head by (simp_all add: be.length_enc)

lemma next_step_Hdr:
  assumes rel: "is_rel lib (Hdr v c # its) s"
  shows "\<exists>s'. next_step lib s = (Inr Again, s') \<and> is_rel lib its s' \<and> unread s' = []
    \<and> maxChunkSize s' = maxChunkSize s"
proof -
  let ?d = "MAGIC_HEADER @ int_be v @ int_be c"
  have a: "\<not> finishedReading s" "length (is_header s) = 16"
    "src_data (is_in s) = ?d @ concat (map (enc_item lib) its)"
    using rel by (auto simp: is_rel_def)
  have v: "isValidHeader ?d = Inr True" using rel by (simp add: is_rel_def valid_header)
  obtain src where "src_data src = concat (map (enc_item lib) its)" "next_step lib s = (Inr Again, at_chunk s ?d src)"
    using next_step_header [OF a header_bytes, of lib] v by auto
  then show ?thesis
    using rel header_bytes(1) [of v c] by (auto simp: is_rel_def unread_def at_chunk_def split: option.splits)
qed

lemma next_step_Blk:
  assumes rel: "is_rel lib (Blk x # its) s" and lib: "lib_roundtrip lib"
  shows "\<exists>s'. next_step lib s = (Inr Ready, s') \<and> is_rel lib its s' \<and> unread s' = x
    \<and> maxChunkSize s' = maxChunkSize s"
proof -
  let ?c = "compress_raw lib x" and ?rest = "concat (map (enc_item lib) its)"
  let ?n = "int (length ?c)"
  let ?w = "word_of_int ?n :: jint"
  have a: "\<not> finishedReading s" "length (is_header s) = 16" "src_data (is_in s) = int_be ?w @ ?c @ ?rest"
    and ok: "int (length x) \<le> int_max" "?n \<le> maxChunkSize s" "maxChunkSize s \<le> int_max"
    using rel by (auto simp: is_rel_def block_def)
  have sw: "sint ?w = ?n" using ok by (intro sint_small) auto
  have nm: "?w \<noteq> 0x82534E41" using sw magic_negative by (metis of_nat_0_le_iff not_le)
  obtain h src1 where st: "length h = 16" "src_data src1 = ?c @ ?rest"
    "next_step lib s = bindS (read_chunk lib ?n) (\<lambda>_. returnS Ready) (at_chunk s h src1)"
    using next_step_word [OF a nm, of lib] sw ok(2) by auto
  obtain s' u where s': "read_chunk lib ?n (at_chunk s h src1) = (Inr (), s')" "src_data (is_in s') = ?rest"
    "uncompressedLimit s' = int (length x)" "uncompressedCursor s' = 0"
    "uncompressed s' = Some u" "length x \<le> length u" "take (length x) u = x"
    "is_header s' = h" "maxChunkSize s' = maxChunkSize s" "\<not> finishedReading s'"
    using read_chunk_ok [OF lib ok(1) refl, of "at_chunk s h src1" ?rest] st(2) by (auto simp: at_chunk_def)
  have "next_step lib s = (Inr Ready, s')"
    using st(3) s'(1) by (simp add: bindS_def returnS_def)
  moreover have "is_rel lib its s'"
    using rel s' st(1) by (auto simp: is_rel_def)
  moreover have "unread s' = x" using s' by (simp add: unread_def)
  ultimately show ?thesis using s'(9) by blast
qed

section \<open>Reading\<close>

lemma hasNextChunk_rel:
  assumes lib: "lib_roundtrip lib"
  shows "is_rel lib its s \<Longrightarrow> uncompressedCursor s \<ge> uncompressedLimit s \<Longrightarrow>
    \<exists>found s' its'. hasNextChunk lib s = (Inr found, s') \<and> is_rel lib its' s'
      \<and> items_data its = unread s' @ items_data its' \<and> (\<not> found \<longrightarrow> its' = [] \<and> unread s' = [])"
proof (induction its arbitrary: s)
  case Nil
  obtain s' where "next_step lib s = (Inr NoMore, s')" "is_rel lib [] s'" "unread s' = []"
    using next_step_Nil [OF Nil(1)] Nil(2) by auto
  then show ?case by (intro exI [of _ False] exI [of _ s'] exI [of _ "[]"]) (simp add: hasNextChunk.simps)
next
  case (Cons i its)
  show ?case
  proof (cases i)
    case (Hdr v c)
    obtain t where t: "next_step lib s = (Inr Again, t)" "is_rel lib its t" "unread t = []"
      using next_step_Hdr Cons.prems(1) Hdr by blast
    then have "uncompressedCursor t \<ge> uncompressedLimit t" using length_unread [OF t(2)] by simp
    moreover have "hasNextChunk lib s = hasNextChunk lib t" using t(1) by (simp add: hasNextChunk.simps [of lib s])
    ultimately show ?thesis using Cons.IH [OF t(2)] Hdr by simp
  next
    case (Blk x)
    obtain t where t: "next_step lib s = (Inr Ready, t)" "is_rel lib its t" "unread t = x"
      using next_step_Blk [OF _ lib] Cons.prems(1) Blk by blast
    then show ?thesis using Blk
      by (intro exI [of _ True] exI [of _ t] exI [of _ its]) (simp add: hasNextChunk.simps)
  qed
qed

text \<open>Consuming \<open>n\<close> bytes of the current chunk.\<close>

lemma consume_rel:
  assumes rel: "is_rel lib its s" and n: "0 < n" "uncompressedCursor s + n \<le> uncompressedLimit s"
  obtains u where "uncompressed s = Some u" "in_range (uncompressedCursor s) n (length u)"
    "unread s = segment (uncompressedCursor s) n u @ unread (s\<lparr>uncompressedCursor := uncompressedCursor s + n\<rparr>)"
    "is_rel lib its (s\<lparr>uncompressedCursor := uncompressedCursor s + n\<rparr>)"
proof -
  have c: "0 \<le> uncompressedCursor s" using rel by (simp add: is_rel_def)
  then obtain u where u: "uncompressed s = Some u" "uncompressedLimit s \<le> int (length u)"
    using rel n by (auto simp: is_rel_def)
  have "segment (uncompressedCursor s) n u @
      segment (uncompressedCursor s + n) (uncompressedLimit s - (uncompressedCursor s + n)) u
      = segment (uncompressedCursor s) (uncompressedLimit s - uncompressedCursor s) u"
    using segment_append_segment [of "uncompressedCursor s" n "uncompressedLimit s - (uncompressedCursor s + n)" u] c n
    by simp
  then show ?thesis using that [of u] u rel n c by (simp add: unread_def in_range_def is_rel_def)
qed

lemma min_add_left: "min (a + b) (a + c) = a + min b (c :: nat)"
  by simp

lemma blit_blit_append:
  "nat p + length x \<le> length b \<Longrightarrow> nat q = nat p + length x \<Longrightarrow> blit (blit b p x) q y = blit b p (x @ y)"
  by (simp add: blit_def add_ac)

lemma take_length_append: "take (length x + k) (x @ d) = x @ take k d"
  by simp

locale chunk_copy =
  fixes copy :: "bytes \<Rightarrow> int \<Rightarrow> int \<Rightarrow> int \<Rightarrow> (bytes, exc, unit) op"
  assumes copy_in_range: "in_range i n (length u) \<Longrightarrow> in_range j n (length b) \<Longrightarrow>
    copy u i n j b = (Inr (), blit b j (segment i n u))"
begin

text \<open>
  The loop delivers the next bytes of the data, as many as are asked for and there are. It
  reports \<open>- 1\<close> exactly when bytes were asked for and there are none.
\<close>

lemma read_loop_rel:
  assumes lib: "lib_roundtrip lib"
  shows "is_rel lib its s \<Longrightarrow> in_range off len (length b) \<Longrightarrow> 0 \<le> w \<Longrightarrow> w \<le> len \<Longrightarrow>
    d = unread s @ items_data its \<Longrightarrow> k = min (nat (len - w)) (length d) \<Longrightarrow>
    \<exists>s' its'. read_loop lib copy off len w (b, s)
        = (Inr (if w + int k = 0 \<and> 0 < len then - 1 else w + int k), (blit b (off + w) (take k d), s'))
      \<and> is_rel lib its' s' \<and> unread s' @ items_data its' = drop k d"
proof (induction "left s + nat (len - w)" arbitrary: s its w b d k rule: less_induct)
  case less
  note rel = less.prems(1) and r = less.prems(2) and w = less.prems(3,4) and d = less.prems(5) and k = less.prems(6)
  show ?case
  proof (cases "w < len")
    case False
    then have "k = 0" "w = len" using w k by auto
    then show ?thesis using rel d
      by (intro exI [of _ s] exI [of _ its]) (simp add: read_loop.simps)
  next
    case True
    show ?thesis
    proof (cases "uncompressedCursor s \<ge> uncompressedLimit s")
      case empty: True
      have u: "unread s = []" using length_unread [OF rel] empty by (simp flip: length_0_conv)
      obtain found t its' where t: "hasNextChunk lib s = (Inr found, t)" "is_rel lib its' t"
        "items_data its = unread t @ items_data its'" "\<not> found \<longrightarrow> its' = [] \<and> unread t = []"
        using hasNextChunk_rel [OF lib rel empty] by blast
      show ?thesis
      proof (cases found)
        case f: True
        have "left t < left s" using hasNextChunk_left [of lib s t] t(1) f by simp
        then have m: "left t + nat (len - w) < left s + nat (len - w)" by simp
        have "d = unread t @ items_data its'" using d u t(3) by simp
        from less.hyps [OF m t(2) r w this k] show ?thesis
          using True empty t(1) f by (simp add: read_loop.simps [of lib copy off len w b s])
      next
        case f: False
        then have "d = []" "k = 0" using d u t(3,4) k by simp_all
        then show ?thesis using True empty t f
          by (intro exI [of _ t] exI [of _ its']) (auto simp: read_loop.simps)
      qed
    next
      case chunk: False
      let ?n = "min (uncompressedLimit s - uncompressedCursor s) (len - w)"
      have n: "0 < ?n" "uncompressedCursor s + ?n \<le> uncompressedLimit s" "?n \<le> len - w"
        using True chunk by auto
      let ?t = "s\<lparr>uncompressedCursor := uncompressedCursor s + ?n\<rparr>"
      obtain u where u: "uncompressed s = Some u" "in_range (uncompressedCursor s) ?n (length u)"
        "unread s = segment (uncompressedCursor s) ?n u @ unread ?t" "is_rel lib its ?t"
        using consume_rel [OF rel n(1,2)] .
      let ?x = "segment (uncompressedCursor s) ?n u"
      have lx: "int (length ?x) = ?n" using u(2) n(1) by (simp add: segment_simps)
      have rb: "in_range (off + w) ?n (length b)" using r n w by (auto simp: in_range_def)
      let ?b = "blit b (off + w) ?x"
      have lb: "length ?b = length b" using length_blit [of "off + w" ?x b] rb lx by simp
      let ?d = "unread ?t @ items_data its"
      have dx: "d = ?x @ ?d" using d u(3) by simp
      let ?k = "min (nat (len - (w + ?n))) (length ?d)"
      have m: "left ?t + nat (len - (w + ?n)) < left s + nat (len - w)"
        using n by (simp add: left_def)
      have w': "0 \<le> w + ?n" "w + ?n \<le> len" using w n by auto
      obtain s' its' where s': "read_loop lib copy off len (w + ?n) (?b, ?t)
          = (Inr (if w + ?n + int ?k = 0 \<and> 0 < len then - 1 else w + ?n + int ?k),
             (blit ?b (off + (w + ?n)) (take ?k ?d), s'))"
        "is_rel lib its' s'" "unread s' @ items_data its' = drop ?k ?d"
        using less.hyps [OF m u(4) _ w' refl refl, of ?b] r lb by auto
      have nn: "nat (len - w) = length ?x + nat (len - (w + ?n))" using lx n(3) by linarith
      have kx: "k = length ?x + ?k"
        by (simp only: k dx nn length_append min_add_left)
      have "nat (off + w) + length ?x \<le> length b" "nat (off + (w + ?n)) = nat (off + w) + length ?x"
        using rb lx w n by (auto simp: in_range_def)
      from blit_blit_append [OF this] have "blit ?b (off + (w + ?n)) (take ?k ?d) = blit b (off + w) (take k d)"
        unfolding kx by (subst dx) (simp only: take_length_append)
      moreover have "w + ?n + int ?k = w + int k" using kx lx by simp
      moreover have "read_loop lib copy off len w (b, s) = read_loop lib copy off len (w + ?n) (?b, ?t)"
        using True chunk u(1) copy_in_range [OF u(2) rb]
        by (simp add: read_loop.simps [of lib copy off len w b s] Let_def)
      moreover have "drop ?k ?d = drop k d" unfolding kx dx by simp
      ultimately show ?thesis using s' by metis
    qed
  qed
qed

end

interpretation out_java: chunk_copy copy_out_java
  by unfold_locales (simp add: copy_out_java_def arraycopy_def)

interpretation out_native: chunk_copy impl_arrayCopy
  by unfold_locales (simp add: impl_arrayCopy_def)

lemma is_read_rel:
  assumes "lib_roundtrip lib" and "is_rel lib its s" and "in_range off len (length b)"
    and "d = unread s @ items_data its" and "k = min (nat len) (length d)"
  shows "\<exists>s' its'. is_read lib off len (b, s)
      = (Inr (if k = 0 \<and> 0 < len then - 1 else int k), (blit b off (take k d), s'))
    \<and> is_rel lib its' s' \<and> unread s' @ items_data its' = drop k d"
    and "\<exists>s' its'. is_rawRead lib off len (b, s)
      = (Inr (if k = 0 \<and> 0 < len then - 1 else int k), (blit b off (take k d), s'))
    \<and> is_rel lib its' s' \<and> unread s' @ items_data its' = drop k d"
proof -
  have len: "0 \<le> len" and k: "k = min (nat (len - 0)) (length d)" using assms(3,5) by (simp_all add: in_range_def)
  show "\<exists>s' its'. is_read lib off len (b, s)
      = (Inr (if k = 0 \<and> 0 < len then - 1 else int k), (blit b off (take k d), s'))
    \<and> is_rel lib its' s' \<and> unread s' @ items_data its' = drop k d"
    using out_java.read_loop_rel [OF assms(1,2,3) order_refl len assms(4) k]
    by (simp only: is_read_def add_0 add_0_right of_nat_eq_0_iff)
  show "\<exists>s' its'. is_rawRead lib off len (b, s)
      = (Inr (if k = 0 \<and> 0 < len then - 1 else int k), (blit b off (take k d), s'))
    \<and> is_rel lib its' s' \<and> unread s' @ items_data its' = drop k d"
    using out_native.read_loop_rel [OF assms(1,2,3) order_refl len assms(4) k]
    by (simp only: is_rawRead_def add_0 add_0_right of_nat_eq_0_iff)
qed

lemma is_read_byte_rel:
  assumes lib: "lib_roundtrip lib"
  shows "is_rel lib its s \<Longrightarrow> d = unread s @ items_data its \<Longrightarrow>
    \<exists>s' its'. is_read_byte lib s = (Inr (if d = [] then - 1 else uint (hd d)), s')
      \<and> is_rel lib its' s' \<and> unread s' @ items_data its' = drop 1 d"
proof (induction "left s" arbitrary: s its rule: less_induct)
  case less
  note rel = less.prems(1) and d = less.prems(2)
  show ?case
  proof (cases "uncompressedCursor s < uncompressedLimit s")
    case True
    let ?t = "s\<lparr>uncompressedCursor := uncompressedCursor s + 1\<rparr>"
    obtain u where u: "uncompressed s = Some u" "in_range (uncompressedCursor s) 1 (length u)"
      "unread s = segment (uncompressedCursor s) 1 u @ unread ?t" "is_rel lib its ?t"
      using consume_rel [OF rel, of 1] True by auto
    have "segment (uncompressedCursor s) 1 u = [u ! nat (uncompressedCursor s)]"
      using u(2) by (auto simp: segment_def in_range_def take_Suc_conv_app_nth hd_drop_conv_nth
          intro!: nth_equalityI)
    then have "d = u ! nat (uncompressedCursor s) # (unread ?t @ items_data its)" using d u(3) by simp
    then show ?thesis using True u
      by (intro exI [of _ ?t] exI [of _ its])
         (auto simp: is_read_byte.simps [of lib s] array_get_def in_range_def)
  next
    case False
    then have e: "uncompressedCursor s \<ge> uncompressedLimit s" by simp
    have u: "unread s = []" using length_unread [OF rel] e by (simp flip: length_0_conv)
    obtain found t its' where t: "hasNextChunk lib s = (Inr found, t)" "is_rel lib its' t"
      "items_data its = unread t @ items_data its'" "\<not> found \<longrightarrow> its' = [] \<and> unread t = []"
      using hasNextChunk_rel [OF lib rel e] by blast
    show ?thesis
    proof (cases found)
      case f: True
      have "left t < left s" using hasNextChunk_left [of lib s t] t(1) f by simp
      moreover have "d = unread t @ items_data its'" using d u t(3) by simp
      ultimately show ?thesis using less.hyps [OF _ t(2)] False t(1) f
        by (simp add: is_read_byte.simps [of lib s])
    next
      case f: False
      then have "d = []" using d u t(3,4) by simp
      then show ?thesis using False t f
        by (intro exI [of _ t] exI [of _ its']) (auto simp: is_read_byte.simps)
    qed
  qed
qed

lemma read_byte_step_fails:
  "uncompressedLimit s = uncompressedCursor s \<Longrightarrow> fst (next_step lib s) = Inl e \<Longrightarrow>
   fst (hasNextChunk lib s) = Inl e \<and> fst (is_read_byte lib s) = Inl e"
  by (cases "next_step lib s") (simp add: is_read_byte.simps [of lib s] hasNextChunk.simps [of lib s])

section \<open>The constructor\<close>

lemma new_stream_header:
  assumes src: "src_data src = MAGIC_HEADER @ int_be v @ int_be c @ rest"
  shows "\<exists>s. new_SnappyInputStream lib src m = Inr s \<and> src_data (is_in s) = rest \<and> \<not> finishedReading s
    \<and> length (is_header s) = 16 \<and> maxChunkSize s = m \<and> uncompressed s = None \<and> compressed s = None
    \<and> uncompressedLimit s = uncompressedCursor s \<and> uncompressedCursor s = 0"
proof -
  define d where "d = MAGIC_HEADER @ int_be v @ int_be c"
  have data: "src_data src = d @ rest" using src by (simp add: d_def)
  have ld: "length d = 16" and pre: "take 8 d = MAGIC_HEADER" by (simp_all add: be.length_enc d_def)
  let ?s0 = "\<lparr>is_in = src, finishedReading = False, maxChunkSize = m, compressed = None, uncompressed = None,
      uncompressedCursor = 0, uncompressedLimit = 0, is_header = replicate 16 0\<rparr>"
  have r: "in_range 0 16 (length (replicate 16 (0 :: byte)))" by (simp add: in_range_def)
  from fill_ok [OF r order_refl, of src] data ld obtain src' where
    f: "fill 0 16 0 (replicate 16 0, src) = (Inr (16, False), (blit (replicate 16 0) 0 d, src'))"
    "src_data src' = rest"
    by (auto simp: min_def)
  have b: "blit (replicate 16 0) 0 d = d" using ld by (simp add: blit_def)
  let ?s1 = "?s0\<lparr>is_header := d, is_in := src'\<rparr>"
  have "hasMagicHeaderPrefix d"
    using pre ld by (simp add: hasMagicHeaderPrefix_def prefix_loop_iff)
  then have "is_readHeader lib ?s0 = (Inr (), ?s1)"
    using f(1) b ld by (simp add: is_readHeader_def op_simps fill_header_def)
  then have "new_SnappyInputStream lib src m = Inr ?s1"
    by (simp add: new_SnappyInputStream_def)
  then show ?thesis using f(2) ld by auto
qed

lemma new_stream_items:
  assumes src: "src_data src = MAGIC_HEADER @ int_be v @ int_be c @ concat (map (enc_item lib) its)"
    and ok: "\<forall>i \<in> set its. item_ok lib m i" and m: "m \<le> int_max"
  shows "\<exists>s. new_SnappyInputStream lib src m = Inr s \<and> is_rel lib its s \<and> unread s = []"
proof -
  obtain s where s: "new_SnappyInputStream lib src m = Inr s" "src_data (is_in s) = concat (map (enc_item lib) its)"
    "\<not> finishedReading s" "length (is_header s) = 16" "maxChunkSize s = m" "uncompressed s = None"
    "uncompressedLimit s = uncompressedCursor s" "uncompressedCursor s = 0"
    using new_stream_header [OF src] by blast
  then show ?thesis using ok m by (intro exI [of _ s]) (auto simp: is_rel_def unread_def)
qed

end
