(* ===== verification/Api_Props.thy ===== *)
theory Api_Props
  imports Snappy_Api Native_Props
begin

text \<open>
  Properties of \<open>Snappy.java\<close>: the round trips of its array and buffer methods, the link to the
  native functions, and the two places where a size is computed wrongly.
\<close>

lemma stored_lib_ok: "lib_ok stored_lib"
  by (simp add: lib_ok_def stored_lib_roundtrip stored_lib_space stored_lib_lengths)

section \<open>Properties\<close>

text \<open>
  C30: The array operations the Java classes rely on are what the C++ functions do: on a VM that
  grants the arrays, the result, the exception and the contents of the destination agree, and a
  range error is a memory fault in both.
\<close>

theorem api_refines_native:
  assumes "idle self s" and "both_granted s" and "arrays s x = Some a" and "arrays s y = Some b"
    and "x \<noteq> y" and "lib_ok lib" and "is_i32 n" and "int (length a) \<le> int_max"
  shows "(java_outcome (rawCompress_array lib self x i n y j s),
       array_after y (rawCompress_array lib self x i n y j s)) = impl_rawCompress lib a i n j b
    \<and> (java_outcome (arrayCopy self x i n y j s), array_after y (arrayCopy self x i n y j s))
       = impl_arrayCopy a i n j b
    \<and> java_outcome (uncompressedLength_array lib self x i n s) = impl_uncompressedLength lib a i n
    \<and> java_outcome (isValidCompressedBuffer_array lib self x i n s) = impl_isValidCompressedBuffer lib a i n
    \<and> (in_range i n (length a) \<and>
       (\<forall>m. parse_length lib (segment i n a) = Some m \<longrightarrow> in_range j (int m) (length b)) \<longrightarrow>
       (java_outcome (rawUncompress_array lib self x i n y j s),
         array_after y (rawUncompress_array lib self x i n y j s)) = impl_rawUncompress lib a i n j b)"
  using assms(6) impl_rawCompress_refines [OF assms(1-5) _ assms(7,8)]
    impl_arrayCopy_refines [OF assms(1-5,7,8)] impl_uncompressedLength_refines [OF assms(1-3,7,8)]
    impl_isValid_refines [OF assms(1-3,7,8)]
    impl_rawUncompress_refines [OF assms(1-5) _ _ assms(8)]
  by (simp add: lib_ok_def)

theorem api_refines_native_witness:
  "java_outcome (rawCompress_array stored_lib 0 1 0 4 2 0 demo_vm) = Inr 5"
proof -
  have v: "both_granted demo_vm" "arrays demo_vm 1 = Some [10, 20, 30, 40]"
    "arrays demo_vm 2 = Some (replicate 40 0)"
    by (simp_all add: demo_vm_def both_granted_def)
  have ne: "(1 :: nat) \<noteq> 2" and n: "is_i32 4" and l: "int (length [10, 20, 30, 40 :: byte]) \<le> int_max"
    by (simp_all add: is_i32_def int_max_def)
  have "i32 5 = 5" by (simp add: is_i32_def)
  then have "fst (impl_rawCompress stored_lib [10, 20, 30, 40] 0 4 0 (replicate 40 0)) = Inr 5"
    by (simp add: impl_rawCompress_def in_range_def) (simp add: stored_lib_def)
  moreover have "java_outcome (rawCompress_array stored_lib 0 1 0 4 2 0 demo_vm)
      = fst (impl_rawCompress stored_lib [10, 20, 30, 40] 0 4 0 (replicate 40 0))"
    using arg_cong [OF api_refines_native [OF demo_vm_idle v ne stored_lib_ok n l, THEN conjunct1], of fst]
    by simp
  ultimately show ?thesis by simp
qed

text \<open>
  C3: \<open>Snappy.compress(byte[])\<close> and \<open>Snappy.uncompress(byte[])\<close> are inverse to each other: for every
  input whose compressed bound fits an \<open>int\<close>, compressing succeeds, the result is a valid buffer
  that reports the input's length, and uncompressing it returns the input.
\<close>

theorem snappy_roundtrip:
  assumes "lib_ok lib" and "int (length x) \<le> int_max" and "int (max_compressed lib (length x)) \<le> int_max"
  shows "\<exists>c. s_compress_bytes lib x = Inr c \<and> s_uncompress_bytes lib c = Inr x
    \<and> s_isValidCompressedBuffer lib (Some c) 0 (int (length c)) = Inr True
    \<and> s_uncompressedLength lib (Some c) 0 (int (length c)) = Inr (int (length x))
    \<and> int (length c) \<le> s_maxCompressedLength lib (int (length x))"
proof (intro exI conjI)
  let ?c = "compress_raw lib x"
  have lib: "lib_roundtrip lib" "lib_space lib" using assms(1) by (simp_all add: lib_ok_def)
  show "s_compress_bytes lib x = Inr ?c" by (rule compress_bytes_eq [OF lib(2) assms(2,3)])
  show "s_uncompress_bytes lib ?c = Inr x" by (rule uncompress_bytes_eq [OF lib(1) assms(2)])
  have r: "in_range 0 (int (length ?c)) (length ?c)" by (simp add: in_range_def)
  show "s_isValidCompressedBuffer lib (Some ?c) 0 (int (length ?c)) = Inr True"
    using roundtrip_facts(3) [OF lib(1) assms(2)] r
    by (simp add: s_isValidCompressedBuffer_def impl_isValidCompressedBuffer_def)
  show "s_uncompressedLength lib (Some ?c) 0 (int (length ?c)) = Inr (int (length x))"
    using impl_uncompressedLength_compressed [OF lib(1) assms(2) r] by (simp add: s_uncompressedLength_def)
  show "int (length ?c) \<le> s_maxCompressedLength lib (int (length x))"
    using compress_length_bound [OF lib(2), of x] maxCompressedLength_nat [OF assms(2,3)] by simp
qed

theorem snappy_roundtrip_witness:
  "\<exists>c. s_compress_bytes stored_lib [7, 8, 9] = Inr c \<and> s_uncompress_bytes stored_lib c = Inr [7, 8, 9]"
  using snappy_roundtrip [OF stored_lib_ok, of "[7, 8, 9]"] by (auto simp: int_max_def)

text \<open>
  The typed methods round-trip: an array of two-, four- or eight-byte elements that compresses
  without a size overflow comes back from the matching \<open>uncompress...Array\<close> unchanged.
\<close>

theorem elements_roundtrip:
  assumes "lib_ok lib" and "0 < k" and "k dvd int (length x)"
    and "int (length x) \<le> int_max" and "int (max_compressed lib (length x)) \<le> int_max"
  shows "\<exists>c. s_compress_elements lib k x = Inr c
    \<and> s_uncompress_elements lib k c 0 (int (length c)) = Inr x"
proof (intro exI conjI)
  let ?n = "int (length x)" and ?c = "compress_raw lib x"
  have lib: "lib_roundtrip lib" "lib_space lib" using assms(1) by (simp_all add: lib_ok_def)
  have nk: "?n div k * k = ?n" using assms(3) by simp
  have pos: "0 \<le> ?n div k" using assms(2) by (simp add: pos_imp_zdiv_nonneg_iff)
  have "byte_size_checked k (?n div k) = Inr ?n"
    using byte_size_exact [OF assms(2) pos] assms(4) by (simp add: nk)
  then show "s_compress_elements lib k x = Inr ?c"
    using rawCompress_new_eq [OF lib(2), of ?n x] assms(4,5)
    by (simp add: s_compress_elements_def in_range_def)
  have r: "in_range 0 (int (length ?c)) (length ?c)" by (simp add: in_range_def)
  have l: "s_uncompressedLength lib (Some ?c) 0 (int (length ?c)) = Inr ?n"
    using impl_uncompressedLength_compressed [OF lib(1) assms(4) r] by (simp add: s_uncompressedLength_def)
  have "impl_rawUncompress lib ?c 0 (int (length ?c)) 0 (replicate (length x) 0)
      = (Inr ?n, blit (replicate (length x) 0) 0 x)"
    using impl_rawUncompress_compressed [OF lib(1) assms(4) r, of 0 "replicate (length x) 0"]
    by (simp add: in_range_def)
  moreover have "blit (replicate (length x) 0) 0 x = x" by (simp add: blit_def)
  ultimately show "s_uncompress_elements lib k ?c 0 (int (length ?c)) = Inr x"
    using uncompress_elements_eq [OF l _ assms(2)] by (simp add: nk)
qed

theorem elements_roundtrip_witness:
  "\<exists>c. s_compress_elements stored_lib 4 [1, 0, 0, 0, 2, 0, 0, 0] = Inr c
    \<and> s_uncompress_elements stored_lib 4 c 0 (int (length c)) = Inr [1, 0, 0, 0, 2, 0, 0, 0]"
  using elements_roundtrip [OF stored_lib_ok, of 4 "[1, 0, 0, 0, 2, 0, 0, 0]"] by (simp add: int_max_def)

text \<open>
  The guard \<open>byteSize < input.length\<close> of the typed \<open>compress\<close> methods is exact for two-byte
  elements only. For four- and eight-byte elements there are array lengths whose byte size
  overflows to a larger positive number: the guard accepts them with a size that is \<open>2 ^ 32\<close> short.
\<close>

theorem byte_size_guard:
  assumes "0 \<le> n" and "n \<le> int_max"
  shows "(n * 2 \<le> int_max \<longrightarrow> byte_size_checked 2 n = Inr (n * 2))
    \<and> (n * 2 > int_max \<longrightarrow> byte_size_checked 2 n = Inl (SnappyErrorExc TOO_LARGE_INPUT))
    \<and> (1431655766 \<le> n \<and> n \<le> 1610612735 \<longrightarrow> byte_size_checked 4 n = Inr (n * 4 - 2 ^ 32))
    \<and> (613566757 \<le> n \<and> n \<le> 805306367 \<longrightarrow> byte_size_checked 8 n = Inr (n * 8 - 2 ^ 32))"
proof -
  have w: "i32 m = m - 4294967296" if "4294967296 \<le> m" "m \<le> 6442450943" for m
  proof -
    have "m + 2147483648 = (m - 2147483648) + 4294967296" by simp
    then have "(m + 2147483648) mod 4294967296 = (m - 2147483648) mod 4294967296"
      by (simp only: mod_add_self2)
    also have "\<dots> = m - 2147483648" using that by (intro mod_pos_pos_trivial) auto
    finally show ?thesis by (simp add: i32_def)
  qed
  have "byte_size_checked 2 n = Inl (SnappyErrorExc TOO_LARGE_INPUT)" if "n * 2 > int_max"
    using that assms i32_unsigned [of "n * 2"] by (simp add: byte_size_checked_def Let_def int_max_def)
  moreover have "byte_size_checked 2 n = Inr (n * 2)" if "n * 2 \<le> int_max"
    using byte_size_exact [of 2 n] that assms(1) by simp
  moreover have "byte_size_checked 4 n = Inr (n * 4 - 2 ^ 32)" if "1431655766 \<le> n \<and> n \<le> 1610612735"
    using that w [of "n * 4"] by (simp add: byte_size_checked_def Let_def)
  moreover have "byte_size_checked 8 n = Inr (n * 8 - 2 ^ 32)" if "613566757 \<le> n \<and> n \<le> 805306367"
    using that w [of "n * 8"] by (simp add: byte_size_checked_def Let_def)
  ultimately show ?thesis by blast
qed

theorem byte_size_guard_witness:
  "byte_size_checked 8 613566757 = Inr 613566760 \<and> byte_size_checked 4 1431655766 = Inr 1431655768"
  using byte_size_guard [of 613566757] byte_size_guard [of 1431655766] by (simp add: int_max_def)

text \<open>
  \<open>uncompressLongArray\<close> and its companions round the length of the data down to whole elements
  and then uncompress all of it: data whose length is no multiple of the element size makes the
  native code write behind the end of the result array.
\<close>

theorem uncompress_elements_overrun:
  assumes "lib_ok lib" and "int (length x) \<le> int_max" and "0 < k" and "\<not> k dvd int (length x)"
  shows "s_uncompress_elements lib k (compress_raw lib x) 0 (int (length (compress_raw lib x)))
    = Inl NativeFault"
proof -
  let ?n = "int (length x)" and ?c = "compress_raw lib x"
  have lib: "lib_roundtrip lib" using assms(1) by (simp add: lib_ok_def)
  have r: "in_range 0 (int (length ?c)) (length ?c)" by (simp add: in_range_def)
  have l: "s_uncompressedLength lib (Some ?c) 0 (int (length ?c)) = Inr ?n"
    using impl_uncompressedLength_compressed [OF lib assms(2) r] by (simp add: s_uncompressedLength_def)
  have "?n div k * k = ?n - ?n mod k" by (rule minus_mod_eq_div_mult [symmetric])
  moreover have "0 < ?n mod k" using assms(3,4) by (simp add: dvd_eq_mod_eq_0 order_less_le pos_mod_sign)
  ultimately have lt: "?n div k * k < ?n" by linarith
  moreover have "0 \<le> ?n div k * k" using assms(3) by (simp add: pos_imp_zdiv_nonneg_iff)
  ultimately have "impl_rawUncompress lib ?c 0 (int (length ?c)) 0 (replicate (nat (?n div k * k)) 0)
      = (Inl NativeFault, replicate (nat (?n div k * k)) 0)"
    using roundtrip_facts(1) [OF lib assms(2)] r
    by (simp add: impl_rawUncompress_def in_range_def)
  then show ?thesis
    using uncompress_elements_eq [OF l _ assms(3)] by simp
qed

theorem uncompress_elements_overrun_witness:
  "s_uncompress_elements stored_lib 8 (compress_raw stored_lib [1, 2, 3]) 0
     (int (length (compress_raw stored_lib [1, 2, 3]))) = Inl NativeFault"
  using uncompress_elements_overrun [OF stored_lib_ok, of "[1, 2, 3]" 8] by (simp add: int_max_def)

end
