(* ===== verification/Steady.thy ===== *)
theory Steady
  imports Base
begin

text \<open>
  What an operation leaves alone, on every exit: from a state with \<open>I\<close> it goes to a state with \<open>I\<close> that is
  related by \<open>R\<close> to the first. The combinators of \<open>Base\<close> compose such operations whenever \<open>R\<close> is a
  preorder, which is the interface of the locale; it is interpreted for byte buffers and for the two
  framed streams.
\<close>

definition steady :: "('s \<Rightarrow> bool) \<Rightarrow> ('s \<Rightarrow> 's \<Rightarrow> bool) \<Rightarrow> ('s, 'e, 'a) op \<Rightarrow> bool" where
  "steady I R f \<longleftrightarrow> (\<forall>s. I s \<longrightarrow> I (snd (f s)) \<and> R s (snd (f s)))"

lemma steadyI: "(\<And>s. I s \<Longrightarrow> I (snd (f s)) \<and> R s (snd (f s))) \<Longrightarrow> steady I R f"
  by (simp add: steady_def)

lemma steadyD: "steady I R f \<Longrightarrow> I s \<Longrightarrow> I (snd (f s)) \<and> R s (snd (f s))"
  by (simp add: steady_def)

lemma steady_eq: "steady I R f \<Longrightarrow> I s \<Longrightarrow> f s = (r, s') \<Longrightarrow> I s' \<and> R s s'"
  by (metis snd_conv steadyD)

lemma steady_if: "(b \<Longrightarrow> steady I R f) \<Longrightarrow> (\<not> b \<Longrightarrow> steady I R g) \<Longrightarrow> steady I R (if b then f else g)"
  by simp

lemma steady_getI: "(\<And>s. I s \<Longrightarrow> I (snd (h s s)) \<and> R s (snd (h s s))) \<Longrightarrow> steady I R (getS h)"
  by (simp add: steady_def getS_def)

lemma steady_get: "(\<And>s. I s \<Longrightarrow> steady I R (h s)) \<Longrightarrow> steady I R (getS h)"
  by (simp add: steady_def getS_def)

lemma steady_get_if:
  "steady I R (getS f) \<Longrightarrow> steady I R (getS g) \<Longrightarrow> steady I R (getS (\<lambda>s. if P s then f s else g s))"
  by (simp add: steady_def getS_def)

lemma steady_modify: "(\<And>s. I s \<Longrightarrow> I (m s) \<and> R s (m s)) \<Longrightarrow> steady I R (modifyS m)"
  by (simp add: steady_def modifyS_def)

locale framing =
  fixes I :: "'s \<Rightarrow> bool" and R :: "'s \<Rightarrow> 's \<Rightarrow> bool"
  assumes refl: "R s s" and trans: "R s t \<Longrightarrow> R t u \<Longrightarrow> R s u"
begin

lemma steady_idle: "steady I R (returnS x)" "steady I R (throwS e)" "steady I R (liftE r)"
  by (simp_all add: steady_def returnS_def throwS_def liftE_def refl)

text \<open>The second operation starts from the state and with the value the first one leaves.\<close>

lemma steady_bind_value:
  assumes "steady I R f" and "\<And>s x t. I s \<Longrightarrow> f s = (Inr x, t) \<Longrightarrow> I (snd (g x t)) \<and> R t (snd (g x t))"
  shows "steady I R (bindS f g)"
proof (rule steadyI)
  fix s assume s: "I s"
  obtain r t where f: "f s = (r, t)" by fastforce
  have t: "I t \<and> R s t" by (rule steady_eq [OF assms(1) s f])
  show "I (snd (bindS f g s)) \<and> R s (snd (bindS f g s))"
  proof (cases r)
    case (Inl e)
    then show ?thesis using f t by (simp add: bindS_def)
  next
    case (Inr x)
    then show ?thesis using f t trans assms(2) [OF s, of x t] by (auto simp: bindS_def)
  qed
qed

lemma steady_bind:
  assumes f: "steady I R f" and g: "\<And>x. steady I R (g x)"
  shows "steady I R (bindS f g)"
proof (rule steady_bind_value [OF f])
  fix s x t
  assume "I s" and "f s = (Inr x, t)"
  then have "I t" using steady_eq [OF f] by blast
  then show "I (snd (g x t)) \<and> R t (snd (g x t))" by (rule steadyD [OF g])
qed

lemmas steady_rules = steady_bind steady_idle steady_if steady_get steady_modify

end

end
