(* ===== verification/Output_Props.thy ===== *)
theory Output_Props
  imports Snappy_Output_Proofs Api_Props Steady
begin

text \<open>
  Properties of \<open>SnappyOutputStream\<close>: what a whole session writes, what closing does on every path,
  and where the sizes a caller passes are not handled as documented.
\<close>

section \<open>Sessions\<close>

text \<open>The calls a client may make between the constructor and \<open>close\<close>.\<close>

datatype os_action =
    Write bytes int int
  | RawWrite bytes int int
  | WriteElements int bytes int int
  | WriteByte jint
  | Flush

fun os_do :: "snappy_lib \<Rightarrow> os_action \<Rightarrow> unit os" where
  "os_do lib (Write b off len) = os_write lib b off len"
| "os_do lib (RawWrite b off len) = os_rawWrite lib b off len"
| "os_do lib (WriteElements k b off len) = os_write_elements lib k b off len"
| "os_do lib (WriteByte x) = os_write_byte lib x"
| "os_do lib Flush = os_flush lib"

fun os_run :: "snappy_lib \<Rightarrow> os_action list \<Rightarrow> unit os" where
  "os_run lib [] = returnS ()"
| "os_run lib (a # as) = bindS (os_do lib a) (\<lambda>_. os_run lib as)"

fun action_bytes :: "os_action \<Rightarrow> bytes" where
  "action_bytes (Write b off len) = segment off len b"
| "action_bytes (RawWrite b off len) = segment off len b"
| "action_bytes (WriteElements k b off len) = segment (off * k) (len * k) b"
| "action_bytes (WriteByte x) = [ucast x]"
| "action_bytes Flush = []"

text \<open>Ranges inside the array, and inside the range of \<open>int\<close> when counted in bytes.\<close>

fun action_ok :: "os_action \<Rightarrow> bool" where
  "action_ok (Write b off len) = in_range off len (length b)"
| "action_ok (RawWrite b off len) = in_range off len (length b)"
| "action_ok (WriteElements k b off len) =
     (in_range (off * k) (len * k) (length b) \<and> off * k \<le> int_max \<and> len * k \<le> int_max)"
| "action_ok _ = True"

lemma os_do_rel:
  assumes lib: "lib_space lib" "lib_mono lib" and rel: "os_rel lib d0 bs s" and ok: "action_ok a"
  shows "\<exists>s' bs'. os_do lib a s = (Inr (), s') \<and> os_rel lib d0 bs' s'
    \<and> concat bs' @ gathered s' = concat bs @ gathered s @ action_bytes a"
proof (cases a)
  case (WriteElements k b off len)
  then have "is_i32 (off * k)" "is_i32 (len * k)" "in_range (off * k) (len * k) (length b)"
    using ok by (auto simp: is_i32_def in_range_def int_max_def)
  then show ?thesis
    using os_write_rel(2) [OF lib rel] WriteElements by (simp add: os_write_elements_def)
next
  case Flush
  then show ?thesis using os_flush_rel [OF lib rel] by auto
qed (use os_write_rel [OF lib rel] os_write_byte_rel [OF lib rel] ok in simp_all)

lemma os_run_rel:
  assumes lib: "lib_space lib" "lib_mono lib"
  shows "os_rel lib d0 bs s \<Longrightarrow> (\<forall>a \<in> set as. action_ok a) \<Longrightarrow>
    \<exists>s' bs'. os_run lib as s = (Inr (), s') \<and> os_rel lib d0 bs' s'
      \<and> concat bs' @ gathered s' = concat bs @ gathered s @ concat (map action_bytes as)"
proof (induction as arbitrary: bs s)
  case Nil
  then show ?case by (auto simp: returnS_def)
next
  case (Cons a as)
  obtain t bt where t: "os_do lib a s = (Inr (), t)" "os_rel lib d0 bt t"
    "concat bt @ gathered t = concat bs @ gathered s @ action_bytes a"
    using os_do_rel [OF lib Cons.prems(1)] Cons.prems(2) by (meson list.set_intros(1))
  obtain u bu where u: "os_run lib as t = (Inr (), u)" "os_rel lib d0 bu u"
    "concat bu @ gathered u = concat bt @ gathered t @ concat (map action_bytes as)"
    using Cons.IH [OF t(2)] Cons.prems(2) by auto
  have "os_run lib (a # as) s = (Inr (), u)" using t(1) u(1) by (simp add: bindS_def)
  moreover have "concat bu @ gathered u = concat bs @ gathered s @ concat (map action_bytes (a # as))"
    using u(3) arg_cong [OF t(3), of "\<lambda>z. z @ concat (map action_bytes as)"] by simp
  ultimately show ?case using u(2) by blast
qed

lemma keeps_run: "keeps_blockSize (os_run lib as)"
proof (induction as)
  case (Cons a as)
  have "keeps_blockSize (os_do lib a)"
    by (cases a) (simp_all add: os_write_elements_def keeps)
  then show ?case using Cons by (simp add: keeps)
qed (simp add: keeps)

lemma session_keeps:
  "bindS (os_run lib as) (\<lambda>_. os_close lib) s = (r, t) \<Longrightarrow> blockSize t = blockSize s"
proof -
  have "keeps_blockSize (bindS (os_run lib as) (\<lambda>_. os_close lib))" by (intro keeps keeps_run)
  then have "blockSize (snd (bindS (os_run lib as) (\<lambda>_. os_close lib) s)) = blockSize s"
    unfolding keeps_blockSize_def by (rule spec)
  then show "bindS (os_run lib as) (\<lambda>_. os_close lib) s = (r, t) \<Longrightarrow> blockSize t = blockSize s" by simp
qed

definition fresh_stream :: "sink \<Rightarrow> int \<Rightarrow> CachedBufferAllocator \<Rightarrow> CachedBufferAllocator \<Rightarrow> bytes \<Rightarrow> bytes
    \<Rightarrow> SnappyOutputStream" where
  "fresh_stream out n ia oa ib ob = \<lparr>os_out = out, blockSize = n, inputBufferAllocator = ia,
     outputBufferAllocator = oa, inputBuffer = Some ib, outputBuffer = Some ob, inputCursor = 0,
     outputCursor = 0, headerWritten = False, os_closed = False, hadoop = False\<rparr>"

lemma new_stream_eq:
  assumes t: "table_good table" and bs: "0 \<le> bs" "bs \<le> MAX_BLOCK_SIZE"
    and fit: "20 + int (max_compressed lib (nat bs)) \<le> int_max"
  shows "\<exists>ia oa ib ob table'. new_SnappyOutputStream lib False out bs table
      = (Inr (fresh_stream out (max MIN_BLOCK_SIZE bs) ia oa ib ob), table')
    \<and> int (length ib) = bs \<and> int (length ob) = 20 + int (max_compressed lib (nat bs))"
proof -
  have mc: "s_maxCompressedLength lib bs = int (max_compressed lib (nat bs))"
    using maxCompressedLength_nat [of "nat bs" lib] bs fit by (simp add: MAX_BLOCK_SIZE_def int_max_def)
  let ?o = "20 + int (max_compressed lib (nat bs))"
  have o: "i32 (20 + s_maxCompressedLength lib bs) = ?o"
    using fit by (simp add: mc is_i32_def int_max_def)
  obtain ia t1 where ia: "getAllocator bs table = (ia, t1)" "cached_good bs ia" "table_good t1"
    using getAllocator_good [OF t] by (cases "getAllocator bs table") auto
  obtain oa t2 where oa: "getAllocator ?o t1 = (oa, t2)" "cached_good ?o oa"
    using getAllocator_good [OF ia(3)] by (cases "getAllocator ?o t1") auto
  obtain ib ia' where ib: "cached_allocate bs ia = (Inr ib, ia')" "int (length ib) = bs"
    using cached.allocate_good [OF ia(2)] bs by auto
  obtain ob oa' where ob: "cached_allocate ?o oa = (Inr ob, oa')" "int (length ob) = ?o"
    using cached.allocate_good [OF oa(2)] by auto
  have "\<not> max MIN_BLOCK_SIZE bs > MAX_BLOCK_SIZE"
    using bs by (simp add: MIN_BLOCK_SIZE_def MAX_BLOCK_SIZE_def)
  then have "new_SnappyOutputStream lib False out bs table
      = (Inr (fresh_stream out (max MIN_BLOCK_SIZE bs) ia' oa' ib ob), t2(bs := Some (Some ia'), ?o := Some (Some oa')))"
    by (simp add: new_SnappyOutputStream_def fresh_stream_def Let_def o ia(1) oa(1) ib(1) ob(1))
  then show ?thesis using ib(2) ob(2) by blast
qed

lemma new_stream_rel:
  assumes t: "table_good table" and bs: "MIN_BLOCK_SIZE \<le> bs" "bs \<le> MAX_BLOCK_SIZE"
    and fit: "20 + int (max_compressed lib (nat bs)) \<le> int_max" and ok: "\<forall>k. \<not> sink_fail out k"
  shows "\<exists>s table'. new_SnappyOutputStream lib False out bs table = (Inr s, table')
    \<and> os_rel lib (sink_data out) [] s \<and> gathered s = [] \<and> blockSize s = bs"
proof -
  have bs0: "0 < bs" using bs by (simp add: MIN_BLOCK_SIZE_def)
  obtain ia oa ib ob table' where n: "new_SnappyOutputStream lib False out bs table
      = (Inr (fresh_stream out (max MIN_BLOCK_SIZE bs) ia oa ib ob), table')"
    "int (length ib) = bs" "int (length ob) = 20 + int (max_compressed lib (nat bs))"
    using new_stream_eq [OF t _ bs(2) fit, of out] bs0 by auto
  have "os_rel lib (sink_data out) [] (fresh_stream out bs ia oa ib ob)"
    using bs0 bs n(2,3) fit ok by (auto simp: os_rel_def os_inv_def sink_ok_def emitted_def fresh_stream_def)
  then show ?thesis using n(1) bs(1) by (auto simp: gathered_def fresh_stream_def max_def)
qed

lemma os_close_rel:
  assumes lib: "lib_space lib" "lib_mono lib" and rel: "os_rel lib d0 bs s"
  shows "\<exists>s' bs'. os_close lib s = (Inr (), s') \<and> os_closed s' \<and> sink_closed (os_out s')
    \<and> sink_data (os_out s') = d0 @ stream_header @ concat (map (block lib) bs')
    \<and> concat bs' = concat bs @ gathered s \<and> (\<forall>b \<in> set bs'. b \<noteq> [] \<and> int (length b) \<le> blockSize s')
    \<and> bs' = (if inputCursor s = 0 then bs else bs @ [gathered s])"
proof -
  have "\<not> os_closed s" using os_rel_inv [OF rel] by (auto elim: os_invE)
  moreover obtain t bt where t: "os_flush lib s = (Inr (), t)" "os_rel lib d0 bt t"
    "concat bt = concat bs @ gathered s" "sink_data (os_out t) = d0 @ stream_header @ concat (map (block lib) bt)"
    "bt = (if inputCursor s = 0 then bs else bs @ [gathered s])"
    using os_flush_rel [OF lib rel] by blast
  moreover have "\<not> sink_fail (os_out t) k" for k using t(2) by (simp add: os_rel_def sink_ok_def)
  moreover have "\<forall>b \<in> set bt. b \<noteq> [] \<and> int (length b) \<le> blockSize t" using t(2) by (simp add: os_rel_def)
  ultimately show ?thesis
    by (auto simp: os_close_def getS_def finallyS_def bindS_def on_sink_def sink_close_def sink_call_def
        Let_def release_buffers_def)
qed

lemma output_session:
  assumes "lib_space lib" and "lib_mono lib" and "table_good table"
    and "MIN_BLOCK_SIZE \<le> bs" and "bs \<le> MAX_BLOCK_SIZE"
    and "20 + int (max_compressed lib (nat bs)) \<le> int_max"
    and "\<forall>k. \<not> sink_fail out k" and "\<forall>a \<in> set as. action_ok a"
  shows "\<exists>s table' t blocks. new_SnappyOutputStream lib False out bs table = (Inr s, table')
    \<and> bindS (os_run lib as) (\<lambda>_. os_close lib) s = (Inr (), t)
    \<and> sink_data (os_out t) = sink_data out @ stream_header @ concat (map (block lib) blocks)
    \<and> concat blocks = concat (map action_bytes as)
    \<and> (\<forall>b \<in> set blocks. b \<noteq> [] \<and> int (length b) \<le> bs)
    \<and> os_closed t \<and> sink_closed (os_out t)"
proof -
  obtain s table' where s: "new_SnappyOutputStream lib False out bs table = (Inr s, table')"
    "os_rel lib (sink_data out) [] s" "gathered s = []" "blockSize s = bs"
    using new_stream_rel [OF assms(3-7)] by blast
  obtain u bu where u: "os_run lib as s = (Inr (), u)" "os_rel lib (sink_data out) bu u"
    "concat bu @ gathered u = concat (map action_bytes as)"
    using os_run_rel [OF assms(1,2) s(2) assms(8)] s(3) by auto
  obtain t bt where t: "os_close lib u = (Inr (), t)" "os_closed t" "sink_closed (os_out t)"
    "sink_data (os_out t) = sink_data out @ stream_header @ concat (map (block lib) bt)"
    "concat bt = concat bu @ gathered u" "\<forall>b \<in> set bt. b \<noteq> [] \<and> int (length b) \<le> blockSize t"
    using os_close_rel [OF assms(1,2) u(2)] by blast
  have "bindS (os_run lib as) (\<lambda>_. os_close lib) s = (Inr (), t)"
    using u(1) t(1) by (simp add: bindS_def)
  moreover from session_keeps [OF this] have "blockSize t = bs" using s(4) by simp
  ultimately show ?thesis using s(1) t u(3) by metis
qed

section \<open>Properties\<close>

text \<open>
  C2: A session with any block size from 1024 up to the maximum, any sequence of in-range writes of every kind
  and flushes, and a final \<open>close\<close> succeeds throughout, stays inside its buffers, and appends to the
  underlying stream exactly the header and the encoded blocks of the data, in order; every block is
  non-empty and at most a block long.
\<close>

theorem output_session_format:
  assumes "lib_space lib" and "lib_mono lib" and "table_good table"
    and "MIN_BLOCK_SIZE \<le> bs" and "bs \<le> MAX_BLOCK_SIZE"
    and "20 + int (max_compressed lib (nat bs)) \<le> int_max"
    and "\<forall>k. \<not> sink_fail out k" and "\<forall>a \<in> set as. action_ok a"
  shows "\<exists>s table' t blocks. new_SnappyOutputStream lib False out bs table = (Inr s, table')
    \<and> bindS (os_run lib as) (\<lambda>_. os_close lib) s = (Inr (), t)
    \<and> sink_data (os_out t) = sink_data out @ stream_header @ concat (map (block lib) blocks)
    \<and> concat blocks = concat (map action_bytes as)
    \<and> (\<forall>b \<in> set blocks. b \<noteq> [] \<and> int (length b) \<le> bs)
    \<and> os_closed t \<and> sink_closed (os_out t)"
  using output_session [OF assms] .

lemma stored_lib_mono: "lib_mono stored_lib"
  unfolding lib_mono_def max_compressed_stored by (intro allI impI add_mono div_le_mono order_refl)

definition quiet_sink :: sink where
  "quiet_sink = \<lparr>sink_data = [], sink_closed = False, sink_calls = 0, sink_fail = (\<lambda>_. False)\<rparr>"

theorem output_session_format_witness:
  "\<exists>s table' t blocks. new_SnappyOutputStream stored_lib False quiet_sink 1024 (\<lambda>_. None) = (Inr s, table')
    \<and> bindS (os_run stored_lib [Write [1, 2, 3] 1 2, Flush, WriteByte 7]) (\<lambda>_. os_close stored_lib) s = (Inr (), t)
    \<and> sink_data (os_out t) = stream_header @ concat (map (block stored_lib) blocks)
    \<and> concat blocks = [2, 3, 7]"
proof -
  have t: "table_good (\<lambda>_. None)" by (simp add: table_good_def)
  have b: "MIN_BLOCK_SIZE \<le> 1024" "1024 \<le> MAX_BLOCK_SIZE"
    "20 + int (max_compressed stored_lib (nat 1024)) \<le> int_max"
    by (simp_all add: MIN_BLOCK_SIZE_def MAX_BLOCK_SIZE_def int_max_def)
  have q: "\<forall>k. \<not> sink_fail quiet_sink k" "sink_data quiet_sink = []" by (simp_all add: quiet_sink_def)
  have a: "\<forall>a \<in> set [Write [1, 2, 3] 1 2, Flush, WriteByte 7]. action_ok a" by (simp add: in_range_def)
  have d: "concat (map action_bytes [Write [1, 2, 3] 1 2, Flush, WriteByte 7]) = [2, 3, 7]"
    by (simp add: segment_def)
  show ?thesis
    using output_session_format [OF stored_lib_space stored_lib_mono t b q(1) a] unfolding d q(2) append_Nil
    by blast
qed

text \<open>
  Flushing leaves the allocators and the input buffer alone and does not exchange the output buffer.
\<close>

definition buffers_stay :: "SnappyOutputStream \<Rightarrow> SnappyOutputStream \<Rightarrow> bool" where
  "buffers_stay s t \<longleftrightarrow> inputBufferAllocator t = inputBufferAllocator s \<and> outputBufferAllocator t = outputBufferAllocator s
     \<and> inputBuffer t = inputBuffer s \<and> map_option length (outputBuffer t) = map_option length (outputBuffer s)"

abbreviation os_steady :: "'a os \<Rightarrow> bool" where
  "os_steady \<equiv> steady (\<lambda>_. True) buffers_stay"

interpretation flushing: framing "\<lambda>_. True" buffers_stay
  by unfold_locales (simp_all add: buffers_stay_def)

named_theorems os_rules

lemmas [os_rules] = flushing.steady_rules steady_if

lemma steady_case_option:
  "steady I R f \<Longrightarrow> (\<And>x. steady I R (g x)) \<Longrightarrow> steady I R (case y of None \<Rightarrow> f | Some x \<Rightarrow> g x)"
  by (cases y) simp_all

lemma os_parts_steady [os_rules]:
  "os_steady (on_sink f)" "(\<And>b. length (snd (g b)) = length b) \<Longrightarrow> os_steady (on_outputBuffer g)"
  by (auto simp: steady_def buffers_stay_def on_sink_def on_outputBuffer_def split: prod.splits option.splits)
    (metis snd_conv)

lemma length_set_at: "length (snd (set_at i x b)) = length b"
  by (auto simp: set_at_def array_set_def)

lemma length_writeInt: "length (snd (writeInt i v b)) = length b"
  using length_set_at by (auto simp: writeInt_def bindS_def split: prod.splits sum.splits) (metis snd_conv)+

lemma length_codec_writeHeader: "length (snd (codec_writeHeader c i b)) = length b"
  by (auto simp: codec_writeHeader_def arraycopy_def length_blit split: sum.splits if_splits)

lemma compress_block_steady:
  assumes "lib_space lib" shows "os_steady (compress_block lib)"
  using compressed_into_segment(2) [OF assms]
  by (auto simp: steady_def buffers_stay_def compress_block_def s_compress_def s_rawCompress_def impl_rawCompress_def
      split: prod.splits option.splits if_splits)

lemma os_flush_steady: "lib_space lib \<Longrightarrow> os_steady (os_flush lib)"
proof -
  assume lib: "lib_space lib"
  have dump: "os_steady dumpOutput"
    unfolding dumpOutput_def by (intro os_rules steady_case_option) (simp add: buffers_stay_def)
  have int_at: "os_steady (on_outputBuffer (writeInt i v))" for i v
    by (intro os_rules length_writeInt)
  have header: "os_steady os_writeHeader"
    unfolding os_writeHeader_def by (intro os_rules length_codec_writeHeader)
  have size: "os_steady writeBlockPreemble"
    unfolding writeBlockPreemble_def writeCurrentDataSize_def by (intro os_rules int_at) (simp add: buffers_stay_def)
  have room: "os_steady (hasSufficientOutputBufferFor lib n)" for n
    unfolding hasSufficientOutputBufferFor_def by (intro os_rules steady_case_option)
  have "os_steady (compressInput lib)"
    unfolding compressInput_def
    by (intro os_rules header room dump size compress_block_steady [OF lib] int_at) (simp_all add: buffers_stay_def)
  moreover have "os_steady check_open" unfolding check_open_def by (intro os_rules)
  ultimately show ?thesis unfolding os_flush_def by (intro flushing.steady_bind dump os_parts_steady(1))
qed

text \<open>
  C12: \<open>close\<close> releases on every path: whatever an open stream holds and whether or not flushing or the
  underlying stream fails, afterwards the stream is closed and its buffers are gone from it. The queue
  of each of its two allocators is the one before the call, which flushing leaves alone, followed by one
  entry: for the input allocator the input buffer, for the output allocator the output buffer, as they are
  after the flush and with the lengths they had before the call. A second \<open>close\<close> does nothing, and every
  write or flush on the closed stream throws without any effect.
\<close>

theorem close_releases_once:
  fixes s :: SnappyOutputStream
  assumes "\<not> os_closed s" and "lib_space lib" and "inputBuffer s = Some ib" and "outputBuffer s = Some ob"
  shows "os_closed (snd (os_close lib s))
    \<and> inputBuffer (snd (os_close lib s)) = None \<and> outputBuffer (snd (os_close lib s)) = None
    \<and> (\<exists>ib' ob'. inputBuffer (snd (os_flush lib s)) = Some ib' \<and> outputBuffer (snd (os_flush lib s)) = Some ob'
        \<and> ib' = ib \<and> length ob' = length ob
        \<and> inputBufferAllocator (snd (os_close lib s))
          = (inputBufferAllocator s)\<lparr>bufferQueue := bufferQueue (inputBufferAllocator s) @ [ib']\<rparr>
        \<and> outputBufferAllocator (snd (os_close lib s))
          = (outputBufferAllocator s)\<lparr>bufferQueue := bufferQueue (outputBufferAllocator s) @ [ob']\<rparr>)
    \<and> os_close lib (snd (os_close lib s)) = (Inr (), snd (os_close lib s))
    \<and> os_do lib a (snd (os_close lib s)) = (Inl (IOException ''Stream is closed''), snd (os_close lib s))"
proof -
  let ?t = "snd (os_close lib s)" and ?u = "snd (os_flush lib s)"
  have u: "buffers_stay s ?u" using steadyD [OF os_flush_steady [OF assms(2)], of s] by simp
  have t: "?t = release_buffers (snd (bindS (os_flush lib) (\<lambda>_. on_sink sink_close) s))"
    using assms(1) by (simp add: os_close_def getS_def finallyS_def split: prod.splits)
  have same: "inputBuffer (snd (bindS (os_flush lib) (\<lambda>_. on_sink sink_close) s)) = inputBuffer ?u"
    "outputBuffer (snd (bindS (os_flush lib) (\<lambda>_. on_sink sink_close) s)) = outputBuffer ?u"
    "inputBufferAllocator (snd (bindS (os_flush lib) (\<lambda>_. on_sink sink_close) s)) = inputBufferAllocator ?u"
    "outputBufferAllocator (snd (bindS (os_flush lib) (\<lambda>_. on_sink sink_close) s)) = outputBufferAllocator ?u"
    by (simp_all add: bindS_def on_sink_def split: prod.splits sum.splits)
  obtain ob' where ob: "outputBuffer ?u = Some ob'" "length ob' = length ob"
    using u assms(4) by (auto simp: buffers_stay_def)
  have ib: "inputBuffer ?u = Some ib" using u assms(3) by (simp add: buffers_stay_def)
  have queues: "inputBufferAllocator ?t = (inputBufferAllocator s)\<lparr>bufferQueue := bufferQueue (inputBufferAllocator s) @ [ib]\<rparr>"
    "outputBufferAllocator ?t = (outputBufferAllocator s)\<lparr>bufferQueue := bufferQueue (outputBufferAllocator s) @ [ob']\<rparr>"
    using u ib ob(1) assms(3) unfolding t by (simp_all add: release_buffers_def same cached_release_def buffers_stay_def)
  have c: "os_closed ?t" "inputBuffer ?t = None" "outputBuffer ?t = None"
    unfolding t by (simp_all add: release_buffers_def)
  moreover have "os_close lib ?t = (Inr (), ?t)"
    using c(1) by (simp add: os_close_def [of lib] getS_def returnS_def)
  moreover have "check_open ?t = (Inl (IOException ''Stream is closed''), ?t)"
    using c(1) by (simp add: check_open_def getS_def throwS_def)
  then have "os_do lib a ?t = (Inl (IOException ''Stream is closed''), ?t)"
    by (cases a) (simp_all add: os_write_def os_rawWrite_def os_write_elements_def os_write_byte_def
        os_flush_def bindS_def)
  ultimately show ?thesis using ib ob queues by blast
qed

definition broken_stream :: SnappyOutputStream where
  "broken_stream = \<lparr>os_out = quiet_sink\<lparr>sink_fail := (\<lambda>_. True)\<rparr>, blockSize = 1024,
     inputBufferAllocator = new_CachedBufferAllocator 1024, outputBufferAllocator = new_CachedBufferAllocator 40,
     inputBuffer = Some [], outputBuffer = Some (replicate 40 0), inputCursor = 0, outputCursor = 0,
     headerWritten = False, os_closed = False, hadoop = False\<rparr>"

theorem close_releases_once_witness:
  "os_closed (snd (os_close stored_lib broken_stream))
   \<and> outputBuffer (snd (os_close stored_lib broken_stream)) = None
   \<and> bufferQueue (inputBufferAllocator (snd (os_close stored_lib broken_stream))) = [[]]
   \<and> map length (bufferQueue (outputBufferAllocator (snd (os_close stored_lib broken_stream)))) = [40]"
  using close_releases_once [OF _ stored_lib_space, of broken_stream "[]" "replicate 40 0" Flush]
  by (auto simp: broken_stream_def new_CachedBufferAllocator_def)

text \<open>
  C33: A block size below 1024 is accepted and rounded up for \<open>blockSize\<close>, but the input buffer is
  allocated with the size as given. A write of more bytes than that then fails: \<open>write\<close> throws and
  \<open>rawWrite\<close>, which copies with the native \<open>arrayCopy\<close>, writes outside the buffer.
\<close>

theorem small_block_size_overruns:
  assumes "table_good table" and "0 \<le> bs" and "bs < MIN_BLOCK_SIZE"
    and "20 + int (max_compressed lib (nat bs)) \<le> int_max"
    and "bs < n" and "n \<le> MIN_BLOCK_SIZE" and "int (length b) = n"
  shows "\<exists>s table'. new_SnappyOutputStream lib False out bs table = (Inr s, table')
    \<and> fst (os_write lib b 0 n s) = Inl IndexOutOfBoundsException
    \<and> fst (os_rawWrite lib b 0 n s) = Inl NativeFault"
proof -
  have bs: "bs \<le> MAX_BLOCK_SIZE" "max MIN_BLOCK_SIZE bs = MIN_BLOCK_SIZE"
    using assms(3) by (simp_all add: MIN_BLOCK_SIZE_def MAX_BLOCK_SIZE_def)
  obtain ia oa ib ob table' where n: "new_SnappyOutputStream lib False out bs table
      = (Inr (fresh_stream out MIN_BLOCK_SIZE ia oa ib ob), table')" "int (length ib) = bs"
    using new_stream_eq [OF assms(1,2) bs(1) assms(4), of out] bs(2) by auto
  have "\<not> in_range 0 n (length ib)" "min n MIN_BLOCK_SIZE = n" "0 < n" "0 < MIN_BLOCK_SIZE"
    using assms(2,5,6) n(2) by (auto simp: in_range_def)
  then have "fst (os_write lib b 0 n (fresh_stream out MIN_BLOCK_SIZE ia oa ib ob)) = Inl IndexOutOfBoundsException"
    "fst (os_rawWrite lib b 0 n (fresh_stream out MIN_BLOCK_SIZE ia oa ib ob)) = Inl NativeFault"
    by (simp_all add: os_write_def os_rawWrite_def check_open_def op_simps numeral_2_eq_2 Let_def fresh_stream_def
        copy_java_def copy_native_def on_inputBuffer_def arraycopy_def impl_arrayCopy_def)
  then show ?thesis using n(1) by blast
qed

theorem small_block_size_overruns_witness:
  "\<exists>s table'. new_SnappyOutputStream stored_lib False quiet_sink 512 (\<lambda>_. None) = (Inr s, table')
    \<and> fst (os_rawWrite stored_lib (replicate 600 0) 0 600 s) = Inl NativeFault"
proof -
  have t: "table_good (\<lambda>_. None)" by (simp add: table_good_def)
  show ?thesis
    using small_block_size_overruns [OF t, of 512 stored_lib 600 "replicate 600 0" quiet_sink]
    by (auto simp: MIN_BLOCK_SIZE_def int_max_def)
qed

text \<open>
  The element writes multiply offset and length as \<open>int\<close>s without a check: writing \<open>2 ^ 29\<close>
  eight-byte elements of an array becomes a write of zero bytes, which succeeds and drops the data.
\<close>

theorem element_write_drops_data:
  assumes "\<not> os_closed s"
  shows "os_write_elements lib 8 arr 0 (2 ^ 29) s = (Inr (), s)"
proof -
  have "i32 (2 ^ 29 * 8) = 0" "i32 (0 * 8) = 0" by (simp_all add: i32_def)
  then show ?thesis
    using assms by (simp add: os_write_elements_def os_rawWrite_def check_open_def op_simps numeral_2_eq_2)
qed

theorem element_write_drops_data_witness:
  "os_write_elements stored_lib 8 [1, 2, 3, 4, 5, 6, 7, 8] 0 (2 ^ 29) broken_stream = (Inr (), broken_stream)"
  by (rule element_write_drops_data) (simp add: broken_stream_def)

end
