(* ===== verification/Stream_Props.thy ===== *)
theory Stream_Props
  imports Snappy_Input_Proofs Output_Props
begin

text \<open>
  Properties of \<open>SnappyInputStream\<close> alone and together with \<open>SnappyOutputStream\<close>: the round trip of a
  session, concatenated streams, data of \<open>Snappy.compress\<close> without a stream header, and the checks of
  headers and chunk sizes.
\<close>

section \<open>Data without a stream header\<close>

text \<open>One round of the loop either doubles a full buffer or finds it cannot.\<close>

lemma grow_step:
  assumes x: "source_read (int (length buf) - cursor) src = (Some bs, t)"
    and c: "0 \<le> cursor" "cursor < int (length buf)" and max: "int (length buf) \<le> int_max"
  shows "(grow_loop (Suc fuel) cursor (buf, src) = (Inl NegativeArraySizeException, (blit buf cursor bs, t))
        \<and> int_max < 2 * (cursor + int (length bs)))
    \<or> (\<exists>nb. grow_loop (Suc fuel) cursor (buf, src) = grow_loop fuel (cursor + int (length bs)) (nb, t)
        \<and> take (nat cursor + length bs) nb = take (nat cursor) buf @ bs
        \<and> cursor + int (length bs) < int (length nb) \<and> int (length nb) \<le> int_max)"
proof -
  let ?buf = "blit buf cursor bs" and ?cursor = "cursor + int (length bs)"
  have b: "bs \<noteq> []" "int (length bs) \<le> int (length buf) - cursor"
    using source_read_Some [of "int (length buf) - cursor" src bs t] x c by auto
  have r: "in_range cursor (int (length bs)) (length buf)" using c b(2) by (simp add: in_range_def)
  have lb: "length ?buf = length buf" using length_blit [OF r] .
  have tk: "take (nat cursor + length bs) ?buf = take (nat cursor) buf @ bs"
    using take_blit_extend [OF r] c by simp
  consider "?cursor < int (length buf)" | "?cursor = int (length buf)" "2 * int (length buf) \<le> int_max"
    | "?cursor = int (length buf)" "int_max < 2 * int (length buf)" using b(2) by linarith
  then show ?thesis
  proof cases
    case 1
    then show ?thesis using x lb tk max by (intro disjI2 exI [of _ ?buf]) simp
  next
    case 2
    let ?nb = "blit (replicate (2 * length buf) 0) 0 ?buf"
    have n: "nat cursor + length bs = length buf" using 2(1) c by linarith
    then have t2: "take (nat cursor + length bs) ?nb = ?buf" using lb by (simp add: blit_def)
    have "?buf = take (nat cursor) buf @ bs" using tk n lb by simp
    moreover have "i32 (int (length buf) * 2) = int (2 * length buf)"
      using 2 by (subst i32_id) (auto simp: is_i32_def int_max_def)
    then have "grow_loop (Suc fuel) cursor (buf, src) = grow_loop fuel ?cursor (?nb, t)"
      using x 2(1) lb by (simp add: Let_def new_array_def nat_mult_distrib)
    moreover have "length ?nb = 2 * length buf" using lb by (simp add: blit_def)
    moreover have "?cursor < 2 * int (length buf)" using 2(1) b(1) c by auto
    ultimately show ?thesis using t2 2(2) by (intro disjI2 exI [of _ ?nb]) simp
  next
    case 3
    have "i32 (int (length buf) * 2) < 0"
      using 3 max i32_unsigned [of "int (length buf) * 2"] by (simp add: int_max_def)
    then show ?thesis using x 3 lb by (intro disjI1) (simp add: Let_def new_array_def)
  qed
qed

declare grow_loop.simps(2) [simp del]

lemma grow_result:
  "length (src_data src) < fuel \<Longrightarrow> 0 \<le> cursor \<Longrightarrow> cursor < int (length buf) \<Longrightarrow> int (length buf) \<le> int_max \<Longrightarrow>
   (\<exists>st. grow_loop fuel cursor (buf, src) = (Inl NegativeArraySizeException, st)
      \<and> int_max < 2 * (cursor + int (length (src_data src))))
   \<or> (\<exists>buf' src'. grow_loop fuel cursor (buf, src) = (Inr (cursor + int (length (src_data src))), (buf', src'))
     \<and> take (nat cursor + length (src_data src)) buf' = take (nat cursor) buf @ src_data src
     \<and> nat cursor + length (src_data src) \<le> length buf' \<and> src_data src' = [])"
proof (induction fuel arbitrary: cursor buf src)
  case 0
  then show ?case by simp
next
  case (Suc fuel)
  obtain x t where x: "source_read (int (length buf) - cursor) src = (x, t)" by fastforce
  show ?case
  proof (cases x)
    case None
    then have "src_data src = []" "src_data t = []" using source_read_None [of "int (length buf) - cursor" src t] x by auto
    then show ?thesis using None x Suc.prems(2,3) by (simp add: grow_loop.simps)
  next
    case (Some bs)
    then have xs: "source_read (int (length buf) - cursor) src = (Some bs, t)" using x by simp
    have b: "bs \<noteq> []" "src_data src = bs @ src_data t"
      using source_read_Some [OF xs] Suc.prems(3) by auto
    let ?c = "cursor + int (length bs)"
    have f: "length (src_data t) < fuel" using Suc.prems(1) b by (cases bs) auto
    have nc: "nat ?c = nat cursor + length bs" "0 \<le> ?c" using Suc.prems(2) by auto
    from grow_step [OF xs Suc.prems(2-4), of fuel] show ?thesis
    proof (elim disjE exE conjE)
      assume "grow_loop (Suc fuel) cursor (buf, src) = (Inl NegativeArraySizeException, blit buf cursor bs, t)"
        "int_max < 2 * ?c"
      then show ?thesis using b(2) by auto
    next
      fix nb
      assume nb: "grow_loop (Suc fuel) cursor (buf, src) = grow_loop fuel ?c (nb, t)"
        "take (nat cursor + length bs) nb = take (nat cursor) buf @ bs"
        "?c < int (length nb)" "int (length nb) \<le> int_max"
      from Suc.IH [OF f nc(2) nb(3,4)] show ?thesis
        unfolding nb(1) nc(1) using nb(2) b(2) by (auto simp: add.assoc)
    qed
  qed
qed

text \<open>What \<open>readFully\<close> does before it decodes: it gathers all the data, if that fits.\<close>

lemma readFully_loaded:
  assumes frag: "0 < n" "n \<le> 16" "n \<le> int (length h)" and z: "z = take (nat n) h @ src_data (is_in s)"
  shows "(int_max < 2 * int (length z) \<and> fst (readFully lib h n s) = Inl NegativeArraySizeException)
    \<or> (\<exists>c src'. readFully lib h n s = decode_all lib (int (length z))
          (s\<lparr>compressed := Some c, is_in := src', finishedReading := True\<rparr>)
        \<and> in_range 0 (int (length z)) (length c) \<and> take (length z) c = z \<and> src_data src' = [])"
proof -
  define c0 where "c0 = blit (replicate 8192 0) 0 (segment 0 n h)"
  have m: "max (8 * 1024) n = 8192" using frag by simp
  have c0: "bindE (new_array (max (8 * 1024) n)) (\<lambda>c. arraycopy h 0 c 0 n) = Inr c0"
    using frag by (simp add: m c0_def arraycopy_def in_range_def)
  have lc0: "length c0 = 8192" and tc0: "take (nat n) c0 = take (nat n) h"
    using frag by (auto simp: c0_def blit_def)
  have lz: "int (length z) = n + int (length (src_data (is_in s)))"
    "nat n + length (src_data (is_in s)) = length z"
    using frag by (simp_all add: z)
  define s1 where "s1 = s\<lparr>compressed := Some c0\<rparr>"
  have rf: "readFully lib h n s = bindS (read_rest n) (\<lambda>cursor.
      bindS (modifyS (\<lambda>s. s\<lparr>finishedReading := True\<rparr>)) (\<lambda>_. decode_all lib cursor)) s1"
    using frag(1) unfolding readFully_def c0 by (simp add: bind_run s1_def)
  have "0 \<le> n" "n < int (length c0)" "int (length c0) \<le> int_max" "length (src_data (is_in s)) < length (src_data (is_in s)) + 1"
    using frag lc0 by (simp_all add: int_max_def)
  from grow_result [OF this(4,1-3)] show ?thesis
  proof (elim disjE exE conjE)
    fix st assume "grow_loop (length (src_data (is_in s)) + 1) n (c0, is_in s) = (Inl NegativeArraySizeException, st)"
      "int_max < 2 * (n + int (length (src_data (is_in s))))"
    then show ?thesis using lz(1)
      by (intro disjI1) (cases st; simp add: rf bindS_def [of "read_rest n"] read_rest_def s1_def)
  next
    fix c src'
    assume g: "grow_loop (length (src_data (is_in s)) + 1) n (c0, is_in s)
        = (Inr (n + int (length (src_data (is_in s)))), c, src')"
      "take (nat n + length (src_data (is_in s))) c = take (nat n) c0 @ src_data (is_in s)"
      "nat n + length (src_data (is_in s)) \<le> length c" "src_data src' = []"
    have "read_rest n s1 = (Inr (int (length z)), s1\<lparr>compressed := Some c, is_in := src'\<rparr>)"
      using g(1) lz(1) by (simp add: read_rest_def s1_def)
    then have "readFully lib h n s = decode_all lib (int (length z))
        (s\<lparr>compressed := Some c, is_in := src', finishedReading := True\<rparr>)"
      by (simp add: rf bindS_def [of "read_rest n"] bind_run s1_def)
    then show ?thesis using g(2-4) lz(2) tc0 z by (auto simp: in_range_def)
  qed
qed

lemma readFully_ok:
  assumes lib: "lib_roundtrip lib" and x: "int (length x) \<le> int_max"
    and frag: "0 < n" "n \<le> 16" "n \<le> int (length h)"
    and data: "take (nat n) h @ src_data (is_in s) = compress_raw lib x"
    and small: "2 * int (length (compress_raw lib x)) \<le> int_max"
  shows "\<exists>s'. readFully lib h n s = (Inr (), s') \<and> finishedReading s' \<and> uncompressedCursor s' = 0
    \<and> uncompressedLimit s' = int (length x) \<and> uncompressed s' = Some x
    \<and> maxChunkSize s' = maxChunkSize s \<and> is_header s' = is_header s \<and> src_data (is_in s') = []"
proof -
  let ?z = "compress_raw lib x"
  obtain c src' where c: "readFully lib h n s = decode_all lib (int (length ?z))
        (s\<lparr>compressed := Some c, is_in := src', finishedReading := True\<rparr>)"
    "in_range 0 (int (length ?z)) (length c)" "take (length ?z) c = ?z" "src_data src' = []"
    using readFully_loaded [OF frag data [symmetric], of lib] small by auto
  have seg: "segment 0 (int (length ?z)) c = ?z" using c(3) by simp
  have ul: "s_uncompressedLength lib (Some c) 0 (int (length ?z)) = Inr (int (length x))"
    using impl_uncompressedLength_compressed [OF lib x c(2) seg] by (simp add: s_uncompressedLength_def)
  have "blit (replicate (length x) 0) 0 x = x" by (simp add: blit_def)
  then have un: "s_uncompress lib (Some c) 0 (int (length ?z)) 0 (Some (replicate (length x) 0))
      = (Inr (int (length x)), Some x)"
    using impl_rawUncompress_compressed [OF lib x c(2) seg, of 0 "replicate (length x) 0"]
    by (simp add: s_uncompress_def s_rawUncompress_def in_range_def)
  let ?t = "s\<lparr>compressed := Some c, is_in := src', finishedReading := True\<rparr>"
  have ud: "uncompress_loaded lib (int (length ?z)) (?t\<lparr>uncompressed := Some (replicate (length x) 0)\<rparr>)
      = (Inr (int (length x)), ?t\<lparr>uncompressed := Some x\<rparr>)"
    using un by (simp add: uncompress_loaded_def)
  have "readFully lib h n s = (Inr (), ?t\<lparr>uncompressed := Some x, uncompressedCursor := 0,
      uncompressedLimit := int (length x)\<rparr>)"
    using ul ud unfolding c(1) decode_all_def
    by (simp add: bind_run new_array_def bindS_def [of "uncompress_loaded lib _"]) (simp add: modifyS_def)
  then show ?thesis using c(4) by simp
qed

section \<open>A sequence of reads\<close>

text \<open>The calls of a reader, each with a buffer of its own, and the bytes they deliver.\<close>

datatype read_call = Read nat | RawRead nat | ReadByte

fun read_do :: "snappy_lib \<Rightarrow> read_call \<Rightarrow> bytes iop" where
  "read_do lib (Read n) s = (case is_read lib 0 (int n) (replicate n 0, s) of
     (Inl e, (b, s')) \<Rightarrow> (Inl e, s') | (Inr k, (b, s')) \<Rightarrow> (Inr (take (nat k) b), s'))"
| "read_do lib (RawRead n) s = (case is_rawRead lib 0 (int n) (replicate n 0, s) of
     (Inl e, (b, s')) \<Rightarrow> (Inl e, s') | (Inr k, (b, s')) \<Rightarrow> (Inr (take (nat k) b), s'))"
| "read_do lib ReadByte s = bindS (is_read_byte lib) (\<lambda>x. returnS (if x < 0 then [] else [word_of_int x])) s"

fun read_run :: "snappy_lib \<Rightarrow> read_call list \<Rightarrow> bytes iop" where
  "read_run lib [] = returnS []"
| "read_run lib (c # cs) = bindS (read_do lib c) (\<lambda>x. bindS (read_run lib cs) (\<lambda>y. returnS (x @ y)))"

fun asks :: "read_call \<Rightarrow> nat" where
  "asks (Read n) = n" | "asks (RawRead n) = n" | "asks ReadByte = 1"

lemma delivered: "take (nat (if k = 0 \<and> 0 < n then - 1 else int k)) (blit (replicate m 0) 0 (take k d)) = take k d"
  if "k \<le> length d" using that by (auto simp: blit_def)

lemma read_do_rel:
  assumes lib: "lib_roundtrip lib" and rel: "is_rel lib its s" and d: "d = unread s @ items_data its"
  shows "\<exists>s' its'. read_do lib c s = (Inr (take (asks c) d), s') \<and> is_rel lib its' s'
    \<and> unread s' @ items_data its' = drop (asks c) d"
proof (cases c)
  case (Read n)
  have r: "in_range 0 (int n) (length (replicate n (0 :: byte)))" by (simp add: in_range_def)
  let ?k = "min n (length d)"
  have k: "?k = min (nat (int n)) (length d)" by simp
  obtain s' its' where "is_read lib 0 (int n) (replicate n 0, s)
      = (Inr (if ?k = 0 \<and> 0 < int n then - 1 else int ?k), (blit (replicate n 0) 0 (take ?k d), s'))"
    "is_rel lib its' s'" "unread s' @ items_data its' = drop ?k d"
    using is_read_rel(1) [OF lib rel r d k] by (simp only: of_nat_0_less_iff) blast
  then show ?thesis using delivered [of ?k d "int n" n] Read by (auto simp: min_def)
next
  case (RawRead n)
  have r: "in_range 0 (int n) (length (replicate n (0 :: byte)))" by (simp add: in_range_def)
  let ?k = "min n (length d)"
  have k: "?k = min (nat (int n)) (length d)" by simp
  obtain s' its' where "is_rawRead lib 0 (int n) (replicate n 0, s)
      = (Inr (if ?k = 0 \<and> 0 < int n then - 1 else int ?k), (blit (replicate n 0) 0 (take ?k d), s'))"
    "is_rel lib its' s'" "unread s' @ items_data its' = drop ?k d"
    using is_read_rel(2) [OF lib rel r d k] by (simp only: of_nat_0_less_iff) blast
  then show ?thesis using delivered [of ?k d "int n" n] RawRead by (auto simp: min_def)
next
  case ReadByte
  have "0 \<le> uint (hd d)" by simp
  then show ?thesis using is_read_byte_rel [OF lib rel d] ReadByte
    by (cases d) (auto simp: bindS_def returnS_def)
qed

lemma read_run_rel:
  assumes lib: "lib_roundtrip lib"
  shows "is_rel lib its s \<Longrightarrow> d = unread s @ items_data its \<Longrightarrow>
    \<exists>s' its'. read_run lib cs s = (Inr (take (sum_list (map asks cs)) d), s') \<and> is_rel lib its' s'
      \<and> unread s' @ items_data its' = drop (sum_list (map asks cs)) d"
proof (induction cs arbitrary: its s d)
  case Nil
  then show ?case by (auto simp: returnS_def)
next
  case (Cons c cs)
  obtain t it where t: "read_do lib c s = (Inr (take (asks c) d), t)" "is_rel lib it t"
    "unread t @ items_data it = drop (asks c) d"
    using read_do_rel [OF lib Cons.prems] by blast
  obtain u iu where u: "read_run lib cs t = (Inr (take (sum_list (map asks cs)) (drop (asks c) d)), u)"
    "is_rel lib iu u" "unread u @ items_data iu = drop (sum_list (map asks cs)) (drop (asks c) d)"
    using Cons.IH [OF t(2) t(3) [symmetric]] by blast
  show ?case using t(1) u by (intro exI [of _ u] exI [of _ iu]) (simp add: bindS_def returnS_def take_add add.commute)
qed

text \<open>A stream that delivers \<open>d\<close> and then the end of the data, whatever the reader asks for.\<close>

definition delivers :: "snappy_lib \<Rightarrow> SnappyInputStream \<Rightarrow> bytes \<Rightarrow> bool" where
  "delivers lib s d \<longleftrightarrow> (\<forall>cs. \<exists>s'. read_run lib cs s = (Inr (take (sum_list (map asks cs)) d), s')
     \<and> (length d \<le> sum_list (map asks cs) \<longrightarrow> fst (is_read_byte lib s') = Inr (- 1)))"

lemma delivers_items:
  assumes lib: "lib_roundtrip lib" and "is_rel lib its s" and d: "d = unread s @ items_data its"
  shows "delivers lib s d"
  unfolding delivers_def
proof
  fix cs
  let ?n = "sum_list (map asks cs)"
  obtain t it where t: "read_run lib cs s = (Inr (take ?n d), t)" "is_rel lib it t"
    "unread t @ items_data it = drop ?n d"
    using read_run_rel [OF lib assms(2) d] by blast
  obtain t' where "is_read_byte lib t = (Inr (if drop ?n d = [] then - 1 else uint (hd (drop ?n d))), t')"
    using is_read_byte_rel [OF lib t(2) t(3) [symmetric]] by blast
  then show "\<exists>s'. read_run lib cs s = (Inr (take ?n d), s')
     \<and> (length d \<le> ?n \<longrightarrow> fst (is_read_byte lib s') = Inr (- 1))"
    using t(1) by (intro exI [of _ t]) simp
qed

section \<open>The constructor without a header\<close>

lemma new_stream_headerless:
  assumes lib: "lib_roundtrip lib" and x: "int (length x) \<le> int_max"
    and z: "src_data src = compress_raw lib x" "compress_raw lib x \<noteq> []"
    and small: "2 * int (length (compress_raw lib x)) \<le> int_max"
    and no_magic: "\<not> (16 \<le> length (compress_raw lib x) \<and> take 8 (compress_raw lib x) = MAGIC_HEADER)"
    and m: "m \<le> int_max"
  shows "\<exists>u. new_SnappyInputStream lib src m = Inr u \<and> is_rel lib [] u \<and> unread u = x"
proof -
  define z where "z = compress_raw lib x"
  let ?s0 = "\<lparr>is_in = src, finishedReading = False, maxChunkSize = m, compressed = None, uncompressed = None,
      uncompressedCursor = 0, uncompressedLimit = 0, is_header = replicate 16 0\<rparr>"
  define n where "n = int (min 16 (length z))"
  define h where "h = blit (replicate 16 0) 0 (take 16 z)"
  have data: "src_data src = z" and z0: "0 < length z" using z by (simp_all add: z_def)
  have "in_range 0 16 (length (replicate 16 (0 :: byte)))" by (simp add: in_range_def)
  from fill_ok [OF this order_refl, of src] data obtain src' where
    f: "fill 0 16 0 (replicate 16 0, src) = (Inr (n, length z < 16), (h, src'))"
    "src_data src' = drop 16 z"
    by (auto simp: n_def h_def)
  let ?s1 = "?s0\<lparr>is_header := h, is_in := src'\<rparr>"
  have lh: "length h = 16" by (simp add: h_def blit_def)
  have th: "take (nat n) h = take 16 z" by (simp add: n_def h_def blit_def min_def)
  have dec: "n < 16 \<or> \<not> hasMagicHeaderPrefix h"
  proof (cases "length z < 16")
    case False
    then have "take 8 h = take 8 z" by (simp add: h_def blit_def)
    then show ?thesis using no_magic False lh by (simp add: hasMagicHeaderPrefix_def prefix_loop_iff z_def)
  qed (simp add: n_def)
  have n: "0 < n" "n \<le> 16" "n \<le> int (length h)" using z0 lh by (auto simp: n_def)
  have "take (nat n) h @ src_data (is_in ?s1) = compress_raw lib x"
    using th f(2) by (simp add: z_def)
  then obtain s' where s': "readFully lib h (n) ?s1 = (Inr (), s')" "finishedReading s'"
    "uncompressedCursor s' = 0" "uncompressedLimit s' = int (length x)" "uncompressed s' = Some x"
    "maxChunkSize s' = m" "is_header s' = h" "src_data (is_in s') = []"
    using readFully_ok [OF lib x n _ small, of ?s1] by auto
  have "fill_header 0 16 ?s0 = (Inr (n, length z < 16), ?s1)"
    using f(1) by (simp add: fill_header_def)
  then have "is_readHeader lib ?s0 = (Inr (), s')"
    using s'(1) dec n lh by (simp add: is_readHeader_def bind_get bindS_def [of "fill_header 0 16"]) (simp add: getS_def)
  then have "new_SnappyInputStream lib src m = Inr s'" by (simp add: new_SnappyInputStream_def)
  then show ?thesis using s' m lh by (intro exI [of _ s']) (simp add: is_rel_def unread_def)
qed

lemma ex_list_of_length: "\<exists>xs. length xs = n"
  by (rule exI [of _ "replicate n undefined"]) simp

text \<open>Instances for the witnesses: a source that hands out at most three bytes at a time.\<close>

definition demo_source :: "bytes \<Rightarrow> source" where
  "demo_source d = \<lparr>src_data = d, src_chunk = (\<lambda>_. 3), src_calls = 0, src_closed = False\<rparr>"

lemma demo_source_data [simp]: "src_data (demo_source d) = d"
  by (simp add: demo_source_def)

lemma compress_raw_stored [simp]: "compress_raw stored_lib x = 1 # x"
  by (simp add: stored_lib_def)

lemma no_allocators: "table_good (\<lambda>_. None)"
  by (simp add: table_good_def)

lemma quiet: "\<forall>k. \<not> sink_fail quiet_sink k" "sink_data quiet_sink = []"
  by (simp_all add: quiet_sink_def)

section \<open>Properties\<close>

text \<open>
  C1: Everything \<open>SnappyOutputStream\<close> writes in a session, \<open>SnappyInputStream\<close> reads back: any sequence of
  reads delivers the bytes of all writes, in order, and then the end of the data. The underlying
  stream may deliver its bytes in any portions; the chunk limit of the reader has to cover a
  compressed block.
\<close>

theorem stream_roundtrip:
  assumes lib: "lib_ok lib" "lib_mono lib" and "table_good table"
    and "MIN_BLOCK_SIZE \<le> bs" and "bs \<le> MAX_BLOCK_SIZE"
    and fit: "20 + int (max_compressed lib (nat bs)) \<le> int_max"
    and "\<forall>k. \<not> sink_fail out k" and "sink_data out = []" and "\<forall>a \<in> set as. action_ok a"
    and m: "int (max_compressed lib (nat bs)) \<le> m" "m \<le> int_max"
  shows "\<exists>s table' t. new_SnappyOutputStream lib False out bs table = (Inr s, table')
    \<and> bindS (os_run lib as) (\<lambda>_. os_close lib) s = (Inr (), t)
    \<and> (\<forall>src. src_data src = sink_data (os_out t) \<longrightarrow>
        (\<exists>u. new_SnappyInputStream lib src m = Inr u \<and> delivers lib u (concat (map action_bytes as))))"
proof -
  let ?d = "concat (map action_bytes as)"
  have rt: "lib_roundtrip lib" and sp: "lib_space lib" using lib(1) by (simp_all add: lib_ok_def)
  obtain s table' t blocks where s: "new_SnappyOutputStream lib False out bs table = (Inr s, table')"
    "bindS (os_run lib as) (\<lambda>_. os_close lib) s = (Inr (), t)"
    "sink_data (os_out t) = stream_header @ concat (map (block lib) blocks)"
    "concat blocks = ?d" "\<forall>b \<in> set blocks. int (length b) \<le> bs"
    using output_session [OF sp lib(2) assms(3-7,9)] assms(8) by auto
  have bs: "bs \<le> int_max" using assms(5) by (simp add: MAX_BLOCK_SIZE_def int_max_def)
  have ok: "item_ok lib m i" if i: "i \<in> set (map Blk blocks)" for i
  proof -
    obtain b where b: "i = Blk b" "b \<in> set blocks" using i by auto
    have "int (length b) \<le> bs" using s(5) b(2) by blast
    moreover from this have "max_compressed lib (length b) \<le> max_compressed lib (nat bs)"
      using lib(2) by (simp add: lib_mono_def)
    moreover have "length (compress_raw lib b) \<le> max_compressed lib (length b)"
      using sp by (rule compress_length_bound)
    ultimately show ?thesis using b(1) m(1) bs by auto
  qed
  then have ball: "\<forall>i \<in> set (map Blk blocks). item_ok lib m i" by blast
  have enc: "concat (map (enc_item lib) (map Blk blocks)) = concat (map (block lib) blocks)"
    and dat: "items_data (map Blk blocks) = ?d"
    using s(4) by (simp_all add: comp_def)
  have "\<exists>u. new_SnappyInputStream lib src m = Inr u \<and> delivers lib u ?d"
    if src: "src_data src = sink_data (os_out t)" for src
  proof -
    have "src_data src = MAGIC_HEADER @ int_be 1 @ int_be 1 @ concat (map (enc_item lib) (map Blk blocks))"
      using src unfolding enc s(3) stream_header_eq by simp
    from new_stream_items [OF this ball m(2)] obtain u where
      u: "new_SnappyInputStream lib src m = Inr u" "is_rel lib (map Blk blocks) u" "unread u = []" by auto
    then show ?thesis using delivers_items [OF rt u(2), of ?d] dat by auto
  qed
  then show ?thesis using s(1,2) by blast
qed

theorem stream_roundtrip_witness:
  "\<exists>s table' t u. new_SnappyOutputStream stored_lib False quiet_sink 1024 (\<lambda>_. None) = (Inr s, table')
    \<and> bindS (os_run stored_lib [Write [1, 2, 3] 1 2, Flush, WriteByte 7]) (\<lambda>_. os_close stored_lib) s = (Inr (), t)
    \<and> new_SnappyInputStream stored_lib (demo_source (sink_data (os_out t))) MAX_CHUNK_SIZE = Inr u
    \<and> delivers stored_lib u [2, 3, 7]"
proof -
  have b: "MIN_BLOCK_SIZE \<le> 1024" "1024 \<le> MAX_BLOCK_SIZE"
    "20 + int (max_compressed stored_lib (nat 1024)) \<le> int_max"
    "int (max_compressed stored_lib (nat 1024)) \<le> MAX_CHUNK_SIZE" "MAX_CHUNK_SIZE \<le> int_max"
    by (simp_all add: MIN_BLOCK_SIZE_def MAX_BLOCK_SIZE_def int_max_def MAX_CHUNK_SIZE_def)
  have a: "\<forall>a \<in> set [Write [1, 2, 3] 1 2, Flush, WriteByte 7]. action_ok a" by (simp add: in_range_def)
  have d: "concat (map action_bytes [Write [1, 2, 3] 1 2, Flush, WriteByte 7]) = [2, 3, 7]"
    by (simp add: segment_def)
  show ?thesis
    using stream_roundtrip [OF stored_lib_ok stored_lib_mono no_allocators b(1-3) quiet a b(4,5)]
      demo_source_data unfolding d by blast
qed

text \<open>
  C28: Streams written one after another into the same file are read as one: the reader delivers the
  data of all of them, recognising each further header between two blocks.
\<close>

theorem concatenated_streams:
  assumes "lib_roundtrip lib" and "streams \<noteq> []" and "m \<le> int_max"
    and ok: "\<forall>x \<in> set (concat streams). int (length x) \<le> int_max \<and> int (length (compress_raw lib x)) \<le> m"
    and src: "src_data src = concat (map (\<lambda>blocks. stream_header @ concat (map (block lib) blocks)) streams)"
  shows "\<exists>u. new_SnappyInputStream lib src m = Inr u \<and> delivers lib u (concat (concat streams))"
proof -
  obtain b0 bss where st: "streams = b0 # bss" using assms(2) by (cases streams) auto
  define its where "its = map Blk b0 @ concat (map (\<lambda>bs. Hdr 1 1 # map Blk bs) bss)"
  have "concat (map (enc_item lib) (concat (map (\<lambda>bs. Hdr 1 1 # map Blk bs) bss)))
      = concat (map (\<lambda>bs. stream_header @ concat (map (block lib) bs)) bss)"
    by (induction bss) (simp_all add: comp_def stream_header_eq)
  then have enc: "src_data src = MAGIC_HEADER @ int_be 1 @ int_be 1 @ concat (map (enc_item lib) its)"
    using src by (simp add: st its_def comp_def stream_header_eq)
  have "items_data (concat (map (\<lambda>bs. Hdr 1 1 # map Blk bs) bss)) = concat (concat bss)"
    by (induction bss) (simp_all add: comp_def)
  then have dat: "items_data its = concat (concat streams)"
    by (simp add: st its_def comp_def)
  have "\<forall>i \<in> set its. item_ok lib m i"
    using ok by (auto simp: st its_def)
  then obtain u where u: "new_SnappyInputStream lib src m = Inr u" "is_rel lib its u" "unread u = []"
    using new_stream_items [OF enc _ assms(3)] by blast
  then show ?thesis using delivers_items [OF assms(1) u(2), of "concat (concat streams)"] dat by auto
qed

theorem concatenated_streams_witness:
  "\<exists>u. new_SnappyInputStream stored_lib (demo_source (stream_header @ block stored_lib [1, 2] @ stream_header
      @ stream_header @ block stored_lib [3])) 100 = Inr u \<and> delivers stored_lib u [1, 2, 3]"
  using concatenated_streams [OF stored_lib_roundtrip, of "[[[1, 2]], [], [[3]]]" 100
      "demo_source (stream_header @ block stored_lib [1, 2] @ stream_header @ stream_header @ block stored_lib [3])"]
  by (simp add: int_max_def)

text \<open>
  C29: Data of \<open>Snappy.compress(byte[])\<close>, which has no stream header, is read as well, from an
  underlying stream that delivers it in any portions, unless it starts like a stream header. It
  has to be shorter than \<open>2 ^ 30\<close> bytes, because the buffer that collects it doubles.
\<close>

theorem headerless_data:
  assumes "lib_ok lib" and "int (length x) \<le> int_max" and "int (max_compressed lib (length x)) \<le> int_max"
    and "s_compress_bytes lib x = Inr z" and "z \<noteq> []" and "length z < 2 ^ 30"
    and "\<not> (16 \<le> length z \<and> take 8 z = MAGIC_HEADER)" and "src_data src = z" and "m \<le> int_max"
  shows "\<exists>u. new_SnappyInputStream lib src m = Inr u \<and> delivers lib u x"
proof -
  have lib: "lib_roundtrip lib" "lib_space lib" using assms(1) by (simp_all add: lib_ok_def)
  have z: "z = compress_raw lib x" using compress_bytes_eq [OF lib(2) assms(2,3)] assms(4) by simp
  have "2 * int (length (compress_raw lib x)) \<le> int_max" using assms(6) unfolding z by (simp add: int_max_def)
  then obtain u where u: "new_SnappyInputStream lib src m = Inr u" "is_rel lib [] u" "unread u = x"
    using new_stream_headerless [OF lib(1) assms(2)] assms(5,7,8,9) unfolding z by blast
  then show ?thesis using delivers_items [OF lib(1) u(2), of x] by auto
qed

theorem headerless_data_witness:
  "\<exists>u. new_SnappyInputStream stored_lib (demo_source [1, 5, 6]) MAX_CHUNK_SIZE = Inr u \<and> delivers stored_lib u [5, 6]"
proof -
  have "s_compress_bytes stored_lib [5, 6] = Inr [1, 5, 6]"
    using compress_bytes_eq [OF stored_lib_space, of "[5, 6]"] by (simp add: int_max_def)
  then show ?thesis
    using headerless_data [OF stored_lib_ok, of "[5, 6]" "[1, 5, 6]" "demo_source [1, 5, 6]" MAX_CHUNK_SIZE]
    by (simp add: int_max_def MAX_CHUNK_SIZE_def)
qed

text \<open>
  The version in a stream's first header is never looked at: data with an incompatible version
  (here any below 1) is read as if it were compatible. The same data behind another stream is
  refused with \<open>INCOMPATIBLE_VERSION\<close>.
\<close>

theorem first_header_version_unchecked:
  assumes "lib_roundtrip lib" and "sint v < 1" and "m \<le> int_max"
    and ok: "\<forall>x \<in> set blocks. int (length x) \<le> int_max \<and> int (length (compress_raw lib x)) \<le> m"
    and d: "d = MAGIC_HEADER @ int_be v @ int_be c @ concat (map (block lib) blocks)"
    and "src_data src = d" and "src_data src2 = stream_header @ d"
  shows "(\<exists>u. new_SnappyInputStream lib src m = Inr u \<and> delivers lib u (concat blocks))
    \<and> (\<exists>u. new_SnappyInputStream lib src2 m = Inr u
        \<and> fst (is_read_byte lib u) = Inl (SnappyIOException INCOMPATIBLE_VERSION))"
proof
  have "src_data src = MAGIC_HEADER @ int_be v @ int_be c @ concat (map (enc_item lib) (map Blk blocks))"
    using assms(6) d by (simp add: comp_def)
  moreover have "\<forall>i \<in> set (map Blk blocks). item_ok lib m i" using ok by auto
  ultimately obtain u where u: "new_SnappyInputStream lib src m = Inr u" "is_rel lib (map Blk blocks) u" "unread u = []"
    using new_stream_items [of src v c lib _ m] assms(3) by blast
  then show "\<exists>u. new_SnappyInputStream lib src m = Inr u \<and> delivers lib u (concat blocks)"
    using delivers_items [OF assms(1) u(2), of "concat blocks"] by (auto simp: comp_def)
next
  have "src_data src2 = MAGIC_HEADER @ int_be 1 @ int_be 1 @ d" using assms(7) by (simp add: stream_header_eq)
  from new_stream_header [OF this, of lib m] obtain u where
    u: "new_SnappyInputStream lib src2 m = Inr u" "src_data (is_in u) = d" "\<not> finishedReading u"
    "length (is_header u) = 16" "uncompressedLimit u = uncompressedCursor u" by blast
  have d': "src_data (is_in u) = (MAGIC_HEADER @ int_be v @ int_be c) @ concat (map (block lib) blocks)"
    using u(2) d by simp
  have "fst (next_step lib u) = Inl (SnappyIOException INCOMPATIBLE_VERSION)"
    using next_step_header [OF u(3,4) d' header_bytes, of lib] assms(2) by (auto simp: valid_header)
  then show "\<exists>u. new_SnappyInputStream lib src2 m = Inr u
      \<and> fst (is_read_byte lib u) = Inl (SnappyIOException INCOMPATIBLE_VERSION)"
    using u(1,5) read_byte_step_fails by auto
qed

theorem first_header_version_unchecked_witness:
  "(\<exists>u. new_SnappyInputStream stored_lib (demo_source (MAGIC_HEADER @ int_be 0 @ int_be 0 @ block stored_lib [4])) 100
      = Inr u \<and> delivers stored_lib u [4])"
  using first_header_version_unchecked [OF stored_lib_roundtrip, of 0 100 "[[4]]"
      "MAGIC_HEADER @ int_be 0 @ int_be 0 @ block stored_lib [4]" 0
      "demo_source (MAGIC_HEADER @ int_be 0 @ int_be 0 @ block stored_lib [4])"
      "demo_source (stream_header @ MAGIC_HEADER @ int_be 0 @ int_be 0 @ block stored_lib [4])"]
  by (simp add: int_max_def)

text \<open>
  A concatenated header that starts with the magic word but is not the magic header ends the data
  silently: \<open>read\<close> reports the end of the stream, and the next call resumes behind it and delivers
  the blocks that follow.
\<close>

theorem corrupt_header_hides_data:
  assumes "lib_roundtrip lib" and "m \<le> int_max"
    and "length d = 16" and "take 4 d = take 4 MAGIC_HEADER" and "take 8 d \<noteq> MAGIC_HEADER"
    and ok: "\<forall>x \<in> set blocks. int (length x) \<le> int_max \<and> int (length (compress_raw lib x)) \<le> m"
    and "src_data src = stream_header @ d @ concat (map (block lib) blocks)"
  shows "\<exists>u u'. new_SnappyInputStream lib src m = Inr u \<and> is_read_byte lib u = (Inr (- 1), u')
    \<and> delivers lib u' (concat blocks)"
proof -
  have "src_data src = MAGIC_HEADER @ int_be 1 @ int_be 1 @ d @ concat (map (block lib) blocks)"
    using assms(7) by (simp add: stream_header_eq)
  from new_stream_header [OF this, of lib m] obtain u where
    u: "new_SnappyInputStream lib src m = Inr u" "src_data (is_in u) = d @ concat (map (block lib) blocks)"
    "\<not> finishedReading u" "length (is_header u) = 16" "maxChunkSize u = m"
    "uncompressedLimit u = uncompressedCursor u" by blast
  have "take 4 d = int_be 0x82534E41" using assms(4) MAGIC_head by simp
  moreover have "isValidHeader d = Inr False"
    using assms(3,5) by (simp add: isValidHeader_def codec_readHeader_def new_SnappyCodec_def isValidMagicHeader_def)
  ultimately obtain src' where n: "src_data src' = concat (map (block lib) blocks)"
    "next_step lib u = (Inr NoMore, at_chunk u d src')"
    using next_step_header [OF u(3,4,2) assms(3), of lib] by auto
  then have "is_read_byte lib u = (Inr (- 1), at_chunk u d src')"
    using u(6) by (simp add: is_read_byte.simps [of lib u] hasNextChunk.simps [of lib u])
  moreover have "is_rel lib (map Blk blocks) (at_chunk u d src')"
    using n(1) assms(2,3) ok u(5) by (auto simp: is_rel_def comp_def)
  then have "delivers lib (at_chunk u d src') (concat blocks)"
    by (rule delivers_items [OF assms(1)]) (simp add: unread_def comp_def split: option.splits)
  ultimately show ?thesis using u(1) by blast
qed

theorem corrupt_header_hides_data_witness:
  "\<exists>u u'. new_SnappyInputStream stored_lib (demo_source (stream_header
      @ [- 126, 83, 78, 65, 9, 9, 9, 9, 9, 9, 9, 9, 9, 9, 9, 9] @ block stored_lib [4])) 100 = Inr u
    \<and> is_read_byte stored_lib u = (Inr (- 1), u') \<and> delivers stored_lib u' [4]"
  using corrupt_header_hides_data [OF stored_lib_roundtrip, of 100 "[- 126, 83, 78, 65, 9, 9, 9, 9, 9, 9, 9, 9, 9, 9, 9, 9]" "[[4]]"
      "demo_source (stream_header @ [- 126, 83, 78, 65, 9, 9, 9, 9, 9, 9, 9, 9, 9, 9, 9, 9] @ block stored_lib [4])"]
  by (simp add: int_max_def MAGIC_HEADER_def)

lemma sint_chunk:
  assumes "int (length z) \<le> int_max"
  shows "sint (word_of_int (int (length z)) :: jint) = int (length z)
    \<and> (word_of_int (int (length z)) :: jint) \<noteq> 0x82534E41"
proof -
  have "sint (word_of_int (int (length z)) :: jint) = int (length z)" using assms by (intro sint_small) auto
  then show ?thesis using magic_negative by (metis of_nat_0_le_iff not_le)
qed

lemma chunk_over_limit:
  assumes "src_data src = stream_header @ block lib x" and "m < int (length (compress_raw lib x))"
    and "int (length (compress_raw lib x)) \<le> int_max"
  shows "\<exists>u. new_SnappyInputStream lib src m = Inr u
    \<and> fst (is_read_byte lib u) = Inl (SnappyErrorExc FAILED_TO_UNCOMPRESS)"
proof -
  let ?n = "int (length (compress_raw lib x))"
  let ?w = "word_of_int ?n :: jint"
  have "src_data src = MAGIC_HEADER @ int_be 1 @ int_be 1 @ block lib x"
    using assms(1) by (simp add: stream_header_eq)
  from new_stream_header [OF this, of lib m] obtain u where
    u: "new_SnappyInputStream lib src m = Inr u" "src_data (is_in u) = int_be ?w @ compress_raw lib x"
    "\<not> finishedReading u" "length (is_header u) = 16" "maxChunkSize u = m"
    "uncompressedLimit u = uncompressedCursor u" unfolding block_def by blast
  have sw: "sint ?w = ?n" "?w \<noteq> 0x82534E41" using sint_chunk assms(3) by auto
  then have "fst (next_step lib u) = Inl (SnappyErrorExc FAILED_TO_UNCOMPRESS)"
    using next_step_word [OF u(3,4,2), of lib] sw assms(2) u(5) by auto
  then show ?thesis using u(1,6) read_byte_step_fails by auto
qed

text \<open>
  C32: The reader's limit counts compressed bytes, the writer's block size uncompressed ones. A block
  that does not shrink is written by a stream of block size \<open>bs\<close> without complaint, and a reader
  whose limit is below its compressed size refuses it; with the default limit that happens to full
  blocks of the maximal block size.
\<close>

theorem own_output_refused:
  assumes lib: "lib_ok lib" "lib_mono lib" and t: "table_good table"
    and bs: "MIN_BLOCK_SIZE \<le> bs" "bs \<le> MAX_BLOCK_SIZE"
    and fit: "20 + int (max_compressed lib (nat bs)) \<le> int_max"
    and out: "\<forall>k. \<not> sink_fail out k" "sink_data out = []"
    and x: "int (length x) = bs" "m < int (length (compress_raw lib x))"
  shows "\<exists>s table' t. new_SnappyOutputStream lib False out bs table = (Inr s, table')
    \<and> bindS (os_write lib x 0 bs) (\<lambda>_. os_close lib) s = (Inr (), t)
    \<and> sink_data (os_out t) = stream_header @ block lib x
    \<and> (\<forall>src. src_data src = sink_data (os_out t) \<longrightarrow>
        (\<exists>u. new_SnappyInputStream lib src m = Inr u
          \<and> fst (is_read_byte lib u) = Inl (SnappyErrorExc FAILED_TO_UNCOMPRESS)))"
proof -
  have sp: "lib_space lib" using lib(1) by (simp add: lib_ok_def)
  obtain s table' where s: "new_SnappyOutputStream lib False out bs table = (Inr s, table')"
    "os_rel lib [] [] s" "gathered s = []" "blockSize s = bs"
    using new_stream_rel [OF t bs fit out(1)] out(2) by auto
  have c: "inputCursor s = 0"
    using length_gathered [OF os_rel_inv [OF s(2)]] s(3) os_rel_inv [OF s(2)] by (auto elim: os_invE)
  have "in_range 0 (blockSize s) (length x)" using x(1) s(4) bs by (simp add: in_range_def MIN_BLOCK_SIZE_def)
  from java_copy.write_full_block [OF sp lib(2) s(2) c this, of "nat bs"] obtain u where
    u: "write_loop lib (copy_java x) (nat bs + 2) 0 bs 0 s = (Inr (), u)" "os_rel lib [] [x] u" "inputCursor u = 0"
    using s(4) x(1) by (auto simp: numeral_2_eq_2)
  obtain t where t: "os_close lib u = (Inr (), t)" "sink_data (os_out t) = stream_header @ block lib x"
    using os_close_rel [OF sp lib(2) u(2)] u(3) by auto
  have "os_write lib x 0 bs s = (Inr (), u)"
    using check_open_inv [OF os_rel_inv [OF s(2)]] u(1) unfolding os_write_def by (simp only: bind_ok)
  then have "bindS (os_write lib x 0 bs) (\<lambda>_. os_close lib) s = (Inr (), t)" using t(1) by (simp add: bind_ok)
  moreover have "max_compressed lib (length x) = max_compressed lib (nat bs)" using x(1) by (metis nat_int)
  then have "int (length (compress_raw lib x)) \<le> int_max"
    using compress_length_bound [OF sp, of x] fit by linarith
  then have "\<exists>u. new_SnappyInputStream lib src m = Inr u
      \<and> fst (is_read_byte lib u) = Inl (SnappyErrorExc FAILED_TO_UNCOMPRESS)"
    if "src_data src = sink_data (os_out t)" for src
    using chunk_over_limit [of src lib x m] that t(2) x(2) by simp
  ultimately show ?thesis using s(1) t(2) by blast
qed

theorem own_output_refused_witness:
  "\<exists>x s table' t u. int (length x) = MAX_BLOCK_SIZE
    \<and> new_SnappyOutputStream stored_lib False quiet_sink MAX_BLOCK_SIZE (\<lambda>_. None) = (Inr s, table')
    \<and> bindS (os_write stored_lib x 0 MAX_BLOCK_SIZE) (\<lambda>_. os_close stored_lib) s = (Inr (), t)
    \<and> new_SnappyInputStream stored_lib (demo_source (sink_data (os_out t))) MAX_CHUNK_SIZE = Inr u
    \<and> fst (is_read_byte stored_lib u) = Inl (SnappyErrorExc FAILED_TO_UNCOMPRESS)"
proof -
  obtain x :: bytes where x: "int (length x) = MAX_BLOCK_SIZE"
    using ex_list_of_length [of "nat MAX_BLOCK_SIZE"] by (auto simp: MAX_BLOCK_SIZE_def)
  have b: "MIN_BLOCK_SIZE \<le> MAX_BLOCK_SIZE" "MAX_BLOCK_SIZE \<le> MAX_BLOCK_SIZE"
    "20 + int (max_compressed stored_lib (nat MAX_BLOCK_SIZE)) \<le> int_max"
    by (simp_all add: MIN_BLOCK_SIZE_def MAX_BLOCK_SIZE_def int_max_def)
  have l: "MAX_CHUNK_SIZE < int (length (compress_raw stored_lib x))"
    using x by (simp add: MAX_CHUNK_SIZE_def MAX_BLOCK_SIZE_def)
  show ?thesis
    using own_output_refused [OF stored_lib_ok stored_lib_mono no_allocators b quiet x l] x demo_source_data
    by blast
qed

text \<open>Reading exactly the first block of a stream leaves its buffer behind.\<close>

lemma first_block_read:
  assumes "lib_roundtrip lib" and "0 < length x" and "int (length x) \<le> int_max"
    and "int (length (compress_raw lib x)) \<le> m" and "m \<le> int_max"
    and src: "src_data src = stream_header @ block lib x @ tail"
  obtains u u' b where "new_SnappyInputStream lib src m = Inr u" and "read_do lib (Read (length x)) u = (Inr x, u')"
    and "src_data (is_in u') = tail" and "uncompressed u' = Some b" and "length b = length x"
    and "uncompressedLimit u' = uncompressedCursor u'" and "length (is_header u') = 16" and "maxChunkSize u' = m"
    and "\<not> finishedReading u'"
proof -
  let ?z = "compress_raw lib x" and ?n = "int (length x)"
  have "src_data src = MAGIC_HEADER @ int_be 1 @ int_be 1 @ int_be (word_of_int (int (length ?z))) @ ?z @ tail"
    using src by (simp add: stream_header_eq block_def)
  from new_stream_header [OF this, of lib m] obtain u where
    u: "new_SnappyInputStream lib src m = Inr u" "src_data (is_in u) = int_be (word_of_int (int (length ?z))) @ ?z @ tail"
    "\<not> finishedReading u" "length (is_header u) = 16" "maxChunkSize u = m" "uncompressed u = None"
    "uncompressedLimit u = uncompressedCursor u" "uncompressedCursor u = 0" by blast
  have zw: "sint (word_of_int (int (length ?z)) :: jint) = int (length ?z)"
    "(word_of_int (int (length ?z)) :: jint) \<noteq> 0x82534E41"
    using sint_chunk [of ?z] assms(4,5) by auto
  obtain h src1 where st: "length h = 16" "src_data src1 = ?z @ tail"
    "next_step lib u = bindS (read_chunk lib (int (length ?z))) (\<lambda>_. returnS Ready) (at_chunk u h src1)"
    using next_step_word [OF u(3,4,2) zw(2), of lib] zw(1) assms(4) u(5) by auto
  obtain s b where s: "read_chunk lib (int (length ?z)) (at_chunk u h src1) = (Inr (), s)" "src_data (is_in s) = tail"
    "uncompressedLimit s = ?n" "uncompressedCursor s = 0" "uncompressed s = Some b" "take (length x) b = x"
    "length b = length x" "length (is_header s) = 16" "maxChunkSize s = m" "\<not> finishedReading s"
    using read_chunk_ok [OF assms(1,3) refl, of "at_chunk u h src1" tail] st(1,2) u(5,6) by auto
  have nc: "hasNextChunk lib u = (Inr True, s)"
    using st(3) s(1) by (simp add: hasNextChunk.simps [of lib u] bindS_def returnS_def)
  let ?s = "s\<lparr>uncompressedCursor := ?n\<rparr>"
  have "copy_out_java b 0 ?n 0 (replicate (length x) 0) = (Inr (), x)"
    using s(6,7) by (simp add: copy_out_java_def arraycopy_def in_range_def blit_def)
  then have "is_read lib 0 ?n (replicate (length x) 0, u) = (Inr ?n, (x, ?s))"
    using assms(2) u(7) nc s(3,4,5)
    by (simp add: is_read_def read_loop.simps [of lib _ _ _ _ _ u] read_loop.simps [of lib _ _ _ _ _ s]
        read_loop.simps [of lib _ _ _ _ _ ?s] Let_def)
  then have rd: "read_do lib (Read (length x)) u = (Inr x, ?s)" by simp
  show thesis by (rule that [OF u(1) rd]) (use s in simp_all)
qed

text \<open>
  C24: A chunk whose compressed data claims between \<open>2 ^ 31\<close> and \<open>2 ^ 32 - 1\<close> bytes makes
  \<open>uncompressedLength\<close> negative. Once a buffer exists, which is after the first block, no larger one is
  allocated for it and the native code is sent into the old buffer, which is too short.
\<close>

theorem negative_length_overruns:
  assumes "lib_roundtrip lib" and "0 < length x" and "int (length x) \<le> int_max"
    and "int (length (compress_raw lib x)) \<le> m" and "int (length c) \<le> m" and "m \<le> int_max"
    and claim: "parse_length lib c = Some k" "2 ^ 31 \<le> k" "k < 2 ^ 32"
    and src: "src_data src = stream_header @ block lib x @ int_be (word_of_int (int (length c))) @ c"
  shows "\<exists>u u'. new_SnappyInputStream lib src m = Inr u
    \<and> read_do lib (Read (length x)) u = (Inr x, u') \<and> fst (is_read_byte lib u') = Inl NativeFault"
proof -
  obtain u u' b where u: "new_SnappyInputStream lib src m = Inr u" "read_do lib (Read (length x)) u = (Inr x, u')"
    "src_data (is_in u') = int_be (word_of_int (int (length c))) @ c" "uncompressed u' = Some b" "length b = length x"
    "uncompressedLimit u' = uncompressedCursor u'" "length (is_header u') = 16" "maxChunkSize u' = m" "\<not> finishedReading u'"
    by (rule first_block_read [OF assms(1-4,6) src])
  have cw: "sint (word_of_int (int (length c)) :: jint) = int (length c)"
    "(word_of_int (int (length c)) :: jint) \<noteq> 0x82534E41"
    using sint_chunk [of c] assms(5,6) by auto
  obtain h' src2 where n2: "src_data src2 = c @ []"
    "next_step lib u' = bindS (read_chunk lib (int (length c))) (\<lambda>_. returnS Ready) (at_chunk u' h' src2)"
    using next_step_word [OF u(9,7) u(3) cw(2), of lib] cw(1) assms(5) u(8) by auto
  have "fst (read_chunk lib (int (length c)) (at_chunk u' h' src2)) = Inl NativeFault"
    using read_chunk_negative [OF refl _ claim, of "at_chunk u' h' src2" "[]" b] n2(1) u(4,5) assms(3) by simp
  then have "fst (next_step lib u') = Inl NativeFault"
    unfolding n2(2) by (cases "read_chunk lib (int (length c)) (at_chunk u' h' src2)") (simp add: bindS_def)
  then have "fst (is_read_byte lib u') = Inl NativeFault" using read_byte_step_fails [of u' lib] u(6) by simp
  then show ?thesis using u(1,2) by blast
qed

text \<open>A library that, like snappy, reads a length of its own from the data: \<open>[2]\<close> claims \<open>2 ^ 31\<close> bytes.\<close>

definition claiming_lib :: snappy_lib where
  "claiming_lib = stored_lib\<lparr>parse_length := (\<lambda>y. if y = [2] then Some (2 ^ 31) else parse_length stored_lib y)\<rparr>"

theorem negative_length_overruns_witness:
  "\<exists>u u'. new_SnappyInputStream claiming_lib (demo_source (stream_header @ block claiming_lib [7]
      @ int_be (word_of_int (int (length [2 :: byte]))) @ [2])) MAX_CHUNK_SIZE = Inr u
    \<and> read_do claiming_lib (Read (length [7 :: byte])) u = (Inr [7], u')
    \<and> fst (is_read_byte claiming_lib u') = Inl NativeFault"
proof -
  have rt: "lib_roundtrip claiming_lib"
    by (simp add: claiming_lib_def lib_roundtrip_def stored_lib_def)
  have c: "parse_length claiming_lib [2] = Some (2 ^ 31)" "(2 :: nat) ^ 31 \<le> 2 ^ 31" "(2 :: nat) ^ 31 < 2 ^ 32"
    by (simp_all add: claiming_lib_def)
  have "compress_raw claiming_lib [7] = [1, 7]" by (simp add: claiming_lib_def)
  then show ?thesis
    using negative_length_overruns [OF rt, of "[7]" MAX_CHUNK_SIZE "[2]", OF _ _ _ _ _ c demo_source_data]
    by (simp add: MAX_CHUNK_SIZE_def int_max_def)
qed

end
