(* ===== verification/Input_Safety.thy ===== *)
theory Input_Safety
  imports Stream_Props "HOL-Library.Sublist"
begin

text \<open>
  \<open>SnappyInputStream\<close> on arbitrary data. \<open>orderly\<close> are the exceptions a caller may expect; the
  others mean an access outside an array, a null reference or a loop without end. \<open>runs D P f Q\<close> is a
  Hoare triple: from a state with \<open>P\<close>, \<open>f\<close> ends with \<open>Q\<close> or throws an orderly exception, and in both cases
  the invariant \<open>is_inv D\<close> holds again.
\<close>

section \<open>Orderly runs\<close>

definition orderly :: "exc \<Rightarrow> bool" where
  "orderly e \<longleftrightarrow> e \<notin> {NativeFault, IndexOutOfBoundsException, NullPointerException, Diverges}"

lemma orderly_simps [simp]:
  "orderly (SnappyIOException c)" "orderly (SnappyErrorExc c)" "orderly (IOException m)"
  "orderly NegativeArraySizeException" "orderly (throw_error n)"
  by (simp_all add: orderly_def throw_error_def)

text \<open>The bytes still to come are a suffix of the original data \<open>D\<close>.\<close>

definition is_inv :: "bytes \<Rightarrow> SnappyInputStream \<Rightarrow> bool" where
  "is_inv D s \<longleftrightarrow> suffix (src_data (is_in s)) D \<and> length (is_header s) = 16 \<and> maxChunkSize s \<le> int_max \<and>
     0 \<le> uncompressedCursor s \<and> uncompressedCursor s \<le> uncompressedLimit s \<and>
     (0 < uncompressedLimit s \<longrightarrow>
        (\<exists>u. uncompressed s = Some u \<and> uncompressedLimit s \<le> int (length u)))"

definition runs :: "bytes \<Rightarrow> (SnappyInputStream \<Rightarrow> bool) \<Rightarrow> 'a iop \<Rightarrow> ('a \<Rightarrow> SnappyInputStream \<Rightarrow> bool) \<Rightarrow> bool" where
  "runs D P f Q \<longleftrightarrow> (\<forall>s. P s \<longrightarrow>
     (case f s of (Inl e, s') \<Rightarrow> orderly e \<and> is_inv D s' | (Inr x, s') \<Rightarrow> is_inv D s' \<and> Q x s'))"

named_theorems run_rules \<open>rules for orderly runs\<close>

lemma runs_bind [run_rules]:
  assumes "runs D P f R" and "\<And>x. runs D (\<lambda>s. is_inv D s \<and> R x s) (g x) Q"
  shows "runs D P (bindS f g) Q"
  unfolding runs_def
proof (intro allI impI)
  fix s assume "P s"
  obtain r t where r: "f s = (r, t)" by fastforce
  show "case bindS f g s of (Inl e, s') \<Rightarrow> orderly e \<and> is_inv D s' | (Inr x, s') \<Rightarrow> is_inv D s' \<and> Q x s'"
  proof (cases r)
    case (Inl e)
    then show ?thesis using assms(1) \<open>P s\<close> r by (auto simp: runs_def bindS_def dest: spec [of _ s])
  next
    case (Inr x)
    then have "is_inv D t \<and> R x t" using assms(1) \<open>P s\<close> r by (auto simp: runs_def dest: spec [of _ s])
    then show ?thesis using assms(2) [of x] r Inr by (simp add: runs_def bindS_def)
  qed
qed

lemma runs_get [run_rules]: "(\<And>s. runs D (\<lambda>t. P t \<and> t = s) (f s) Q) \<Longrightarrow> runs D P (getS f) Q"
  by (simp add: runs_def getS_def)

lemma runs_return [run_rules]: "(\<And>s. P s \<Longrightarrow> is_inv D s \<and> Q x s) \<Longrightarrow> runs D P (returnS x) Q"
  by (simp add: runs_def returnS_def)

lemma runs_throw [run_rules]: "orderly e \<Longrightarrow> (\<And>s. P s \<Longrightarrow> is_inv D s) \<Longrightarrow> runs D P (throwS e) Q"
  by (simp add: runs_def throwS_def)

lemma runs_modify [run_rules]: "(\<And>s. P s \<Longrightarrow> is_inv D (f s) \<and> Q () (f s)) \<Longrightarrow> runs D P (modifyS f) Q"
  by (simp add: runs_def modifyS_def)

lemma runs_lift [run_rules]:
  "(\<And>s. P s \<Longrightarrow> is_inv D s) \<Longrightarrow> (\<And>s e. P s \<Longrightarrow> r = Inl e \<Longrightarrow> orderly e) \<Longrightarrow>
   (\<And>s x. P s \<Longrightarrow> r = Inr x \<Longrightarrow> Q x s) \<Longrightarrow> runs D P (liftE r) Q"
  by (cases r) (auto simp: runs_def liftE_def)

lemma runs_if [run_rules]:
  "(c \<Longrightarrow> runs D P f Q) \<Longrightarrow> (\<not> c \<Longrightarrow> runs D P g Q) \<Longrightarrow> runs D P (if c then f else g) Q"
  by simp

lemma runs_result: "runs D P f Q \<Longrightarrow> P s \<Longrightarrow> f s = (Inr x, t) \<Longrightarrow> is_inv D t \<and> Q x t"
  by (auto simp: runs_def dest: spec [of _ s])

lemma runs_error: "runs D P f Q \<Longrightarrow> P s \<Longrightarrow> f s = (Inl e, t) \<Longrightarrow> orderly e \<and> is_inv D t"
  by (auto simp: runs_def dest: spec [of _ s])

lemma runsI:
  assumes "\<And>s e t. P s \<Longrightarrow> f s = (Inl e, t) \<Longrightarrow> orderly e \<and> is_inv D t"
    and "\<And>s x t. P s \<Longrightarrow> f s = (Inr x, t) \<Longrightarrow> is_inv D t \<and> Q x t"
  shows "runs D P f Q"
  using assms by (auto simp: runs_def split: prod.splits sum.splits)

lemma runs_mono: "runs D P f Q \<Longrightarrow> (\<And>s. P' s \<Longrightarrow> P s) \<Longrightarrow> (\<And>x s. Q x s \<Longrightarrow> Q' x s) \<Longrightarrow> runs D P' f Q'"
  by (rule runsI) (blast dest: runs_result runs_error)+

section \<open>Reading a chunk\<close>

text \<open>No piece of the data claims more bytes than an \<open>int\<close> can count.\<close>

definition honest :: "snappy_lib \<Rightarrow> bytes \<Rightarrow> bool" where
  "honest lib D \<longleftrightarrow> (\<forall>y k. sublist y D \<and> parse_length lib y = Some k \<longrightarrow> int k \<le> int_max)"

abbreviation drained :: "bytes \<Rightarrow> SnappyInputStream \<Rightarrow> bool" where
  "drained D s \<equiv> is_inv D s \<and> uncompressedLimit s = 0"

lemma readNext_runs:
  assumes "in_range off len 16"
  shows "runs D (drained D) (readNext off len) (\<lambda>_ s. uncompressedLimit s = 0)"
  unfolding runs_def
proof (intro allI impI)
  fix s assume inv: "drained D s"
  then have r: "in_range off len (length (is_header s))" using assms by (simp add: is_inv_def)
  have "length (blit (is_header s) off (take (nat len) (src_data (is_in s)))) = length (is_header s)"
    using r by (auto simp: in_range_def blit_def min_def)
  moreover obtain src' where "readNext off len s
      = (Inr (min len (int (length (src_data (is_in s))))),
         s\<lparr>is_header := blit (is_header s) off (take (nat len) (src_data (is_in s))), is_in := src',
           finishedReading := finishedReading s \<or> int (length (src_data (is_in s))) < len\<rparr>)"
    "src_data src' = drop (nat len) (src_data (is_in s))"
    using readNext_ok [OF r] by blast
  moreover have "suffix (src_data (is_in s)) D" using inv by (simp add: is_inv_def)
  with suffix_drop have "suffix (drop (nat len) (src_data (is_in s))) D" by (rule suffix_order.trans)
  ultimately show "case readNext off len s of (Inl e, s') \<Rightarrow> orderly e \<and> is_inv D s'
      | (Inr n, s') \<Rightarrow> is_inv D s' \<and> uncompressedLimit s' = 0"
    using inv by (simp add: is_inv_def)
qed

text \<open>Most steps start and end with an empty buffer.\<close>

lemma runs_seq:
  "runs D (drained D) f (\<lambda>_ s. uncompressedLimit s = 0) \<Longrightarrow> (\<And>x. runs D (drained D) (g x) Q) \<Longrightarrow>
   runs D (drained D) (bindS f g) Q"
  by (rule runs_bind)

lemma runs_header:
  assumes "\<And>h. length h = 16 \<Longrightarrow> (\<exists>x. r h = Inr x) \<or> (\<exists>e. r h = Inl e \<and> orderly e)"
  shows "runs D (drained D) (getS (\<lambda>s. liftE (r (is_header s)))) (\<lambda>_ s. uncompressedLimit s = 0)"
proof (rule runsI, goal_cases)
  case (1 s e t)
  then show ?case using assms [of "is_header s"] by (auto simp: getS_def liftE_def is_inv_def)
next
  case (2 s x t)
  then show ?case by (auto simp: getS_def liftE_def)
qed

lemma runs_get_same: "(\<And>s. runs D P (f s) Q) \<Longrightarrow> runs D P (getS f) Q"
  by (simp add: runs_def getS_def)

lemma decode_chunk_runs:
  assumes lib: "lib_lengths lib" and h: "honest lib D"
  shows "runs D (\<lambda>s. drained D s \<and> (\<exists>c. compressed s = Some c \<and> in_range 0 n (length c) \<and> sublist (take (nat n) c) D))
    (decode_chunk lib n) (\<lambda>_ _. True)"
  unfolding runs_def
proof (intro allI impI, elim conjE exE)
  fix s c
  assume inv: "is_inv D s" and lim: "uncompressedLimit s = 0"
    and c: "compressed s = Some c" "in_range 0 n (length c)" "sublist (take (nat n) c) D"
  let ?y = "take (nat n) c"
  show "case decode_chunk lib n s of (Inl e, s') \<Rightarrow> orderly e \<and> is_inv D s' | (Inr x, s') \<Rightarrow> is_inv D s' \<and> True"
  proof (cases "parse_length lib ?y")
    case None
    then have "s_uncompressedLength lib (compressed s) 0 n = Inl (throw_error 2)"
      using c by (simp add: s_uncompressedLength_def impl_uncompressedLength_def)
    then show ?thesis using inv by (simp add: decode_chunk_def bind_run bindS_def [of "getS _"] getS_def liftE_def)
  next
    case (Some k)
    then have k: "int k \<le> int_max" using h c(3) by (auto simp: honest_def)
    have ul: "s_uncompressedLength lib (compressed s) 0 n = Inr (int k)"
      using c Some i32_int_len [OF k] by (simp add: s_uncompressedLength_def impl_uncompressedLength_def)
    obtain t u where t: "ensure_uncompressed (int k) s = (Inr (), t)" "t = s\<lparr>uncompressed := Some u\<rparr>" "k \<le> length u"
    proof (cases "uncompressed s = None \<or> int k > int (length (the (uncompressed s)))")
      case True
      then show ?thesis using that [of "s\<lparr>uncompressed := Some (replicate k 0)\<rparr>" "replicate k 0"]
        by (simp add: ensure_uncompressed_def op_simps)
    next
      case False
      then obtain u where u: "uncompressed s = Some u" "k \<le> length u" by auto
      moreover from u have "s = s\<lparr>uncompressed := Some u\<rparr>" by simp
      moreover have "ensure_uncompressed (int k) s = (Inr (), s)"
        using False by (auto simp: ensure_uncompressed_def op_simps)
      ultimately show ?thesis using that [of s u] by metis
    qed
    let ?x = "snd (uncompress_raw lib ?y)"
    have lx: "length ?x \<le> k" "fst (uncompress_raw lib ?y) \<Longrightarrow> length ?x = k"
      using lib Some by (auto simp: lib_lengths_def)
    define v where "v = t\<lparr>uncompressed := Some (blit u 0 ?x)\<rparr>"
    have rk: "in_range 0 (int k) (length u)" using t(3) by (simp add: in_range_def)
    have un: "uncompress_loaded lib n t = (if fst (uncompress_raw lib ?y) then Inr (int k) else Inl (throw_error 5), v)"
      using c Some rk lx(2) i32_int_len [OF k] t(2)
      by (simp add: uncompress_loaded_def s_uncompress_def s_rawUncompress_def impl_rawUncompress_def
          uncompressed_into_def v_def)
    have lb: "length (blit u 0 ?x) = length u" using lx(1) t(3) by (simp add: blit_def)
    have iv: "is_inv D v" using inv lim by (simp add: v_def t(2) is_inv_def)
    have "is_inv D (v\<lparr>uncompressedLimit := int k\<rparr>)"
      using inv lim lb t(3) by (auto simp: v_def t(2) is_inv_def)
    then show ?thesis
      using iv un
      by (simp add: decode_chunk_def bind_get bindS_def [of "liftE _"] liftE_def ul bindS_def [of "ensure_uncompressed _"] t(1)
          bindS_def [of "uncompress_loaded lib n"]) (simp add: modifyS_def)
  qed
qed

lemma load_compressed_runs:
  assumes n: "0 \<le> n"
  shows "runs D (\<lambda>s. drained D s \<and> (\<exists>c. compressed s = Some c \<and> n \<le> int (length c))) (load_compressed n)
    (\<lambda>(r, _) s. uncompressedLimit s = 0 \<and> (\<exists>c. compressed s = Some c \<and> in_range 0 n (length c)
       \<and> (n \<le> r \<longrightarrow> sublist (take (nat n) c) D)))"
proof (rule runsI, goal_cases)
  case (1 s e t)
  then obtain c where "compressed s = Some c" "in_range 0 n (length c)" using n by (auto simp: in_range_def)
  then show ?case using fill_ok [OF _ order_refl n, of 0 c "is_in s"] 1 by (auto simp: load_compressed_def)
next
  case (2 s x t)
  let ?d = "take (nat n) (src_data (is_in s))"
  obtain c where c: "compressed s = Some c" "in_range 0 n (length c)" using 2(1) n by (auto simp: in_range_def)
  obtain src' where f: "fill 0 n 0 (c, is_in s) = (Inr (min n (int (length (src_data (is_in s)))),
      int (length (src_data (is_in s))) < n), (blit c 0 ?d, src'))"
    "src_data src' = drop (nat n) (src_data (is_in s))"
    using fill_ok [OF c(2) order_refl n, of "is_in s"] by auto
  have t: "t = s\<lparr>compressed := Some (blit c 0 ?d), is_in := src'\<rparr>" "x = (min n (int (length (src_data (is_in s)))),
      int (length (src_data (is_in s))) < n)"
    using 2(2) f(1) c(1) by (auto simp: load_compressed_def)
  have suf: "suffix (src_data (is_in s)) D" using 2(1) by (simp add: is_inv_def)
  have "suffix (drop (nat n) (src_data (is_in s))) D" using suffix_drop suf by (rule suffix_order.trans)
  then have "is_inv D t" using 2(1) f(2) by (auto simp: t is_inv_def)
  moreover have "length (blit c 0 ?d) = length c" using c(2) by (auto simp: blit_def in_range_def)
  moreover have "sublist (take (nat n) (blit c 0 ?d)) D" if "n \<le> int (length (src_data (is_in s)))"
  proof -
    have "take (nat n) (blit c 0 ?d) = ?d" using that n by (simp add: blit_def)
    then show ?thesis using take_is_prefix [of "nat n"] suf
      by (metis prefix_imp_sublist suffix_imp_sublist sublist_order.order.trans)
  qed
  ultimately show ?case using c(2) 2(1) by (auto simp: t)
qed

lemma read_chunk_runs:
  assumes "lib_lengths lib" and "honest lib D" and n: "0 \<le> n"
  shows "runs D (drained D) (read_chunk lib n) (\<lambda>_ _. True)"
proof -
  have m: "runs D (drained D) (modifyS (\<lambda>s.
       if compressed s = None \<or> n > int (length (the (compressed s)))
       then s\<lparr>compressed := Some (replicate (nat n) 0)\<rparr> else s))
     (\<lambda>_ s. uncompressedLimit s = 0 \<and> (\<exists>c. compressed s = Some c \<and> n \<le> int (length c)))"
    by (rule runs_modify) (auto simp: is_inv_def)
  show ?thesis
    unfolding read_chunk_def
  proof (rule runs_bind [OF m], rule runs_bind)
    show "runs D (\<lambda>s. is_inv D s \<and> uncompressedLimit s = 0 \<and> (\<exists>c. compressed s = Some c \<and> n \<le> int (length c)))
        (load_compressed n) (\<lambda>(r, _) s. uncompressedLimit s = 0 \<and> (\<exists>c. compressed s = Some c
           \<and> in_range 0 n (length c) \<and> (n \<le> r \<longrightarrow> sublist (take (nat n) c) D)))"
      using load_compressed_runs [OF n] by (rule runs_mono) auto
  next
    fix x :: "int \<times> bool"
    show "runs D (\<lambda>s. is_inv D s \<and> (case x of (r, _) \<Rightarrow> \<lambda>s. uncompressedLimit s = 0 \<and> (\<exists>c. compressed s = Some c
           \<and> in_range 0 n (length c) \<and> (n \<le> r \<longrightarrow> sublist (take (nat n) c) D))) s)
        (case x of (r, _) \<Rightarrow> if r < n then throwS (IOException ''failed to read chunk'') else decode_chunk lib n)
        (\<lambda>_ _. True)"
      unfolding case_prod_beta
      by (intro runs_if runs_throw runs_mono [OF decode_chunk_runs [OF assms(1,2)]]) auto
  qed
qed

section \<open>Finding the next chunk\<close>

lemma isValidHeader_ok: "length h = 16 \<Longrightarrow> (\<exists>b. isValidHeader h = Inr b) \<or> (\<exists>e. isValidHeader h = Inl e \<and> orderly e)"
  by (auto simp: isValidHeader_def codec_readHeader_def)

lemma next_step_runs:
  assumes lib: "lib_lengths lib" "honest lib D"
  shows "runs D (is_inv D) (next_step lib) (\<lambda>_ _. True)"
proof -
  have ri: "\<And>h. length h = 16 \<Longrightarrow> (\<exists>x. readInt h 0 = Inr x) \<or> (\<exists>e. readInt h 0 = Inl e \<and> orderly e)"
    by (simp add: readInt_in_range in_range_def)
  have z: "runs D (is_inv D) (modifyS (\<lambda>s. s\<lparr>uncompressedCursor := 0, uncompressedLimit := 0\<rparr>))
      (\<lambda>_ s. uncompressedLimit s = 0)"
    by (rule runs_modify) (simp add: is_inv_def)
  have r4: "in_range 0 4 16" and r12: "in_range 4 (HEADER_SIZE - 4) 16" by (simp_all add: in_range_def)
  show ?thesis
    unfolding next_step_def
    apply (rule runs_get_same, rule runs_if, rule runs_return, simp)
    apply (rule runs_bind [OF z])
    apply (rule runs_seq [OF readNext_runs [OF r4]], rule runs_if, rule runs_return, simp)
    apply (rule runs_seq [OF runs_header [OF ri]], assumption)
    apply (rule runs_if)
     apply (rule runs_seq [OF readNext_runs [OF r12]], rule runs_if, rule runs_throw, simp, simp)
     apply (rule runs_seq [OF runs_header [OF isValidHeader_ok]], assumption, rule runs_return, simp)
    apply (rule runs_if, rule runs_throw, simp, simp)
    apply (rule runs_get_same, rule runs_if, rule runs_throw, simp, simp)
    apply (rule runs_bind [OF read_chunk_runs [OF lib]], simp, rule runs_return, simp)
    done
qed

lemma hasNextChunk_runs:
  assumes lib: "lib_lengths lib" "honest lib D"
  shows "runs D (is_inv D) (hasNextChunk lib) (\<lambda>_ _. True)"
proof -
  have "lib_lengths lib \<Longrightarrow> honest lib D \<Longrightarrow> is_inv D s \<Longrightarrow>
      is_inv D (snd (hasNextChunk lib s)) \<and> (\<forall>e. fst (hasNextChunk lib s) = Inl e \<longrightarrow> orderly e)" for s
  proof (induction lib s rule: hasNextChunk.induct)
    case (1 lib s)
    note r = next_step_runs [OF 1(2,3)]
    obtain x t where x: "next_step lib s = (x, t)" by fastforce
    show ?case
    proof (cases x)
      case (Inl e)
      then show ?thesis using runs_error [OF r 1(4)] x by (auto simp: hasNextChunk.simps [of lib s])
    next
      case (Inr c)
      have t: "is_inv D t" using runs_result [OF r 1(4)] x Inr by blast
      show ?thesis
        using x Inr t 1(1) [OF x [symmetric] Inr _ 1(2,3) t]
        by (cases c) (simp_all add: hasNextChunk.simps [of lib s])
    qed
  qed
  from this [OF lib] show ?thesis by (intro runsI) (metis fst_conv snd_conv)+
qed

section \<open>Reading\<close>

context chunk_copy
begin

lemma read_loop_orderly:
  assumes lib: "lib_lengths lib" "honest lib D"
  shows "is_inv D s \<Longrightarrow> in_range off len (length b) \<Longrightarrow> 0 \<le> w \<Longrightarrow> w \<le> len \<Longrightarrow>
    \<exists>r b' s'. read_loop lib copy off len w (b, s) = (r, (b', s')) \<and> is_inv D s' \<and> length b' = length b
      \<and> (\<forall>e. r = Inl e \<longrightarrow> orderly e) \<and> (\<forall>k. r = Inr k \<longrightarrow> - 1 \<le> k \<and> k \<le> len)"
proof (induction "left s + nat (len - w)" arbitrary: s w b rule: less_induct)
  case less
  note inv = less.prems(1) and r = less.prems(2) and w = less.prems(3,4)
  show ?case
  proof (cases "w < len")
    case False
    then show ?thesis using inv w by (simp add: read_loop.simps)
  next
    case True
    show ?thesis
    proof (cases "uncompressedCursor s \<ge> uncompressedLimit s")
      case empty: True
      obtain x t where x: "hasNextChunk lib s = (x, t)" by fastforce
      show ?thesis
      proof (cases x)
        case (Inl e)
        then show ?thesis using runs_error [OF hasNextChunk_runs [OF lib] inv] x True empty
          by (simp add: read_loop.simps)
      next
        case (Inr found)
        have t: "is_inv D t" using runs_result [OF hasNextChunk_runs [OF lib] inv] x Inr by blast
        have "found \<Longrightarrow> left t + nat (len - w) < left s + nat (len - w)"
          using hasNextChunk_left [of lib s t] x Inr by simp
        then show ?thesis using less.hyps [OF _ t r w] x Inr True empty t w
          by (cases found) (auto simp: read_loop.simps [of lib copy off len w b s])
      qed
    next
      case chunk: False
      let ?n = "min (uncompressedLimit s - uncompressedCursor s) (len - w)"
      let ?t = "s\<lparr>uncompressedCursor := uncompressedCursor s + ?n\<rparr>"
      obtain u where u: "uncompressed s = Some u" "uncompressedLimit s \<le> int (length u)"
        using inv chunk by (auto simp: is_inv_def)
      have ru: "in_range (uncompressedCursor s) ?n (length u)" and rb: "in_range (off + w) ?n (length b)"
        using inv chunk u(2) r w True by (auto simp: in_range_def is_inv_def)
      let ?b = "blit b (off + w) (segment (uncompressedCursor s) ?n u)"
      have "int (length (segment (uncompressedCursor s) ?n u)) = ?n"
        using ru chunk True by (simp add: segment_simps)
      then have lb: "length ?b = length b" using length_blit [of "off + w" _ b] rb by simp
      have t: "is_inv D ?t" using inv chunk True by (auto simp: is_inv_def min_def)
      have m: "left ?t + nat (len - (w + ?n)) < left s + nat (len - w)"
        using chunk True by (simp add: left_def)
      have step: "read_loop lib copy off len w (b, s) = read_loop lib copy off len (w + ?n) (?b, ?t)"
        using True chunk u(1) copy_in_range [OF ru rb]
        by (simp add: read_loop.simps [of lib copy off len w b s] Let_def)
      have rb': "in_range off len (length ?b)" "0 \<le> w + ?n" "w + ?n \<le> len"
        using r lb w chunk True by auto
      show ?thesis using less.hyps [OF m t rb'] lb unfolding step by metis
    qed
  qed
qed

end

lemma is_read_byte_runs:
  assumes lib: "lib_lengths lib" "honest lib D"
  shows "is_inv D s \<Longrightarrow> is_inv D (snd (is_read_byte lib s)) \<and> (\<forall>e. fst (is_read_byte lib s) = Inl e \<longrightarrow> orderly e)"
proof (induction "left s" arbitrary: s rule: less_induct)
  case less
  note inv = less.prems
  show ?case
  proof (cases "uncompressedCursor s < uncompressedLimit s")
    case True
    then obtain u where "uncompressed s = Some u" "uncompressedLimit s \<le> int (length u)"
      using inv by (auto simp: is_inv_def)
    then show ?thesis using True inv by (simp add: is_read_byte.simps [of lib s] array_get_def is_inv_def)
  next
    case False
    obtain x t where x: "hasNextChunk lib s = (x, t)" by fastforce
    show ?thesis
    proof (cases x)
      case (Inl e)
      then show ?thesis using runs_error [OF hasNextChunk_runs [OF lib] inv] x False
        by (simp add: is_read_byte.simps [of lib s])
    next
      case (Inr found)
      have t: "is_inv D t" using runs_result [OF hasNextChunk_runs [OF lib] inv] x Inr by blast
      have "found \<Longrightarrow> left t < left s" using hasNextChunk_left [of lib s t] x Inr by simp
      then show ?thesis using less.hyps [OF _ t] x Inr False t
        by (cases found) (auto simp: is_read_byte.simps [of lib s])
    qed
  qed
qed

lemma read_do_runs:
  assumes lib: "lib_lengths lib" "honest lib D" and inv: "is_inv D s"
  shows "is_inv D (snd (read_do lib c s)) \<and> (\<forall>e. fst (read_do lib c s) = Inl e \<longrightarrow> orderly e)"
proof (cases c)
  case (Read n)
  have "in_range 0 (int n) (length (replicate n (0 :: byte)))" by (simp add: in_range_def)
  from out_java.read_loop_orderly [OF lib inv this order_refl] show ?thesis
    using Read by (auto simp: is_read_def split: sum.splits)
next
  case (RawRead n)
  have "in_range 0 (int n) (length (replicate n (0 :: byte)))" by (simp add: in_range_def)
  from out_native.read_loop_orderly [OF lib inv this order_refl] show ?thesis
    using RawRead by (auto simp: is_rawRead_def split: sum.splits)
next
  case ReadByte
  then show ?thesis using is_read_byte_runs [OF lib inv]
    by (cases "is_read_byte lib s") (auto simp: bindS_def returnS_def split: sum.splits)
qed

text \<open>Reads that go on after an exception: the result of each call.\<close>

fun read_session :: "snappy_lib \<Rightarrow> read_call list \<Rightarrow> SnappyInputStream \<Rightarrow> bytes result list" where
  "read_session lib [] s = []"
| "read_session lib (c # cs) s = (case read_do lib c s of (r, s') \<Rightarrow> r # read_session lib cs s')"

lemma read_session_orderly:
  assumes "lib_lengths lib" "honest lib D"
  shows "is_inv D s \<Longrightarrow> Inl e \<in> set (read_session lib cs s) \<Longrightarrow> orderly e"
proof (induction cs arbitrary: s)
  case (Cons c cs)
  then show ?case using read_do_runs [OF assms Cons.prems(1), of c]
    by (cases "read_do lib c s") auto
qed simp

definition well_behaved :: "snappy_lib \<Rightarrow> SnappyInputStream \<Rightarrow> bool" where
  "well_behaved lib u \<longleftrightarrow> (\<forall>cs e. Inl e \<in> set (read_session lib cs u) \<longrightarrow> orderly e)"

section \<open>The constructor\<close>

lemma decode_all_orderly:
  assumes lib: "lib_lengths lib" "honest lib D"
    and c: "compressed s = Some c" "in_range 0 n (length c)" "sublist (take (nat n) c) D"
    and s: "src_data (is_in s) = []" "length (is_header s) = 16" "maxChunkSize s \<le> int_max"
  shows "\<exists>r t. decode_all lib n s = (r, t) \<and> (\<forall>e. r = Inl e \<longrightarrow> orderly e) \<and> (\<forall>x. r = Inr x \<longrightarrow> is_inv D t)"
proof (cases "parse_length lib (take (nat n) c)")
  case None
  then have "s_uncompressedLength lib (compressed s) 0 n = Inl (throw_error 2)"
    using c by (simp add: s_uncompressedLength_def impl_uncompressedLength_def)
  then show ?thesis by (simp add: decode_all_def bind_get bind_lift)
next
  case (Some k)
  then have k: "int k \<le> int_max" using lib(2) c(3) by (auto simp: honest_def)
  have ul: "s_uncompressedLength lib (compressed s) 0 n = Inr (int k)"
    using c Some i32_int_len [OF k] by (simp add: s_uncompressedLength_def impl_uncompressedLength_def)
  let ?x = "snd (uncompress_raw lib (take (nat n) c))"
  have lx: "length ?x \<le> k" "fst (uncompress_raw lib (take (nat n) c)) \<Longrightarrow> length ?x = k"
    using lib(1) Some by (auto simp: lib_lengths_def)
  let ?t = "s\<lparr>uncompressed := Some (replicate k 0)\<rparr>"
  let ?v = "s\<lparr>uncompressed := Some (blit (replicate k 0) 0 ?x)\<rparr>"
  have un: "uncompress_loaded lib n ?t
      = (if fst (uncompress_raw lib (take (nat n) c)) then Inr (int k) else Inl (throw_error 5), ?v)"
    using c Some lx(2) i32_int_len [OF k]
    by (simp add: uncompress_loaded_def s_uncompress_def s_rawUncompress_def impl_rawUncompress_def
        uncompressed_into_def in_range_def)
  have "length (blit (replicate k 0) 0 ?x) = k" using lx(1) by (simp add: blit_def)
  then have "is_inv D (?v\<lparr>uncompressedCursor := 0, uncompressedLimit := int k\<rparr>)"
    using s by (simp add: is_inv_def)
  then show ?thesis
    using un by (simp add: decode_all_def bind_run ul new_array_def bindS_def [of "uncompress_loaded lib n"])
      (simp add: modifyS_def)
qed

lemma new_stream_orderly:
  assumes lib: "lib_lengths lib" "honest lib (src_data src)" and m: "m \<le> int_max"
  shows "case new_SnappyInputStream lib src m of Inl e \<Rightarrow> orderly e | Inr u \<Rightarrow> is_inv (src_data src) u"
proof -
  define D where "D = src_data src"
  let ?s0 = "\<lparr>is_in = src, finishedReading = False, maxChunkSize = m, compressed = None, uncompressed = None,
      uncompressedCursor = 0, uncompressedLimit = 0, is_header = replicate 16 0\<rparr>"
  define n where "n = int (min 16 (length D))"
  define h where "h = blit (replicate 16 0) 0 (take 16 D)"
  have "in_range 0 16 (length (replicate 16 (0 :: byte)))" by (simp add: in_range_def)
  from fill_ok [OF this order_refl, of src] obtain src' where
    f: "fill 0 16 0 (replicate 16 0, src) = (Inr (n, length D < 16), (h, src'))" "src_data src' = drop 16 D"
    by (auto simp: n_def h_def D_def)
  let ?s1 = "?s0\<lparr>is_header := h, is_in := src'\<rparr>"
  have lh: "length h = 16" by (simp add: h_def blit_def)
  have th: "D = take (nat n) h @ src_data (is_in ?s1)"
    using f(2) by (simp add: n_def h_def blit_def min_def)
  have fh: "fill_header 0 16 ?s0 = (Inr (n, length D < 16), ?s1)"
    using f(1) by (simp add: fill_header_def)
  have rh: "is_readHeader lib ?s0 = (if n = 0 then (Inl (SnappyIOException EMPTY_INPUT), ?s1)
      else if n < 16 \<or> \<not> hasMagicHeaderPrefix h then readFully lib h n ?s1 else (Inr (), ?s1))"
    using lh by (simp add: is_readHeader_def bind_get bindS_def [of "fill_header 0 16"] fh)
      (simp add: getS_def throwS_def returnS_def)
  have i1: "is_inv D ?s1" using lh f(2) m by (simp add: is_inv_def suffix_drop)
  have "\<exists>r t. is_readHeader lib ?s0 = (r, t) \<and> (\<forall>e. r = Inl e \<longrightarrow> orderly e) \<and> (\<forall>x. r = Inr x \<longrightarrow> is_inv D t)"
  proof (cases "n \<noteq> 0 \<and> (n < 16 \<or> \<not> hasMagicHeaderPrefix h)")
    case False
    then show ?thesis using i1 unfolding rh by auto
  next
    case True
    have fr: "0 < n" "n \<le> 16" "n \<le> int (length h)" using True lh by (auto simp: n_def)
    have rf: "is_readHeader lib ?s0 = readFully lib h n ?s1" using True rh by simp
    from readFully_loaded [OF fr th, of lib] show ?thesis
      unfolding rf
    proof (elim disjE exE conjE)
      assume "fst (readFully lib h n ?s1) = Inl NegativeArraySizeException"
      then show "\<exists>r t. readFully lib h n ?s1 = (r, t) \<and> (\<forall>e. r = Inl e \<longrightarrow> orderly e) \<and> (\<forall>x. r = Inr x \<longrightarrow> is_inv D t)"
        by (cases "readFully lib h n ?s1") auto
    next
      fix c src2
      assume c: "readFully lib h n ?s1 = decode_all lib (int (length D))
          (?s1\<lparr>compressed := Some c, is_in := src2, finishedReading := True\<rparr>)"
        "in_range 0 (int (length D)) (length c)" "take (length D) c = D" "src_data src2 = []"
      have "sublist (take (nat (int (length D))) c) D" using c(3) by simp
      then show "\<exists>r t. readFully lib h n ?s1 = (r, t) \<and> (\<forall>e. r = Inl e \<longrightarrow> orderly e) \<and> (\<forall>x. r = Inr x \<longrightarrow> is_inv D t)"
        unfolding c(1) using decode_all_orderly [OF lib(1) lib(2) [folded D_def] _ c(2)] c(4) lh m by simp
    qed
  qed
  then show ?thesis by (auto simp: new_SnappyInputStream_def D_def split: sum.splits)
qed

section \<open>Property\<close>

text \<open>
  C11: On arbitrary, also malicious, data \<open>SnappyInputStream\<close> stays inside its buffers: if no piece of
  the data claims more than \<open>2 ^ 31 - 1\<close> uncompressed bytes, the constructor and every sequence of
  reads, also of reads after exceptions, end with data or with an exception about the data. They
  never touch memory outside an array, dereference null or loop for ever.
\<close>

theorem input_stays_in_bounds:
  assumes "lib_lengths lib" and "honest lib (src_data src)" and "m \<le> int_max"
  shows "(\<forall>e. new_SnappyInputStream lib src m = Inl e \<longrightarrow> orderly e)
    \<and> (\<forall>u. new_SnappyInputStream lib src m = Inr u \<longrightarrow> well_behaved lib u)"
proof (intro conjI allI impI)
  show "orderly e" if "new_SnappyInputStream lib src m = Inl e" for e
    using new_stream_orderly [OF assms] that by simp
  show "well_behaved lib u" if "new_SnappyInputStream lib src m = Inr u" for u
    using new_stream_orderly [OF assms] read_session_orderly [OF assms(1,2)] that by (auto simp: well_behaved_def)
qed

lemma stored_lib_honest: "length D < 2 ^ 31 \<Longrightarrow> honest stored_lib D"
proof -
  assume D: "length D < 2 ^ 31"
  have "int k \<le> int_max" if "sublist y D" "parse_length stored_lib y = Some k" for y k
  proof -
    have "k \<le> length y" using that(2) by (auto simp: stored_lib_def split: list.splits if_splits)
    also have "\<dots> \<le> length D" using that(1) by (rule sublist_length_le)
    finally show ?thesis using D by (simp add: int_max_def)
  qed
  then show ?thesis by (auto simp: honest_def)
qed

text \<open>The second chunk of this data announces more bytes than there are.\<close>

theorem input_stays_in_bounds_witness:
  "\<exists>u. new_SnappyInputStream stored_lib (demo_source (stream_header @ [0, 0, 0, 2, 1, 7, 0, 0, 0, 9, 1])) 100 = Inr u
    \<and> well_behaved stored_lib u"
proof -
  let ?src = "demo_source (stream_header @ [0, 0, 0, 2, 1, 7, 0, 0, 0, 9, 1])"
  have "src_data ?src = MAGIC_HEADER @ int_be 1 @ int_be 1 @ [0, 0, 0, 2, 1, 7, 0, 0, 0, 9, 1]"
    by (simp add: stream_header_eq)
  from new_stream_header [OF this, of stored_lib 100] obtain u where u: "new_SnappyInputStream stored_lib ?src 100 = Inr u"
    by blast
  have "honest stored_lib (src_data ?src)" by (rule stored_lib_honest) simp
  from input_stays_in_bounds [OF stored_lib_lengths this, of 100] u show ?thesis
    by (auto simp: int_max_def)
qed

end
