(* ===== verification/Buffer_Pool.thy ===== *)
theory Buffer_Pool
  imports Snappy_Api "HOL-Library.Multiset"
begin

text \<open>
  The package \<open>pool\<close>: \<open>CachingBufferPool.java\<close>, \<open>QuiescentBufferPool.java\<close> and the interface
  \<open>BufferPool.java\<close> they implement. A pool maps a size to the queue of the buffers of that size that
  were given back; an entry is a soft reference, \<open>None\<close> once the collector has cleared it. The
  interface is a locale with the promises its clients rely on.
\<close>

section \<open>Sizes\<close>

text \<open>\<open>Integer.numberOfLeadingZeros\<close> of a positive number.\<close>

definition numberOfLeadingZeros :: "int \<Rightarrow> nat" where
  "numberOfLeadingZeros n = length (takeWhile (\<lambda>k. n < 2 ^ k) (rev [0..<32]))"

definition roundToPowers :: "int \<Rightarrow> nat \<Rightarrow> int" where
  "roundToPowers number bits =
     (let mask = push_bit bits (drop_bit bits 0x7FFFFFFF); floor = number AND mask in
      if floor = number then number else i32 (floor + push_bit bits 1))"

definition adjustSize :: "int \<Rightarrow> int" where
  "adjustSize sz =
     (let z = numberOfLeadingZeros sz in
      if z \<in> {1, 2} then (if sz \<le> 0x60000000 then roundToPowers sz 27 else int_max)
      else if z \<in> {3, 4} then roundToPowers sz 24
      else if z \<in> {5, 6, 7} then roundToPowers sz 22
      else if z \<in> {8, 9, 10} then roundToPowers sz 19
      else if z \<in> {11, 12} then roundToPowers sz 17
      else if z \<in> {13, 14, 15, 16} then roundToPowers sz 14
      else if z \<in> {17, 18, 19} then roundToPowers sz 11
      else 4 * 1024)"

section \<open>Queues of soft references\<close>

type_synonym 'e pool_map = "int \<Rightarrow> 'e option list option"

definition optimisticGetEntry :: "int \<Rightarrow> 'e pool_map \<Rightarrow> 'e option list \<times> 'e pool_map" where
  "optimisticGetEntry key m =
     (case m key of None \<Rightarrow> ([], m(key := Some [])) | Some val \<Rightarrow> (val, m))"

text \<open>The loop over \<open>pollFirst\<close>: the first entry that is still there, and the rest of the queue.\<close>

fun poll_loop :: "'e option list \<Rightarrow> 'e option \<times> 'e option list" where
  "poll_loop [] = (None, [])"
| "poll_loop (entry # queue) = (case entry of Some val \<Rightarrow> (Some val, queue) | None \<Rightarrow> poll_loop queue)"

definition getOrCreate :: "(int \<Rightarrow> 'e result) \<Rightarrow> int \<Rightarrow> ('e pool_map, exc, 'e) op" where
  "getOrCreate creator sz m =
     (let adjustedSize = adjustSize sz;
          (queue, m1) = optimisticGetEntry adjustedSize m;
          (val, queue') = poll_loop queue;
          m2 = m1(adjustedSize := Some queue')
      in case val of Some v \<Rightarrow> (Inr v, m2) | None \<Rightarrow> (creator adjustedSize, m2))"

text \<open>The purge loop removes cleared references from the end of the queue.\<close>

definition purge :: "'e option list \<Rightarrow> 'e option list" where
  "purge queue = rev (dropWhile (\<lambda>entry. entry = None) (rev queue))"

definition returnValue :: "'e \<Rightarrow> int \<Rightarrow> 'e pool_map \<Rightarrow> 'e pool_map" where
  "returnValue value sz m =
     (case m sz of None \<Rightarrow> m | Some queue \<Rightarrow> m(sz := Some (purge (Some value # queue))))"

section \<open>CachingBufferPool and QuiescentBufferPool\<close>

record CachingBufferPool =
  pool_bytes :: "bytes pool_map"
  pool_buffers :: "byte_buffer pool_map"

definition new_CachingBufferPool :: CachingBufferPool where
  "new_CachingBufferPool = \<lparr>pool_bytes = (\<lambda>_. None), pool_buffers = (\<lambda>_. None)\<rparr>"

text \<open>\<open>ByteBuffer.allocateDirect\<close> and \<open>Buffer.clear\<close> of the Java library.\<close>

definition allocate_direct :: "int \<Rightarrow> byte_buffer result" where
  "allocate_direct n =
     (if n < 0 then Inl IllegalArgumentException
      else Inr \<lparr>bb_data = replicate (nat n) 0, bb_pos = 0, bb_limit = n, bb_direct = True\<rparr>)"

definition bb_capacity :: "byte_buffer \<Rightarrow> int" where
  "bb_capacity bb = int (length (bb_data bb))"

definition bb_clear :: "byte_buffer \<Rightarrow> byte_buffer" where
  "bb_clear bb = bb\<lparr>bb_pos := 0, bb_limit := bb_capacity bb\<rparr>"

definition caching_allocateArray :: "int \<Rightarrow> (CachingBufferPool, exc, bytes) op" where
  "caching_allocateArray sz p =
     (if sz \<le> 0 then (Inl IllegalArgumentException, p)
      else case getOrCreate new_array sz (pool_bytes p) of (r, m) \<Rightarrow> (r, p\<lparr>pool_bytes := m\<rparr>))"

definition caching_releaseArray :: "bytes \<Rightarrow> CachingBufferPool \<Rightarrow> CachingBufferPool" where
  "caching_releaseArray buffer p =
     p\<lparr>pool_bytes := returnValue buffer (int (length buffer)) (pool_bytes p)\<rparr>"

definition caching_allocateDirect :: "int \<Rightarrow> (CachingBufferPool, exc, byte_buffer) op" where
  "caching_allocateDirect sz p =
     (if sz \<le> 0 then (Inl IllegalArgumentException, p)
      else case getOrCreate allocate_direct sz (pool_buffers p) of (r, m) \<Rightarrow> (r, p\<lparr>pool_buffers := m\<rparr>))"

definition caching_releaseDirect :: "byte_buffer \<Rightarrow> CachingBufferPool \<Rightarrow> CachingBufferPool" where
  "caching_releaseDirect buffer p =
     (let buffer = bb_clear buffer in
      p\<lparr>pool_buffers := returnValue buffer (bb_capacity buffer) (pool_buffers p)\<rparr>)"

text \<open>The two implementations of the interface, and its methods by dynamic dispatch.\<close>

datatype BufferPool = Caching CachingBufferPool | Quiescent

definition quiescent_allocateArray :: "int \<Rightarrow> bytes result" where
  "quiescent_allocateArray sz = new_array sz"

definition quiescent_allocateDirect :: "int \<Rightarrow> byte_buffer result" where
  "quiescent_allocateDirect sz = allocate_direct sz"

fun allocateArray :: "int \<Rightarrow> (BufferPool, exc, bytes) op" where
  "allocateArray sz (Caching p) = (case caching_allocateArray sz p of (r, p') \<Rightarrow> (r, Caching p'))"
| "allocateArray sz Quiescent = (quiescent_allocateArray sz, Quiescent)"

fun releaseArray :: "bytes \<Rightarrow> BufferPool \<Rightarrow> BufferPool" where
  "releaseArray buffer (Caching p) = Caching (caching_releaseArray buffer p)"
| "releaseArray buffer Quiescent = Quiescent"

fun allocateDirect :: "int \<Rightarrow> (BufferPool, exc, byte_buffer) op" where
  "allocateDirect sz (Caching p) = (case caching_allocateDirect sz p of (r, p') \<Rightarrow> (r, Caching p'))"
| "allocateDirect sz Quiescent = (quiescent_allocateDirect sz, Quiescent)"

fun releaseDirect :: "byte_buffer \<Rightarrow> BufferPool \<Rightarrow> BufferPool" where
  "releaseDirect buffer (Caching p) = Caching (caching_releaseDirect buffer p)"
| "releaseDirect buffer Quiescent = Quiescent"

section \<open>Rounding\<close>

lemma and_high_mask:
  assumes "0 \<le> n" and "n \<le> int_max" and "b \<le> 31"
  shows "n AND push_bit b (drop_bit b 0x7FFFFFFF) = push_bit b (drop_bit b n)"
proof (rule bit_eqI)
  fix k
  have "bit (0x7FFFFFFF :: int) k \<longleftrightarrow> k < 31"
  proof -
    have m: "(0x7FFFFFFF :: int) = mask 31" by (simp add: mask_eq_exp_minus_1)
    show ?thesis unfolding m bit_mask_iff by simp
  qed
  moreover have "bit n k \<Longrightarrow> k < 31"
  proof -
    have "n < 2 ^ 31" using assms(2) by (simp add: int_max_def)
    then have "take_bit 31 n = n" using assms(1) by (simp add: take_bit_int_eq_self)
    then show "bit n k \<Longrightarrow> k < 31" by (metis bit_take_bit_iff)
  qed
  ultimately show "bit (n AND push_bit b (drop_bit b 0x7FFFFFFF)) k = bit (push_bit b (drop_bit b n)) k"
    by (auto simp: bit_and_iff bit_push_bit_iff bit_drop_bit_eq comp_def)
qed

lemma roundToPowers_bounds:
  assumes n: "0 \<le> n" "n + 2 ^ b \<le> int_max + 1" and b: "b \<le> 30"
  shows "n \<le> roundToPowers n b \<and> roundToPowers n b < n + 2 ^ b \<and> 2 ^ b dvd roundToPowers n b"
proof -
  have "(1 :: int) \<le> 2 ^ b" by simp
  then have nm: "n \<le> int_max" using n(2) by linarith
  let ?f = "n div 2 ^ b * 2 ^ b"
  have f: "n AND push_bit b (drop_bit b 0x7FFFFFFF) = ?f"
    using and_high_mask [OF n(1) nm, of b] b by (simp add: push_bit_eq_mult drop_bit_eq_div)
  have r: "?f + n mod 2 ^ b = n" "0 \<le> n mod 2 ^ b" "n mod 2 ^ b < 2 ^ b"
    by (simp_all only: div_mult_mod_eq pos_mod_sign pos_mod_bound zero_less_power zero_less_numeral)
  have "is_i32 (?f + 2 ^ b)" if "?f \<noteq> n"
  proof -
    have "0 \<le> ?f" using n(1) by (simp add: pos_imp_zdiv_nonneg_iff)
    moreover have "?f < n" using r that by linarith
    moreover have "0 \<le> (2 :: int) ^ b" by simp
    ultimately have "-2147483648 \<le> ?f + 2 ^ b \<and> ?f + 2 ^ b < 2147483648"
      using n(2) unfolding int_max_def by linarith
    then show ?thesis by (simp add: is_i32_def)
  qed
  then have e: "roundToPowers n b = (if ?f = n then n else ?f + 2 ^ b)"
    unfolding roundToPowers_def f Let_def by (simp add: push_bit_eq_mult)
  have d: "(2 :: int) ^ b dvd ?f" "(2 :: int) ^ b dvd ?f + 2 ^ b" by simp_all
  show ?thesis
  proof (cases "?f = n")
    case True
    then have "roundToPowers n b = n" using e by simp
    then show ?thesis using d(1) True by simp
  next
    case False
    then have "roundToPowers n b = ?f + 2 ^ b" using e by simp
    then show ?thesis using d(2) r False by (intro conjI) (linarith | simp only:)+
  qed
qed

text \<open>The case distinction over the leading zeros is one over the magnitude.\<close>

lemma upt_32: "rev [0..<32] = [31, 30, 29, 28, 27, 26, 25, 24, 23, 22, 21, 20, 19, 18, 17, 16, 15, 14, 13, 12,
    11, 10, 9, 8, 7, 6, 5, 4, 3, 2, 1, 0]"
  by (simp add: upt_rec)

lemma numberOfLeadingZeros_eq:
  assumes "2 ^ k \<le> n" and "n < 2 ^ Suc k" and "k \<le> 31"
  shows "numberOfLeadingZeros n = 31 - k"
proof -
  have "rev [0..<32] = rev [Suc k..<32] @ k # rev [0..<k]"
  proof -
    have "[0..<32] = [0..<Suc k] @ [Suc k..<32]" using assms(3) upt_add_eq_append [of 0 "Suc k" "31 - k"] by simp
    then show ?thesis by simp
  qed
  moreover have "n < 2 ^ j" if "Suc k \<le> j" for j
    using assms(2) power_increasing [OF that, of "2 :: int"] by linarith
  then have "takeWhile (\<lambda>k. n < 2 ^ k) (rev [Suc k..<32] @ k # rev [0..<k]) = rev [Suc k..<32]"
    using assms(1) by (subst takeWhile_append2) auto
  ultimately show ?thesis by (simp add: numberOfLeadingZeros_def)
qed

lemma magnitude: "0 < n \<Longrightarrow> \<exists>k. 2 ^ k \<le> n \<and> n < (2 :: int) ^ Suc k"
proof -
  assume "0 < n"
  then have "2 \<le> (2 :: nat)" "1 \<le> nat n" by simp_all
  then obtain k where "2 ^ k \<le> nat n" "nat n < 2 ^ (k + 1)" using ex_power_ivl1 by blast
  then have "int (2 ^ k) \<le> int (nat n)" "int (nat n) < int (2 ^ (k + 1))"
    by (simp_all only: of_nat_le_iff of_nat_less_iff)
  then show ?thesis using \<open>0 < n\<close> by (intro exI [of _ k]) simp
qed

lemma round_region:
  assumes "0 \<le> n" "n + 2 ^ b \<le> int_max" "b \<le> 30" "2 * 2 ^ b \<le> n"
  shows "n \<le> roundToPowers n b \<and> roundToPowers n b \<le> int_max \<and> 2 * roundToPowers n b \<le> 3 * n"
proof -
  have "n + 2 ^ b \<le> int_max + 1" using assms(2) by simp
  then show ?thesis using roundToPowers_bounds [OF assms(1) _ assms(3)] assms(2,4) by force
qed

lemma leading_zeros_between:
  assumes "2 ^ a \<le> n" and "n < (2 :: int) ^ Suc c" and "c \<le> 30"
  shows "31 - c \<le> numberOfLeadingZeros n" and "numberOfLeadingZeros n \<le> 31 - a"
proof -
  have "0 < (2 :: int) ^ a" by simp
  then have "0 < n" using assms(1) by linarith
  then obtain k where k: "2 ^ k \<le> n" "n < 2 ^ Suc k" using magnitude by blast
  have "(2 :: int) ^ a < 2 ^ Suc k" "(2 :: int) ^ k < 2 ^ Suc c" using assms k by linarith+
  then have "a < Suc k" "k < Suc c" by (simp_all only: power_strict_increasing_iff one_less_numeral_iff semiring_norm)
  moreover from this have "numberOfLeadingZeros n = 31 - k" using numberOfLeadingZeros_eq [OF k] assms(3) by simp
  ultimately show "31 - c \<le> numberOfLeadingZeros n" "numberOfLeadingZeros n \<le> 31 - a" by simp_all
qed

lemma adjustSize_regions:
  "20 \<le> numberOfLeadingZeros n \<Longrightarrow> adjustSize n = 4096"
  "17 \<le> numberOfLeadingZeros n \<Longrightarrow> numberOfLeadingZeros n \<le> 19 \<Longrightarrow> adjustSize n = roundToPowers n 11"
  "13 \<le> numberOfLeadingZeros n \<Longrightarrow> numberOfLeadingZeros n \<le> 16 \<Longrightarrow> adjustSize n = roundToPowers n 14"
  "11 \<le> numberOfLeadingZeros n \<Longrightarrow> numberOfLeadingZeros n \<le> 12 \<Longrightarrow> adjustSize n = roundToPowers n 17"
  "8 \<le> numberOfLeadingZeros n \<Longrightarrow> numberOfLeadingZeros n \<le> 10 \<Longrightarrow> adjustSize n = roundToPowers n 19"
  "5 \<le> numberOfLeadingZeros n \<Longrightarrow> numberOfLeadingZeros n \<le> 7 \<Longrightarrow> adjustSize n = roundToPowers n 22"
  "3 \<le> numberOfLeadingZeros n \<Longrightarrow> numberOfLeadingZeros n \<le> 4 \<Longrightarrow> adjustSize n = roundToPowers n 24"
  "1 \<le> numberOfLeadingZeros n \<Longrightarrow> numberOfLeadingZeros n \<le> 2 \<Longrightarrow>
   adjustSize n = (if n \<le> 0x60000000 then roundToPowers n 27 else int_max)"
proof -
  define z where "z = numberOfLeadingZeros n"
  have e: "adjustSize n =
     (if z = 1 \<or> z = 2 then (if n \<le> 0x60000000 then roundToPowers n 27 else int_max)
      else if z = 3 \<or> z = 4 then roundToPowers n 24
      else if z = 5 \<or> z = 6 \<or> z = 7 then roundToPowers n 22
      else if z = 8 \<or> z = 9 \<or> z = 10 then roundToPowers n 19
      else if z = 11 \<or> z = 12 then roundToPowers n 17
      else if z = 13 \<or> z = 14 \<or> z = 15 \<or> z = 16 then roundToPowers n 14
      else if z = 17 \<or> z = 18 \<or> z = 19 then roundToPowers n 11
      else 4096)"
    unfolding adjustSize_def Let_def z_def insert_iff empty_iff by simp
  show "20 \<le> numberOfLeadingZeros n \<Longrightarrow> adjustSize n = 4096"
    unfolding z_def [symmetric] e by simp
  show "17 \<le> numberOfLeadingZeros n \<Longrightarrow> numberOfLeadingZeros n \<le> 19 \<Longrightarrow> adjustSize n = roundToPowers n 11"
    unfolding z_def [symmetric] e by simp
  show "13 \<le> numberOfLeadingZeros n \<Longrightarrow> numberOfLeadingZeros n \<le> 16 \<Longrightarrow> adjustSize n = roundToPowers n 14"
    unfolding z_def [symmetric] e by simp
  show "11 \<le> numberOfLeadingZeros n \<Longrightarrow> numberOfLeadingZeros n \<le> 12 \<Longrightarrow> adjustSize n = roundToPowers n 17"
    unfolding z_def [symmetric] e by simp
  show "8 \<le> numberOfLeadingZeros n \<Longrightarrow> numberOfLeadingZeros n \<le> 10 \<Longrightarrow> adjustSize n = roundToPowers n 19"
    unfolding z_def [symmetric] e by simp
  show "5 \<le> numberOfLeadingZeros n \<Longrightarrow> numberOfLeadingZeros n \<le> 7 \<Longrightarrow> adjustSize n = roundToPowers n 22"
    unfolding z_def [symmetric] e by simp
  show "3 \<le> numberOfLeadingZeros n \<Longrightarrow> numberOfLeadingZeros n \<le> 4 \<Longrightarrow> adjustSize n = roundToPowers n 24"
    unfolding z_def [symmetric] e by simp
  show "1 \<le> numberOfLeadingZeros n \<Longrightarrow> numberOfLeadingZeros n \<le> 2 \<Longrightarrow>
   adjustSize n = (if n \<le> 0x60000000 then roundToPowers n 27 else int_max)"
    unfolding z_def [symmetric] e by simp
qed

text \<open>The same case distinction over the request itself.\<close>

lemma adjustSize_small: "0 < n \<Longrightarrow> n < 4096 \<Longrightarrow> adjustSize n = 4096"
  using leading_zeros_between [of 0 n 11] by (intro adjustSize_regions) simp

lemma adjustSize_region:
  "4096 \<le> n \<Longrightarrow> n < 32768 \<Longrightarrow> adjustSize n = roundToPowers n 11"
  "32768 \<le> n \<Longrightarrow> n < 524288 \<Longrightarrow> adjustSize n = roundToPowers n 14"
  "524288 \<le> n \<Longrightarrow> n < 2097152 \<Longrightarrow> adjustSize n = roundToPowers n 17"
  "2097152 \<le> n \<Longrightarrow> n < 16777216 \<Longrightarrow> adjustSize n = roundToPowers n 19"
  "16777216 \<le> n \<Longrightarrow> n < 134217728 \<Longrightarrow> adjustSize n = roundToPowers n 22"
  "134217728 \<le> n \<Longrightarrow> n < 536870912 \<Longrightarrow> adjustSize n = roundToPowers n 24"
proof -
  show "4096 \<le> n \<Longrightarrow> n < 32768 \<Longrightarrow> adjustSize n = roundToPowers n 11"
    using leading_zeros_between [of 12 n 14] by (intro adjustSize_regions) simp_all
  show "32768 \<le> n \<Longrightarrow> n < 524288 \<Longrightarrow> adjustSize n = roundToPowers n 14"
    using leading_zeros_between [of 15 n 18] by (intro adjustSize_regions) simp_all
  show "524288 \<le> n \<Longrightarrow> n < 2097152 \<Longrightarrow> adjustSize n = roundToPowers n 17"
    using leading_zeros_between [of 19 n 20] by (intro adjustSize_regions) simp_all
  show "2097152 \<le> n \<Longrightarrow> n < 16777216 \<Longrightarrow> adjustSize n = roundToPowers n 19"
    using leading_zeros_between [of 21 n 23] by (intro adjustSize_regions) simp_all
  show "16777216 \<le> n \<Longrightarrow> n < 134217728 \<Longrightarrow> adjustSize n = roundToPowers n 22"
    using leading_zeros_between [of 24 n 26] by (intro adjustSize_regions) simp_all
  show "134217728 \<le> n \<Longrightarrow> n < 536870912 \<Longrightarrow> adjustSize n = roundToPowers n 24"
    using leading_zeros_between [of 27 n 28] by (intro adjustSize_regions) simp_all
qed

lemma adjustSize_large:
  "536870912 \<le> n \<Longrightarrow> n \<le> int_max \<Longrightarrow> adjustSize n = (if n \<le> 0x60000000 then roundToPowers n 27 else int_max)"
  using leading_zeros_between [of 29 n 30] by (intro adjustSize_regions) (simp_all add: int_max_def)

lemma adjustSize_bounds:
  assumes n: "0 < n" "n \<le> int_max"
  shows "n \<le> adjustSize n \<and> adjustSize n \<le> int_max \<and> (4096 \<le> n \<longrightarrow> 2 * adjustSize n \<le> 3 * n)"
proof -
  consider "n < 4096" | "4096 \<le> n" "n < 32768" | "32768 \<le> n" "n < 524288" | "524288 \<le> n" "n < 2097152" | "2097152 \<le> n" "n < 16777216" | "16777216 \<le> n" "n < 134217728" | "134217728 \<le> n" "n < 536870912" | "536870912 \<le> n" by linarith
  then show ?thesis
  proof cases
    case 1
    then show ?thesis using n adjustSize_small by (simp add: int_max_def)
  next
    case 2
    then show ?thesis using adjustSize_region(1) [of n] round_region [of n 11] by (simp add: int_max_def)
  next
    case 3
    then show ?thesis using adjustSize_region(2) [of n] round_region [of n 14] by (simp add: int_max_def)
  next
    case 4
    then show ?thesis using adjustSize_region(3) [of n] round_region [of n 17] by (simp add: int_max_def)
  next
    case 5
    then show ?thesis using adjustSize_region(4) [of n] round_region [of n 19] by (simp add: int_max_def)
  next
    case 6
    then show ?thesis using adjustSize_region(5) [of n] round_region [of n 22] by (simp add: int_max_def)
  next
    case 7
    then show ?thesis using adjustSize_region(6) [of n] round_region [of n 24] by (simp add: int_max_def)
  next
    case 8
    then show ?thesis
      using adjustSize_large [of n] round_region [of n 27] n(2) by (cases "n \<le> 0x60000000") (simp_all add: int_max_def)
  qed
qed

text \<open>Rounding gives the least multiple above, so larger requests get larger buffers.\<close>

lemma roundToPowers_least:
  assumes "0 \<le> n" "n + 2 ^ b \<le> int_max + 1" "b \<le> 30" "2 ^ b dvd k" "n \<le> k"
  shows "roundToPowers n b \<le> k"
proof (rule ccontr)
  assume c: "\<not> roundToPowers n b \<le> k"
  have r: "n \<le> roundToPowers n b" "roundToPowers n b < n + 2 ^ b" "2 ^ b dvd roundToPowers n b"
    using roundToPowers_bounds [OF assms(1-3)] by simp_all
  have "2 ^ b dvd roundToPowers n b - k" using r(3) assms(4) by (rule dvd_diff)
  then have "2 ^ b \<le> roundToPowers n b - k" using c by (intro zdvd_imp_le) simp_all
  then show False using r(2) assms(5) by linarith
qed

lemma adjustSize_mono_region:
  assumes e: "\<And>x. lo \<le> x \<Longrightarrow> x < hi \<Longrightarrow> adjustSize x = roundToPowers x b"
    and b: "2 ^ b dvd hi" "b \<le> 30" "0 \<le> lo" "hi + 2 ^ b \<le> int_max + 1"
    and n: "lo \<le> n" "n < hi" "n \<le> m" "0 < m" "m \<le> int_max"
  shows "adjustSize n \<le> adjustSize m"
proof -
  have r: "0 \<le> n" "n + 2 ^ b \<le> int_max + 1" using b n by linarith+
  note least = roundToPowers_least [OF r b(2)]
  show ?thesis
  proof (cases "m < hi")
    case True
    then have "0 \<le> m" "m + 2 ^ b \<le> int_max + 1" using b n by linarith+
    note rm = roundToPowers_bounds [OF this b(2)]
    have "roundToPowers n b \<le> roundToPowers m b"
      by (rule least) (use rm n(3) in auto)
    then show ?thesis using e [of n] e [of m] n True by simp
  next
    case False
    then have "m \<le> adjustSize m" using adjustSize_bounds [of m] n by simp
    moreover have "roundToPowers n b \<le> hi" by (rule least) (use b n in auto)
    ultimately show ?thesis using e [of n] n False by simp
  qed
qed

lemma adjustSize_mono:
  assumes n: "0 < n" "n \<le> m" "m \<le> int_max"
  shows "adjustSize n \<le> adjustSize m"
proof -
  note bounds = adjustSize_bounds [of m]
  consider "n < 4096" | "4096 \<le> n" "n < 32768" | "32768 \<le> n" "n < 524288" | "524288 \<le> n" "n < 2097152" | "2097152 \<le> n" "n < 16777216" | "16777216 \<le> n" "n < 134217728" | "134217728 \<le> n" "n < 536870912" | "536870912 \<le> n" "n \<le> 0x60000000" | "0x60000000 < n" by linarith
  then show ?thesis
  proof cases
    case 1
    then show ?thesis using adjustSize_small [of n] adjustSize_small [of m] bounds n by (cases "m < 4096") auto
  next
    case 2
    then show ?thesis
      using adjustSize_mono_region [of 4096 32768 11 n m] adjustSize_region(1) n by (simp add: int_max_def)
  next
    case 3
    then show ?thesis
      using adjustSize_mono_region [of 32768 524288 14 n m] adjustSize_region(2) n by (simp add: int_max_def)
  next
    case 4
    then show ?thesis
      using adjustSize_mono_region [of 524288 2097152 17 n m] adjustSize_region(3) n by (simp add: int_max_def)
  next
    case 5
    then show ?thesis
      using adjustSize_mono_region [of 2097152 16777216 19 n m] adjustSize_region(4) n by (simp add: int_max_def)
  next
    case 6
    then show ?thesis
      using adjustSize_mono_region [of 16777216 134217728 22 n m] adjustSize_region(5) n by (simp add: int_max_def)
  next
    case 7
    then show ?thesis
      using adjustSize_mono_region [of 134217728 536870912 24 n m] adjustSize_region(6) n by (simp add: int_max_def)
  next
    case 8
    then have r: "0 \<le> n" "n + 2 ^ 27 \<le> int_max + 1" by (simp_all add: int_max_def)
    have "roundToPowers n 27 \<le> adjustSize m"
    proof (cases "m \<le> 0x60000000")
      case True
      then have "0 \<le> m" "m + 2 ^ 27 \<le> int_max + 1" using n by (simp_all add: int_max_def)
      from roundToPowers_bounds [OF this] have "2 ^ 27 dvd roundToPowers m 27" "m \<le> roundToPowers m 27" by simp_all
      then show ?thesis using roundToPowers_least [OF r] adjustSize_large [of m] True 8 n by simp
    next
      case False
      have "roundToPowers n 27 \<le> 0x60000000" using roundToPowers_least [OF r, of "0x60000000"] 8 by simp
      then show ?thesis using False adjustSize_large [of m] n by (simp add: int_max_def)
    qed
    then show ?thesis using adjustSize_large [of n] 8 n by simp
  next
    case 9
    then show ?thesis using adjustSize_large [of n] adjustSize_large [of m] n by simp
  qed
qed

section \<open>Allocation and release\<close>

text \<open>
  A pool is good when every buffer that waits in the queue of a size has that size. Clearing soft
  references, which the collector may do at any time, keeps this.
\<close>

definition queues_good :: "('e \<Rightarrow> bool) \<Rightarrow> ('e \<Rightarrow> int) \<Rightarrow> 'e pool_map \<Rightarrow> bool" where
  "queues_good ok sz m \<longleftrightarrow> (\<forall>k q v. m k = Some q \<and> Some v \<in> set q \<longrightarrow> ok v \<and> sz v = k)"

definition collect_entry :: "int \<Rightarrow> nat \<Rightarrow> 'e pool_map \<Rightarrow> 'e pool_map" where
  "collect_entry k i m = m(k := map_option (\<lambda>q. q[i := None]) (m k))"

text \<open>The buffers of a size that can still be handed out.\<close>

definition pooled :: "'e pool_map \<Rightarrow> int \<Rightarrow> 'e multiset" where
  "pooled m k = mset (List.map_filter id (case m k of None \<Rightarrow> [] | Some q \<Rightarrow> q))"

lemma poll_loop_cases:
  "poll_loop q = (v, q') \<Longrightarrow>
   (v = None \<longrightarrow> List.map_filter id q = [] \<and> q' = [])
   \<and> (\<forall>x. v = Some x \<longrightarrow> List.map_filter id q = x # List.map_filter id q' \<and> Some x \<in> set q \<and> set q' \<subseteq> set q)"
  by (induction q) (auto simp: List.map_filter_simps split: option.splits)

lemma purge_filter: "List.map_filter id (purge q) = List.map_filter id q"
proof (induction q rule: rev_induct)
  case (snoc x q)
  then show ?case by (cases x) (simp_all add: purge_def List.map_filter_def)
qed (simp add: purge_def)

lemma set_purge: "set (purge q) \<subseteq> set q"
  using set_dropWhileD by (fastforce simp: purge_def)

lemma collect_good: "queues_good ok sz m \<Longrightarrow> queues_good ok sz (collect_entry k i m)"
  unfolding queues_good_def collect_entry_def
proof (intro allI impI, elim conjE)
  fix k' q v
  assume g: "\<forall>k q v. m k = Some q \<and> Some v \<in> set q \<longrightarrow> ok v \<and> sz v = k"
    and q: "(m(k := map_option (\<lambda>q. q[i := None]) (m k))) k' = Some q" "Some v \<in> set q"
  have "\<exists>q'. m k' = Some q' \<and> Some v \<in> set q'"
  proof (cases "k' = k")
    case True
    then obtain q' where "m k = Some q'" "q = q'[i := None]" using q(1) by auto
    moreover from this have "Some v \<in> insert None (set q')" using q(2) set_update_subset_insert [of q' i None] by auto
    ultimately show ?thesis using True by simp
  qed (use q in simp)
  then show "ok v \<and> sz v = k'" using g by blast
qed

lemma getOrCreate_result:
  assumes "getOrCreate creator n m = (r, m')"
  shows "(r = creator (adjustSize n) \<and> pooled m (adjustSize n) = {#} \<and> pooled m' (adjustSize n) = {#})
      \<or> (\<exists>v q. r = Inr v \<and> m (adjustSize n) = Some q \<and> Some v \<in> set q
           \<and> pooled m (adjustSize n) = add_mset v (pooled m' (adjustSize n)))"
    and "k \<noteq> adjustSize n \<Longrightarrow> m' k = m k"
    and "m' (adjustSize n) \<noteq> None"
    and "queues_good ok sz m \<Longrightarrow> queues_good ok sz m'"
proof -
  define a where "a = adjustSize n"
  define q where "q = (case m a of None \<Rightarrow> [] | Some q \<Rightarrow> q)"
  obtain v q' where v: "poll_loop q = (v, q')" by fastforce
  have o: "optimisticGetEntry a m = (q, if m a = None then m(a := Some []) else m)"
    by (cases "m a") (simp_all add: optimisticGetEntry_def q_def)
  have "(r, m') = (case v of Some x \<Rightarrow> Inr x | None \<Rightarrow> creator a, m(a := Some q'))"
    unfolding assms [symmetric] getOrCreate_def Let_def a_def [symmetric] o by (cases v) (simp_all add: v)
  then have m': "m' = m(a := Some q')" and r: "r = (case v of Some x \<Rightarrow> Inr x | None \<Rightarrow> creator a)"
    by simp_all
  note pc = poll_loop_cases [OF v]
  have p: "pooled m a = mset (List.map_filter id q)" "pooled m' a = mset (List.map_filter id q')"
    by (simp_all add: pooled_def m' q_def split: option.splits)
  show "(r = creator (adjustSize n) \<and> pooled m (adjustSize n) = {#} \<and> pooled m' (adjustSize n) = {#})
      \<or> (\<exists>v q. r = Inr v \<and> m (adjustSize n) = Some q \<and> Some v \<in> set q
           \<and> pooled m (adjustSize n) = add_mset v (pooled m' (adjustSize n)))"
  proof (cases v)
    case None
    then show ?thesis using pc r p unfolding a_def [symmetric] by (simp add: List.map_filter_simps)
  next
    case (Some x)
    then have "m a = Some q" using pc by (auto simp: q_def split: option.splits)
    then show ?thesis using Some pc r p unfolding a_def [symmetric] by simp
  qed
  show "k \<noteq> adjustSize n \<Longrightarrow> m' k = m k" by (simp add: m' a_def)
  show "m' (adjustSize n) \<noteq> None" by (simp add: m' a_def)
  have sub: "set q' \<subseteq> set q" using pc by (cases v) auto
  show "queues_good ok sz m'" if "queues_good ok sz m"
    unfolding queues_good_def m'
  proof (intro allI impI, elim conjE)
    fix k p w assume w: "(m(a := Some q')) k = Some p" "Some w \<in> set p"
    then have "\<exists>p'. m k = Some p' \<and> Some w \<in> set p'"
      using sub by (cases "k = a"; cases "m a") (auto simp: q_def)
    then show "ok w \<and> sz w = k" using that unfolding queues_good_def by blast
  qed
qed

lemma returnValue_result:
  assumes "m (sz v) = Some q"
  shows "pooled (returnValue v (sz v) m) (sz v) = add_mset v (pooled m (sz v))"
    and "ok v \<Longrightarrow> queues_good ok sz m \<Longrightarrow> queues_good ok sz (returnValue v (sz v) m)"
proof -
  show "pooled (returnValue v (sz v) m) (sz v) = add_mset v (pooled m (sz v))"
    by (simp add: pooled_def returnValue_def assms purge_filter List.map_filter_simps)
  show "ok v \<Longrightarrow> queues_good ok sz m \<Longrightarrow> queues_good ok sz (returnValue v (sz v) m)"
    using set_purge [of "Some v # q"] assms by (fastforce simp: queues_good_def returnValue_def split: if_splits)
qed

section \<open>The interface\<close>

text \<open>
  What a client of the interface does, and what may happen in between: it asks for a buffer, gives one
  back, or the collector clears the reference at place \<open>i\<close> of the queue for size \<open>k\<close>.
\<close>

datatype 'e pool_call = Allocate int | Release 'e | Collect int nat

primrec pool_calls :: "(int \<Rightarrow> ('p, exc, 'e) op) \<Rightarrow> ('e \<Rightarrow> 'p \<Rightarrow> 'p) \<Rightarrow> (int \<Rightarrow> nat \<Rightarrow> 'p \<Rightarrow> 'p) \<Rightarrow>
    'e pool_call list \<Rightarrow> 'p \<Rightarrow> (int \<times> 'e result) list \<times> 'p" where
  "pool_calls alloc release clr [] p = ([], p)"
| "pool_calls alloc release clr (c # cs) p =
     (case c of
        Allocate n \<Rightarrow> (let (r, p1) = alloc n p; (rs, p2) = pool_calls alloc release clr cs p1 in ((n, r) # rs, p2))
      | Release v \<Rightarrow> pool_calls alloc release clr cs (release v p)
      | Collect k i \<Rightarrow> pool_calls alloc release clr cs (clr k i p))"

definition proper_calls :: "('e \<Rightarrow> bool) \<Rightarrow> 'e pool_call list \<Rightarrow> bool" where
  "proper_calls ok cs \<longleftrightarrow>
     list_all (\<lambda>c. case c of Allocate n \<Rightarrow> 0 < n \<and> n \<le> int_max | Release v \<Rightarrow> ok v | Collect k i \<Rightarrow> True) cs"

definition all_served :: "('e \<Rightarrow> bool) \<Rightarrow> ('e \<Rightarrow> int) \<Rightarrow> (int \<times> 'e result) list \<Rightarrow> bool" where
  "all_served fresh sz rs \<longleftrightarrow>
     list_all (\<lambda>(n, r). case r of Inl _ \<Rightarrow> False | Inr v \<Rightarrow> fresh v \<and> n \<le> sz v) rs"

locale buffer_pool =
  fixes alloc :: "int \<Rightarrow> ('p, exc, 'e) op"
    and release :: "'e \<Rightarrow> 'p \<Rightarrow> 'p"
    and clr :: "int \<Rightarrow> nat \<Rightarrow> 'p \<Rightarrow> 'p"
    and good :: "'p \<Rightarrow> bool"
    and ok :: "'e \<Rightarrow> bool"
    and fresh :: "'e \<Rightarrow> bool"
    and sz :: "'e \<Rightarrow> int"
  assumes alloc_served: "0 < n \<Longrightarrow> n \<le> int_max \<Longrightarrow> good p \<Longrightarrow>
            \<exists>v p'. alloc n p = (Inr v, p') \<and> fresh v \<and> n \<le> sz v \<and> good p'"
    and release_good: "ok v \<Longrightarrow> good p \<Longrightarrow> good (release v p)"
    and clr_good: "good p \<Longrightarrow> good (clr k i p)"
begin

lemma calls_served:
  "good p \<Longrightarrow> proper_calls ok cs \<Longrightarrow> pool_calls alloc release clr cs p = (rs, p') \<Longrightarrow>
   all_served fresh sz rs \<and> good p'"
proof (induction cs arbitrary: p rs p')
  case Nil
  then show ?case by (simp add: all_served_def)
next
  case (Cons c cs)
  show ?case
  proof (cases c)
    case (Allocate n)
    then have n: "0 < n" "n \<le> int_max" using Cons.prems(2) by (simp_all add: proper_calls_def)
    obtain v p1 where v: "alloc n p = (Inr v, p1)" "fresh v" "n \<le> sz v" "good p1"
      using alloc_served [OF n Cons.prems(1)] by blast
    obtain rs2 p2 where r: "pool_calls alloc release clr cs p1 = (rs2, p2)" by fastforce
    then have "rs = (n, Inr v) # rs2" "p' = p2" using Cons.prems(3) v(1) Allocate by simp_all
    then show ?thesis
      using Cons.IH [OF v(4) _ r] Cons.prems(2) v(2,3) by (simp add: all_served_def proper_calls_def)
  next
    case (Release w)
    then show ?thesis
      using Cons.IH [OF release_good [OF _ Cons.prems(1), of w]] Cons.prems(2,3) by (simp add: proper_calls_def)
  next
    case (Collect k i)
    then show ?thesis
      using Cons.IH [OF clr_good [OF Cons.prems(1)]] Cons.prems(2,3) by (simp add: proper_calls_def)
  qed
qed

end

text \<open>
  Both kinds of buffers of both implementations keep the promise. A direct buffer comes out cleared: its
  window is the whole buffer.
\<close>

definition arr_len :: "bytes \<Rightarrow> int" where
  "arr_len b = int (length b)"

definition bb_whole :: "byte_buffer \<Rightarrow> bool" where
  "bb_whole bb \<longleftrightarrow> bb_direct bb \<and> bb_pos bb = 0 \<and> bb_limit bb = bb_capacity bb"

fun good_pool :: "BufferPool \<Rightarrow> bool" where
  "good_pool (Caching p) \<longleftrightarrow>
     queues_good (\<lambda>_. True) arr_len (pool_bytes p) \<and> queues_good bb_whole bb_capacity (pool_buffers p)"
| "good_pool Quiescent \<longleftrightarrow> True"

fun collect_array :: "int \<Rightarrow> nat \<Rightarrow> BufferPool \<Rightarrow> BufferPool" where
  "collect_array k i (Caching p) = Caching (p\<lparr>pool_bytes := collect_entry k i (pool_bytes p)\<rparr>)"
| "collect_array k i Quiescent = Quiescent"

fun collect_direct :: "int \<Rightarrow> nat \<Rightarrow> BufferPool \<Rightarrow> BufferPool" where
  "collect_direct k i (Caching p) = Caching (p\<lparr>pool_buffers := collect_entry k i (pool_buffers p)\<rparr>)"
| "collect_direct k i Quiescent = Quiescent"

lemma getOrCreate_served:
  assumes n: "0 < n" "n \<le> int_max" and g: "queues_good ok sz m"
    and c: "\<And>k. 0 < k \<Longrightarrow> \<exists>v. creator k = Inr v \<and> ok v \<and> sz v = k"
  shows "\<exists>v m'. getOrCreate creator n m = (Inr v, m') \<and> ok v \<and> sz v = adjustSize n \<and> queues_good ok sz m'"
proof -
  obtain r m' where r: "getOrCreate creator n m = (r, m')" by fastforce
  have b: "n \<le> adjustSize n" using adjustSize_bounds [OF n] by simp
  then have "\<exists>v. creator (adjustSize n) = Inr v \<and> ok v \<and> sz v = adjustSize n" using c n(1) by simp
  then have "\<exists>v. r = Inr v \<and> ok v \<and> sz v = adjustSize n"
    using getOrCreate_result(1) [OF r] g unfolding queues_good_def by metis
  then show ?thesis using r getOrCreate_result(4) [OF r g] by auto
qed

lemma returnValue_good:
  "ok v \<Longrightarrow> queues_good ok sz m \<Longrightarrow> sz v = k \<Longrightarrow> queues_good ok sz (returnValue v k m)"
  using returnValue_result(2) [of m sz v _ ok] by (cases "m k") (auto simp: returnValue_def)

lemma allocate_direct_whole: "0 < k \<Longrightarrow> \<exists>v. allocate_direct k = Inr v \<and> bb_whole v \<and> bb_capacity v = k"
  by (simp add: allocate_direct_def bb_whole_def bb_capacity_def)

lemma new_array_len: "0 < k \<Longrightarrow> \<exists>v. new_array k = Inr v \<and> arr_len v = k"
  by (simp add: new_array_def arr_len_def)

text \<open>The size class a pool serves a request from.\<close>

fun pool_size :: "BufferPool \<Rightarrow> int \<Rightarrow> int" where
  "pool_size (Caching p) n = adjustSize n"
| "pool_size Quiescent n = n"

lemma pool_size_ge: "0 < n \<Longrightarrow> n \<le> int_max \<Longrightarrow> n \<le> pool_size p n \<and> pool_size p n \<le> int_max"
  by (cases p) (simp_all add: adjustSize_bounds)

lemma pool_size_mono: "0 < n \<Longrightarrow> n \<le> m \<Longrightarrow> m \<le> int_max \<Longrightarrow> pool_size p n \<le> pool_size p m"
  by (cases p) (simp_all add: adjustSize_mono)

lemma pool_size_release [simp]:
  "pool_size (releaseArray a p) = pool_size p" "pool_size (releaseDirect b p) = pool_size p"
  by (cases p; simp add: fun_eq_iff)+

lemma allocateArray_served:
  assumes n: "0 < n" "n \<le> int_max" and g: "good_pool p"
  shows "\<exists>v p'. allocateArray n p = (Inr v, p') \<and> arr_len v = pool_size p n \<and> good_pool p'
    \<and> pool_size p' = pool_size p"
proof (cases p)
  case (Caching c)
  then obtain v m where "getOrCreate new_array n (pool_bytes c) = (Inr v, m)" "arr_len v = adjustSize n"
      "queues_good (\<lambda>_. True) arr_len m"
    using getOrCreate_served [OF n, of "\<lambda>_. True" arr_len "pool_bytes c" new_array] g new_array_len by auto
  then show ?thesis using Caching g n by (simp add: caching_allocateArray_def fun_eq_iff)
next
  case Quiescent
  then show ?thesis using new_array_len [OF n(1)] by (auto simp: quiescent_allocateArray_def)
qed

lemma allocateDirect_served:
  assumes n: "0 < n" "n \<le> int_max" and g: "good_pool p"
  shows "\<exists>v p'. allocateDirect n p = (Inr v, p') \<and> bb_whole v \<and> bb_capacity v = pool_size p n \<and> good_pool p'
    \<and> pool_size p' = pool_size p"
proof (cases p)
  case (Caching c)
  then obtain v m where "getOrCreate allocate_direct n (pool_buffers c) = (Inr v, m)" "bb_capacity v = adjustSize n" "bb_whole v"
      "queues_good bb_whole bb_capacity m"
    using getOrCreate_served [OF n, of bb_whole bb_capacity "pool_buffers c" allocate_direct] g allocate_direct_whole
    by auto
  then show ?thesis using Caching g n by (simp add: caching_allocateDirect_def fun_eq_iff)
next
  case Quiescent
  then show ?thesis using allocate_direct_whole [OF n(1)] by (auto simp: quiescent_allocateDirect_def)
qed

lemma bb_clear_whole: "bb_direct v \<Longrightarrow> bb_whole (bb_clear v)"
  by (simp add: bb_whole_def bb_clear_def bb_capacity_def)

lemma releaseArray_good: "good_pool p \<Longrightarrow> good_pool (releaseArray v p)"
  by (cases p) (simp_all add: caching_releaseArray_def returnValue_good arr_len_def)

lemma releaseDirect_good: "bb_direct v \<Longrightarrow> good_pool p \<Longrightarrow> good_pool (releaseDirect v p)"
  by (cases p) (simp_all add: caching_releaseDirect_def Let_def returnValue_good bb_clear_whole)

interpretation arrays: buffer_pool allocateArray releaseArray collect_array good_pool "\<lambda>_. True" "\<lambda>_. True" arr_len
proof unfold_locales
  show "good_pool p \<Longrightarrow> good_pool (collect_array k i p)" for p k i by (cases p) (simp_all add: collect_good)
  show "\<exists>v p'. allocateArray n p = (Inr v, p') \<and> True \<and> n \<le> arr_len v \<and> good_pool p'"
    if "0 < n" "n \<le> int_max" "good_pool p" for n p
    using allocateArray_served [OF that] pool_size_ge [OF that(1,2), of p] by auto
qed (rule releaseArray_good)

interpretation directs: buffer_pool allocateDirect releaseDirect collect_direct good_pool bb_direct bb_whole bb_capacity
proof unfold_locales
  show "good_pool p \<Longrightarrow> good_pool (collect_direct k i p)" for p k i by (cases p) (simp_all add: collect_good)
  show "\<exists>v p'. allocateDirect n p = (Inr v, p') \<and> bb_whole v \<and> n \<le> bb_capacity v \<and> good_pool p'"
    if "0 < n" "n \<le> int_max" "good_pool p" for n p
    using allocateDirect_served [OF that] pool_size_ge [OF that(1,2), of p] by auto
qed (rule releaseDirect_good)

section \<open>Properties\<close>

text \<open>
  Rounding a request up never makes it smaller and never overflows, and from the page size on it
  wastes at most half of the request.
\<close>

theorem adjustSize_rounds_up:
  assumes "0 < n" and "n \<le> int_max"
  shows "n \<le> adjustSize n \<and> adjustSize n \<le> int_max \<and> (4096 \<le> n \<longrightarrow> 2 * adjustSize n \<le> 3 * n)"
  using adjustSize_bounds [OF assms] .

lemma adjustSize_rounds_up_witness: "adjustSize 5000 = 6144 \<and> (5000 :: int) \<le> adjustSize 5000"
proof -
  have "adjustSize 5000 = 6144" by code_simp
  moreover have "(0 :: int) < 5000" "5000 \<le> int_max" by (simp_all add: int_max_def)
  ultimately show ?thesis using adjustSize_rounds_up [of 5000] by simp
qed

text \<open>
  A waiting buffer is handed out once: an allocation that finds a live reference takes exactly one of
  the waiting buffers of its size class out of the pool, an allocation that creates a buffer does so only
  when none waits, and a release puts exactly the returned buffer back, or leaves the pool alone when its
  size was never asked for.
\<close>

theorem pool_hands_out_once:
  "(case getOrCreate creator n m of (r, m') \<Rightarrow>
      (if pooled m (adjustSize n) = {#} then r = creator (adjustSize n) \<and> pooled m' (adjustSize n) = {#}
       else \<exists>v. r = Inr v \<and> v \<in># pooled m (adjustSize n)
              \<and> pooled m' (adjustSize n) = pooled m (adjustSize n) - {#v#}))
   \<and> pooled (returnValue w k m) k = (case m k of None \<Rightarrow> pooled m k | Some _ \<Rightarrow> add_mset w (pooled m k))"
proof -
  obtain r m' where r: "getOrCreate creator n m = (r, m')" by fastforce
  have "if pooled m (adjustSize n) = {#} then r = creator (adjustSize n) \<and> pooled m' (adjustSize n) = {#}
       else \<exists>v. r = Inr v \<and> v \<in># pooled m (adjustSize n)
              \<and> pooled m' (adjustSize n) = pooled m (adjustSize n) - {#v#}"
    using getOrCreate_result(1) [OF r] by auto
  moreover have "pooled (returnValue w k m) k = (case m k of None \<Rightarrow> pooled m k | Some _ \<Rightarrow> add_mset w (pooled m k))"
    using returnValue_result(1) [of m "\<lambda>_. k" w] by (cases "m k") (simp_all add: returnValue_def)
  ultimately show ?thesis using r by simp
qed

text \<open>
  C14: Whatever the calls and whatever references the collector clears in between, a pool of either kind
  serves every request with a direct buffer that is at least as large as asked for and whose window is
  the whole buffer.
\<close>

theorem pool_serves_requests:
  assumes "proper_calls bb_direct cs" and "good_pool p"
    and "pool_calls allocateDirect releaseDirect collect_direct cs p = (rs, p')"
  shows "all_served bb_whole bb_capacity rs \<and> good_pool p'"
  using directs.calls_served [OF assms(2,1,3)] .

definition demo_calls :: "byte_buffer pool_call list" where
  "demo_calls = [Allocate 5, Release \<lparr>bb_data = replicate 4096 7, bb_pos = 3, bb_limit = 9, bb_direct = True\<rparr>,
     Collect 4096 5, Allocate 9]"

lemma pool_serves_requests_witness:
  "all_served bb_whole bb_capacity (fst (pool_calls allocateDirect releaseDirect collect_direct demo_calls
     (Caching new_CachingBufferPool)))"
proof -
  have "proper_calls bb_direct demo_calls" by (simp add: demo_calls_def proper_calls_def int_max_def)
  moreover have "good_pool (Caching new_CachingBufferPool)"
    by (simp add: new_CachingBufferPool_def queues_good_def)
  ultimately show ?thesis
    using pool_serves_requests [OF _ _ prod.collapse [symmetric]] by metis
qed

end
