(* ===== verification/Direct_Buffers.thy ===== *)
theory Direct_Buffers
  imports Buffer_Pool
begin

text \<open>
  \<open>pool/DirectByteBuffers.java\<close>, by which \<open>QuiescentBufferPool\<close> gives native memory back at once. What
  reflection finds depends on the virtual machine: each step of the search may throw, and the machine is
  a parameter. The state is the list of the memory regions that were freed.
\<close>

section \<open>The virtual machine\<close>

text \<open>\<open>catch (Exception e)\<close> lets errors pass, \<open>catch (Throwable t)\<close> nothing.\<close>

datatype throwable = JavaException string | JavaError string

text \<open>The reflective calls of the class initializer, in their order.\<close>

datatype reflective =
    LoadDirectByteBuffer
  | ForNameUnsafe | FindInvokeCleaner | FieldTheUnsafe | TheUnsafeAccessible | GetTheUnsafe | BindToUnsafe
  | GetMethodCleaner | CleanerAccessible | UnreflectCleaner | FindClean | FindNonNull | DropArguments | CombineHandles

record java_vm =
  vm_throws :: "reflective \<Rightarrow> throwable option"
  vm_denies :: "throwable option"

definition attempt :: "java_vm \<Rightarrow> reflective \<Rightarrow> throwable + unit" where
  "attempt vm c = (case vm_throws vm c of None \<Rightarrow> Inr () | Some t \<Rightarrow> Inl t)"

text \<open>
  A buffer on the heap; a direct buffer over a region of memory, which it owns or, as a slice or a
  duplicate, looks at; and a direct buffer over memory that native code handed out.
\<close>

datatype native_buffer = HeapBuffer | OwningBuffer nat | BufferView nat | ForeignBuffer nat

definition is_direct :: "native_buffer \<Rightarrow> bool" where
  "is_direct b \<longleftrightarrow> b \<noteq> HeapBuffer"

section \<open>Finding a handle\<close>

datatype clean_handle = InvokeCleaner | CleanerClean

definition direct_class_found :: "java_vm \<Rightarrow> bool" where
  "direct_class_found vm \<longleftrightarrow> vm_throws vm LoadDirectByteBuffer = None"

definition lookup_unsafe :: "java_vm \<Rightarrow> throwable + clean_handle" where
  "lookup_unsafe vm =
     bindE (attempt vm ForNameUnsafe) (\<lambda>_.
     bindE (attempt vm FindInvokeCleaner) (\<lambda>_.
     bindE (attempt vm FieldTheUnsafe) (\<lambda>_.
     bindE (attempt vm TheUnsafeAccessible) (\<lambda>_.
     bindE (attempt vm GetTheUnsafe) (\<lambda>_.
     bindE (attempt vm BindToUnsafe) (\<lambda>_. Inr InvokeCleaner))))))"

definition lookup_cleaner :: "java_vm \<Rightarrow> throwable + clean_handle" where
  "lookup_cleaner vm =
     bindE (attempt vm GetMethodCleaner) (\<lambda>_.
     bindE (attempt vm CleanerAccessible) (\<lambda>_.
     bindE (attempt vm UnreflectCleaner) (\<lambda>_.
     bindE (attempt vm FindClean) (\<lambda>_.
     bindE (attempt vm FindNonNull) (\<lambda>_.
     bindE (attempt vm DropArguments) (\<lambda>_.
     bindE (attempt vm CombineHandles) (\<lambda>_. Inr CleanerClean)))))))"

definition find_handle :: "java_vm \<Rightarrow> throwable + clean_handle option" where
  "find_handle vm =
     (if direct_class_found vm then
        (case lookup_unsafe vm of
           Inr h \<Rightarrow> Inr (Some h)
         | Inl (JavaException e) \<Rightarrow> bindE (lookup_cleaner vm) (\<lambda>h. Inr (Some h))
         | Inl (JavaError e) \<Rightarrow> Inl (JavaError e))
      else Inr None)"

definition CLEAN_HANDLE :: "java_vm \<Rightarrow> clean_handle option" where
  "CLEAN_HANDLE vm = (case find_handle vm of Inl _ \<Rightarrow> None | Inr h \<Rightarrow> h)"

section \<open>Releasing a buffer\<close>

text \<open>\<open>sun.misc.Cleaner.clean\<close> runs its deallocator the first time only.\<close>

definition cleaner_clean :: "nat \<Rightarrow> nat list \<Rightarrow> nat list" where
  "cleaner_clean k freed = (if k \<in> set freed then freed else k # freed)"

text \<open>
  \<open>Unsafe.invokeCleaner\<close> refuses buffers on the heap and views; the combined handle of Java 8 casts its
  argument and does nothing where there is no cleaner.
\<close>

fun invoke_handle :: "clean_handle \<Rightarrow> native_buffer \<Rightarrow> nat list \<Rightarrow> (throwable + unit) \<times> nat list" where
  "invoke_handle InvokeCleaner HeapBuffer freed = (Inl (JavaException ''IllegalArgumentException''), freed)"
| "invoke_handle InvokeCleaner (BufferView k) freed = (Inl (JavaException ''IllegalArgumentException''), freed)"
| "invoke_handle InvokeCleaner (ForeignBuffer k) freed = (Inr (), freed)"
| "invoke_handle InvokeCleaner (OwningBuffer k) freed = (Inr (), cleaner_clean k freed)"
| "invoke_handle CleanerClean HeapBuffer freed = (Inl (JavaException ''ClassCastException''), freed)"
| "invoke_handle CleanerClean (BufferView k) freed = (Inr (), freed)"
| "invoke_handle CleanerClean (ForeignBuffer k) freed = (Inr (), freed)"
| "invoke_handle CleanerClean (OwningBuffer k) freed = (Inr (), cleaner_clean k freed)"

text \<open>
  With assertions enabled, a null reference or a buffer on the heap is an \<open>AssertionError\<close>. What the
  handle throws is logged; \<open>isInstance\<close> is false of null and of buffers on the heap.
\<close>

definition releaseDirectByteBuffer :: "bool \<Rightarrow> java_vm \<Rightarrow> native_buffer option \<Rightarrow> (nat list, throwable, unit) op" where
  "releaseDirectByteBuffer assertions vm buffer freed =
     (if assertions \<and> \<not> (case buffer of None \<Rightarrow> False | Some b \<Rightarrow> is_direct b)
      then (Inl (JavaError ''AssertionError''), freed)
      else
        (case (CLEAN_HANDLE vm, buffer) of
           (Some h, Some b) \<Rightarrow>
             if is_direct b
             then (Inr (), case vm_denies vm of Some t \<Rightarrow> freed | None \<Rightarrow> snd (invoke_handle h b freed))
             else (Inr (), freed)
         | _ \<Rightarrow> (Inr (), freed)))"

definition quiescent_releaseDirect :: "bool \<Rightarrow> java_vm \<Rightarrow> native_buffer option \<Rightarrow> (nat list, throwable, unit) op" where
  "quiescent_releaseDirect assertions vm buffer freed =
     (if assertions \<and> \<not> (case buffer of None \<Rightarrow> False | Some b \<Rightarrow> is_direct b)
      then (Inl (JavaError ''AssertionError''), freed)
      else releaseDirectByteBuffer assertions vm buffer freed)"

primrec quiescent_releases :: "bool \<Rightarrow> java_vm \<Rightarrow> native_buffer option list \<Rightarrow> (nat list, throwable, unit) op" where
  "quiescent_releases assertions vm [] = returnS ()"
| "quiescent_releases assertions vm (b # bs) =
     bindS (quiescent_releaseDirect assertions vm b) (\<lambda>_. quiescent_releases assertions vm bs)"

section \<open>Lemmas\<close>

lemma attempt_Inr [simp]: "attempt vm c = Inr u \<longleftrightarrow> vm_throws vm c = None"
  by (simp add: attempt_def split: option.splits)

text \<open>Which handle is found: the newer one if nothing throws, else the older one unless an error got through.\<close>

lemma lookup_unsafe_Inr:
  "lookup_unsafe vm = Inr h \<longleftrightarrow> h = InvokeCleaner \<and> list_all (\<lambda>c. vm_throws vm c = None)
     [ForNameUnsafe, FindInvokeCleaner, FieldTheUnsafe, TheUnsafeAccessible, GetTheUnsafe, BindToUnsafe]"
  by (auto simp: lookup_unsafe_def bindE_Inr_iff)

lemma lookup_cleaner_Inr:
  "lookup_cleaner vm = Inr h \<longleftrightarrow> h = CleanerClean \<and> list_all (\<lambda>c. vm_throws vm c = None)
     [GetMethodCleaner, CleanerAccessible, UnreflectCleaner, FindClean, FindNonNull, DropArguments, CombineHandles]"
  by (auto simp: lookup_cleaner_def bindE_Inr_iff)

lemma clean_handle_cases:
  "CLEAN_HANDLE vm = Some h \<longleftrightarrow> direct_class_found vm
     \<and> (lookup_unsafe vm = Inr h \<or> (\<exists>e. lookup_unsafe vm = Inl (JavaException e)) \<and> lookup_cleaner vm = Inr h)"
proof (cases "lookup_unsafe vm")
  case (Inl t)
  then show ?thesis
    by (cases t; cases "lookup_cleaner vm") (simp_all add: CLEAN_HANDLE_def find_handle_def)
qed (simp add: CLEAN_HANDLE_def find_handle_def)

definition can_free :: "java_vm \<Rightarrow> bool" where
  "can_free vm \<longleftrightarrow> CLEAN_HANDLE vm \<noteq> None \<and> vm_denies vm = None"

lemma invoke_handle_frees:
  "is_direct b \<Longrightarrow> snd (invoke_handle h b freed) = (case b of OwningBuffer k \<Rightarrow> cleaner_clean k freed | _ \<Rightarrow> freed)"
  by (cases h; cases b) (simp_all add: is_direct_def)

definition legal_release :: "bool \<Rightarrow> native_buffer option \<Rightarrow> bool" where
  "legal_release assertions b \<longleftrightarrow> (assertions \<longrightarrow> (case b of None \<Rightarrow> False | Some b \<Rightarrow> is_direct b))"

lemma quiescent_releaseDirect_frees:
  assumes "legal_release assertions b"
  shows "quiescent_releaseDirect assertions vm b freed
     = (Inr (), case b of Some (OwningBuffer k) \<Rightarrow> if can_free vm then cleaner_clean k freed else freed | _ \<Rightarrow> freed)"
  using assms
  by (auto simp: quiescent_releaseDirect_def releaseDirectByteBuffer_def legal_release_def can_free_def invoke_handle_frees
      is_direct_def split: option.splits native_buffer.splits)

lemma quiescent_releases_frees:
  assumes "list_all (legal_release assertions) bs" and "distinct freed"
  obtains freed' where "quiescent_releases assertions vm bs freed = (Inr (), freed')" and "distinct freed'"
    and "set freed' = set freed \<union> (if can_free vm then {k. Some (OwningBuffer k) \<in> set bs} else {})"
  using assms
proof (induction bs arbitrary: freed thesis)
  case Nil
  then show ?case by (simp add: returnS_def)
next
  case (Cons b bs)
  let ?f = "case b of Some (OwningBuffer k) \<Rightarrow> if can_free vm then cleaner_clean k freed else freed | _ \<Rightarrow> freed"
  have d: "distinct ?f" using Cons.prems(3) by (auto simp: cleaner_clean_def split: option.splits native_buffer.splits)
  have s: "set ?f = set freed \<union> (if can_free vm then {k. b = Some (OwningBuffer k)} else {})"
    by (auto simp: cleaner_clean_def split: option.splits native_buffer.splits)
  have r: "quiescent_releaseDirect assertions vm b freed = (Inr (), ?f)"
    using quiescent_releaseDirect_frees Cons.prems(2) by simp
  have l: "list_all (legal_release assertions) bs" using Cons.prems(2) by simp
  obtain f' where f': "quiescent_releases assertions vm bs ?f = (Inr (), f')" "distinct f'"
    "set f' = set ?f \<union> (if can_free vm then {k. Some (OwningBuffer k) \<in> set bs} else {})"
    using Cons.IH [OF _ l d] by blast
  show ?case by (rule Cons.prems(1) [of f']) (use f' s r in \<open>auto simp: bindS_def\<close>)
qed

section \<open>The property\<close>

text \<open>
  C21: Whatever the virtual machine lets the class find, a sequence of releases of direct buffers returns
  normally, and no memory is freed twice, although buffers may be released again. Memory is freed for
  exactly the buffers that own theirs, never under a slice, a duplicate or a buffer of native code, and
  only where a handle was found and may be used.
\<close>

theorem direct_buffers_freed_once:
  assumes "list_all (legal_release assertions) bs"
  shows "\<exists>freed. quiescent_releases assertions vm bs [] = (Inr (), freed) \<and> distinct freed
    \<and> set freed = (if CLEAN_HANDLE vm \<noteq> None \<and> vm_denies vm = None then {k. Some (OwningBuffer k) \<in> set bs} else {})"
proof -
  have "distinct ([] :: nat list)" by simp
  from quiescent_releases_frees [OF assms this, of vm]
  obtain freed where "quiescent_releases assertions vm bs [] = (Inr (), freed)" "distinct freed"
    "set freed = set [] \<union> (if can_free vm then {k. Some (OwningBuffer k) \<in> set bs} else {})" by blast
  then show ?thesis unfolding can_free_def by (intro exI [of _ freed]) simp
qed

text \<open>A machine of Java 8, which has no \<open>invokeCleaner\<close>.\<close>

definition java8_vm :: java_vm where
  "java8_vm = \<lparr>vm_throws = (\<lambda>c. if c = FindInvokeCleaner then Some (JavaException ''NoSuchMethodException'') else None),
     vm_denies = None\<rparr>"

lemma java8_handle: "CLEAN_HANDLE java8_vm = Some CleanerClean" by code_simp

theorem direct_buffers_freed_once_witness:
  "\<exists>freed. quiescent_releases True java8_vm [Some (OwningBuffer 3), Some (BufferView 4), Some (OwningBuffer 3), Some (OwningBuffer 5)] []
      = (Inr (), freed) \<and> distinct freed \<and> set freed = {3, 5}"
proof -
  let ?bs = "[Some (OwningBuffer 3), Some (BufferView 4), Some (OwningBuffer 3), Some (OwningBuffer 5)]"
  have l: "list_all (legal_release True) ?bs" by (simp add: legal_release_def is_direct_def)
  have "{k. Some (OwningBuffer k) \<in> set ?bs} = {3, 5}" by auto
  moreover have "vm_denies java8_vm = None" by (simp add: java8_vm_def)
  ultimately show ?thesis using direct_buffers_freed_once [OF l, of java8_vm] java8_handle by simp
qed

end
