(* ===== verification/Pool_Threads.thy ===== *)
theory Pool_Threads
  imports Buffer_Pool
begin

text \<open>
  \<open>CachingBufferPool.java\<close> under concurrent calls: the atomic operations on the concurrent map and on its
  queues, and the reads of soft references, are single steps of a thread, and the steps of all threads
  interleave in any order. Buffers and soft references have an identity here. The collector may clear
  any soft reference at any time. A client gives back only buffers it holds.
\<close>

section \<open>Threads\<close>

text \<open>
  The statement a thread is at, with its local variables: the requested size in \<open>getOrCreate\<close>, the buffer,
  the size class and the reference in \<open>returnValue\<close>. \<open>Crashed\<close> is a call on a null queue.
\<close>

datatype pc =
    Idle
  | Lookup int
  | PutIfAbsent int
  | Again int
  | Poll int
  | Got int nat
  | Create int
  | Find nat
  | Add nat
  | PeekLast int
  | Check int nat
  | Remove int nat
  | Crashed

text \<open>\<open>held\<close> are the buffers a client has, each with the size it asked for.\<close>

record shared_pool =
  queues :: "int \<Rightarrow> nat list option"
  referent :: "nat \<Rightarrow> nat option"
  capacity :: "nat \<Rightarrow> int"
  next_ref :: nat
  next_val :: nat
  pcs :: "nat \<Rightarrow> pc"
  held :: "nat \<Rightarrow> (nat \<times> int) list"

definition new_shared_pool :: shared_pool where
  "new_shared_pool = \<lparr>queues = (\<lambda>_. None), referent = (\<lambda>_. None), capacity = (\<lambda>_. 0), next_ref = 0, next_val = 0,
     pcs = (\<lambda>_. Idle), held = (\<lambda>_. [])\<rparr>"

definition goto :: "nat \<Rightarrow> pc \<Rightarrow> shared_pool \<Rightarrow> shared_pool" where
  "goto t p s = s\<lparr>pcs := (pcs s)(t := p)\<rparr>"

definition take_hold :: "nat \<Rightarrow> nat \<Rightarrow> int \<Rightarrow> shared_pool \<Rightarrow> shared_pool" where
  "take_hold t v n s = s\<lparr>held := (held s)(t := (v, n) # held s t)\<rparr>"

definition remove_last :: "nat \<Rightarrow> nat list \<Rightarrow> nat list" where
  "remove_last r q = rev (remove1 r (rev q))"

text \<open>One step of a thread inside \<open>getOrCreate\<close> with \<open>optimisticGetEntry\<close>, or inside \<open>returnValue\<close>.\<close>

definition thread_step :: "nat \<Rightarrow> shared_pool \<Rightarrow> shared_pool" where
  "thread_step t s =
     (case pcs s t of
        Idle \<Rightarrow> s
      | Crashed \<Rightarrow> s
      | Lookup n \<Rightarrow> goto t (if queues s (adjustSize n) = None then PutIfAbsent n else Poll n) s
      | PutIfAbsent n \<Rightarrow>
          goto t (Again n) (if queues s (adjustSize n) = None then s\<lparr>queues := (queues s)(adjustSize n \<mapsto> [])\<rparr> else s)
      | Again n \<Rightarrow> goto t (if queues s (adjustSize n) = None then Crashed else Poll n) s
      | Poll n \<Rightarrow>
          (case queues s (adjustSize n) of
             None \<Rightarrow> goto t Crashed s
           | Some [] \<Rightarrow> goto t (Create n) s
           | Some (r # q) \<Rightarrow> goto t (Got n r) (s\<lparr>queues := (queues s)(adjustSize n \<mapsto> q)\<rparr>))
      | Got n r \<Rightarrow>
          (case referent s r of
             None \<Rightarrow> goto t (Poll n) s
           | Some v \<Rightarrow> goto t Idle (take_hold t v n s))
      | Create n \<Rightarrow>
          goto t Idle (take_hold t (next_val s) n
            (s\<lparr>next_val := Suc (next_val s), capacity := (capacity s)(next_val s := adjustSize n)\<rparr>))
      | Find v \<Rightarrow> goto t (if queues s (capacity s v) = None then Idle else Add v) s
      | Add v \<Rightarrow>
          (case queues s (capacity s v) of
             None \<Rightarrow> goto t Crashed s
           | Some q \<Rightarrow> goto t (PeekLast (capacity s v))
               (s\<lparr>queues := (queues s)(capacity s v \<mapsto> next_ref s # q), referent := (referent s)(next_ref s \<mapsto> v),
                  next_ref := Suc (next_ref s)\<rparr>))
      | PeekLast k \<Rightarrow>
          (case queues s k of
             None \<Rightarrow> goto t Crashed s
           | Some q \<Rightarrow> goto t (if q = [] then Idle else Check k (last q)) s)
      | Check k r \<Rightarrow> goto t (if referent s r = None then Remove k r else Idle) s
      | Remove k r \<Rightarrow>
          (case queues s k of
             None \<Rightarrow> goto t Crashed s
           | Some q \<Rightarrow> goto t (PeekLast k) (s\<lparr>queues := (queues s)(k \<mapsto> remove_last r q)\<rparr>)))"

inductive pool_step :: "shared_pool \<Rightarrow> shared_pool \<Rightarrow> bool" where
  allocate: "pcs s t = Idle \<Longrightarrow> 0 < n \<Longrightarrow> n \<le> int_max \<Longrightarrow> pool_step s (goto t (Lookup n) s)"
| release: "pcs s t = Idle \<Longrightarrow> (v, n) \<in> set (held s t) \<Longrightarrow>
    pool_step s (goto t (Find v) (s\<lparr>held := (held s)(t := remove1 (v, n) (held s t))\<rparr>))"
| run: "pool_step s (thread_step t s)"
| collect: "pool_step s (s\<lparr>referent := (referent s)(r := None)\<rparr>)"

inductive_cases pool_stepE: "pool_step s s'"

abbreviation pool_reachable :: "shared_pool \<Rightarrow> bool" where
  "pool_reachable s \<equiv> pool_step\<^sup>*\<^sup>* new_shared_pool s"

section \<open>Who owns what\<close>

text \<open>
  At any moment a buffer has one place, given by \<open>loc\<close>, and so has a soft reference, given by \<open>rl\<close>.
\<close>

datatype place = Client nat | Releasing nat | Waiting nat | Nowhere

datatype ref_place = InQueue int | Taken nat | Gone

text \<open>What holds for a thread \<open>t\<close> that is at \<open>p\<close>.\<close>

definition sensible :: "int \<Rightarrow> bool" where
  "sensible n \<longleftrightarrow> 0 < n \<and> n \<le> int_max"

fun pc_ok :: "(nat \<Rightarrow> place) \<Rightarrow> (nat \<Rightarrow> ref_place) \<Rightarrow> shared_pool \<Rightarrow> nat \<Rightarrow> pc \<Rightarrow> bool" where
  "pc_ok loc rl s t Idle = True"
| "pc_ok loc rl s t (Lookup n) = sensible n"
| "pc_ok loc rl s t (PutIfAbsent n) = sensible n"
| "pc_ok loc rl s t (Again n) = (sensible n \<and> queues s (adjustSize n) \<noteq> None)"
| "pc_ok loc rl s t (Poll n) = (sensible n \<and> queues s (adjustSize n) \<noteq> None)"
| "pc_ok loc rl s t (Got n r) = (sensible n \<and> queues s (adjustSize n) \<noteq> None \<and> rl r = Taken t \<and> r < next_ref s
     \<and> (\<forall>v. referent s r = Some v \<longrightarrow> capacity s v = adjustSize n \<and> v < next_val s))"
| "pc_ok loc rl s t (Create n) = (sensible n \<and> queues s (adjustSize n) \<noteq> None)"
| "pc_ok loc rl s t (Find v) = (loc v = Releasing t \<and> v < next_val s \<and> queues s (capacity s v) \<noteq> None)"
| "pc_ok loc rl s t (Add v) = (loc v = Releasing t \<and> v < next_val s \<and> queues s (capacity s v) \<noteq> None)"
| "pc_ok loc rl s t (PeekLast k) = (queues s k \<noteq> None)"
| "pc_ok loc rl s t (Check k r) = (queues s k \<noteq> None \<and> r < next_ref s)"
| "pc_ok loc rl s t (Remove k r) = (queues s k \<noteq> None \<and> r < next_ref s \<and> referent s r = None)"
| "pc_ok loc rl s t Crashed = False"

definition held_ok :: "(nat \<Rightarrow> place) \<Rightarrow> shared_pool \<Rightarrow> bool" where
  "held_ok loc s \<longleftrightarrow> (\<forall>t. distinct (map fst (held s t))) \<and>
     (\<forall>t v n. (v, n) \<in> set (held s t) \<longrightarrow> loc v = Client t \<and> v < next_val s \<and> capacity s v = adjustSize n \<and> sensible n
        \<and> queues s (adjustSize n) \<noteq> None)"

definition refs_ok :: "(nat \<Rightarrow> place) \<Rightarrow> (nat \<Rightarrow> ref_place) \<Rightarrow> shared_pool \<Rightarrow> bool" where
  "refs_ok loc rl s \<longleftrightarrow>
     (\<forall>r v. rl r \<noteq> Gone \<longrightarrow> referent s r = Some v \<longrightarrow> loc v = Waiting r \<and> v < next_val s) \<and>
     (\<forall>r. rl r \<noteq> Gone \<longrightarrow> r < next_ref s)"

definition queues_ok :: "(nat \<Rightarrow> ref_place) \<Rightarrow> shared_pool \<Rightarrow> bool" where
  "queues_ok rl s \<longleftrightarrow> (\<forall>k q. queues s k = Some q \<longrightarrow> distinct q \<and>
     (\<forall>r \<in> set q. rl r = InQueue k \<and> (\<forall>v. referent s r = Some v \<longrightarrow> capacity s v = k)))"

definition pool_inv :: "(nat \<Rightarrow> place) \<Rightarrow> (nat \<Rightarrow> ref_place) \<Rightarrow> shared_pool \<Rightarrow> bool" where
  "pool_inv loc rl s \<longleftrightarrow> held_ok loc s \<and> refs_ok loc rl s \<and> queues_ok rl s \<and> (\<forall>t. pc_ok loc rl s t (pcs s t))"

lemmas inv_defs = held_ok_def refs_ok_def queues_ok_def

lemma pc_ok_frame [simp]:
  "pc_ok loc rl (s\<lparr>pcs := f\<rparr>) t p = pc_ok loc rl s t p" "pc_ok loc rl (s\<lparr>held := h\<rparr>) t p = pc_ok loc rl s t p"
  by (cases p; simp)+

lemma goto_fields [simp]:
  "pcs (goto t p s) = (pcs s)(t := p)" "held (goto t p s) = held s" "queues (goto t p s) = queues s"
  "referent (goto t p s) = referent s" "capacity (goto t p s) = capacity s" "next_ref (goto t p s) = next_ref s"
  "next_val (goto t p s) = next_val s" "pc_ok loc rl (goto t p s) u q = pc_ok loc rl s u q"
  by (simp_all add: goto_def)

lemma inv_goto: "held_ok loc s \<and> refs_ok loc rl s \<and> queues_ok rl s \<Longrightarrow> (\<And>u. u \<noteq> t \<Longrightarrow> pc_ok loc rl s u (pcs s u)) \<Longrightarrow>
    pc_ok loc rl s t p \<Longrightarrow> pool_inv loc rl (goto t p s)"
  by (simp add: pool_inv_def inv_defs)

text \<open>What other threads do leaves a thread's facts alone.\<close>

definition kept :: "nat \<Rightarrow> (nat \<Rightarrow> place) \<Rightarrow> (nat \<Rightarrow> ref_place) \<Rightarrow> shared_pool \<Rightarrow> (nat \<Rightarrow> place) \<Rightarrow> (nat \<Rightarrow> ref_place) \<Rightarrow> shared_pool \<Rightarrow> bool" where
  "kept u loc rl s loc' rl' s' \<longleftrightarrow>
     (\<forall>k. queues s k \<noteq> None \<longrightarrow> queues s' k \<noteq> None) \<and> next_ref s \<le> next_ref s' \<and> next_val s \<le> next_val s' \<and>
     (\<forall>v. v < next_val s \<longrightarrow> capacity s' v = capacity s v) \<and>
     (\<forall>r v. r < next_ref s \<longrightarrow> referent s' r = Some v \<longrightarrow> referent s r = Some v) \<and>
     (\<forall>v. v < next_val s \<longrightarrow> loc v = Releasing u \<longrightarrow> loc' v = Releasing u) \<and> (\<forall>r. rl r = Taken u \<longrightarrow> rl' r = Taken u)"

lemma pc_ok_kept: "kept u loc rl s loc' rl' s' \<Longrightarrow> pc_ok loc rl s u p \<Longrightarrow> pc_ok loc' rl' s' u p"
proof (cases p)
  case (Remove k r)
  assume k: "kept u loc rl s loc' rl' s'" and p: "pc_ok loc rl s u p"
  then have "referent s' r = None" using Remove by (cases "referent s' r") (auto simp: kept_def)
  then show ?thesis using k p Remove by (auto simp: kept_def)
next
  case (Got n r)
  assume k: "kept u loc rl s loc' rl' s'" and p: "pc_ok loc rl s u p"
  have "referent s' r = Some v \<Longrightarrow> capacity s' v = adjustSize n \<and> v < next_val s'" for v
    using k p Got by (auto simp: kept_def)
  then show ?thesis using k p Got by (auto simp: kept_def)
qed (auto simp: kept_def)

lemma inv_step:
  assumes "pool_inv loc rl s" and "\<And>u. u \<noteq> t \<Longrightarrow> kept u loc rl s loc' rl' s'" and "pcs s' = pcs s"
    and "held_ok loc' s'" and "refs_ok loc' rl' s'" and "queues_ok rl' s'" and "pc_ok loc' rl' s' t p"
  shows "pool_inv loc' rl' (goto t p s')"
proof (rule inv_goto)
  show "pc_ok loc' rl' s' u (pcs s' u)" if "u \<noteq> t" for u
    using assms(1,3) pc_ok_kept [OF assms(2) [OF that]] by (simp add: pool_inv_def)
qed (use assms in auto)

lemma kept_refl [simp]: "kept u loc rl s loc rl s"
  by (simp add: kept_def)

lemma inv_parts:
  assumes "pool_inv loc rl s"
  shows "held_ok loc s" "refs_ok loc rl s" "queues_ok rl s" "pc_ok loc rl s t (pcs s t)"
  using assms by (simp_all add: pool_inv_def)

lemma inv_move: "pool_inv loc rl s \<Longrightarrow> pc_ok loc rl s t p \<Longrightarrow> pool_inv loc rl (goto t p s)"
  using inv_step [of loc rl s t loc rl s p] inv_parts [of loc rl s] by simp

lemma inv_new: "pool_inv (\<lambda>_. Nowhere) (\<lambda>_. Gone) new_shared_pool"
  by (simp add: pool_inv_def inv_defs new_shared_pool_def)

lemma inv_collect: "pool_inv loc rl s \<Longrightarrow> pool_inv loc rl (s\<lparr>referent := (referent s)(r := None)\<rparr>)"
proof -
  let ?s = "s\<lparr>referent := (referent s)(r := None)\<rparr>"
  assume i: "pool_inv loc rl s"
  have "kept u loc rl s loc rl ?s" for u by (simp add: kept_def)
  then have "pc_ok loc rl ?s u (pcs s u)" for u using pc_ok_kept inv_parts(4) [OF i] by blast
  then show ?thesis using inv_parts(1-3) [OF i] by (simp add: pool_inv_def inv_defs)
qed

section \<open>Every step keeps the places\<close>

lemma distinct_remove_key:
  assumes "distinct (map fst xs)" and "(v, n) \<in> set xs"
  shows "distinct (map fst (remove1 (v, n) xs)) \<and> (v, m) \<notin> set (remove1 (v, n) xs)"
proof
  show "distinct (map fst (remove1 (v, n) xs))"
    using assms(1) by (induction xs) (use set_remove1_subset in \<open>fastforce+\<close>)
  have "set (remove1 (v, n) xs) = set xs - {(v, n)}" using assms(1) by (simp add: distinct_map)
  moreover have "(v, m) \<in> set xs \<Longrightarrow> m = n" using assms by (metis eq_key_imp_eq_value)
  ultimately show "(v, m) \<notin> set (remove1 (v, n) xs)" by auto
qed

lemma queues_okI:
  "(\<And>k q. queues s k = Some q \<Longrightarrow> distinct q \<and> (\<forall>r\<in>set q. rl r = InQueue k \<and> (\<forall>v. referent s r = Some v \<longrightarrow> capacity s v = k)))
   \<Longrightarrow> queues_ok rl s"
  by (simp add: queues_ok_def)

lemma held_okD:
  assumes "held_ok loc s"
  shows "distinct (map fst (held s t))" "(v, n) \<in> set (held s t) \<Longrightarrow> loc v = Client t \<and> v < next_val s \<and>
    capacity s v = adjustSize n \<and> sensible n \<and> queues s (adjustSize n) \<noteq> None"
  using assms by (simp_all add: held_ok_def)

lemma queues_okD:
  assumes "queues_ok rl s" and "queues s k = Some q"
  shows "distinct q" "r \<in> set q \<Longrightarrow> rl r = InQueue k" "r \<in> set q \<Longrightarrow> referent s r = Some v \<Longrightarrow> capacity s v = k"
  using assms by (simp_all add: queues_ok_def)

lemma refs_okD:
  assumes "refs_ok loc rl s" and "rl r \<noteq> Gone"
  shows "r < next_ref s" "referent s r = Some v \<Longrightarrow> loc v = Waiting r" "referent s r = Some v \<Longrightarrow> v < next_val s"
  using assms by (simp_all add: refs_ok_def)

lemma inv_release:
  assumes i: "pool_inv loc rl s" and v: "(v, n) \<in> set (held s t)"
  shows "pool_inv (loc(v := Releasing t)) rl (goto t (Find v) (s\<lparr>held := (held s)(t := remove1 (v, n) (held s t))\<rparr>))"
proof (rule inv_step [OF i])
  note h = inv_parts(1) [OF i] and r = inv_parts(2) [OF i]
  have lv: "loc v = Client t" "v < next_val s" "queues s (capacity s v) \<noteq> None" using h v by (auto simp: held_ok_def)
  let ?s = "s\<lparr>held := (held s)(t := remove1 (v, n) (held s t))\<rparr>"
  show "kept u loc rl s (loc(v := Releasing t)) rl ?s" if "u \<noteq> t" for u using lv(1) by (auto simp: kept_def)
  have d: "distinct (map fst (held s t))" using h by (simp add: held_ok_def)
  have "distinct (map fst (remove1 (v, n) (held s t)))" "(v, m) \<notin> set (remove1 (v, n) (held s t))" for m
    using distinct_remove_key [OF d v] by simp_all
  then show "held_ok (loc(v := Releasing t)) ?s"
    using h lv(1) by (auto simp: held_ok_def dest: notin_set_remove1)
  show "refs_ok (loc(v := Releasing t)) rl ?s" using r lv(1) by (auto simp: refs_ok_def)
  show "queues_ok rl ?s" using inv_parts(3) [OF i] by (simp add: queues_ok_def)
  show "pc_ok (loc(v := Releasing t)) rl ?s t (Find v)" using lv by simp
qed simp

lemma inv_put:
  assumes i: "pool_inv loc rl s" and p: "pcs s t = PutIfAbsent n"
  shows "pool_inv loc rl (goto t (Again n) (if queues s (adjustSize n) = None then s\<lparr>queues := (queues s)(adjustSize n \<mapsto> [])\<rparr> else s))"
proof (rule inv_step [OF i])
  let ?s = "if queues s (adjustSize n) = None then s\<lparr>queues := (queues s)(adjustSize n \<mapsto> [])\<rparr> else s"
  note parts = inv_parts(1-3) [OF i] inv_parts(4) [OF i, of t]
  show "kept u loc rl s loc rl ?s" for u by (simp add: kept_def)
  show "held_ok loc ?s" using parts(1) by (auto simp: held_ok_def)
  show "refs_ok loc rl ?s" using parts(2) by (auto simp: refs_ok_def)
  show "queues_ok rl ?s" using parts(3) by (auto simp: queues_ok_def)
  show "pc_ok loc rl ?s t (Again n)" using parts(4) p by simp
qed simp

lemma inv_poll:
  assumes i: "pool_inv loc rl s" and p: "pcs s t = Poll n" and q: "queues s (adjustSize n) = Some (r # q)"
  shows "pool_inv loc (rl(r := Taken t)) (goto t (Got n r) (s\<lparr>queues := (queues s)(adjustSize n \<mapsto> q)\<rparr>))"
proof (rule inv_step [OF i])
  let ?s = "s\<lparr>queues := (queues s)(adjustSize n \<mapsto> q)\<rparr>"
  note parts = inv_parts(1-3) [OF i] inv_parts(4) [OF i, of t]
  have r: "rl r = InQueue (adjustSize n)" "r \<notin> set q" "distinct q"
    using queues_okD(1) [OF parts(3) q] queues_okD(2) [OF parts(3) q, of r] by simp_all
  have rv: "\<And>v. referent s r = Some v \<Longrightarrow> capacity s v = adjustSize n \<and> v < next_val s" "r < next_ref s"
    using queues_okD(3) [OF parts(3) q, of r] refs_okD [OF parts(2), of r] r(1) by simp_all
  show "kept u loc rl s loc (rl(r := Taken t)) ?s" if "u \<noteq> t" for u using r(1) by (auto simp: kept_def)
  show "held_ok loc ?s" using parts(1) by (auto simp: held_ok_def)
  have "rl r \<noteq> Gone" using r(1) by simp
  then show "refs_ok loc (rl(r := Taken t)) ?s" using parts(2) rv(2) by (auto simp: refs_ok_def)
  show "queues_ok (rl(r := Taken t)) ?s"
  proof (rule queues_okI)
    fix k q' assume k: "queues ?s k = Some q'"
    show "distinct q' \<and> (\<forall>x\<in>set q'. (rl(r := Taken t)) x = InQueue k \<and> (\<forall>v. referent ?s x = Some v \<longrightarrow> capacity ?s v = k))"
    proof (cases "k = adjustSize n")
      case True
      then show ?thesis using k r queues_okD(2,3) [OF parts(3) q] by auto
    next
      case False
      then have o: "queues s k = Some q'" using k by simp
      then show ?thesis using False r(1) queues_okD [OF parts(3) o] by auto
    qed
  qed
  show "pc_ok loc (rl(r := Taken t)) ?s t (Got n r)" using parts(4) p rv by simp
qed simp

lemma inv_got:
  assumes i: "pool_inv loc rl s" and p: "pcs s t = Got n r" and v: "referent s r = Some v"
  shows "pool_inv (loc(v := Client t)) (rl(r := Gone)) (goto t Idle (take_hold t v n s))"
proof (rule inv_step [OF i])
  note parts = inv_parts(1-3) [OF i] inv_parts(4) [OF i, of t]
  have r: "rl r = Taken t" "capacity s v = adjustSize n" "v < next_val s" "sensible n" "queues s (adjustSize n) \<noteq> None"
    using parts(4) p v by auto
  have lv: "loc v = Waiting r" using parts(2) r(1) v by (auto simp: refs_ok_def)
  then have nv: "(v, m) \<notin> set (held s u)" "v \<notin> fst ` set (held s u)" for u m using parts(1) by (auto simp: held_ok_def)
  show "kept u loc rl s (loc(v := Client t)) (rl(r := Gone)) (take_hold t v n s)" if "u \<noteq> t" for u
    using that r(1) lv by (auto simp: kept_def take_hold_def)
  show "held_ok (loc(v := Client t)) (take_hold t v n s)"
    using parts(1) nv r by (auto simp: held_ok_def take_hold_def)
  show "refs_ok (loc(v := Client t)) (rl(r := Gone)) (take_hold t v n s)"
    using parts(2) lv v by (auto simp: refs_ok_def take_hold_def)
  show "queues_ok (rl(r := Gone)) (take_hold t v n s)" using parts(3) r(1) by (auto simp: queues_ok_def take_hold_def)
qed (simp_all add: take_hold_def)

lemma inv_create:
  assumes i: "pool_inv loc rl s" and p: "pcs s t = Create n"
  shows "pool_inv (loc(next_val s := Client t)) rl (goto t Idle (take_hold t (next_val s) n
    (s\<lparr>next_val := Suc (next_val s), capacity := (capacity s)(next_val s := adjustSize n)\<rparr>)))"
proof (rule inv_step [OF i])
  let ?s = "take_hold t (next_val s) n (s\<lparr>next_val := Suc (next_val s), capacity := (capacity s)(next_val s := adjustSize n)\<rparr>)"
  note parts = inv_parts(1-3) [OF i] inv_parts(4) [OF i, of t]
  show "kept u loc rl s (loc(next_val s := Client t)) rl ?s" if "u \<noteq> t" for u
    by (auto simp: kept_def take_hold_def)
  show "held_ok (loc(next_val s := Client t)) ?s"
  proof -
    have "(next_val s, m) \<notin> set (held s u)" "next_val s \<notin> fst ` set (held s u)" for u m
      using held_okD(2) [OF parts(1), of "next_val s" _ u] by auto
    then show ?thesis using parts(1,4) p less_Suc_eq by (auto simp: held_ok_def take_hold_def)
  qed
  show "refs_ok (loc(next_val s := Client t)) rl ?s"
    using parts(2) by (auto simp: refs_ok_def take_hold_def)
  have "referent s r \<noteq> Some (next_val s)" if "queues s k = Some q" "r \<in> set q" for k q r
    using queues_okD(2) [OF parts(3) that] refs_okD(3) [OF parts(2), of r "next_val s"] by auto
  then show "queues_ok rl ?s" using parts(3) by (auto simp: queues_ok_def take_hold_def)
qed (simp_all add: take_hold_def)

lemma inv_add:
  assumes i: "pool_inv loc rl s" and p: "pcs s t = Add v" and q: "queues s (capacity s v) = Some q"
  shows "pool_inv (loc(v := Waiting (next_ref s))) (rl(next_ref s := InQueue (capacity s v)))
    (goto t (PeekLast (capacity s v)) (s\<lparr>queues := (queues s)(capacity s v \<mapsto> next_ref s # q),
       referent := (referent s)(next_ref s \<mapsto> v), next_ref := Suc (next_ref s)\<rparr>))"
proof (rule inv_step [OF i])
  let ?r = "next_ref s"
  let ?s = "s\<lparr>queues := (queues s)(capacity s v \<mapsto> ?r # q), referent := (referent s)(?r \<mapsto> v), next_ref := Suc ?r\<rparr>"
  let ?loc = "loc(v := Waiting ?r)" and ?rl = "rl(?r := InQueue (capacity s v))"
  note parts = inv_parts(1-3) [OF i] inv_parts(4) [OF i, of t]
  have v: "loc v = Releasing t" "v < next_val s" using parts(4) p by simp_all
  have g: "rl ?r = Gone" using parts(2) by (auto simp: refs_ok_def)
  have nr: "?r \<notin> set q'" if "queues s k = Some q'" for k q' using queues_okD(2) [OF parts(3) that, of ?r] g by auto
  show "kept u loc rl s ?loc ?rl ?s" if "u \<noteq> t" for u using that v g by (auto simp: kept_def)
  show "held_ok ?loc ?s" using parts(1) v by (auto simp: held_ok_def)
  show "refs_ok ?loc ?rl ?s" using parts(2) v by (auto simp: refs_ok_def less_Suc_eq)
  have "distinct q \<and> (\<forall>x\<in>set q. rl x = InQueue (capacity s v))" using queues_okD [OF parts(3) q] by blast
  then show "queues_ok ?rl ?s" using parts(3) q nr by (auto simp: queues_ok_def)
qed simp_all

lemma inv_remove:
  assumes i: "pool_inv loc rl s" and p: "pcs s t = Remove k r" and q: "queues s k = Some q"
  shows "\<exists>rl'. pool_inv loc rl' (goto t (PeekLast k) (s\<lparr>queues := (queues s)(k \<mapsto> remove_last r q)\<rparr>))"
proof (intro exI inv_step [OF i])
  let ?s = "s\<lparr>queues := (queues s)(k \<mapsto> remove_last r q)\<rparr>"
  let ?rl = "if r \<in> set q then rl(r := Gone) else rl"
  note parts = inv_parts(1-3) [OF i] inv_parts(4) [OF i, of t]
  have d: "distinct q" "\<And>x. x \<in> set q \<Longrightarrow> rl x = InQueue k" using queues_okD [OF parts(3) q] by blast+
  then have rem: "set (remove_last r q) = set q - {r}" "distinct (remove_last r q)" by (simp_all add: remove_last_def)
  show "kept u loc rl s loc ?rl ?s" for u using d(2) [of r] by (auto simp: kept_def)
  show "held_ok loc ?s" using parts(1) by (auto simp: held_ok_def)
  show "refs_ok loc ?rl ?s" using parts(2) by (auto simp: refs_ok_def)
  have other: "r \<notin> set q'" if "queues s k' = Some q'" "k' \<noteq> k" "r \<in> set q" for k' q'
    using queues_okD(2) [OF parts(3) that(1), of r] d(2) [OF that(3)] that(2) by auto
  show "queues_ok ?rl ?s" using parts(3) q rem other by (auto simp: queues_ok_def)
qed simp_all

lemma inv_run:
  assumes i: "pool_inv loc rl s"
  shows "\<exists>loc' rl'. pool_inv loc' rl' (thread_step t s)"
proof (cases "pcs s t")
  case Idle
  then show ?thesis using i by (auto simp: thread_step_def)
next
  case (Lookup n)
  then have "pool_inv loc rl (thread_step t s)"
    using inv_move [OF i, of t] inv_parts(4) [OF i, of t] by (simp add: thread_step_def)
  then show ?thesis by blast
next
  case (PutIfAbsent n)
  then have "pool_inv loc rl (thread_step t s)" using inv_put [OF i PutIfAbsent] by (simp only: thread_step_def pc.case)
  then show ?thesis by blast
next
  case (Again n)
  then have "pool_inv loc rl (thread_step t s)"
    using inv_move [OF i, of t] inv_parts(4) [OF i, of t] by (simp add: thread_step_def)
  then show ?thesis by blast
next
  case (Poll n)
  then obtain q where q: "queues s (adjustSize n) = Some q" "sensible n" using inv_parts(4) [OF i, of t] by auto
  show ?thesis
  proof (cases q)
    case Nil
    then have "pool_inv loc rl (thread_step t s)" using inv_move [OF i, of t "Create n"] q Poll by (simp add: thread_step_def)
    then show ?thesis by blast
  next
    case (Cons r q')
    then show ?thesis using inv_poll [OF i Poll] q Poll by (auto simp: thread_step_def)
  qed
next
  case (Got n r)
  show ?thesis
  proof (cases "referent s r")
    case None
    then have "pool_inv loc rl (thread_step t s)"
      using inv_move [OF i, of t "Poll n"] inv_parts(4) [OF i, of t] Got by (simp add: thread_step_def)
    then show ?thesis by blast
  next
    case (Some v)
    then show ?thesis using inv_got [OF i Got Some] Got by (auto simp: thread_step_def)
  qed
next
  case (Create n)
  then show ?thesis using inv_create [OF i Create] by (auto simp: thread_step_def)
next
  case (Find v)
  then have "pool_inv loc rl (thread_step t s)"
    using inv_move [OF i, of t] inv_parts(4) [OF i, of t] by (simp add: thread_step_def)
  then show ?thesis by blast
next
  case (Add v)
  then obtain q where q: "queues s (capacity s v) = Some q" using inv_parts(4) [OF i, of t] by auto
  show ?thesis using inv_add [OF i Add q] Add q by (auto simp: thread_step_def)
next
  case (PeekLast k)
  then obtain q where q: "queues s k = Some q" using inv_parts(4) [OF i, of t] by auto
  have "last q < next_ref s" if "q \<noteq> []"
    using refs_okD(1) [OF inv_parts(2) [OF i]] queues_okD(2) [OF inv_parts(3) [OF i] q, of "last q"] that by simp
  then have "pool_inv loc rl (thread_step t s)"
    using inv_move [OF i, of t] PeekLast q by (simp add: thread_step_def)
  then show ?thesis by blast
next
  case (Check k r)
  then have "pool_inv loc rl (thread_step t s)"
    using inv_move [OF i, of t] inv_parts(4) [OF i, of t] by (simp add: thread_step_def)
  then show ?thesis by blast
next
  case (Remove k r)
  then obtain q where q: "queues s k = Some q" using inv_parts(4) [OF i, of t] by auto
  show ?thesis using inv_remove [OF i Remove q] Remove q by (auto simp: thread_step_def)
next
  case Crashed
  then show ?thesis using inv_parts(4) [OF i, of t] by simp
qed

lemma reachable_inv: "pool_reachable s \<Longrightarrow> \<exists>loc rl. pool_inv loc rl s"
proof (induction rule: rtranclp_induct)
  case base
  then show ?case using inv_new by blast
next
  case (step s s')
  then obtain loc rl where i: "pool_inv loc rl s" by blast
  show ?case using step.hyps(2)
  proof (cases rule: pool_step.cases)
    case (allocate t n)
    then show ?thesis using inv_move [OF i, of t "Lookup n"] by (auto simp: sensible_def)
  next
    case (release t v n)
    then show ?thesis using inv_release [OF i] by blast
  next
    case (run t)
    then show ?thesis using inv_run [OF i] by blast
  next
    case (collect r)
    then show ?thesis using inv_collect [OF i] by blast
  qed
qed

section \<open>No buffer is lost\<close>

text \<open>
  A buffer is with a client, being given back, waiting in a queue, or in the hands of a thread that took
  its reference out of the queue.
\<close>

definition waits :: "shared_pool \<Rightarrow> nat \<Rightarrow> bool" where
  "waits s v \<longleftrightarrow> (\<exists>k q r. queues s k = Some q \<and> r \<in> set q \<and> referent s r = Some v)"

definition in_transit :: "shared_pool \<Rightarrow> nat \<Rightarrow> nat \<Rightarrow> bool" where
  "in_transit s t v \<longleftrightarrow> pcs s t = Find v \<or> pcs s t = Add v \<or> (\<exists>n r. pcs s t = Got n r \<and> referent s r = Some v)"

definition present :: "shared_pool \<Rightarrow> nat \<Rightarrow> bool" where
  "present s v \<longleftrightarrow> (\<exists>t n. (v, n) \<in> set (held s t)) \<or> waits s v \<or> (\<exists>t. in_transit s t v)"

lemma present_keeps:
  assumes "present s v"
    and "\<And>u n. (v, n) \<in> set (held s u) \<Longrightarrow> present s' v"
    and "\<And>k q r. queues s k = Some q \<Longrightarrow> r \<in> set q \<Longrightarrow> referent s r = Some v \<Longrightarrow> present s' v"
    and "in_transit s t v \<Longrightarrow> present s' v"
    and "\<And>u. u \<noteq> t \<Longrightarrow> in_transit s u v \<Longrightarrow> in_transit s' u v"
  shows "present s' v"
  using assms unfolding present_def [of s] waits_def by (metis present_def)

lemma present_client: "(v, n) \<in> set (held s t) \<Longrightarrow> present s v"
  by (auto simp: present_def)

lemma present_waits: "queues s k = Some q \<Longrightarrow> r \<in> set q \<Longrightarrow> referent s r = Some v \<Longrightarrow> present s v"
  by (auto simp: present_def waits_def)

lemma present_transit: "in_transit s t v \<Longrightarrow> present s v"
  by (auto simp: present_def)

lemma transit_goto [simp]: "u \<noteq> t \<Longrightarrow> in_transit (goto t p s) u v = in_transit s u v"
  by (simp add: in_transit_def)

lemma transit_fields [simp]:
  "in_transit (s\<lparr>queues := f\<rparr>) u v = in_transit s u v" "in_transit (take_hold t w n s) u v = in_transit s u v"
  "in_transit (s\<lparr>held := h\<rparr>) u v = in_transit s u v" "in_transit (s\<lparr>next_val := x, capacity := c\<rparr>) u v = in_transit s u v"
  by (simp_all add: in_transit_def take_hold_def)

text \<open>A move that hands over nothing.\<close>

lemma present_goto:
  assumes "present s v" and "\<not> in_transit s t v"
  shows "present (goto t p s) v"
  using assms(1)
proof (rule present_keeps [where t = t])
  show "present (goto t p s) v" if "(v, n) \<in> set (held s u)" for u n
    using that by (intro present_client [of v n _ u]) simp
  show "present (goto t p s) v" if "queues s k = Some q" "r \<in> set q" "referent s r = Some v" for k q r
    using that by (intro present_waits [of _ k q r]) simp_all
qed (use assms(2) in simp_all)

lemma present_poll:
  assumes i: "pool_inv loc rl s" and v: "present s v" and Poll: "pcs s t = Poll n"
  shows "present (thread_step t s) v"
proof -
  obtain q where q: "queues s (adjustSize n) = Some q" using inv_parts(4) [OF i, of t] Poll by auto
  have n: "\<not> in_transit s t v" using Poll by (simp add: in_transit_def)
  show ?thesis
  proof (cases q)
    case Nil
    then show ?thesis using Poll q n v by (simp add: thread_step_def present_goto)
  next
    case (Cons r q')
    define s' where "s' = goto t (Got n r) (s\<lparr>queues := (queues s)(adjustSize n \<mapsto> q')\<rparr>)"
    have "present s' v" using v
    proof (rule present_keeps [where t = t])
      fix k q1 x assume x: "queues s k = Some q1" "x \<in> set q1" "referent s x = Some v"
      show "present s' v"
      proof (cases "k = adjustSize n \<and> x = r")
        case True
        then have "in_transit s' t v" using x by (auto simp: in_transit_def s'_def)
        then show ?thesis by (rule present_transit)
      next
        case False
        then show ?thesis using x q Cons
          by (intro present_waits [of s' k "if k = adjustSize n then q' else q1" x]) (auto simp: s'_def)
      qed
    qed (use n present_client [of v _ s'] in \<open>auto simp: s'_def\<close>)
    then show ?thesis using Poll q Cons by (simp add: thread_step_def s'_def)
  qed
qed

lemma present_got:
  assumes i: "pool_inv loc rl s" and v: "present s v" and Got: "pcs s t = Got n r"
  shows "present (thread_step t s) v"
proof -
  show ?thesis
  proof (cases "referent s r")
    case None
    then show ?thesis using Got v by (simp add: thread_step_def present_goto in_transit_def)
  next
    case (Some w)
    define s' where "s' = goto t Idle (take_hold t w n s)"
    have "present s' v" using v
    proof (rule present_keeps [where t = t])
      show "present s' v" if "in_transit s t v"
        using that Got Some by (intro present_client [of v n s' t]) (simp add: s'_def take_hold_def in_transit_def)
      show "present s' v" if "(v, m) \<in> set (held s u)" for u m
        using that by (intro present_client [of v m s' u]) (auto simp: s'_def take_hold_def)
      show "present s' v" if "queues s k = Some q" "x \<in> set q" "referent s x = Some v" for k q x
        using that by (intro present_waits [of s' k q x]) (simp_all add: s'_def take_hold_def)
    qed (simp add: s'_def)
    then show ?thesis using Got Some by (simp add: thread_step_def s'_def)
  qed
qed

lemma present_create:
  assumes i: "pool_inv loc rl s" and v: "present s v" and Create: "pcs s t = Create n"
  shows "present (thread_step t s) v"
proof -
  define s1 where "s1 = take_hold t (next_val s) n
    (s\<lparr>next_val := Suc (next_val s), capacity := (capacity s)(next_val s := adjustSize n)\<rparr>)"
  have "present s1 v" using v by (auto simp: s1_def present_def waits_def take_hold_def in_transit_def)
  moreover have "\<not> in_transit s1 t v" using Create by (simp add: s1_def in_transit_def take_hold_def)
  ultimately show ?thesis using Create by (simp add: thread_step_def s1_def present_goto)
qed

lemma present_add:
  assumes i: "pool_inv loc rl s" and v: "present s v" and Add: "pcs s t = Add w"
  shows "present (thread_step t s) v"
proof -
  obtain q where q: "queues s (capacity s w) = Some q" using inv_parts(4) [OF i, of t] Add by auto
  define s' where "s' = thread_step t s"
  have s': "queues s' = (queues s)(capacity s w \<mapsto> next_ref s # q)" "referent s' = (referent s)(next_ref s \<mapsto> w)"
    "held s' = held s" "\<And>u. u \<noteq> t \<Longrightarrow> pcs s' u = pcs s u"
    using Add q by (simp_all add: s'_def thread_step_def)
  have old: "x < next_ref s" if "queues s k = Some q1" "x \<in> set q1" for k q1 x
    using refs_okD(1) [OF inv_parts(2) [OF i], of x] queues_okD(2) [OF inv_parts(3) [OF i] that] by simp
  have "present s' v" using v
  proof (rule present_keeps [where t = t])
    show "present s' v" if "in_transit s t v"
      using that Add by (intro present_waits [of s' "capacity s w" "next_ref s # q" "next_ref s"]) (simp_all add: s' in_transit_def)
    show "present s' v" if "(v, m) \<in> set (held s u)" for u m using that by (intro present_client [of v m s' u]) (simp add: s')
    show "present s' v" if x: "queues s k = Some q1" "x \<in> set q1" "referent s x = Some v" for k q1 x
      using x old [OF x(1,2)] q
      by (intro present_waits [of s' k "if k = capacity s w then next_ref s # q1 else q1" x]) (auto simp: s')
    show "in_transit s' u v" if "u \<noteq> t" "in_transit s u v" for u
      using that inv_parts(4) [OF i, of u] by (cases "pcs s u") (simp_all add: in_transit_def s')
  qed
  then show ?thesis by (simp add: s'_def)
qed

lemma present_remove:
  assumes i: "pool_inv loc rl s" and v: "present s v" and Remove: "pcs s t = Remove k r"
  shows "present (thread_step t s) v"
proof -
  obtain q where q: "queues s k = Some q" "referent s r = None" using inv_parts(4) [OF i, of t] Remove by auto
  have d: "distinct q" using queues_okD(1) [OF inv_parts(3) [OF i] q(1)] .
  have n: "\<not> in_transit s t v" using Remove by (simp add: in_transit_def)
  define s1 where "s1 = s\<lparr>queues := (queues s)(k \<mapsto> remove_last r q)\<rparr>"
  have "present s1 v" using v
  proof (rule present_keeps [where t = t])
    show "present s1 v" if x: "queues s k' = Some q1" "x \<in> set q1" "referent s x = Some v" for k' q1 x
      using x q d by (intro present_waits [of s1 k' "if k' = k then remove_last r q else q1" x]) (auto simp: s1_def remove_last_def)
  qed (use n present_client [of v _ s1] in \<open>auto simp: s1_def\<close>)
  then show ?thesis using Remove q n by (simp add: thread_step_def present_goto s1_def)
qed

lemma present_run:
  assumes i: "pool_inv loc rl s" and v: "present s v"
  shows "present (thread_step t s) v"
proof (cases "pcs s t")
  case (PutIfAbsent n)
  then have "\<not> in_transit s t v" by (simp add: in_transit_def)
  moreover have "present (if queues s (adjustSize n) = None then s\<lparr>queues := (queues s)(adjustSize n \<mapsto> [])\<rparr> else s) v"
    using v by (auto simp: present_def waits_def) (metis option.distinct(1))
  ultimately show ?thesis using PutIfAbsent by (simp add: thread_step_def present_goto)
next
  case (Poll n)
  then show ?thesis by (rule present_poll [OF i v])
next
  case (Got n r)
  then show ?thesis by (rule present_got [OF i v])
next
  case (Create n)
  then show ?thesis by (rule present_create [OF i v])
next
  case (Find w)
  then have q: "queues s (capacity s w) \<noteq> None" using inv_parts(4) [OF i, of t] by simp
  show ?thesis
  proof (cases "w = v")
    case True
    then have "in_transit (thread_step t s) t v" using Find q by (simp add: thread_step_def in_transit_def)
    then show ?thesis by (rule present_transit)
  next
    case False
    then show ?thesis using Find q v by (simp add: thread_step_def present_goto in_transit_def)
  qed
next
  case (Add w)
  then show ?thesis by (rule present_add [OF i v])
next
  case (Remove k r)
  then show ?thesis by (rule present_remove [OF i v])
qed (use v inv_parts(4) [OF i, of t] in \<open>auto simp: thread_step_def in_transit_def intro!: present_goto split: option.split\<close>)

text \<open>
  C18: However the calls of many threads interleave and whatever the collector clears, a buffer of the
  pool is with one client at most and at least as large as that client asked for, and no call ever meets
  a null queue.
\<close>

theorem pool_threads_exclusive:
  assumes "pool_reachable s" and "(v, n) \<in> set (held s t)"
  shows "n \<le> capacity s v \<and> (\<forall>u m. (v, m) \<in> set (held s u) \<longrightarrow> u = t \<and> m = n) \<and> (\<forall>u. pcs s u \<noteq> Crashed)
    \<and> (\<forall>u. pcs s u \<noteq> Find v \<and> pcs s u \<noteq> Add v) \<and> \<not> waits s v"
proof -
  obtain loc rl where i: "pool_inv loc rl s" using reachable_inv [OF assms(1)] by blast
  note h = held_okD [OF inv_parts(1) [OF i]]
  have v: "loc v = Client t" "capacity s v = adjustSize n" "sensible n" using h(2) [OF assms(2)] by simp_all
  have "n \<le> capacity s v" using adjustSize_bounds [of n] v by (simp add: sensible_def)
  moreover have "u = t \<and> m = n" if "(v, m) \<in> set (held s u)" for u m
    using h(2) [OF that] v(1) h(1) [of t] assms(2) that by (auto dest: eq_key_imp_eq_value)
  moreover have "pcs s u \<noteq> Crashed \<and> pcs s u \<noteq> Find v \<and> pcs s u \<noteq> Add v" for u
    using inv_parts(4) [OF i, of u] v(1) by auto
  moreover have "\<not> waits s v"
  proof
    assume "waits s v"
    then obtain k q r where r: "queues s k = Some q" "r \<in> set q" "referent s r = Some v" by (auto simp: waits_def)
    have "rl r = InQueue k" by (rule queues_okD(2) [OF inv_parts(3) [OF i] r(1,2)])
    then show False using refs_okD(2) [OF inv_parts(2) [OF i], of r v] r(3) v(1) by simp
  qed
  ultimately show ?thesis by blast
qed

text \<open>A thread that has allocated.\<close>

lemma demo_reachable:
  obtains s where "pool_reachable s" and "held s 0 = [(0, 100)]"
proof -
  define s1 where "s1 = goto 0 (Lookup 100) new_shared_pool"
  have "pool_step new_shared_pool s1" unfolding s1_def
    by (rule pool_step.allocate) (simp_all add: new_shared_pool_def int_max_def)
  then have r: "pool_reachable s1" by (rule r_into_rtranclp)
  have run: "pool_reachable s \<Longrightarrow> pool_reachable (thread_step 0 s)" for s
    using pool_step.run [of s 0] by (rule rtranclp.rtrancl_into_rtrancl [rotated])
  have "pool_reachable ((thread_step 0 ^^ k) s1)" for k by (induction k) (simp_all add: r run)
  moreover have "held ((thread_step 0 ^^ 5) s1) 0 = [(0, 100)]"
    by (simp add: numeral_eq_Suc s1_def thread_step_def new_shared_pool_def goto_def take_hold_def)
  ultimately show thesis by (rule that)
qed

theorem pool_threads_exclusive_witness:
  "\<exists>s. pool_reachable s \<and> (0, 100) \<in> set (held s 0) \<and> 100 \<le> capacity s 0 \<and> \<not> waits s 0"
proof -
  obtain s where s: "pool_reachable s" "held s 0 = [(0, 100)]" by (rule demo_reachable)
  have h: "(0, 100) \<in> set (held s 0)" using s(2) by simp
  show ?thesis using pool_threads_exclusive [OF s(1) h] s(1) h by blast
qed

text \<open>
  C19: The code of the pool loses no buffer: in every interleaving, a buffer that is with a client, on its
  way or waiting is still so after any step, unless the collector has just cleared a reference to it. In
  particular the purge at the end of a queue, which races with other threads, removes no live entry.
\<close>

theorem pool_threads_lose_nothing:
  assumes "pool_reachable s" and "pool_step s s'" and "present s v"
  shows "present s' v \<or> (\<exists>r. referent s r = Some v \<and> referent s' r = None)"
proof -
  obtain loc rl where i: "pool_inv loc rl s" using reachable_inv [OF assms(1)] by blast
  show ?thesis using assms(2)
  proof (cases rule: pool_step.cases)
    case (allocate t n)
    then show ?thesis using present_goto [OF assms(3), of t] by (simp add: in_transit_def)
  next
    case (release t w n)
    define s1 where "s1 = s\<lparr>held := (held s)(t := remove1 (w, n) (held s t))\<rparr>"
    have s': "s' = goto t (Find w) s1" using release by (simp add: s1_def)
    have "present s' v" using assms(3)
    proof (rule present_keeps [where t = t])
      show "present s' v" if "(v, m) \<in> set (held s u)" for u m
      proof (cases "w = v")
        case True
        then show ?thesis by (intro present_transit [of s' t]) (simp add: s' in_transit_def)
      next
        case False
        then show ?thesis using that by (intro present_client [of v m s' u]) (auto simp: s' s1_def)
      qed
      show "present s' v" if "queues s k = Some q" "r \<in> set q" "referent s r = Some v" for k q r
        using that by (intro present_waits [of s' k q r]) (simp_all add: s' s1_def)
    qed (use release in \<open>simp_all add: s' s1_def in_transit_def\<close>)
    then show ?thesis by blast
  next
    case (run t)
    then show ?thesis using present_run [OF i assms(3)] by simp
  next
    case (collect r)
    show ?thesis
    proof (cases "referent s r = Some v")
      case True
      then show ?thesis using collect by auto
    next
      case False
      then have "present s' v" using assms(3) collect
        by (auto simp: present_def waits_def in_transit_def) (metis fun_upd_other)+
      then show ?thesis by blast
    qed
  qed
qed

theorem pool_threads_lose_nothing_witness:
  "\<exists>s s'. pool_reachable s \<and> pool_step s s' \<and> present s' 0"
proof -
  obtain s where s: "pool_reachable s" "held s 0 = [(0, 100)]" by (rule demo_reachable)
  have p: "present s 0" using present_client [of 0 100 s 0] s(2) by simp
  have h: "held (thread_step 1 s) 0 = held s 0" 
    by (simp add: thread_step_def take_hold_def split: pc.split option.split list.split)
  have st: "pool_step s (thread_step 1 s)" by (rule pool_step.run)
  have "present (thread_step 1 s) 0 \<or> (\<exists>r. referent s r = Some 0 \<and> referent (thread_step 1 s) r = None)"
    using pool_threads_lose_nothing [OF s(1) st p] .
  then have "present (thread_step 1 s) 0" using present_client [of 0 100 "thread_step 1 s" 0] h s(2) by simp
  then show ?thesis using s(1) st by blast
qed

section \<open>A call that runs alone\<close>

text \<open>The queues with what their references point to, as the sequential model has them.\<close>

definition waiting_map :: "shared_pool \<Rightarrow> nat pool_map" where
  "waiting_map s = (\<lambda>k. map_option (map (referent s)) (queues s k))"

definition runs_to :: "nat \<Rightarrow> shared_pool \<Rightarrow> shared_pool \<Rightarrow> bool" where
  "runs_to t s s' \<longleftrightarrow> (\<exists>k. s' = (thread_step t ^^ k) s)"

lemma runs_here: "runs_to t s s"
  unfolding runs_to_def by (rule exI [of _ 0]) simp

lemma runs_step: "thread_step t s = u \<Longrightarrow> runs_to t u s' \<Longrightarrow> runs_to t s s'"
proof -
  assume u: "thread_step t s = u" and "runs_to t u s'"
  then obtain k where "s' = (thread_step t ^^ k) u" by (auto simp: runs_to_def)
  then have "s' = (thread_step t ^^ Suc k) s" using u by (simp add: funpow_swap1)
  then show ?thesis unfolding runs_to_def by blast
qed

lemma waiting_map_goto [simp]: "waiting_map (goto t p s) = waiting_map s" "waiting_map (take_hold t v n s) = waiting_map s"
  by (simp_all add: waiting_map_def take_hold_def)

lemma alone_poll:
  "pcs s t = Poll n \<Longrightarrow> queues s (adjustSize n) = Some q \<Longrightarrow>
   \<exists>s'. runs_to t s s' \<and> pcs s' t = Idle
     \<and> waiting_map s' = (waiting_map s)(adjustSize n \<mapsto> snd (poll_loop (map (referent s) q)))
     \<and> held s' t = (case fst (poll_loop (map (referent s) q)) of Some v \<Rightarrow> v | None \<Rightarrow> next_val s, n) # held s t"
proof (induction q arbitrary: s)
  case Nil
  define s1 where "s1 = goto t (Create n) s"
  define s2 where "s2 = thread_step t s1"
  have "thread_step t s = s1" using Nil by (simp add: thread_step_def s1_def)
  then have "runs_to t s s2" using runs_step [OF _ runs_step [OF s2_def [symmetric] runs_here]] by simp
  moreover have "pcs s2 t = Idle \<and> waiting_map s2 = (waiting_map s)(adjustSize n \<mapsto> []) \<and> held s2 t = (next_val s, n) # held s t"
    using Nil by (auto simp: s2_def s1_def thread_step_def waiting_map_def take_hold_def)
  ultimately show ?case by auto
next
  case (Cons r q)
  define s1 where "s1 = goto t (Got n r) (s\<lparr>queues := (queues s)(adjustSize n \<mapsto> q)\<rparr>)"
  have s1: "thread_step t s = s1" using Cons.prems by (simp add: thread_step_def s1_def)
  have f: "pcs s1 t = Got n r" "referent s1 = referent s" "queues s1 (adjustSize n) = Some q" "held s1 = held s"
    "next_val s1 = next_val s" "waiting_map s1 = (waiting_map s)(adjustSize n \<mapsto> map (referent s) q)"
    by (auto simp: s1_def waiting_map_def)
  show ?case
  proof (cases "referent s r")
    case None
    define s2 where "s2 = goto t (Poll n) s1"
    have s2: "thread_step t s1 = s2" using f(1,2) None by (simp add: thread_step_def s2_def)
    have "pcs s2 t = Poll n" "queues s2 (adjustSize n) = Some q" using f(3) by (simp_all add: s2_def)
    from Cons.IH [OF this] obtain s' where s': "runs_to t s2 s'" "pcs s' t = Idle"
      "waiting_map s' = (waiting_map s2)(adjustSize n \<mapsto> snd (poll_loop (map (referent s2) q)))"
      "held s' t = (case fst (poll_loop (map (referent s2) q)) of Some v \<Rightarrow> v | None \<Rightarrow> next_val s2, n) # held s2 t" by blast
    have f2: "waiting_map s2 = waiting_map s1" "referent s2 = referent s" "next_val s2 = next_val s" "held s2 = held s"
      using f by (simp_all add: s2_def)
    have p: "poll_loop (map (referent s) (r # q)) = poll_loop (map (referent s) q)" using None by simp
    have "waiting_map s' = (waiting_map s)(adjustSize n \<mapsto> snd (poll_loop (map (referent s) q)))"
      unfolding s'(3) f2 f(6) by simp
    then show ?thesis
      using runs_step [OF s1 runs_step [OF s2 s'(1)]] s'(2) s'(4) [unfolded f2] unfolding p by blast
  next
    case (Some v)
    define s2 where "s2 = goto t Idle (take_hold t v n s1)"
    have s2: "thread_step t s1 = s2" using f(1,2) Some by (simp add: thread_step_def s2_def)
    have "pcs s2 t = Idle" "waiting_map s2 = waiting_map s1" "held s2 t = (v, n) # held s t"
      using f(4) by (simp_all add: s2_def) (simp add: take_hold_def)
    then show ?thesis using runs_step [OF s1 runs_step [OF s2 runs_here]] Some f by auto
  qed
qed

lemma alone_purge:
  "pcs s t = PeekLast k \<Longrightarrow> queues s k = Some q \<Longrightarrow>
   \<exists>s'. runs_to t s s' \<and> pcs s' t = Idle \<and> waiting_map s' = (waiting_map s)(k \<mapsto> purge (map (referent s) q)) \<and> held s' = held s"
proof (induction q arbitrary: s rule: rev_induct)
  case Nil
  have "thread_step t s = goto t Idle s" using Nil by (simp add: thread_step_def)
  moreover have "waiting_map s = (waiting_map s)(k \<mapsto> [])" using Nil by (auto simp: waiting_map_def)
  ultimately show ?case using runs_step [of t s "goto t Idle s", OF _ runs_here]
    by (intro exI [of _ "goto t Idle s"]) (simp add: purge_def)
next
  case (snoc r q)
  define s1 where "s1 = goto t (Check k r) s"
  have s1: "thread_step t s = s1" using snoc.prems by (simp add: thread_step_def s1_def)
  show ?case
  proof (cases "referent s r")
    case None
    define s2 where "s2 = goto t (Remove k r) s1"
    have s2: "thread_step t s1 = s2" using None by (simp add: thread_step_def s2_def s1_def)
    define s3 where "s3 = goto t (PeekLast k) (s2\<lparr>queues := (queues s2)(k \<mapsto> q)\<rparr>)"
    have s3: "thread_step t s2 = s3" using snoc.prems by (simp add: thread_step_def s3_def s2_def s1_def remove_last_def)
    have "pcs s3 t = PeekLast k" "queues s3 k = Some q" by (simp_all add: s3_def)
    from snoc.IH [OF this] obtain s' where s': "runs_to t s3 s'" "pcs s' t = Idle"
      "waiting_map s' = (waiting_map s3)(k \<mapsto> purge (map (referent s3) q))" "held s' = held s3" by blast
    moreover have "(waiting_map s3)(k \<mapsto> x) = (waiting_map s)(k \<mapsto> x)" "referent s3 = referent s" "held s3 = held s" for x
      by (auto simp: s3_def s2_def s1_def waiting_map_def)
    ultimately show ?thesis using runs_step [OF s1 runs_step [OF s2 runs_step [OF s3 s'(1)]]] None by (auto simp: purge_def)
  next
    case (Some v)
    define s2 where "s2 = goto t Idle s1"
    have s2: "thread_step t s1 = s2" using Some by (simp add: thread_step_def s2_def s1_def)
    have "waiting_map s2 = (waiting_map s)(k \<mapsto> purge (map (referent s) (q @ [r])))"
      using snoc.prems Some by (auto simp: s2_def s1_def waiting_map_def purge_def)
    moreover have "pcs s2 t = Idle" "held s2 = held s" by (simp_all add: s2_def s1_def)
    ultimately show ?thesis using runs_step [OF s1 runs_step [OF s2 runs_here]] by blast
  qed
qed

lemma alone_get:
  assumes "pcs s t = Lookup n"
  obtains s' v where "runs_to t s s'" and "pcs s' t = Idle" and "held s' t = (v, n) # held s t"
    and "getOrCreate (\<lambda>_. Inr (next_val s)) n (waiting_map s) = (Inr v, waiting_map s')"
proof -
  obtain s1 q where s1: "runs_to t s1 u \<Longrightarrow> runs_to t s u" "pcs s1 t = Poll n" "queues s1 (adjustSize n) = Some q"
    "referent s1 = referent s" "next_val s1 = next_val s" "held s1 = held s"
    "optimisticGetEntry (adjustSize n) (waiting_map s) = (map (referent s) q, waiting_map s1)" for u
  proof (cases "queues s (adjustSize n)")
    case (Some q)
    then have "thread_step t s = goto t (Poll n) s" using assms by (simp add: thread_step_def)
    then show thesis using that [of "goto t (Poll n) s" q] runs_step Some
      by (simp add: optimisticGetEntry_def) (simp add: waiting_map_def)
  next
    case None
    define u where "u = goto t (Poll n) (s\<lparr>queues := (queues s)(adjustSize n \<mapsto> [])\<rparr>)"
    define a where "a = goto t (PutIfAbsent n) s"
    define b where "b = goto t (Again n) (a\<lparr>queues := (queues a)(adjustSize n \<mapsto> [])\<rparr>)"
    have "thread_step t s = a" "thread_step t a = b" "thread_step t b = u"
      using None assms by (simp_all add: thread_step_def a_def b_def u_def goto_def)
    moreover have "optimisticGetEntry (adjustSize n) (waiting_map s) = (map (referent s) [], waiting_map u)"
      using None by (auto simp: optimisticGetEntry_def waiting_map_def u_def)
    ultimately show thesis using that [of u "[]"] runs_step by (simp add: u_def)
  qed
  obtain s' where s': "runs_to t s1 s'" "pcs s' t = Idle"
    "waiting_map s' = (waiting_map s1)(adjustSize n \<mapsto> snd (poll_loop (map (referent s) q)))"
    "held s' t = (case fst (poll_loop (map (referent s) q)) of Some v \<Rightarrow> v | None \<Rightarrow> next_val s, n) # held s t"
    using alone_poll [OF s1(2,3)] unfolding s1(4-6) by blast
  show thesis
    by (rule that [OF s1(1) [OF s'(1)] s'(2,4)])
      (simp add: getOrCreate_def s1(7) s'(3) split_beta split: option.split)
qed

lemma alone_return:
  assumes "pool_inv loc rl s" and "pcs s t = Find v"
  obtains s' where "runs_to t s s'" and "pcs s' t = Idle" and "held s' = held s"
    and "waiting_map s' = returnValue v (capacity s v) (waiting_map s)"
proof -
  obtain q where q: "queues s (capacity s v) = Some q" using inv_parts(4) [OF assms(1), of t] assms(2) by auto
  define a where "a = goto t (Add v) s"
  define b where "b = thread_step t a"
  have a: "thread_step t s = a" using assms(2) q by (simp add: thread_step_def a_def)
  have b: "pcs b t = PeekLast (capacity s v)" "queues b = (queues s)(capacity s v \<mapsto> next_ref s # q)"
    "referent b = (referent s)(next_ref s \<mapsto> v)" "held b = held s"
    using q by (simp_all add: b_def thread_step_def a_def)
  have old: "next_ref s \<notin> set q'" if "queues s k = Some q'" for k q'
    using refs_okD(1) [OF inv_parts(2) [OF assms(1)], of "next_ref s"]
      queues_okD(2) [OF inv_parts(3) [OF assms(1)] that, of "next_ref s"] by auto
  have m: "map (referent b) q' = map (referent s) q'" if "queues s k = Some q'" for k q'
    using old [OF that] by (auto simp: b(3))
  obtain s' where s': "runs_to t b s'" "pcs s' t = Idle"
    "waiting_map s' = (waiting_map b)(capacity s v \<mapsto> purge (map (referent b) (next_ref s # q)))" "held s' = held b"
    using alone_purge [OF b(1)] b(2) by fastforce
  have "waiting_map s' = returnValue v (capacity s v) (waiting_map s)"
    unfolding s'(3) using q m by (auto simp: returnValue_def waiting_map_def b(2,3) old map_option_case split: option.split)
  with that [OF runs_step [OF a runs_step [OF b_def [symmetric] s'(1)]] s'(2)] s'(4) b(4) show thesis by simp
qed

text \<open>
  C20: A call that no other thread interrupts returns, and does to the queues what the sequential model of
  the pool says: an allocation gets what \<open>getOrCreate\<close> gets, a release leaves what \<open>returnValue\<close> leaves.
\<close>

theorem pool_threads_refine:
  assumes "pool_reachable s"
  shows "(\<forall>n. pcs s t = Lookup n \<longrightarrow> (\<exists>k s' v. s' = (thread_step t ^^ k) s \<and> pcs s' t = Idle \<and> held s' t = (v, n) # held s t
      \<and> getOrCreate (\<lambda>_. Inr (next_val s)) n (waiting_map s) = (Inr v, waiting_map s')))
    \<and> (\<forall>v. pcs s t = Find v \<longrightarrow> (\<exists>k s'. s' = (thread_step t ^^ k) s \<and> pcs s' t = Idle
      \<and> waiting_map s' = returnValue v (capacity s v) (waiting_map s)))"
proof -
  obtain loc rl where i: "pool_inv loc rl s" using reachable_inv [OF assms] by blast
  show ?thesis using alone_get [of s t] alone_return [OF i, of t] unfolding runs_to_def by metis
qed

theorem pool_threads_refine_witness:
  "\<exists>k v. let s' = (thread_step 0 ^^ k) (goto 0 (Lookup 100) new_shared_pool) in pcs s' 0 = Idle \<and> held s' 0 = [(v, 100)]"
proof -
  define s1 where "s1 = goto 0 (Lookup 100) new_shared_pool"
  have "pool_step new_shared_pool s1" unfolding s1_def
    by (rule pool_step.allocate) (simp_all add: new_shared_pool_def int_max_def)
  then have r: "pool_reachable s1" by (rule r_into_rtranclp)
  have s1: "pcs s1 0 = Lookup 100" "held s1 0 = []" by (simp_all add: s1_def new_shared_pool_def)
  show ?thesis using pool_threads_refine [OF r, of 0] s1 unfolding s1_def [symmetric] Let_def by fastforce
qed

end
