(* ===== verification/BitShuffle_Native.thy ===== *)
theory BitShuffle_Native
  imports Snappy_Native
begin

text \<open>
  \<open>BitShuffleNative.cpp\<close>: the four functions that hand a range of two arrays or direct buffers to
  the bitshuffle library, and their error path.
\<close>

section \<open>The functions\<close>

text \<open>
  Unlike \<open>SnappyNative.cpp\<close> this file looks \<open>throw_error\<close> up in \<open>SnappyNative\<close> and calls it on
  \<open>self\<close>, which is a \<open>BitShuffleNative\<close> object.
\<close>

definition bs_throw_exception :: "nat \<Rightarrow> int \<Rightarrow> unit native" where
  "bs_throw_exception self errorCode =
     bindS (FindClass SnappyNative) (\<lambda>c.
       case c of None \<Rightarrow> returnS () | Some c \<Rightarrow>
         bindS (GetMethodID_throw_error c) (\<lambda>mth_throwex.
           case mth_throwex of None \<Rightarrow> returnS () | Some mth_throwex \<Rightarrow>
             CallVoidMethod_throw_error self mth_throwex errorCode))"

text \<open>C division of two \<open>jint\<close>s truncates; division by zero and \<open>INT_MIN / -1\<close> are undefined.\<close>

definition c_div :: "int \<Rightarrow> int \<Rightarrow> int native" where
  "c_div a b = (if b = 0 \<or> (a = - 2147483648 \<and> b = - 1) then throwS DivisionByZero
                else returnS (sgn a * sgn b * (\<bar>a\<bar> div \<bar>b\<bar>)))"

definition bs_with_arrays :: "nat \<Rightarrow> nat \<Rightarrow> nat \<Rightarrow> (ptr \<Rightarrow> ptr \<Rightarrow> int native) \<Rightarrow> int native" where
  "bs_with_arrays self input output body =
     bindS (GetPrimitiveArrayCritical input) (\<lambda>inp.
     bindS (GetPrimitiveArrayCritical output) (\<lambda>outp.
     if inp = Null \<or> outp = Null then
       bindS (if inp \<noteq> Null then ReleasePrimitiveArrayCritical input inp else returnS ()) (\<lambda>_.
       bindS (if outp \<noteq> Null then ReleasePrimitiveArrayCritical output outp else returnS ()) (\<lambda>_.
       bindS (bs_throw_exception self 4) (\<lambda>_.
       returnS 0)))
     else body inp outp))"

definition bs_process :: "(nat \<Rightarrow> bytes \<Rightarrow> int + bytes) \<Rightarrow> ptr \<Rightarrow> ptr \<Rightarrow> int \<Rightarrow> int \<Rightarrow> int native" where
  "bs_process f inp outp len typeSize =
     bindS (c_div len typeSize) (\<lambda>n. bshuf_call f inp outp (size_t n) (size_t typeSize))"

definition bs_shuffle :: "bitshuffle_lib \<Rightarrow> nat \<Rightarrow> nat \<Rightarrow> int \<Rightarrow> int \<Rightarrow> int \<Rightarrow> nat \<Rightarrow> int \<Rightarrow> int native" where
  "bs_shuffle lib self input inputOffset typeSize len output outputOffset =
     bs_with_arrays self input output (\<lambda>inp outp.
       bindS (bs_process (bit_shuffle lib) (ptr_add inp inputOffset) (ptr_add outp outputOffset) len typeSize)
         (\<lambda>processedBytes.
       bindS (ReleasePrimitiveArrayCritical input inp) (\<lambda>_.
       bindS (ReleasePrimitiveArrayCritical output outp) (\<lambda>_.
       returnS (i32 processedBytes)))))"

definition bs_shuffleDirectBuffer ::
    "bitshuffle_lib \<Rightarrow> nat \<Rightarrow> nat \<Rightarrow> int \<Rightarrow> int \<Rightarrow> int \<Rightarrow> nat \<Rightarrow> int \<Rightarrow> int native" where
  "bs_shuffleDirectBuffer lib self input inputOffset typeSize len output outputOffset =
     bindS (GetDirectBufferAddress input) (\<lambda>inputBuffer.
     bindS (GetDirectBufferAddress output) (\<lambda>outputBuffer.
     if inputBuffer = Null \<or> outputBuffer = Null
     then bindS (bs_throw_exception self 3) (\<lambda>_. returnS 0)
     else
       bindS (bs_process (bit_shuffle lib) (ptr_add inputBuffer inputOffset)
           (ptr_add outputBuffer outputOffset) len typeSize)
         (\<lambda>processedBytes. returnS (i32 processedBytes))))"

definition bs_unshuffle :: "bitshuffle_lib \<Rightarrow> nat \<Rightarrow> nat \<Rightarrow> int \<Rightarrow> int \<Rightarrow> int \<Rightarrow> nat \<Rightarrow> int \<Rightarrow> int native" where
  "bs_unshuffle lib self input inputOffset typeSize len output outputOffset =
     bs_with_arrays self input output (\<lambda>inp outp.
       bindS (bs_process (bit_unshuffle lib) (ptr_add inp inputOffset) (ptr_add outp outputOffset) len typeSize)
         (\<lambda>processedBytes.
       bindS (ReleasePrimitiveArrayCritical input inp) (\<lambda>_.
       bindS (ReleasePrimitiveArrayCritical output outp) (\<lambda>_.
       returnS (i32 processedBytes)))))"

definition bs_unshuffleDirectBuffer ::
    "bitshuffle_lib \<Rightarrow> nat \<Rightarrow> nat \<Rightarrow> int \<Rightarrow> int \<Rightarrow> int \<Rightarrow> nat \<Rightarrow> int \<Rightarrow> int native" where
  "bs_unshuffleDirectBuffer lib self input inputOffset typeSize len output outputOffset =
     bindS (GetDirectBufferAddress input) (\<lambda>inputBuffer.
     bindS (GetDirectBufferAddress output) (\<lambda>outputBuffer.
     if inputBuffer = Null \<or> outputBuffer = Null
     then bindS (bs_throw_exception self 3) (\<lambda>_. returnS 0)
     else
       bindS (bs_process (bit_unshuffle lib) (ptr_add inputBuffer inputOffset)
           (ptr_add outputBuffer outputOffset) len typeSize)
         (\<lambda>processedBytes. returnS (i32 processedBytes))))"

section \<open>Outcome lemmas\<close>

definition bs_idle :: "nat \<Rightarrow> jvm \<Rightarrow> bool" where
  "bs_idle self s \<longleftrightarrow> pinned s = [] \<and> pending_exc s = None \<and> class_of s self = BitShuffleNative \<and>
     loadable s SnappyNative"

lemma classes_differ: "BitShuffleNative \<noteq> SnappyNative"
  by (simp add: BitShuffleNative_def SnappyNative_def)

lemma bs_throw_exception_misuse:
  "bs_idle self s \<Longrightarrow> bs_throw_exception self code s = (Inl Misuse, s)"
  by (simp add: bs_idle_def bs_throw_exception_def FindClass_def GetMethodID_throw_error_def classes_differ
      CallVoidMethod_throw_error_def declares_throw_error_def jni_call_def op_simps)

lemma bs_idle_asked [simp]: "bs_idle self (asked n s) = bs_idle self s"
  by (simp add: bs_idle_def asked_def)

lemma bs_with_arrays_outcome:
  assumes "bs_idle self s" and "arrays s input = Some a" and "arrays s output = Some b"
  shows "bs_with_arrays self input output body s =
    (if both_granted s
     then body (ArrayPtr input 0) (ArrayPtr output 0) (pinning input output s)
     else (Inl Misuse, asked 2 s))"
proof -
  have t: "bs_throw_exception self 4 (asked 2 s) = (Inl Misuse, asked 2 s)"
    using assms(1) by (simp add: bs_throw_exception_misuse)
  have p: "(asked 2 s)\<lparr>pinned := []\<rparr> = asked 2 s"
    using assms(1) by (cases s) (simp add: asked_def bs_idle_def)
  have t': "bs_throw_exception self 4 (s\<lparr>requests := Suc (Suc (requests s)), pinned := []\<rparr>)
      = (Inl Misuse, asked 2 s)"
    using t p by (simp add: asked_def)
  show ?thesis
    using assms t t'
    by (auto simp: bs_with_arrays_def GetPrimitiveArrayCritical_def ReleasePrimitiveArrayCritical_def
        both_granted_def asked_def bs_idle_def pinning_def op_simps)
qed

lemma c_div_exact: "0 < k \<Longrightarrow> 0 \<le> n \<Longrightarrow> c_div n k s = (Inr (n div k), s)"
  by (cases "n = 0") (simp_all add: c_div_def op_simps)

text \<open>Whole elements: the library sees the range itself.\<close>

lemma bs_process_pinned:
  assumes a: "arrays s input = Some a" and b: "arrays s output = Some b" and ne: "input \<noteq> output"
    and k: "0 < k" "k dvd n" and r: "in_range i n (length a)" "in_range j n (length b)"
    and big: "int (length a) \<le> int_max" "k \<le> int_max"
    and f: "f (nat k) (segment i n a) = Inr y" and y: "length y = nat n"
  shows "bs_process f (ArrayPtr input i) (ArrayPtr output j) n k (pinning input output s)
    = (Inr n, pinning input output (array_put output (blit b j y) s))"
proof -
  have n: "0 \<le> n" "n \<le> int_max" using r(1) big(1) by (auto simp: in_range_def)
  have "n div k \<le> n div 1" using n k(1) by (intro zdiv_mono2) auto
  then have st: "size_t (n div k) = n div k" "size_t k = k"
    using n k(1) big(2) by (auto simp: pos_imp_zdiv_nonneg_iff)
  have nk: "n div k * k = n" using k(2) by simp
  have put: "write_bytes (ArrayPtr output j) y (pinning input output s)
      = pinning input output (array_put output (blit b j y) s)"
    using b by (simp add: write_pinning)
  have src: "accessible (pinning input output s) (ArrayPtr input i) n = Some (segment i n a)"
    using accessible_pinning [OF a, of "input" "output" i n] r(1) by simp
  have dst: "accessible (pinning input output s) (ArrayPtr output j) n = Some (segment j n b)"
    using accessible_pinning [OF b, of "input" "output" j n] r(2) by simp
  show ?thesis
    using n(1) k(1) ne f y
    by (simp add: bs_process_def c_div_exact bindS_def bshuf_call_def st nk load_def src dst require_space_def
        disjoint_ranges_def returnS_def store_def modifyS_def put)
qed

lemma bs_release:
  "ReleasePrimitiveArrayCritical input (ArrayPtr input 0) (pinning input output s) = (Inr (), pinning1 output s)"
  "bs_idle self s \<Longrightarrow>
   ReleasePrimitiveArrayCritical output (ArrayPtr output 0) (pinning1 output s) = (Inr (), asked 2 s)"
  by (rule release_pinning)
     (cases s, simp add: ReleasePrimitiveArrayCritical_def pinning1_def asked_def bs_idle_def)

lemma bs_idle_array_put [simp]: "bs_idle self (array_put h a s) = bs_idle self s"
  by (simp add: bs_idle_def array_put_def)

lemma bs_shuffle_outcome:
  assumes "bs_idle self s" and "both_granted s" and "arrays s input = Some a" and "arrays s output = Some b"
    and "input \<noteq> output" and "0 < k" and "k dvd n"
    and "in_range i n (length a)" and "in_range j n (length b)"
    and "int (length a) \<le> int_max" and "k \<le> int_max" and "length y = nat n"
  shows "bit_shuffle lib (nat k) (segment i n a) = Inr y \<Longrightarrow>
      bs_shuffle lib self input i k n output j s = (Inr n, asked 2 (array_put output (blit b j y) s))"
    and "bit_unshuffle lib (nat k) (segment i n a) = Inr y \<Longrightarrow>
      bs_unshuffle lib self input i k n output j s = (Inr n, asked 2 (array_put output (blit b j y) s))"
proof -
  have n: "i32 n = n" using assms(8,10) by (intro i32_id) (auto simp: in_range_def is_i32_def int_max_def)
  note p = bs_process_pinned [OF assms(3,4,5,6,7,8,9,10,11) _ assms(12)]
  show "bit_shuffle lib (nat k) (segment i n a) = Inr y \<Longrightarrow>
      bs_shuffle lib self input i k n output j s = (Inr n, asked 2 (array_put output (blit b j y) s))"
    using bs_release(2) [of self "array_put output (blit b j y) s" "output"] assms(1,2) n
    by (simp add: bs_shuffle_def bs_with_arrays_outcome [OF assms(1,3,4)] bindS_def p release_pinning returnS_def)
  show "bit_unshuffle lib (nat k) (segment i n a) = Inr y \<Longrightarrow>
      bs_unshuffle lib self input i k n output j s = (Inr n, asked 2 (array_put output (blit b j y) s))"
    using bs_release(2) [of self "array_put output (blit b j y) s" "output"] assms(1,2) n
    by (simp add: bs_unshuffle_def bs_with_arrays_outcome [OF assms(1,3,4)] bindS_def p release_pinning returnS_def)
qed

section \<open>Properties\<close>

text \<open>
  Shuffling a whole number of elements from one array into a second and unshuffling that
  into a third reports the full length twice and restores the bytes of the range.
\<close>

theorem bitshuffle_roundtrip:
  assumes "bs_idle self s" and "\<forall>q. grants s q" and "bshuf_ok lib"
    and "arrays s x = Some a" and "arrays s y = Some b" and "arrays s z = Some c" and "distinct [x, y, z]"
    and "0 < k" and "k dvd n" and "k \<le> int_max"
    and "in_range i n (length a)" and "in_range j n (length b)" and "in_range l n (length c)"
    and "int (length a) \<le> int_max" and "int (length b) \<le> int_max"
  shows "\<exists>t t'. bs_shuffle lib self x i k n y j s = (Inr n, t)
    \<and> bs_unshuffle lib self y j k n z l t = (Inr n, t')
    \<and> arrays t' z = Some (blit c l (segment i n a)) \<and> bs_idle self t'"
proof -
  let ?x = "segment i n a"
  have lx: "length ?x = nat n" using assms(11) by (simp add: segment_simps)
  have "nat k dvd length ?x" using assms(8,9,11) lx by (simp add: nat_dvd_iff in_range_def)
  then obtain w where w: "bit_shuffle lib (nat k) ?x = Inr w" "length w = length ?x"
    "bit_unshuffle lib (nat k) w = Inr ?x"
    using assms(3,8) unfolding bshuf_ok_def by (metis zero_less_nat_eq)
  let ?b = "blit b j w" and ?t = "asked 2 (array_put y (blit b j w) s)"
  have n0: "0 \<le> n" using assms(11) by (simp add: in_range_def)
  have rw: "in_range j (int (length w)) (length b)" using assms(12) w(2) lx n0 by simp
  have sb: "segment j n ?b = w" and lb: "length ?b = length b"
    using segment_blit_same [OF rw] length_blit [OF rw] w(2) lx n0 by simp_all
  have g: "both_granted s" "both_granted ?t"
    using assms(2) by (simp_all add: both_granted_def asked_def array_put_def)
  have s1: "bs_shuffle lib self x i k n y j s = (Inr n, ?t)"
    using bs_shuffle_outcome(1) [OF assms(1) g(1) assms(4,5) _ assms(8,9,11,12,14,10), of w lib] assms(7) w lx
    by simp
  have t: "bs_idle self ?t" "arrays ?t y = Some ?b" "arrays ?t z = Some c"
    using assms(1,6,7) by (simp, simp_all add: asked_def array_put_def)
  have "bs_unshuffle lib self y j k n z l ?t = (Inr n, asked 2 (array_put z (blit c l ?x) ?t))"
    using bs_shuffle_outcome(2) [OF t(1) g(2) t(2,3) _ assms(8,9), of j l ?x lib] assms(7,10,12,13,15) w lx sb lb
    by simp
  then show ?thesis using s1 t(1) by (auto simp: asked_def array_put_def bs_idle_def)
qed

text \<open>A library that reverses the bytes of every element.\<close>

definition reversing_lib :: bitshuffle_lib where
  "reversing_lib = \<lparr>bit_shuffle = (\<lambda>k x. Inr (rev x)), bit_unshuffle = (\<lambda>k x. Inr (rev x))\<rparr>"

definition bs_demo :: jvm where
  "bs_demo = \<lparr>
     arrays = [1 \<mapsto> [1, 2, 3, 4, 5], 2 \<mapsto> [0, 0, 0, 0], 3 \<mapsto> [9, 9, 9, 9, 9]],
     directs = [1 \<mapsto> [1, 2, 3, 4]], memory = (\<lambda>_. None), grants = (\<lambda>_. True), requests = 0, pinned = [],
     pending_exc = None, class_of = (\<lambda>_. BitShuffleNative), loadable = (\<lambda>_. True)\<rparr>"

theorem bitshuffle_roundtrip_witness:
  "\<exists>t t'. bs_shuffle reversing_lib 0 1 0 2 4 2 0 bs_demo = (Inr 4, t)
    \<and> bs_unshuffle reversing_lib 0 2 0 2 4 3 1 t = (Inr 4, t')
    \<and> arrays t' 3 = Some [9, 1, 2, 3, 4] \<and> bs_idle 0 t'"
proof -
  have b: "bs_idle 0 bs_demo" "\<forall>q. grants bs_demo q" "bshuf_ok reversing_lib"
    "arrays bs_demo 1 = Some [1, 2, 3, 4, 5]" "arrays bs_demo 2 = Some [0, 0, 0, 0]"
    "arrays bs_demo 3 = Some [9, 9, 9, 9, 9]"
    by (simp_all add: bs_demo_def bs_idle_def bshuf_ok_def reversing_lib_def)
  have "blit [9, 9, 9, 9, 9] 1 (segment 0 4 [1, 2, 3, 4, 5]) = [9, 1, 2, 3, 4 :: byte]"
    by (simp add: blit_def)
  then show ?thesis
    using bitshuffle_roundtrip [OF b, of 2 4 0 0 1] by (simp add: in_range_def int_max_def)
qed

text \<open>
  C38: The error paths of \<open>BitShuffleNative.cpp\<close> do not raise the Java exception they are meant to:
  \<open>throw_error\<close> belongs to \<open>SnappyNative\<close>, and calling it on a \<open>BitShuffleNative\<close> object breaks the
  JNI rules. It happens whenever an array cannot be pinned or a buffer is not direct.
\<close>

theorem bitshuffle_error_misuse:
  assumes "bs_idle self s"
  shows "(directs s x = None \<or> directs s y = None \<longrightarrow>
      bs_shuffleDirectBuffer lib self x i k n y j s = (Inl Misuse, s)
      \<and> bs_unshuffleDirectBuffer lib self x i k n y j s = (Inl Misuse, s))
    \<and> (arrays s x \<noteq> None \<and> arrays s y \<noteq> None \<and> \<not> both_granted s \<longrightarrow>
      bs_shuffle lib self x i k n y j s = (Inl Misuse, asked 2 s)
      \<and> bs_unshuffle lib self x i k n y j s = (Inl Misuse, asked 2 s))"
proof (intro conjI impI)
  have d: "GetDirectBufferAddress h s = (Inr (if directs s h = None then Null else DirectPtr h 0), s)" for h
    using assms by (simp add: GetDirectBufferAddress_def jni_call_def bs_idle_def bindS_def)
  assume "directs s x = None \<or> directs s y = None"
  then show "bs_shuffleDirectBuffer lib self x i k n y j s = (Inl Misuse, s)"
    "bs_unshuffleDirectBuffer lib self x i k n y j s = (Inl Misuse, s)"
    by (auto simp: bs_shuffleDirectBuffer_def bs_unshuffleDirectBuffer_def bindS_def d
        bs_throw_exception_misuse [OF assms])
next
  assume "arrays s x \<noteq> None \<and> arrays s y \<noteq> None \<and> \<not> both_granted s"
  then show "bs_shuffle lib self x i k n y j s = (Inl Misuse, asked 2 s)"
    "bs_unshuffle lib self x i k n y j s = (Inl Misuse, asked 2 s)"
    by (auto simp: bs_shuffle_def bs_unshuffle_def bs_with_arrays_outcome [OF assms])
qed

theorem bitshuffle_error_misuse_witness:
  "fst (bs_shuffleDirectBuffer reversing_lib 0 1 0 2 4 7 0 bs_demo) = Inl Misuse
   \<and> fst (bs_unshuffle reversing_lib 0 1 0 2 4 2 0 (bs_demo\<lparr>grants := \<lambda>_. False\<rparr>)) = Inl Misuse"
proof -
  let ?s = "bs_demo\<lparr>grants := \<lambda>_. False\<rparr>"
  have "bs_idle 0 bs_demo" "directs bs_demo 7 = None" by (simp_all add: bs_idle_def bs_demo_def)
  then have "fst (bs_shuffleDirectBuffer reversing_lib 0 1 0 2 4 7 0 bs_demo) = Inl Misuse"
    using bitshuffle_error_misuse [of 0 bs_demo 1 7] by simp
  moreover have "bs_idle 0 ?s" "arrays ?s 1 \<noteq> None" "arrays ?s 2 \<noteq> None" "\<not> both_granted ?s"
    by (simp_all add: bs_idle_def bs_demo_def both_granted_def)
  ultimately show ?thesis using bitshuffle_error_misuse [of 0 ?s 1 2] by simp
qed

end
