(* ===== verification/BitShuffle_Api.thy ===== *)
theory BitShuffle_Api
  imports BitShuffle_Native Snappy_Api
begin

text \<open>
  \<open>BitShuffle.java\<close> and \<open>BitShuffleType.java\<close>: the methods that check their arguments and hand arrays or
  direct buffers to the native functions. An array of \<open>k\<close>-byte elements is the list of its bytes, as in
  \<open>Snappy_Api\<close>. The first section states what the native methods do to arrays, and that the C++
  functions do it.
\<close>

section \<open>The native methods as operations on arrays\<close>

text \<open>A range that is no whole number of elements is rounded down.\<close>

definition impl_bitshuffle ::
    "(nat \<Rightarrow> bytes \<Rightarrow> int + bytes) \<Rightarrow> bytes \<Rightarrow> int \<Rightarrow> int \<Rightarrow> int \<Rightarrow> int \<Rightarrow> (bytes, exc, int) op" where
  "impl_bitshuffle f a i k n j b =
     (let l = n div k * k in
      if in_range i l (length a) \<and> in_range j l (length b) then
        (case f (nat k) (segment i l a) of
           Inl code \<Rightarrow> (Inr (i32 code), b)
         | Inr y \<Rightarrow> (Inr (i32 (int (length y))), blit b j y))
      else (Inl NativeFault, b))"

lemma i32_size: "0 \<le> n \<Longrightarrow> n \<le> int_max \<Longrightarrow> i32 n = n"
  by (rule i32_id) (simp add: is_i32_def int_max_def)

lemma impl_bitshuffle_refines:
  assumes "bs_idle self s" and "both_granted s" and "arrays s x = Some a" and "arrays s z = Some b"
    and "x \<noteq> z" and "0 < k" and "k dvd n"
    and "in_range i n (length a)" and "in_range j n (length b)"
    and "int (length a) \<le> int_max" and "k \<le> int_max" and "length y = nat n"
  shows "bit_shuffle lib (nat k) (segment i n a) = Inr y \<Longrightarrow>
      (java_outcome (bs_shuffle lib self x i k n z j s), array_after z (bs_shuffle lib self x i k n z j s))
      = impl_bitshuffle (bit_shuffle lib) a i k n j b"
    and "bit_unshuffle lib (nat k) (segment i n a) = Inr y \<Longrightarrow>
      (java_outcome (bs_unshuffle lib self x i k n z j s), array_after z (bs_unshuffle lib self x i k n z j s))
      = impl_bitshuffle (bit_unshuffle lib) a i k n j b"
proof -
  have n: "n div k * k = n" "0 \<le> n" "n \<le> int_max" using assms(7,8,10) by (auto simp: in_range_def)
  then have l: "i32 (int (length y)) = n" using assms(12) by (simp add: i32_size)
  have p: "pending_exc (asked 2 (array_put z c s)) = None" for c
    using assms(1) by (simp add: asked_def array_put_def bs_idle_def)
  note o = bs_shuffle_outcome [OF assms(1-12)]
  show "bit_shuffle lib (nat k) (segment i n a) = Inr y \<Longrightarrow>
      (java_outcome (bs_shuffle lib self x i k n z j s), array_after z (bs_shuffle lib self x i k n z j s))
      = impl_bitshuffle (bit_shuffle lib) a i k n j b"
    using o(1) assms(8,9) n l p
    by (simp add: impl_bitshuffle_def java_outcome_def array_after_def outcome_simps)
  show "bit_unshuffle lib (nat k) (segment i n a) = Inr y \<Longrightarrow>
      (java_outcome (bs_unshuffle lib self x i k n z j s), array_after z (bs_unshuffle lib self x i k n z j s))
      = impl_bitshuffle (bit_unshuffle lib) a i k n j b"
    using o(2) assms(8,9) n l p
    by (simp add: impl_bitshuffle_def java_outcome_def array_after_def outcome_simps)
qed

lemma impl_bitshuffle_whole:
  assumes "0 < k" "k dvd n" "in_range i n (length a)" "in_range j n (length b)" "n \<le> int_max"
    and "f (nat k) (segment i n a) = Inr y" "length y = nat n"
  shows "impl_bitshuffle f a i k n j b = (Inr n, blit b j y)"
  using assms by (simp add: impl_bitshuffle_def i32_size in_range_def)

section \<open>BitShuffle.java\<close>

text \<open>\<open>INT\<close> is taken by the syntax of intersections.\<close>

datatype BitShuffleType = BYTE | SHORT | INT' | LONG | FLOAT | DOUBLE

fun getTypeSize :: "BitShuffleType \<Rightarrow> int" where
  "getTypeSize BYTE = 1" | "getTypeSize SHORT = 2" | "getTypeSize INT' = 4" | "getTypeSize LONG = 8"
| "getTypeSize FLOAT = 4" | "getTypeSize DOUBLE = 8"

text \<open>
  \<open>shuffle(short[])\<close> (\<open>k = 2\<close>), \<open>shuffle(int[])\<close>, \<open>shuffle(float[])\<close> (\<open>k = 4\<close>), \<open>shuffle(long[])\<close> and
  \<open>shuffle(double[])\<close> (\<open>k = 8\<close>) have one body, with the size check of \<open>Snappy.compress(double[])\<close>.
  Assertions are off.
\<close>

definition shuffle_elements :: "bitshuffle_lib \<Rightarrow> int \<Rightarrow> bytes \<Rightarrow> bytes result" where
  "shuffle_elements lib k inp =
     bindE (byte_size_checked k (int (length inp) div k)) (\<lambda>n.
     bindE (new_array n) (\<lambda>out.
     case impl_bitshuffle (bit_shuffle lib) inp 0 k n 0 out of
       (Inl e, _) \<Rightarrow> Inl e
     | (Inr numProcessed, out') \<Rightarrow> Inr out'))"

definition unshuffle_elements :: "bitshuffle_lib \<Rightarrow> int \<Rightarrow> bytes \<Rightarrow> bytes result" where
  "unshuffle_elements lib k inp =
     bindE (new_array (int (length inp) div k * k)) (\<lambda>out.
     case impl_bitshuffle (bit_unshuffle lib) inp 0 k (int (length inp)) 0 out of
       (Inl e, _) \<Rightarrow> Inl e
     | (Inr numProcessed, out') \<Rightarrow> Inr out')"

definition shuffle_buffer :: "bitshuffle_lib \<Rightarrow> byte_buffer \<Rightarrow> BitShuffleType \<Rightarrow> (byte_buffer, exc, int) op" where
  "shuffle_buffer lib inp type shuffled =
     (if \<not> bb_direct inp then (Inl (SnappyErrorExc NOT_A_DIRECT_BUFFER), shuffled)
      else if \<not> bb_direct shuffled then (Inl (SnappyErrorExc NOT_A_DIRECT_BUFFER), shuffled)
      else
        (let uPos = bb_pos inp; uLen = bb_remaining inp; typeSize = getTypeSize type in
         if uLen mod typeSize \<noteq> 0 then (Inl IllegalArgumentException, shuffled)
         else if bb_remaining shuffled < uLen then (Inl IllegalArgumentException, shuffled)
         else
           bindS (bb_native (impl_bitshuffle (bit_shuffle lib) (bb_data inp) uPos typeSize uLen (bb_pos shuffled)))
             (\<lambda>numProcessed.
           bindS (getS (\<lambda>s. bb_set_limit (i32 (bb_pos s + numProcessed)))) (\<lambda>_.
           returnS numProcessed)) shuffled))"

text \<open>
  Both buffers are the state: the method passes the position of \<open>shuffled\<close> as the offset into \<open>output\<close>
  and sets the limit of \<open>shuffled\<close>.
\<close>

definition unshuffle_buffer ::
    "bitshuffle_lib \<Rightarrow> BitShuffleType \<Rightarrow> (byte_buffer \<times> byte_buffer, exc, int) op" where
  "unshuffle_buffer lib type = (\<lambda>(shuffled, out).
     (if \<not> bb_direct shuffled then (Inl (SnappyErrorExc NOT_A_DIRECT_BUFFER), (shuffled, out))
      else if \<not> bb_direct out then (Inl (SnappyErrorExc NOT_A_DIRECT_BUFFER), (shuffled, out))
      else
        (let uPos = bb_pos shuffled; uLen = bb_remaining shuffled; typeSize = getTypeSize type in
         if uLen mod typeSize \<noteq> 0 then (Inl IllegalArgumentException, (shuffled, out))
         else if bb_remaining out < uLen then (Inl IllegalArgumentException, (shuffled, out))
         else
           case bb_native (impl_bitshuffle (bit_unshuffle lib) (bb_data shuffled) uPos typeSize uLen (bb_pos shuffled))
                  out of
             (Inl e, out') \<Rightarrow> (Inl e, (shuffled, out'))
           | (Inr numProcessed, out') \<Rightarrow>
               (case bb_set_limit (i32 (bb_pos shuffled + numProcessed)) shuffled of
                  (Inl e, shuffled') \<Rightarrow> (Inl e, (shuffled', out'))
                | (Inr _, shuffled') \<Rightarrow> (Inr numProcessed, (shuffled', out'))))))"

section \<open>Lemmas\<close>

lemma getTypeSize_pos: "0 < getTypeSize type" "getTypeSize type \<le> 8"
  by (cases type; simp)+

lemma bshuf_okE:
  assumes "bshuf_ok lib" and "0 < k" and "k dvd int (length x)"
  obtains y where "bit_shuffle lib (nat k) x = Inr y" "length y = length x" "bit_unshuffle lib (nat k) y = Inr x"
proof -
  have "nat k dvd length x" using assms(2,3) by (metis nat_0_le less_imp_le int_dvd_int_iff)
  then show thesis using assms(1,2) that unfolding bshuf_ok_def by (metis zero_less_nat_eq)
qed

definition bb_ok :: "byte_buffer \<Rightarrow> bool" where
  "bb_ok bb \<longleftrightarrow> bb_direct bb \<and> 0 \<le> bb_pos bb \<and> bb_pos bb \<le> bb_limit bb
     \<and> bb_limit bb \<le> int (length (bb_data bb)) \<and> int (length (bb_data bb)) \<le> int_max"

lemma blit_fresh: "length y = n \<Longrightarrow> blit (replicate n 0) 0 y = y"
  by (simp add: blit_def)

section \<open>Properties\<close>

text \<open>
  C22: Shuffling an array of two-, four- or eight-byte elements and unshuffling the result gives the array
  back, whenever its size in bytes is an \<open>int\<close>.
\<close>

theorem bitshuffle_arrays_roundtrip:
  assumes "bshuf_ok lib" and "0 < k" and "k dvd int (length x)" and "int (length x) \<le> int_max"
  shows "\<exists>y. shuffle_elements lib k x = Inr y \<and> length y = length x \<and> unshuffle_elements lib k y = Inr x"
proof -
  let ?n = "int (length x)"
  obtain y where y: "bit_shuffle lib (nat k) x = Inr y" "length y = length x" "bit_unshuffle lib (nat k) y = Inr x"
    using bshuf_okE [OF assms(1-3)] by blast
  have d: "?n div k * k = ?n" "0 \<le> ?n div k" using assms(2,3) by (simp_all add: pos_imp_zdiv_nonneg_iff)
  then have b: "byte_size_checked k (?n div k) = Inr ?n" using byte_size_exact [OF assms(2) d(2)] assms(4) by simp
  have r: "in_range 0 ?n (length x)" "in_range 0 ?n (length (replicate (length x) (0 :: byte)))"
    by (simp_all add: in_range_def)
  have "impl_bitshuffle (bit_shuffle lib) x 0 k ?n 0 (replicate (length x) 0) = (Inr ?n, y)"
    using impl_bitshuffle_whole [OF assms(2,3) r assms(4), of "bit_shuffle lib" y] y blit_fresh [of y] by simp
  then have "shuffle_elements lib k x = Inr y"
    unfolding shuffle_elements_def b by (simp add: new_array_def)
  moreover have "impl_bitshuffle (bit_unshuffle lib) y 0 k ?n 0 (replicate (length x) 0) = (Inr ?n, x)"
  proof -
    have "segment 0 ?n y = y" using y(2) by (simp add: segment_def)
    then show ?thesis
      using impl_bitshuffle_whole [where a = y and i = 0 and f = "bit_unshuffle lib" and y = x,
          OF assms(2,3) _ r(2) assms(4)] r(1) y blit_fresh [of x] by simp
  qed
  then have "unshuffle_elements lib k y = Inr x"
    unfolding unshuffle_elements_def y(2) d(1) by (simp add: new_array_def)
  ultimately show ?thesis using y(2) by blast
qed

theorem bitshuffle_arrays_roundtrip_witness:
  "\<exists>y. shuffle_elements reversing_lib 4 [1, 2, 3, 4, 5, 6, 7, 8] = Inr y \<and> length y = 8
     \<and> unshuffle_elements reversing_lib 4 y = Inr [1, 2, 3, 4, 5, 6, 7, 8]"
  using bitshuffle_arrays_roundtrip [of reversing_lib 4 "[1, 2, 3, 4, 5, 6, 7, 8]"]
  by (simp add: bshuf_ok_def reversing_lib_def int_max_def eval_nat_numeral)

text \<open>
  C23: \<open>unshuffle(ByteBuffer, ...)\<close> writes to the position of its source, not to that of its destination:
  after all checks passed the data lie there, the window of the destination is as before, and when the
  destination is too short for that offset the native code writes behind its end.
\<close>

theorem unshuffle_buffer_offset:
  assumes "bshuf_ok lib" and "bb_ok shuffled" and "bb_ok out"
    and "bb_remaining shuffled \<le> bb_remaining out" and "getTypeSize type dvd bb_remaining shuffled"
    and "bit_shuffle lib (nat (getTypeSize type)) x = Inr (segment (bb_pos shuffled) (bb_remaining shuffled) (bb_data shuffled))"
    and "int (length x) = bb_remaining shuffled"
  shows "if bb_limit shuffled \<le> int (length (bb_data out))
     then unshuffle_buffer lib type (shuffled, out)
        = (Inr (bb_remaining shuffled), (shuffled, out\<lparr>bb_data := blit (bb_data out) (bb_pos shuffled) x\<rparr>))
     else unshuffle_buffer lib type (shuffled, out) = (Inl NativeFault, (shuffled, out))"
proof -
  let ?k = "getTypeSize type" and ?p = "bb_pos shuffled" and ?n = "bb_remaining shuffled"
  have k: "0 < ?k" "?n mod ?k = 0" "?n div ?k * ?k = ?n" using getTypeSize_pos(1) assms(5) by auto
  have w: "0 \<le> ?p" "0 \<le> ?n" "?p + ?n = bb_limit shuffled" "bb_limit shuffled \<le> int (length (bb_data shuffled))"
    "int (length (bb_data shuffled)) \<le> int_max" "bb_direct shuffled" "bb_direct out"
    using assms(2,3) by (simp_all add: bb_ok_def bb_remaining_def)
  have r: "in_range ?p ?n (length (bb_data shuffled))" using w by (simp add: in_range_def)
  have "?k dvd int (length x)" using assms(5,7) by simp
  then have u: "bit_unshuffle lib (nat ?k) (segment ?p ?n (bb_data shuffled)) = Inr x"
    using bshuf_okE [OF assms(1) k(1)] assms(6) by (metis sum.inject(2))
  have nm: "?n \<le> int_max" using w by linarith
  show ?thesis
  proof (cases "bb_limit shuffled \<le> int (length (bb_data out))")
    case True
    then have ro: "in_range ?p ?n (length (bb_data out))" using w by (simp add: in_range_def)
    have i: "impl_bitshuffle (bit_unshuffle lib) (bb_data shuffled) ?p ?k ?n ?p (bb_data out)
        = (Inr ?n, blit (bb_data out) ?p x)"
      using impl_bitshuffle_whole [OF k(1) assms(5) r ro nm, of "bit_unshuffle lib" x] u assms(7) by simp
    have "i32 (?p + ?n) = bb_limit shuffled" using w by (simp add: i32_id is_i32_def int_max_def)
    moreover have "bb_set_limit (bb_limit shuffled) shuffled = (Inr (), shuffled)"
      using w by (simp add: bb_set_limit_def)
    ultimately show ?thesis
      using True w assms(4) k(2) i by (simp add: unshuffle_buffer_def Let_def bb_native_def)
  next
    case False
    then have "\<not> in_range ?p ?n (length (bb_data out))" using w by (simp add: in_range_def)
    then have "impl_bitshuffle (bit_unshuffle lib) (bb_data shuffled) ?p ?k ?n ?p (bb_data out)
        = (Inl NativeFault, bb_data out)"
      using k(3) by (simp add: impl_bitshuffle_def)
    then show ?thesis
      using False w assms(4) k(2) by (simp add: unshuffle_buffer_def Let_def bb_native_def)
  qed
qed

definition demo_shuffled :: byte_buffer where
  "demo_shuffled = \<lparr>bb_data = [0, 0, 4, 3, 2, 1], bb_pos = 2, bb_limit = 6, bb_direct = True\<rparr>"

definition demo_out :: "nat \<Rightarrow> byte_buffer" where
  "demo_out n = \<lparr>bb_data = replicate n 0, bb_pos = 0, bb_limit = int n, bb_direct = True\<rparr>"

theorem unshuffle_buffer_offset_witness:
  "bb_data (snd (snd (unshuffle_buffer reversing_lib INT' (demo_shuffled, demo_out 8)))) = [0, 0, 1, 2, 3, 4, 0, 0]
   \<and> fst (unshuffle_buffer reversing_lib INT' (demo_shuffled, demo_out 4)) = Inl NativeFault"
proof -
  have ok: "bshuf_ok reversing_lib" "bb_ok demo_shuffled" "bb_ok (demo_out 8)" "bb_ok (demo_out 4)"
    by (simp_all add: bshuf_ok_def reversing_lib_def bb_ok_def demo_shuffled_def demo_out_def int_max_def)
  have f: "bit_shuffle reversing_lib (nat (getTypeSize INT')) [1, 2, 3, 4]
      = Inr (segment (bb_pos demo_shuffled) (bb_remaining demo_shuffled) (bb_data demo_shuffled))"
    by (simp add: reversing_lib_def demo_shuffled_def bb_remaining_def segment_def)
  have r: "bb_remaining demo_shuffled = 4" "bb_remaining (demo_out 8) = 8" "bb_remaining (demo_out 4) = 4"
    "bb_limit demo_shuffled = 6" "bb_pos demo_shuffled = 2" "length (bb_data (demo_out 8)) = 8"
    "length (bb_data (demo_out 4)) = 4" "bb_data (demo_out 8) = [0, 0, 0, 0, 0, 0, 0, 0]"
    by (simp_all add: demo_shuffled_def demo_out_def bb_remaining_def eval_nat_numeral)
  have "unshuffle_buffer reversing_lib INT' (demo_shuffled, demo_out 8)
      = (Inr 4, (demo_shuffled, (demo_out 8)\<lparr>bb_data := blit (bb_data (demo_out 8)) 2 [1, 2, 3, 4]\<rparr>))"
    using unshuffle_buffer_offset [OF ok(1-3) _ _ f] r by simp
  moreover have "unshuffle_buffer reversing_lib INT' (demo_shuffled, demo_out 4) = (Inl NativeFault, (demo_shuffled, demo_out 4))"
    using unshuffle_buffer_offset [OF ok(1,2,4) _ _ f] r by simp
  ultimately show ?thesis by (simp add: r(8) blit_def)
qed

end
