(* ===== verification/Byte_Buffer.thy ===== *)
theory Byte_Buffer
  imports Buffer_Pool Snappy_Input
begin

text \<open>
  The operations of \<open>java.nio.ByteBuffer\<close> the framed streams use, and the channels they read from and
  write to. A heap buffer is the array it wraps with its position and limit. A channel that is read
  delivers at least one byte unless none was asked for, as \<open>source\<close>; a channel that is written may take
  fewer bytes than offered.
\<close>

section \<open>Buffers\<close>

definition bb_wf :: "byte_buffer \<Rightarrow> bool" where
  "bb_wf bb \<longleftrightarrow> 0 \<le> bb_pos bb \<and> bb_pos bb \<le> bb_limit bb \<and> bb_limit bb \<le> bb_capacity bb"

text \<open>The bytes before the position, and those between position and limit.\<close>

definition bb_done :: "byte_buffer \<Rightarrow> bytes" where
  "bb_done bb = take (nat (bb_pos bb)) (bb_data bb)"

definition bb_window :: "byte_buffer \<Rightarrow> bytes" where
  "bb_window bb = segment (bb_pos bb) (bb_remaining bb) (bb_data bb)"

definition bb_wrap :: "bytes \<Rightarrow> int \<Rightarrow> int \<Rightarrow> byte_buffer result" where
  "bb_wrap a off len =
     (if in_range off len (length a)
      then Inr \<lparr>bb_data = a, bb_pos = off, bb_limit = off + len, bb_direct = False\<rparr>
      else Inl IndexOutOfBoundsException)"

definition bb_flip :: "byte_buffer \<Rightarrow> byte_buffer" where
  "bb_flip bb = bb\<lparr>bb_limit := bb_pos bb, bb_pos := 0\<rparr>"

definition bb_set_position :: "int \<Rightarrow> (byte_buffer, exc, unit) op" where
  "bb_set_position n bb =
     (if n < 0 \<or> bb_limit bb < n then (Inl IllegalArgumentException, bb) else (Inr (), bb\<lparr>bb_pos := n\<rparr>))"

definition bb_put :: "bytes \<Rightarrow> (byte_buffer, exc, unit) op" where
  "bb_put x bb =
     (if bb_remaining bb < int (length x) then (Inl BufferOverflowException, bb)
      else (Inr (), bb\<lparr>bb_data := blit (bb_data bb) (bb_pos bb) x, bb_pos := bb_pos bb + int (length x)\<rparr>))"

definition bb_put_range :: "bytes \<Rightarrow> int \<Rightarrow> int \<Rightarrow> (byte_buffer, exc, unit) op" where
  "bb_put_range a off len bb =
     (if in_range off len (length a) then bb_put (segment off len a) bb else (Inl IndexOutOfBoundsException, bb))"

text \<open>\<open>dst.put(src)\<close>, with both buffers as the state.\<close>

definition bb_put_buffer :: "(byte_buffer \<times> byte_buffer, exc, unit) op" where
  "bb_put_buffer = (\<lambda>(src, dst).
     case bb_put (bb_window src) dst of
       (Inl e, dst') \<Rightarrow> (Inl e, (src, dst'))
     | (Inr _, dst') \<Rightarrow> (Inr (), (src\<lparr>bb_pos := bb_limit src\<rparr>, dst')))"

text \<open>\<open>src.get(dst, off, len)\<close>, with the destination array as the second part of the state.\<close>

definition bb_get :: "int \<Rightarrow> int \<Rightarrow> (byte_buffer \<times> bytes, exc, unit) op" where
  "bb_get off len = (\<lambda>(bb, a).
     if \<not> in_range off len (length a) then (Inl IndexOutOfBoundsException, (bb, a))
     else if bb_remaining bb < len then (Inl BufferUnderflowException, (bb, a))
     else (Inr (), (bb\<lparr>bb_pos := bb_pos bb + len\<rparr>, blit a off (segment (bb_pos bb) len (bb_data bb)))))"

text \<open>Little-endian \<open>putInt\<close>, and \<open>getInt\<close> at an index.\<close>

definition int_le :: "jint \<Rightarrow> bytes" where
  "int_le v = [ucast v, ucast (drop_bit 8 v), ucast (drop_bit 16 v), ucast (drop_bit 24 v)]"

fun le_int :: "bytes \<Rightarrow> jint" where
  "le_int [a, b, c, d] = ucast a OR push_bit 8 (ucast b) OR push_bit 16 (ucast c) OR push_bit 24 (ucast d)"
| "le_int _ = 0"

definition bb_getInt :: "int \<Rightarrow> byte_buffer \<Rightarrow> jint result" where
  "bb_getInt i bb =
     (if i < 0 \<or> bb_limit bb < i + 4 then Inl IndexOutOfBoundsException
      else Inr (le_int (segment i 4 (bb_data bb))))"

section \<open>Channels\<close>

text \<open>\<open>ch_take k n\<close>: how many of \<open>n\<close> bytes the \<open>k\<close>-th call takes; \<open>ch_fail k\<close>: whether it throws.\<close>

record channel =
  ch_data :: bytes
  ch_open :: bool
  ch_calls :: nat
  ch_fail :: "nat \<Rightarrow> bool"
  ch_take :: "nat \<Rightarrow> nat \<Rightarrow> nat"

definition channel_write :: "byte_buffer \<Rightarrow> (channel, exc, byte_buffer) op" where
  "channel_write bb c =
     (let k = ch_calls c; c' = c\<lparr>ch_calls := Suc k\<rparr>; w = bb_window bb; n = min (ch_take c k (length w)) (length w) in
      if ch_fail c k then (Inl (IOException ''channel''), c')
      else (Inr (bb\<lparr>bb_pos := bb_pos bb + int n\<rparr>), c'\<lparr>ch_data := ch_data c @ take n w\<rparr>))"

definition channel_close :: "(channel, exc, unit) op" where
  "channel_close c =
     (let c' = c\<lparr>ch_calls := Suc (ch_calls c)\<rparr> in
      if ch_fail c (ch_calls c) then (Inl (IOException ''channel''), c') else (Inr (), c'\<lparr>ch_open := False\<rparr>))"

text \<open>\<open>ReadableByteChannel.read(ByteBuffer)\<close>: the count, \<open>-1\<close> at the end of the data.\<close>

definition channel_read :: "byte_buffer \<times> source \<Rightarrow> int \<times> (byte_buffer \<times> source)" where
  "channel_read = (\<lambda>(bb, src).
     case source_read (bb_remaining bb) src of
       (None, src') \<Rightarrow> (- 1, (bb, src'))
     | (Some bs, src') \<Rightarrow>
         (int (length bs),
          (bb\<lparr>bb_data := blit (bb_data bb) (bb_pos bb) bs, bb_pos := bb_pos bb + int (length bs)\<rparr>, src')))"

section \<open>Lemmas\<close>

lemma bb_remaining_nonneg: "bb_wf bb \<Longrightarrow> 0 \<le> bb_remaining bb"
  by (simp add: bb_wf_def bb_remaining_def)

lemma bb_window_range: "bb_wf bb \<Longrightarrow> in_range (bb_pos bb) (bb_remaining bb) (length (bb_data bb))"
  by (simp add: bb_wf_def bb_remaining_def in_range_def bb_capacity_def)

lemma length_bb_window: "bb_wf bb \<Longrightarrow> int (length (bb_window bb)) = bb_remaining bb"
  using bb_window_range [of bb] bb_remaining_nonneg [of bb] by (simp add: bb_window_def length_segment)

lemma length_bb_done: "bb_wf bb \<Longrightarrow> int (length (bb_done bb)) = bb_pos bb"
  by (auto simp: bb_wf_def bb_done_def bb_capacity_def)

lemma bb_put_ok:
  assumes "bb_wf bb" and "int (length x) \<le> bb_remaining bb"
  obtains d where "bb_put x bb = (Inr (), bb\<lparr>bb_data := d, bb_pos := bb_pos bb + int (length x)\<rparr>)"
    and "length d = length (bb_data bb)" and "take (nat (bb_pos bb + int (length x))) d = bb_done bb @ x"
    and "d = blit (bb_data bb) (bb_pos bb) x"
proof
  have r: "in_range (bb_pos bb) (int (length x)) (length (bb_data bb))"
    using assms by (simp add: bb_wf_def bb_remaining_def in_range_def bb_capacity_def)
  let ?d = "blit (bb_data bb) (bb_pos bb) x"
  show "bb_put x bb = (Inr (), bb\<lparr>bb_data := ?d, bb_pos := bb_pos bb + int (length x)\<rparr>)"
    using assms(2) by (simp add: bb_put_def)
  show "length ?d = length (bb_data bb)" using length_blit [OF r] .
  have "nat (bb_pos bb + int (length x)) = nat (bb_pos bb) + length x" "nat (bb_pos bb) \<le> length (bb_data bb)"
    using assms(1) by (auto simp: bb_wf_def bb_capacity_def)
  then show "take (nat (bb_pos bb + int (length x))) ?d = bb_done bb @ x"
    using take_blit_extend [OF r] by (simp add: bb_done_def)
qed simp

lemma le_int_le: "le_int (int_le v) = v"
proof (rule bit_word_eqI)
  fix k assume k: "k < LENGTH(32)"
  have "k < 8 \<or> (8 \<le> k \<and> k < 16) \<or> (16 \<le> k \<and> k < 24) \<or> (24 \<le> k \<and> k < 32)" using k by auto
  then show "bit (le_int (int_le v)) k = bit v k"
    unfolding int_le_def le_int.simps bit_or_iff bit_push_bit_iff bit_ucast_iff bit_drop_bit_eq comp_def
    using k by (elim disjE conjE) (simp_all add: less_diff_conv2)
qed

lemma length_int_le [simp]: "length (int_le v) = 4"
  by (simp add: int_le_def)

interpretation le: int_code int_le le_int
  by unfold_locales (simp, rule le_int_le)

text \<open>A channel that takes everything it is offered and does not throw.\<close>

definition channel_ok :: "channel \<Rightarrow> bool" where
  "channel_ok c \<longleftrightarrow> (\<forall>k. \<not> ch_fail c k) \<and> (\<forall>k n. n \<le> ch_take c k n)"

lemma channel_write_ok:
  assumes "channel_ok c" and "bb_wf bb"
  obtains c' where "channel_write bb c = (Inr (bb\<lparr>bb_pos := bb_limit bb\<rparr>), c')" and "channel_ok c'"
    and "ch_data c' = ch_data c @ bb_window bb" and "ch_open c' = ch_open c"
proof
  let ?c = "c\<lparr>ch_calls := Suc (ch_calls c), ch_data := ch_data c @ bb_window bb\<rparr>"
  have "bb_pos bb + int (length (bb_window bb)) = bb_limit bb"
    using length_bb_window [OF assms(2)] by (simp add: bb_remaining_def)
  moreover have "min (ch_take c (ch_calls c) (length (bb_window bb))) (length (bb_window bb)) = length (bb_window bb)"
    using assms(1) by (simp add: channel_ok_def min_absorb2)
  ultimately show "channel_write bb c = (Inr (bb\<lparr>bb_pos := bb_limit bb\<rparr>), ?c)"
    using assms(1) by (simp add: channel_write_def Let_def channel_ok_def)
  show "channel_ok ?c" using assms(1) by (simp add: channel_ok_def)
qed simp_all

lemma channel_close_ok:
  assumes "channel_ok c"
  shows "channel_close c = (Inr (), c\<lparr>ch_calls := Suc (ch_calls c), ch_open := False\<rparr>)"
  using assms by (simp add: channel_close_def channel_ok_def)

end
