(* ===== verification/Snappy_Framed.thy ===== *)
theory Snappy_Framed
  imports Byte_Buffer Crc32c
begin

text \<open>
  \<open>SnappyFramed.java\<close>: the constants of the frame format, the masked checksum, and the loops that fill a
  buffer from a channel and skip bytes of it. The checksum object is a \<open>PureJavaCrc32C\<close>; the class the
  JDK offers computes the same function.
\<close>

section \<open>Constants and checksums\<close>

definition COMPRESSED_DATA_FLAG :: int where "COMPRESSED_DATA_FLAG = 0x00"
definition UNCOMPRESSED_DATA_FLAG :: int where "UNCOMPRESSED_DATA_FLAG = 0x01"
definition STREAM_IDENTIFIER_FLAG :: int where "STREAM_IDENTIFIER_FLAG = 0xff"
definition MASK_DELTA :: jint where "MASK_DELTA = 0xa282ead8"

definition HEADER_BYTES :: bytes where
  "HEADER_BYTES = [word_of_int STREAM_IDENTIFIER_FLAG, 0x06, 0x00, 0x00, 0x73, 0x4e, 0x61, 0x50, 0x70, 0x59]"

definition mask_crc :: "jint \<Rightarrow> jint" where
  "mask_crc c = (drop_bit 15 c OR push_bit 17 c) + MASK_DELTA"

definition maskedCrc32c :: "bytes \<Rightarrow> int \<Rightarrow> int \<Rightarrow> (PureJavaCrc32C, exc, jint) op" where
  "maskedCrc32c data off len =
     bindS (modifyS crc_reset) (\<lambda>_.
     bindS (crc_update_bytes data off len) (\<lambda>_.
     getS (\<lambda>c. returnS (mask_crc (ucast (getValue c))))))"

section \<open>Reading a channel\<close>

lemma channel_read_progress:
  assumes "channel_read st = (n, st')" and "0 < bb_remaining (fst st)"
  shows "if n = - 1 then src_data (snd st) = [] \<and> src_data (snd st') = [] \<and> fst st' = fst st
    else 0 < n \<and> n \<le> bb_remaining (fst st) \<and> bb_remaining (fst st') = bb_remaining (fst st) - n
      \<and> int (length (src_data (snd st'))) = int (length (src_data (snd st))) - n"
proof -
  obtain bb src where st: "st = (bb, src)" by fastforce
  obtain bs src' where r: "source_read (bb_remaining bb) src = (bs, src')" by fastforce
  show ?thesis
  proof (cases bs)
    case None
    then show ?thesis using assms st r source_read_None [of "bb_remaining bb" src src']
      by (auto simp: channel_read_def)
  next
    case (Some x)
    then show ?thesis using assms st r source_read_Some [of "bb_remaining bb" src x src']
      by (auto simp: channel_read_def bb_remaining_def)
  qed
qed

text \<open>The loop of \<open>readBytes\<close>: the bytes read so far, until the buffer is full or the data ended.\<close>

function read_loop_bb :: "int \<Rightarrow> byte_buffer \<times> source \<Rightarrow> int \<times> (byte_buffer \<times> source)" where
  "read_loop_bb totalRead st =
     (if bb_remaining (fst st) > 0 then
        (case channel_read st of
           (lastRead, st') \<Rightarrow>
             if lastRead = - 1 then (totalRead, st') else read_loop_bb (totalRead + lastRead) st')
      else (totalRead, st))"
  by pat_completeness auto
termination
  by (relation "measure (\<lambda>(n, st). nat (bb_remaining (fst st)))") (auto dest!: channel_read_progress [OF sym])

declare read_loop_bb.simps [simp del]

definition readBytes :: "byte_buffer \<times> source \<Rightarrow> int \<times> (byte_buffer \<times> source)" where
  "readBytes st =
     (let expectedLength = bb_remaining (fst st);
          (lastRead, st1) = channel_read st;
          (totalRead, (dest, src)) =
            (if lastRead < expectedLength \<and> lastRead \<noteq> - 1 then read_loop_bb lastRead st1 else (lastRead, st1))
      in (totalRead,
          (if totalRead > 0 then dest\<lparr>bb_limit := bb_pos dest\<rparr> else dest\<lparr>bb_pos := bb_limit dest\<rparr>, src)))"

text \<open>The loop of \<open>skip\<close>; it returns the bytes left to skip. An empty buffer would never make progress.\<close>

function skip_loop :: "int \<Rightarrow> byte_buffer \<times> source \<Rightarrow> (exc + int) \<times> (byte_buffer \<times> source)" where
  "skip_loop toSkip (buffer, src) =
     (if toSkip > 0 then
        (let b1 = bb_clear buffer;
             b2 = (if toSkip < bb_capacity b1 then b1\<lparr>bb_limit := toSkip\<rparr> else b1)
         in case channel_read (b2, src) of
              (skipped, (b3, src')) \<Rightarrow>
                if skipped = - 1 then (Inr toSkip, (b3, src'))
                else if skipped = 0 then (Inl Diverges, (b3, src'))
                else skip_loop (toSkip - skipped) (b3, src'))
      else (Inr toSkip, (buffer, src)))"
  by pat_completeness auto
termination
  by (relation "measure (\<lambda>(n, st). nat n)") (auto simp: channel_read_def split: prod.splits option.splits)

declare skip_loop.simps [simp del]

definition skip_bytes :: "int \<Rightarrow> byte_buffer \<times> source \<Rightarrow> (exc + int) \<times> (byte_buffer \<times> source)" where
  "skip_bytes n st =
     (if n \<le> 0 then (Inr 0, st)
      else case skip_loop n st of
        (Inl e, st') \<Rightarrow> (Inl e, st')
      | (Inr toSkip, (b, src)) \<Rightarrow> (Inr (n - toSkip), (bb_clear b, src)))"

section \<open>Lemmas\<close>

text \<open>The masking is a rotation and a translation, so it loses nothing.\<close>

definition unmask_crc :: "jint \<Rightarrow> jint" where
  "unmask_crc m = (let r = m - MASK_DELTA in drop_bit 17 r OR push_bit 15 r)"

lemma unmask_mask: "unmask_crc (mask_crc c) = c"
proof -
  have "drop_bit 17 (drop_bit 15 c OR push_bit 17 c) OR push_bit 15 (drop_bit 15 c OR push_bit 17 c) = c"
  proof (rule bit_word_eqI)
    fix k assume k: "k < LENGTH(32)"
    then have "k < 15 \<or> (15 \<le> k \<and> k < 32)" by auto
    then show "bit (drop_bit 17 (drop_bit 15 c OR push_bit 17 c) OR push_bit 15 (drop_bit 15 c OR push_bit 17 c)) k = bit c k"
      unfolding bit_or_iff bit_push_bit_iff bit_drop_bit_eq comp_def using k
      by (elim disjE conjE) (auto simp: bit_simps not_le dest: bit_imp_le_length)
  qed
  then show ?thesis by (simp add: unmask_crc_def mask_crc_def)
qed

text \<open>
  The format's own words, which the constants and the masking of the code are proved to agree with: the
  identifier at the start of a stream, and the checksum stored for \<open>x\<close>, rotated right by 15 bits with a
  constant added.
\<close>

definition stream_identifier :: bytes where
  "stream_identifier = [0xff, 6, 0, 0] @ map of_char ''sNaPpY''"

lemma HEADER_BYTES_format: "HEADER_BYTES = stream_identifier"
  by (simp add: HEADER_BYTES_def STREAM_IDENTIFIER_FLAG_def stream_identifier_def)

definition masked_crc :: "bytes \<Rightarrow> jint" where
  "masked_crc x = word_rotr 15 (crc32c x) + 0xa282ead8"

lemma mask_crc_format: "mask_crc (crc32c x) = masked_crc x"
proof -
  have "drop_bit 15 c OR push_bit 17 c = word_rotr 15 c" for c :: jint
  proof (rule bit_word_eqI)
    fix n assume "n < LENGTH(32)"
    then show "bit (drop_bit 15 c OR push_bit 17 c) n \<longleftrightarrow> bit (word_rotr 15 c) n"
      using bit_imp_le_length [of c "15 + n"]
      by (cases "n < 17") (auto simp: bit_or_iff bit_drop_bit_eq bit_push_bit_iff bit_word_rotr_iff mod_if ac_simps)
  qed
  then show ?thesis by (simp add: mask_crc_def masked_crc_def MASK_DELTA_def)
qed

lemma maskedCrc32c_eq:
  assumes "in_range off len (length b)"
  shows "\<exists>c'. maskedCrc32c b off len c = (Inr (masked_crc (segment off len b)), c')"
proof -
  obtain c' where c: "crc_update_bytes b off len (crc_reset c) = (Inr (), c')"
    "getValue c' = ucast (crc32c (segment off len b))"
    using crc_update_session [OF assms] by blast
  have "ucast (ucast (crc32c (segment off len b)) :: 64 word) = crc32c (segment off len b)"
    by (simp add: unsigned_ucast_eq take_bit_word_eq_self)
  then show ?thesis using c by (simp add: maskedCrc32c_def op_simps mask_crc_format)
qed

end
