(* ===== verification/Framed_Output.thy ===== *)
theory Framed_Output
  imports Snappy_Framed
begin

text \<open>
  \<open>SnappyFramedOutputStream.java\<close>: input is gathered in \<open>buffer\<close> up to the block size; a full or flushed
  block is compressed through two direct buffers and written as one frame, compressed or raw. The
  comparison of two \<open>double\<close>s that decides between them is a parameter: \<open>accepts c n\<close> tells whether
  \<open>c / n <= minCompressionRatio\<close>, and \<open>in_unit_range\<close> whether the ratio passes the test of the constructor, as
  every number in \<open>(0, 1]\<close> does.
\<close>

section \<open>The stream\<close>

record ratio =
  in_unit_range :: bool
  accepts :: "int \<Rightarrow> int \<Rightarrow> bool"

definition FRAMED_MAX_BLOCK_SIZE :: int where "FRAMED_MAX_BLOCK_SIZE = 64 * 1024"

record SnappyFramedOutputStream =
  crc32 :: PureJavaCrc32C
  headerBuffer :: byte_buffer
  fo_pool :: BufferPool
  fo_blockSize :: int
  fo_buffer :: byte_buffer
  directInputBuffer :: byte_buffer
  fo_outputBuffer :: byte_buffer
  minCompressionRatio :: ratio
  fo_out :: channel
  fo_closed :: bool

type_synonym 'a fos = "(SnappyFramedOutputStream, exc, 'a) op"

definition new_SnappyFramedOutputStream ::
    "snappy_lib \<Rightarrow> channel \<Rightarrow> int \<Rightarrow> ratio \<Rightarrow> BufferPool \<Rightarrow> SnappyFramedOutputStream result" where
  "new_SnappyFramedOutputStream lib out bs r pool =
     (if \<not> in_unit_range r then Inl IllegalArgumentException
      else if bs \<le> 0 \<or> bs > FRAMED_MAX_BLOCK_SIZE then Inl IllegalArgumentException
      else
        (case allocateArray bs pool of (a, p1) \<Rightarrow>
         bindE a (\<lambda>arr.
         bindE (bb_wrap arr 0 bs) (\<lambda>buffer.
         case allocateDirect bs p1 of (d, p2) \<Rightarrow>
         bindE d (\<lambda>directIn.
         case allocateDirect (s_maxCompressedLength lib bs) p2 of (o', p3) \<Rightarrow>
         bindE o' (\<lambda>outBuf.
         bindE (bb_wrap HEADER_BYTES 0 (int (length HEADER_BYTES))) (\<lambda>h.
         case channel_write h out of
           (Inl e, _) \<Rightarrow> Inl e
         | (Inr _, out') \<Rightarrow>
             Inr \<lparr>crc32 = new_crc,
                headerBuffer = \<lparr>bb_data = replicate 8 0, bb_pos = 0, bb_limit = 8, bb_direct = False\<rparr>,
                fo_pool = p3, fo_blockSize = bs, fo_buffer = buffer, directInputBuffer = directIn,
                fo_outputBuffer = outBuf, minCompressionRatio = r, fo_out = out', fo_closed = False\<rparr>)))))))"

text \<open>Running an operation of a component of the stream.\<close>

definition on_crc :: "(PureJavaCrc32C, exc, 'a) op \<Rightarrow> 'a fos" where
  "on_crc f s = (case f (crc32 s) of (r, c) \<Rightarrow> (r, s\<lparr>crc32 := c\<rparr>))"

definition on_header :: "(byte_buffer, exc, 'a) op \<Rightarrow> 'a fos" where
  "on_header f s = (case f (headerBuffer s) of (r, b) \<Rightarrow> (r, s\<lparr>headerBuffer := b\<rparr>))"

definition on_buffer :: "(byte_buffer, exc, 'a) op \<Rightarrow> 'a fos" where
  "on_buffer f s = (case f (fo_buffer s) of (r, b) \<Rightarrow> (r, s\<lparr>fo_buffer := b\<rparr>))"

definition on_output :: "(byte_buffer, exc, 'a) op \<Rightarrow> 'a fos" where
  "on_output f s = (case f (fo_outputBuffer s) of (r, b) \<Rightarrow> (r, s\<lparr>fo_outputBuffer := b\<rparr>))"

definition on_channel :: "(channel, exc, 'a) op \<Rightarrow> 'a fos" where
  "on_channel f s = (case f (fo_out s) of (r, c) \<Rightarrow> (r, s\<lparr>fo_out := c\<rparr>))"

section \<open>Writing a frame\<close>

text \<open>The data buffer is passed in and comes back with its position moved.\<close>

definition put_header :: "int \<Rightarrow> bool \<Rightarrow> jint \<Rightarrow> (byte_buffer, exc, unit) op" where
  "put_header headerLength isCompressed checkSum =
     bindS (bb_put [word_of_int (if isCompressed then COMPRESSED_DATA_FLAG else UNCOMPRESSED_DATA_FLAG)]) (\<lambda>_.
     bindS (bb_put [word_of_int headerLength]) (\<lambda>_.
     bindS (bb_put [word_of_int (headerLength div 2 ^ 8)]) (\<lambda>_.
     bindS (bb_put [word_of_int (headerLength div 2 ^ 16)]) (\<lambda>_.
     bindS (bb_put (int_le checkSum)) (\<lambda>_.
     modifyS bb_flip)))))"

definition writeBlock :: "byte_buffer \<Rightarrow> bool \<Rightarrow> jint \<Rightarrow> byte_buffer fos" where
  "writeBlock data isCompressed checkSum =
     bindS (modifyS (\<lambda>s. s\<lparr>headerBuffer := bb_clear (headerBuffer s)\<rparr>)) (\<lambda>_.
     bindS (on_header (put_header (bb_remaining data + 4) isCompressed checkSum)) (\<lambda>_.
     bindS (getS (\<lambda>s. on_channel (channel_write (headerBuffer s)))) (\<lambda>h.
     bindS (modifyS (\<lambda>s. s\<lparr>headerBuffer := h\<rparr>)) (\<lambda>_.
     on_channel (channel_write data)))))"

text \<open>\<open>directInputBuffer.clear(); directInputBuffer.put(buffer); directInputBuffer.flip()\<close>\<close>

definition load_direct :: "unit fos" where
  "load_direct s =
     (case bb_put_buffer (fo_buffer s, bb_clear (directInputBuffer s)) of
        (Inl e, (b, d)) \<Rightarrow> (Inl e, s\<lparr>fo_buffer := b, directInputBuffer := d\<rparr>)
      | (Inr _, (b, d)) \<Rightarrow> (Inr (), s\<lparr>fo_buffer := b, directInputBuffer := bb_flip d\<rparr>))"

definition writeCompressed :: "snappy_lib \<Rightarrow> unit fos" where
  "writeCompressed lib = getS (\<lambda>s0.
     let len = bb_remaining (fo_buffer s0) in
     bindS (on_crc (maskedCrc32c (bb_data (fo_buffer s0)) 0 len)) (\<lambda>checkSum.
     bindS load_direct (\<lambda>_.
     bindS (modifyS (\<lambda>s. s\<lparr>fo_outputBuffer := bb_clear (fo_outputBuffer s)\<rparr>)) (\<lambda>_.
     bindS (getS (\<lambda>s. on_output (s_compress_buffer lib (directInputBuffer s)))) (\<lambda>_.
     getS (\<lambda>s.
       if accepts (minCompressionRatio s) (bb_remaining (fo_outputBuffer s)) len
       then bindS (writeBlock (fo_outputBuffer s) True checkSum) (\<lambda>b. modifyS (\<lambda>s. s\<lparr>fo_outputBuffer := b\<rparr>))
       else
         bindS (modifyS (\<lambda>s. s\<lparr>fo_buffer := bb_flip (fo_buffer s)\<rparr>)) (\<lambda>_.
         bindS (getS (\<lambda>s. writeBlock (fo_buffer s) False checkSum)) (\<lambda>b.
         modifyS (\<lambda>s. s\<lparr>fo_buffer := b\<rparr>)))))))))"

definition flushBuffer :: "snappy_lib \<Rightarrow> unit fos" where
  "flushBuffer lib = getS (\<lambda>s.
     if bb_pos (fo_buffer s) > 0 then
       bindS (modifyS (\<lambda>s. s\<lparr>fo_buffer := bb_flip (fo_buffer s)\<rparr>)) (\<lambda>_.
       bindS (writeCompressed lib) (\<lambda>_.
       bindS (modifyS (\<lambda>s. s\<lparr>fo_buffer := bb_clear (fo_buffer s)\<rparr>)) (\<lambda>_.
       getS (\<lambda>s. on_buffer (bb_set_limit (fo_blockSize s))))))
     else returnS ())"

definition flush_if_full :: "snappy_lib \<Rightarrow> unit fos" where
  "flush_if_full lib = getS (\<lambda>s. if bb_remaining (fo_buffer s) \<le> 0 then flushBuffer lib else returnS ())"

section \<open>The public methods\<close>

definition fo_write_byte :: "snappy_lib \<Rightarrow> jint \<Rightarrow> unit fos" where
  "fo_write_byte lib b = getS (\<lambda>s.
     if fo_closed s then throwS (IOException ''Stream is closed'')
     else bindS (flush_if_full lib) (\<lambda>_. on_buffer (bb_put [ucast b])))"

text \<open>A round of the loop that puts nothing would repeat for ever.\<close>

function fo_write_loop :: "snappy_lib \<Rightarrow> bytes \<Rightarrow> int \<Rightarrow> int \<Rightarrow> unit fos" where
  "fo_write_loop lib inp off len s =
     (if len > 0 then
        (case flush_if_full lib s of
           (Inl e, s') \<Rightarrow> (Inl e, s')
         | (Inr _, s') \<Rightarrow>
             (let toPut = min len (bb_remaining (fo_buffer s')) in
              case on_buffer (bb_put_range inp off toPut) s' of
                (Inl e, s'') \<Rightarrow> (Inl e, s'')
              | (Inr _, s'') \<Rightarrow>
                  if toPut \<le> 0 then (Inl Diverges, s'')
                  else fo_write_loop lib inp (off + toPut) (len - toPut) s''))
      else (Inr (), s))"
  by pat_completeness auto
termination
  by (relation "measure (\<lambda>(lib, inp, off, len, s). nat len)") auto

declare fo_write_loop.simps [simp del]

definition fo_write :: "snappy_lib \<Rightarrow> bytes option \<Rightarrow> int \<Rightarrow> int \<Rightarrow> unit fos" where
  "fo_write lib inp off len = getS (\<lambda>s.
     if fo_closed s then throwS (IOException ''Stream is closed'')
     else case inp of
         None \<Rightarrow> throwS NullPointerException
       | Some a \<Rightarrow>
           if off < 0 \<or> off > int (length a) \<or> len < 0 \<or> i32 (off + len) > int (length a) \<or> i32 (off + len) < 0
           then throwS IndexOutOfBoundsException
           else fo_write_loop lib a off len)"

text \<open>\<open>buffer.put(src)\<close>: the state is the source buffer and the stream.\<close>

definition put_src :: "(byte_buffer \<times> SnappyFramedOutputStream, exc, unit) op" where
  "put_src = (\<lambda>(src, s).
     case bb_put_buffer (src, fo_buffer s) of (r, (src', b)) \<Rightarrow> (r, (src', s\<lparr>fo_buffer := b\<rparr>)))"

definition on_stream :: "'a fos \<Rightarrow> (byte_buffer \<times> SnappyFramedOutputStream, exc, 'a) op" where
  "on_stream f = (\<lambda>(src, s). case f s of (r, s') \<Rightarrow> (r, (src, s')))"

definition src_limit :: "int \<Rightarrow> (byte_buffer \<times> SnappyFramedOutputStream, exc, unit) op" where
  "src_limit n = (\<lambda>(src, s). case bb_set_limit n src of (r, src') \<Rightarrow> (r, (src', s)))"

text \<open>One round of the loop of \<open>write(ByteBuffer)\<close>, and the loop.\<close>

definition fill_and_flush :: "snappy_lib \<Rightarrow> (byte_buffer \<times> SnappyFramedOutputStream, exc, unit) op" where
  "fill_and_flush lib =
     bindS (getS (\<lambda>st. src_limit (bb_pos (fst st) + bb_remaining (fo_buffer (snd st))))) (\<lambda>_.
     bindS put_src (\<lambda>_.
     on_stream (flushBuffer lib)))"

function src_loop :: "snappy_lib \<Rightarrow> int \<Rightarrow> (byte_buffer \<times> SnappyFramedOutputStream, exc, unit) op" where
  "src_loop lib srcEnd st =
     (if bb_pos (fst st) + bb_remaining (fo_buffer (snd st)) \<le> srcEnd then
        (case fill_and_flush lib st of
           (Inl e, st') \<Rightarrow> (Inl e, st')
         | (Inr _, st') \<Rightarrow>
             if bb_pos (fst st') \<le> bb_pos (fst st) \<or> srcEnd < bb_pos (fst st) then (Inl Diverges, st')
             else src_loop lib srcEnd st')
      else (Inr (), st))"
  by pat_completeness auto
termination
  by (relation "measure (\<lambda>(lib, e, st). nat (e + 1 - bb_pos (fst st)))") auto

declare src_loop.simps [simp del]

definition fo_write_buffer :: "snappy_lib \<Rightarrow> (byte_buffer \<times> SnappyFramedOutputStream, exc, int) op" where
  "fo_write_buffer lib = getS (\<lambda>(src0, s0).
     if fo_closed s0 then throwS ClosedChannelException
     else
       bindS (on_stream (flush_if_full lib)) (\<lambda>_.
       getS (\<lambda>(src, s).
         let srcLength = bb_remaining src in
         if bb_remaining (fo_buffer s) \<ge> bb_remaining src
         then bindS put_src (\<lambda>_. returnS srcLength)
         else
           (let srcEnd = bb_pos src + bb_remaining src in
            bindS (src_loop lib srcEnd) (\<lambda>_.
            bindS (src_limit srcEnd) (\<lambda>_.
            bindS put_src (\<lambda>_.
            returnS srcLength)))))))"

text \<open>
  \<open>transferFrom\<close> of a stream and of a channel: both read into the free part of \<open>buffer\<close>. The state is the
  source and the stream.
\<close>

definition read_into_buffer :: "source \<times> SnappyFramedOutputStream \<Rightarrow> int \<times> (source \<times> SnappyFramedOutputStream)" where
  "read_into_buffer = (\<lambda>(src, s).
     case channel_read (fo_buffer s, src) of (n, (b, src')) \<Rightarrow> (n, (src', s\<lparr>fo_buffer := b\<rparr>)))"

definition flush_if_zero :: "snappy_lib \<Rightarrow> unit fos" where
  "flush_if_zero lib = getS (\<lambda>s. if bb_remaining (fo_buffer s) = 0 then flushBuffer lib else returnS ())"

lemma read_into_buffer_progress:
  assumes "read_into_buffer (src, s) = (n, (src', s'))" and "0 < n"
  shows "length (src_data src') < length (src_data src)"
proof -
  obtain b' where c: "channel_read (fo_buffer s, src) = (n, (b', src'))"
    using assms(1) by (auto simp: read_into_buffer_def split: prod.splits)
  have "0 < bb_remaining (fo_buffer s)"
  proof (rule ccontr)
    assume "\<not> 0 < bb_remaining (fo_buffer s)"
    then show False using c assms(2) by (simp add: channel_read_def source_read_def)
  qed
  then show ?thesis using channel_read_progress [OF c] assms(2) by simp
qed

function transfer_loop :: "snappy_lib \<Rightarrow> int \<Rightarrow> (source \<times> SnappyFramedOutputStream, exc, int) op" where
  "transfer_loop lib totTransfered (src, s) =
     (case read_into_buffer (src, s) of
        (n, (src', s')) \<Rightarrow>
          if n = - 1 then (Inr totTransfered, (src', s'))
          else if n \<le> 0 then (Inl Diverges, (src', s'))
          else
            (case flush_if_zero lib s' of
               (Inl e, s'') \<Rightarrow> (Inl e, (src', s''))
             | (Inr _, s'') \<Rightarrow> transfer_loop lib (totTransfered + n) (src', s'')))"
  by pat_completeness auto
termination
  by (relation "measure (\<lambda>(lib, n, (src, s)). length (src_data src))")
     (auto dest!: read_into_buffer_progress [OF sym])

declare transfer_loop.simps [simp del]

definition transferFrom :: "snappy_lib \<Rightarrow> (source \<times> SnappyFramedOutputStream, exc, int) op" where
  "transferFrom lib = (\<lambda>(src, s).
     if fo_closed s then (Inl ClosedChannelException, (src, s))
     else case flush_if_zero lib s of
         (Inl e, s') \<Rightarrow> (Inl e, (src, s'))
       | (Inr _, s') \<Rightarrow> transfer_loop lib 0 (src, s'))"

definition fo_flush :: "snappy_lib \<Rightarrow> unit fos" where
  "fo_flush lib = getS (\<lambda>s.
     if fo_closed s then throwS (IOException ''Stream is closed'') else flushBuffer lib)"

definition fo_release :: "SnappyFramedOutputStream \<Rightarrow> SnappyFramedOutputStream" where
  "fo_release s = s\<lparr>fo_closed := True,
     fo_pool := releaseDirect (fo_outputBuffer s) (releaseDirect (directInputBuffer s)
       (releaseArray (bb_data (fo_buffer s)) (fo_pool s)))\<rparr>"

definition fo_close :: "snappy_lib \<Rightarrow> unit fos" where
  "fo_close lib = getS (\<lambda>s.
     if fo_closed s then returnS ()
     else finallyS (bindS (fo_flush lib) (\<lambda>_. on_channel channel_close)) fo_release)"

end
