(* ===== verification/Framed_Input.thy ===== *)
theory Framed_Input
  imports Framed_Output Snappy_Output
begin

text \<open>
  \<open>SnappyFramedInputStream.java\<close>: a frame is read into the direct buffer \<open>input\<close>, unpacked into the array
  \<open>buffer\<close> and checked against its checksum; reserved skippable chunks and repeated stream identifiers are
  passed over. The channel below delivers its bytes in portions of its own choosing. Messages of
  exceptions keep their fixed part only.
\<close>

section \<open>The stream\<close>

text \<open>
  \<open>None\<close> is a null reference. \<open>fi_array\<close> numbers the arrays that \<open>buffer\<close> has referred to; it is used
  where the identity of the array matters.
\<close>

record SnappyFramedInputStream =
  fi_crc :: PureJavaCrc32C
  fi_rbc :: source
  frameHeader :: byte_buffer
  verifyChecksums :: bool
  fi_pool :: BufferPool
  fi_input :: "byte_buffer option"
  uncompressedDirect :: "byte_buffer option"
  fi_closed :: bool
  fi_eof :: bool
  fi_valid :: int
  fi_position :: int
  fi_buffer :: "bytes option"
  fi_array :: nat

type_synonym 'a fis = "(SnappyFramedInputStream, exc, 'a) op"

text \<open>Running an operation of a component; a null component throws.\<close>

definition on_pool :: "(BufferPool, exc, 'a) op \<Rightarrow> 'a fis" where
  "on_pool f s = (case f (fi_pool s) of (r, p) \<Rightarrow> (r, s\<lparr>fi_pool := p\<rparr>))"

definition on_input :: "(byte_buffer, exc, 'a) op \<Rightarrow> 'a fis" where
  "on_input f s =
     (case fi_input s of
        None \<Rightarrow> (Inl NullPointerException, s)
      | Some b \<Rightarrow> (case f b of (r, b') \<Rightarrow> (r, s\<lparr>fi_input := Some b'\<rparr>)))"

definition on_direct :: "(byte_buffer, exc, 'a) op \<Rightarrow> 'a fis" where
  "on_direct f s =
     (case uncompressedDirect s of
        None \<Rightarrow> (Inl NullPointerException, s)
      | Some b \<Rightarrow> (case f b of (r, b') \<Rightarrow> (r, s\<lparr>uncompressedDirect := Some b'\<rparr>)))"

definition from_input :: "(byte_buffer \<Rightarrow> 'a result) \<Rightarrow> 'a fis" where
  "from_input f = on_input (\<lambda>b. (f b, b))"

definition from_buffer :: "(bytes \<Rightarrow> 'a fis) \<Rightarrow> 'a fis" where
  "from_buffer f = getS (\<lambda>s. case fi_buffer s of None \<Rightarrow> throwS NullPointerException | Some b \<Rightarrow> f b)"

section \<open>Buffers\<close>

definition release_direct :: "byte_buffer option \<Rightarrow> BufferPool \<Rightarrow> BufferPool" where
  "release_direct b p = (case b of None \<Rightarrow> p | Some b \<Rightarrow> releaseDirect b p)"

definition release_array :: "bytes option \<Rightarrow> BufferPool \<Rightarrow> BufferPool" where
  "release_array b p = (case b of None \<Rightarrow> p | Some b \<Rightarrow> releaseArray b p)"

definition allocateBuffersBasedOnSize :: "snappy_lib \<Rightarrow> int \<Rightarrow> unit fis" where
  "allocateBuffersBasedOnSize lib sz =
     bindS (modifyS (\<lambda>s. s\<lparr>fi_pool := release_array (fi_buffer s) (release_direct (uncompressedDirect s)
       (release_direct (fi_input s) (fi_pool s)))\<rparr>)) (\<lambda>_.
     bindS (on_pool (allocateDirect sz)) (\<lambda>i.
     bindS (modifyS (\<lambda>s. s\<lparr>fi_input := Some i\<rparr>)) (\<lambda>_.
     bindS (on_pool (allocateDirect (s_maxCompressedLength lib sz))) (\<lambda>u.
     bindS (modifyS (\<lambda>s. s\<lparr>uncompressedDirect := Some u\<rparr>)) (\<lambda>_.
     bindS (on_pool (allocateArray (s_maxCompressedLength lib sz))) (\<lambda>b.
     modifyS (\<lambda>s. s\<lparr>fi_buffer := Some b, fi_array := Suc (fi_array s)\<rparr>)))))))"

definition read_header :: "unit fis" where
  "read_header s =
     (case readBytes (\<lparr>bb_data = replicate (length HEADER_BYTES) 0, bb_pos = 0, bb_limit = int (length HEADER_BYTES),
         bb_direct = False\<rparr>, fi_rbc s) of
        (n, (b, src)) \<Rightarrow>
          (if n < int (length HEADER_BYTES) then Inl EOFException
           else if HEADER_BYTES \<noteq> bb_data b then Inl (IOException ''invalid stream header'')
           else Inr (),
           s\<lparr>fi_rbc := src\<rparr>))"

definition new_SnappyFramedInputStream ::
    "snappy_lib \<Rightarrow> source \<Rightarrow> bool \<Rightarrow> BufferPool \<Rightarrow> SnappyFramedInputStream result" where
  "new_SnappyFramedInputStream lib inp verify pool =
     (case bindS (allocateBuffersBasedOnSize lib (FRAMED_MAX_BLOCK_SIZE + 5)) (\<lambda>_. read_header)
        \<lparr>fi_crc = new_crc, fi_rbc = inp,
         frameHeader = \<lparr>bb_data = replicate 4 0, bb_pos = 0, bb_limit = 4, bb_direct = False\<rparr>,
         verifyChecksums = verify, fi_pool = pool, fi_input = None, uncompressedDirect = None,
         fi_closed = False, fi_eof = False, fi_valid = 0, fi_position = 0, fi_buffer = None, fi_array = 0\<rparr> of
        (Inl e, _) \<Rightarrow> Inl e | (Inr _, s) \<Rightarrow> Inr s)"

section \<open>Reading a frame\<close>

definition fi_available :: "SnappyFramedInputStream \<Rightarrow> int" where
  "fi_available s = (if fi_closed s then 0 else fi_valid s - fi_position s)"

definition readBlockHeader :: "bool fis" where
  "readBlockHeader s =
     (case readBytes (bb_clear (frameHeader s), fi_rbc s) of
        (n, (b, src)) \<Rightarrow>
          if n = - 1 then (Inr False, s\<lparr>frameHeader := b, fi_rbc := src\<rparr>)
          else if n < bb_capacity b then (Inl EOFException, s\<lparr>frameHeader := b, fi_rbc := src\<rparr>)
          else (Inr True, s\<lparr>frameHeader := bb_flip b, fi_rbc := src\<rparr>))"

datatype FrameAction = RAW | SKIP | UNCOMPRESS

text \<open>The array of the frame header has four bytes.\<close>

definition getFrameMetaData :: "bytes \<Rightarrow> (FrameAction \<times> int) result" where
  "getFrameMetaData h =
     (let len = uint (h ! 1) OR push_bit 8 (uint (h ! 2)) OR push_bit 16 (uint (h ! 3));
          flag = uint (h ! 0)
      in bindE
          (if flag = COMPRESSED_DATA_FLAG then Inr (UNCOMPRESS, 5)
           else if flag = UNCOMPRESSED_DATA_FLAG then Inr (RAW, 5)
           else if flag = STREAM_IDENTIFIER_FLAG then
             (if len \<noteq> 6 then Inl (IOException ''stream identifier chunk with invalid length'')
              else Inr (SKIP, 6))
           else if flag \<le> 0x7f then Inl (IOException ''unsupported unskippable chunk'')
           else Inr (SKIP, 0))
          (\<lambda>(frameAction, minLength).
            if len < minLength then Inl (IOException ''invalid length'') else Inr (frameAction, len)))"

text \<open>\<open>skip\<close> overwrites the array it is lent.\<close>

definition skip_frame :: "int \<Rightarrow> unit fis" where
  "skip_frame len = from_buffer (\<lambda>b s.
     case skip_bytes len (\<lparr>bb_data = b, bb_pos = 0, bb_limit = int (length b), bb_direct = False\<rparr>, fi_rbc s) of
       (r, (b', src)) \<Rightarrow>
         (case r of Inl e \<Rightarrow> Inl e | Inr _ \<Rightarrow> Inr (), s\<lparr>fi_buffer := Some (bb_data b'), fi_rbc := src\<rparr>))"

definition read_input :: "int fis" where
  "read_input s =
     (case fi_input s of
        None \<Rightarrow> (Inl NullPointerException, s)
      | Some b \<Rightarrow> (case readBytes (b, fi_rbc s) of (n, (b', src)) \<Rightarrow> (Inr n, s\<lparr>fi_input := Some b', fi_rbc := src\<rparr>)))"

definition load_frame :: "snappy_lib \<Rightarrow> int \<Rightarrow> unit fis" where
  "load_frame lib len =
     bindS (from_input (\<lambda>b. Inr (bb_capacity b))) (\<lambda>cap.
     bindS (if len > cap then allocateBuffersBasedOnSize lib len else returnS ()) (\<lambda>_.
     bindS (on_input (modifyS bb_clear)) (\<lambda>_.
     bindS (on_input (bb_set_limit len)) (\<lambda>_.
     bindS read_input (\<lambda>actualRead.
     if actualRead \<noteq> len then throwS EOFException else on_input (modifyS bb_flip))))))"

definition getFrameData :: "byte_buffer \<Rightarrow> (jint \<times> int) result" where
  "getFrameData content = bindE (bb_getInt (bb_pos content) content) (\<lambda>crc. Inr (crc, 4))"

definition ensure_direct :: "int \<Rightarrow> unit fis" where
  "ensure_direct n =
     bindS (on_direct (\<lambda>b. (Inr (bb_capacity b), b))) (\<lambda>cap.
     if n > cap then
       bindS (modifyS (\<lambda>s. s\<lparr>fi_pool := release_array (fi_buffer s) (release_direct (uncompressedDirect s) (fi_pool s))\<rparr>)) (\<lambda>_.
       bindS (on_pool (allocateDirect n)) (\<lambda>u.
       bindS (modifyS (\<lambda>s. s\<lparr>uncompressedDirect := Some u\<rparr>)) (\<lambda>_.
       bindS (on_pool (allocateArray n)) (\<lambda>b.
       modifyS (\<lambda>s. s\<lparr>fi_buffer := Some b, fi_array := Suc (fi_array s)\<rparr>)))))
     else returnS ())"

text \<open>\<open>src.get(buffer, 0, n)\<close> of the two direct buffers.\<close>

definition copy_out :: "byte_buffer \<Rightarrow> int \<Rightarrow> byte_buffer fis" where
  "copy_out src n = from_buffer (\<lambda>b s.
     case bb_get 0 n (src, b) of
       (Inl e, _) \<Rightarrow> (Inl e, s)
     | (Inr _, (src', b')) \<Rightarrow> (Inr src', s\<lparr>fi_buffer := Some b'\<rparr>))"

definition unpack_compressed :: "snappy_lib \<Rightarrow> int \<Rightarrow> unit fis" where
  "unpack_compressed lib offset =
     bindS (on_input (bb_set_position offset)) (\<lambda>_.
     bindS (from_input (s_uncompressedLength_buffer lib)) (\<lambda>uncompressedLength.
     bindS (ensure_direct uncompressedLength) (\<lambda>_.
     bindS (on_direct (modifyS bb_clear)) (\<lambda>_.
     bindS (from_input (\<lambda>i. Inr i)) (\<lambda>i.
     bindS (on_direct (s_uncompress_buffer lib i)) (\<lambda>n.
     bindS (modifyS (\<lambda>s. s\<lparr>fi_valid := n\<rparr>)) (\<lambda>_.
     bindS (on_direct (\<lambda>u. (Inr u, u))) (\<lambda>u.
     bindS (copy_out u n) (\<lambda>u'.
     modifyS (\<lambda>s. s\<lparr>uncompressedDirect := Some u', fi_position := 0\<rparr>))))))))))"

definition unpack_raw :: "int \<Rightarrow> unit fis" where
  "unpack_raw offset =
     bindS (on_input (bb_set_position offset)) (\<lambda>_.
     bindS (modifyS (\<lambda>s. s\<lparr>fi_position := 0\<rparr>)) (\<lambda>_.
     bindS (from_input (\<lambda>i. Inr i)) (\<lambda>i.
     bindS (modifyS (\<lambda>s. s\<lparr>fi_valid := bb_remaining i\<rparr>)) (\<lambda>_.
     bindS (copy_out i (bb_remaining i)) (\<lambda>i'.
     modifyS (\<lambda>s. s\<lparr>fi_input := Some i'\<rparr>))))))"

definition verify_frame :: "jint \<Rightarrow> unit fis" where
  "verify_frame checkSum = getS (\<lambda>s.
     if verifyChecksums s then
       from_buffer (\<lambda>b s.
         case maskedCrc32c b (fi_position s) (fi_valid s - fi_position s) (fi_crc s) of
           (r, c) \<Rightarrow>
             (case r of
                Inl e \<Rightarrow> Inl e
              | Inr actual \<Rightarrow>
                  if checkSum \<noteq> actual then Inl (IOException ''Corrupt input: invalid checksum'') else Inr (),
              s\<lparr>fi_crc := c\<rparr>))
     else returnS ())"

text \<open>One call of \<open>ensureBuffer\<close>; \<open>Skipped\<close> is its recursive call after a skipped chunk.\<close>

datatype ensured = Filled | AtEnd | Skipped

definition unpack_frame :: "snappy_lib \<Rightarrow> FrameAction \<Rightarrow> int \<Rightarrow> unit fis" where
  "unpack_frame lib action len =
     bindS (load_frame lib len) (\<lambda>_.
     bindS (from_input getFrameData) (\<lambda>(checkSum, offset).
     bindS (if action = UNCOMPRESS then unpack_compressed lib offset else unpack_raw offset) (\<lambda>_.
     verify_frame checkSum)))"

definition ensure_step :: "snappy_lib \<Rightarrow> ensured fis" where
  "ensure_step lib = getS (\<lambda>s.
     if fi_available s > 0 then returnS Filled
     else if fi_eof s then returnS AtEnd
     else
       bindS readBlockHeader (\<lambda>ok.
       if \<not> ok then bindS (modifyS (\<lambda>s. s\<lparr>fi_eof := True\<rparr>)) (\<lambda>_. returnS AtEnd)
       else
         bindS (getS (\<lambda>s. liftE (getFrameMetaData (bb_data (frameHeader s))))) (\<lambda>(action, len).
         if action = SKIP then bindS (skip_frame len) (\<lambda>_. returnS Skipped)
         else bindS (unpack_frame lib action len) (\<lambda>_. returnS Filled))))"

section \<open>The public methods\<close>

text \<open>
  The recursion of \<open>ensureBuffer\<close>; a call that took nothing from the channel would recur for ever.
\<close>

definition fi_left :: "SnappyFramedInputStream \<Rightarrow> nat" where
  "fi_left s = length (src_data (fi_rbc s))"

function ensureBuffer :: "snappy_lib \<Rightarrow> bool fis" where
  "ensureBuffer lib s =
     (case ensure_step lib s of
        (Inl e, s') \<Rightarrow> (Inl e, s')
      | (Inr r, s') \<Rightarrow>
          (case r of
             Filled \<Rightarrow> (Inr True, s')
           | AtEnd \<Rightarrow> (Inr False, s')
           | Skipped \<Rightarrow> if fi_left s' < fi_left s then ensureBuffer lib s' else (Inl Diverges, s')))"
  by pat_completeness auto
termination
  by (relation "measure (\<lambda>(lib, s). fi_left s)") auto

declare ensureBuffer.simps [simp del]

definition fi_read_byte :: "snappy_lib \<Rightarrow> int fis" where
  "fi_read_byte lib = getS (\<lambda>s.
     if fi_closed s then returnS (- 1)
     else
       bindS (ensureBuffer lib) (\<lambda>filled.
       if \<not> filled then returnS (- 1)
       else from_buffer (\<lambda>b.
         bindS (getS (\<lambda>s. returnS (fi_position s))) (\<lambda>p.
         bindS (modifyS (\<lambda>s. s\<lparr>fi_position := p + 1\<rparr>)) (\<lambda>_.
         bindS (liftE (array_get b p)) (\<lambda>x. returnS (uint x)))))))"

text \<open>The state is the array that is read into and the stream.\<close>

definition fi_read :: "snappy_lib \<Rightarrow> int \<Rightarrow> int \<Rightarrow> (bytes \<times> SnappyFramedInputStream, exc, int) op" where
  "fi_read lib off len = (\<lambda>(out, s).
     if off < 0 \<or> len < 0 \<or> i32 (off + len) > int (length out) then (Inl IllegalArgumentException, (out, s))
     else if fi_closed s then (Inl ClosedChannelException, (out, s))
     else if len = 0 then (Inr 0, (out, s))
     else
       (case ensureBuffer lib s of
          (Inl e, s') \<Rightarrow> (Inl e, (out, s'))
        | (Inr filled, s') \<Rightarrow>
            if \<not> filled then (Inr (- 1), (out, s'))
            else
              (let n = min len (fi_available s') in
               case fi_buffer s' of
                 None \<Rightarrow> (Inl NullPointerException, (out, s'))
               | Some b \<Rightarrow>
                   (case arraycopy b (fi_position s') out off n of
                      Inl e \<Rightarrow> (Inl e, (out, s'))
                    | Inr out' \<Rightarrow> (Inr n, (out', s'\<lparr>fi_position := fi_position s' + n\<rparr>))))))"

text \<open>\<open>read(ByteBuffer)\<close>\<close>

definition fi_read_buffer :: "snappy_lib \<Rightarrow> (byte_buffer \<times> SnappyFramedInputStream, exc, int) op" where
  "fi_read_buffer lib = (\<lambda>(dst, s).
     if fi_closed s then (Inl ClosedChannelException, (dst, s))
     else if bb_remaining dst = 0 then (Inr 0, (dst, s))
     else
       (case ensureBuffer lib s of
          (Inl e, s') \<Rightarrow> (Inl e, (dst, s'))
        | (Inr filled, s') \<Rightarrow>
            if \<not> filled then (Inr (- 1), (dst, s'))
            else
              (let n = min (bb_remaining dst) (fi_available s') in
               case fi_buffer s' of
                 None \<Rightarrow> (Inl NullPointerException, (dst, s'))
               | Some b \<Rightarrow>
                   (case bb_put_range b (fi_position s') n dst of
                      (Inl e, dst') \<Rightarrow> (Inl e, (dst', s'))
                    | (Inr _, dst') \<Rightarrow> (Inr n, (dst', s'\<lparr>fi_position := fi_position s' + n\<rparr>))))))"

text \<open>
  \<open>transferTo(OutputStream)\<close>: the state is the sink and the stream. A round without progress would
  repeat for ever.
\<close>

definition fi_todo :: "SnappyFramedInputStream \<Rightarrow> nat" where
  "fi_todo s = fi_left s + (if 0 < fi_available s then 1 else 0)"

function transfer_out :: "snappy_lib \<Rightarrow> int \<Rightarrow> (sink \<times> SnappyFramedInputStream, exc, int) op" where
  "transfer_out lib totTransfered (os, s) =
     (case ensureBuffer lib s of
        (Inl e, s') \<Rightarrow> (Inl e, (os, s'))
      | (Inr filled, s') \<Rightarrow>
          if \<not> filled then (Inr totTransfered, (os, s'))
          else
            (let n = fi_available s' in
             case fi_buffer s' of
               None \<Rightarrow> (Inl NullPointerException, (os, s'))
             | Some b \<Rightarrow>
                 if \<not> in_range (fi_position s') n (length b) then (Inl IndexOutOfBoundsException, (os, s'))
                 else
                   (case sink_write (segment (fi_position s') n b) os of
                      (Inl e, os') \<Rightarrow> (Inl e, (os', s'))
                    | (Inr _, os') \<Rightarrow>
                        (let s'' = s'\<lparr>fi_position := fi_position s' + n\<rparr> in
                         if fi_todo s'' < fi_todo s then transfer_out lib (totTransfered + n) (os', s'')
                         else (Inl Diverges, (os', s''))))))"
  by pat_completeness auto
termination
  by (relation "measure (\<lambda>(lib, n, (os, s)). fi_todo s)") auto

declare transfer_out.simps [simp del]

definition transferTo :: "snappy_lib \<Rightarrow> (sink \<times> SnappyFramedInputStream, exc, int) op" where
  "transferTo lib = (\<lambda>(os, s).
     if fi_closed s then (Inl ClosedChannelException, (os, s)) else transfer_out lib 0 (os, s))"

text \<open>
  \<open>transferTo(WritableByteChannel)\<close> wraps the array of the stream once, before its loop. When
  \<open>ensureBuffer\<close> replaces the array meanwhile, the wrapped one, of \<open>cap\<close> bytes, is back in the pool, and
  \<open>reused k\<close> is what it holds with \<open>k\<close> rounds to go. A channel may take nothing at all, so the number of
  rounds is bounded by fuel.
\<close>

definition wrapped_bytes :: "bytes \<Rightarrow> nat \<Rightarrow> nat \<Rightarrow> SnappyFramedInputStream \<Rightarrow> bytes \<Rightarrow> bytes" where
  "wrapped_bytes b a cap s old = (if fi_array s = a then b else take cap (old @ replicate cap 0))"

fun transfer_wbc ::
    "(nat \<Rightarrow> bytes) \<Rightarrow> snappy_lib \<Rightarrow> nat \<Rightarrow> nat \<Rightarrow> nat \<Rightarrow> int \<Rightarrow> (channel \<times> SnappyFramedInputStream, exc, int) op" where
  "transfer_wbc reused lib 0 a cap totTransfered (wbc, s) = (Inl Diverges, (wbc, s))"
| "transfer_wbc reused lib (Suc fuel) a cap totTransfered (wbc, s) =
     (case ensureBuffer lib s of
        (Inl e, s') \<Rightarrow> (Inl e, (wbc, s'))
      | (Inr filled, s') \<Rightarrow>
          if \<not> filled then (Inr totTransfered, (wbc, s'))
          else
            (case fi_buffer s' of
               None \<Rightarrow> (Inl NullPointerException, (wbc, s'))
             | Some b \<Rightarrow>
                 (let d = wrapped_bytes b a cap s' (reused fuel);
                      bb = \<lparr>bb_data = d, bb_pos = 0, bb_limit = int (length d), bb_direct = False\<rparr>;
                      p = fi_position s'
                  in case bindS (bb_set_position p) (\<lambda>_. bb_set_limit (p + fi_available s')) bb of
                       (Inl e, _) \<Rightarrow> (Inl e, (wbc, s'))
                     | (Inr _, bb) \<Rightarrow>
                         (case channel_write bb wbc of
                            (Inl e, wbc') \<Rightarrow> (Inl e, (wbc', s'))
                          | (Inr bb', wbc') \<Rightarrow>
                              (let written = bb_pos bb' - p
                               in transfer_wbc reused lib fuel a cap (totTransfered + written)
                                    (wbc', s'\<lparr>fi_position := p + written\<rparr>))))))"

definition transferTo_channel ::
    "(nat \<Rightarrow> bytes) \<Rightarrow> snappy_lib \<Rightarrow> nat \<Rightarrow> (channel \<times> SnappyFramedInputStream, exc, int) op" where
  "transferTo_channel reused lib fuel = (\<lambda>(wbc, s).
     if fi_closed s then (Inl ClosedChannelException, (wbc, s))
     else case fi_buffer s of
         None \<Rightarrow> (Inl NullPointerException, (wbc, s))
       | Some b \<Rightarrow> transfer_wbc reused lib fuel (fi_array s) (length b) 0 (wbc, s))"

definition fi_close :: "unit fis" where
  "fi_close =
     bindS (modifyS (\<lambda>s. s\<lparr>fi_rbc := (fi_rbc s)\<lparr>src_closed := True\<rparr>\<rparr>)) (\<lambda>_.
     getS (\<lambda>s.
       if fi_closed s then returnS ()
       else modifyS (\<lambda>s. s\<lparr>fi_closed := True,
         fi_pool := release_array (fi_buffer s) (release_direct (uncompressedDirect s)
           (release_direct (fi_input s) (fi_pool s))),
         fi_input := None, uncompressedDirect := None, fi_buffer := None\<rparr>)))"

end
