(* ===== verification/Framed_Output_Proofs.thy ===== *)
theory Framed_Output_Proofs
  imports Framed_Output Snappy_Output_Proofs
begin

text \<open>
  The output stream against its abstraction: the bytes on the channel are the header and one frame for
  each block, and the blocks with the gathered bytes are what was written.
\<close>

section \<open>Frames\<close>

definition le24 :: "int \<Rightarrow> bytes" where
  "le24 n = [word_of_int n, word_of_int (n div 2 ^ 8), word_of_int (n div 2 ^ 16)]"

definition chunk_frame :: "bool \<Rightarrow> jint \<Rightarrow> bytes \<Rightarrow> bytes" where
  "chunk_frame isCompressed c x = (if isCompressed then 0 else 1) # le24 (int (length x) + 4) @ int_le c @ x"

definition data_frame :: "snappy_lib \<Rightarrow> ratio \<Rightarrow> bytes \<Rightarrow> bytes" where
  "data_frame lib r x =
     (let z = compress_raw lib x in
      if accepts r (int (length z)) (int (length x)) then chunk_frame True (masked_crc x) z
      else chunk_frame False (masked_crc x) x)"

section \<open>The invariant\<close>

definition fo_inv :: "snappy_lib \<Rightarrow> SnappyFramedOutputStream \<Rightarrow> bool" where
  "fo_inv lib s \<longleftrightarrow> \<not> fo_closed s \<and> 0 < fo_blockSize s \<and> fo_blockSize s \<le> 65536 \<and>
     bb_wf (fo_buffer s) \<and> bb_limit (fo_buffer s) = fo_blockSize s \<and>
     bb_direct (directInputBuffer s) \<and> fo_blockSize s \<le> bb_capacity (directInputBuffer s) \<and>
     bb_capacity (directInputBuffer s) \<le> int_max \<and>
     bb_direct (fo_outputBuffer s) \<and> bb_capacity (fo_outputBuffer s) \<le> int_max \<and>
     int (max_compressed lib (nat (fo_blockSize s))) \<le> bb_capacity (fo_outputBuffer s) \<and>
     length (bb_data (headerBuffer s)) = 8 \<and> channel_ok (fo_out s)"

definition fo_gathered :: "SnappyFramedOutputStream \<Rightarrow> bytes" where
  "fo_gathered s = bb_done (fo_buffer s)"

definition fo_rel :: "snappy_lib \<Rightarrow> bytes \<Rightarrow> bytes list \<Rightarrow> SnappyFramedOutputStream \<Rightarrow> bool" where
  "fo_rel lib d0 bs s \<longleftrightarrow> fo_inv lib s \<and>
     ch_data (fo_out s) = d0 @ concat (map (data_frame lib (minCompressionRatio s)) bs) \<and>
     list_all (\<lambda>b. b \<noteq> [] \<and> int (length b) \<le> fo_blockSize s) bs"

text \<open>What an operation between two blocks leaves alone.\<close>

definition same_setup :: "SnappyFramedOutputStream \<Rightarrow> SnappyFramedOutputStream \<Rightarrow> bool" where
  "same_setup s s' \<longleftrightarrow> fo_blockSize s' = fo_blockSize s \<and> minCompressionRatio s' = minCompressionRatio s \<and>
     ch_open (fo_out s') = ch_open (fo_out s)"

lemma same_setup_refl [simp]: "same_setup s s"
  by (simp add: same_setup_def)

lemma same_setup_trans: "same_setup s t \<Longrightarrow> same_setup t u \<Longrightarrow> same_setup s u"
  by (simp add: same_setup_def)

section \<open>Writing a frame\<close>

lemma length_le24 [simp]: "length (le24 n) = 3"
  by (simp add: le24_def)

lemma put_header_ok:
  assumes "length d = 8"
  shows "put_header n c v \<lparr>bb_data = d, bb_pos = 0, bb_limit = 8, bb_direct = dir\<rparr>
    = (Inr (), \<lparr>bb_data = (if c then 0 else 1) # le24 n @ int_le v, bb_pos = 0, bb_limit = 8, bb_direct = dir\<rparr>)"
proof -
  obtain a0 a1 a2 a3 a4 a5 a6 a7 where d: "d = [a0, a1, a2, a3, a4, a5, a6, a7]"
    using assms by (auto simp: eval_nat_numeral length_Suc_conv)
  show ?thesis
    by (simp add: d put_header_def bb_put_def bb_remaining_def bind_run bindS_def blit_def modifyS_def bb_flip_def
        int_le_def le24_def COMPRESSED_DATA_FLAG_def UNCOMPRESSED_DATA_FLAG_def eval_nat_numeral)
qed

lemma writeBlock_ok:
  assumes ch: "channel_ok (fo_out s)" and h: "length (bb_data (headerBuffer s)) = 8" and d: "bb_wf data"
  obtains h' c' where "writeBlock data z v s = (Inr (data\<lparr>bb_pos := bb_limit data\<rparr>), s\<lparr>headerBuffer := h', fo_out := c'\<rparr>)"
    and "length (bb_data h') = 8" and "channel_ok c'" and "ch_open c' = ch_open (fo_out s)"
    and "ch_data c' = ch_data (fo_out s) @ chunk_frame z v (bb_window data)"
proof -
  define hd where "hd = (if z then 0 else 1) # le24 (bb_remaining data + 4) @ int_le v"
  define hb where "hb = \<lparr>bb_data = hd, bb_pos = 0, bb_limit = 8, bb_direct = bb_direct (headerBuffer s)\<rparr>"
  have "bb_clear (headerBuffer s) = \<lparr>bb_data = bb_data (headerBuffer s), bb_pos = 0, bb_limit = 8,
      bb_direct = bb_direct (headerBuffer s)\<rparr>"
    using h by (cases "headerBuffer s") (simp add: bb_clear_def bb_capacity_def)
  then have ph: "put_header (bb_remaining data + 4) z v (bb_clear (headerBuffer s)) = (Inr (), hb)"
    using put_header_ok [OF h] by (simp add: hb_def hd_def)
  have lh: "length hd = 8" by (simp add: hd_def)
  then have hwf: "bb_wf hb" "bb_window hb = hd"
    by (simp_all add: hb_def bb_wf_def bb_capacity_def bb_window_def bb_remaining_def)
  obtain c1 where c1: "channel_write hb (fo_out s) = (Inr (hb\<lparr>bb_pos := bb_limit hb\<rparr>), c1)" "channel_ok c1"
    "ch_data c1 = ch_data (fo_out s) @ hd" "ch_open c1 = ch_open (fo_out s)"
    using channel_write_ok [OF ch hwf(1)] hwf(2) by metis
  obtain c2 where c2: "channel_write data c1 = (Inr (data\<lparr>bb_pos := bb_limit data\<rparr>), c2)" "channel_ok c2"
    "ch_data c2 = ch_data c1 @ bb_window data" "ch_open c2 = ch_open c1"
    using channel_write_ok [OF c1(2) d] by metis
  have "writeBlock data z v s = (Inr (data\<lparr>bb_pos := bb_limit data\<rparr>),
      s\<lparr>headerBuffer := hb\<lparr>bb_pos := bb_limit hb\<rparr>, fo_out := c2\<rparr>)"
    unfolding writeBlock_def on_header_def on_channel_def using ph c1(1) c2(1)
    by (simp add: bind_run bindS_def getS_def modifyS_def)
  moreover have "ch_data c2 = ch_data (fo_out s) @ chunk_frame z v (bb_window data)"
    using c1(3) c2(3) length_bb_window [OF d] by (simp add: chunk_frame_def hd_def)
  ultimately show thesis using that c1(4) c2(2,4) lh by (simp add: hb_def)
qed

text \<open>Compressing the \<open>n\<close> bytes at the front of one buffer into another that is clear.\<close>

lemma compress_buffer_ok:
  assumes lib: "lib_ok lib" "lib_mono lib" and n: "0 \<le> n" "n \<le> bs" "n \<le> bb_capacity i" "bb_capacity i \<le> int_max"
    and i: "bb_direct i" "bb_pos i = 0" "bb_limit i = n"
    and o': "bb_direct o'" "int (max_compressed lib (nat bs)) \<le> bb_capacity o'" "bb_capacity o' \<le> int_max"
  obtains t where "s_compress_buffer lib i (bb_clear o') = (Inr (int (length (compress_raw lib (take (nat n) (bb_data i))))), t)"
    and "bb_wf t" and "bb_direct t" and "bb_capacity t = bb_capacity o'"
    and "bb_window t = compress_raw lib (take (nat n) (bb_data i))"
proof -
  let ?x = "take (nat n) (bb_data i)" and ?b = "bb_data o'"
  let ?c = "compress_raw lib ?x" and ?z = "compress_spill lib ?x"
  have lx: "length ?x = nat n" using n by (auto simp: bb_capacity_def)
  have m: "length ?c + length ?z \<le> max_compressed lib (nat n)"
    using lib(1) lx by (metis lib_ok_def lib_space_def)
  moreover have mm: "max_compressed lib (nat n) \<le> max_compressed lib (nat bs)"
    using lib(2) n by (simp add: lib_mono_def)
  ultimately have le: "int (length ?c) + int (length ?z) \<le> bb_capacity o'" using o'(2) by linarith
  define d where "d = blit ?b 0 (?c @ ?z)"
  have ld: "length d = length ?b" using le by (auto simp: d_def blit_def bb_capacity_def)
  have td: "take (length ?c) d = ?c" by (simp add: d_def blit_def)
  have ic: "i32 (int (length ?c)) = int (length ?c)" using le o'(3) by (intro i32_int_len) linarith
  have imp: "impl_rawCompress lib (bb_data i) 0 n 0 ?b = (Inr (int (length ?c)), d)"
    using n o'(2) mm ic by (simp add: impl_rawCompress_def in_range_def bb_capacity_def compressed_into_def d_def)
  define t where "t = o'\<lparr>bb_data := d, bb_pos := 0, bb_limit := int (length ?c)\<rparr>"
  have "s_compress_buffer lib i (bb_clear o') = (Inr (int (length ?c)), t)"
    using i o'(1) imp ld le ic
    by (simp add: s_compress_buffer_def bb_clear_def bb_native_def bb_remaining_def bb_set_limit_def
        bind_run bindS_def returnS_def bb_capacity_def t_def)
  moreover have "bb_wf t" "bb_direct t" "bb_capacity t = bb_capacity o'" "bb_window t = ?c"
    using o'(1) ld le td by (simp_all add: t_def bb_wf_def bb_capacity_def bb_window_def bb_remaining_def)
  ultimately show thesis using that by blast
qed

section \<open>Flushing\<close>

lemma load_direct_ok:
  assumes b: "bb_wf (fo_buffer s)" "bb_pos (fo_buffer s) = 0"
    and cap: "bb_limit (fo_buffer s) \<le> bb_capacity (directInputBuffer s)"
  obtains i where "load_direct s = (Inr (), s\<lparr>fo_buffer := (fo_buffer s)\<lparr>bb_pos := bb_limit (fo_buffer s)\<rparr>,
      directInputBuffer := i\<rparr>)"
    and "bb_direct i = bb_direct (directInputBuffer s)" and "bb_pos i = 0" and "bb_limit i = bb_limit (fo_buffer s)"
    and "bb_capacity i = bb_capacity (directInputBuffer s)"
    and "take (nat (bb_limit (fo_buffer s))) (bb_data i) = bb_window (fo_buffer s)"
proof -
  let ?b = "fo_buffer s" and ?c = "bb_clear (directInputBuffer s)"
  have lw: "int (length (bb_window ?b)) = bb_limit ?b"
    using length_bb_window [OF b(1)] b(2) by (simp add: bb_remaining_def)
  have "bb_wf ?c" by (simp add: bb_wf_def bb_clear_def bb_capacity_def)
  moreover have "int (length (bb_window ?b)) \<le> bb_remaining ?c"
    using cap lw by (simp add: bb_remaining_def bb_clear_def)
  ultimately obtain d where d: "bb_put (bb_window ?b) ?c
      = (Inr (), ?c\<lparr>bb_data := d, bb_pos := bb_pos ?c + int (length (bb_window ?b))\<rparr>)"
    "length d = length (bb_data ?c)"
    "take (nat (bb_pos ?c + int (length (bb_window ?b)))) d = bb_done ?c @ bb_window ?b"
    using bb_put_ok by metis
  have "load_direct s = (Inr (), s\<lparr>fo_buffer := ?b\<lparr>bb_pos := bb_limit ?b\<rparr>,
      directInputBuffer := (directInputBuffer s)\<lparr>bb_data := d, bb_pos := 0, bb_limit := bb_limit ?b\<rparr>\<rparr>)"
    using d(1) lw by (simp add: load_direct_def bb_put_buffer_def bb_flip_def bb_clear_def)
  then show thesis using that d(2,3) lw by (simp add: bb_capacity_def bb_clear_def bb_done_def)
qed

text \<open>One block through the two direct buffers and onto the channel.\<close>

lemma writeCompressed_ok:
  assumes lib: "lib_ok lib" "lib_mono lib" and inv: "channel_ok (fo_out s)" "length (bb_data (headerBuffer s)) = 8"
    and b: "bb_wf (fo_buffer s)" "bb_pos (fo_buffer s) = 0" "bb_limit (fo_buffer s) \<le> fo_blockSize s"
    and i: "bb_direct (directInputBuffer s)" "fo_blockSize s \<le> bb_capacity (directInputBuffer s)"
      "bb_capacity (directInputBuffer s) \<le> int_max"
    and o': "bb_direct (fo_outputBuffer s)" "bb_capacity (fo_outputBuffer s) \<le> int_max"
      "int (max_compressed lib (nat (fo_blockSize s))) \<le> bb_capacity (fo_outputBuffer s)"
  obtains k h c t u bp where "writeCompressed lib s = (Inr (), s\<lparr>crc32 := k, headerBuffer := h, fo_out := c,
      directInputBuffer := t, fo_outputBuffer := u, fo_buffer := (fo_buffer s)\<lparr>bb_pos := bp\<rparr>\<rparr>)"
    and "length (bb_data h) = 8" and "channel_ok c" and "ch_open c = ch_open (fo_out s)"
    and "bb_direct t" and "bb_capacity t = bb_capacity (directInputBuffer s)"
    and "bb_direct u" and "bb_capacity u = bb_capacity (fo_outputBuffer s)"
    and "ch_data c = ch_data (fo_out s) @ data_frame lib (minCompressionRatio s) (bb_window (fo_buffer s))"
proof -
  let ?b = "fo_buffer s" and ?n = "bb_limit (fo_buffer s)" and ?r = "minCompressionRatio s"
  define x where "x = bb_window (fo_buffer s)"
  have n: "0 \<le> ?n" "bb_remaining ?b = ?n" using b by (simp_all add: bb_wf_def bb_remaining_def)
  have lx: "int (length x) = ?n" using length_bb_window [OF b(1)] n by (simp add: x_def)
  have rb: "in_range 0 ?n (length (bb_data ?b))" and sx: "segment 0 ?n (bb_data ?b) = x"
    using bb_window_range [OF b(1)] b(2) n by (simp_all add: x_def bb_window_def)
  obtain k where k: "maskedCrc32c (bb_data ?b) 0 ?n (crc32 s) = (Inr (masked_crc x), k)"
    using maskedCrc32c_eq [OF rb] sx by metis
  define s1 where "s1 = s\<lparr>crc32 := k\<rparr>"
  obtain t where t: "load_direct s1 = (Inr (), s1\<lparr>fo_buffer := ?b\<lparr>bb_pos := ?n\<rparr>, directInputBuffer := t\<rparr>)"
    "bb_direct t = bb_direct (directInputBuffer s)" "bb_pos t = 0" "bb_limit t = ?n"
    "bb_capacity t = bb_capacity (directInputBuffer s)" "take (nat ?n) (bb_data t) = x"
    using load_direct_ok [of s1] b i by (auto simp: s1_def x_def)
  have tn: "?n \<le> bb_capacity t" "bb_capacity t \<le> int_max" "bb_direct t" using t b i by simp_all
  obtain u where u: "s_compress_buffer lib t (bb_clear (fo_outputBuffer s)) = (Inr (int (length (compress_raw lib x))), u)"
    "bb_wf u" "bb_direct u" "bb_capacity u = bb_capacity (fo_outputBuffer s)" "bb_window u = compress_raw lib x"
    using compress_buffer_ok [OF lib n(1) b(3) tn(1,2,3) t(3,4) o'(1,3,2)] unfolding t(6) by blast
  have ru: "bb_remaining u = int (length (compress_raw lib x))" using length_bb_window [OF u(2)] u(5) by simp
  define s2 where "s2 = s1\<lparr>fo_buffer := ?b\<lparr>bb_pos := ?n\<rparr>, directInputBuffer := t, fo_outputBuffer := u\<rparr>"
  have wc: "writeCompressed lib s =
     (if accepts ?r (bb_remaining u) ?n
      then bindS (writeBlock u True (masked_crc x)) (\<lambda>b. modifyS (\<lambda>s. s\<lparr>fo_outputBuffer := b\<rparr>)) s2
      else bindS (modifyS (\<lambda>s. s\<lparr>fo_buffer := bb_flip (fo_buffer s)\<rparr>)) (\<lambda>_.
           bindS (getS (\<lambda>s. writeBlock (fo_buffer s) False (masked_crc x))) (\<lambda>b.
           modifyS (\<lambda>s. s\<lparr>fo_buffer := b\<rparr>))) s2)"
    using k t(1) u(1) n(2) unfolding s2_def s1_def
    by (simp add: writeCompressed_def on_crc_def on_output_def bindS_def getS_def modifyS_def Let_def)
  have s2: "channel_ok (fo_out s2)" "length (bb_data (headerBuffer s2)) = 8"
    "fo_buffer s2 = ?b\<lparr>bb_pos := ?n\<rparr>" using inv by (simp_all add: s2_def s1_def)
  show thesis
  proof (cases "accepts ?r (bb_remaining u) ?n")
    case True
    obtain h c where w: "writeBlock u True (masked_crc x) s2
        = (Inr (u\<lparr>bb_pos := bb_limit u\<rparr>), s2\<lparr>headerBuffer := h, fo_out := c\<rparr>)"
      "length (bb_data h) = 8" "channel_ok c" "ch_open c = ch_open (fo_out s2)"
      "ch_data c = ch_data (fo_out s2) @ chunk_frame True (masked_crc x) (bb_window u)"
      using writeBlock_ok [OF s2(1,2) u(2)] by metis
    have "writeCompressed lib s = (Inr (), s\<lparr>crc32 := k, headerBuffer := h, fo_out := c,
      directInputBuffer := t, fo_outputBuffer := u\<lparr>bb_pos := bb_limit u\<rparr>, fo_buffer := ?b\<lparr>bb_pos := ?n\<rparr>\<rparr>)"
      using True w(1) unfolding wc by (simp add: bindS_def modifyS_def s2_def s1_def)
    moreover have "data_frame lib ?r x = chunk_frame True (masked_crc x) (compress_raw lib x)"
      using True ru lx by (simp add: data_frame_def Let_def)
    ultimately show thesis
      using that [where k = k and h = h and c = c and t = t and bp = ?n and u = "u\<lparr>bb_pos := bb_limit u\<rparr>"]
        w(2-5) tn(3) t(5) u(3-5) by (simp add: s2_def s1_def bb_capacity_def x_def)
  next
    case False
    have fl: "bb_flip (?b\<lparr>bb_pos := ?n\<rparr>) = ?b" using b(2) by (cases ?b) (simp add: bb_flip_def)
    define s3 where "s3 = s2\<lparr>fo_buffer := ?b\<rparr>"
    have s3: "channel_ok (fo_out s3)" "length (bb_data (headerBuffer s3)) = 8" using s2 by (simp_all add: s3_def)
    obtain h c where w: "writeBlock ?b False (masked_crc x) s3
        = (Inr (?b\<lparr>bb_pos := ?n\<rparr>), s3\<lparr>headerBuffer := h, fo_out := c\<rparr>)"
      "length (bb_data h) = 8" "channel_ok c" "ch_open c = ch_open (fo_out s3)"
      "ch_data c = ch_data (fo_out s3) @ chunk_frame False (masked_crc x) (bb_window ?b)"
      using writeBlock_ok [OF s3 b(1)] by metis
    have "writeCompressed lib s = bindS (getS (\<lambda>s. writeBlock (fo_buffer s) False (masked_crc x))) (\<lambda>b.
           modifyS (\<lambda>s. s\<lparr>fo_buffer := b\<rparr>)) s3"
      using False unfolding wc by (simp add: bind_modify s2(3) fl s3_def)
    also have "\<dots> = (Inr (), s\<lparr>crc32 := k, headerBuffer := h, fo_out := c,
      directInputBuffer := t, fo_outputBuffer := u, fo_buffer := ?b\<lparr>bb_pos := ?n\<rparr>\<rparr>)"
      using w(1) by (simp add: bindS_def getS_def modifyS_def s3_def s2_def s1_def)
    finally have e: "writeCompressed lib s = (Inr (), s\<lparr>crc32 := k, headerBuffer := h, fo_out := c,
      directInputBuffer := t, fo_outputBuffer := u, fo_buffer := ?b\<lparr>bb_pos := ?n\<rparr>\<rparr>)" .
    have "data_frame lib ?r x = chunk_frame False (masked_crc x) x"
      using False ru lx by (simp add: data_frame_def Let_def)
    then show thesis
      using that [OF e] w(2-5) tn(3) t(5) u(3,4) by (simp add: s3_def s2_def s1_def x_def)
  qed
qed

lemma flushBuffer_rel:
  assumes lib: "lib_ok lib" "lib_mono lib" and rel: "fo_rel lib d0 bs s"
  obtains s' where "flushBuffer lib s = (Inr (), s')" and "same_setup s s'" and "fo_gathered s' = []"
    and "fo_rel lib d0 (if fo_gathered s = [] then bs else bs @ [fo_gathered s]) s'"
proof (cases "fo_gathered s = []")
  case True
  have "bb_wf (fo_buffer s)" using rel by (simp add: fo_rel_def fo_inv_def)
  then have "bb_pos (fo_buffer s) = 0" using length_bb_done [of "fo_buffer s"] True by (simp add: fo_gathered_def)
  then have "flushBuffer lib s = (Inr (), s)" by (simp add: flushBuffer_def getS_def returnS_def)
  then show thesis using that True rel by simp
next
  case False
  have inv: "fo_inv lib s" using rel by (simp add: fo_rel_def)
  then have wf: "bb_wf (fo_buffer s)" by (simp add: fo_inv_def)
  define s1 where "s1 = s\<lparr>fo_buffer := bb_flip (fo_buffer s)\<rparr>"
  have lg: "int (length (fo_gathered s)) = bb_pos (fo_buffer s)" using length_bb_done [OF wf] by (simp add: fo_gathered_def)
  then have pos: "0 < bb_pos (fo_buffer s)" using False by (cases "fo_gathered s") auto
  have f: "bb_wf (fo_buffer s1)" "bb_pos (fo_buffer s1) = 0" "bb_limit (fo_buffer s1) \<le> fo_blockSize s1"
    "bb_window (fo_buffer s1) = fo_gathered s" "bb_capacity (fo_buffer s1) = bb_capacity (fo_buffer s)"
    using wf inv by (auto simp: s1_def bb_flip_def bb_wf_def bb_capacity_def fo_inv_def bb_window_def bb_remaining_def
        fo_gathered_def bb_done_def)
  have i: "channel_ok (fo_out s1)" "length (bb_data (headerBuffer s1)) = 8"
    "bb_direct (directInputBuffer s1)" "fo_blockSize s1 \<le> bb_capacity (directInputBuffer s1)"
    "bb_capacity (directInputBuffer s1) \<le> int_max" "bb_direct (fo_outputBuffer s1)"
    "bb_capacity (fo_outputBuffer s1) \<le> int_max"
    "int (max_compressed lib (nat (fo_blockSize s1))) \<le> bb_capacity (fo_outputBuffer s1)"
    using inv by (simp_all add: fo_inv_def s1_def)
  obtain k h c t u bp where w: "writeCompressed lib s1 = (Inr (), s1\<lparr>crc32 := k, headerBuffer := h, fo_out := c,
      directInputBuffer := t, fo_outputBuffer := u, fo_buffer := (fo_buffer s1)\<lparr>bb_pos := bp\<rparr>\<rparr>)"
    "length (bb_data h) = 8" "channel_ok c" "ch_open c = ch_open (fo_out s1)"
    "bb_direct t" "bb_capacity t = bb_capacity (directInputBuffer s1)"
    "bb_direct u" "bb_capacity u = bb_capacity (fo_outputBuffer s1)"
    "ch_data c = ch_data (fo_out s1) @ data_frame lib (minCompressionRatio s1) (bb_window (fo_buffer s1))"
    using writeCompressed_ok [OF lib i(1,2) f(1-3) i(3-8)] by metis
  define s' where "s' = s1\<lparr>crc32 := k, headerBuffer := h, fo_out := c, directInputBuffer := t, fo_outputBuffer := u,
      fo_buffer := (fo_buffer s1)\<lparr>bb_pos := 0, bb_limit := fo_blockSize s\<rparr>\<rparr>"
  have cap: "0 \<le> fo_blockSize s" "fo_blockSize s \<le> bb_capacity (fo_buffer s)" using inv by (simp_all add: fo_inv_def bb_wf_def)
  then have "flushBuffer lib s = (Inr (), s')"
    unfolding flushBuffer_def using pos w(1) f(5)
    by (simp add: getS_def bind_modify s1_def [symmetric] bindS_def [of "writeCompressed lib"] on_buffer_def bb_set_limit_def
        bb_clear_def bb_capacity_def s'_def) (simp add: s1_def)
  moreover have "same_setup s s'" using w(4) by (simp add: same_setup_def s'_def s1_def)
  moreover have "fo_gathered s' = []" by (simp add: fo_gathered_def bb_done_def s'_def)
  moreover have "fo_inv lib s'" using inv w f(5) cap by (simp add: fo_inv_def s'_def s1_def bb_wf_def bb_capacity_def)
  then have "fo_rel lib d0 (bs @ [fo_gathered s]) s'"
    using rel w(9) f(4) False lg wf inv by (auto simp: fo_rel_def s'_def s1_def fo_inv_def bb_wf_def)
  ultimately show thesis using that False by simp
qed

section \<open>The contents of the stream\<close>

text \<open>\<open>w\<close> has been written: the blocks on the channel and the gathered bytes make it up.\<close>

definition fo_holds :: "snappy_lib \<Rightarrow> bytes \<Rightarrow> bytes \<Rightarrow> SnappyFramedOutputStream \<Rightarrow> bool" where
  "fo_holds lib d0 w s \<longleftrightarrow> (\<exists>bs. fo_rel lib d0 bs s \<and> concat bs @ fo_gathered s = w)"

lemma fo_holds_wf:
  assumes "fo_holds lib d0 w s"
  shows "bb_wf (fo_buffer s)" and "bb_limit (fo_buffer s) = fo_blockSize s" and "0 < fo_blockSize s"
    and "\<not> fo_closed s" and "channel_ok (fo_out s)"
  using assms by (auto simp: fo_holds_def fo_rel_def fo_inv_def)

lemma flushBuffer_holds:
  assumes lib: "lib_ok lib" "lib_mono lib" and h: "fo_holds lib d0 w s"
  obtains s' where "flushBuffer lib s = (Inr (), s')" and "same_setup s s'" and "fo_holds lib d0 w s'"
    and "fo_gathered s' = []" and "bb_pos (fo_buffer s') = 0" and "bb_remaining (fo_buffer s') = fo_blockSize s"
proof -
  obtain bs where bs: "fo_rel lib d0 bs s" "concat bs @ fo_gathered s = w" using h by (auto simp: fo_holds_def)
  obtain s' where s': "flushBuffer lib s = (Inr (), s')" "same_setup s s'" "fo_gathered s' = []"
    "fo_rel lib d0 (if fo_gathered s = [] then bs else bs @ [fo_gathered s]) s'"
    using flushBuffer_rel [OF lib bs(1)] by metis
  then have h': "fo_holds lib d0 w s'" using bs(2) unfolding fo_holds_def by (cases "fo_gathered s = []") auto
  have "bb_pos (fo_buffer s') = 0" using length_bb_done [OF fo_holds_wf(1) [OF h']] s'(3) by (simp add: fo_gathered_def)
  then show thesis
    using that [OF s'(1,2) h' s'(3)] fo_holds_wf(2) [OF h'] s'(2) by (simp add: bb_remaining_def same_setup_def)
qed

lemma flush_if_full_holds:
  assumes lib: "lib_ok lib" "lib_mono lib" and h: "fo_holds lib d0 w s"
  obtains s' where "flush_if_full lib s = (Inr (), s')" and "same_setup s s'" and "fo_holds lib d0 w s'"
    and "0 < bb_remaining (fo_buffer s')"
proof (cases "bb_remaining (fo_buffer s) \<le> 0")
  case True
  obtain s' where "flushBuffer lib s = (Inr (), s')" "same_setup s s'" "fo_holds lib d0 w s'"
    "bb_remaining (fo_buffer s') = fo_blockSize s"
    using flushBuffer_holds [OF lib h] by metis
  then show thesis using that True fo_holds_wf(3) [OF h] by (simp add: flush_if_full_def getS_def)
next
  case False
  then show thesis using that [of s] h by (simp add: flush_if_full_def getS_def returnS_def)
qed

lemma put_holds:
  assumes h: "fo_holds lib d0 w s" and x: "int (length x) \<le> bb_remaining (fo_buffer s)"
    and s': "s' = s\<lparr>fo_buffer := (fo_buffer s)\<lparr>bb_data := blit (bb_data (fo_buffer s)) (bb_pos (fo_buffer s)) x,
                bb_pos := bb_pos (fo_buffer s) + int (length x)\<rparr>\<rparr>"
  shows "on_buffer (bb_put x) s = (Inr (), s')" and "same_setup s s'" and "fo_holds lib d0 (w @ x) s'"
    and "bb_remaining (fo_buffer s') = bb_remaining (fo_buffer s) - int (length x)"
proof -
  obtain bs where bs: "fo_rel lib d0 bs s" "concat bs @ fo_gathered s = w" using h by (auto simp: fo_holds_def)
  have wf: "bb_wf (fo_buffer s)" by (rule fo_holds_wf(1) [OF h])
  obtain d where d: "bb_put x (fo_buffer s) = (Inr (), (fo_buffer s)\<lparr>bb_data := d, bb_pos := bb_pos (fo_buffer s) + int (length x)\<rparr>)"
    "length d = length (bb_data (fo_buffer s))"
    "take (nat (bb_pos (fo_buffer s) + int (length x))) d = bb_done (fo_buffer s) @ x"
    "d = blit (bb_data (fo_buffer s)) (bb_pos (fo_buffer s)) x"
    using bb_put_ok [OF wf x] by metis
  show "on_buffer (bb_put x) s = (Inr (), s')" using d(1,4) s' by (simp add: on_buffer_def)
  show "same_setup s s'" by (simp add: same_setup_def s')
  show "bb_remaining (fo_buffer s') = bb_remaining (fo_buffer s) - int (length x)" by (simp add: s' bb_remaining_def)
  have "fo_inv lib s'"
    using bs(1) d(2,4) x wf by (auto simp: fo_rel_def fo_inv_def s' bb_wf_def bb_capacity_def bb_remaining_def)
  then have "fo_rel lib d0 bs s'" using bs(1) by (simp add: fo_rel_def s')
  moreover have "fo_gathered s' = fo_gathered s @ x" using d(3,4) by (simp add: fo_gathered_def bb_done_def s')
  ultimately show "fo_holds lib d0 (w @ x) s'" using bs(2) unfolding fo_holds_def by (intro exI [of _ bs]) simp
qed

section \<open>The writing methods\<close>

lemma fo_write_byte_holds:
  assumes lib: "lib_ok lib" "lib_mono lib" and h: "fo_holds lib d0 w s"
  obtains s' where "fo_write_byte lib b s = (Inr (), s')" and "same_setup s s'" and "fo_holds lib d0 (w @ [ucast b]) s'"
proof -
  obtain t where t: "flush_if_full lib s = (Inr (), t)" "same_setup s t" "fo_holds lib d0 w t"
    "0 < bb_remaining (fo_buffer t)"
    using flush_if_full_holds [OF lib h] by metis
  have x: "int (length [ucast b :: byte]) \<le> bb_remaining (fo_buffer t)" using t(4) by simp
  note p = put_holds [OF t(3) x refl]
  show thesis
    using that [OF _ same_setup_trans [OF t(2) p(2)] p(3)] t(1) p(1) fo_holds_wf(4) [OF h]
    by (simp add: fo_write_byte_def getS_def bindS_def)
qed

lemma fo_write_loop_holds:
  assumes lib: "lib_ok lib" "lib_mono lib"
  shows "fo_holds lib d0 w s \<Longrightarrow> in_range off len (length a) \<Longrightarrow>
   \<exists>s'. fo_write_loop lib a off len s = (Inr (), s') \<and> same_setup s s' \<and> fo_holds lib d0 (w @ segment off len a) s'"
proof (induction "nat len" arbitrary: off len s w rule: less_induct)
  case less
  show ?case
  proof (cases "0 < len")
    case False
    then have "len = 0" using less.prems(2) by (simp add: in_range_def)
    then show ?thesis using less.prems(1) by (simp add: fo_write_loop.simps)
  next
    case True
    obtain t where t: "flush_if_full lib s = (Inr (), t)" "same_setup s t" "fo_holds lib d0 w t"
      "0 < bb_remaining (fo_buffer t)"
      using flush_if_full_holds [OF lib less.prems(1)] by metis
    define n where "n = min len (bb_remaining (fo_buffer t))"
    have n: "0 < n" "n \<le> len" "n \<le> bb_remaining (fo_buffer t)" using True t(4) by (simp_all add: n_def)
    have r: "in_range off n (length a)" "in_range (off + n) (len - n) (length a)"
      using less.prems(2) n by (auto simp: in_range_def)
    let ?x = "segment off n a"
    have lx: "int (length ?x) = n" using length_segment [OF r(1)] n(1) by simp
    have x: "int (length ?x) \<le> bb_remaining (fo_buffer t)" using lx n(3) by simp
    define u where "u = t\<lparr>fo_buffer := (fo_buffer t)\<lparr>bb_data := blit (bb_data (fo_buffer t)) (bb_pos (fo_buffer t)) ?x,
                bb_pos := bb_pos (fo_buffer t) + int (length ?x)\<rparr>\<rparr>"
    note p = put_holds [OF t(3) x u_def]
    obtain s' where s': "fo_write_loop lib a (off + n) (len - n) u = (Inr (), s')" "same_setup u s'"
      "fo_holds lib d0 ((w @ ?x) @ segment (off + n) (len - n) a) s'"
      using less.hyps [OF _ p(3) r(2)] n by auto
    have "fo_write_loop lib a off len s = fo_write_loop lib a (off + n) (len - n) u"
      using True t(1) p(1) r(1) n(1)
      by (subst fo_write_loop.simps) (simp add: n_def [symmetric] Let_def on_buffer_def bb_put_range_def)
    moreover have "?x @ segment (off + n) (len - n) a = segment off len a"
      using segment_append_segment [of off n "len - n" a] r n by (simp add: in_range_def)
    ultimately show ?thesis
      using s' same_setup_trans [OF same_setup_trans [OF t(2) p(2)] s'(2)] by simp
  qed
qed

lemma fo_write_holds:
  assumes lib: "lib_ok lib" "lib_mono lib" and h: "fo_holds lib d0 w s"
    and r: "in_range off len (length a)" "int (length a) \<le> int_max"
  obtains s' where "fo_write lib (Some a) off len s = (Inr (), s')" and "same_setup s s'"
    and "fo_holds lib d0 (w @ segment off len a) s'"
proof -
  have "i32 (off + len) = off + len" using r by (simp add: i32_id is_i32_def in_range_def int_max_def)
  then have "fo_write lib (Some a) off len s = fo_write_loop lib a off len s"
    using r fo_holds_wf(4) [OF h] by (auto simp: fo_write_def getS_def in_range_def)
  then show thesis using fo_write_loop_holds [OF lib h r(1)] that by auto
qed

section \<open>Writing a buffer\<close>

lemma put_src_holds:
  assumes h: "fo_holds lib d0 w s" and src: "bb_wf src" "bb_remaining src \<le> bb_remaining (fo_buffer s)"
  obtains u where "put_src (src, s) = (Inr (), (src\<lparr>bb_pos := bb_limit src\<rparr>, u))" and "same_setup s u"
    and "fo_holds lib d0 (w @ bb_window src) u"
    and "bb_remaining (fo_buffer u) = bb_remaining (fo_buffer s) - bb_remaining src"
proof -
  have x: "int (length (bb_window src)) \<le> bb_remaining (fo_buffer s)" using length_bb_window [OF src(1)] src(2) by simp
  define u where "u = s\<lparr>fo_buffer := (fo_buffer s)\<lparr>bb_data := blit (bb_data (fo_buffer s)) (bb_pos (fo_buffer s)) (bb_window src),
                bb_pos := bb_pos (fo_buffer s) + int (length (bb_window src))\<rparr>\<rparr>"
  note p = put_holds [OF h x u_def]
  have "put_src (src, s) = (Inr (), (src\<lparr>bb_pos := bb_limit src\<rparr>, u))"
    using x by (simp add: put_src_def bb_put_buffer_def bb_put_def u_def)
  then show thesis using that p(2-4) length_bb_window [OF src(1)] by simp
qed

lemma fill_and_flush_holds:
  assumes lib: "lib_ok lib" "lib_mono lib" and h: "fo_holds lib d0 w s"
    and n: "n = bb_remaining (fo_buffer s)" "0 \<le> n" and src: "0 \<le> bb_pos src" "bb_pos src + n \<le> bb_capacity src"
  obtains s' where "fill_and_flush lib (src, s) = (Inr (), (src\<lparr>bb_limit := bb_pos src + n, bb_pos := bb_pos src + n\<rparr>, s'))"
    and "same_setup s s'" and "fo_holds lib d0 (w @ segment (bb_pos src) n (bb_data src)) s'"
    and "bb_remaining (fo_buffer s') = fo_blockSize s"
proof -
  define t where "t = src\<lparr>bb_limit := bb_pos src + n\<rparr>"
  have l: "src_limit (bb_pos src + n) (src, s) = (Inr (), (t, s))"
    using src n by (cases src) (simp add: src_limit_def bb_set_limit_def t_def bb_capacity_def)
  have t: "bb_wf t" "bb_remaining t \<le> bb_remaining (fo_buffer s)" "bb_remaining t = n" "bb_pos t = bb_pos src" "bb_data t = bb_data src"
    using src n by (simp_all add: t_def bb_wf_def bb_remaining_def bb_capacity_def)
  obtain u where u: "put_src (t, s) = (Inr (), (t\<lparr>bb_pos := bb_limit t\<rparr>, u))" "same_setup s u"
    "fo_holds lib d0 (w @ bb_window t) u"
    using put_src_holds [OF h t(1,2)] by metis
  obtain s' where s': "flushBuffer lib u = (Inr (), s')" "same_setup u s'" "fo_holds lib d0 (w @ bb_window t) s'"
    "bb_remaining (fo_buffer s') = fo_blockSize u"
    using flushBuffer_holds [OF lib u(3)] by metis
  have "fill_and_flush lib (src, s) = (Inr (), (t\<lparr>bb_pos := bb_limit t\<rparr>, s'))"
    using l u(1) s'(1) n(1) by (simp add: fill_and_flush_def getS_def bindS_def on_stream_def)
  then show thesis
    using that [OF _ same_setup_trans [OF u(2) s'(2)]] s'(3,4) t u(2) by (simp add: bb_window_def t_def same_setup_def)
qed

lemma src_loop_holds:
  assumes lib: "lib_ok lib" "lib_mono lib"
  shows "fo_holds lib d0 w s \<Longrightarrow> 0 < bb_remaining (fo_buffer s) \<Longrightarrow> 0 \<le> bb_pos src \<Longrightarrow> bb_pos src \<le> e \<Longrightarrow>
    e \<le> bb_capacity src \<Longrightarrow>
    \<exists>src' s'. src_loop lib e (src, s) = (Inr (), (src', s')) \<and> same_setup s s' \<and> bb_data src' = bb_data src
      \<and> bb_direct src' = bb_direct src
      \<and> bb_pos src \<le> bb_pos src' \<and> bb_pos src' \<le> e \<and> e < bb_pos src' + bb_remaining (fo_buffer s')
      \<and> fo_holds lib d0 (w @ segment (bb_pos src) (bb_pos src' - bb_pos src) (bb_data src)) s'"
proof (induction "nat (e - bb_pos src)" arbitrary: src s w rule: less_induct)
  case less
  let ?p = "bb_pos src" and ?n = "bb_remaining (fo_buffer s)"
  show ?case
  proof (cases "?p + ?n \<le> e")
    case False
    then show ?thesis using less.prems by (intro exI [of _ src] exI [of _ s]) (simp add: src_loop.simps)
  next
    case True
    let ?t = "src\<lparr>bb_limit := ?p + ?n, bb_pos := ?p + ?n\<rparr>"
    have n0: "0 \<le> ?n" and pc: "?p + ?n \<le> bb_capacity src" using less.prems True by simp_all
    obtain u where u: "fill_and_flush lib (src, s) = (Inr (), (?t, u))" "same_setup s u"
      "fo_holds lib d0 (w @ segment ?p ?n (bb_data src)) u" "bb_remaining (fo_buffer u) = fo_blockSize s"
      using fill_and_flush_holds [OF lib less.prems(1) refl n0 less.prems(3) pc] by metis
    have "\<exists>src' s'. src_loop lib e (?t, u) = (Inr (), (src', s')) \<and> same_setup u s' \<and> bb_data src' = bb_data ?t
      \<and> bb_direct src' = bb_direct ?t
      \<and> bb_pos ?t \<le> bb_pos src' \<and> bb_pos src' \<le> e \<and> e < bb_pos src' + bb_remaining (fo_buffer s')
      \<and> fo_holds lib d0 ((w @ segment ?p ?n (bb_data src)) @ segment (bb_pos ?t) (bb_pos src' - bb_pos ?t) (bb_data ?t)) s'"
      by (rule less.hyps) (use less.prems True u fo_holds_wf(3) [OF less.prems(1)] in \<open>simp_all add: bb_capacity_def\<close>)
    then obtain src' s' where s': "src_loop lib e (?t, u) = (Inr (), (src', s'))" "same_setup u s'"
      "bb_data src' = bb_data src" "bb_direct src' = bb_direct src" "?p + ?n \<le> bb_pos src'" "bb_pos src' \<le> e"
      "e < bb_pos src' + bb_remaining (fo_buffer s')"
      "fo_holds lib d0 ((w @ segment ?p ?n (bb_data src)) @ segment (?p + ?n) (bb_pos src' - (?p + ?n)) (bb_data src)) s'"
      by auto
    have "src_loop lib e (src, s) = src_loop lib e (?t, u)"
      using True u(1) less.prems by (subst src_loop.simps) simp
    moreover have "segment ?p ?n (bb_data src) @ segment (?p + ?n) (bb_pos src' - (?p + ?n)) (bb_data src)
        = segment ?p (bb_pos src' - ?p) (bb_data src)"
      using segment_append_segment [of ?p ?n "bb_pos src' - (?p + ?n)" "bb_data src"] less.prems n0 s'(5) by simp
    ultimately show ?thesis
      using s' same_setup_trans [OF u(2) s'(2)] less.prems(2) by (intro exI [of _ src'] exI [of _ s']) simp
  qed
qed

lemma fo_write_buffer_holds:
  assumes lib: "lib_ok lib" "lib_mono lib" and h: "fo_holds lib d0 w s" and src: "bb_wf src"
  obtains s' where "fo_write_buffer lib (src, s) = (Inr (bb_remaining src), (src\<lparr>bb_pos := bb_limit src\<rparr>, s'))"
    and "same_setup s s'" and "fo_holds lib d0 (w @ bb_window src) s'"
proof -
  obtain t where t: "flush_if_full lib s = (Inr (), t)" "same_setup s t" "fo_holds lib d0 w t"
    "0 < bb_remaining (fo_buffer t)"
    using flush_if_full_holds [OF lib h] by metis
  let ?e = "bb_limit src" and ?p = "bb_pos src"
  have open': "\<not> fo_closed s" by (rule fo_holds_wf(4) [OF h])
  show thesis
  proof (cases "bb_remaining src \<le> bb_remaining (fo_buffer t)")
    case True
    obtain u where u: "put_src (src, t) = (Inr (), (src\<lparr>bb_pos := bb_limit src\<rparr>, u))" "same_setup t u"
      "fo_holds lib d0 (w @ bb_window src) u"
      using put_src_holds [OF t(3) src True] by metis
    show thesis
      using that [OF _ same_setup_trans [OF t(2) u(2)] u(3)] open' t(1) u(1) True
      by (simp add: fo_write_buffer_def getS_def bindS_def on_stream_def returnS_def Let_def)
  next
    case False
    have b: "0 \<le> ?p" "?p \<le> ?e" "?e \<le> bb_capacity src" using src by (simp_all add: bb_wf_def)
    obtain src' u where u: "src_loop lib ?e (src, t) = (Inr (), (src', u))" "same_setup t u" "bb_data src' = bb_data src"
      "bb_direct src' = bb_direct src" "?p \<le> bb_pos src'" "bb_pos src' \<le> ?e" "?e < bb_pos src' + bb_remaining (fo_buffer u)"
      "fo_holds lib d0 (w @ segment ?p (bb_pos src' - ?p) (bb_data src)) u"
      using src_loop_holds [OF lib t(3,4) b] by metis
    define v where "v = src'\<lparr>bb_limit := ?e\<rparr>"
    have l: "src_limit ?e (src', u) = (Inr (), (v, u))"
      using b u by (cases src') (simp add: src_limit_def bb_set_limit_def v_def bb_capacity_def)
    have v: "bb_wf v" "bb_remaining v \<le> bb_remaining (fo_buffer u)" "v\<lparr>bb_pos := bb_limit v\<rparr> = src\<lparr>bb_pos := ?e\<rparr>"
      "bb_window v = segment (bb_pos src') (?e - bb_pos src') (bb_data src)"
      using b u by (simp_all add: v_def bb_wf_def bb_capacity_def bb_remaining_def bb_window_def)
    obtain x where x: "put_src (v, u) = (Inr (), (v\<lparr>bb_pos := bb_limit v\<rparr>, x))" "same_setup u x"
      "fo_holds lib d0 ((w @ segment ?p (bb_pos src' - ?p) (bb_data src)) @ bb_window v) x"
      using put_src_holds [OF u(8) v(1,2)] by metis
    have "segment ?p (bb_pos src' - ?p) (bb_data src) @ bb_window v = bb_window src"
      unfolding v(4)
      using segment_append_segment [of ?p "bb_pos src' - ?p" "?e - bb_pos src'" "bb_data src"] b u(5,6)
      by (simp add: bb_window_def bb_remaining_def)
    then have x': "fo_holds lib d0 (w @ bb_window src) x" using x(3) by simp
    have e: "?p + bb_remaining src = ?e" by (simp add: bb_remaining_def)
    show thesis
      using that [OF _ same_setup_trans [OF t(2) same_setup_trans [OF u(2) x(2)]] x'] open' t(1) u(1) l x(1) False
      by (simp add: fo_write_buffer_def getS_def bindS_def on_stream_def returnS_def Let_def e v(3))
  qed
qed

section \<open>transferFrom\<close>

lemma flush_if_zero_holds:
  assumes lib: "lib_ok lib" "lib_mono lib" and h: "fo_holds lib d0 w s"
  obtains s' where "flush_if_zero lib s = (Inr (), s')" and "same_setup s s'" and "fo_holds lib d0 w s'"
    and "0 < bb_remaining (fo_buffer s')"
proof (cases "bb_remaining (fo_buffer s) = 0")
  case True
  obtain s' where "flushBuffer lib s = (Inr (), s')" "same_setup s s'" "fo_holds lib d0 w s'"
    "bb_remaining (fo_buffer s') = fo_blockSize s"
    using flushBuffer_holds [OF lib h] by metis
  then show thesis using that True fo_holds_wf(3) [OF h] by (simp add: flush_if_zero_def getS_def)
next
  case False
  then have "0 < bb_remaining (fo_buffer s)" using bb_remaining_nonneg [OF fo_holds_wf(1) [OF h]] by simp
  then show thesis using that [of s] h False by (simp add: flush_if_zero_def getS_def returnS_def)
qed

lemma transfer_loop_holds:
  assumes lib: "lib_ok lib" "lib_mono lib"
  shows "fo_holds lib d0 w s \<Longrightarrow> 0 < bb_remaining (fo_buffer s) \<Longrightarrow>
    \<exists>src' s'. transfer_loop lib n (src, s) = (Inr (n + int (length (src_data src))), (src', s'))
      \<and> same_setup s s' \<and> src_data src' = [] \<and> fo_holds lib d0 (w @ src_data src) s'"
proof (induction "length (src_data src)" arbitrary: src s w n rule: less_induct)
  case less
  let ?b = "fo_buffer s"
  obtain x src1 where r: "source_read (bb_remaining ?b) src = (x, src1)" by fastforce
  show ?case
  proof (cases x)
    case None
    then have "src_data src = []" "src_data src1 = []" using source_read_None [of "bb_remaining ?b" src src1] r by auto
    moreover have "s\<lparr>fo_buffer := ?b\<rparr> = s" by (cases s) simp
    ultimately show ?thesis
      using less.prems None r by (subst transfer_loop.simps) (simp add: read_into_buffer_def channel_read_def)
  next
    case (Some bs)
    have b: "bs \<noteq> []" "int (length bs) \<le> bb_remaining ?b" "src_data src = bs @ src_data src1"
      using source_read_Some [of "bb_remaining ?b" src bs src1] r Some less.prems(2) by auto
    define t where "t = s\<lparr>fo_buffer := ?b\<lparr>bb_data := blit (bb_data ?b) (bb_pos ?b) bs, bb_pos := bb_pos ?b + int (length bs)\<rparr>\<rparr>"
    note p = put_holds [OF less.prems(1) b(2) t_def]
    have ri: "read_into_buffer (src, s) = (int (length bs), (src1, t))"
      using r Some by (simp add: read_into_buffer_def channel_read_def t_def)
    obtain u where u: "flush_if_zero lib t = (Inr (), u)" "same_setup t u" "fo_holds lib d0 (w @ bs) u"
      "0 < bb_remaining (fo_buffer u)"
      using flush_if_zero_holds [OF lib p(3)] by metis
    have l: "length (src_data src1) < length (src_data src)" using b by (cases bs) simp_all
    obtain src' s' where s': "transfer_loop lib (n + int (length bs)) (src1, u)
        = (Inr (n + int (length bs) + int (length (src_data src1))), (src', s'))"
      "same_setup u s'" "src_data src' = []" "fo_holds lib d0 ((w @ bs) @ src_data src1) s'"
      using less.hyps [OF l u(3,4)] by blast
    have "transfer_loop lib n (src, s) = transfer_loop lib (n + int (length bs)) (src1, u)"
      using ri u(1) b(1) by (subst transfer_loop.simps) simp
    then show ?thesis
      using s' b(3) same_setup_trans [OF same_setup_trans [OF p(2) u(2)] s'(2)] by (simp add: add.assoc)
  qed
qed

lemma transferFrom_holds:
  assumes lib: "lib_ok lib" "lib_mono lib" and h: "fo_holds lib d0 w s"
  obtains src' s' where "transferFrom lib (src, s) = (Inr (int (length (src_data src))), (src', s'))"
    and "same_setup s s'" and "src_data src' = []" and "fo_holds lib d0 (w @ src_data src) s'"
proof -
  obtain t where t: "flush_if_zero lib s = (Inr (), t)" "same_setup s t" "fo_holds lib d0 w t"
    "0 < bb_remaining (fo_buffer t)"
    using flush_if_zero_holds [OF lib h] by metis
  show thesis
    using transfer_loop_holds [OF lib t(3,4), of 0 src] t(1,2) that fo_holds_wf(4) [OF h] same_setup_trans
    by (auto simp: transferFrom_def)
qed

section \<open>Creation and closing\<close>

text \<open>
  What the frame format relies on: the sizes of compressed data of up to 16 MiB, the room for a compressed
  block in a frame, and that compressed data is never empty.
\<close>

definition frame_lib :: "snappy_lib \<Rightarrow> bool" where
  "frame_lib lib \<longleftrightarrow> lib_ok lib \<and> lib_mono lib \<and>
     (\<forall>n. n \<le> 2 ^ 24 \<longrightarrow> n \<le> max_compressed lib n \<and> int (max_compressed lib n) \<le> int_max) \<and>
     max_compressed lib 65536 + 4 < 2 ^ 24 \<and> parse_length lib [] = None"

lemma frame_lib_parts:
  assumes "frame_lib lib"
  shows "lib_ok lib" and "lib_mono lib" and "lib_roundtrip lib"
  using assms by (simp_all add: frame_lib_def lib_ok_def)

lemma frame_lib_bound:
  assumes "frame_lib lib" and "0 \<le> n" and "n \<le> 2 ^ 24"
  shows "s_maxCompressedLength lib n = int (max_compressed lib (nat n))"
    and "n \<le> s_maxCompressedLength lib n" and "s_maxCompressedLength lib n \<le> int_max"
proof -
  have "nat n \<le> 2 ^ 24" using assms(3) by (simp add: nat_le_iff)
  then have m: "nat n \<le> max_compressed lib (nat n)" "int (max_compressed lib (nat n)) \<le> int_max"
    using assms(1) by (simp_all add: frame_lib_def)
  show e: "s_maxCompressedLength lib n = int (max_compressed lib (nat n))"
    using maxCompressedLength_nat [of "nat n" lib] m(2) assms(2,3) by (simp add: int_max_def)
  show "n \<le> s_maxCompressedLength lib n" "s_maxCompressedLength lib n \<le> int_max" using m unfolding e by linarith+
qed

lemma length_HEADER_BYTES [simp]: "length HEADER_BYTES = 10"
  by (simp add: HEADER_BYTES_def)

lemma new_framed_holds:
  assumes lib: "frame_lib lib" and out: "channel_ok out" and bs: "0 < bs" "bs \<le> 65536"
    and r: "in_unit_range r" and pool: "good_pool pool"
  obtains s where "new_SnappyFramedOutputStream lib out bs r pool = Inr s" and "fo_blockSize s = bs"
    and "minCompressionRatio s = r" and "ch_open (fo_out s) = ch_open out"
    and "fo_holds lib (ch_data out @ HEADER_BYTES) [] s"
proof -
  let ?m = "s_maxCompressedLength lib bs"
  have bi: "bs \<le> int_max" using bs by (simp add: int_max_def)
  have m: "?m = int (max_compressed lib (nat bs))" "0 < ?m" "?m \<le> int_max"
    using frame_lib_bound [OF lib, of bs] bs by simp_all
  obtain a p1 where a: "allocateArray bs pool = (Inr a, p1)" "arr_len a = pool_size pool bs" "good_pool p1"
    "pool_size p1 = pool_size pool"
    using allocateArray_served [OF bs(1) bi pool] by blast
  obtain d p2 where d: "allocateDirect bs p1 = (Inr d, p2)" "bb_whole d" "bb_capacity d = pool_size pool bs"
    "good_pool p2" "pool_size p2 = pool_size pool"
    using allocateDirect_served [OF bs(1) bi a(3)] a(4) by auto
  obtain u p3 where u: "allocateDirect ?m p2 = (Inr u, p3)" "bb_whole u" "bb_capacity u = pool_size pool ?m"
    using allocateDirect_served [OF m(2,3) d(4)] d(5) by auto
  have al: "bs \<le> pool_size pool bs" "pool_size pool bs \<le> int_max" using pool_size_ge [OF bs(1) bi] by simp_all
  have ul: "?m \<le> pool_size pool ?m" "pool_size pool ?m \<le> int_max" using pool_size_ge [OF m(2,3)] by simp_all
  define b where "b = \<lparr>bb_data = a, bb_pos = 0, bb_limit = bs, bb_direct = False\<rparr>"
  have wb: "bb_wrap a 0 bs = Inr b" using a(2) al bs by (simp add: bb_wrap_def in_range_def b_def arr_len_def)
  define h where "h = \<lparr>bb_data = HEADER_BYTES, bb_pos = 0, bb_limit = 10, bb_direct = False\<rparr>"
  have h: "bb_wrap HEADER_BYTES 0 (int (length HEADER_BYTES)) = Inr h" "bb_wf h" "bb_window h = HEADER_BYTES"
    by (simp_all add: bb_wrap_def in_range_def h_def bb_wf_def bb_capacity_def bb_window_def bb_remaining_def)
  obtain c where c: "channel_write h out = (Inr (h\<lparr>bb_pos := bb_limit h\<rparr>), c)" "channel_ok c"
    "ch_data c = ch_data out @ HEADER_BYTES" "ch_open c = ch_open out"
    using channel_write_ok [OF out h(2)] h(3) by metis
  define s where "s = \<lparr>crc32 = new_crc,
                headerBuffer = \<lparr>bb_data = replicate 8 0, bb_pos = 0, bb_limit = 8, bb_direct = False\<rparr>,
                fo_pool = p3, fo_blockSize = bs, fo_buffer = b, directInputBuffer = d,
                fo_outputBuffer = u, minCompressionRatio = r, fo_out = c, fo_closed = False\<rparr>"
  have n: "new_SnappyFramedOutputStream lib out bs r pool = Inr s"
    using r bs a(1) wb d(1) u(1) h(1) c(1)
    by (simp add: new_SnappyFramedOutputStream_def FRAMED_MAX_BLOCK_SIZE_def s_def del: length_HEADER_BYTES)
  have "fo_inv lib s"
    using bs a(2) al d(2,3) u(2,3) ul m(1) c(2)
    by (simp add: fo_inv_def s_def b_def bb_wf_def bb_capacity_def bb_whole_def arr_len_def)
  then have "fo_rel lib (ch_data out @ HEADER_BYTES) [] s" using c(3) by (simp add: fo_rel_def s_def)
  moreover have "fo_gathered s = []" by (simp add: fo_gathered_def bb_done_def s_def b_def)
  ultimately have "fo_holds lib (ch_data out @ HEADER_BYTES) [] s" unfolding fo_holds_def by (intro exI [of _ "[]"]) simp
  then show thesis using that [OF n] c(4) by (simp add: s_def)
qed

lemma fo_close_holds:
  assumes lib: "lib_ok lib" "lib_mono lib" and h: "fo_holds lib d0 w s"
  obtains s' bs where "fo_close lib s = (Inr (), s')" and "fo_closed s'" and "\<not> ch_open (fo_out s')"
    and "ch_data (fo_out s') = d0 @ concat (map (data_frame lib (minCompressionRatio s)) bs)" and "concat bs = w"
    and "list_all (\<lambda>b. b \<noteq> [] \<and> int (length b) \<le> fo_blockSize s) bs"
proof -
  obtain t where t: "flushBuffer lib s = (Inr (), t)" "same_setup s t" "fo_holds lib d0 w t" "fo_gathered t = []"
    using flushBuffer_holds [OF lib h] by metis
  obtain bs where bs: "fo_rel lib d0 bs t" "concat bs = w" using t(3,4) by (auto simp: fo_holds_def)
  have c: "channel_ok (fo_out t)" by (rule fo_holds_wf(5) [OF t(3)])
  show thesis
    by (rule that [of "fo_release (t\<lparr>fo_out := (fo_out t)\<lparr>ch_calls := Suc (ch_calls (fo_out t)), ch_open := False\<rparr>\<rparr>)" bs])
      (use t bs fo_holds_wf(4) [OF h] channel_close_ok [OF c] in
        \<open>simp_all add: fo_close_def fo_flush_def getS_def finallyS_def bindS_def on_channel_def fo_release_def
          fo_rel_def same_setup_def\<close>)
qed

section \<open>Sessions\<close>

text \<open>The calls of a writer and the bytes they write.\<close>

datatype framed_write = FWrite bytes int int | FByte jint | FBuffer byte_buffer | FTransfer source | FFlush

fun fo_do :: "snappy_lib \<Rightarrow> framed_write \<Rightarrow> unit fos" where
  "fo_do lib (FWrite a off len) s = fo_write lib (Some a) off len s"
| "fo_do lib (FByte b) s = fo_write_byte lib b s"
| "fo_do lib (FBuffer src) s = (case fo_write_buffer lib (src, s) of (Inl e, (_, s')) \<Rightarrow> (Inl e, s') | (Inr _, (_, s')) \<Rightarrow> (Inr (), s'))"
| "fo_do lib (FTransfer src) s = (case transferFrom lib (src, s) of (Inl e, (_, s')) \<Rightarrow> (Inl e, s') | (Inr _, (_, s')) \<Rightarrow> (Inr (), s'))"
| "fo_do lib FFlush s = fo_flush lib s"

fun fo_run :: "snappy_lib \<Rightarrow> framed_write list \<Rightarrow> unit fos" where
  "fo_run lib [] = returnS ()"
| "fo_run lib (c # cs) = bindS (fo_do lib c) (\<lambda>_. fo_run lib cs)"

fun written :: "framed_write \<Rightarrow> bytes" where
  "written (FWrite a off len) = segment off len a"
| "written (FByte b) = [ucast b]"
| "written (FBuffer src) = bb_window src"
| "written (FTransfer src) = src_data src"
| "written FFlush = []"

fun proper_write :: "framed_write \<Rightarrow> bool" where
  "proper_write (FWrite a off len) \<longleftrightarrow> in_range off len (length a) \<and> int (length a) \<le> int_max"
| "proper_write (FBuffer src) \<longleftrightarrow> bb_wf src"
| "proper_write _ \<longleftrightarrow> True"

lemma fo_do_holds:
  assumes lib: "lib_ok lib" "lib_mono lib" and h: "fo_holds lib d0 w s" and c: "proper_write c"
  shows "\<exists>s'. fo_do lib c s = (Inr (), s') \<and> same_setup s s' \<and> fo_holds lib d0 (w @ written c) s'"
proof (cases c)
  case (FWrite a off len)
  then show ?thesis using fo_write_holds [OF lib h, of off len a] c by (metis fo_do.simps(1) proper_write.simps(1) written.simps(1))
next
  case (FByte b)
  then show ?thesis using fo_write_byte_holds [OF lib h, of b] by (metis fo_do.simps(2) written.simps(2))
next
  case (FBuffer src)
  then obtain s' where "fo_write_buffer lib (src, s) = (Inr (bb_remaining src), (src\<lparr>bb_pos := bb_limit src\<rparr>, s'))"
    "same_setup s s'" "fo_holds lib d0 (w @ bb_window src) s'"
    using fo_write_buffer_holds [OF lib h, of src] c by (metis proper_write.simps(2))
  then show ?thesis using FBuffer by simp
next
  case (FTransfer src)
  obtain src' s' where "transferFrom lib (src, s) = (Inr (int (length (src_data src))), (src', s'))"
    "same_setup s s'" "fo_holds lib d0 (w @ src_data src) s'"
    using transferFrom_holds [OF lib h, of src] by metis
  then show ?thesis using FTransfer by simp
next
  case FFlush
  obtain s' where "flushBuffer lib s = (Inr (), s')" "same_setup s s'" "fo_holds lib d0 w s'"
    using flushBuffer_holds [OF lib h] by metis
  then show ?thesis using FFlush fo_holds_wf(4) [OF h] by (simp add: fo_flush_def getS_def)
qed

lemma fo_run_holds:
  assumes lib: "lib_ok lib" "lib_mono lib"
  shows "fo_holds lib d0 w s \<Longrightarrow> list_all proper_write cs \<Longrightarrow>
   \<exists>s'. fo_run lib cs s = (Inr (), s') \<and> same_setup s s' \<and> fo_holds lib d0 (w @ concat (map written cs)) s'"
proof (induction cs arbitrary: w s)
  case (Cons c cs)
  then obtain t where t: "fo_do lib c s = (Inr (), t)" "same_setup s t" "fo_holds lib d0 (w @ written c) t"
    using fo_do_holds [OF lib Cons.prems(1), of c] by auto
  then show ?case using Cons.IH [OF t(3)] Cons.prems(2) same_setup_trans [OF t(2)] by (auto simp: bindS_def)
qed (simp add: returnS_def)

lemma framed_session:
  assumes lib: "frame_lib lib" and out: "channel_ok out" "ch_data out = []" and bs: "0 < bs" "bs \<le> 65536"
    and r: "in_unit_range r" and pool: "good_pool pool" and cs: "list_all proper_write cs"
  obtains s0 s' blocks where "new_SnappyFramedOutputStream lib out bs r pool = Inr s0"
    and "bindS (fo_run lib cs) (\<lambda>_. fo_close lib) s0 = (Inr (), s')" and "\<not> ch_open (fo_out s')"
    and "ch_data (fo_out s') = HEADER_BYTES @ concat (map (data_frame lib r) blocks)"
    and "concat blocks = concat (map written cs)"
    and "list_all (\<lambda>b. b \<noteq> [] \<and> int (length b) \<le> bs) blocks"
proof -
  note l = frame_lib_parts [OF lib]
  obtain s where s: "new_SnappyFramedOutputStream lib out bs r pool = Inr s" "fo_blockSize s = bs"
    "minCompressionRatio s = r" "fo_holds lib HEADER_BYTES [] s"
    using new_framed_holds [OF lib out(1) bs r pool] out(2) by (metis append_Nil)
  obtain t where t: "fo_run lib cs s = (Inr (), t)" "same_setup s t" "fo_holds lib HEADER_BYTES (concat (map written cs)) t"
    using fo_run_holds [OF l(1,2) s(4) cs] by auto
  obtain u blocks where u: "fo_close lib t = (Inr (), u)" "fo_closed u" "\<not> ch_open (fo_out u)"
    "ch_data (fo_out u) = HEADER_BYTES @ concat (map (data_frame lib (minCompressionRatio t)) blocks)"
    "concat blocks = concat (map written cs)" "list_all (\<lambda>b. b \<noteq> [] \<and> int (length b) \<le> fo_blockSize t) blocks"
    by (rule fo_close_holds [OF l(1,2) t(3)])
  have "bindS (fo_run lib cs) (\<lambda>_. fo_close lib) s = (Inr (), u)" by (simp add: bindS_def t(1) u(1))
  moreover have "minCompressionRatio t = r" "fo_blockSize t = bs" using t(2) s(2,3) by (simp_all add: same_setup_def)
  ultimately show thesis using that [OF s(1)] u(3-6) by blast
qed

end
