(* ===== verification/Framed_Input_Proofs.thy ===== *)
theory Framed_Input_Proofs
  imports Framed_Input Framed_Output_Proofs Snappy_Input_Proofs "HOL-Library.Sublist"
begin

text \<open>
  The input stream against its abstract specification. \<open>next_chunk\<close> takes the next chunk off the bytes
  of a framed stream, \<open>decode_stream\<close> decodes all of them; \<open>ensure_step\<close> and \<open>ensureBuffer\<close> implement the
  two, whatever portions the channel delivers, and keep the invariant \<open>fi_inv\<close> of the buffers.
\<close>

section \<open>The specification\<close>

text \<open>
  The header of a chunk as the framing format has it, written without the code's reader of it: the type
  is one byte, the length of the rest three bytes, the lowest first. Type 0x00 is compressed data and 0x01
  uncompressed data, which start with a checksum of four bytes and are not empty; 0x02 to 0x7f are reserved
  and may not be skipped; 0x80 to 0xfe may be skipped, whatever their length; 0xff is a further stream
  identifier, which has six bytes.
\<close>

definition chunk_header :: "bytes \<Rightarrow> (FrameAction \<times> int) result" where
  "chunk_header h =
     (case h of
        [t, a, b, c] \<Rightarrow>
          (let n = uint a + 256 * uint b + 65536 * uint c in
           if t = 0x00 then if 5 \<le> n then Inr (UNCOMPRESS, n) else Inl (IOException ''invalid length'')
           else if t = 0x01 then if 5 \<le> n then Inr (RAW, n) else Inl (IOException ''invalid length'')
           else if t < 0x80 then Inl (IOException ''unsupported unskippable chunk'')
           else if t < 0xff then Inr (SKIP, n)
           else if n = 6 then Inr (SKIP, 6) else Inl (IOException ''stream identifier chunk with invalid length''))
      | _ \<Rightarrow> Inl EOFException)"

definition unpack_spec :: "snappy_lib \<Rightarrow> bool \<Rightarrow> FrameAction \<Rightarrow> bytes \<Rightarrow> bytes result" where
  "unpack_spec lib verify action body =
     bindE
       (if action = UNCOMPRESS then
          (case parse_length lib (drop 4 body) of
             None \<Rightarrow> Inl (throw_error 2)
           | Some _ \<Rightarrow> (case uncompress_raw lib (drop 4 body) of (ok, y) \<Rightarrow> if ok then Inr y else Inl (throw_error 5)))
        else Inr (drop 4 body))
       (\<lambda>y. if verify \<and> le_int (take 4 body) \<noteq> masked_crc y
            then Inl (IOException ''Corrupt input: invalid checksum'') else Inr y)"

datatype chunk = Data bytes | Pass | Finish | Broken exc

definition next_chunk :: "snappy_lib \<Rightarrow> bool \<Rightarrow> bytes \<Rightarrow> chunk \<times> bytes" where
  "next_chunk lib verify d =
     (if d = [] then (Finish, [])
      else if length d < 4 then (Broken EOFException, [])
      else
        (case chunk_header (take 4 d) of
           Inl e \<Rightarrow> (Broken e, drop 4 d)
         | Inr (action, n) \<Rightarrow>
             if action = SKIP then (Pass, drop (4 + nat n) d)
             else if length d < 4 + nat n then (Broken EOFException, [])
             else
               (case unpack_spec lib verify action (take (nat n) (drop 4 d)) of
                  Inl e \<Rightarrow> (Broken e, drop (4 + nat n) d)
                | Inr y \<Rightarrow> (Data y, drop (4 + nat n) d))))"

lemma unpack_spec_unverified: "unpack_spec lib verify action body = Inr y \<Longrightarrow> unpack_spec lib False action body = Inr y"
  by (auto simp: unpack_spec_def bindE_Inr_iff split: if_splits)

lemma next_chunk_unverified: "next_chunk lib verify d = (Data y, d') \<Longrightarrow> next_chunk lib False d = (Data y, d')"
  by (auto simp: next_chunk_def dest: unpack_spec_unverified split: if_splits sum.splits prod.splits)

lemma next_chunk_shorter: "next_chunk lib verify d = (c, d') \<Longrightarrow> c \<noteq> Finish \<Longrightarrow> length d' < length d"
  by (auto simp: next_chunk_def split: if_splits sum.splits prod.splits)

text \<open>The contents of the chunks, and how the stream ends: \<open>None\<close> is a regular end.\<close>

function decode_stream :: "snappy_lib \<Rightarrow> bool \<Rightarrow> bytes \<Rightarrow> bytes list \<times> exc option" where
  "decode_stream lib verify d =
     (case next_chunk lib verify d of
        (c, d') \<Rightarrow>
          (case c of
             Data y \<Rightarrow> (case decode_stream lib verify d' of (ys, r) \<Rightarrow> (y # ys, r))
           | Pass \<Rightarrow> decode_stream lib verify d'
           | Finish \<Rightarrow> ([], None)
           | Broken e \<Rightarrow> ([], Some e)))"
  by pat_completeness auto
termination
  by (relation "measure (\<lambda>(lib, v, d). length d)") (auto dest: next_chunk_shorter [OF sym])

declare decode_stream.simps [simp del]

text \<open>No compressed chunk of the stream claims more bytes than an \<open>int\<close> can count.\<close>

definition modest_chunk :: "snappy_lib \<Rightarrow> bytes \<Rightarrow> bool" where
  "modest_chunk lib d =
     (4 \<le> length d \<longrightarrow>
      (case chunk_header (take 4 d) of
        Inl _ \<Rightarrow> True
      | Inr (action, n) \<Rightarrow>
          action = UNCOMPRESS \<longrightarrow>
            (case parse_length lib (drop 4 (take (nat n) (drop 4 d))) of None \<Rightarrow> True | Some m \<Rightarrow> int m \<le> int_max)))"

function modest :: "snappy_lib \<Rightarrow> bool \<Rightarrow> bytes \<Rightarrow> bool" where
  "modest lib verify d =
     (modest_chunk lib d \<and>
      (case next_chunk lib verify d of
         (c, d') \<Rightarrow> (case c of Data _ \<Rightarrow> modest lib verify d' | Pass \<Rightarrow> modest lib verify d' | Finish \<Rightarrow> True | Broken _ \<Rightarrow> True)))"
  by pat_completeness auto
termination
  by (relation "measure (\<lambda>(lib, v, d). length d)") (auto dest: next_chunk_shorter [OF sym])

declare modest.simps [simp del]

section \<open>The code reads headers as the format has them\<close>

text \<open>Disjoint bytes of an integer add up.\<close>

lemma or_push_add:
  assumes "0 \<le> x" and "x < (2 :: int) ^ k"
  shows "x OR push_bit k y = x + y * 2 ^ k"
proof -
  have "take_bit k x = x" using assms by (simp add: take_bit_int_eq_self)
  then have "\<not> bit x n \<or> \<not> bit (push_bit k y) n" for n
    by (metis bit_push_bit_iff bit_take_bit_iff not_le)
  then show ?thesis by (simp add: push_bit_eq_mult flip: disjunctive_add)
qed

lemma three_bytes: "uint (a :: byte) OR push_bit 8 (uint (b :: byte)) OR push_bit 16 (uint (c :: byte))
    = uint a + uint b * 2 ^ 8 + uint c * 2 ^ 16"
proof -
  have l: "uint a < 2 ^ 8" "uint b < 2 ^ 8" using uint_lt2p [of a] uint_lt2p [of b] by simp_all
  have "push_bit 8 (uint b) OR push_bit 16 (uint c) = push_bit 8 (uint b OR push_bit 8 (uint c))"
    by (simp add: push_bit_or push_bit_push_bit)
  also have "\<dots> = push_bit 8 (uint b + uint c * 2 ^ 8)" using or_push_add [of "uint b" 8 "uint c"] l(2) by simp
  finally have e: "uint a OR push_bit 8 (uint b) OR push_bit 16 (uint c) = uint a OR push_bit 8 (uint b + uint c * 2 ^ 8)" by simp
  show ?thesis unfolding e using or_push_add [of "uint a" 8] l(1) by simp
qed

lemma chunk_header: "length h = 4 \<Longrightarrow> getFrameMetaData h = chunk_header h"
proof -
  assume "length h = 4"
  then obtain t a b c where h: "h = [t, a, b, c]" by (auto simp: length_Suc_conv eval_nat_numeral)
  define n where "n = uint a + 256 * uint b + 65536 * uint c"
  have n: "uint a OR push_bit 8 (uint b) OR push_bit 16 (uint c) = n" unfolding three_bytes n_def by simp
  have t: "uint t = 0 \<longleftrightarrow> t = 0x00" "uint t = 1 \<longleftrightarrow> t = 0x01" "uint t = 255 \<longleftrightarrow> t = 0xff" "uint t \<le> 127 \<longleftrightarrow> t < 0x80"
    "t < 0xff \<longleftrightarrow> t \<noteq> 0xff"
    using uint_lt2p [of t] by (auto simp: word_uint_eq_iff word_less_def)
  show ?thesis
    unfolding h getFrameMetaData_def chunk_header_def list.case nth_Cons_0 n_def [symmetric]
    using n t by (auto simp: Let_def COMPRESSED_DATA_FLAG_def UNCOMPRESSED_DATA_FLAG_def STREAM_IDENTIFIER_FLAG_def)
qed

lemma next_chunk_code:
  "next_chunk lib verify d =
     (if d = [] then (Finish, [])
      else if length d < 4 then (Broken EOFException, [])
      else
        (case getFrameMetaData (take 4 d) of
           Inl e \<Rightarrow> (Broken e, drop 4 d)
         | Inr (action, n) \<Rightarrow>
             if action = SKIP then (Pass, drop (4 + nat n) d)
             else if length d < 4 + nat n then (Broken EOFException, [])
             else
               (case unpack_spec lib verify action (take (nat n) (drop 4 d)) of
                  Inl e \<Rightarrow> (Broken e, drop (4 + nat n) d)
                | Inr y \<Rightarrow> (Data y, drop (4 + nat n) d))))"
  by (simp add: next_chunk_def chunk_header)

lemma modest_chunk_code:
  "modest_chunk lib d =
     (4 \<le> length d \<longrightarrow>
      (case getFrameMetaData (take 4 d) of
        Inl _ \<Rightarrow> True
      | Inr (action, n) \<Rightarrow>
          action = UNCOMPRESS \<longrightarrow>
            (case parse_length lib (drop 4 (take (nat n) (drop 4 d))) of None \<Rightarrow> True | Some m \<Rightarrow> int m \<le> int_max)))"
  by (simp add: modest_chunk_def chunk_header)

section \<open>Filling and skipping\<close>

lemma blit_blit_int:
  assumes "in_range p (int (length x)) (length b)"
  shows "blit (blit b p x) (p + int (length x)) y = blit b p (x @ y)"
proof -
  have "nat p + length x \<le> length b" "nat (p + int (length x)) = nat p + length x"
    using assms unfolding in_range_def by linarith+
  then show ?thesis by (rule blit_blit_append)
qed

lemma read_loop_bb_result:
  "bb_wf b \<Longrightarrow> k = min (nat (bb_remaining b)) (length (src_data src)) \<Longrightarrow>
   \<exists>src'. read_loop_bb n (b, src) = (n + int k,
       (b\<lparr>bb_data := blit (bb_data b) (bb_pos b) (take k (src_data src)), bb_pos := bb_pos b + int k\<rparr>, src'))
     \<and> src_data src' = drop k (src_data src)"
proof (induction "nat (bb_remaining b)" arbitrary: b src k n rule: less_induct)
  case less
  show ?case
  proof (cases "0 < bb_remaining b")
    case False
    then show ?thesis using less.prems(2) by (simp add: read_loop_bb.simps)
  next
    case True
    obtain x src1 where r: "source_read (bb_remaining b) src = (x, src1)" by fastforce
    show ?thesis
    proof (cases x)
      case None
      then have "src_data src = []" "src_data src1 = []" using source_read_None [of "bb_remaining b" src src1] r by auto
      then show ?thesis using True None r less.prems(2)
        by (subst read_loop_bb.simps) (simp add: channel_read_def)
    next
      case (Some bs)
      have bs: "bs \<noteq> []" "int (length bs) \<le> bb_remaining b" "src_data src = bs @ src_data src1"
        using source_read_Some [of "bb_remaining b" src bs src1] r Some True by auto
      let ?b = "b\<lparr>bb_data := blit (bb_data b) (bb_pos b) bs, bb_pos := bb_pos b + int (length bs)\<rparr>"
      have rb: "in_range (bb_pos b) (int (length bs)) (length (bb_data b))"
        using less.prems(1) bs(2) by (simp add: bb_wf_def bb_remaining_def in_range_def bb_capacity_def)
      have wf: "bb_wf ?b" "bb_remaining ?b = bb_remaining b - int (length bs)"
        using less.prems(1) bs(2) length_blit [OF rb] by (simp_all add: bb_wf_def bb_remaining_def bb_capacity_def)
      have lt: "nat (bb_remaining ?b) < nat (bb_remaining b)" using wf(2) bs(1) True by (cases bs) auto
      define k1 where "k1 = min (nat (bb_remaining ?b)) (length (src_data src1))"
      have k: "k = length bs + k1" using less.prems(2) bs wf(2) by (simp add: k1_def nat_diff_distrib')
      obtain src' where s: "read_loop_bb (n + int (length bs)) (?b, src1) = (n + int (length bs) + int k1,
          (?b\<lparr>bb_data := blit (bb_data ?b) (bb_pos ?b) (take k1 (src_data src1)), bb_pos := bb_pos ?b + int k1\<rparr>, src'))"
        "src_data src' = drop k1 (src_data src1)"
        using less.hyps [OF lt wf(1) k1_def] by blast
      have "read_loop_bb n (b, src) = read_loop_bb (n + int (length bs)) (?b, src1)"
        using True r Some by (subst read_loop_bb.simps) (simp add: channel_read_def)
      moreover have "blit (bb_data ?b) (bb_pos ?b) (take k1 (src_data src1))
          = blit (bb_data b) (bb_pos b) (take k (src_data src))"
        using blit_blit_int [OF rb, of "take k1 (src_data src1)"] bs(3) k by simp
      ultimately show ?thesis using s bs(3) k by (intro exI [of _ src']) (simp add: add.assoc)
    qed
  qed
qed

lemma readBytes_result:
  assumes wf: "bb_wf b" "0 < bb_remaining b" and k: "k = min (nat (bb_remaining b)) (length (src_data src))"
  obtains src' where "readBytes (b, src) =
     (if k = 0 then (- 1, (b\<lparr>bb_pos := bb_limit b\<rparr>, src'))
      else (int k, (b\<lparr>bb_data := blit (bb_data b) (bb_pos b) (take k (src_data src)), bb_pos := bb_pos b + int k,
              bb_limit := bb_pos b + int k\<rparr>, src')))"
    and "src_data src' = drop k (src_data src)"
proof -
  obtain x src1 where r: "source_read (bb_remaining b) src = (x, src1)" by fastforce
  show thesis
  proof (cases x)
    case None
    then have "src_data src = []" "src_data src1 = []" using source_read_None [of "bb_remaining b" src src1] r by auto
    then show thesis using that [of src1] None r k wf(2) by (simp add: readBytes_def channel_read_def Let_def)
  next
    case (Some bs)
    have bs: "bs \<noteq> []" "int (length bs) \<le> bb_remaining b" "src_data src = bs @ src_data src1"
      using source_read_Some [of "bb_remaining b" src bs src1] r Some wf(2) by auto
    define b1 where "b1 = b\<lparr>bb_data := blit (bb_data b) (bb_pos b) bs, bb_pos := bb_pos b + int (length bs)\<rparr>"
    have ch: "channel_read (b, src) = (int (length bs), (b1, src1))" using r Some by (simp add: channel_read_def b1_def)
    have rb: "in_range (bb_pos b) (int (length bs)) (length (bb_data b))"
      using wf(1) bs(2) by (simp add: bb_wf_def bb_remaining_def in_range_def bb_capacity_def)
    have wf': "bb_wf b1" "bb_remaining b1 = bb_remaining b - int (length bs)"
      using wf(1) bs(2) length_blit [OF rb] by (simp_all add: b1_def bb_wf_def bb_remaining_def bb_capacity_def)
    define k1 where "k1 = min (nat (bb_remaining b1)) (length (src_data src1))"
    have k': "k = length bs + k1" using k bs wf'(2) by (simp add: k1_def nat_diff_distrib')
    have k0: "0 < k" using k' bs(1) by (cases bs) simp_all
    define d where "d = blit (bb_data b) (bb_pos b) (take k (src_data src))"
    have d: "blit (bb_data b1) (bb_pos b1) (take k1 (src_data src1)) = d"
      using blit_blit_int [OF rb, of "take k1 (src_data src1)"] bs(3) k' by (simp add: b1_def d_def)
    obtain src' where s: "read_loop_bb (int (length bs)) (b1, src1) = (int k,
        (b1\<lparr>bb_data := d, bb_pos := bb_pos b + int k\<rparr>, src'))" "src_data src' = drop k (src_data src)"
      using read_loop_bb_result [OF wf'(1) k1_def, of "int (length bs)"] d bs(3) k' by (auto simp: b1_def add.assoc)
    have fin: "b1\<lparr>bb_data := d, bb_pos := bb_pos b + int k, bb_limit := bb_pos b + int k\<rparr>
        = b\<lparr>bb_data := d, bb_pos := bb_pos b + int k, bb_limit := bb_pos b + int k\<rparr>"
      by (cases b) (simp add: b1_def)
    show thesis
    proof (cases "int (length bs) < bb_remaining b")
      case True
      then have "readBytes (b, src) = (int k, (b1\<lparr>bb_data := d, bb_pos := bb_pos b + int k, bb_limit := bb_pos b + int k\<rparr>, src'))"
        using k0 s(1) by (simp add: readBytes_def ch Let_def)
      then have "readBytes (b, src) = (int k, (b\<lparr>bb_data := d, bb_pos := bb_pos b + int k, bb_limit := bb_pos b + int k\<rparr>, src'))"
        by (simp only: fin)
      then show thesis using that [of src'] k0 s(2) unfolding d_def by simp
    next
      case False
      then have "k1 = 0" using wf'(2) bs(2) by (simp add: k1_def)
      then have "b1 = b\<lparr>bb_data := d, bb_pos := bb_pos b + int k\<rparr>" "src_data src1 = drop k (src_data src)"
        using d k' bs(3) by (simp_all add: b1_def)
      moreover have "readBytes (b, src) = (int k, (b1\<lparr>bb_limit := bb_pos b1\<rparr>, src1))"
        using False k0 k' \<open>k1 = 0\<close> by (simp add: readBytes_def ch Let_def)
      ultimately show thesis using that [of src1] k0 unfolding d_def by simp
    qed
  qed
qed

lemma skip_loop_result:
  "0 < bb_capacity b \<Longrightarrow> 0 \<le> n \<Longrightarrow>
   \<exists>k b' src'. skip_loop n (b, src) = (Inr k, (b', src')) \<and> length (bb_data b') = length (bb_data b)
     \<and> src_data src' = drop (nat n) (src_data src)"
proof (induction "nat n" arbitrary: n b src rule: less_induct)
  case less
  show ?case
  proof (cases "0 < n")
    case False
    then show ?thesis using less.prems by (simp add: skip_loop.simps)
  next
    case True
    define c where "c = (if n < bb_capacity (bb_clear b) then (bb_clear b)\<lparr>bb_limit := n\<rparr> else bb_clear b)"
    have c: "bb_pos c = 0" "bb_remaining c = min n (bb_capacity b)" "bb_data c = bb_data b"
      using less.prems by (auto simp: c_def bb_clear_def bb_capacity_def bb_remaining_def)
    have rem: "0 < bb_remaining c" using c(2) True less.prems by simp
    obtain x src1 where r: "source_read (bb_remaining c) src = (x, src1)" by fastforce
    show ?thesis
    proof (cases x)
      case None
      then have "src_data src = []" "src_data src1 = []" using source_read_None [of "bb_remaining c" src src1] r by auto
      then show ?thesis using True None r c
        by (subst skip_loop.simps) (simp add: channel_read_def Let_def c_def [symmetric])
    next
      case (Some bs)
      have bs: "bs \<noteq> []" "int (length bs) \<le> bb_remaining c" "src_data src = bs @ src_data src1"
        using source_read_Some [of "bb_remaining c" src bs src1] r Some rem by auto
      let ?c = "c\<lparr>bb_data := blit (bb_data c) (bb_pos c) bs, bb_pos := bb_pos c + int (length bs)\<rparr>"
      have "in_range (bb_pos c) (int (length bs)) (length (bb_data c))"
        using bs(2) c by (simp add: in_range_def bb_capacity_def)
      then have lc: "length (bb_data ?c) = length (bb_data b)" using length_blit c(3) by simp
      have n: "int (length bs) \<le> n" "0 < int (length bs)" using bs c(2) by (cases bs, auto)
      have "\<exists>k b' src'. skip_loop (n - int (length bs)) (?c, src1) = (Inr k, (b', src'))
          \<and> length (bb_data b') = length (bb_data ?c) \<and> src_data src' = drop (nat (n - int (length bs))) (src_data src1)"
        by (rule less.hyps) (use n lc True less.prems(1) in \<open>simp_all add: bb_capacity_def\<close>)
      moreover have "skip_loop n (b, src) = skip_loop (n - int (length bs)) (?c, src1)"
        using True r Some n(2) bs(1) by (subst skip_loop.simps) (simp add: channel_read_def Let_def c_def [symmetric])
      moreover have "nat (n - int (length bs)) = nat n - length bs" using n by simp
      moreover have "drop (nat n) bs = []" using n by simp
      ultimately show ?thesis using lc bs(3) by simp
    qed
  qed
qed

lemma skip_bytes_result:
  assumes "0 < bb_capacity b" and "0 \<le> n"
  obtains k b' src' where "skip_bytes n (b, src) = (Inr k, (b', src'))" and "length (bb_data b') = length (bb_data b)"
    and "src_data src' = drop (nat n) (src_data src)"
proof (cases "n = 0")
  case True
  then show thesis using that [of 0 b src] by (simp add: skip_bytes_def)
next
  case False
  obtain k b' src' where "skip_loop n (b, src) = (Inr k, (b', src'))" "length (bb_data b') = length (bb_data b)"
    "src_data src' = drop (nat n) (src_data src)"
    using skip_loop_result [OF assms] by blast
  then show thesis using that [of "n - k" "bb_clear b'" src'] False assms(2) by (simp add: skip_bytes_def bb_clear_def)
qed

section \<open>The buffers\<close>

definition fi_inv :: "SnappyFramedInputStream \<Rightarrow> bool" where
  "fi_inv s \<longleftrightarrow> \<not> fi_closed s \<and> good_pool (fi_pool s) \<and> length (bb_data (frameHeader s)) = 4 \<and>
     (\<exists>i u b. fi_input s = Some i \<and> uncompressedDirect s = Some u \<and> fi_buffer s = Some b \<and>
        bb_direct i \<and> bb_direct u \<and> 65541 \<le> bb_capacity i \<and> bb_capacity i \<le> arr_len b \<and>
        arr_len b = bb_capacity u \<and> arr_len b \<le> int_max \<and>
        0 \<le> fi_position s \<and> (0 < fi_available s \<longrightarrow> fi_valid s \<le> arr_len b))"

text \<open>What stays the same, and the state after a chunk with the bytes \<open>y\<close>.\<close>

definition fi_kept :: "SnappyFramedInputStream \<Rightarrow> SnappyFramedInputStream \<Rightarrow> bool" where
  "fi_kept s s' \<longleftrightarrow> verifyChecksums s' = verifyChecksums s \<and> fi_eof s' = fi_eof s"

lemma fi_kept_refl [simp]: "fi_kept s s" by (simp add: fi_kept_def)

lemma fi_kept_trans: "fi_kept s t \<Longrightarrow> fi_kept t u \<Longrightarrow> fi_kept s u" by (simp add: fi_kept_def)

definition fi_loaded :: "bytes \<Rightarrow> SnappyFramedInputStream \<Rightarrow> bool" where
  "fi_loaded y s \<longleftrightarrow> fi_position s = 0 \<and> fi_valid s = int (length y) \<and>
     (\<exists>b. fi_buffer s = Some b \<and> length y \<le> length b \<and> take (length y) b = y)"

lemma release_direct_good: "(\<And>b. x = Some b \<Longrightarrow> bb_direct b) \<Longrightarrow> good_pool p \<Longrightarrow> good_pool (release_direct x p)"
  by (cases x) (simp_all add: release_direct_def releaseDirect_good)

lemma release_array_good: "good_pool p \<Longrightarrow> good_pool (release_array x p)"
  by (cases x) (simp_all add: release_array_def releaseArray_good)

lemma from_input_ok: "fi_input s = Some b \<Longrightarrow> from_input f s = (f b, s)"
  by (cases s) (simp add: from_input_def on_input_def)

lemma on_input_ok: "fi_input s = Some b \<Longrightarrow> f b = (r, b') \<Longrightarrow> on_input f s = (r, s\<lparr>fi_input := Some b'\<rparr>)"
  by (simp add: on_input_def)

lemma from_direct_ok: "uncompressedDirect s = Some b \<Longrightarrow> on_direct (\<lambda>b. (f b, b)) s = (f b, s)"
  by (cases s) (simp add: on_direct_def)

lemma on_direct_ok:
  "uncompressedDirect s = Some b \<Longrightarrow> f b = (r, b') \<Longrightarrow> on_direct f s = (r, s\<lparr>uncompressedDirect := Some b'\<rparr>)"
  by (simp add: on_direct_def)

lemma on_pool_ok: "f (fi_pool s) = (Inr x, p) \<Longrightarrow> on_pool f s = (Inr x, s\<lparr>fi_pool := p\<rparr>)"
  by (simp add: on_pool_def)

lemma bb_whole_parts: "bb_whole b \<Longrightarrow> bb_direct b"
  by (simp add: bb_whole_def)

lemma allocateBuffers_ok:
  assumes lib: "frame_lib lib" and sz: "0 < sz" "sz \<le> 2 ^ 24" and pool: "good_pool (fi_pool s)"
    and d: "\<And>b. fi_input s = Some b \<Longrightarrow> bb_direct b" "\<And>b. uncompressedDirect s = Some b \<Longrightarrow> bb_direct b"
  obtains i u b p where "allocateBuffersBasedOnSize lib sz s
      = (Inr (), s\<lparr>fi_pool := p, fi_input := Some i, uncompressedDirect := Some u, fi_buffer := Some b, fi_array := Suc (fi_array s)\<rparr>)"
    and "good_pool p" and "bb_direct i" and "bb_direct u" and "sz \<le> bb_capacity i"
    and "bb_capacity i \<le> arr_len b" and "arr_len b = bb_capacity u" and "arr_len b \<le> int_max"
proof -
  let ?m = "s_maxCompressedLength lib sz"
  define q where "q = release_array (fi_buffer s) (release_direct (uncompressedDirect s) (release_direct (fi_input s) (fi_pool s)))"
  have q: "good_pool q" using pool d by (simp add: q_def release_array_good release_direct_good)
  have m: "sz \<le> ?m" "?m \<le> int_max" "0 < ?m" using frame_lib_bound [OF lib, of sz] sz by simp_all
  have si: "sz \<le> int_max" using m by simp
  obtain i p1 where i: "allocateDirect sz q = (Inr i, p1)" "bb_whole i" "bb_capacity i = pool_size q sz" "good_pool p1"
    "pool_size p1 = pool_size q"
    using allocateDirect_served [OF sz(1) si q] by auto
  obtain u p2 where u: "allocateDirect ?m p1 = (Inr u, p2)" "bb_whole u" "bb_capacity u = pool_size q ?m" "good_pool p2"
    "pool_size p2 = pool_size q"
    using allocateDirect_served [OF m(3,2) i(4)] i(5) by auto
  obtain b p3 where b: "allocateArray ?m p2 = (Inr b, p3)" "arr_len b = pool_size q ?m" "good_pool p3"
    using allocateArray_served [OF m(3,2) u(4)] u(5) by auto
  have e: "allocateBuffersBasedOnSize lib sz s
      = (Inr (), s\<lparr>fi_pool := p3, fi_input := Some i, uncompressedDirect := Some u, fi_buffer := Some b, fi_array := Suc (fi_array s)\<rparr>)"
    unfolding allocateBuffersBasedOnSize_def bind_modify q_def [symmetric]
    using i(1) u(1) b(1) by (simp add: bindS_def [of "on_pool _"] on_pool_def bind_modify) (simp add: modifyS_def)
  show thesis
    by (rule that [OF e b(3)])
      (use i(2,3) u(2,3) b(2) pool_size_ge [OF sz(1) si, of q] pool_size_ge [OF m(3,2), of q]
        pool_size_mono [OF sz(1) m(1,2), of q] in \<open>simp_all add: bb_whole_parts\<close>)
qed

section \<open>Reading a frame\<close>

lemma load_frame_ok:
  assumes lib: "frame_lib lib" and inv: "fi_inv s" "fi_available s \<le> 0" and len: "0 < len" "len \<le> 2 ^ 24"
  obtains s' where "load_frame lib len s = (if int (length (src_data (fi_rbc s))) < len then Inl EOFException else Inr (), s')"
    and "fi_inv s'" and "fi_kept s s'" and "fi_available s' \<le> 0"
    and "src_data (fi_rbc s') = drop (nat len) (src_data (fi_rbc s))"
    and "len \<le> int (length (src_data (fi_rbc s))) \<Longrightarrow>
       \<exists>i. fi_input s' = Some i \<and> bb_pos i = 0 \<and> bb_limit i = len \<and> take (nat len) (bb_data i) = take (nat len) (src_data (fi_rbc s))"
proof -
  let ?d = "src_data (fi_rbc s)"
  obtain i0 where i0: "fi_input s = Some i0" using inv by (auto simp: fi_inv_def)
  have "\<exists>t i. (if len > bb_capacity i0 then allocateBuffersBasedOnSize lib len s else returnS () s) = (Inr (), t)
      \<and> fi_inv t \<and> fi_kept s t \<and> fi_available t \<le> 0 \<and> fi_rbc t = fi_rbc s \<and> fi_input t = Some i \<and> len \<le> bb_capacity i"
  proof (cases "len > bb_capacity i0")
    case True
    have g: "good_pool (fi_pool s)" "\<And>b. fi_input s = Some b \<Longrightarrow> bb_direct b" "\<And>b. uncompressedDirect s = Some b \<Longrightarrow> bb_direct b"
      using inv by (auto simp: fi_inv_def)
    obtain i u b p where a: "allocateBuffersBasedOnSize lib len s
        = (Inr (), s\<lparr>fi_pool := p, fi_input := Some i, uncompressedDirect := Some u, fi_buffer := Some b, fi_array := Suc (fi_array s)\<rparr>)"
      "good_pool p" "bb_direct i" "bb_direct u" "len \<le> bb_capacity i" "bb_capacity i \<le> arr_len b"
      "arr_len b = bb_capacity u" "arr_len b \<le> int_max"
      by (rule allocateBuffers_ok [OF lib len g])
    have "65541 \<le> bb_capacity i" using True a(5) inv i0 by (auto simp: fi_inv_def)
    then show ?thesis using a inv True by (auto simp: fi_inv_def fi_kept_def fi_available_def)
  next
    case False
    then show ?thesis using inv i0 by (auto simp: returnS_def)
  qed
  then obtain t i where t: "(if len > bb_capacity i0 then allocateBuffersBasedOnSize lib len s else returnS () s) = (Inr (), t)"
    "fi_inv t" "fi_kept s t" "fi_available t \<le> 0" "fi_rbc t = fi_rbc s" "fi_input t = Some i" "len \<le> bb_capacity i"
    by blast
  define j where "j = i\<lparr>bb_pos := 0, bb_limit := len\<rparr>"
  have j: "bb_wf j" "bb_remaining j = len" "bb_pos j = 0" "bb_data j = bb_data i" "bb_direct j = bb_direct i"
    using t(7) len by (simp_all add: j_def bb_wf_def bb_remaining_def bb_capacity_def)
  have lf: "load_frame lib len s = bindS read_input (\<lambda>actualRead.
     if actualRead \<noteq> len then throwS EOFException else on_input (modifyS bb_flip)) (t\<lparr>fi_input := Some j\<rparr>)"
  proof -
    have c1: "from_input (\<lambda>b. Inr (bb_capacity b)) s = (Inr (bb_capacity i0), s)" by (rule from_input_ok [OF i0])
    have c2: "on_input (modifyS bb_clear) t = (Inr (), t\<lparr>fi_input := Some (bb_clear i)\<rparr>)"
      by (rule on_input_ok [OF t(6)]) (simp add: modifyS_def)
    have "on_input (bb_set_limit len) (t\<lparr>fi_input := Some (bb_clear i)\<rparr>)
        = (Inr (), t\<lparr>fi_input := Some (bb_clear i), fi_input := Some j\<rparr>)"
      by (rule on_input_ok, simp, cases i)
        (use t(7) len in \<open>simp add: bb_set_limit_def bb_clear_def bb_capacity_def j_def\<close>)
    then show ?thesis using t(1) c2 by (cases "bb_capacity i0 < len") (simp_all add: load_frame_def bindS_def c1)
  qed
  define k where "k = min (nat len) (length ?d)"
  have kr: "k = min (nat (bb_remaining j)) (length (src_data (fi_rbc t)))" using j(2) t(5) by (simp add: k_def)
  have rj: "0 < bb_remaining j" using j(2) len by simp
  obtain src' where r: "readBytes (j, fi_rbc t) =
     (if k = 0 then (- 1, (j\<lparr>bb_pos := bb_limit j\<rparr>, src'))
      else (int k, (j\<lparr>bb_data := blit (bb_data j) (bb_pos j) (take k (src_data (fi_rbc t))), bb_pos := bb_pos j + int k,
              bb_limit := bb_pos j + int k\<rparr>, src')))"
    "src_data src' = drop k (src_data (fi_rbc t))"
    by (rule readBytes_result [OF j(1) rj kr])
  have dk: "drop k ?d = drop (nat len) ?d" by (auto simp: k_def min_def)
  have keep: "fi_inv (t\<lparr>fi_input := Some x, fi_rbc := src'\<rparr>)"
    if "bb_direct x = bb_direct i" "bb_capacity x = bb_capacity i" for x
    using t(2,6) that by (auto simp: fi_inv_def fi_available_def)
  have rest: "fi_kept s (t\<lparr>fi_input := Some x, fi_rbc := src'\<rparr>)" "fi_available (t\<lparr>fi_input := Some x, fi_rbc := src'\<rparr>) \<le> 0" for x
    using t(3,4) by (auto simp: fi_kept_def fi_available_def split: if_splits)
  show thesis
  proof (cases "int (length ?d) < len")
    case True
    then have k: "k = length ?d" "int k \<noteq> len" by (simp_all add: k_def)
    define x where "x = fst (snd (readBytes (j, fi_rbc t)))"
    define n where "n = fst (readBytes (j, fi_rbc t))"
    have x: "readBytes (j, fi_rbc t) = (n, (x, src'))" "n \<noteq> len" "bb_direct x = bb_direct i" "bb_capacity x = bb_capacity i"
      using r(1) k len t(7) True j(4,5)
      by (cases "k = 0"; simp add: x_def n_def bb_capacity_def j_def blit_def t(5))+
    have e: "load_frame lib len s = (if int (length ?d) < len then Inl EOFException else Inr (),
        t\<lparr>fi_input := Some x, fi_rbc := src'\<rparr>)"
      using x(1,2) True by (simp add: lf read_input_def bindS_def throwS_def)
    have sd: "src_data (fi_rbc (t\<lparr>fi_input := Some x, fi_rbc := src'\<rparr>)) = drop (nat len) ?d"
      using r(2) t(5) dk by simp
    show thesis by (rule that [OF e keep [OF x(3,4)] rest sd]) (use True in simp)
  next
    case False
    then have k: "int k = len" "k \<noteq> 0" "nat len = k" using len by (auto simp: k_def)
    define x where "x = j\<lparr>bb_data := blit (bb_data j) 0 (take k ?d), bb_pos := 0, bb_limit := len\<rparr>"
    have lb: "length (blit (bb_data j) 0 (take k ?d)) = length (bb_data j)"
      using t(7) j(4) k(1) by (auto simp: blit_def bb_capacity_def k_def)
    have x: "bb_direct x = bb_direct i" "bb_capacity x = bb_capacity i" using lb j(4,5) by (simp_all add: x_def bb_capacity_def)
    have "load_frame lib len s = (Inr (), t\<lparr>fi_input := Some x, fi_rbc := src'\<rparr>)"
      using r(1) k j(3) t(5) by (simp add: lf read_input_def bindS_def on_input_def modifyS_def bb_flip_def x_def)
    moreover have "take k (bb_data x) = take k ?d" using False k by (auto simp: x_def blit_def)
    ultimately have e: "load_frame lib len s = (if int (length ?d) < len then Inl EOFException else Inr (),
        t\<lparr>fi_input := Some x, fi_rbc := src'\<rparr>)" and tx: "take k (bb_data x) = take k ?d"
      using False by simp_all
    have sd: "src_data (fi_rbc (t\<lparr>fi_input := Some x, fi_rbc := src'\<rparr>)) = drop (nat len) ?d"
      using r(2) t(5) dk by simp
    have xp: "bb_pos x = 0" "bb_limit x = len" by (simp_all add: x_def)
    have xi: "fi_input (t\<lparr>fi_input := Some x, fi_rbc := src'\<rparr>) = Some x" by simp
    show thesis
      by (rule that [OF e keep [OF x] rest sd]) (unfold k(3), intro exI conjI, rule xi, rule xp, rule xp, rule tx)
  qed
qed

section \<open>Unpacking\<close>

lemma from_buffer_ok: "fi_buffer s = Some b \<Longrightarrow> from_buffer f s = f b s"
  by (simp add: from_buffer_def getS_def)

lemma ensure_direct_ok:
  assumes inv: "fi_inv s" "fi_input s = Some i" and n: "0 \<le> n" "n \<le> int_max"
  obtains u b p k where "ensure_direct n s = (Inr (), s\<lparr>fi_pool := p, uncompressedDirect := Some u, fi_buffer := Some b, fi_array := k\<rparr>)"
    and "good_pool p" and "bb_direct u" and "n \<le> bb_capacity u" and "bb_capacity i \<le> arr_len b"
    and "arr_len b = bb_capacity u" and "arr_len b \<le> int_max"
proof -
  obtain u0 b0 where u0: "uncompressedDirect s = Some u0" "fi_buffer s = Some b0" "bb_direct u0" "good_pool (fi_pool s)"
    "bb_capacity i \<le> arr_len b0" "arr_len b0 = bb_capacity u0" "arr_len b0 \<le> int_max"
    using inv by (auto simp: fi_inv_def)
  have c: "on_direct (\<lambda>b. (Inr (bb_capacity b), b)) s = (Inr (bb_capacity u0), s)" by (rule from_direct_ok [OF u0(1)])
  show thesis
  proof (cases "n > bb_capacity u0")
    case False
    then have "ensure_direct n s = (Inr (), s)" by (simp add: ensure_direct_def bindS_def c returnS_def)
    moreover have "s = s\<lparr>fi_pool := fi_pool s, uncompressedDirect := Some u0, fi_buffer := Some b0, fi_array := fi_array s\<rparr>"
      using u0(1,2) by (cases s) simp
    ultimately show thesis using that [where p = "fi_pool s" and u = u0 and b = b0 and k = "fi_array s"] u0 False by simp
  next
    case True
    define q where "q = release_array (fi_buffer s) (release_direct (uncompressedDirect s) (fi_pool s))"
    have "good_pool (release_direct (uncompressedDirect s) (fi_pool s))"
      by (rule release_direct_good) (use u0 in simp_all)
    then have q: "good_pool q" unfolding q_def by (rule release_array_good)
    have n0: "0 < n" using True by (simp add: bb_capacity_def)
    obtain u p1 where u: "allocateDirect n q = (Inr u, p1)" "bb_whole u" "bb_capacity u = pool_size q n" "good_pool p1"
      "pool_size p1 = pool_size q"
      using allocateDirect_served [OF n0 n(2) q] by auto
    obtain b p2 where b: "allocateArray n p1 = (Inr b, p2)" "arr_len b = pool_size q n" "good_pool p2"
      using allocateArray_served [OF n0 n(2) u(4)] u(5) by auto
    have e: "ensure_direct n s = (Inr (), s\<lparr>fi_pool := p2, uncompressedDirect := Some u, fi_buffer := Some b, fi_array := Suc (fi_array s)\<rparr>)"
      using True u(1) b(1)
      by (simp add: ensure_direct_def bindS_def c q_def [symmetric] on_pool_def modifyS_def)
    show thesis
      by (rule that [OF e b(3)])
        (use u b True u0 pool_size_ge [OF n0 n(2), of q] in \<open>simp_all add: bb_whole_parts\<close>)
  qed
qed

lemma copy_out_ok:
  assumes "fi_buffer s = Some b" and "0 \<le> n" and "n \<le> arr_len b" and "bb_wf x" and "n \<le> bb_remaining x"
  shows "copy_out x n s = (Inr (x\<lparr>bb_pos := bb_pos x + n\<rparr>), s\<lparr>fi_buffer := Some (blit b 0 (segment (bb_pos x) n (bb_data x)))\<rparr>)"
  using assms by (simp add: copy_out_def from_buffer_ok bb_get_def in_range_def arr_len_def)

text \<open>The destination array has room for what a buffer holds.\<close>

lemma take_blit_0: "length y \<le> length b \<Longrightarrow> take (length y) (blit b 0 y) = y \<and> length (blit b 0 y) = length b"
  by (auto simp: blit_def)

lemma unpack_raw_ok:
  assumes inv: "fi_inv s" and i: "fi_input s = Some i" "bb_pos i = 0" "bb_limit i = len" "bb_wf i" "4 \<le> len"
  obtains s' where "unpack_raw 4 s = (Inr (), s')" and "fi_inv s'" and "fi_kept s s'" and "fi_rbc s' = fi_rbc s"
    and "fi_loaded (drop 4 (take (nat len) (bb_data i))) s'"
proof -
  define y where "y = segment 4 (len - 4) (bb_data i)"
  obtain u b where b: "uncompressedDirect s = Some u" "fi_buffer s = Some b" "bb_capacity i \<le> arr_len b"
    using inv i(1) by (auto simp: fi_inv_def)
  define i1 where "i1 = i\<lparr>bb_pos := 4\<rparr>"
  have i1: "bb_wf i1" "bb_remaining i1 = len - 4" "bb_pos i1 = 4" "bb_data i1 = bb_data i"
    using i by (simp_all add: i1_def bb_wf_def bb_remaining_def bb_capacity_def)
  have ly: "int (length y) = len - 4"
    using i length_segment [of 4 "len - 4" "bb_data i"] by (simp add: y_def in_range_def bb_wf_def bb_capacity_def)
  have lb: "length y \<le> length b"
    using ly b(3) i by (simp add: bb_wf_def arr_len_def)
  have yd: "y = drop 4 (take (nat len) (bb_data i))"
    using i(5) by (simp add: y_def segment_def drop_take nat_diff_distrib)
  have p: "on_input (bb_set_position 4) s = (Inr (), s\<lparr>fi_input := Some i1\<rparr>)"
    by (rule on_input_ok [OF i(1)]) (use i in \<open>simp add: bb_set_position_def i1_def\<close>)
  define t where "t = s\<lparr>fi_input := Some i1, fi_position := 0, fi_valid := len - 4\<rparr>"
  define s' where "s' = t\<lparr>fi_input := Some (i1\<lparr>bb_pos := len\<rparr>), fi_buffer := Some (blit b 0 y)\<rparr>"
  have f: "from_input (\<lambda>i. Inr i) (s\<lparr>fi_input := Some i1, fi_position := 0\<rparr>)
      = (Inr i1, s\<lparr>fi_input := Some i1, fi_position := 0\<rparr>)" by (rule from_input_ok) simp
  have "copy_out i1 (len - 4) t = (Inr (i1\<lparr>bb_pos := len\<rparr>), t\<lparr>fi_buffer := Some (blit b 0 y)\<rparr>)"
    using copy_out_ok [of t b "len - 4" i1] b i i1 by (simp add: t_def y_def bb_wf_def)
  then have e: "unpack_raw 4 s = (Inr (), s')"
    by (simp add: unpack_raw_def bindS_def p f modifyS_def i1(2) t_def s'_def)
  have "fi_inv s'"
    using inv i b lb ly take_blit_0 [OF lb]
    by (auto simp: fi_inv_def s'_def t_def fi_available_def arr_len_def bb_capacity_def i1_def)
  moreover have "fi_loaded y s'" using ly lb take_blit_0 [OF lb] by (auto simp: fi_loaded_def s'_def t_def)
  ultimately show thesis using that [OF e] yd by (simp add: fi_kept_def s'_def t_def)
qed

lemma unpack_compressed_ok:
  assumes lib: "frame_lib lib" and inv: "fi_inv s" "fi_available s \<le> 0"
    and i: "fi_input s = Some i" "bb_pos i = 0" "bb_limit i = len" "bb_wf i" "4 \<le> len"
    and z: "z = drop 4 (take (nat len) (bb_data i))" and small: "\<And>m. parse_length lib z = Some m \<Longrightarrow> int m \<le> int_max"
  obtains s' where "unpack_compressed lib 4 s =
       (case parse_length lib z of None \<Rightarrow> Inl (throw_error 2)
        | Some m \<Rightarrow> if fst (uncompress_raw lib z) then Inr () else Inl (throw_error 5), s')"
    and "fi_inv s'" and "fi_kept s s'" and "fi_rbc s' = fi_rbc s"
    and "parse_length lib z \<noteq> None \<Longrightarrow> fst (uncompress_raw lib z) \<Longrightarrow> fi_loaded (snd (uncompress_raw lib z)) s'"
    and "parse_length lib z = None \<or> \<not> fst (uncompress_raw lib z) \<Longrightarrow> fi_available s' \<le> 0"
proof -
  define i1 where "i1 = i\<lparr>bb_pos := 4\<rparr>"
  have r: "in_range 4 (len - 4) (length (bb_data i))" using i by (simp add: in_range_def bb_wf_def bb_capacity_def)
  have zs: "z = segment 4 (len - 4) (bb_data i)" using i(5) by (simp add: z segment_def drop_take nat_diff_distrib)
  have id: "bb_direct i" using inv(1) i(1) by (auto simp: fi_inv_def)
  have i1: "bb_remaining i1 = len - 4" "bb_pos i1 = 4" "bb_data i1 = bb_data i" "bb_direct i1"
    using i id by (simp_all add: i1_def bb_remaining_def)
  define s1 where "s1 = s\<lparr>fi_input := Some i1\<rparr>"
  have p: "on_input (bb_set_position 4) s = (Inr (), s1)"
    unfolding s1_def by (rule on_input_ok [OF i(1)]) (use i in \<open>simp add: bb_set_position_def i1_def\<close>)
  have inv1: "fi_inv s1" "fi_input s1 = Some i1" "fi_available s1 \<le> 0"
    using inv i(1) by (auto simp: fi_inv_def s1_def i1_def fi_available_def bb_capacity_def)
  have ul: "from_input (s_uncompressedLength_buffer lib) s1 =
      (case parse_length lib z of None \<Rightarrow> Inl (throw_error 2) | Some m \<Rightarrow> Inr (i32 (int m)), s1)"
    using from_input_ok [OF inv1(2), of "s_uncompressedLength_buffer lib"] r i1
    by (simp add: s_uncompressedLength_buffer_def impl_uncompressedLength_def zs)
  have kept1: "fi_kept s s1" "fi_rbc s1 = fi_rbc s" by (simp_all add: fi_kept_def s1_def)
  show thesis
  proof (cases "parse_length lib z")
    case None
    have "unpack_compressed lib 4 s = (Inl (throw_error 2), s1)"
      using None by (simp add: unpack_compressed_def bindS_def p ul)
    then show thesis using that [of s1] None inv1 kept1 by simp
  next
    case (Some m)
    define y where "y = snd (uncompress_raw lib z)"
    have m: "int m \<le> int_max" "i32 (int m) = int m" using small [OF Some] by (simp_all add: i32_int_len)
    have ly: "length y \<le> m" "fst (uncompress_raw lib z) \<Longrightarrow> length y = m"
      using lib Some by (auto simp: frame_lib_def lib_ok_def lib_lengths_def y_def)
    obtain u b q k where u: "ensure_direct (int m) s1
        = (Inr (), s1\<lparr>fi_pool := q, uncompressedDirect := Some u, fi_buffer := Some b, fi_array := k\<rparr>)"
      "good_pool q" "bb_direct u" "int m \<le> bb_capacity u" "bb_capacity i1 \<le> arr_len b"
      "arr_len b = bb_capacity u" "arr_len b \<le> int_max"
      by (rule ensure_direct_ok [OF inv1(1,2) of_nat_0_le_iff m(1)])
    define s2 where "s2 = s1\<lparr>fi_pool := q, uncompressedDirect := Some (bb_clear u), fi_buffer := Some b, fi_array := k\<rparr>"
    define v where "v = (bb_clear u)\<lparr>bb_data := blit (bb_data u) 0 y\<rparr>"
    have lv: "length (blit (bb_data u) 0 y) = length (bb_data u)" and ty: "take (length y) (blit (bb_data u) 0 y) = y"
      using take_blit_0 [of y "bb_data u"] ly(1) u(4) by (simp_all add: bb_capacity_def)
    define w where "w = (if fst (uncompress_raw lib z) then v\<lparr>bb_limit := int m\<rparr> else v)"
    have un: "s_uncompress_buffer lib i1 (bb_clear u)
        = (if fst (uncompress_raw lib z) then Inr (int m) else Inl (throw_error 5), w)"
      using i1 u(3,4) r Some m lv ly(2)
      by (simp add: s_uncompress_buffer_def bb_clear_def bb_native_def impl_rawUncompress_def zs [symmetric] bindS_def
          bb_set_limit_def returnS_def bb_capacity_def in_range_def uncompressed_into_def y_def v_def w_def)
    define s3 where "s3 = s2\<lparr>uncompressedDirect := Some w\<rparr>"
    have w: "bb_direct w" "bb_capacity w = bb_capacity u" using u(3) lv by (simp_all add: w_def v_def bb_clear_def bb_capacity_def)
    have st: "unpack_compressed lib 4 s =
      bindS (on_direct (s_uncompress_buffer lib i1)) (\<lambda>n.
      bindS (modifyS (\<lambda>s. s\<lparr>fi_valid := n\<rparr>)) (\<lambda>_.
      bindS (on_direct (\<lambda>u. (Inr u, u))) (\<lambda>u.
      bindS (copy_out u n) (\<lambda>u'.
      modifyS (\<lambda>s. s\<lparr>uncompressedDirect := Some u', fi_position := 0\<rparr>))))) s2"
    proof -
      have a: "on_direct (modifyS bb_clear) (s1\<lparr>fi_pool := q, uncompressedDirect := Some u, fi_buffer := Some b, fi_array := k\<rparr>) = (Inr (), s2)"
        unfolding s2_def by (subst on_direct_ok [where b = u and r = "Inr ()" and b' = "bb_clear u"]) (simp_all add: modifyS_def)
      have b: "from_input (\<lambda>i. Inr i) s2 = (Inr i1, s2)" by (rule from_input_ok) (simp add: s2_def s1_def)
      show ?thesis using Some m(2) u(1) a b by (simp add: unpack_compressed_def bindS_def [of "on_input _"] p
            bindS_def [of "from_input _"] ul bindS_def [of "ensure_direct _"] bindS_def [of "on_direct (modifyS bb_clear)"])
    qed
    have ou: "on_direct (s_uncompress_buffer lib i1) s2
        = (if fst (uncompress_raw lib z) then Inr (int m) else Inl (throw_error 5), s3)"
      using un by (simp add: on_direct_def s3_def s2_def)
    have inv3: "fi_inv s3" "fi_available s3 \<le> 0" "fi_kept s s3" "fi_rbc s3 = fi_rbc s"
      using inv inv1 u w i(1) by (auto simp: fi_inv_def s3_def s2_def s1_def i1_def fi_available_def fi_kept_def bb_capacity_def)
    show thesis
    proof (cases "fst (uncompress_raw lib z)")
      case False
      then have "unpack_compressed lib 4 s = (Inl (throw_error 5), s3)" by (simp add: st bindS_def ou)
      then show thesis using that [of s3] Some False inv3 by simp
    next
      case True
      have wf: "bb_wf w" "bb_remaining w = int m" "bb_pos w = 0" "bb_data w = blit (bb_data u) 0 y"
        using True u(4) lv by (simp_all add: w_def v_def bb_wf_def bb_clear_def bb_capacity_def bb_remaining_def)
      have lym: "length y = m" using ly(2) True .
      define s4 where "s4 = s3\<lparr>fi_valid := int m\<rparr>"
      define s' where "s' = s4\<lparr>fi_buffer := Some (blit b 0 y), uncompressedDirect := Some (w\<lparr>bb_pos := int m\<rparr>), fi_position := 0\<rparr>"
      have "copy_out w (int m) s4 = (Inr (w\<lparr>bb_pos := int m\<rparr>), s4\<lparr>fi_buffer := Some (blit b 0 y)\<rparr>)"
        using copy_out_ok [of s4 b "int m" w] wf u(4,6) ty lym by (simp add: s4_def s3_def s2_def)
      moreover have "on_direct (\<lambda>u. (Inr u, u)) s4 = (Inr w, s4)" by (rule from_direct_ok) (simp add: s4_def s3_def)
      ultimately have e: "unpack_compressed lib 4 s = (Inr (), s')"
        using ou True by (simp add: st bindS_def modifyS_def s4_def s'_def)
      have lb: "length y \<le> length b" using lym u(4,6) by (simp add: arr_len_def bb_capacity_def)
      have "fi_inv s'"
        using inv3(1) lb lym take_blit_0 [OF lb] w u(6,7)
        by (auto simp: fi_inv_def s'_def s4_def s3_def s2_def fi_available_def arr_len_def bb_capacity_def)
      moreover have "fi_loaded y s'" using lym lb take_blit_0 [OF lb] by (auto simp: fi_loaded_def s'_def s4_def)
      ultimately show thesis
        using that [of s'] e Some True inv3(3,4) by (simp add: fi_kept_def s'_def s4_def y_def)
    qed
  qed
qed

section \<open>One frame\<close>

lemma verify_frame_ok:
  assumes inv: "fi_inv s" and y: "fi_loaded y s"
  obtains s' where "verify_frame c s = (if verifyChecksums s \<and> c \<noteq> masked_crc y
       then Inl (IOException ''Corrupt input: invalid checksum'') else Inr (), s')"
    and "fi_inv s'" and "fi_loaded y s'" and "fi_kept s s'" and "fi_rbc s' = fi_rbc s"
proof (cases "verifyChecksums s")
  case False
  then have "verify_frame c s = (Inr (), s)" by (simp add: verify_frame_def getS_def returnS_def)
  then show thesis using that [of s] inv y False by simp
next
  case True
  obtain b where b: "fi_buffer s = Some b" "length y \<le> length b" "take (length y) b = y" "fi_position s = 0"
    "fi_valid s = int (length y)" using y by (auto simp: fi_loaded_def)
  have "in_range 0 (int (length y)) (length b)" using b(2) by (simp add: in_range_def)
  then obtain k where k: "maskedCrc32c b 0 (int (length y)) (fi_crc s) = (Inr (masked_crc y), k)"
    using maskedCrc32c_eq [of 0 "int (length y)" b "fi_crc s"] b(3) by auto
  have "verify_frame c s = (if c \<noteq> masked_crc y then Inl (IOException ''Corrupt input: invalid checksum'') else Inr (),
      s\<lparr>fi_crc := k\<rparr>)"
    using True b(1,4,5) k by (simp add: verify_frame_def getS_def from_buffer_ok)
  moreover have "fi_available (s\<lparr>fi_crc := k\<rparr>) = fi_available s" by (simp add: fi_available_def)
  then have "fi_inv (s\<lparr>fi_crc := k\<rparr>)" using inv unfolding fi_inv_def by simp
  moreover have "fi_loaded y (s\<lparr>fi_crc := k\<rparr>)" using y by (simp add: fi_loaded_def)
  ultimately show thesis using that [of "s\<lparr>fi_crc := k\<rparr>"] True by (simp add: fi_kept_def)
qed

lemma getFrameData_ok:
  assumes "bb_pos i = 0" and "bb_limit i = len" and "4 \<le> len"
  shows "getFrameData i = Inr (le_int (take 4 (take (nat len) (bb_data i))), 4)"
  using assms by (simp add: getFrameData_def bb_getInt_def segment_def min_def le_nat_iff)

lemma unpack_frame_ok:
  assumes lib: "frame_lib lib" and inv: "fi_inv s" "fi_available s \<le> 0" and len: "5 \<le> len" "len \<le> 2 ^ 24"
    and body: "body = take (nat len) (src_data (fi_rbc s))"
    and small: "\<And>m. action = UNCOMPRESS \<Longrightarrow> parse_length lib (drop 4 body) = Some m \<Longrightarrow> int m \<le> int_max"
  obtains s' where "unpack_frame lib action len s =
       (if int (length (src_data (fi_rbc s))) < len then Inl EOFException
        else case unpack_spec lib (verifyChecksums s) action body of Inl e \<Rightarrow> Inl e | Inr _ \<Rightarrow> Inr (), s')"
    and "fi_inv s'" and "fi_kept s s'" and "src_data (fi_rbc s') = drop (nat len) (src_data (fi_rbc s))"
    and "\<And>y. len \<le> int (length (src_data (fi_rbc s))) \<Longrightarrow> unpack_spec lib False action body = Inr y \<Longrightarrow> fi_loaded y s'"
proof -
  let ?d = "src_data (fi_rbc s)"
  have l0: "0 < len" using len(1) by simp
  obtain t where t: "load_frame lib len s = (if int (length ?d) < len then Inl EOFException else Inr (), t)"
    "fi_inv t" "fi_kept s t" "fi_available t \<le> 0" "src_data (fi_rbc t) = drop (nat len) ?d"
    "len \<le> int (length ?d) \<Longrightarrow> \<exists>i. fi_input t = Some i \<and> bb_pos i = 0 \<and> bb_limit i = len \<and> take (nat len) (bb_data i) = body"
    using load_frame_ok [OF lib inv l0 len(2)] unfolding body by metis
  show thesis
  proof (cases "int (length ?d) < len")
    case True
    then have "unpack_frame lib action len s = (Inl EOFException, t)" using t(1) by (simp add: unpack_frame_def bindS_def)
    then show thesis using that [of t] True t by simp
  next
    case False
    then obtain i where i: "fi_input t = Some i" "bb_pos i = 0" "bb_limit i = len" "take (nat len) (bb_data i) = body"
      using t(6) by auto
    have "length body = nat len" using False by (simp add: body)
    then have wf: "bb_wf i" using i len by (auto simp: bb_wf_def bb_capacity_def)
    have l4: "4 \<le> len" using len(1) by simp
    have fd: "from_input getFrameData t = (Inr (le_int (take 4 body), 4), t)"
      using from_input_ok [OF i(1), of getFrameData] getFrameData_ok [OF i(2,3) l4] i(4) by simp
    define z where "z = drop 4 body"
    define content where "content = (if action = UNCOMPRESS
        then (case parse_length lib z of None \<Rightarrow> Inl (throw_error 2)
              | Some m \<Rightarrow> if fst (uncompress_raw lib z) then Inr (snd (uncompress_raw lib z)) else Inl (throw_error 5))
        else Inr z)"
    have "\<exists>u. (if action = UNCOMPRESS then unpack_compressed lib 4 else unpack_raw 4) t
         = (case content of Inl e \<Rightarrow> Inl e | Inr _ \<Rightarrow> Inr (), u)
        \<and> fi_inv u \<and> fi_kept t u \<and> fi_rbc u = fi_rbc t \<and> (\<forall>y. content = Inr y \<longrightarrow> fi_loaded y u)"
    proof (cases "action = UNCOMPRESS")
      case True
      have z': "z = drop 4 (take (nat len) (bb_data i))" by (simp add: z_def i(4))
      obtain u where u: "unpack_compressed lib 4 t =
         (case parse_length lib z of None \<Rightarrow> Inl (throw_error 2)
          | Some m \<Rightarrow> if fst (uncompress_raw lib z) then Inr () else Inl (throw_error 5), u)"
        "fi_inv u" "fi_kept t u" "fi_rbc u = fi_rbc t"
        "parse_length lib z \<noteq> None \<Longrightarrow> fst (uncompress_raw lib z) \<Longrightarrow> fi_loaded (snd (uncompress_raw lib z)) u"
        by (rule unpack_compressed_ok [OF lib t(2,4) i(1-3) wf l4 z']) (use small [OF True] z_def in auto)
      then show ?thesis using True by (intro exI [of _ u]) (auto simp: content_def split: option.splits)
    next
      case False
      obtain u where u: "unpack_raw 4 t = (Inr (), u)" "fi_inv u" "fi_kept t u" "fi_rbc u = fi_rbc t"
        "fi_loaded (drop 4 (take (nat len) (bb_data i))) u"
        by (rule unpack_raw_ok [OF t(2) i(1-3) wf l4])
      then show ?thesis using False i(4) by (intro exI [of _ u]) (simp add: content_def z_def)
    qed
    then obtain u where u: "(if action = UNCOMPRESS then unpack_compressed lib 4 else unpack_raw 4) t
         = (case content of Inl e \<Rightarrow> Inl e | Inr _ \<Rightarrow> Inr (), u)"
        "fi_inv u" "fi_kept t u" "fi_rbc u = fi_rbc t" "\<And>y. content = Inr y \<Longrightarrow> fi_loaded y u" by blast
    have uf: "unpack_frame lib action len s = bindS (if action = UNCOMPRESS then unpack_compressed lib 4 else unpack_raw 4)
        (\<lambda>_. verify_frame (le_int (take 4 body))) t"
      using False t(1) fd by (simp add: unpack_frame_def bindS_def)
    have spec: "unpack_spec lib v action body = bindE content
       (\<lambda>y. if v \<and> le_int (take 4 body) \<noteq> masked_crc y
            then Inl (IOException ''Corrupt input: invalid checksum'') else Inr y)" for v
      by (auto simp: unpack_spec_def content_def z_def split: option.splits prod.splits)
    have ku: "fi_kept s u" "verifyChecksums u = verifyChecksums s" using fi_kept_trans [OF t(3) u(3)] by (simp_all add: fi_kept_def)
    show thesis
    proof (cases content)
      case (Inl e)
      then have "unpack_frame lib action len s = (Inl e, u)" by (simp add: uf bindS_def u(1))
      then show thesis using that [of u] False Inl spec u(2,4) ku(1) t(5) by simp
    next
      case (Inr y)
      obtain s' where s': "verify_frame (le_int (take 4 body)) u = (if verifyChecksums u \<and> le_int (take 4 body) \<noteq> masked_crc y
         then Inl (IOException ''Corrupt input: invalid checksum'') else Inr (), s')"
        "fi_inv s'" "fi_loaded y s'" "fi_kept u s'" "fi_rbc s' = fi_rbc u"
        by (rule verify_frame_ok [OF u(2) u(5) [OF Inr]])
      have "unpack_frame lib action len s = verify_frame (le_int (take 4 body)) u" by (simp add: uf bindS_def u(1) Inr)
      then show thesis
        using that [of s'] False Inr spec s' u(4) ku t(5) fi_kept_trans [OF ku(1) s'(4)]
        by (cases "verifyChecksums s \<and> le_int (take 4 body) \<noteq> masked_crc y") simp_all
    qed
  qed
qed

section \<open>The next chunk\<close>

lemma getFrameMetaData_bounds:
  assumes "getFrameMetaData h = Inr (action, n)"
  shows "0 \<le> n" and "n < 2 ^ 24" and "action \<noteq> SKIP \<Longrightarrow> 5 \<le> n"
proof -
  have n: "n = uint (h ! 1) + uint (h ! 2) * 2 ^ 8 + uint (h ! 3) * 2 ^ 16"
    using assms by (auto simp: getFrameMetaData_def Let_def three_bytes bindE_Inr_iff split: if_splits)
  have b: "uint (h ! i) < 256" for i using uint_lt2p [of "h ! i"] by simp
  show "0 \<le> n" by (simp add: n)
  show "n < 2 ^ 24" using b [of 1] b [of 2] b [of 3] by (simp add: n)
  show "action \<noteq> SKIP \<Longrightarrow> 5 \<le> n"
    using assms by (auto simp: getFrameMetaData_def Let_def bindE_Inr_iff split: if_splits)
qed

lemma readBlockHeader_ok:
  assumes inv: "fi_inv s" "fi_available s \<le> 0" and d: "d = src_data (fi_rbc s)"
  obtains s' where "readBlockHeader s =
       (if d = [] then Inr False else if length d < 4 then Inl EOFException else Inr True, s')"
    and "fi_inv s'" and "fi_kept s s'" and "fi_available s' \<le> 0" and "src_data (fi_rbc s') = drop 4 d"
    and "4 \<le> length d \<Longrightarrow> bb_data (frameHeader s') = take 4 d"
proof -
  define b where "b = bb_clear (frameHeader s)"
  have b: "bb_wf b" "bb_remaining b = 4" "bb_pos b = 0" "bb_limit b = 4" "length (bb_data b) = 4"
    using inv by (simp_all add: fi_inv_def b_def bb_clear_def bb_wf_def bb_capacity_def bb_remaining_def)
  have b0: "0 < bb_remaining b" using b(2) by simp
  define k where "k = min 4 (length d)"
  have k: "k = min (nat (bb_remaining b)) (length (src_data (fi_rbc s)))" by (simp add: k_def b(2) d)
  obtain src' where r: "readBytes (b, fi_rbc s) =
     (if k = 0 then (- 1, (b\<lparr>bb_pos := bb_limit b\<rparr>, src'))
      else (int k, (b\<lparr>bb_data := blit (bb_data b) (bb_pos b) (take k (src_data (fi_rbc s))), bb_pos := bb_pos b + int k,
              bb_limit := bb_pos b + int k\<rparr>, src')))"
    "src_data src' = drop k (src_data (fi_rbc s))"
    by (rule readBytes_result [OF b(1) b0 k])
  have dk: "src_data src' = drop 4 d" using r(2) by (simp add: k_def min_def d)
  have keep: "fi_inv (s\<lparr>frameHeader := x, fi_rbc := src'\<rparr>)" if "length (bb_data x) = 4" for x
    using inv that by (simp add: fi_inv_def fi_available_def split: if_splits)
  have rest: "fi_kept s (s\<lparr>frameHeader := x, fi_rbc := src'\<rparr>)" "fi_available (s\<lparr>frameHeader := x, fi_rbc := src'\<rparr>) \<le> 0" for x
    using inv(2) by (simp_all add: fi_kept_def fi_available_def split: if_splits)
  define x where "x = b\<lparr>bb_data := blit (bb_data b) 0 (take k d), bb_pos := int k, bb_limit := int k\<rparr>"
  have lx: "length (bb_data x) = 4" using b(5) by (auto simp: x_def blit_def k_def)
  have xr: "readBytes (b, fi_rbc s) = (int k, (x, src'))" if "k \<noteq> 0" using r(1) that b(3) by (simp add: x_def d)
  consider "d = []" | "d \<noteq> []" "length d < 4" | "4 \<le> length d" by linarith
  then show thesis
  proof cases
    case 1
    then have "readBlockHeader s = (Inr False, s\<lparr>frameHeader := b\<lparr>bb_pos := 4\<rparr>, fi_rbc := src'\<rparr>)"
      using r(1) b(4) by (simp add: readBlockHeader_def b_def [symmetric] k_def)
    then show thesis using that [OF _ keep rest] 1 dk b(5) by simp
  next
    case 2
    then have k: "k = length d" "0 < k" "k < 4" by (simp_all add: k_def)
    have "readBlockHeader s = (Inl EOFException, s\<lparr>frameHeader := x, fi_rbc := src'\<rparr>)"
      using xr k lx by (simp add: readBlockHeader_def b_def [symmetric] bb_capacity_def)
    then show thesis using that [OF _ keep [OF lx] rest] 2 dk by simp
  next
    case 3
    then have k: "k = 4" by (simp add: k_def)
    have "bb_data x = take 4 d" using b(5) 3 k by (simp add: x_def blit_def)
    moreover have "readBlockHeader s = (Inr True, s\<lparr>frameHeader := bb_flip x, fi_rbc := src'\<rparr>)"
      using xr k lx by (simp add: readBlockHeader_def b_def [symmetric] bb_capacity_def)
    moreover have "d \<noteq> []" using 3 by auto
    ultimately show thesis using that [OF _ keep rest, of "bb_flip x"] 3 dk lx by (simp add: bb_flip_def)
  qed
qed

lemma skip_frame_ok:
  assumes inv: "fi_inv s" "fi_available s \<le> 0" and n: "0 \<le> n"
  obtains s' where "skip_frame n s = (Inr (), s')" and "fi_inv s'" and "fi_kept s s'" and "fi_available s' \<le> 0"
    and "src_data (fi_rbc s') = drop (nat n) (src_data (fi_rbc s))"
proof -
  obtain b where b: "fi_buffer s = Some b" "65541 \<le> arr_len b" using inv by (auto simp: fi_inv_def)
  let ?x = "\<lparr>bb_data = b, bb_pos = 0, bb_limit = int (length b), bb_direct = False\<rparr>"
  have "0 < bb_capacity ?x" using b(2) by (cases b) (simp_all add: bb_capacity_def arr_len_def)
  then obtain k c src' where c: "skip_bytes n (?x, fi_rbc s) = (Inr k, (c, src'))" "length (bb_data c) = length b"
    "src_data src' = drop (nat n) (src_data (fi_rbc s))"
    using skip_bytes_result [OF _ n, of ?x "fi_rbc s"] by auto
  let ?s = "s\<lparr>fi_buffer := Some (bb_data c), fi_rbc := src'\<rparr>"
  have "skip_frame n s = (Inr (), ?s)" using c(1) b(1) by (simp add: skip_frame_def from_buffer_ok)
  moreover have "fi_available ?s = fi_available s" by (simp add: fi_available_def)
  moreover from this have "fi_inv ?s" using inv b(1) c(2) unfolding fi_inv_def by (simp add: arr_len_def)
  ultimately show thesis using that [of ?s] inv(2) c(3) by (simp add: fi_kept_def)
qed

lemma ensure_step_ok:
  assumes lib: "frame_lib lib" and inv: "fi_inv s" "fi_available s \<le> 0" "\<not> fi_eof s"
    and h: "modest_chunk lib (src_data (fi_rbc s))"
    and c: "next_chunk lib (verifyChecksums s) (src_data (fi_rbc s)) = (c, d')"
  obtains s' where "ensure_step lib s =
       (case c of Data _ \<Rightarrow> Inr Filled | Pass \<Rightarrow> Inr Skipped | Finish \<Rightarrow> Inr AtEnd | Broken e \<Rightarrow> Inl e, s')"
    and "fi_inv s'" and "src_data (fi_rbc s') = d'" and "verifyChecksums s' = verifyChecksums s"
    and "fi_eof s' \<longleftrightarrow> c = Finish"
    and "\<And>y. fst (next_chunk lib False (src_data (fi_rbc s))) = Data y \<Longrightarrow> fi_loaded y s'"
    and "c = Pass \<or> c = Finish \<Longrightarrow> fi_available s' \<le> 0"
proof -
  define d where "d = src_data (fi_rbc s)"
  obtain t where t: "readBlockHeader s =
       (if d = [] then Inr False else if length d < 4 then Inl EOFException else Inr True, t)"
    "fi_inv t" "fi_kept s t" "fi_available t \<le> 0" "src_data (fi_rbc t) = drop 4 d"
    "4 \<le> length d \<Longrightarrow> bb_data (frameHeader t) = take 4 d"
    using readBlockHeader_ok [OF inv(1,2) d_def] by blast
  have kt: "verifyChecksums t = verifyChecksums s" "\<not> fi_eof t" using t(3) inv(3) by (simp_all add: fi_kept_def)
  note nc = c [unfolded next_chunk_code d_def [symmetric]] and nf = next_chunk_code [of lib False d]
  have es: "ensure_step lib s = bindS readBlockHeader (\<lambda>ok.
       if \<not> ok then bindS (modifyS (\<lambda>s. s\<lparr>fi_eof := True\<rparr>)) (\<lambda>_. returnS AtEnd)
       else
         bindS (getS (\<lambda>s. liftE (getFrameMetaData (bb_data (frameHeader s))))) (\<lambda>(action, len).
         if action = SKIP then bindS (skip_frame len) (\<lambda>_. returnS Skipped)
         else bindS (unpack_frame lib action len) (\<lambda>_. returnS Filled))) s"
    using inv(2,3) by (simp add: ensure_step_def getS_def)
  consider "d = []" | "d \<noteq> []" "length d < 4" | "4 \<le> length d" by linarith
  then show thesis
  proof cases
    case 1
    let ?t = "t\<lparr>fi_eof := True\<rparr>"
    have a: "fi_available ?t = fi_available t" by (simp add: fi_available_def)
    have "fi_inv ?t" using t(2) a unfolding fi_inv_def by simp
    moreover have "ensure_step lib s = (Inr AtEnd, ?t)" using 1 t(1) by (simp add: es bindS_def modifyS_def returnS_def)
    moreover have "c = Finish" "d' = []" using nc 1 by simp_all
    ultimately show thesis using that [of ?t] 1 t(4,5) kt a nf by (simp add: d_def [symmetric])
  next
    case 2
    then have "ensure_step lib s = (Inl EOFException, t)" using t(1) by (simp add: es bindS_def)
    moreover have "c = Broken EOFException" "d' = []" using nc 2 by simp_all
    ultimately show thesis using that [of t] 2 t(2,5) kt nf by (simp add: d_def [symmetric])
  next
    case 3
    then have ne: "d \<noteq> []" "\<not> length d < 4" by auto
    have es': "ensure_step lib s = bindS (liftE (getFrameMetaData (take 4 d))) (\<lambda>(action, len).
         if action = SKIP then bindS (skip_frame len) (\<lambda>_. returnS Skipped)
         else bindS (unpack_frame lib action len) (\<lambda>_. returnS Filled)) t"
      using ne t(1) t(6) [OF 3] by (simp add: es bindS_def getS_def)
    show thesis
    proof (cases "getFrameMetaData (take 4 d)")
      case (Inl e)
      then have "ensure_step lib s = (Inl e, t)" by (simp add: es' bindS_def liftE_def)
      moreover have "c = Broken e" "d' = drop 4 d" using nc ne Inl by simp_all
      ultimately show thesis using that [of t] t(2,5) kt nf ne Inl by (simp add: d_def [symmetric])
    next
      case (Inr an)
      obtain action n where an: "an = (action, n)" by fastforce
      note b = getFrameMetaData_bounds [OF Inr [unfolded an]]
      have dd: "drop (nat n) (drop 4 d) = drop (4 + nat n) d" by (simp add: add.commute)
      show thesis
      proof (cases "action = SKIP")
        case True
        obtain u where u: "skip_frame n t = (Inr (), u)" "fi_inv u" "fi_kept t u" "fi_available u \<le> 0"
          "src_data (fi_rbc u) = drop (nat n) (src_data (fi_rbc t))"
          by (rule skip_frame_ok [OF t(2,4) b(1)])
        have "ensure_step lib s = (Inr Skipped, u)"
          using Inr an True u(1) by (simp add: es' bindS_def liftE_def returnS_def)
        moreover have "c = Pass" "d' = drop (4 + nat n) d" using nc ne Inr an True by simp_all
        ultimately show thesis
          using that [of u] u t(5) kt dd nf ne Inr an True by (simp add: fi_kept_def d_def [symmetric])
      next
        case False
        define body where "body = take (nat n) (src_data (fi_rbc t))"
        have small: "int m \<le> int_max" if "action = UNCOMPRESS" "parse_length lib (drop 4 body) = Some m" for m
          using h that Inr an 3 unfolding modest_chunk_code d_def [symmetric] body_def t(5) by simp
        have n5: "5 \<le> n" "n \<le> 2 ^ 24" using b(2,3) False by simp_all
        obtain u where u: "unpack_frame lib action n t =
           (if int (length (src_data (fi_rbc t))) < n then Inl EOFException
            else case unpack_spec lib (verifyChecksums t) action body of Inl e \<Rightarrow> Inl e | Inr _ \<Rightarrow> Inr (), u)"
          "fi_inv u" "fi_kept t u" "src_data (fi_rbc u) = drop (nat n) (src_data (fi_rbc t))"
          "\<And>y. n \<le> int (length (src_data (fi_rbc t))) \<Longrightarrow> unpack_spec lib False action body = Inr y \<Longrightarrow> fi_loaded y u"
          using unpack_frame_ok [OF lib t(2,4) n5 body_def small] by blast
        have lt: "int (length (src_data (fi_rbc t))) < n \<longleftrightarrow> length d < 4 + nat n" using 3 b(1) t(5) by auto
        have ku: "verifyChecksums u = verifyChecksums s" "\<not> fi_eof u" using u(3) kt by (simp_all add: fi_kept_def)
        have es2: "ensure_step lib s = bindS (unpack_frame lib action n) (\<lambda>_. returnS Filled) t"
          using Inr an False by (simp add: es' bindS_def [of "liftE _"] liftE_def)
        show thesis
        proof (cases "length d < 4 + nat n")
          case True
          then have "ensure_step lib s = (Inl EOFException, u)" using u(1) lt by (simp add: es2 bindS_def)
          moreover have "c = Broken EOFException" "d' = []" using nc ne Inr an False True by simp_all
          ultimately show thesis
            using that [of u] True u(2,4) t(5) ku nf ne Inr an False by (simp add: d_def [symmetric])
        next
          case nl: False
          define r where "r = unpack_spec lib (verifyChecksums s) action body"
          have uf: "unpack_frame lib action n t = (case r of Inl e \<Rightarrow> Inl e | Inr _ \<Rightarrow> Inr (), u)"
            using u(1) nl lt kt(1) by (simp add: r_def)
          have nc': "(c, d') = (case r of Inl e \<Rightarrow> (Broken e, drop (4 + nat n) d) | Inr y \<Rightarrow> (Data y, drop (4 + nat n) d))"
            using nc ne Inr an False nl by (simp add: r_def body_def t(5))
          have du: "src_data (fi_rbc u) = drop (4 + nat n) d" using u(4) t(5) dd by simp
          have nf': "next_chunk lib False d = (case unpack_spec lib False action body of
              Inl e \<Rightarrow> (Broken e, drop (4 + nat n) d) | Inr y \<Rightarrow> (Data y, drop (4 + nat n) d))"
            using nf ne Inr an False nl by (simp add: body_def t(5))
          have ld: "fi_loaded y u" if "fst (next_chunk lib False (src_data (fi_rbc s))) = Data y" for y
            using that u(5) [of y] nl lt unfolding d_def [symmetric] nf' by (simp add: not_less split: sum.splits)
          show thesis
          proof (cases r)
            case (Inl e)
            then have "ensure_step lib s = (Inl e, u)" by (simp add: es2 bindS_def uf)
            moreover have "c = Broken e" "d' = drop (4 + nat n) d" using nc' Inl by simp_all
            ultimately show thesis using that [of u] u(2) du ku ld by simp
          next
            case (Inr y)
            then have "ensure_step lib s = (Inr Filled, u)" by (simp add: es2 bindS_def uf returnS_def)
            moreover have "c = Data y" "d' = drop (4 + nat n) d" using nc' Inr by simp_all
            ultimately show thesis using that [of u] u(2) du ku ld by simp
          qed
        qed
      qed
    qed
  qed
qed

section \<open>ensureBuffer\<close>

lemma decode_stream_step:
  "next_chunk lib verify d = (Data y, d') \<Longrightarrow>
     decode_stream lib verify d = (y # fst (decode_stream lib verify d'), snd (decode_stream lib verify d'))"
  "next_chunk lib verify d = (Pass, d') \<Longrightarrow> decode_stream lib verify d = decode_stream lib verify d'"
  "next_chunk lib verify d = (Finish, d') \<Longrightarrow> decode_stream lib verify d = ([], None)"
  "next_chunk lib verify d = (Broken e, d') \<Longrightarrow> decode_stream lib verify d = ([], Some e)"
  by (subst decode_stream.simps; simp split: prod.splits)+

lemma decode_stream_Nil [simp]: "decode_stream lib verify [] = ([], None)"
  by (rule decode_stream_step) (simp add: next_chunk_code)

lemma modest_step:
  "modest lib verify d \<Longrightarrow> modest_chunk lib d"
  "modest lib verify d \<Longrightarrow> next_chunk lib verify d = (Data y, d') \<Longrightarrow> modest lib verify d'"
  "modest lib verify d \<Longrightarrow> next_chunk lib verify d = (Pass, d') \<Longrightarrow> modest lib verify d'"
  by (subst (asm) modest.simps; simp)+

text \<open>Between two chunks: what is left decodes to \<open>ys\<close> and ends with \<open>r\<close>.\<close>

definition fi_ready :: "snappy_lib \<Rightarrow> bytes list \<Rightarrow> exc option \<Rightarrow> SnappyFramedInputStream \<Rightarrow> bool" where
  "fi_ready lib ys r s \<longleftrightarrow> fi_inv s \<and> modest lib (verifyChecksums s) (src_data (fi_rbc s)) \<and> (fi_eof s \<longrightarrow> src_data (fi_rbc s) = []) \<and>
     decode_stream lib (verifyChecksums s) (src_data (fi_rbc s)) = (ys, r)"

lemma ensureBuffer_at_end: "fi_available s \<le> 0 \<Longrightarrow> fi_eof s \<Longrightarrow> ensureBuffer lib s = (Inr False, s)"
  by (subst ensureBuffer.simps) (simp add: ensure_step_def getS_def returnS_def)

lemma ensureBuffer_ok:
  assumes lib: "frame_lib lib"
  shows "fi_ready lib ys r s \<Longrightarrow> fi_available s \<le> 0 \<Longrightarrow>
    \<exists>s'. ensureBuffer lib s =
        (case ys of [] \<Rightarrow> (case r of None \<Rightarrow> Inr False | Some e \<Rightarrow> Inl e) | _ # _ \<Rightarrow> Inr True, s')
      \<and> verifyChecksums s' = verifyChecksums s
      \<and> (case ys of [] \<Rightarrow> (r = None \<longrightarrow> fi_ready lib [] None s' \<and> fi_available s' \<le> 0)
         | y # ys' \<Rightarrow> fi_loaded y s' \<and> fi_ready lib ys' r s' \<and> fi_left s' < fi_left s)"
proof (induction "fi_left s" arbitrary: s rule: less_induct)
  case less
  let ?v = "verifyChecksums s" and ?d = "src_data (fi_rbc s)"
  have inv: "fi_inv s" "modest lib ?v ?d" "decode_stream lib ?v ?d = (ys, r)" using less.prems(1) by (simp_all add: fi_ready_def)
  show ?case
  proof (cases "fi_eof s")
    case True
    then have "?d = []" using less.prems(1) by (simp add: fi_ready_def)
    then have "ys = []" "r = None" using inv(3) by simp_all
    then show ?thesis using ensureBuffer_at_end [OF less.prems(2) True] less.prems by simp
  next
    case False
    obtain c d' where c: "next_chunk lib ?v ?d = (c, d')" by fastforce
    obtain t where t: "ensure_step lib s =
       (case c of Data _ \<Rightarrow> Inr Filled | Pass \<Rightarrow> Inr Skipped | Finish \<Rightarrow> Inr AtEnd | Broken e \<Rightarrow> Inl e, t)"
      "fi_inv t" "src_data (fi_rbc t) = d'" "verifyChecksums t = ?v" "fi_eof t \<longleftrightarrow> c = Finish"
      "\<And>y. fst (next_chunk lib False ?d) = Data y \<Longrightarrow> fi_loaded y t" "c = Pass \<or> c = Finish \<Longrightarrow> fi_available t \<le> 0"
      using ensure_step_ok [OF lib inv(1) less.prems(2) False modest_step(1) [OF inv(2)] c] by blast
    note sf = modest_step(2,3) [OF inv(2)]
    have lt: "c \<noteq> Finish \<Longrightarrow> fi_left t < fi_left s" using next_chunk_shorter [OF c] t(3) by (simp add: fi_left_def)
    note e = ensureBuffer.simps [of lib s]
    show ?thesis
    proof (cases c)
      case (Data y)
      obtain ys' where ys: "ys = y # ys'" "decode_stream lib ?v d' = (ys', r)"
        using decode_stream_step(1) [of lib ?v ?d y d'] c Data inv(3) by (cases "decode_stream lib ?v d'") auto
      have "fi_ready lib ys' r t" using t Data sf(1) [OF c [unfolded Data]] ys(2) by (simp add: fi_ready_def)
      then show ?thesis
        using e t(1,4) t(6) [of y] next_chunk_unverified [of lib ?v ?d y d'] c Data ys(1) lt by simp
    next
      case Pass
      have "decode_stream lib ?v d' = (ys, r)" using decode_stream_step(2) [of lib ?v ?d d'] c Pass inv(3) by simp
      then have "fi_ready lib ys r t" using t Pass sf(2) [OF c [unfolded Pass]] by (simp add: fi_ready_def)
      moreover have av: "fi_available t \<le> 0" using t(7) Pass by simp
      moreover have l: "fi_left t < fi_left s" using lt Pass by simp
      ultimately obtain u where u: "ensureBuffer lib t =
        (case ys of [] \<Rightarrow> (case r of None \<Rightarrow> Inr False | Some e \<Rightarrow> Inl e) | _ # _ \<Rightarrow> Inr True, u)"
        "verifyChecksums u = verifyChecksums t"
        "case ys of [] \<Rightarrow> (r = None \<longrightarrow> fi_ready lib [] None u \<and> fi_available u \<le> 0)
         | y # ys' \<Rightarrow> fi_loaded y u \<and> fi_ready lib ys' r u \<and> fi_left u < fi_left t"
        using less.hyps [OF l] by blast
      have "ensureBuffer lib s = ensureBuffer lib t" using e t(1) Pass l by simp
      then show ?thesis using u t(4) l by (intro exI [of _ u]) (auto split: list.splits)
    next
      case Finish
      have d: "ys = []" "r = None" using decode_stream_step(3) [of lib ?v ?d d'] c Finish inv(3) by simp_all
      have "d' = []" using c Finish by (auto simp: next_chunk_code split: if_splits sum.splits prod.splits)
      moreover have "modest lib ?v []" by (subst modest.simps) (simp add: next_chunk_code modest_chunk_code)
      ultimately have "fi_ready lib [] None t" using t by (simp add: fi_ready_def)
      then show ?thesis using e t(1,4) t(7) Finish d by simp
    next
      case (Broken x)
      have "ys = []" "r = Some x" using decode_stream_step(4) [of lib ?v ?d x d'] c Broken inv(3) by simp_all
      then show ?thesis using e t(1,4) Broken by simp
    qed
  qed
qed

section \<open>transferTo\<close>

lemma fi_loaded_parts:
  assumes "fi_loaded y s" and "fi_inv s"
  obtains b where "fi_buffer s = Some b" and "fi_position s = 0" and "fi_available s = int (length y)"
    and "in_range 0 (int (length y)) (length b)" and "segment 0 (int (length y)) b = y" and "fi_valid s = int (length y)"
  using assms that by (auto simp: fi_loaded_def fi_inv_def fi_available_def in_range_def)

lemma fi_ready_position:
  assumes "fi_ready lib ys r s" and "0 \<le> n" and "fi_valid s - n \<le> fi_valid s - fi_position s \<or> fi_valid s \<le> n"
  shows "fi_ready lib ys r (s\<lparr>fi_position := n\<rparr>)"
  using assms by (auto simp: fi_ready_def fi_inv_def fi_available_def split: if_splits)

lemma transfer_out_ok:
  assumes lib: "frame_lib lib"
  shows "fi_ready lib ys r s \<Longrightarrow> fi_available s \<le> 0 \<Longrightarrow> (\<And>k. \<not> sink_fail os k) \<Longrightarrow>
    \<exists>os' s'. transfer_out lib n (os, s) =
        (case r of None \<Rightarrow> Inr (n + int (length (concat ys))) | Some e \<Rightarrow> Inl e, (os', s'))
      \<and> sink_data os' = sink_data os @ concat ys"
proof (induction ys arbitrary: s os n)
  case Nil
  then show ?case using ensureBuffer_ok [OF lib Nil.prems(1,2)]
    by (subst transfer_out.simps) (cases r; auto)
next
  case (Cons y ys)
  obtain t where t: "ensureBuffer lib s = (Inr True, t)" "fi_loaded y t" "fi_ready lib ys r t" "fi_left t < fi_left s"
    using ensureBuffer_ok [OF lib Cons.prems(1,2)] by auto
  have inv: "fi_inv t" using t(3) by (simp add: fi_ready_def)
  obtain b where b: "fi_buffer t = Some b" "fi_position t = 0" "fi_available t = int (length y)"
    "in_range 0 (int (length y)) (length b)" "segment 0 (int (length y)) b = y" "fi_valid t = int (length y)"
    by (rule fi_loaded_parts [OF t(2) inv])
  define os1 where "os1 = os\<lparr>sink_calls := Suc (sink_calls os), sink_data := sink_data os @ y\<rparr>"
  have w: "sink_write y os = (Inr (), os1)" using Cons.prems(3) by (simp add: sink_write_def sink_call_def Let_def os1_def)
  define u where "u = t\<lparr>fi_position := int (length y)\<rparr>"
  have u: "fi_ready lib ys r u" "fi_available u \<le> 0" "fi_left u = fi_left t"
    using fi_ready_position [OF t(3), of "int (length y)"] b(6) by (simp_all add: u_def fi_available_def fi_left_def)
  have todo: "fi_todo u < fi_todo s" using u(2,3) t(4) by (simp add: fi_todo_def)
  have "transfer_out lib n (os, s) = transfer_out lib (n + int (length y)) (os1, u)"
    using t(1) b w todo by (subst transfer_out.simps) (simp add: Let_def u_def)
  moreover obtain os' s' where "transfer_out lib (n + int (length y)) (os1, u) =
        (case r of None \<Rightarrow> Inr (n + int (length y) + int (length (concat ys))) | Some e \<Rightarrow> Inl e, (os', s'))"
    "sink_data os' = sink_data os1 @ concat ys"
    using Cons.IH [where os = os1 and n = "n + int (length y)", OF u(1,2)] Cons.prems(3) by (auto simp: os1_def)
  ultimately show ?case by (cases r) (simp_all add: os1_def add.assoc)
qed

section \<open>Creation\<close>

lemma new_framed_input_ok:
  assumes lib: "frame_lib lib" and pool: "good_pool pool"
  shows "(\<exists>s. new_SnappyFramedInputStream lib src verify pool = Inr s \<and> src_data src = HEADER_BYTES @ src_data (fi_rbc s)
        \<and> fi_inv s \<and> \<not> fi_eof s \<and> fi_available s \<le> 0 \<and> verifyChecksums s = verify)
    \<or> (\<not> prefix HEADER_BYTES (src_data src)
        \<and> new_SnappyFramedInputStream lib src verify pool
          = Inl (if length (src_data src) < 10 then EOFException else IOException ''invalid stream header''))"
proof -
  define s0 where "s0 = \<lparr>fi_crc = new_crc, fi_rbc = src,
         frameHeader = \<lparr>bb_data = replicate 4 0, bb_pos = 0, bb_limit = 4, bb_direct = False\<rparr>,
         verifyChecksums = verify, fi_pool = pool, fi_input = None, uncompressedDirect = None,
         fi_closed = False, fi_eof = False, fi_valid = 0, fi_position = 0, fi_buffer = None, fi_array = 0\<rparr>"
  have g: "good_pool (fi_pool s0)" "\<And>b. fi_input s0 = Some b \<Longrightarrow> bb_direct b" "\<And>b. uncompressedDirect s0 = Some b \<Longrightarrow> bb_direct b"
    using pool by (simp_all add: s0_def)
  have sz: "0 < FRAMED_MAX_BLOCK_SIZE + 5" "FRAMED_MAX_BLOCK_SIZE + 5 \<le> 2 ^ 24" by (simp_all add: FRAMED_MAX_BLOCK_SIZE_def)
  obtain i u b p where a: "allocateBuffersBasedOnSize lib (FRAMED_MAX_BLOCK_SIZE + 5) s0
        = (Inr (), s0\<lparr>fi_pool := p, fi_input := Some i, uncompressedDirect := Some u, fi_buffer := Some b, fi_array := Suc (fi_array s0)\<rparr>)"
      "good_pool p" "bb_direct i" "bb_direct u" "FRAMED_MAX_BLOCK_SIZE + 5 \<le> bb_capacity i" "bb_capacity i \<le> arr_len b"
      "arr_len b = bb_capacity u" "arr_len b \<le> int_max"
    by (rule allocateBuffers_ok [OF lib sz g])
  define s1 where "s1 = s0\<lparr>fi_pool := p, fi_input := Some i, uncompressedDirect := Some u, fi_buffer := Some b, fi_array := Suc (fi_array s0)\<rparr>"
  have inv1: "fi_inv (s1\<lparr>fi_rbc := x\<rparr>)" for x
    using a(2-8) by (simp add: fi_inv_def s1_def s0_def fi_available_def FRAMED_MAX_BLOCK_SIZE_def)
  define h where "h = \<lparr>bb_data = replicate 10 (0 :: byte), bb_pos = 0, bb_limit = 10, bb_direct = False\<rparr>"
  have h: "bb_wf h" "0 < bb_remaining h" by (simp_all add: h_def bb_wf_def bb_capacity_def bb_remaining_def)
  define k where "k = min 10 (length (src_data src))"
  have k: "k = min (nat (bb_remaining h)) (length (src_data src))" by (simp add: k_def h_def bb_remaining_def)
  obtain src' where r: "readBytes (h, src) =
     (if k = 0 then (- 1, (h\<lparr>bb_pos := bb_limit h\<rparr>, src'))
      else (int k, (h\<lparr>bb_data := blit (bb_data h) (bb_pos h) (take k (src_data src)), bb_pos := bb_pos h + int k,
              bb_limit := bb_pos h + int k\<rparr>, src')))"
    "src_data src' = drop k (src_data src)"
    by (rule readBytes_result [OF h k])
  have rh: "read_header s1 = (if length (src_data src) < 10 then Inl EOFException
      else if HEADER_BYTES \<noteq> take 10 (src_data src) then Inl (IOException ''invalid stream header'') else Inr (),
      s1\<lparr>fi_rbc := src'\<rparr>)"
  proof (cases "length (src_data src) < 10")
    case True
    then have "fst (readBytes (h, src)) < 10 \<and> snd (snd (readBytes (h, src))) = src'" using r(1) by (simp add: k_def)
    then show ?thesis using True by (cases "readBytes (h, src)") (simp add: read_header_def h_def s1_def s0_def)
  next
    case False
    then have k10: "k = 10" by (simp add: k_def)
    have "blit (replicate 10 0) 0 (take 10 (src_data src)) = take 10 (src_data src)"
      using False by (simp add: blit_def)
    then have "readBytes (h, src) = (10, (h\<lparr>bb_data := take 10 (src_data src), bb_pos := 10, bb_limit := 10\<rparr>, src'))"
      using r(1) k10 by (simp add: h_def)
    then show ?thesis using False by (simp add: read_header_def h_def s1_def s0_def)
  qed
  have n: "new_SnappyFramedInputStream lib src verify pool = (case read_header s1 of (Inl e, _) \<Rightarrow> Inl e | (Inr _, s) \<Rightarrow> Inr s)"
    unfolding new_SnappyFramedInputStream_def s0_def [symmetric] s1_def by (simp add: bindS_def a(1))
  show ?thesis
  proof (cases "prefix HEADER_BYTES (src_data src)")
    case True
    then obtain d where d: "src_data src = HEADER_BYTES @ d" by (auto simp: prefix_def)
    then have "new_SnappyFramedInputStream lib src verify pool = Inr (s1\<lparr>fi_rbc := src'\<rparr>)" "src_data src' = d"
      using r(2) by (simp_all add: n rh k_def)
    then show ?thesis using inv1 d by (intro disjI1 exI [of _ "s1\<lparr>fi_rbc := src'\<rparr>"]) (simp add: s1_def s0_def fi_available_def)
  next
    case False
    then have "HEADER_BYTES \<noteq> take 10 (src_data src)" by (metis take_is_prefix)
    then show ?thesis using False by (simp add: n rh)
  qed
qed

end
