(* ===== verification/Framed_Sessions.thy ===== *)
theory Framed_Sessions
  imports Framed_Input_Proofs
begin

text \<open>
  The frames of the writer decode to the blocks that were written, and the reading methods deliver what
  the stream holds: any sequence of reads takes the held bytes from the front, in order.
\<close>

section \<open>Frames of the writer\<close>

lemma uint_of_byte: "uint (word_of_int n :: byte) = n mod 256"
  by (simp add: uint_word_of_int)

lemma le24_value:
  assumes "0 \<le> (n :: int)" and "n < 2 ^ 24"
  shows "n mod 256 + n div 2 ^ 8 mod 256 * 2 ^ 8 + n div 2 ^ 16 mod 256 * 2 ^ 16 = n"
proof -
  define q where "q = n div 256"
  have q: "q div 256 = n div 2 ^ 16" unfolding q_def using zdiv_zmult2_eq [of 256 n 256] by simp
  have "n div 2 ^ 16 < 256" using assms(2) by simp
  then have "q div 256 mod 256 = q div 256" using assms(1) unfolding q by (intro mod_pos_pos_trivial) simp_all
  moreover have "n mod 256 + q mod 256 * 256 + q div 256 * 65536 = n" unfolding q_def by presburger
  moreover have "n div 2 ^ 8 = q" by (simp add: q_def)
  ultimately show ?thesis unfolding q [symmetric] by simp
qed

lemma frame_metadata:
  assumes "5 \<le> n" and "n < 2 ^ 24"
  shows "getFrameMetaData ((if z then 0 else 1) # le24 n) = Inr (if z then UNCOMPRESS else RAW, n)"
proof -
  have nn: "0 \<le> n" using assms(1) by simp
  have v: "uint (word_of_int n :: byte) OR push_bit 8 (uint (word_of_int (n div 2 ^ 8) :: byte))
      OR push_bit 16 (uint (word_of_int (n div 2 ^ 16) :: byte)) = n"
    by (rule trans [OF three_bytes]) (unfold uint_of_byte, rule le24_value [OF nn assms(2)])
  have "getFrameMetaData [f, a, b, c] = Inr (if z then UNCOMPRESS else RAW, n)"
    if "f = (if z then 0 else 1)" "uint a OR push_bit 8 (uint b) OR push_bit 16 (uint c) = n" for f a b c :: byte
    using assms(1) that unfolding getFrameMetaData_def
    by (simp add: COMPRESSED_DATA_FLAG_def UNCOMPRESSED_DATA_FLAG_def)
  then show ?thesis using v unfolding le24_def by blast
qed

text \<open>A chunk with the checksum \<open>v\<close> and the content \<open>x\<close> at the front of the data.\<close>

lemma next_chunk_frame:
  assumes "x \<noteq> []" and "int (length x) + 4 < 2 ^ 24"
  shows "next_chunk lib verify (chunk_frame z v x @ rest) =
      (case unpack_spec lib verify (if z then UNCOMPRESS else RAW) (int_le v @ x) of
         Inl e \<Rightarrow> (Broken e, rest) | Inr y \<Rightarrow> (Data y, rest))"
    and "modest_chunk lib (chunk_frame z v x @ rest) \<longleftrightarrow>
      (z \<longrightarrow> (case parse_length lib x of None \<Rightarrow> True | Some m \<Rightarrow> int m \<le> int_max))"
proof -
  define n where "n = int (length x) + 4"
  define hd where "hd = (if z then 0 else 1 :: byte) # le24 n"
  define d where "d = chunk_frame z v x @ rest"
  have d: "d = hd @ (int_le v @ x) @ rest" by (simp add: chunk_frame_def hd_def d_def n_def)
  have lh: "length hd = 4" by (simp add: hd_def)
  have nb: "5 \<le> n" "n < 2 ^ 24" "nat n = length (int_le v @ x)" using assms by (cases x; simp add: n_def)+
  then have m: "getFrameMetaData hd = Inr (if z then UNCOMPRESS else RAW, n)"
    using frame_metadata unfolding hd_def by blast
  have ln: "length d = 4 + nat n + length rest" using lh nb(3) by (simp add: d)
  have t: "take 4 d = hd" "take (nat n) (drop 4 d) = int_le v @ x" "drop (4 + nat n) d = rest" "d \<noteq> []"
    "\<not> length d < 4" "\<not> length d < 4 + nat n" "4 \<le> length d"
    using lh nb(3) ln by (auto simp: d)
  have a: "(if z then UNCOMPRESS else RAW) \<noteq> SKIP" by simp
  show "next_chunk lib verify (chunk_frame z v x @ rest) =
      (case unpack_spec lib verify (if z then UNCOMPRESS else RAW) (int_le v @ x) of
         Inl e \<Rightarrow> (Broken e, rest) | Inr y \<Rightarrow> (Data y, rest))"
    unfolding d_def [symmetric] next_chunk_code by (simp only: t m a if_False sum.case prod.case)
  show "modest_chunk lib (chunk_frame z v x @ rest) \<longleftrightarrow>
      (z \<longrightarrow> (case parse_length lib x of None \<Rightarrow> True | Some m \<Rightarrow> int m \<le> int_max))"
    unfolding d_def [symmetric] modest_chunk_code using t(7) by (simp add: t(1,2) m)
qed

lemma unpack_frames:
  "unpack_spec lib verify RAW (int_le v @ x)
     = (if verify \<and> v \<noteq> masked_crc x then Inl (IOException ''Corrupt input: invalid checksum'') else Inr x)"
  "lib_roundtrip lib \<Longrightarrow> length x < 2 ^ 32 \<Longrightarrow> unpack_spec lib verify UNCOMPRESS (int_le v @ compress_raw lib x)
     = (if verify \<and> v \<noteq> masked_crc x then Inl (IOException ''Corrupt input: invalid checksum'') else Inr x)"
  by (simp_all add: unpack_spec_def lib_roundtrip_def le_int_le)

lemma compressed_block:
  assumes lib: "frame_lib lib" and x: "length x \<le> 65536"
  shows "compress_raw lib x \<noteq> []" and "int (length (compress_raw lib x)) + 4 < 2 ^ 24"
proof -
  have "parse_length lib (compress_raw lib x) = Some (length x)"
    using frame_lib_parts(3) [OF lib] x by (simp add: lib_roundtrip_def)
  then show "compress_raw lib x \<noteq> []" using lib by (auto simp: frame_lib_def)
  have "length (compress_raw lib x) \<le> max_compressed lib (length x)"
    using frame_lib_parts(1) [OF lib] compress_length_bound by (simp add: lib_ok_def)
  also have "\<dots> \<le> max_compressed lib 65536" using frame_lib_parts(2) [OF lib] x by (simp add: lib_mono_def)
  finally have "int (length (compress_raw lib x)) + 4 \<le> int (max_compressed lib 65536 + 4)" by simp
  also have "\<dots> < int (2 ^ 24)" using lib unfolding frame_lib_def of_nat_less_iff by blast
  finally show "int (length (compress_raw lib x)) + 4 < 2 ^ 24" by simp
qed

lemma next_chunk_data_frame:
  assumes lib: "frame_lib lib" and x: "x \<noteq> []" "length x \<le> 65536"
  shows "next_chunk lib verify (data_frame lib r x @ rest) = (Data x, rest)"
    and "modest_chunk lib (data_frame lib r x @ rest)"
proof -
  note c = compressed_block [OF lib x(2)]
  have s: "int (length x) + 4 < 2 ^ 24" "length x < 2 ^ 32" using x(2) by simp_all
  have p: "parse_length lib (compress_raw lib x) = Some (length x)" "int (length x) \<le> int_max"
    using frame_lib_parts(3) [OF lib] s(2) x(2) by (simp_all add: lib_roundtrip_def int_max_def)
  show "next_chunk lib verify (data_frame lib r x @ rest) = (Data x, rest)"
    using next_chunk_frame(1) [OF c, of lib verify True "masked_crc x" rest]
      next_chunk_frame(1) [OF x(1) s(1), of lib verify False "masked_crc x" rest]
      unpack_frames(1) unpack_frames(2) [OF frame_lib_parts(3) [OF lib] s(2)]
    by (auto simp: data_frame_def Let_def)
  show "modest_chunk lib (data_frame lib r x @ rest)"
    using next_chunk_frame(2) [OF c, of lib True "masked_crc x" rest]
      next_chunk_frame(2) [OF x(1) s(1), of lib False "masked_crc x" rest] p
    by (auto simp: data_frame_def Let_def)
qed

lemma modest_Nil [simp]: "modest lib verify []"
  by (subst modest.simps) (simp add: next_chunk_code modest_chunk_code)

lemma decode_frames:
  assumes lib: "frame_lib lib"
  shows "list_all (\<lambda>b. b \<noteq> [] \<and> length b \<le> 65536) bs \<Longrightarrow>
    decode_stream lib verify (concat (map (data_frame lib r) bs)) = (bs, None)
    \<and> modest lib verify (concat (map (data_frame lib r) bs))"
proof (induction bs)
  case (Cons b bs)
  have b: "b \<noteq> []" "length b \<le> 65536" using Cons.prems by simp_all
  note n = next_chunk_data_frame(1) [OF lib b, where r = r and verify = verify and rest = "concat (map (data_frame lib r) bs)"]
    next_chunk_data_frame(2) [OF lib b, where r = r and rest = "concat (map (data_frame lib r) bs)"]
  have "decode_stream lib verify (data_frame lib r b @ concat (map (data_frame lib r) bs)) = (b # bs, None)"
    using decode_stream_step(1) [OF n(1)] Cons by simp
  moreover have "modest lib verify (data_frame lib r b @ concat (map (data_frame lib r) bs))"
    using n Cons by (subst modest.simps) simp
  ultimately show ?case by simp
qed simp

section \<open>Sessions of reads\<close>

definition fi_unread :: "SnappyFramedInputStream \<Rightarrow> bytes" where
  "fi_unread s = (case fi_buffer s of None \<Rightarrow> [] | Some b \<Rightarrow> segment (fi_position s) (max 0 (fi_available s)) b)"

text \<open>The stream is going to deliver \<open>d\<close>: the rest of the current chunk and the chunks to come.\<close>

definition fi_holds :: "snappy_lib \<Rightarrow> bytes \<Rightarrow> SnappyFramedInputStream \<Rightarrow> bool" where
  "fi_holds lib d s \<longleftrightarrow> (\<exists>ys. fi_ready lib ys None s \<and> list_all (\<lambda>y. y \<noteq> []) ys \<and> d = fi_unread s @ concat ys)"

lemma ensureBuffer_filled: "0 < fi_available s \<Longrightarrow> ensureBuffer lib s = (Inr True, s)"
  by (subst ensureBuffer.simps) (simp add: ensure_step_def getS_def returnS_def)

lemma fi_available_buffer:
  assumes "fi_inv s" and "0 < fi_available s"
  obtains b where "fi_buffer s = Some b" and "in_range (fi_position s) (fi_available s) (length b)"
    and "fi_unread s = segment (fi_position s) (fi_available s) b"
    and "fi_valid s = fi_position s + fi_available s"
proof -
  obtain b where b: "fi_buffer s = Some b" "0 \<le> fi_position s" "fi_valid s \<le> arr_len b"
    using assms by (auto simp: fi_inv_def)
  have "\<not> fi_closed s" using assms(1) by (simp add: fi_inv_def)
  then have v: "fi_valid s = fi_position s + fi_available s" by (simp add: fi_available_def)
  moreover have "in_range (fi_position s) (fi_available s) (length b)"
    using b(2,3) v assms(2) by (simp add: in_range_def arr_len_def)
  moreover have "fi_unread s = segment (fi_position s) (fi_available s) b" using b(1) assms(2) by (simp add: fi_unread_def)
  ultimately show thesis using that b(1) by blast
qed

lemma fi_unread_empty: "fi_available s \<le> 0 \<Longrightarrow> fi_unread s = []"
  by (simp add: fi_unread_def max_def split: option.splits)

lemma fi_holds_ensure:
  assumes lib: "frame_lib lib" and h: "fi_holds lib d s"
  obtains s' where "ensureBuffer lib s = (Inr (d \<noteq> []), s')" and "fi_holds lib d s'"
    and "d \<noteq> [] \<Longrightarrow> 0 < fi_available s'"
proof -
  obtain ys where ys: "fi_ready lib ys None s" "list_all (\<lambda>y. y \<noteq> []) ys" "d = fi_unread s @ concat ys"
    using h by (auto simp: fi_holds_def)
  have inv: "fi_inv s" using ys(1) by (simp add: fi_ready_def)
  show thesis
  proof (cases "0 < fi_available s")
    case True
    obtain b where b: "in_range (fi_position s) (fi_available s) (length b)" "fi_unread s = segment (fi_position s) (fi_available s) b"
      by (rule fi_available_buffer [OF inv True])
    have "int (length (fi_unread s)) = fi_available s" using length_segment [OF b(1)] b(2) True by simp
    then have "d \<noteq> []" using True ys(3) by auto
    then show thesis using that [of s] ensureBuffer_filled [OF True] h True by simp
  next
    case False
    then have av: "fi_available s \<le> 0" by simp
    then have d: "d = concat ys" using ys(3) fi_unread_empty by simp
    note e = ensureBuffer_ok [OF lib ys(1) av]
    show thesis
    proof (cases ys)
      case Nil
      then obtain s' where s': "ensureBuffer lib s = (Inr False, s')" "fi_ready lib [] None s'" "fi_available s' \<le> 0"
        using e by auto
      have "fi_holds lib [] s'" using s'(2) fi_unread_empty [OF s'(3)] unfolding fi_holds_def by (intro exI [of _ "[]"]) simp
      then show thesis using that [of s'] s'(1) d Nil by simp
    next
      case (Cons y ys')
      then obtain s' where s': "ensureBuffer lib s = (Inr True, s')" "fi_loaded y s'" "fi_ready lib ys' None s'" using e by auto
      have inv': "fi_inv s'" using s'(3) by (simp add: fi_ready_def)
      obtain b where b: "fi_buffer s' = Some b" "fi_position s' = 0" "fi_available s' = int (length y)"
        "segment 0 (int (length y)) b = y"
        by (rule fi_loaded_parts [OF s'(2) inv'])
      have y: "y \<noteq> []" using ys(2) Cons by simp
      have "fi_unread s' = y" using b by (simp add: fi_unread_def)
      then have "fi_holds lib d s'" using s'(3) ys(2) d Cons unfolding fi_holds_def by (intro exI [of _ ys']) simp
      then show thesis using that [of s'] s'(1) d Cons y b(3) by simp
    qed
  qed
qed

text \<open>Taking \<open>n\<close> bytes from the current chunk.\<close>

lemma fi_holds_take:
  assumes h: "fi_holds lib d s" and n: "0 \<le> n" "n \<le> fi_available s" "0 < fi_available s"
  obtains b where "fi_buffer s = Some b" and "in_range (fi_position s) n (length b)"
    and "segment (fi_position s) n b = take (nat n) d" and "nat n \<le> length d"
    and "fi_holds lib (drop (nat n) d) (s\<lparr>fi_position := fi_position s + n\<rparr>)"
proof -
  obtain ys where ys: "fi_ready lib ys None s" "list_all (\<lambda>y. y \<noteq> []) ys" "d = fi_unread s @ concat ys"
    using h by (auto simp: fi_holds_def)
  have inv: "fi_inv s" using ys(1) by (simp add: fi_ready_def)
  let ?p = "fi_position s" and ?a = "fi_available s"
  obtain b where b: "fi_buffer s = Some b" "in_range ?p ?a (length b)" "fi_unread s = segment ?p ?a b" "fi_valid s = ?p + ?a"
    by (rule fi_available_buffer [OF inv n(3)])
  let ?s = "s\<lparr>fi_position := ?p + n\<rparr>"
  have cl: "\<not> fi_closed s" using inv by (simp add: fi_inv_def)
  then have av: "fi_available ?s = ?a - n" by (simp add: fi_available_def)
  have sp: "segment ?p n b @ segment (?p + n) (?a - n) b = fi_unread s"
    using segment_append_segment [of ?p n "?a - n" b] b(2,3) n by (simp add: in_range_def)
  have r: "in_range ?p n (length b)" using b(2) n by (simp add: in_range_def)
  then have ln: "length (segment ?p n b) = nat n" by (rule length_segment)
  have d: "d = segment ?p n b @ (segment (?p + n) (?a - n) b @ concat ys)" using ys(3) sp by simp
  have un: "fi_unread ?s = segment (?p + n) (?a - n) b" using b(1) av n by (simp add: fi_unread_def)
  have "fi_ready lib ys None ?s"
    by (rule fi_ready_position [OF ys(1)]) (use b(2,4) n in \<open>auto simp: in_range_def\<close>)
  moreover have "drop (nat n) d = fi_unread ?s @ concat ys" unfolding un by (subst d) (simp add: ln)
  ultimately have "fi_holds lib (drop (nat n) d) ?s" using ys(2) unfolding fi_holds_def by (intro exI [of _ ys]) simp
  moreover have "segment ?p n b = take (nat n) d" "nat n \<le> length d" by (subst d, simp add: ln)+
  ultimately show thesis using that b(1) r by blast
qed

section \<open>The reading methods\<close>

text \<open>\<open>n\<close> bytes are asked for: at least one is delivered unless the stream is exhausted.\<close>

definition fi_next :: "snappy_lib \<Rightarrow> bytes \<Rightarrow> int \<Rightarrow> SnappyFramedInputStream \<Rightarrow> bool" where
  "fi_next lib d n s1 \<longleftrightarrow> (if d = [] then fi_holds lib d s1
     else \<exists>k b. min n (fi_available s1) = int k \<and> 0 < k \<and> int k \<le> n \<and> k \<le> length d
       \<and> fi_buffer s1 = Some b \<and> in_range (fi_position s1) (int k) (length b)
       \<and> segment (fi_position s1) (int k) b = take k d
       \<and> fi_holds lib (drop k d) (s1\<lparr>fi_position := fi_position s1 + int k\<rparr>))"

lemma fi_next_end: "fi_next lib [] n s1 \<Longrightarrow> fi_holds lib [] s1"
  by (simp add: fi_next_def)

lemma fi_next_more:
  assumes "fi_next lib d n s1" and "d \<noteq> []"
  obtains k b where "min n (fi_available s1) = int k" and "0 < k" and "int k \<le> n" and "k \<le> length d"
    and "fi_buffer s1 = Some b" and "in_range (fi_position s1) (int k) (length b)"
    and "segment (fi_position s1) (int k) b = take k d"
    and "fi_holds lib (drop k d) (s1\<lparr>fi_position := fi_position s1 + int k\<rparr>)"
  using assms by (auto simp: fi_next_def)

lemma fi_holds_deliver:
  assumes lib: "frame_lib lib" and h: "fi_holds lib d s" and n: "0 < n"
  obtains s1 where "ensureBuffer lib s = (Inr (d \<noteq> []), s1)" and "fi_next lib d n s1"
proof -
  obtain s1 where s1: "ensureBuffer lib s = (Inr (d \<noteq> []), s1)" "fi_holds lib d s1" "d \<noteq> [] \<Longrightarrow> 0 < fi_available s1"
    using fi_holds_ensure [OF lib h] by blast
  have "fi_next lib d n s1"
  proof (cases "d = []")
    case False
    define m where "m = min n (fi_available s1)"
    have m: "0 \<le> m" "m \<le> fi_available s1" "0 < fi_available s1" "0 < m" "m \<le> n"
      using s1(3) [OF False] n by (auto simp: m_def)
    obtain b where b: "fi_buffer s1 = Some b" "in_range (fi_position s1) m (length b)"
      "segment (fi_position s1) m b = take (nat m) d" "nat m \<le> length d"
      "fi_holds lib (drop (nat m) d) (s1\<lparr>fi_position := fi_position s1 + m\<rparr>)"
      by (rule fi_holds_take [OF s1(2) m(1-3)])
    have e: "int (nat m) = m" using m(1) by simp
    show ?thesis unfolding fi_next_def m_def [symmetric] if_not_P [OF False]
      by (intro exI [of _ "nat m"] exI [of _ b]) (use b m e in simp)
  qed (use s1(2) in \<open>simp add: fi_next_def\<close>)
  then show thesis using that s1(1) by blast
qed

lemma fi_holds_open: "fi_holds lib d s \<Longrightarrow> \<not> fi_closed s"
  by (auto simp: fi_holds_def fi_ready_def fi_inv_def)

lemma fi_read_holds:
  assumes lib: "frame_lib lib" and h: "fi_holds lib d s"
    and r: "in_range off len (length out)" "0 < len" "int (length out) \<le> int_max"
  obtains k s' where "fi_read lib off len (out, s)
      = (if d = [] then (Inr (- 1), (out, s')) else (Inr (int k), (blit out off (take k d), s')))"
    and "fi_holds lib (drop k d) s'" and "k \<le> nat len" and "k \<le> length d" and "d \<noteq> [] \<Longrightarrow> 0 < k"
proof -
  obtain s1 where s1: "ensureBuffer lib s = (Inr (d \<noteq> []), s1)" "fi_next lib d len s1"
    by (rule fi_holds_deliver [OF lib h r(2)])
  have i: "i32 (off + len) = off + len" using r by (intro i32_id) (simp_all add: in_range_def int_max_def is_i32_def)
  have g: "fi_read lib off len (out, s) =
      (if d = [] then (Inr (- 1), (out, s1))
       else case fi_buffer s1 of None \<Rightarrow> (Inl NullPointerException, (out, s1))
         | Some b \<Rightarrow> (case arraycopy b (fi_position s1) out off (min len (fi_available s1)) of
              Inl e \<Rightarrow> (Inl e, (out, s1))
            | Inr out' \<Rightarrow> (Inr (min len (fi_available s1)),
                (out', s1\<lparr>fi_position := fi_position s1 + min len (fi_available s1)\<rparr>))))"
    using r fi_holds_open [OF h] s1(1) by (simp add: fi_read_def i in_range_def Let_def)
  show thesis
  proof (cases "d = []")
    case True
    then show thesis using g s1(2) fi_next_end by (intro that [where k = 0 and s' = s1]) simp_all
  next
    case False
    obtain k b where k: "min len (fi_available s1) = int k" "0 < k" "int k \<le> len" "k \<le> length d"
      "fi_buffer s1 = Some b" "in_range (fi_position s1) (int k) (length b)"
      "segment (fi_position s1) (int k) b = take k d"
      "fi_holds lib (drop k d) (s1\<lparr>fi_position := fi_position s1 + int k\<rparr>)"
      by (rule fi_next_more [OF s1(2) False])
    have "in_range off (int k) (length out)" using r(1) k(3) by (simp add: in_range_def)
    then show thesis using g False k
      by (intro that [where k = k and s' = "s1\<lparr>fi_position := fi_position s1 + int k\<rparr>"]) (simp_all add: arraycopy_def)
  qed
qed

lemma fi_read_byte_holds:
  assumes lib: "frame_lib lib" and h: "fi_holds lib d s"
  obtains s' where "fi_read_byte lib s = (Inr (case d of [] \<Rightarrow> - 1 | x # _ \<Rightarrow> uint x), s')" and "fi_holds lib (drop 1 d) s'"
proof -
  obtain s1 where s1: "ensureBuffer lib s = (Inr (d \<noteq> []), s1)" "fi_next lib d 1 s1"
    by (rule fi_holds_deliver [OF lib h zero_less_one])
  show thesis
  proof (cases d)
    case Nil
    then show thesis using s1 fi_next_end fi_holds_open [OF h]
      by (intro that [where s' = s1]) (simp_all add: fi_read_byte_def op_simps)
  next
    case (Cons x d')
    have ne: "d \<noteq> []" using Cons by simp
    obtain k b where k: "min 1 (fi_available s1) = int k" "0 < k" "int k \<le> 1" "k \<le> length d" "fi_buffer s1 = Some b" "in_range (fi_position s1) (int k) (length b)"
      "segment (fi_position s1) (int k) b = take k d"
      "fi_holds lib (drop k d) (s1\<lparr>fi_position := fi_position s1 + int k\<rparr>)"
      by (rule fi_next_more [OF s1(2) ne])
    have k1: "k = 1" using k(2,3) by simp
    have "array_get b (fi_position s1) = Inr x"
      using array_get_in [of "fi_position s1" 1 b 0] k(6,7) Cons by (simp add: k1)
    then show thesis using s1(1) k(5,8) Cons fi_holds_open [OF h]
      by (intro that [where s' = "s1\<lparr>fi_position := fi_position s1 + 1\<rparr>"])
        (simp_all add: fi_read_byte_def from_buffer_def op_simps k1)
  qed
qed

lemma fi_read_buffer_holds:
  assumes lib: "frame_lib lib" and h: "fi_holds lib d s" and dst: "bb_wf dst" "0 < bb_remaining dst"
  obtains k s' dst' where "fi_read_buffer lib (dst, s)
      = (if d = [] then (Inr (- 1), (dst', s')) else (Inr (int k), (dst', s')))"
    and "bb_done dst' = bb_done dst @ take k d"
    and "fi_holds lib (drop k d) s'" and "k \<le> nat (bb_remaining dst)" and "k \<le> length d" and "d \<noteq> [] \<Longrightarrow> 0 < k"
proof -
  obtain s1 where s1: "ensureBuffer lib s = (Inr (d \<noteq> []), s1)" "fi_next lib d (bb_remaining dst) s1"
    by (rule fi_holds_deliver [OF lib h dst(2)])
  have g: "fi_read_buffer lib (dst, s) =
      (if d = [] then (Inr (- 1), (dst, s1))
       else case fi_buffer s1 of None \<Rightarrow> (Inl NullPointerException, (dst, s1))
         | Some b \<Rightarrow> (case bb_put_range b (fi_position s1) (min (bb_remaining dst) (fi_available s1)) dst of
              (Inl e, dst') \<Rightarrow> (Inl e, (dst', s1))
            | (Inr _, dst') \<Rightarrow> (Inr (min (bb_remaining dst) (fi_available s1)),
                (dst', s1\<lparr>fi_position := fi_position s1 + min (bb_remaining dst) (fi_available s1)\<rparr>))))"
    using dst(2) fi_holds_open [OF h] s1(1) by (simp add: fi_read_buffer_def Let_def)
  show thesis
  proof (cases "d = []")
    case True
    then show thesis using g s1(2) fi_next_end by (intro that [where k = 0 and s' = s1 and dst' = dst]) simp_all
  next
    case False
    obtain k b where k: "min (bb_remaining dst) (fi_available s1) = int k" "0 < k" "int k \<le> bb_remaining dst" "k \<le> length d"
      "fi_buffer s1 = Some b" "in_range (fi_position s1) (int k) (length b)"
      "segment (fi_position s1) (int k) b = take k d"
      "fi_holds lib (drop k d) (s1\<lparr>fi_position := fi_position s1 + int k\<rparr>)"
      by (rule fi_next_more [OF s1(2) False])
    have lk: "length (take k d) = k" using k(4) by simp
    obtain e where e: "bb_put (take k d) dst = (Inr (), dst\<lparr>bb_data := e, bb_pos := bb_pos dst + int k\<rparr>)"
      "take (nat (bb_pos dst + int k)) e = bb_done dst @ take k d"
      using bb_put_ok [OF dst(1), of "take k d"] k(3) unfolding lk by metis
    show thesis using g False k e
      by (intro that [where k = k and s' = "s1\<lparr>fi_position := fi_position s1 + int k\<rparr>"
            and dst' = "dst\<lparr>bb_data := e, bb_pos := bb_pos dst + int k\<rparr>"])
        (simp_all add: bb_put_range_def bb_done_def)
  qed
qed

end
