(* ===== verification/Framed_Props.thy ===== *)
theory Framed_Props
  imports Framed_Sessions Output_Props Stream_Props
begin

text \<open>
  Properties of the framed streams: what the writer puts on the channel, that the reader gives it back,
  what the reader makes of arbitrary data, and the cases in which the classes do not do what they promise.
\<close>

section \<open>Sessions of reads\<close>

text \<open>The calls of a reader; each returns the bytes it delivered.\<close>

datatype framed_read = FRead bytes int int | FReadByte | FReadBuffer byte_buffer

fun fr_do :: "snappy_lib \<Rightarrow> framed_read \<Rightarrow> bytes fis" where
  "fr_do lib (FRead a off len) s =
     (case fi_read lib off len (a, s) of
        (Inl e, (_, s')) \<Rightarrow> (Inl e, s')
      | (Inr n, (a', s')) \<Rightarrow> (Inr (segment off (max 0 n) a'), s'))"
| "fr_do lib FReadByte s =
     (case fi_read_byte lib s of
        (Inl e, s') \<Rightarrow> (Inl e, s')
      | (Inr n, s') \<Rightarrow> (Inr (if n = - 1 then [] else [word_of_int n]), s'))"
| "fr_do lib (FReadBuffer dst) s =
     (case fi_read_buffer lib (dst, s) of
        (Inl e, (_, s')) \<Rightarrow> (Inl e, s')
      | (Inr n, (dst', s')) \<Rightarrow> (Inr (drop (length (bb_done dst)) (bb_done dst')), s'))"

fun fr_run :: "snappy_lib \<Rightarrow> framed_read list \<Rightarrow> bytes fis" where
  "fr_run lib [] = returnS []"
| "fr_run lib (c # cs) = bindS (fr_do lib c) (\<lambda>x. bindS (fr_run lib cs) (\<lambda>y. returnS (x @ y)))"

fun proper_read :: "framed_read \<Rightarrow> bool" where
  "proper_read (FRead a off len) \<longleftrightarrow> in_range off len (length a) \<and> 0 < len \<and> int (length a) \<le> int_max"
| "proper_read FReadByte \<longleftrightarrow> True"
| "proper_read (FReadBuffer dst) \<longleftrightarrow> bb_wf dst \<and> 0 < bb_remaining dst"

lemma fr_do_holds:
  assumes lib: "frame_lib lib" and h: "fi_holds lib d s" and c: "proper_read c"
  obtains k s' where "fr_do lib c s = (Inr (take k d), s')" and "min 1 (length d) \<le> k" and "k \<le> length d"
    and "fi_holds lib (drop k d) s'"
proof (cases c)
  case (FRead a off len)
  then have r: "in_range off len (length a)" "0 < len" "int (length a) \<le> int_max" using c by simp_all
  obtain k s' where k: "fi_read lib off len (a, s)
      = (if d = [] then (Inr (- 1), (a, s')) else (Inr (int k), (blit a off (take k d), s')))"
    "fi_holds lib (drop k d) s'" "k \<le> nat len" "k \<le> length d" "d \<noteq> [] \<Longrightarrow> 0 < k"
    using fi_read_holds [OF lib h r] by blast
  have "in_range off (int (length (take k d))) (length a)" using r(1) k(3,4) by (auto simp: in_range_def)
  then have "segment off (int k) (blit a off (take k d)) = take k d"
    using segment_blit_same [of off "take k d" a] k(4) by simp
  then have "fr_do lib c s = (Inr (take k d), s')" using k(1,4) FRead by simp
  moreover have "min 1 (length d) \<le> k" using k(5) by (cases d) simp_all
  ultimately show thesis using that k(2,4) by blast
next
  case FReadByte
  obtain s' where s': "fi_read_byte lib s = (Inr (case d of [] \<Rightarrow> - 1 | x # _ \<Rightarrow> uint x), s')" "fi_holds lib (drop 1 d) s'"
    by (rule fi_read_byte_holds [OF lib h])
  have ne: "uint x \<noteq> - 1" for x :: byte using uint_ge_0 [of x] by linarith
  have "fr_do lib c s = (Inr (take (min 1 (length d)) d), s')" using s'(1) FReadByte ne by (cases d) simp_all
  moreover have "fi_holds lib (drop (min 1 (length d)) d) s'" using s'(2) by (cases d) simp_all
  ultimately show thesis using that [of "min 1 (length d)" s'] by simp
next
  case (FReadBuffer dst)
  then have w: "bb_wf dst" "0 < bb_remaining dst" using c by simp_all
  obtain k s' dst' where k: "fi_read_buffer lib (dst, s)
      = (if d = [] then (Inr (- 1), (dst', s')) else (Inr (int k), (dst', s')))"
    "bb_done dst' = bb_done dst @ take k d"
    "fi_holds lib (drop k d) s'" "k \<le> length d" "d \<noteq> [] \<Longrightarrow> 0 < k"
    using fi_read_buffer_holds [OF lib h w] by blast
  have "fr_do lib c s = (Inr (take k d), s')" using k(1,2) FReadBuffer by simp
  moreover have "min 1 (length d) \<le> k" using k(5) by (cases d) simp_all
  ultimately show thesis using that k(3,4) by blast
qed

lemma fr_run_holds:
  assumes lib: "frame_lib lib"
  shows "fi_holds lib d s \<Longrightarrow> list_all proper_read cs \<Longrightarrow>
    \<exists>k s'. fr_run lib cs s = (Inr (take k d), s') \<and> min (length cs) (length d) \<le> k \<and> k \<le> length d
      \<and> fi_holds lib (drop k d) s'"
proof (induction cs arbitrary: d s)
  case Nil
  then show ?case by (intro exI [of _ 0]) (simp add: returnS_def)
next
  case (Cons c cs)
  have c: "proper_read c" "list_all proper_read cs" using Cons.prems(2) by simp_all
  obtain k t where k: "fr_do lib c s = (Inr (take k d), t)" "min 1 (length d) \<le> k" "k \<le> length d" "fi_holds lib (drop k d) t"
    by (rule fr_do_holds [OF lib Cons.prems(1) c(1)])
  obtain j u where j: "fr_run lib cs t = (Inr (take j (drop k d)), u)" "min (length cs) (length (drop k d)) \<le> j"
    "j \<le> length (drop k d)" "fi_holds lib (drop j (drop k d)) u"
    using Cons.IH [OF k(4) c(2)] by auto
  have "fr_run lib (c # cs) s = (Inr (take (k + j) d), u)"
    by (simp add: bindS_def returnS_def k(1) j(1) take_add)
  moreover have "min (length (c # cs)) (length d) \<le> k + j" "k + j \<le> length d" using k(2,3) j(2,3) by auto
  moreover have "fi_holds lib (drop (k + j) d) u" using j(4) by (simp add: add.commute)
  ultimately show ?case by blast
qed

text \<open>Opening a stream on what a writer left.\<close>

lemma framed_open:
  assumes lib: "frame_lib lib" and pool: "good_pool pool"
    and d: "src_data src = HEADER_BYTES @ concat (map (data_frame lib r) blocks)"
    and b: "list_all (\<lambda>b. b \<noteq> [] \<and> length b \<le> 65536) blocks"
  obtains s where "new_SnappyFramedInputStream lib src verify pool = Inr s" and "fi_holds lib (concat blocks) s"
    and "fi_ready lib blocks None s" and "fi_available s \<le> 0"
proof -
  have p: "prefix HEADER_BYTES (src_data src)" by (simp add: d)
  then obtain s where s: "new_SnappyFramedInputStream lib src verify pool = Inr s"
      "src_data src = HEADER_BYTES @ src_data (fi_rbc s)" "fi_inv s" "\<not> fi_eof s" "fi_available s \<le> 0" "verifyChecksums s = verify"
    using new_framed_input_ok [OF lib pool, of src verify] by blast
  have sd: "src_data (fi_rbc s) = concat (map (data_frame lib r) blocks)" using s(2) d by simp
  have r: "fi_ready lib blocks None s"
    using s decode_frames [OF lib b] unfolding fi_ready_def sd by simp
  then have "fi_holds lib (concat blocks) s"
    using b fi_unread_empty [OF s(5)] unfolding fi_holds_def list_all_iff by (intro exI [of _ blocks]) auto
  then show thesis using that s(1,5) r by blast
qed

section \<open>Writing and reading back\<close>

text \<open>
  C7: A session of the framed writer, on a channel that takes all it is offered: any mix of array, byte,
  buffer and stream writes and flushes, and then \<open>close\<close>, succeeds, closes the channel and leaves on it
  the stream header and one data frame per block. The blocks are non-empty, at most the block size and
  together the bytes written, and the frame format decodes to them.
\<close>

theorem framed_session_format:
  assumes "frame_lib lib" and "channel_ok out" and "ch_data out = []" and "0 < bs" and "bs \<le> FRAMED_MAX_BLOCK_SIZE"
    and "in_unit_range r" and "good_pool pool" and "list_all proper_write cs"
  shows "\<exists>s0 s' blocks. new_SnappyFramedOutputStream lib out bs r pool = Inr s0
    \<and> bindS (fo_run lib cs) (\<lambda>_. fo_close lib) s0 = (Inr (), s') \<and> \<not> ch_open (fo_out s')
    \<and> ch_data (fo_out s') = HEADER_BYTES @ concat (map (data_frame lib r) blocks)
    \<and> concat blocks = concat (map written cs)
    \<and> list_all (\<lambda>b. b \<noteq> [] \<and> int (length b) \<le> bs) blocks
    \<and> decode_stream lib verify (drop 10 (ch_data (fo_out s'))) = (blocks, None)"
proof -
  have bs: "bs \<le> 65536" using assms(5) by (simp add: FRAMED_MAX_BLOCK_SIZE_def)
  obtain s0 s' blocks where s: "new_SnappyFramedOutputStream lib out bs r pool = Inr s0"
    "bindS (fo_run lib cs) (\<lambda>_. fo_close lib) s0 = (Inr (), s')" "\<not> ch_open (fo_out s')"
    "ch_data (fo_out s') = HEADER_BYTES @ concat (map (data_frame lib r) blocks)"
    "concat blocks = concat (map written cs)" "list_all (\<lambda>b. b \<noteq> [] \<and> int (length b) \<le> bs) blocks"
    by (rule framed_session [OF assms(1-4) bs assms(6-8)])
  have "list_all (\<lambda>b. b \<noteq> [] \<and> length b \<le> 65536) blocks" using s(6) bs by (auto simp: list_all_iff)
  from decode_frames [OF assms(1) this, of verify r]
  have "decode_stream lib verify (drop 10 (ch_data (fo_out s'))) = (blocks, None)" by (simp add: s(4))
  then show ?thesis using s by blast
qed

lemma stored_frame_lib: "frame_lib stored_lib"
proof -
  have "parse_length stored_lib [] = None" by (simp add: stored_lib_def)
  then show ?thesis
    using stored_lib_roundtrip stored_lib_space stored_lib_lengths stored_lib_mono
    by (auto simp: frame_lib_def lib_ok_def int_max_def)
qed

definition open_channel :: channel where
  "open_channel = \<lparr>ch_data = [], ch_open = True, ch_calls = 0, ch_fail = (\<lambda>_. False), ch_take = (\<lambda>_ n. n)\<rparr>"

text \<open>A ratio test as \<open>minCompressionRatio = 0.85\<close> makes it.\<close>

definition demo_ratio :: ratio where
  "demo_ratio = \<lparr>in_unit_range = True, accepts = (\<lambda>c n. c * 20 \<le> n * 17)\<rparr>"

definition demo_writes :: "framed_write list" where
  "demo_writes = [FWrite [1, 2, 3, 4] 1 2, FFlush, FByte 7, FTransfer (demo_source [5, 6])]"

lemma demo_writes: "list_all proper_write demo_writes" "concat (map written demo_writes) = [2, 3, 7, 5, 6]"
  by (simp_all add: demo_writes_def in_range_def int_max_def segment_def demo_source_def)

lemma demo_channel: "channel_ok open_channel" "ch_data open_channel = []" "in_unit_range demo_ratio"
  by (simp_all add: open_channel_def channel_ok_def demo_ratio_def)

lemma demo_pool: "good_pool (Caching new_CachingBufferPool)"
  by (simp add: queues_good_def new_CachingBufferPool_def)

theorem framed_session_format_witness:
  "\<exists>s0 s' blocks. new_SnappyFramedOutputStream stored_lib open_channel 4 demo_ratio (Caching new_CachingBufferPool) = Inr s0
    \<and> bindS (fo_run stored_lib demo_writes) (\<lambda>_. fo_close stored_lib) s0 = (Inr (), s')
    \<and> ch_data (fo_out s') = HEADER_BYTES @ concat (map (data_frame stored_lib demo_ratio) blocks)
    \<and> concat blocks = [2, 3, 7, 5, 6]"
  using framed_session_format [OF stored_frame_lib demo_channel(1,2), of 4 demo_ratio "Caching new_CachingBufferPool" demo_writes True]
    demo_channel(3) demo_writes demo_pool by (auto simp: FRAMED_MAX_BLOCK_SIZE_def)

text \<open>
  C6: What a session of the framed writer wrote comes back: a framed input stream on the channel's data,
  delivered in portions of any size, opens, and a sequence of array, byte and buffer reads of positive
  size returns the first \<open>k\<close> bytes written, at least one for each call while there are any; the next
  \<open>read()\<close> is the byte after them, or \<open>-1\<close> when all have been read.
\<close>

theorem framed_roundtrip:
  assumes "frame_lib lib" and "channel_ok out" and "ch_data out = []" and "0 < bs" and "bs \<le> FRAMED_MAX_BLOCK_SIZE"
    and "in_unit_range r" and "good_pool pool" and "good_pool pool'" and "list_all proper_write cs" and "list_all proper_read rs"
  shows "\<exists>s0 s' u k u'. new_SnappyFramedOutputStream lib out bs r pool = Inr s0
    \<and> bindS (fo_run lib cs) (\<lambda>_. fo_close lib) s0 = (Inr (), s')
    \<and> new_SnappyFramedInputStream lib (src\<lparr>src_data := ch_data (fo_out s')\<rparr>) verify pool' = Inr u
    \<and> fr_run lib rs u = (Inr (take k (concat (map written cs))), u')
    \<and> min (length rs) (length (concat (map written cs))) \<le> k \<and> k \<le> length (concat (map written cs))
    \<and> fst (fi_read_byte lib u') =
        Inr (if k = length (concat (map written cs)) then - 1 else uint (concat (map written cs) ! k))"
proof -
  have bs: "bs \<le> 65536" using assms(5) by (simp add: FRAMED_MAX_BLOCK_SIZE_def)
  define w where "w = concat (map written cs)"
  obtain s0 s' blocks where s: "new_SnappyFramedOutputStream lib out bs r pool = Inr s0"
    "bindS (fo_run lib cs) (\<lambda>_. fo_close lib) s0 = (Inr (), s')" "\<not> ch_open (fo_out s')"
    "ch_data (fo_out s') = HEADER_BYTES @ concat (map (data_frame lib r) blocks)"
    "concat blocks = concat (map written cs)" "list_all (\<lambda>b. b \<noteq> [] \<and> int (length b) \<le> bs) blocks"
    by (rule framed_session [OF assms(1-4) bs assms(6,7,9)])
  have b: "list_all (\<lambda>b. b \<noteq> [] \<and> length b \<le> 65536) blocks" using s(6) bs by (auto simp: list_all_iff)
  obtain u where u: "new_SnappyFramedInputStream lib (src\<lparr>src_data := ch_data (fo_out s')\<rparr>) verify pool' = Inr u"
    "fi_holds lib w u"
    using framed_open [OF assms(1,8) _ b, of "src\<lparr>src_data := ch_data (fo_out s')\<rparr>" r verify] s(4,5) by (auto simp: w_def)
  obtain k u' where k: "fr_run lib rs u = (Inr (take k w), u')" "min (length rs) (length w) \<le> k" "k \<le> length w"
    "fi_holds lib (drop k w) u'"
    using fr_run_holds [OF assms(1) u(2) assms(10)] by blast
  obtain v where "fi_read_byte lib u' = (Inr (case drop k w of [] \<Rightarrow> - 1 | x # _ \<Rightarrow> uint x), v)"
    by (rule fi_read_byte_holds [OF assms(1) k(4)])
  moreover have "(case drop k w of [] \<Rightarrow> - 1 | x # _ \<Rightarrow> uint x) = (if k = length w then - 1 else uint (w ! k))"
    using k(3) by (cases "k = length w") (simp_all add: Cons_nth_drop_Suc [symmetric])
  ultimately have "fst (fi_read_byte lib u') = Inr (if k = length w then - 1 else uint (w ! k))" by simp
  then show ?thesis using s(1,2) u(1) k(1-3) unfolding w_def by blast
qed

definition demo_reads :: "framed_read list" where
  "demo_reads = [FRead [0, 0, 0, 0] 1 3, FReadByte,
     FReadBuffer \<lparr>bb_data = [9, 9], bb_pos = 0, bb_limit = 2, bb_direct = False\<rparr>, FReadByte, FReadByte]"

theorem framed_roundtrip_witness:
  "\<exists>s0 s' u u'. new_SnappyFramedOutputStream stored_lib open_channel 4 demo_ratio (Caching new_CachingBufferPool) = Inr s0
    \<and> bindS (fo_run stored_lib demo_writes) (\<lambda>_. fo_close stored_lib) s0 = (Inr (), s')
    \<and> new_SnappyFramedInputStream stored_lib ((demo_source [])\<lparr>src_data := ch_data (fo_out s')\<rparr>) True Quiescent = Inr u
    \<and> fr_run stored_lib demo_reads u = (Inr [2, 3, 7, 5, 6], u')
    \<and> fst (fi_read_byte stored_lib u') = Inr (- 1)"
proof -
  have bs: "(0 :: int) < 4" "4 \<le> FRAMED_MAX_BLOCK_SIZE" by (simp_all add: FRAMED_MAX_BLOCK_SIZE_def)
  have q: "good_pool Quiescent" by simp
  have r: "list_all proper_read demo_reads" "length demo_reads = 5"
    by (simp_all add: demo_reads_def in_range_def int_max_def bb_wf_def bb_capacity_def bb_remaining_def)
  have w: "length (concat (map written demo_writes)) = 5" by (simp add: demo_writes(2))
  obtain s0 s' u k u' where s: "new_SnappyFramedOutputStream stored_lib open_channel 4 demo_ratio (Caching new_CachingBufferPool) = Inr s0"
    "bindS (fo_run stored_lib demo_writes) (\<lambda>_. fo_close stored_lib) s0 = (Inr (), s')"
    "new_SnappyFramedInputStream stored_lib ((demo_source [])\<lparr>src_data := ch_data (fo_out s')\<rparr>) True Quiescent = Inr u"
    "fr_run stored_lib demo_reads u = (Inr (take k (concat (map written demo_writes))), u')"
    "min (length demo_reads) (length (concat (map written demo_writes))) \<le> k" "k \<le> length (concat (map written demo_writes))"
    "fst (fi_read_byte stored_lib u') =
        Inr (if k = length (concat (map written demo_writes)) then - 1 else uint (concat (map written demo_writes) ! k))"
    using framed_roundtrip [OF stored_frame_lib demo_channel(1,2) bs demo_channel(3) demo_pool q demo_writes(1) r(1),
        of "demo_source []" True] by blast
  have k: "k = 5" using s(5,6) unfolding r(2) w by simp
  show ?thesis using s(1-4,7) unfolding k demo_writes(2) by auto
qed

section \<open>Arbitrary data\<close>

text \<open>
  C8: \<open>transferTo\<close> on arbitrary data computes the frame format, which \<open>chunk_header\<close>, \<open>unpack_spec\<close> and
  \<open>stream_identifier\<close> state without the code's constants, header reader and checksum: a stream that does not
  start with the stream identifier is refused at its creation; otherwise the call returns, the sink receives the contents of the chunks that decode,
  in order, and the result is their total length, or the exception of the first chunk that does not
  decode. Only data that claims more than \<open>2 ^ 31 - 1\<close> bytes for a compressed chunk is excluded.
\<close>

theorem framed_reader_refines:
  assumes "frame_lib lib" and "good_pool pool" and "\<And>k. \<not> sink_fail os k"
    and "modest lib verify (drop 10 (src_data src))"
  shows "case new_SnappyFramedInputStream lib src verify pool of
      Inl e \<Rightarrow> \<not> prefix stream_identifier (src_data src)
        \<and> e = (if length (src_data src) < 10 then EOFException else IOException ''invalid stream header'')
    | Inr s \<Rightarrow> prefix stream_identifier (src_data src)
        \<and> (case decode_stream lib verify (drop 10 (src_data src)) of
             (ys, r) \<Rightarrow> \<exists>os' s'. transferTo lib (os, s) =
                 (case r of None \<Rightarrow> Inr (int (length (concat ys))) | Some e \<Rightarrow> Inl e, (os', s'))
               \<and> sink_data os' = sink_data os @ concat ys)"
proof -
  have "(\<exists>s. new_SnappyFramedInputStream lib src verify pool = Inr s \<and> src_data src = HEADER_BYTES @ src_data (fi_rbc s)
        \<and> fi_inv s \<and> \<not> fi_eof s \<and> fi_available s \<le> 0 \<and> verifyChecksums s = verify)
    \<or> (\<not> prefix HEADER_BYTES (src_data src)
        \<and> new_SnappyFramedInputStream lib src verify pool
          = Inl (if length (src_data src) < 10 then EOFException else IOException ''invalid stream header''))"
    by (rule new_framed_input_ok [OF assms(1,2)])
  then show ?thesis
  proof (elim disjE exE conjE)
    fix s assume s: "new_SnappyFramedInputStream lib src verify pool = Inr s" "src_data src = HEADER_BYTES @ src_data (fi_rbc s)"
      "fi_inv s" "\<not> fi_eof s" "fi_available s \<le> 0" "verifyChecksums s = verify"
    have d: "drop 10 (src_data src) = src_data (fi_rbc s)" by (simp add: s(2))
    obtain ys r where yr: "decode_stream lib verify (src_data (fi_rbc s)) = (ys, r)" by fastforce
    have "fi_ready lib ys r s" using s(3,4,6) yr assms(4) d by (simp add: fi_ready_def)
    moreover have "\<not> fi_closed s" using s(3) by (simp add: fi_inv_def)
    ultimately have "\<exists>os' s'. transferTo lib (os, s) =
        (case r of None \<Rightarrow> Inr (int (length (concat ys))) | Some e \<Rightarrow> Inl e, (os', s'))
      \<and> sink_data os' = sink_data os @ concat ys"
      using transfer_out_ok [OF assms(1) _ s(5) assms(3), of ys r 0] by (cases r) (simp_all add: transferTo_def)
    moreover have "prefix HEADER_BYTES (src_data src)" by (simp add: s(2))
    ultimately show ?thesis unfolding d yr using s(1) by (simp add: HEADER_BYTES_format)
  qed (simp add: HEADER_BYTES_format)
qed

text \<open>A padding chunk, a raw chunk of one byte and a truncated chunk.\<close>

definition demo_chunks :: bytes where
  "demo_chunks = HEADER_BYTES @ 0xfe # le24 2 @ [0, 0] @ chunk_frame False (masked_crc [7]) [7] @ [1, 9]"

lemma demo_chunks: "next_chunk stored_lib True (drop 10 demo_chunks) = (Pass, chunk_frame False (masked_crc [7]) [7] @ [1, 9])"
  "next_chunk stored_lib True (chunk_frame False (masked_crc [7]) [7] @ [1, 9]) = (Data [7], [1, 9])"
  "next_chunk stored_lib True [1, 9] = (Broken EOFException, [])"
proof -
  show "next_chunk stored_lib True (drop 10 demo_chunks) = (Pass, chunk_frame False (masked_crc [7]) [7] @ [1, 9])"
    by (simp add: demo_chunks_def le24_def next_chunk_def chunk_header_def)
  show "next_chunk stored_lib True (chunk_frame False (masked_crc [7]) [7] @ [1, 9]) = (Data [7], [1, 9])"
    using next_chunk_frame(1) [of "[7]" stored_lib True False "masked_crc [7]" "[1, 9]"] unpack_frames(1) [of stored_lib True]
    by simp
qed (simp add: next_chunk_code)

theorem framed_reader_refines_witness:
  "\<exists>s os'. new_SnappyFramedInputStream stored_lib (demo_source demo_chunks) True Quiescent = Inr s
    \<and> fst (transferTo stored_lib (quiet_sink, s)) = Inl EOFException
    \<and> sink_data (fst (snd (transferTo stored_lib (quiet_sink, s)))) = [7]"
proof -
  note c = demo_chunks
  have dc: "decode_stream stored_lib True (drop 10 demo_chunks) = ([[7]], Some EOFException)"
    using decode_stream_step(2) [OF c(1)] decode_stream_step(1) [OF c(2)] decode_stream_step(4) [OF c(3)] by simp
  have "modest_chunk stored_lib (chunk_frame False (masked_crc [7]) [7] @ [1, 9])"
    using next_chunk_frame(2) [of "[7]" stored_lib False "masked_crc [7]" "[1, 9]"] by simp
  moreover have "modest_chunk stored_lib (drop 10 demo_chunks)"
    by (simp add: demo_chunks_def le24_def modest_chunk_def chunk_header_def)
  moreover have "modest_chunk stored_lib [1, 9]" by (simp add: modest_chunk_code)
  ultimately have m: "modest stored_lib True (drop 10 demo_chunks)"
    using c by (simp add: modest.simps [of _ _ "drop 10 demo_chunks"] modest.simps [of _ _ "[1, 9]"]
        modest.simps [of _ _ "chunk_frame False (masked_crc [7]) [7] @ [1, 9]"])
  have p: "prefix stream_identifier demo_chunks" by (simp add: demo_chunks_def HEADER_BYTES_format)
  have q: "\<not> sink_fail quiet_sink k" "sink_data quiet_sink = []" for k by (simp_all add: quiet_sink_def)
  have "good_pool Quiescent" by simp
  from framed_reader_refines [OF stored_frame_lib this q(1), of True "demo_source demo_chunks"] m p dc q(2) show ?thesis
    by (auto simp: demo_source_def split: sum.splits)
qed

section \<open>What the streams do not do\<close>

text \<open>
  C26: The checksum is compared after the unpacked bytes have become the current chunk. A read of a chunk
  with a wrong checksum throws, but the next read finds the chunk available and delivers its bytes.
\<close>

theorem bad_checksum_served_later:
  assumes "frame_lib lib" and "good_pool pool"
    and "src_data src = HEADER_BYTES @ chunk_frame False v x @ rest"
    and "x \<noteq> []" and "int (length x) + 4 < 2 ^ 24" and "v \<noteq> masked_crc x"
  shows "\<exists>s s1 s2. new_SnappyFramedInputStream lib src True pool = Inr s
    \<and> fi_read_byte lib s = (Inl (IOException ''Corrupt input: invalid checksum''), s1)
    \<and> fi_read_byte lib s1 = (Inr (uint (hd x)), s2)"
proof -
  have p: "prefix HEADER_BYTES (src_data src)" by (simp add: assms(3))
  obtain s where s: "new_SnappyFramedInputStream lib src True pool = Inr s" "src_data src = HEADER_BYTES @ src_data (fi_rbc s)"
    "fi_inv s" "\<not> fi_eof s" "fi_available s \<le> 0" "verifyChecksums s = True"
    using new_framed_input_ok [OF assms(1,2), of src True] p by blast
  have d: "src_data (fi_rbc s) = chunk_frame False v x @ rest" using s(2) assms(3) by simp
  have m: "modest_chunk lib (src_data (fi_rbc s))" using next_chunk_frame(2) [OF assms(4,5), of lib False v rest] d by simp
  have c: "next_chunk lib (verifyChecksums s) (src_data (fi_rbc s)) = (Broken (IOException ''Corrupt input: invalid checksum''), rest)"
    using next_chunk_frame(1) [OF assms(4,5), of lib True False v rest] unpack_frames(1) [of lib True v x] assms(6) s(6) d by simp
  have y: "fst (next_chunk lib False (src_data (fi_rbc s))) = Data x"
    using next_chunk_frame(1) [OF assms(4,5), of lib False False v rest] unpack_frames(1) [of lib False v x] d by simp
  obtain s1 where s1: "ensure_step lib s = (Inl (IOException ''Corrupt input: invalid checksum''), s1)" "fi_inv s1" "fi_loaded x s1"
    using ensure_step_ok [OF assms(1) s(3,5,4) m c] y by auto
  have o: "\<not> fi_closed s" "\<not> fi_closed s1" using s(3) s1(2) by (simp_all add: fi_inv_def)
  have e: "ensureBuffer lib s = (Inl (IOException ''Corrupt input: invalid checksum''), s1)"
    by (subst ensureBuffer.simps) (simp add: s1(1))
  obtain b where b: "fi_buffer s1 = Some b" "fi_position s1 = 0" "fi_available s1 = int (length x)"
    "segment 0 (int (length x)) b = x" "in_range 0 (int (length x)) (length b)"
    using fi_loaded_parts [OF s1(3,2)] by metis
  have "array_get b 0 = Inr (hd x)"
    using array_get_in [OF b(5), of 0] assms(4) unfolding b(4) by (simp add: hd_conv_nth)
  moreover have "ensureBuffer lib s1 = (Inr True, s1)" using ensureBuffer_filled b(3) assms(4) by simp
  ultimately have "fi_read_byte lib s1 = (Inr (uint (hd x)), s1\<lparr>fi_position := 1\<rparr>)"
    using b(1,2) o(2) by (simp add: fi_read_byte_def from_buffer_def op_simps)
  moreover have "fi_read_byte lib s = (Inl (IOException ''Corrupt input: invalid checksum''), s1)"
    using e o(1) by (simp add: fi_read_byte_def op_simps)
  ultimately show ?thesis using s(1) by blast
qed

theorem bad_checksum_served_later_witness:
  "\<exists>s s1 s2. new_SnappyFramedInputStream stored_lib (demo_source (HEADER_BYTES @ chunk_frame False (masked_crc [7] + 1) [7])) True Quiescent = Inr s
    \<and> fi_read_byte stored_lib s = (Inl (IOException ''Corrupt input: invalid checksum''), s1)
    \<and> fi_read_byte stored_lib s1 = (Inr 7, s2)"
  using bad_checksum_served_later [OF stored_frame_lib, of Quiescent
      "demo_source (HEADER_BYTES @ chunk_frame False (masked_crc [7] + 1) [7])" "masked_crc [7] + 1" "[7]" "[]"]
  by (simp add: demo_source_def)

text \<open>
  A compressed chunk may hold no bytes at all. \<open>ensureBuffer\<close> then reports a filled buffer, so that
  \<open>read()\<close> returns whatever byte the buffer starts with where the end of the stream is due, and
  \<open>read(byte[])\<close> returns \<open>0\<close> where it should return \<open>-1\<close>.
\<close>

theorem empty_frame_stale_byte:
  assumes "frame_lib lib" and "good_pool pool"
    and "src_data src = HEADER_BYTES @ chunk_frame True (masked_crc []) (compress_raw lib [])"
    and "in_range off len (length out)" and "0 < len" and "int (length out) \<le> int_max"
  shows "concat (fst (decode_stream lib verify (drop 10 (src_data src)))) = []
    \<and> (\<exists>s n. new_SnappyFramedInputStream lib src verify pool = Inr s
        \<and> fst (fi_read_byte lib s) = Inr n \<and> 0 \<le> n \<and> fst (fi_read lib off len (out, s)) = Inr 0)"
proof -
  let ?d = "chunk_frame True (masked_crc []) (compress_raw lib [])"
  have z: "compress_raw lib [] \<noteq> []" "int (length (compress_raw lib [])) + 4 < 2 ^ 24"
    using compressed_block [OF assms(1), of "[]"] by simp_all
  have p: "prefix HEADER_BYTES (src_data src)" by (simp add: assms(3))
  obtain s where s: "new_SnappyFramedInputStream lib src verify pool = Inr s" "src_data src = HEADER_BYTES @ src_data (fi_rbc s)"
    "fi_inv s" "\<not> fi_eof s" "fi_available s \<le> 0" "verifyChecksums s = verify"
    using new_framed_input_ok [OF assms(1,2), of src verify] p by blast
  have d: "src_data (fi_rbc s) = ?d" using s(2) assms(3) by simp
  have c: "next_chunk lib v ?d = (Data [], [])" for v
    using next_chunk_frame(1) [OF z, of lib v True "masked_crc []" "[]"]
      unpack_frames(2) [OF frame_lib_parts(3) [OF assms(1)], of "[]" v "masked_crc []"] by simp
  have m: "modest_chunk lib ?d"
    using next_chunk_frame(2) [OF z, of lib True "masked_crc []" "[]"] frame_lib_parts(3) [OF assms(1)]
    by (simp add: lib_roundtrip_def int_max_def)
  obtain s1 where s1: "ensure_step lib s = (Inr Filled, s1)" "fi_inv s1" "fi_loaded [] s1"
    using ensure_step_ok [OF assms(1) s(3,5,4), of "Data []" "[]"] m c d by auto
  obtain b where b: "fi_buffer s1 = Some b" "fi_position s1 = 0" "fi_available s1 = 0"
    using fi_loaded_parts [OF s1(3,2)] by auto
  have lb: "0 < length b" using s1(2) b(1) by (auto simp: fi_inv_def arr_len_def)
  have e: "ensureBuffer lib s = (Inr True, s1)" by (subst ensureBuffer.simps) (simp add: s1(1))
  have o: "\<not> fi_closed s" using s(3) by (simp add: fi_inv_def)
  have "fst (fi_read_byte lib s) = Inr (uint (b ! 0))"
    using e o b(1,2) lb by (simp add: fi_read_byte_def from_buffer_def op_simps array_get_def)
  moreover have i: "i32 (off + len) = off + len" using assms(4-6) by (intro i32_id) (simp_all add: in_range_def int_max_def is_i32_def)
  have "in_range 0 0 (length b)" "in_range off 0 (length out)" using assms(4) by (simp_all add: in_range_def)
  then have "fst (fi_read lib off len (out, s)) = Inr 0"
    using e o b assms(4,5) i by (simp add: fi_read_def in_range_def Let_def arraycopy_def)
  moreover have "concat (fst (decode_stream lib verify (drop 10 (src_data src)))) = []"
    using decode_stream_step(1) [OF c [of verify]] assms(3) by simp
  moreover have "0 \<le> uint (b ! 0)" by simp
  ultimately show ?thesis using s(1) by blast
qed

theorem empty_frame_stale_byte_witness:
  "\<exists>s n. new_SnappyFramedInputStream stored_lib (demo_source (HEADER_BYTES @ chunk_frame True (masked_crc []) [1])) True Quiescent = Inr s
    \<and> fst (fi_read_byte stored_lib s) = Inr n \<and> 0 \<le> n \<and> fst (fi_read stored_lib 0 2 ([5, 6], s)) = Inr 0"
proof -
  have z: "compress_raw stored_lib [] = [1]" by (simp add: stored_lib_def)
  have "in_range 0 2 (length [5, 6 :: byte])" "int (length [5, 6 :: byte]) \<le> int_max" by (simp_all add: in_range_def int_max_def)
  moreover have "good_pool Quiescent" by simp
  moreover have "src_data (demo_source (HEADER_BYTES @ chunk_frame True (masked_crc []) [1]))
      = HEADER_BYTES @ chunk_frame True (masked_crc []) (compress_raw stored_lib [])" by (simp add: demo_source_def z)
  ultimately show ?thesis using empty_frame_stale_byte [OF stored_frame_lib, of Quiescent _ 0 2 "[5, 6]" True] by auto
qed

text \<open>A compressed length that is negative as an \<open>int\<close> makes no room and is not refused.\<close>

lemma unpack_compressed_negative:
  assumes inv: "fi_inv s" and i: "fi_input s = Some i" "bb_pos i = 0" "bb_limit i = n" "bb_wf i" "4 \<le> n"
    and z: "z = drop 4 (take (nat n) (bb_data i))" and m: "parse_length lib z = Some m" "int_max < int m" "m < 2 ^ 32"
  shows "fst (unpack_compressed lib 4 s) = Inl NativeFault"
proof -
  define i1 where "i1 = i\<lparr>bb_pos := 4\<rparr>"
  define s1 where "s1 = s\<lparr>fi_input := Some i1\<rparr>"
  have r: "in_range 4 (n - 4) (length (bb_data i))" using i by (simp add: in_range_def bb_wf_def bb_capacity_def)
  have zs: "z = segment 4 (n - 4) (bb_data i)" using i(5) by (simp add: z segment_def drop_take nat_diff_distrib)
  have i1: "bb_remaining i1 = n - 4" "bb_pos i1 = 4" "bb_data i1 = bb_data i" "bb_direct i1"
    using i inv by (auto simp: i1_def bb_remaining_def fi_inv_def)
  have p: "on_input (bb_set_position 4) s = (Inr (), s1)"
    unfolding s1_def by (rule on_input_ok [OF i(1)]) (use i in \<open>simp add: bb_set_position_def i1_def\<close>)
  obtain u where u: "uncompressedDirect s1 = Some u" "bb_direct u" "bb_capacity u \<le> int_max" and fi: "fi_input s1 = Some i1"
    using inv by (auto simp: fi_inv_def s1_def)
  have neg: "i32 (int m) \<le> bb_capacity u"
    using i32_unsigned [of "int m"] m(2,3) by (simp add: int_max_def bb_capacity_def)
  have ul: "from_input (s_uncompressedLength_buffer lib) s1 = (Inr (i32 (int m)), s1)"
    using from_input_ok [OF fi, of "s_uncompressedLength_buffer lib"] r i1 m(1)
    by (simp add: s_uncompressedLength_buffer_def impl_uncompressedLength_def zs)
  have ed: "ensure_direct (i32 (int m)) s1 = (Inr (), s1)"
    using from_direct_ok [OF u(1), of "\<lambda>b. Inr (bb_capacity b)"] neg by (simp add: ensure_direct_def bindS_def returnS_def)
  define s2 where "s2 = s1\<lparr>uncompressedDirect := Some (bb_clear u)\<rparr>"
  have cl: "on_direct (modifyS bb_clear) s1 = (Inr (), s2)"
    unfolding s2_def by (rule on_direct_ok [OF u(1)]) (simp add: modifyS_def)
  have gi: "from_input (\<lambda>i. Inr i) s2 = (Inr i1, s2)" by (rule from_input_ok) (simp add: s2_def fi)
  have "\<not> in_range 0 (int m) (length (bb_data u))" using u(3) m(2) by (simp add: in_range_def bb_capacity_def)
  then have "s_uncompress_buffer lib i1 (bb_clear u) = (Inl NativeFault, bb_clear u)"
    using i1 u(2) r m(1)
    by (simp add: s_uncompress_buffer_def bb_clear_def bb_native_def impl_rawUncompress_def zs [symmetric] bindS_def)
  then have "fst (on_direct (s_uncompress_buffer lib i1) s2) = Inl NativeFault"
    by (simp add: on_direct_def s2_def)
  then obtain s3 where "on_direct (s_uncompress_buffer lib i1) s2 = (Inl NativeFault, s3)"
    by (cases "on_direct (s_uncompress_buffer lib i1) s2") simp
  then show ?thesis by (simp add: unpack_compressed_def bindS_def p ul ed cl gi)
qed

text \<open>A chunk of compressed data at the front of the channel is loaded whole.\<close>

lemma load_front_frame:
  assumes "frame_lib lib" and "fi_inv s" and "fi_available s \<le> 0"
    and d: "src_data (fi_rbc s) = chunk_frame True v z @ rest" and "z \<noteq> []" and "int (length z) + 4 < 2 ^ 24"
  obtains t w i where "readBlockHeader s = (Inr True, t)"
    and "getFrameMetaData (bb_data (frameHeader t)) = Inr (UNCOMPRESS, int (length z) + 4)"
    and "load_frame lib (int (length z) + 4) t = (Inr (), w)" and "fi_inv w" and "fi_input w = Some i" and "bb_pos i = 0"
    and "bb_limit i = int (length z) + 4" and "bb_wf i" and "take (nat (int (length z) + 4)) (bb_data i) = int_le v @ z"
proof -
  define n where "n = int (length z) + 4"
  have n: "5 \<le> n" "n < 2 ^ 24" using assms(5,6) by (cases z; simp add: n_def)+
  define h where "h = 0 # le24 n"
  have h: "getFrameMetaData h = Inr (UNCOMPRESS, n)" "length h = 4"
    using frame_metadata [OF n, of True] by (simp_all add: h_def)
  define dt where "dt = src_data (fi_rbc s)"
  have "dt = h @ int_le v @ z @ rest" by (simp add: dt_def d chunk_frame_def n_def h_def)
  then have dt: "dt \<noteq> []" "\<not> length dt < 4" "4 \<le> length dt" "take 4 dt = h" "drop 4 dt = int_le v @ z @ rest"
    using h(2) by auto
  obtain t where "readBlockHeader s = (if dt = [] then Inr False else if length dt < 4 then Inl EOFException else Inr True, t)"
    "fi_inv t" "fi_available t \<le> 0" "src_data (fi_rbc t) = drop 4 dt" "4 \<le> length dt \<Longrightarrow> bb_data (frameHeader t) = take 4 dt"
    using readBlockHeader_ok [OF assms(2,3) dt_def] by blast
  then have t: "readBlockHeader s = (Inr True, t)" "fi_inv t" "fi_available t \<le> 0"
    "src_data (fi_rbc t) = int_le v @ z @ rest" "bb_data (frameHeader t) = h" using dt by simp_all
  have l: "int (length (src_data (fi_rbc t))) \<ge> n" by (simp add: t(4) n_def)
  have n0: "0 < n" "n \<le> 2 ^ 24" using n by simp_all
  obtain w where w0: "load_frame lib n t = (if int (length (src_data (fi_rbc t))) < n then Inl EOFException else Inr (), w)" "fi_inv w"
    "n \<le> int (length (src_data (fi_rbc t))) \<Longrightarrow>
       \<exists>i. fi_input w = Some i \<and> bb_pos i = 0 \<and> bb_limit i = n \<and> take (nat n) (bb_data i) = take (nat n) (src_data (fi_rbc t))"
    using load_frame_ok [OF assms(1) t(2,3) n0] by blast
  then obtain i where w: "load_frame lib n t = (Inr (), w)" "fi_inv w" "fi_input w = Some i" "bb_pos i = 0" "bb_limit i = n"
    "take (nat n) (bb_data i) = take (nat n) (src_data (fi_rbc t))"
    using w0(3) [OF l] l by auto
  have tn: "take (nat n) (src_data (fi_rbc t)) = int_le v @ z" by (simp add: t(4) n_def nat_add_distrib)
  have "length (take (nat n) (bb_data i)) = nat n" unfolding w(6) tn by (simp add: n_def nat_add_distrib)
  then have wf: "bb_wf i" using w(4,5) n by (auto simp: bb_wf_def bb_capacity_def)
  show thesis
    by (rule that [OF t(1) _ w(1) [unfolded n_def] w(2-4) w(5) [unfolded n_def] wf])
      (simp_all add: t(5) h(1) n_def [symmetric] w(6) tn)
qed

text \<open>
  C25: The uncompressed length of a chunk is read as an \<open>int\<close> and only compared with the capacity of the
  direct buffer. A chunk that claims \<open>2 ^ 31\<close> bytes or more has a negative length, no larger buffer is
  allocated, and the native method is called with a destination smaller than the length it relies on.
\<close>

theorem framed_negative_length_overruns:
  assumes "frame_lib lib" and "good_pool pool"
    and "src_data src = HEADER_BYTES @ chunk_frame True v z @ rest"
    and "z \<noteq> []" and "int (length z) + 4 < 2 ^ 24" and "parse_length lib z = Some m" and "int_max < int m"
  shows "\<exists>s. new_SnappyFramedInputStream lib src verify pool = Inr s \<and> fst (fi_read_byte lib s) = Inl NativeFault"
proof -
  have p: "prefix HEADER_BYTES (src_data src)" by (simp add: assms(3))
  obtain s where s: "new_SnappyFramedInputStream lib src verify pool = Inr s" "src_data src = HEADER_BYTES @ src_data (fi_rbc s)"
    "fi_inv s" "\<not> fi_eof s" "fi_available s \<le> 0" "verifyChecksums s = verify"
    using new_framed_input_ok [OF assms(1,2), of src verify] p by blast
  have d: "src_data (fi_rbc s) = chunk_frame True v z @ rest" using s(2) assms(3) by simp
  obtain t w i where t: "readBlockHeader s = (Inr True, t)"
    "getFrameMetaData (bb_data (frameHeader t)) = Inr (UNCOMPRESS, int (length z) + 4)"
    "load_frame lib (int (length z) + 4) t = (Inr (), w)" and w: "fi_inv w" "fi_input w = Some i" "bb_pos i = 0"
    "bb_limit i = int (length z) + 4" "bb_wf i" "take (nat (int (length z) + 4)) (bb_data i) = int_le v @ z"
    by (rule load_front_frame [OF assms(1) s(3,5) d assms(4,5)])
  have z: "z = drop 4 (take (nat (int (length z) + 4)) (bb_data i))" by (simp add: w(6))
  have n: "4 \<le> int (length z) + 4" by simp
  have m: "m < 2 ^ 32" using assms(1,6) by (auto simp: frame_lib_def lib_ok_def lib_lengths_def)
  have gd: "fst (from_input getFrameData w) = Inr (le_int (int_le v), 4) \<and> snd (from_input getFrameData w) = w"
    using from_input_ok [OF w(2), of getFrameData] getFrameData_ok [OF w(3,4) n] by (simp add: w(6))
  have "fst (unpack_compressed lib 4 w) = Inl NativeFault"
    by (rule unpack_compressed_negative [OF w(1-5) n z assms(6,7) m])
  then obtain x where "unpack_compressed lib 4 w = (Inl NativeFault, x)" by (cases "unpack_compressed lib 4 w") simp
  then have "unpack_frame lib UNCOMPRESS (int (length z) + 4) t = (Inl NativeFault, x)"
    using gd by (cases "from_input getFrameData w") (simp add: unpack_frame_def bindS_def t(3))
  then have "ensure_step lib s = (Inl NativeFault, x)" using s(4,5) t(1,2) by (simp add: ensure_step_def op_simps)
  then have "ensureBuffer lib s = (Inl NativeFault, x)" by (subst ensureBuffer.simps) simp
  moreover have "\<not> fi_closed s" using s(3) by (simp add: fi_inv_def)
  ultimately have "fst (fi_read_byte lib s) = Inl NativeFault" by (simp add: fi_read_byte_def op_simps)
  then show ?thesis using s(1) by blast
qed

text \<open>A library in which data that starts with \<open>2\<close> claims \<open>2 ^ 31\<close> bytes and does not decode.\<close>

definition claiming_lib :: snappy_lib where
  "claiming_lib = stored_lib\<lparr>parse_length := (\<lambda>y. if take 1 y = [2] then Some (2 ^ 31) else parse_length stored_lib y)\<rparr>"

lemma claiming_frame_lib: "frame_lib claiming_lib"
proof -
  have c: "compress_raw stored_lib x = 1 # x" for x by (simp add: stored_lib_def)
  have u: "take 1 y = [2] \<Longrightarrow> uncompress_raw stored_lib y = (False, [])" for y by (cases y) (simp_all add: stored_lib_def)
  have "lib_roundtrip claiming_lib" using stored_lib_roundtrip by (simp add: claiming_lib_def lib_roundtrip_def c)
  moreover have "lib_lengths claiming_lib" using stored_lib_lengths u by (auto simp: claiming_lib_def lib_lengths_def)
  ultimately show ?thesis
    using stored_frame_lib by (simp add: frame_lib_def lib_ok_def claiming_lib_def lib_mono_def lib_space_def)
qed

theorem framed_negative_length_overruns_witness:
  "\<exists>s. new_SnappyFramedInputStream claiming_lib (demo_source (HEADER_BYTES @ chunk_frame True 0 [2])) True Quiescent = Inr s
    \<and> fst (fi_read_byte claiming_lib s) = Inl NativeFault"
proof -
  have "parse_length claiming_lib [2] = Some (2 ^ 31)" by (simp add: claiming_lib_def)
  moreover have "good_pool Quiescent" "int_max < int (2 ^ 31)" by (simp_all add: int_max_def)
  ultimately show ?thesis
    using framed_negative_length_overruns [OF claiming_frame_lib, of Quiescent
        "demo_source (HEADER_BYTES @ chunk_frame True 0 [2])" 0 "[2]" "[]" "2 ^ 31" True] by (simp add: demo_source_def)
qed

text \<open>
  \<open>writeBlock\<close> ignores how many bytes \<open>WritableByteChannel.write\<close> took. On a channel that takes a
  part of what it is offered, the rest of the frame's header and of its data is dropped and the call
  succeeds.
\<close>

theorem partial_write_loses:
  assumes "\<And>k. \<not> ch_fail (fo_out s) k" and "length (bb_data (headerBuffer s)) = 8" and "bb_wf data"
    and "chunk_frame z v (bb_window data) = hdr @ bb_window data"
  shows "\<exists>b s'. writeBlock data z v s = (Inr b, s')
    \<and> ch_data (fo_out s') = ch_data (fo_out s) @ take (ch_take (fo_out s) (ch_calls (fo_out s)) 8) hdr
        @ take (ch_take (fo_out s) (Suc (ch_calls (fo_out s))) (length (bb_window data))) (bb_window data)"
proof -
  have hdr: "hdr = (if z then 0 else 1) # le24 (bb_remaining data + 4) @ int_le v"
    using assms(4) length_bb_window [OF assms(3)] by (simp add: chunk_frame_def)
  define hb where "hb = \<lparr>bb_data = hdr, bb_pos = 0, bb_limit = 8, bb_direct = bb_direct (headerBuffer s)\<rparr>"
  have "bb_clear (headerBuffer s) = \<lparr>bb_data = bb_data (headerBuffer s), bb_pos = 0, bb_limit = 8,
      bb_direct = bb_direct (headerBuffer s)\<rparr>"
    using assms(2) by (cases "headerBuffer s") (simp add: bb_clear_def bb_capacity_def)
  then have ph: "put_header (bb_remaining data + 4) z v (bb_clear (headerBuffer s)) = (Inr (), hb)"
    using put_header_ok [OF assms(2)] by (simp add: hb_def hdr)
  have lh: "length hdr = 8" by (simp add: hdr)
  have "bb_window hb = hdr" "length (bb_window hb) = 8" using lh by (simp_all add: hb_def bb_window_def bb_remaining_def)
  moreover have "take (min k (length xs)) xs = take k xs" for k and xs :: bytes by (simp add: min_def)
  from this [of _ hdr] this [of _ "bb_window data"]
  have "take (min k 8) hdr = take k hdr" "take (min k (length (bb_window data))) (bb_window data) = take k (bb_window data)" for k
    by (simp_all only: lh)
  ultimately show ?thesis
    using assms(1) ph lh
    by (simp add: writeBlock_def on_header_def on_channel_def bind_run bindS_def getS_def modifyS_def
        channel_write_def Let_def)
qed

definition slow_stream :: SnappyFramedOutputStream where
  "slow_stream = \<lparr>crc32 = new_crc,
     headerBuffer = \<lparr>bb_data = replicate 8 0, bb_pos = 0, bb_limit = 8, bb_direct = False\<rparr>,
     fo_pool = Quiescent, fo_blockSize = 4,
     fo_buffer = \<lparr>bb_data = [0, 0, 0, 0], bb_pos = 0, bb_limit = 4, bb_direct = False\<rparr>,
     directInputBuffer = \<lparr>bb_data = [0, 0, 0, 0], bb_pos = 0, bb_limit = 4, bb_direct = True\<rparr>,
     fo_outputBuffer = \<lparr>bb_data = replicate 36 0, bb_pos = 0, bb_limit = 36, bb_direct = True\<rparr>,
     minCompressionRatio = demo_ratio, fo_out = open_channel\<lparr>ch_take := (\<lambda>k n. min n 2)\<rparr>, fo_closed = False\<rparr>"

theorem partial_write_loses_witness:
  "\<exists>b s'. writeBlock \<lparr>bb_data = [7, 8, 9], bb_pos = 0, bb_limit = 3, bb_direct = False\<rparr> False 0 slow_stream = (Inr b, s')
    \<and> ch_data (fo_out s') = [1, 7] @ [7, 8]"
  using partial_write_loses [of slow_stream "\<lparr>bb_data = [7, 8, 9], bb_pos = 0, bb_limit = 3, bb_direct = False\<rparr>" False 0
      "1 # le24 7 @ int_le 0"]
  by (simp add: slow_stream_def open_channel_def bb_wf_def bb_capacity_def chunk_frame_def bb_window_def bb_remaining_def
      le24_def)

end
