(* ===== verification/Framed_Channel.thy ===== *)
theory Framed_Channel
  imports Framed_Props Steady
begin

text \<open>
  \<open>SnappyFramedInputStream.transferTo(WritableByteChannel)\<close>: the method wraps the array of the stream
  once. While no chunk is larger than the buffers the stream was created with, the array is never
  replaced and the channel receives what the stream decodes to; a larger chunk replaces it, and the
  channel receives what the old array holds.
\<close>

section \<open>Operations that keep the array\<close>

abbreviation keeps_array :: "'a fis \<Rightarrow> bool" where
  "keeps_array \<equiv> steady (\<lambda>_. True) (\<lambda>s t. fi_array t = fi_array s)"

interpretation array: framing "\<lambda>_. True" "\<lambda>s t. fi_array t = fi_array s"
  by unfold_locales simp_all

lemma keeps_array_def: "keeps_array f \<longleftrightarrow> (\<forall>s. fi_array (snd (f s)) = fi_array s)"
  by (simp add: steady_def)

named_theorems keeps_rules

lemma keeps_array_eq: "keeps_array f \<Longrightarrow> f s = (r, s') \<Longrightarrow> fi_array s' = fi_array s"
  by (metis keeps_array_def snd_conv)

lemma keeps_array_snd: "keeps_array f \<Longrightarrow> fi_array (snd (f s)) = fi_array s"
  by (simp add: keeps_array_def)

lemma array_bind: "(\<And>x. keeps_array (g x)) \<Longrightarrow> fi_array (snd (bindS f g s)) = fi_array (snd (f s))"
  by (cases "f s") (auto simp: bindS_def keeps_array_snd split: sum.splits)

lemmas [keeps_rules] = array.steady_bind array.steady_idle steady_modify

lemma keeps_array_basic [keeps_rules]:
  "(\<And>x. keeps_array (h x)) \<Longrightarrow> keeps_array (getS h)"
  "keeps_array (on_pool p)" "keeps_array (on_input i)" "keeps_array (on_direct i)" "keeps_array (from_input f)"
  "keeps_array read_input" "keeps_array readBlockHeader" "keeps_array (copy_out src n)" "keeps_array (skip_frame n)"
  by (auto simp: keeps_array_def getS_def on_pool_def on_input_def on_direct_def
      from_input_def read_input_def readBlockHeader_def copy_out_def skip_frame_def from_buffer_def throwS_def
      split: prod.splits option.splits sum.splits)

lemma keeps_array_from_buffer [keeps_rules]: "(\<And>b. keeps_array (f b)) \<Longrightarrow> keeps_array (from_buffer f)"
  by (auto simp: keeps_array_def from_buffer_def getS_def throwS_def split: option.splits)

lemma keeps_array_frames [keeps_rules]:
  "keeps_array (unpack_raw n)" "keeps_array (verify_frame c)"
proof -
  show "keeps_array (unpack_raw n)" unfolding unpack_raw_def by (intro keeps_rules) simp_all
  have "keeps_array (\<lambda>s. case maskedCrc32c b (fi_position s) (fi_valid s - fi_position s) (fi_crc s) of
           (r, k) \<Rightarrow>
             (case r of
                Inl e \<Rightarrow> Inl e
              | Inr actual \<Rightarrow>
                  if c \<noteq> actual then Inl (IOException ''Corrupt input: invalid checksum'') else Inr (),
              s\<lparr>fi_crc := k\<rparr>))" for b
    by (auto simp: keeps_array_def split: prod.splits)
  then show "keeps_array (verify_frame c)" unfolding verify_frame_def by (intro keeps_rules) (auto intro: keeps_rules)
qed

section \<open>Frames that fit\<close>

lemma load_frame_array:
  assumes i: "fi_input s = Some i"
  shows "fi_array (snd (load_frame lib len s))
      = fi_array (snd ((if len > bb_capacity i then allocateBuffersBasedOnSize lib len else returnS ()) s))"
proof -
  let ?a = "if len > bb_capacity i then allocateBuffersBasedOnSize lib len else returnS ()"
  define rest :: "unit fis" where "rest = bindS (on_input (modifyS bb_clear)) (\<lambda>_. bindS (on_input (bb_set_limit len)) (\<lambda>_.
     bindS read_input (\<lambda>actualRead. if actualRead \<noteq> len then throwS EOFException else on_input (modifyS bb_flip))))"
  have "keeps_array rest" unfolding rest_def by (intro keeps_rules) (simp add: keeps_rules)
  then have "fi_array (snd (bindS ?a (\<lambda>_. rest) s)) = fi_array (snd (?a s))"
    by (intro array_bind)
  moreover have "from_input (\<lambda>b. Inr (bb_capacity b)) s = (Inr (bb_capacity i), s)" by (rule from_input_ok [OF i])
  then have "load_frame lib len s = bindS ?a (\<lambda>_. rest) s"
    unfolding load_frame_def rest_def by (subst bindS_def) simp
  ultimately show ?thesis by simp
qed

lemma load_frame_keeps:
  assumes "fi_inv s" and "len \<le> 65541"
  shows "fi_array (snd (load_frame lib len s)) = fi_array s"
proof -
  obtain i where "fi_input s = Some i" "65541 \<le> bb_capacity i" using assms(1) by (auto simp: fi_inv_def)
  then show ?thesis using assms(2) by (simp add: load_frame_array returnS_def)
qed

lemma ensure_direct_keeps:
  assumes "uncompressedDirect s = Some u" and "n \<le> bb_capacity u"
  shows "ensure_direct n s = (Inr (), s)"
proof -
  have "on_direct (\<lambda>b. (Inr (bb_capacity b), b)) s = (Inr (bb_capacity u), s)" by (rule from_direct_ok [OF assms(1)])
  then show ?thesis using assms(2) by (simp add: ensure_direct_def bindS_def returnS_def)
qed

text \<open>What a chunk claims, in the terms of the buffers.\<close>

lemma unpack_compressed_keeps:
  assumes inv: "fi_inv s" and i: "fi_input s = Some i" "bb_pos i = 0" "bb_limit i = len" "bb_wf i" "4 \<le> len"
    and z: "z = drop 4 (take (nat len) (bb_data i))" and small: "\<And>m. parse_length lib z = Some m \<Longrightarrow> m \<le> 65541"
  shows "fi_array (snd (unpack_compressed lib 4 s)) = fi_array s"
proof -
  define i1 where "i1 = i\<lparr>bb_pos := 4\<rparr>"
  define s1 where "s1 = s\<lparr>fi_input := Some i1\<rparr>"
  obtain u where u: "uncompressedDirect s1 = Some u" "65541 \<le> bb_capacity u"
    using inv i(1) by (auto simp: fi_inv_def s1_def)
  have p: "on_input (bb_set_position 4) s = (Inr (), s1)"
    unfolding s1_def by (rule on_input_ok [OF i(1)]) (use i in \<open>simp add: bb_set_position_def i1_def\<close>)
  have r: "in_range 4 (len - 4) (length (bb_data i))" using i by (simp add: in_range_def bb_wf_def bb_capacity_def)
  have zs: "z = segment 4 (len - 4) (bb_data i)" using i(5) by (simp add: z segment_def drop_take nat_diff_distrib)
  have "bb_direct i" using inv i(1) by (auto simp: fi_inv_def)
  then have i1: "bb_remaining i1 = len - 4" "bb_pos i1 = 4" "bb_data i1 = bb_data i" "bb_direct i1"
    using i by (simp_all add: i1_def bb_remaining_def)
  have ul: "from_input (s_uncompressedLength_buffer lib) s1 =
      (case parse_length lib z of None \<Rightarrow> Inl (throw_error 2) | Some m \<Rightarrow> Inr (i32 (int m)), s1)"
    using from_input_ok [of s1 i1 "s_uncompressedLength_buffer lib"] r i1
    by (simp add: s_uncompressedLength_buffer_def impl_uncompressedLength_def zs s1_def)
  define rest :: "unit fis" where "rest =
     bindS (on_direct (modifyS bb_clear)) (\<lambda>_.
     bindS (from_input (\<lambda>i. Inr i)) (\<lambda>i.
     bindS (on_direct (s_uncompress_buffer lib i)) (\<lambda>n.
     bindS (modifyS (\<lambda>s. s\<lparr>fi_valid := n\<rparr>)) (\<lambda>_.
     bindS (on_direct (\<lambda>u. (Inr u, u))) (\<lambda>u.
     bindS (copy_out u n) (\<lambda>u'.
     modifyS (\<lambda>s. s\<lparr>uncompressedDirect := Some u', fi_position := 0\<rparr>)))))))"
  have k: "keeps_array rest" unfolding rest_def by (intro keeps_rules) simp_all
  have st: "unpack_compressed lib 4 s
      = (case parse_length lib z of None \<Rightarrow> (Inl (throw_error 2), s1)
         | Some m \<Rightarrow> bindS (ensure_direct (i32 (int m))) (\<lambda>_. rest) s1)"
    unfolding unpack_compressed_def rest_def
    by (simp add: bindS_def [of "on_input _"] p bindS_def [of "from_input (s_uncompressedLength_buffer lib)"] ul
        split: option.splits)
  show ?thesis
  proof (cases "parse_length lib z")
    case None
    then show ?thesis by (simp add: st s1_def)
  next
    case (Some m)
    have "i32 (int m) = int m" "int m \<le> bb_capacity u"
      using small [OF Some] u(2) by (simp_all add: i32_int_len int_max_def)
    then have "unpack_compressed lib 4 s = rest s1"
      using Some ensure_direct_keeps [OF u(1)] by (simp add: st bindS_def)
    then show ?thesis using keeps_array_snd [OF k, of s1] by (simp add: s1_def)
  qed
qed

definition small_frame :: "snappy_lib \<Rightarrow> FrameAction \<Rightarrow> int \<Rightarrow> bytes \<Rightarrow> bool" where
  "small_frame lib action n body \<longleftrightarrow> n \<le> 65541 \<and>
     (action = UNCOMPRESS \<longrightarrow> (case parse_length lib (drop 4 body) of None \<Rightarrow> True | Some m \<Rightarrow> m \<le> 65541))"

lemma unpack_frame_keeps:
  assumes lib: "frame_lib lib" and inv: "fi_inv s" "fi_available s \<le> 0" and len: "5 \<le> len"
    and body: "body = take (nat len) (src_data (fi_rbc s))" and small: "small_frame lib action len body"
  shows "fi_array (snd (unpack_frame lib action len s)) = fi_array s"
proof -
  let ?d = "src_data (fi_rbc s)"
  have l: "0 < len" "len \<le> 2 ^ 24" "len \<le> 65541" using len small by (simp_all add: small_frame_def)
  obtain t where t: "load_frame lib len s = (if int (length ?d) < len then Inl EOFException else Inr (), t)" "fi_inv t"
    "len \<le> int (length ?d) \<Longrightarrow> \<exists>i. fi_input t = Some i \<and> bb_pos i = 0 \<and> bb_limit i = len \<and> take (nat len) (bb_data i) = body"
    using load_frame_ok [OF lib inv l(1,2)] unfolding body by metis
  have at: "fi_array t = fi_array s" using load_frame_keeps [OF inv(1) l(3), of lib] t(1) by simp
  show ?thesis
  proof (cases "int (length ?d) < len")
    case True
    then show ?thesis using t(1) at by (simp add: unpack_frame_def bindS_def)
  next
    case False
    then obtain i where i: "fi_input t = Some i" "bb_pos i = 0" "bb_limit i = len" "take (nat len) (bb_data i) = body"
      using t(3) by auto
    have "length body = nat len" using False by (simp add: body)
    then have wf: "bb_wf i" using i len by (auto simp: bb_wf_def bb_capacity_def)
    have l4: "4 \<le> len" using len by simp
    have fd: "from_input getFrameData t = (Inr (le_int (take 4 body), 4), t)"
      using from_input_ok [OF i(1), of getFrameData] getFrameData_ok [OF i(2,3) l4] i(4) by simp
    define u where "u = (if action = UNCOMPRESS then unpack_compressed lib 4 else unpack_raw 4)"
    have uf: "unpack_frame lib action len s = bindS u (\<lambda>_. verify_frame (le_int (take 4 body))) t"
      using False t(1) fd by (simp add: unpack_frame_def bindS_def u_def)
    have "fi_array (snd (u t)) = fi_array t"
    proof (cases "action = UNCOMPRESS")
      case True
      then have "m \<le> 65541" if "parse_length lib (drop 4 body) = Some m" for m
        using small that by (simp add: small_frame_def)
      then show ?thesis
        using unpack_compressed_keeps [OF t(2) i(1-3) wf l4 refl, of lib] True i(4) by (simp add: u_def)
    next
      case False
      then show ?thesis by (simp add: u_def keeps_array_snd keeps_rules)
    qed
    moreover have "fi_array (snd (bindS u (\<lambda>_. verify_frame (le_int (take 4 body))) t)) = fi_array (snd (u t))"
      by (intro array_bind keeps_rules)
    ultimately show ?thesis using at by (simp add: uf)
  qed
qed

section \<open>Streams of chunks that fit\<close>

definition small_chunk :: "snappy_lib \<Rightarrow> bytes \<Rightarrow> bool" where
  "small_chunk lib d \<longleftrightarrow>
     (4 \<le> length d \<longrightarrow>
      (case chunk_header (take 4 d) of
         Inl _ \<Rightarrow> True
       | Inr (action, n) \<Rightarrow> action \<noteq> SKIP \<longrightarrow> small_frame lib action n (take (nat n) (drop 4 d))))"

lemma small_chunk_code:
  "small_chunk lib d \<longleftrightarrow>
     (4 \<le> length d \<longrightarrow>
      (case getFrameMetaData (take 4 d) of
         Inl _ \<Rightarrow> True
       | Inr (action, n) \<Rightarrow> action \<noteq> SKIP \<longrightarrow> small_frame lib action n (take (nat n) (drop 4 d))))"
  by (simp add: small_chunk_def chunk_header)

function small_chunks :: "snappy_lib \<Rightarrow> bool \<Rightarrow> bytes \<Rightarrow> bool" where
  "small_chunks lib verify d =
     (small_chunk lib d \<and>
      (case next_chunk lib verify d of
         (c, d') \<Rightarrow> (case c of Data _ \<Rightarrow> small_chunks lib verify d' | Pass \<Rightarrow> small_chunks lib verify d'
                     | Finish \<Rightarrow> True | Broken _ \<Rightarrow> True)))"
  by pat_completeness auto
termination
  by (relation "measure (\<lambda>(lib, v, d). length d)") (auto dest: next_chunk_shorter [OF sym])

declare small_chunks.simps [simp del]

lemma small_chunks_step:
  "small_chunks lib verify d \<Longrightarrow> small_chunk lib d"
  "small_chunks lib verify d \<Longrightarrow> next_chunk lib verify d = (Data y, d') \<Longrightarrow> small_chunks lib verify d'"
  "small_chunks lib verify d \<Longrightarrow> next_chunk lib verify d = (Pass, d') \<Longrightarrow> small_chunks lib verify d'"
  by (subst (asm) small_chunks.simps; simp)+

lemma small_chunk_modest: "small_chunk lib d \<Longrightarrow> modest_chunk lib d"
  by (auto simp: small_chunk_code modest_chunk_code small_frame_def int_max_def split: sum.splits option.splits)

lemma small_chunks_modest: "small_chunks lib verify d \<Longrightarrow> modest lib verify d"
proof (induction lib verify d rule: modest.induct)
  case (1 lib verify d)
  have m: "modest_chunk lib d" using small_chunks_step(1) [OF "1.prems"] by (rule small_chunk_modest)
  obtain c d' where c: "next_chunk lib verify d = (c, d')" by fastforce
  have "modest lib verify d'" if "c = Pass \<or> (\<exists>y. c = Data y)"
    using that small_chunks_step(2,3) [OF "1.prems"] "1.IH" c by auto
  then show ?case using m c by (subst modest.simps) (simp split: chunk.splits)
qed

text \<open>A call of \<open>ensureBuffer\<close> that meets a data chunk.\<close>

lemma ensure_step_frame:
  assumes inv: "fi_inv s" "fi_available s \<le> 0" "\<not> fi_eof s" and d: "d = src_data (fi_rbc s)" "4 \<le> length d"
    and f: "getFrameMetaData (take 4 d) = Inr (action, n)" "action \<noteq> SKIP"
  obtains t where "fi_array (snd (ensure_step lib s)) = fi_array (snd (unpack_frame lib action n t))" and "fi_inv t"
    and "fi_available t \<le> 0" and "src_data (fi_rbc t) = drop 4 d" and "fi_array t = fi_array s" and "fi_input t = fi_input s"
proof -
  obtain t where t: "readBlockHeader s =
       (if d = [] then Inr False else if length d < 4 then Inl EOFException else Inr True, t)"
    "fi_inv t" "fi_available t \<le> 0" "src_data (fi_rbc t) = drop 4 d"
    "4 \<le> length d \<Longrightarrow> bb_data (frameHeader t) = take 4 d"
    using readBlockHeader_ok [OF inv(1,2) d(1)] by metis
  have "fi_array (snd (readBlockHeader s)) = fi_array s" "fi_input (snd (readBlockHeader s)) = fi_input s"
    by (simp_all add: keeps_array_snd keeps_rules readBlockHeader_def split: prod.splits)
  then have at: "fi_array t = fi_array s" "fi_input t = fi_input s" using t(1) by simp_all
  have "ensure_step lib s = bindS (unpack_frame lib action n) (\<lambda>_. returnS Filled) t"
    using inv(2,3) t(1) t(5) [OF d(2)] d(2) f
    by (auto simp: ensure_step_def bindS_def [of readBlockHeader] bindS_def [of "getS _"] getS_def liftE_def)
  then have "fi_array (snd (ensure_step lib s)) = fi_array (snd (unpack_frame lib action n t))"
    by (simp add: array_bind keeps_rules)
  then show thesis using that t(2-4) at by blast
qed

lemma ensure_step_keeps:
  assumes lib: "frame_lib lib" and inv: "fi_inv s" "fi_available s \<le> 0" and small: "small_chunk lib (src_data (fi_rbc s))"
  shows "fi_array (snd (ensure_step lib s)) = fi_array s"
proof (cases "\<not> fi_eof s \<and> 4 \<le> length (src_data (fi_rbc s))
    \<and> (\<exists>action n. getFrameMetaData (take 4 (src_data (fi_rbc s))) = Inr (action, n) \<and> action \<noteq> SKIP)")
  case True
  then obtain action n where f: "\<not> fi_eof s" "4 \<le> length (src_data (fi_rbc s))"
    "getFrameMetaData (take 4 (src_data (fi_rbc s))) = Inr (action, n)" "action \<noteq> SKIP" by blast
  obtain t where t: "fi_array (snd (ensure_step lib s)) = fi_array (snd (unpack_frame lib action n t))" "fi_inv t"
    "fi_available t \<le> 0" "src_data (fi_rbc t) = drop 4 (src_data (fi_rbc s))" "fi_array t = fi_array s"
    by (rule ensure_step_frame [OF inv f(1) refl f(2-4)])
  have "small_frame lib action n (take (nat n) (src_data (fi_rbc t)))"
    using small f(2-4) by (simp add: small_chunk_code t(4))
  from unpack_frame_keeps [OF lib t(2,3) getFrameMetaData_bounds(3) [OF f(3,4)] refl this]
  show ?thesis using t(1,5) by simp
next
  case False
  let ?d = "src_data (fi_rbc s)"
  obtain t where t: "readBlockHeader s =
       (if ?d = [] then Inr False else if length ?d < 4 then Inl EOFException else Inr True, t)"
    "4 \<le> length ?d \<Longrightarrow> bb_data (frameHeader t) = take 4 ?d"
    using readBlockHeader_ok [OF inv refl] by metis
  have at: "fi_array t = fi_array s"
    using keeps_array_snd [of readBlockHeader s] t(1) by (simp add: keeps_rules)
  define rest :: "ensured fis" where "rest = bindS (getS (\<lambda>s. liftE (getFrameMetaData (bb_data (frameHeader s))))) (\<lambda>(action, len).
         if action = SKIP then bindS (skip_frame len) (\<lambda>_. returnS Skipped)
         else bindS (unpack_frame lib action len) (\<lambda>_. returnS Filled))"
  have "fi_array (snd (rest t)) = fi_array s" if d: "4 \<le> length ?d" "\<not> fi_eof s"
  proof (cases "getFrameMetaData (take 4 ?d)")
    case (Inl e)
    then show ?thesis using at t(2) [OF d(1)] by (simp add: rest_def bindS_def getS_def liftE_def)
  next
    case (Inr an)
    then obtain n where an: "getFrameMetaData (take 4 ?d) = Inr (SKIP, n)" using False d by (cases an) blast
    have "rest t = bindS (skip_frame n) (\<lambda>_. returnS Skipped) t"
      using an t(2) [OF d(1)] by (simp add: rest_def bindS_def [of "getS _"] getS_def liftE_def)
    then show ?thesis using at by (simp add: array_bind keeps_array_snd keeps_rules)
  qed
  moreover have "?d \<noteq> [] \<and> \<not> length ?d < 4 \<longleftrightarrow> 4 \<le> length ?d" by auto
  moreover have "ensure_step lib s = (if fi_eof s then (Inr AtEnd, s) else bindS readBlockHeader (\<lambda>ok.
       if \<not> ok then bindS (modifyS (\<lambda>s. s\<lparr>fi_eof := True\<rparr>)) (\<lambda>_. returnS AtEnd) else rest) s)"
    using inv(2) unfolding rest_def by (simp add: ensure_step_def getS_def returnS_def)
  ultimately show ?thesis using t(1) at by (auto simp: bindS_def modifyS_def returnS_def)
qed

text \<open>The array and the size of the chunks to come, over a call of \<open>ensureBuffer\<close>.\<close>

lemma ensureBuffer_keeps:
  assumes lib: "frame_lib lib"
  shows "fi_inv s \<Longrightarrow> small_chunks lib (verifyChecksums s) (src_data (fi_rbc s)) \<Longrightarrow> ensureBuffer lib s = (Inr True, s') \<Longrightarrow>
    fi_array s' = fi_array s \<and> small_chunks lib (verifyChecksums s) (src_data (fi_rbc s'))"
proof (induction "fi_left s" arbitrary: s rule: less_induct)
  case less
  let ?v = "verifyChecksums s" and ?d = "src_data (fi_rbc s)"
  note e = less.prems(3) [unfolded ensureBuffer.simps [of lib s]]
  show ?case
  proof (cases "0 < fi_available s")
    case True
    then show ?thesis using less.prems ensureBuffer_filled [OF True] by simp
  next
    case False
    then have av: "fi_available s \<le> 0" by simp
    have ne: "\<not> fi_eof s" using less.prems(3) ensureBuffer_at_end [OF av] by auto
    obtain c d' where c: "next_chunk lib ?v ?d = (c, d')" by fastforce
    note sm = small_chunks_step [OF less.prems(2)]
    obtain t where t: "ensure_step lib s =
       (case c of Data _ \<Rightarrow> Inr Filled | Pass \<Rightarrow> Inr Skipped | Finish \<Rightarrow> Inr AtEnd | Broken e \<Rightarrow> Inl e, t)"
      "fi_inv t" "src_data (fi_rbc t) = d'" "verifyChecksums t = ?v"
      using ensure_step_ok [OF lib less.prems(1) av ne small_chunk_modest [OF sm(1)] c] by metis
    have at: "fi_array t = fi_array s" using ensure_step_keeps [OF lib less.prems(1) av sm(1)] t(1) by simp
    show ?thesis
    proof (cases c)
      case (Data y)
      then show ?thesis using e t(1,3) at sm(2) c by simp
    next
      case Pass
      then have r: "fi_left t < fi_left s" "ensureBuffer lib t = (Inr True, s')" using e t(1) by (auto split: if_splits)
      show ?thesis using less.hyps [OF r(1) t(2) _ r(2)] t(3,4) at sm(3) c Pass by simp
    qed (use e t(1) in simp_all)
  qed
qed

section \<open>The loop\<close>

text \<open>A channel that does not throw and takes at least one byte of those it is offered.\<close>

definition channel_eager :: "channel \<Rightarrow> bool" where
  "channel_eager c \<longleftrightarrow> (\<forall>k. \<not> ch_fail c k) \<and> (\<forall>k n. 0 < n \<longrightarrow> 0 < ch_take c k n)"

lemma eager_write:
  assumes "channel_eager c"
  obtains n c' where "channel_write bb c = (Inr (bb\<lparr>bb_pos := bb_pos bb + int n\<rparr>), c')" and "channel_eager c'"
    and "ch_data c' = ch_data c @ take n (bb_window bb)"
    and "n = min (ch_take c (ch_calls c) (length (bb_window bb))) (length (bb_window bb))"
proof -
  define n where "n = min (ch_take c (ch_calls c) (length (bb_window bb))) (length (bb_window bb))"
  let ?c = "c\<lparr>ch_calls := Suc (ch_calls c), ch_data := ch_data c @ take n (bb_window bb)\<rparr>"
  have "channel_write bb c = (Inr (bb\<lparr>bb_pos := bb_pos bb + int n\<rparr>), ?c)"
    using assms by (simp add: channel_write_def channel_eager_def n_def Let_def)
  then show thesis by (rule that) (use assms in \<open>simp_all add: channel_eager_def n_def\<close>)
qed

text \<open>One round: \<open>w\<close> is what the channel is offered.\<close>

lemma transfer_wbc_round:
  assumes e: "ensureBuffer lib s = (Inr True, t)" and b: "fi_buffer t = Some b"
    and d: "d = wrapped_bytes b a cap t (reused fuel)" and r: "in_range (fi_position t) (fi_available t) (length d)"
    and w: "w = segment (fi_position t) (fi_available t) d" and wbc: "channel_eager wbc"
  obtains n wbc' where "transfer_wbc reused lib (Suc fuel) a cap tot (wbc, s)
      = transfer_wbc reused lib fuel a cap (tot + int n) (wbc', t\<lparr>fi_position := fi_position t + int n\<rparr>)"
    and "channel_eager wbc'" and "ch_data wbc' = ch_data wbc @ take n w" and "n \<le> length w" and "w = [] \<or> 0 < n"
    and "n = min (ch_take wbc (ch_calls wbc) (length w)) (length w)"
proof -
  let ?p = "fi_position t"
  define bb where "bb = \<lparr>bb_data = d, bb_pos = ?p, bb_limit = ?p + fi_available t, bb_direct = False\<rparr>"
  have bw: "bb_window bb = w" by (simp add: bb_window_def bb_remaining_def bb_def w)
  have st: "bindS (bb_set_position ?p) (\<lambda>_. bb_set_limit (?p + fi_available t))
      \<lparr>bb_data = d, bb_pos = 0, bb_limit = int (length d), bb_direct = False\<rparr> = (Inr (), bb)"
    using r by (simp add: bindS_def bb_set_position_def bb_set_limit_def in_range_def bb_capacity_def bb_def)
  obtain n wbc' where n: "channel_write bb wbc = (Inr (bb\<lparr>bb_pos := ?p + int n\<rparr>), wbc')" "channel_eager wbc'"
    "ch_data wbc' = ch_data wbc @ take n w" "n = min (ch_take wbc (ch_calls wbc) (length w)) (length w)"
    using eager_write [OF wbc, of bb] unfolding bw by (metis bb_def byte_buffer.select_convs(2))
  have "transfer_wbc reused lib (Suc fuel) a cap tot (wbc, s)
      = transfer_wbc reused lib fuel a cap (tot + int n) (wbc', t\<lparr>fi_position := ?p + int n\<rparr>)"
    using e b st n(1) by (simp add: d [symmetric] Let_def)
  moreover have "n \<le> length w" "w = [] \<or> 0 < n" using n(4) wbc by (auto simp: channel_eager_def)
  ultimately show thesis using that n(2-4) by blast
qed

text \<open>The current chunk of a stream that is ready.\<close>

lemma fi_current:
  assumes "fi_inv t" and "0 < fi_available t \<or> fi_loaded y t"
  obtains b where "fi_buffer t = Some b" and "in_range (fi_position t) (fi_available t) (length b)"
    and "fi_unread t = segment (fi_position t) (fi_available t) b" and "fi_valid t = fi_position t + fi_available t"
proof (cases "0 < fi_available t")
  case True
  show thesis by (rule fi_available_buffer [OF assms(1) True]) (rule that)
next
  case False
  then have l: "fi_loaded y t" using assms(2) by simp
  obtain b where b: "fi_buffer t = Some b" "fi_position t = 0" "fi_available t = int (length y)"
    "in_range 0 (int (length y)) (length b)" "segment 0 (int (length y)) b = y" "fi_valid t = int (length y)"
    by (rule fi_loaded_parts [OF l assms(1)])
  show thesis by (rule that [OF b(1)]) (use b in \<open>simp_all add: fi_unread_def\<close>)
qed

lemma fi_unread_advance:
  assumes cur: "fi_buffer t = Some b" "in_range (fi_position t) (fi_available t) (length b)"
    "fi_unread t = segment (fi_position t) (fi_available t) b" "fi_valid t = fi_position t + fi_available t"
    and inv: "fi_inv t" and n: "n \<le> length (fi_unread t)"
  shows "fi_unread (t\<lparr>fi_position := fi_position t + int n\<rparr>) = drop n (fi_unread t)"
proof -
  have len: "length (fi_unread t) = nat (fi_available t)" using length_segment [OF cur(2)] cur(3) by simp
  have av: "0 \<le> fi_available t" "int n \<le> fi_available t" using cur(2) n len by (auto simp: in_range_def)
  have c: "\<not> fi_closed t" using inv by (simp add: fi_inv_def)
  then have "fi_available (t\<lparr>fi_position := fi_position t + int n\<rparr>) = fi_available t - int n" by (simp add: fi_available_def)
  then have "fi_unread (t\<lparr>fi_position := fi_position t + int n\<rparr>) = segment (fi_position t + int n) (fi_available t - int n) b"
    using cur(1) av by (simp add: fi_unread_def)
  also have "\<dots> = drop n (segment (fi_position t) (fi_available t) b)"
  proof -
    have p: "0 \<le> fi_position t" using cur(2) by (simp add: in_range_def)
    have "segment (fi_position t) (int n) b @ segment (fi_position t + int n) (fi_available t - int n) b
        = segment (fi_position t) (fi_available t) b"
      using segment_append_segment [OF p, of "int n" "fi_available t - int n" b] av by simp
    moreover have "length (segment (fi_position t) (int n) b) = n"
      using length_segment [of "fi_position t" "int n" b] cur(2) av by (simp add: in_range_def)
    ultimately show ?thesis by (metis append_eq_conv_conj)
  qed
  finally show ?thesis using cur(3) by simp
qed

text \<open>What is left to deliver; each round takes a byte of it, or an empty chunk.\<close>

lemma transfer_wbc_ok:
  assumes lib: "frame_lib lib"
  shows "fi_ready lib ys r s \<Longrightarrow> small_chunks lib (verifyChecksums s) (src_data (fi_rbc s)) \<Longrightarrow> fi_array s = a \<Longrightarrow>
    channel_eager wbc \<Longrightarrow> length (fi_unread s @ concat ys) + length ys < fuel \<Longrightarrow>
    \<exists>wbc' s'. transfer_wbc reused lib fuel a cap tot (wbc, s) =
        (case r of None \<Rightarrow> Inr (tot + int (length (fi_unread s @ concat ys))) | Some e \<Rightarrow> Inl e, (wbc', s'))
      \<and> ch_data wbc' = ch_data wbc @ fi_unread s @ concat ys"
proof (induction fuel arbitrary: ys s wbc tot)
  case (Suc fuel)
  have inv: "fi_inv s" using Suc.prems(1) by (simp add: fi_ready_def)
  let ?d = "fi_unread s @ concat ys"
  show ?case
  proof (cases "fi_available s \<le> 0 \<and> ys = []")
    case True
    then have d: "?d = []" using fi_unread_empty by simp
    obtain s' where "ensureBuffer lib s = (case r of None \<Rightarrow> Inr False | Some e \<Rightarrow> Inl e, s')"
      using ensureBuffer_ok [OF lib Suc.prems(1)] True by auto
    then show ?thesis using d by (cases r) simp_all
  next
    case False
    have "\<exists>t zs y. ensureBuffer lib s = (Inr True, t) \<and> fi_ready lib zs r t \<and> (0 < fi_available t \<or> fi_loaded y t)
        \<and> verifyChecksums t = verifyChecksums s \<and> fi_unread t @ concat zs = ?d
        \<and> (length zs < length ys \<or> zs = ys \<and> fi_unread t \<noteq> [])"
    proof (cases "0 < fi_available s")
      case True
      obtain b where b: "in_range (fi_position s) (fi_available s) (length b)"
        "fi_unread s = segment (fi_position s) (fi_available s) b"
        by (rule fi_available_buffer [OF inv True])
      have "fi_unread s \<noteq> []" using length_segment [OF b(1)] b(2) True by auto
      then show ?thesis using True ensureBuffer_filled [OF True] Suc.prems(1) by blast
    next
      case na: False
      then have av: "fi_available s \<le> 0" by simp
      obtain y zs where ys: "ys = y # zs" using False av by (cases ys) auto
      obtain t where t: "ensureBuffer lib s = (Inr True, t)" "verifyChecksums t = verifyChecksums s" "fi_loaded y t"
        "fi_ready lib zs r t"
        using ensureBuffer_ok [OF lib Suc.prems(1) av] ys by auto
      have ti: "fi_inv t" using t(4) by (simp add: fi_ready_def)
      have "fi_unread t = y" by (rule fi_loaded_parts [OF t(3) ti]) (simp add: fi_unread_def)
      then show ?thesis using t ys fi_unread_empty [OF av] by (intro exI [of _ t] exI [of _ zs] exI [of _ y]) simp
    qed
    then obtain t zs y where t: "ensureBuffer lib s = (Inr True, t)" "fi_ready lib zs r t" "0 < fi_available t \<or> fi_loaded y t"
      "verifyChecksums t = verifyChecksums s" "fi_unread t @ concat zs = ?d"
      "length zs < length ys \<or> zs = ys \<and> fi_unread t \<noteq> []" by blast
    have ti: "fi_inv t" using t(2) by (simp add: fi_ready_def)
    have k: "fi_array t = a" "small_chunks lib (verifyChecksums t) (src_data (fi_rbc t))"
      using ensureBuffer_keeps [OF lib inv Suc.prems(2) t(1)] Suc.prems(3) t(4) by simp_all
    obtain b where b: "fi_buffer t = Some b" "in_range (fi_position t) (fi_available t) (length b)"
      "fi_unread t = segment (fi_position t) (fi_available t) b" "fi_valid t = fi_position t + fi_available t"
      by (rule fi_current [OF ti t(3)])
    have wb: "b = wrapped_bytes b a cap t (reused fuel)" using k(1) by (simp add: wrapped_bytes_def)
    obtain n wbc1 where n: "transfer_wbc reused lib (Suc fuel) a cap tot (wbc, s)
        = transfer_wbc reused lib fuel a cap (tot + int n) (wbc1, t\<lparr>fi_position := fi_position t + int n\<rparr>)"
      "channel_eager wbc1" "ch_data wbc1 = ch_data wbc @ take n (fi_unread t)" "n \<le> length (fi_unread t)"
      "fi_unread t = [] \<or> 0 < n"
      by (rule transfer_wbc_round [where reused = reused and fuel = fuel and tot = tot, OF t(1) b(1) wb b(2,3) Suc.prems(4)])
    let ?t = "t\<lparr>fi_position := fi_position t + int n\<rparr>"
    have u: "fi_unread ?t = drop n (fi_unread t)" by (rule fi_unread_advance [OF b ti n(4)])
    have rt: "fi_ready lib zs r ?t"
      by (rule fi_ready_position [OF t(2)]) (use b(2) in \<open>auto simp: in_range_def\<close>)
    have d: "take n (fi_unread t) @ fi_unread ?t @ concat zs = ?d" using t(5) by (metis u append_assoc append_take_drop_id)
    then have ld: "length ?d = n + length (fi_unread ?t @ concat zs)"
      using n(4) by (metis append_assoc length_append length_take min.absorb2)
    have lt: "length (fi_unread ?t @ concat zs) + length zs < fuel"
      using Suc.prems(5) ld t(6) n(5) by auto
    obtain wbc' s' where s': "transfer_wbc reused lib fuel a cap (tot + int n) (wbc1, ?t) =
        (case r of None \<Rightarrow> Inr (tot + int n + int (length (fi_unread ?t @ concat zs))) | Some e \<Rightarrow> Inl e, (wbc', s'))"
      "ch_data wbc' = ch_data wbc1 @ fi_unread ?t @ concat zs"
      using Suc.IH [OF rt _ _ n(2) lt, of "tot + int n"] k by auto
    have "transfer_wbc reused lib (Suc fuel) a cap tot (wbc, s) =
        (case r of None \<Rightarrow> Inr (tot + int (length ?d)) | Some e \<Rightarrow> Inl e, (wbc', s'))"
      using n(1) s'(1) ld by (cases r) simp_all
    moreover have "ch_data wbc' = ch_data wbc @ ?d" using s'(2) n(3) d by simp
    ultimately show ?thesis by blast
  qed
qed simp

text \<open>
  C9: \<open>transferTo(WritableByteChannel)\<close> on arbitrary data whose chunks fit the buffers of a new stream: a
  channel that does not throw and takes at least one byte of those it is offered receives exactly what
  the frame format decodes to, however it splits it up; the call returns the number of bytes, or throws
  the exception of the format after them. One round for each byte and each chunk is fuel enough.
\<close>

theorem channel_transfer_refines:
  assumes "frame_lib lib" and "good_pool pool" and "channel_eager wbc" and "prefix HEADER_BYTES (src_data src)"
    and "small_chunks lib verify (drop 10 (src_data src))"
    and "decode_stream lib verify (drop 10 (src_data src)) = (ys, r)" and "length (concat ys) + length ys < fuel"
  shows "\<exists>s wbc' s'. new_SnappyFramedInputStream lib src verify pool = Inr s
    \<and> transferTo_channel reused lib fuel (wbc, s) =
        (case r of None \<Rightarrow> Inr (int (length (concat ys))) | Some e \<Rightarrow> Inl e, (wbc', s'))
    \<and> ch_data wbc' = ch_data wbc @ concat ys"
proof -
  obtain s where s: "new_SnappyFramedInputStream lib src verify pool = Inr s" "src_data src = HEADER_BYTES @ src_data (fi_rbc s)"
    "fi_inv s" "\<not> fi_eof s" "fi_available s \<le> 0" "verifyChecksums s = verify"
    using new_framed_input_ok [OF assms(1,2), of src verify] assms(4) by blast
  have d: "drop 10 (src_data src) = src_data (fi_rbc s)" by (simp add: s(2))
  have sm: "small_chunks lib (verifyChecksums s) (src_data (fi_rbc s))" using assms(5) by (simp add: d s(6))
  have r: "fi_ready lib ys r s"
    using s(3,4,6) assms(6) small_chunks_modest [OF sm] by (simp add: fi_ready_def d)
  have u: "fi_unread s = []" by (rule fi_unread_empty [OF s(5)])
  obtain b where b: "fi_buffer s = Some b" "\<not> fi_closed s" using s(3) by (auto simp: fi_inv_def)
  have "\<exists>wbc' s'. transfer_wbc reused lib fuel (fi_array s) (length b) 0 (wbc, s) =
        (case r of None \<Rightarrow> Inr (0 + int (length (fi_unread s @ concat ys))) | Some e \<Rightarrow> Inl e, (wbc', s'))
      \<and> ch_data wbc' = ch_data wbc @ fi_unread s @ concat ys"
    by (rule transfer_wbc_ok [OF assms(1) r sm refl assms(3)]) (simp add: u assms(7))
  then show ?thesis using s(1) b by (cases r) (auto simp: transferTo_channel_def u)
qed

text \<open>A channel that takes two bytes at a time.\<close>

definition slow_channel :: channel where
  "slow_channel = open_channel\<lparr>ch_take := (\<lambda>k n. min n 2)\<rparr>"

theorem channel_transfer_refines_witness:
  "\<exists>s wbc' s'. new_SnappyFramedInputStream stored_lib (demo_source (HEADER_BYTES @ chunk_frame False (masked_crc [7, 8, 9]) [7, 8, 9] @ [1]))
        True Quiescent = Inr s
    \<and> transferTo_channel (\<lambda>_. []) stored_lib 9 (slow_channel, s) = (Inl EOFException, (wbc', s'))
    \<and> ch_data wbc' = [7, 8, 9]"
proof -
  let ?d = "chunk_frame False (masked_crc [7, 8, 9]) [7, 8, 9] @ [1]"
  have n: "next_chunk stored_lib True ?d = (Data [7, 8, 9], [1])" "next_chunk stored_lib True [1] = (Broken EOFException, [])"
    using next_chunk_frame(1) [of "[7, 8, 9]" stored_lib True False "masked_crc [7, 8, 9]" "[1]"] unpack_frames(1) [of stored_lib True]
    by (simp_all add: next_chunk_code)
  have dc: "decode_stream stored_lib True ?d = ([[7, 8, 9]], Some EOFException)"
    using decode_stream_step(1) [OF n(1)] decode_stream_step(4) [OF n(2)] by simp
  have m: "getFrameMetaData (1 # le24 7) = Inr (RAW, 7)" using frame_metadata [of 7 False] by simp
  have t: "take 4 ?d = 1 # le24 7" "length ?d = 12" by (simp_all add: chunk_frame_def le24_def)
  have "small_chunk stored_lib ?d" unfolding small_chunk_code t m by (simp add: small_frame_def)
  then have sm: "small_chunks stored_lib True ?d"
    using n by (subst small_chunks.simps, simp, subst small_chunks.simps) (simp add: small_chunk_code)
  have "channel_eager slow_channel" by (simp add: channel_eager_def slow_channel_def open_channel_def)
  moreover have "prefix HEADER_BYTES (src_data (demo_source (HEADER_BYTES @ ?d)))" by (simp add: demo_source_def)
  ultimately show ?thesis
    using channel_transfer_refines [OF stored_frame_lib, of Quiescent slow_channel "demo_source (HEADER_BYTES @ ?d)" True
        "[[7, 8, 9]]" "Some EOFException" 9 "\<lambda>_. []"] sm dc
    by (simp add: demo_source_def slow_channel_def open_channel_def)
qed

section \<open>Larger chunks\<close>

lemma new_framed_quiescent:
  assumes lib: "frame_lib lib" and s: "new_SnappyFramedInputStream lib src verify Quiescent = Inr s"
  obtains i b where "fi_input s = Some i" and "bb_capacity i = 65541" and "fi_buffer s = Some b"
    and "length b = max_compressed lib 65541"
proof -
  have mb: "s_maxCompressedLength lib 65541 = int (max_compressed lib 65541)" using frame_lib_bound [OF lib, of 65541] by simp
  define s0 where "s0 = \<lparr>fi_crc = new_crc, fi_rbc = src,
         frameHeader = \<lparr>bb_data = replicate 4 0, bb_pos = 0, bb_limit = 4, bb_direct = False\<rparr>,
         verifyChecksums = verify, fi_pool = Quiescent, fi_input = None, uncompressedDirect = None,
         fi_closed = False, fi_eof = False, fi_valid = 0, fi_position = 0, fi_buffer = None, fi_array = 0\<rparr>"
  define s1 where "s1 = snd (allocateBuffersBasedOnSize lib (FRAMED_MAX_BLOCK_SIZE + 5) s0)"
  have e: "fst (allocateBuffersBasedOnSize lib (FRAMED_MAX_BLOCK_SIZE + 5) s0) = Inr ()"
    "fi_input s1 = Some \<lparr>bb_data = replicate 65541 0, bb_pos = 0, bb_limit = 65541, bb_direct = True\<rparr>"
    "fi_buffer s1 = Some (replicate (max_compressed lib 65541) 0)"
    unfolding s1_def s0_def FRAMED_MAX_BLOCK_SIZE_def
    by (simp_all add: allocateBuffersBasedOnSize_def bindS_def modifyS_def on_pool_def quiescent_allocateDirect_def
        quiescent_allocateArray_def allocate_direct_def new_array_def release_direct_def release_array_def mb)
  then have "allocateBuffersBasedOnSize lib (FRAMED_MAX_BLOCK_SIZE + 5) s0 = (Inr (), s1)" by (simp add: s1_def prod_eq_iff)
  then have "s = snd (read_header s1)"
    using s by (simp add: new_SnappyFramedInputStream_def s0_def [symmetric] bindS_def split: prod.splits sum.splits)
  then have "fi_input s = fi_input s1" "fi_buffer s = fi_buffer s1" by (simp_all add: read_header_def split: prod.splits)
  then show thesis using that e(2,3) by (simp add: bb_capacity_def)
qed

lemma unpack_raw_replaces:
  assumes lib: "frame_lib lib" and inv: "fi_inv s" and len: "0 < len" "len \<le> 2 ^ 24"
    and i: "fi_input s = Some i" "bb_capacity i < len"
  shows "fi_array (snd (unpack_frame lib RAW len s)) = Suc (fi_array s)"
proof -
  have g: "good_pool (fi_pool s)" "\<And>b. fi_input s = Some b \<Longrightarrow> bb_direct b" "\<And>b. uncompressedDirect s = Some b \<Longrightarrow> bb_direct b"
    using inv by (auto simp: fi_inv_def)
  obtain i1 u b p where a: "allocateBuffersBasedOnSize lib len s
      = (Inr (), s\<lparr>fi_pool := p, fi_input := Some i1, uncompressedDirect := Some u, fi_buffer := Some b, fi_array := Suc (fi_array s)\<rparr>)"
    by (rule allocateBuffers_ok [OF lib len g])
  have "fi_array (snd (unpack_frame lib RAW len s)) = fi_array (snd (load_frame lib len s))"
    unfolding unpack_frame_def by (rule array_bind) (auto intro!: keeps_rules)
  then show ?thesis using load_frame_array [OF i(1), of lib len] i(2) a by simp
qed

lemma ensureBuffer_replaces:
  assumes lib: "frame_lib lib" and s: "fi_inv s" "fi_available s \<le> 0" "\<not> fi_eof s"
    and d: "src_data (fi_rbc s) = chunk_frame False c x @ rest"
    and i: "fi_input s = Some i" "bb_capacity i < int (length x) + 4" and x: "x \<noteq> []" "int (length x) + 4 < 2 ^ 24"
    and t: "ensureBuffer lib s = (Inr True, t)"
  shows "fi_array t = Suc (fi_array s)"
proof -
  let ?d = "src_data (fi_rbc s)" and ?n = "int (length x) + 4"
  have td: "take 4 ?d = 1 # le24 ?n" "4 \<le> length ?d" by (simp_all add: d chunk_frame_def le24_def)
  have n: "5 \<le> ?n" using x(1) by (cases x) simp_all
  have m: "getFrameMetaData (take 4 ?d) = Inr (RAW, ?n)" using frame_metadata [OF n x(2), of False] td(1) by simp
  obtain k d' where k: "next_chunk lib (verifyChecksums s) ?d = (k, d')" by fastforce
  have kc: "(\<exists>y. k = Data y) \<or> (\<exists>e. k = Broken e)"
    using k next_chunk_frame(1) [OF x, of lib "verifyChecksums s" False c rest] by (auto simp: d split: sum.splits)
  have "modest_chunk lib ?d" using next_chunk_frame(2) [OF x, of lib False c rest] by (simp add: d)
  then obtain u where "ensure_step lib s =
     (case k of Data _ \<Rightarrow> Inr Filled | Pass \<Rightarrow> Inr Skipped | Finish \<Rightarrow> Inr AtEnd | Broken e \<Rightarrow> Inl e, u)"
    using ensure_step_ok [OF lib s _ k] by metis
  then have es: "ensure_step lib s = (Inr Filled, t)" using t kc by (auto simp: ensureBuffer.simps [of lib s])
  obtain u where u: "fi_array (snd (ensure_step lib s)) = fi_array (snd (unpack_frame lib RAW ?n u))" "fi_inv u"
    "fi_array u = fi_array s" "fi_input u = fi_input s"
    by (rule ensure_step_frame [OF s refl td(2) m]) simp_all
  have l: "0 < ?n" "?n \<le> 2 ^ 24" using n x(2) by simp_all
  have iu: "fi_input u = Some i" using u(4) i(1) by simp
  show ?thesis using unpack_raw_replaces [OF lib u(2) l iu i(2)] u(1,3) es by simp
qed

lemma channel_ok_eager: "channel_ok c \<Longrightarrow> channel_eager c"
  by (metis channel_ok_def channel_eager_def less_le_trans)

lemma large_raw_chunk_loaded:
  assumes lib: "frame_lib lib" and d: "src_data src = HEADER_BYTES @ chunk_frame False (masked_crc x) x"
    and x: "65537 < length x" "int (length x) + 4 < 2 ^ 24"
  obtains s t b where "new_SnappyFramedInputStream lib src verify Quiescent = Inr s" and "\<not> fi_closed s"
    and "fi_buffer s = Some b" and "length b = max_compressed lib 65541" and "ensureBuffer lib s = (Inr True, t)"
    and "fi_loaded x t" and "fi_ready lib [] None t" and "fi_array t \<noteq> fi_array s"
    and "decode_stream lib verify (drop 10 (src_data src)) = ([x], None)"
proof -
  have q: "good_pool Quiescent" "prefix HEADER_BYTES (src_data src)" using d by simp_all
  obtain s where s: "new_SnappyFramedInputStream lib src verify Quiescent = Inr s"
    "src_data src = HEADER_BYTES @ src_data (fi_rbc s)" "fi_inv s" "\<not> fi_eof s" "fi_available s \<le> 0" "verifyChecksums s = verify"
    using new_framed_input_ok [OF lib q(1), of src verify] q(2) by blast
  obtain i b where i: "fi_input s = Some i" "bb_capacity i = 65541" "fi_buffer s = Some b" "length b = max_compressed lib 65541"
    by (rule new_framed_quiescent [OF lib s(1)])
  have sd: "src_data (fi_rbc s) = chunk_frame False (masked_crc x) x @ []" using s(2) d by simp
  have ne: "x \<noteq> []" using x(1) by auto
  have n: "next_chunk lib verify (src_data (fi_rbc s)) = (Data x, [])" "modest_chunk lib (src_data (fi_rbc s))"
    unfolding sd next_chunk_frame [OF ne x(2)] by (simp_all add: unpack_frames(1))
  have dc: "decode_stream lib verify (src_data (fi_rbc s)) = ([x], None)" using decode_stream_step(1) [OF n(1)] by simp
  have r: "fi_ready lib [x] None s"
    using s(3,4,6) dc n by (simp add: fi_ready_def) (subst modest.simps, simp)
  obtain t where t: "ensureBuffer lib s = (Inr True, t)" "fi_loaded x t" "fi_ready lib [] None t"
    using ensureBuffer_ok [OF lib r s(5)] by auto
  have "bb_capacity i < int (length x) + 4" using i(2) x(1) by simp
  then have "fi_array t \<noteq> fi_array s"
    using ensureBuffer_replaces [OF lib s(3,5,4) sd i(1) _ ne x(2) t(1)] by simp
  moreover have "\<not> fi_closed s" using s(3) by (simp add: fi_inv_def)
  ultimately show thesis using that s(1,2) i(3,4) t dc by simp
qed

text \<open>The current chunk ends behind the end of the wrapped array.\<close>

lemma transfer_wbc_beyond:
  assumes "ensureBuffer lib s = (Inr True, t)" and "fi_buffer t = Some b" and "fi_position t = 0"
    and "int (length (wrapped_bytes b a cap t (reused fuel))) < fi_available t"
  shows "transfer_wbc reused lib (Suc fuel) a cap tot (wbc, s) = (Inl IllegalArgumentException, (wbc, t))"
  using assms by (simp add: bindS_def bb_set_position_def bb_set_limit_def bb_capacity_def in_range_def Let_def)

text \<open>
  C27: A raw chunk of more than 65537 bytes, alone in a stream whose buffers come from the
  \<open>QuiescentBufferPool\<close>, decodes to its content \<open>x\<close>, but \<open>transferTo(WritableByteChannel)\<close> does not deliver
  it. When \<open>x\<close> is no longer than the array the stream had before the chunk was read (\<open>maxCompressedLength\<close> of
  65541 bytes), the channel is handed the bytes of that array, whatever they are (\<open>reused\<close>), and the call
  reports that all of \<open>x\<close> was transferred; when it is longer, the call throws an \<open>IllegalArgumentException\<close>
  and the channel receives nothing.
\<close>

theorem channel_transfer_stale:
  assumes "frame_lib lib" and "channel_ok wbc" and "src_data src = HEADER_BYTES @ chunk_frame False (masked_crc x) x"
    and "65537 < length x" and "int (length x) + 4 < 2 ^ 24" and "m = max_compressed lib 65541"
  shows "\<exists>s wbc' s'. new_SnappyFramedInputStream lib src verify Quiescent = Inr s
    \<and> decode_stream lib verify (drop 10 (src_data src)) = ([x], None)
    \<and> transferTo_channel reused lib (Suc (Suc fuel)) (wbc, s)
        = (if length x \<le> m then Inr (int (length x)) else Inl IllegalArgumentException, (wbc', s'))
    \<and> ch_data wbc' = ch_data wbc @ (if length x \<le> m then take (length x) (reused (Suc fuel) @ replicate m 0) else [])"
proof -
  obtain s t b where s: "new_SnappyFramedInputStream lib src verify Quiescent = Inr s" "\<not> fi_closed s" "fi_buffer s = Some b"
    "length b = m" and t: "ensureBuffer lib s = (Inr True, t)" "fi_loaded x t" "fi_ready lib [] None t" "fi_array t \<noteq> fi_array s"
    and dc: "decode_stream lib verify (drop 10 (src_data src)) = ([x], None)"
    unfolding assms(6) by (rule large_raw_chunk_loaded [OF assms(1,3,4,5)])
  have ti: "fi_inv t" using t(3) by (simp add: fi_ready_def)
  obtain b' where b': "fi_buffer t = Some b'" "fi_position t = 0" "fi_available t = int (length x)" "fi_valid t = int (length x)"
    by (rule fi_loaded_parts [OF t(2) ti])
  define old where "old = take m (reused (Suc fuel) @ replicate m 0)"
  have old: "old = wrapped_bytes b' (fi_array s) m t (reused (Suc fuel))" "length old = m"
    using t(4) by (simp_all add: wrapped_bytes_def old_def)
  show ?thesis
  proof (cases "length x \<le> m")
    case False
    then have "transferTo_channel reused lib (Suc (Suc fuel)) (wbc, s) = (Inl IllegalArgumentException, (wbc, t))"
      using transfer_wbc_beyond [OF t(1) b'(1,2), of "fi_array s" m reused "Suc fuel"] old b'(3) s(2-4)
      by (simp add: transferTo_channel_def del: transfer_wbc.simps)
    then show ?thesis using False s(1) dc by simp
  next
    case le: True
    define w where "w = take (length x) (reused (Suc fuel) @ replicate m 0)"
    have w: "w = segment (fi_position t) (fi_available t) old"
      unfolding b'(2,3) w_def old_def segment_0 nat_int take_take min.absorb1 [OF le] ..
    have lw: "length w = length x" using le by (simp add: w_def)
    have rg: "in_range (fi_position t) (fi_available t) (length old)" using b' old(2) le by (simp add: in_range_def)
    obtain k wbc' where k: "transfer_wbc reused lib (Suc (Suc fuel)) (fi_array s) m 0 (wbc, s)
        = transfer_wbc reused lib (Suc fuel) (fi_array s) m (0 + int k) (wbc', t\<lparr>fi_position := fi_position t + int k\<rparr>)"
      "ch_data wbc' = ch_data wbc @ take k w" "k = min (ch_take wbc (ch_calls wbc) (length w)) (length w)"
      by (rule transfer_wbc_round [where reused = reused and fuel = "Suc fuel" and tot = 0,
          OF t(1) b'(1) old(1) rg w channel_ok_eager [OF assms(2)]])
    have kx: "k = length x" using k(3) assms(2) lw by (simp add: channel_ok_def min_absorb2)
    let ?t = "t\<lparr>fi_position := int (length x)\<rparr>"
    have rt: "fi_ready lib [] None ?t" by (rule fi_ready_position [OF t(3)]) (use b'(4) in simp_all)
    have "fi_available ?t \<le> 0" using b'(4) by (simp add: fi_available_def)
    then obtain u where "ensureBuffer lib ?t = (Inr False, u)" using ensureBuffer_ok [OF assms(1) rt] by auto
    then have "transferTo_channel reused lib (Suc (Suc fuel)) (wbc, s) = (Inr (int (length x)), (wbc', u))"
      using k(1) s kx b'(2) by (simp add: transferTo_channel_def del: transfer_wbc.simps(2)) (simp add: transfer_wbc.simps(2))
    then show ?thesis using s(1) dc k(2) kx lw le by (auto simp: w_def)
  qed
qed

text \<open>Of a chunk of 65538 sevens the channel receives zeros; of 80000 it receives nothing.\<close>

theorem channel_transfer_stale_witness:
  "(\<exists>s wbc' s'. new_SnappyFramedInputStream stored_lib
        (demo_source (HEADER_BYTES @ chunk_frame False (masked_crc (replicate 65538 7)) (replicate 65538 7))) True Quiescent = Inr s
    \<and> transferTo_channel (\<lambda>_. []) stored_lib 2 (open_channel, s) = (Inr 65538, (wbc', s'))
    \<and> ch_data wbc' = replicate 65538 0)
  \<and> (\<exists>s wbc' s'. new_SnappyFramedInputStream stored_lib
        (demo_source (HEADER_BYTES @ chunk_frame False (masked_crc (replicate 80000 7)) (replicate 80000 7))) True Quiescent = Inr s
    \<and> transferTo_channel (\<lambda>_. []) stored_lib 2 (open_channel, s) = (Inl IllegalArgumentException, (wbc', s'))
    \<and> ch_data wbc' = [])"
proof -
  have m: "76496 = max_compressed stored_lib 65541" by (simp add: stored_lib_def)
  have two: "(2 :: nat) = Suc (Suc 0)" by simp
  define x :: bytes where "x = replicate 65538 7"
  have x: "length x = 65538" unfolding x_def by (rule length_replicate)
  define y :: bytes where "y = replicate 80000 7"
  have y: "length y = 80000" unfolding y_def by (rule length_replicate)
  note stale = channel_transfer_stale [OF stored_frame_lib demo_channel(1) _ _ _ m, where verify = True and reused = "\<lambda>_. []" and fuel = 0]
  show ?thesis unfolding x_def [symmetric] y_def [symmetric] two
    using stale [of "demo_source (HEADER_BYTES @ chunk_frame False (masked_crc x) x)" x]
      stale [of "demo_source (HEADER_BYTES @ chunk_frame False (masked_crc y) y)" y] x y demo_channel(2)
    by (auto simp: demo_source_def min_def)
qed

end
