(* ===== verification/Framed_Closing.thy ===== *)
theory Framed_Closing
  imports Framed_Props Steady
begin

text \<open>
  What the framed writer does with the buffers of its pool: it takes three at creation, keeps their sizes
  whatever is called and however the channel behaves, and hands them back once, at the first \<open>close\<close>.
\<close>

section \<open>Operations on a buffer\<close>

abbreviation same_size :: "byte_buffer \<Rightarrow> byte_buffer \<Rightarrow> bool" where
  "same_size b c \<equiv> bb_capacity c = bb_capacity b"

abbreviation bb_steady :: "(byte_buffer, exc, 'a) op \<Rightarrow> bool" where
  "bb_steady \<equiv> steady bb_wf same_size"

interpretation bb: framing bb_wf same_size
  by unfold_locales simp_all

named_theorems bb_rules

lemmas [bb_rules] = bb.steady_bind bb.steady_idle steady_modify

lemma bb_put_steady [bb_rules]: "bb_steady (bb_put x)"
proof (rule steadyI)
  fix b assume b: "bb_wf b"
  show "bb_wf (snd (bb_put x b)) \<and> same_size b (snd (bb_put x b))"
  proof (cases "int (length x) \<le> bb_remaining b")
    case True
    then obtain d where "bb_put x b = (Inr (), b\<lparr>bb_data := d, bb_pos := bb_pos b + int (length x)\<rparr>)"
      "length d = length (bb_data b)" by (rule bb_put_ok [OF b])
    then show ?thesis using b True by (simp add: bb_wf_def bb_capacity_def bb_remaining_def)
  qed (use b in \<open>simp add: bb_put_def\<close>)
qed

lemma bb_basic_steady [bb_rules]:
  "bb_steady (bb_put_range a off len)" "bb_steady (bb_set_limit n)" "bb_steady (modifyS bb_clear)" "bb_steady (modifyS bb_flip)"
  "bb_steady (put_header n z c)"
proof -
  show "bb_steady (bb_put_range a off len)"
    using bb_put_steady [of "segment off len a"] by (auto simp: steady_def bb_put_range_def)
  show "bb_steady (bb_set_limit n)"
    by (auto simp: steady_def bb_set_limit_def bb_wf_def bb_capacity_def)
  show c: "bb_steady (modifyS bb_clear)" and f: "bb_steady (modifyS bb_flip)"
    by (auto simp: steady_def modifyS_def bb_clear_def bb_flip_def bb_wf_def bb_capacity_def)
  show "bb_steady (put_header n z c)"
    unfolding put_header_def by (intro bb.steady_bind bb_put_steady f)
qed

text \<open>A channel takes bytes off the front of the window of its buffer.\<close>

lemma channel_write_data:
  "channel_write b c = (Inr b', c') \<Longrightarrow> same_size b b' \<and> (bb_wf b \<longrightarrow> bb_wf b')"
  using length_bb_window [of b] by (auto simp: channel_write_def Let_def bb_wf_def bb_capacity_def bb_remaining_def split: if_splits)

lemma channel_read_data: "bb_wf b \<Longrightarrow> channel_read (b, src) = (n, (b', src')) \<Longrightarrow> bb_wf b' \<and> same_size b b'"
proof -
  assume b: "bb_wf b" and c: "channel_read (b, src) = (n, (b', src'))"
  obtain x src1 where r: "source_read (bb_remaining b) src = (x, src1)" by fastforce
  show ?thesis
  proof (cases x)
    case None
    then show ?thesis using b c r by (simp add: channel_read_def)
  next
    case (Some bs)
    have l: "int (length bs) \<le> bb_remaining b"
    proof (cases "0 < bb_remaining b")
      case True
      then show ?thesis using source_read_Some [of "bb_remaining b" src bs src1] r Some by simp
    next
      case False
      then show ?thesis using r Some bb_remaining_nonneg [OF b] by (simp add: source_read_def)
    qed
    then have "in_range (bb_pos b) (int (length bs)) (length (bb_data b))"
      using b by (simp add: in_range_def bb_wf_def bb_remaining_def bb_capacity_def)
    from length_blit [OF this] show ?thesis
      using b c r Some l by (auto simp: channel_read_def bb_wf_def bb_remaining_def bb_capacity_def)
  qed
qed

lemma compress_buffer_size:
  assumes lib: "lib_space lib"
  shows "same_size o' (snd (s_compress_buffer lib i o'))"
  using compressed_into_segment(2) [OF lib]
  by (auto simp: s_compress_buffer_def bb_native_def impl_rawCompress_def bindS_def returnS_def bb_capacity_def
      bb_set_limit_def Let_def split: prod.splits sum.splits if_splits)

section \<open>Operations of the writer\<close>

definition fo_tidy :: "SnappyFramedOutputStream \<Rightarrow> bool" where
  "fo_tidy s \<longleftrightarrow> bb_wf (headerBuffer s) \<and> bb_wf (fo_buffer s) \<and> bb_wf (directInputBuffer s)"

definition same_buffers :: "SnappyFramedOutputStream \<Rightarrow> SnappyFramedOutputStream \<Rightarrow> bool" where
  "same_buffers s t \<longleftrightarrow> fo_pool t = fo_pool s \<and> fo_closed t = fo_closed s
     \<and> same_size (fo_buffer s) (fo_buffer t) \<and> same_size (directInputBuffer s) (directInputBuffer t)
     \<and> same_size (fo_outputBuffer s) (fo_outputBuffer t)"

abbreviation fo_steady :: "'a fos \<Rightarrow> bool" where
  "fo_steady \<equiv> steady fo_tidy same_buffers"

interpretation writer: framing fo_tidy same_buffers
  by unfold_locales (simp_all add: same_buffers_def)

named_theorems fo_rules

lemmas [fo_rules] = writer.steady_bind writer.steady_idle steady_if

lemma fo_parts_steady [fo_rules]:
  "fo_steady (on_crc f)" "fo_steady (on_channel g)" "bb_steady h \<Longrightarrow> fo_steady (on_header h)"
  "bb_steady h \<Longrightarrow> fo_steady (on_buffer h)"
  "(\<And>b. same_size b (snd (k b))) \<Longrightarrow> fo_steady (on_output k)"
proof -
  show "fo_steady (on_crc f)" "fo_steady (on_channel g)"
    by (auto simp: steady_def on_crc_def on_channel_def fo_tidy_def same_buffers_def split: prod.splits)
  show "fo_steady (on_header h)" if h: "bb_steady h"
  proof (rule steadyI)
    fix s assume s: "fo_tidy s"
    obtain r b where e: "h (headerBuffer s) = (r, b)" by fastforce
    have "bb_wf b" using steady_eq [OF h _ e] s by (simp add: fo_tidy_def)
    then show "fo_tidy (snd (on_header h s)) \<and> same_buffers s (snd (on_header h s))"
      using s by (simp add: on_header_def e fo_tidy_def same_buffers_def)
  qed
  show "fo_steady (on_buffer h)" if h: "bb_steady h"
  proof (rule steadyI)
    fix s assume s: "fo_tidy s"
    obtain r b where e: "h (fo_buffer s) = (r, b)" by fastforce
    have "bb_wf b \<and> same_size (fo_buffer s) b" using steady_eq [OF h _ e] s by (simp add: fo_tidy_def)
    then show "fo_tidy (snd (on_buffer h s)) \<and> same_buffers s (snd (on_buffer h s))"
      using s by (simp add: on_buffer_def e fo_tidy_def same_buffers_def)
  qed
  show "fo_steady (on_output k)" if k: "\<And>b. same_size b (snd (k b))"
  proof (rule steadyI)
    fix s assume s: "fo_tidy s"
    obtain r b where e: "k (fo_outputBuffer s) = (r, b)" by fastforce
    then show "fo_tidy (snd (on_output k s)) \<and> same_buffers s (snd (on_output k s))"
      using s k [of "fo_outputBuffer s"] by (simp add: on_output_def fo_tidy_def same_buffers_def)
  qed
qed

text \<open>Updates of one buffer by one of its size.\<close>

lemma fo_updates:
  "fo_tidy s \<Longrightarrow> bb_wf b \<Longrightarrow> fo_tidy (s\<lparr>headerBuffer := b\<rparr>) \<and> same_buffers s (s\<lparr>headerBuffer := b\<rparr>)"
  "fo_tidy s \<Longrightarrow> bb_wf b \<Longrightarrow> same_size (fo_buffer s) b \<Longrightarrow> fo_tidy (s\<lparr>fo_buffer := b\<rparr>) \<and> same_buffers s (s\<lparr>fo_buffer := b\<rparr>)"
  "fo_tidy s \<Longrightarrow> same_size (fo_outputBuffer s) b \<Longrightarrow> fo_tidy (s\<lparr>fo_outputBuffer := b\<rparr>) \<and> same_buffers s (s\<lparr>fo_outputBuffer := b\<rparr>)"
  by (simp_all add: fo_tidy_def same_buffers_def)

lemma bb_flip_wf: "bb_wf b \<Longrightarrow> bb_wf (bb_flip b) \<and> same_size b (bb_flip b)"
  by (simp add: bb_flip_def bb_wf_def bb_capacity_def)

lemma bb_clear_wf: "bb_wf (bb_clear b) \<and> same_size b (bb_clear b)"
  by (simp add: bb_clear_def bb_wf_def bb_capacity_def)

lemma on_channel_write_Inr:
  "on_channel (channel_write b) s = (Inr x, t) \<Longrightarrow> same_size b x \<and> (bb_wf b \<longrightarrow> bb_wf x)
    \<and> headerBuffer t = headerBuffer s \<and> fo_buffer t = fo_buffer s \<and> fo_outputBuffer t = fo_outputBuffer s"
  using channel_write_data [of b] by (auto simp: on_channel_def split: prod.splits)

lemma send_header_steady [fo_rules]:
  "fo_steady (bindS (getS (\<lambda>s. on_channel (channel_write (headerBuffer s)))) (\<lambda>h. modifyS (\<lambda>s. s\<lparr>headerBuffer := h\<rparr>)))"
proof (rule writer.steady_bind_value)
  show "fo_steady (getS (\<lambda>s. on_channel (channel_write (headerBuffer s))))" by (intro steady_get fo_rules)
  fix s x t
  assume s: "fo_tidy s" and e: "getS (\<lambda>s. on_channel (channel_write (headerBuffer s))) s = (Inr x, t)"
  then have "bb_wf x" using on_channel_write_Inr [of "headerBuffer s" s x t] by (simp add: getS_def fo_tidy_def)
  moreover have "fo_tidy t"
    using steady_eq [OF fo_parts_steady(2) s, of "channel_write (headerBuffer s)"] e by (simp add: getS_def)
  ultimately show "fo_tidy (snd (modifyS (\<lambda>s. s\<lparr>headerBuffer := x\<rparr>) t)) \<and> same_buffers t (snd (modifyS (\<lambda>s. s\<lparr>headerBuffer := x\<rparr>) t))"
    using fo_updates(1) by (simp add: modifyS_def)
qed

lemma writeBlock_assoc:
  "writeBlock data z c =
     bindS (modifyS (\<lambda>s. s\<lparr>headerBuffer := bb_clear (headerBuffer s)\<rparr>)) (\<lambda>_.
     bindS (on_header (put_header (bb_remaining data + 4) z c)) (\<lambda>_.
     bindS (bindS (getS (\<lambda>s. on_channel (channel_write (headerBuffer s)))) (\<lambda>h. modifyS (\<lambda>s. s\<lparr>headerBuffer := h\<rparr>))) (\<lambda>_.
     on_channel (channel_write data))))"
  by (simp add: writeBlock_def bindS_assoc)

lemma writeBlock_steady [fo_rules]: "fo_steady (writeBlock data z c)"
  unfolding writeBlock_assoc
  by (intro writer.steady_bind fo_parts_steady bb_basic_steady send_header_steady steady_modify)
     (simp add: fo_updates(1) bb_clear_wf)

lemma writeBlock_Inr: "writeBlock data z c s = (Inr b, t) \<Longrightarrow> same_size data b \<and> (bb_wf data \<longrightarrow> bb_wf b)"
  unfolding writeBlock_def by (auto simp: bindS_Inr_iff dest!: on_channel_write_Inr)

text \<open>Sending a buffer of the stream and storing it with its new position.\<close>

lemma send_buffers_steady:
  "fo_steady (getS (\<lambda>s. bindS (writeBlock (fo_outputBuffer s) z c) (\<lambda>b. modifyS (\<lambda>s. s\<lparr>fo_outputBuffer := b\<rparr>))))"
  "fo_steady (getS (\<lambda>s. bindS (writeBlock (fo_buffer s) z c) (\<lambda>b. modifyS (\<lambda>s. s\<lparr>fo_buffer := b\<rparr>))))"
proof -
  have step: "fo_tidy t \<and> same_buffers s t \<and> (\<forall>b. r = Inr b \<longrightarrow> same_size x b \<and> (bb_wf x \<longrightarrow> bb_wf b))"
    if "fo_tidy s" "writeBlock x z c s = (r, t)" for s t r x
    using steady_eq [OF writeBlock_steady that] writeBlock_Inr [of x z c s _ t] that(2) by auto
  show "fo_steady (getS (\<lambda>s. bindS (writeBlock (fo_outputBuffer s) z c) (\<lambda>b. modifyS (\<lambda>s. s\<lparr>fo_outputBuffer := b\<rparr>))))"
  proof (rule steadyI)
    fix s assume s: "fo_tidy s"
    obtain r t where e: "writeBlock (fo_outputBuffer s) z c s = (r, t)" by fastforce
    show "fo_tidy (snd (getS (\<lambda>s. bindS (writeBlock (fo_outputBuffer s) z c) (\<lambda>b. modifyS (\<lambda>s. s\<lparr>fo_outputBuffer := b\<rparr>))) s))
      \<and> same_buffers s (snd (getS (\<lambda>s. bindS (writeBlock (fo_outputBuffer s) z c) (\<lambda>b. modifyS (\<lambda>s. s\<lparr>fo_outputBuffer := b\<rparr>))) s))"
      using step [OF s e] by (cases r) (simp_all add: getS_def bindS_def e modifyS_def fo_tidy_def same_buffers_def)
  qed
  show "fo_steady (getS (\<lambda>s. bindS (writeBlock (fo_buffer s) z c) (\<lambda>b. modifyS (\<lambda>s. s\<lparr>fo_buffer := b\<rparr>))))"
  proof (rule steadyI)
    fix s assume s: "fo_tidy s"
    obtain r t where e: "writeBlock (fo_buffer s) z c s = (r, t)" by fastforce
    show "fo_tidy (snd (getS (\<lambda>s. bindS (writeBlock (fo_buffer s) z c) (\<lambda>b. modifyS (\<lambda>s. s\<lparr>fo_buffer := b\<rparr>))) s))
      \<and> same_buffers s (snd (getS (\<lambda>s. bindS (writeBlock (fo_buffer s) z c) (\<lambda>b. modifyS (\<lambda>s. s\<lparr>fo_buffer := b\<rparr>))) s))"
      using step [OF s e] s by (cases r) (simp_all add: getS_def bindS_def e modifyS_def fo_tidy_def same_buffers_def)
  qed
qed

lemma bb_put_buffer_data:
  assumes "bb_wf d" and "bb_put_buffer (b, d) = (r, (b', d'))"
  shows "bb_wf d' \<and> same_size d d' \<and> same_size b b' \<and> (bb_wf b \<longrightarrow> bb_wf b')"
proof -
  obtain x e where p: "bb_put (bb_window b) d = (x, e)" by fastforce
  show ?thesis
    using steady_eq [OF bb_put_steady assms(1) p] assms(2) p
    by (cases x) (auto simp: bb_put_buffer_def bb_wf_def bb_capacity_def)
qed

lemma load_direct_steady [fo_rules]: "fo_steady load_direct"
proof (rule steadyI)
  fix s assume s: "fo_tidy s"
  obtain r b d where e: "bb_put_buffer (fo_buffer s, bb_clear (directInputBuffer s)) = (r, (b, d))" by (metis prod.collapse)
  have "bb_wf d \<and> same_size (directInputBuffer s) d \<and> same_size (fo_buffer s) b \<and> bb_wf b"
    using bb_put_buffer_data [OF _ e] bb_clear_wf [of "directInputBuffer s"] s by (auto simp: fo_tidy_def)
  then show "fo_tidy (snd (load_direct s)) \<and> same_buffers s (snd (load_direct s))"
    using s bb_flip_wf [of d] by (cases r) (simp_all add: load_direct_def e fo_tidy_def same_buffers_def)
qed

lemma writeCompressed_steady [fo_rules]:
  assumes lib: "lib_space lib"
  shows "fo_steady (writeCompressed lib)"
proof -
  have clear: "fo_steady (modifyS (\<lambda>s. s\<lparr>fo_outputBuffer := bb_clear (fo_outputBuffer s)\<rparr>))"
    by (rule steady_modify) (simp add: fo_updates(3) bb_clear_wf)
  have compress: "fo_steady (getS (\<lambda>s. on_output (s_compress_buffer lib (directInputBuffer s))))"
    by (intro steady_get fo_parts_steady) (rule compress_buffer_size [OF lib])
  have flip: "fo_steady (modifyS (\<lambda>s. s\<lparr>fo_buffer := bb_flip (fo_buffer s)\<rparr>))"
    by (rule steady_modify, rule fo_updates(2)) (simp_all add: bb_flip_wf fo_tidy_def)
  have raw: "fo_steady (bindS (getS (\<lambda>s. writeBlock (fo_buffer s) False checkSum)) (\<lambda>b. modifyS (\<lambda>s. s\<lparr>fo_buffer := b\<rparr>)))"
    for checkSum
  proof -
    have "bindS (getS (\<lambda>s. writeBlock (fo_buffer s) False checkSum)) (\<lambda>b. modifyS (\<lambda>s. s\<lparr>fo_buffer := b\<rparr>))
      = getS (\<lambda>s. bindS (writeBlock (fo_buffer s) False checkSum) (\<lambda>b. modifyS (\<lambda>s. s\<lparr>fo_buffer := b\<rparr>)))"
      by (rule ext) (simp add: bind_get getS_def)
    then show ?thesis using send_buffers_steady(2) by simp
  qed
  have stored: "fo_steady (bindS (modifyS (\<lambda>s. s\<lparr>fo_buffer := bb_flip (fo_buffer s)\<rparr>))
       (\<lambda>_. bindS (getS (\<lambda>s. writeBlock (fo_buffer s) False checkSum)) (\<lambda>b. modifyS (\<lambda>s. s\<lparr>fo_buffer := b\<rparr>))))"
    for checkSum
    by (intro writer.steady_bind flip raw)
  show ?thesis
    unfolding writeCompressed_def Let_def
    by (rule steady_get, intro writer.steady_bind fo_parts_steady(1) load_direct_steady clear compress,
        rule steady_get_if, rule send_buffers_steady(1), rule steady_get, rule stored)
qed

section \<open>The public methods\<close>

lemma fo_buffer_steady [fo_rules]:
  "fo_steady (modifyS (\<lambda>s. s\<lparr>fo_buffer := bb_flip (fo_buffer s)\<rparr>))"
  "fo_steady (modifyS (\<lambda>s. s\<lparr>fo_buffer := bb_clear (fo_buffer s)\<rparr>))"
  "fo_steady (on_buffer (bb_put x))" "fo_steady (on_buffer (bb_put_range a off n))" "fo_steady (on_buffer (bb_set_limit k))"
proof -
  show "fo_steady (modifyS (\<lambda>s. s\<lparr>fo_buffer := bb_flip (fo_buffer s)\<rparr>))"
    by (rule steady_modify, rule fo_updates(2)) (simp_all add: bb_flip_wf fo_tidy_def)
  show "fo_steady (modifyS (\<lambda>s. s\<lparr>fo_buffer := bb_clear (fo_buffer s)\<rparr>))"
    by (rule steady_modify, rule fo_updates(2)) (simp_all add: bb_clear_wf)
qed (intro fo_parts_steady(4) bb_put_steady bb_basic_steady)+

lemma flush_steady [fo_rules]:
  assumes lib: "lib_space lib"
  shows "fo_steady (flushBuffer lib)" "fo_steady (flush_if_full lib)" "fo_steady (flush_if_zero lib)" "fo_steady (fo_flush lib)"
proof -
  show f: "fo_steady (flushBuffer lib)"
    unfolding flushBuffer_def by (intro steady_get fo_rules writeCompressed_steady [OF lib])
  show "fo_steady (flush_if_full lib)" "fo_steady (flush_if_zero lib)" "fo_steady (fo_flush lib)"
    unfolding flush_if_full_def flush_if_zero_def fo_flush_def by (intro steady_get fo_rules f)+
qed

lemma fo_write_loop_steady: "lib_space lib \<Longrightarrow> fo_steady (fo_write_loop lib inp off len)"
proof (rule steadyI)
  fix s assume "lib_space lib" and "fo_tidy s"
  then show "fo_tidy (snd (fo_write_loop lib inp off len s)) \<and> same_buffers s (snd (fo_write_loop lib inp off len s))"
  proof (induction lib inp off len s rule: fo_write_loop.induct)
    case (1 lib inp off len s)
    obtain r t where f: "flush_if_full lib s = (r, t)" by fastforce
    have t: "fo_tidy t \<and> same_buffers s t" by (rule steady_eq [OF flush_steady(2) [OF 1(2)] 1(3) f])
    obtain q u where p: "on_buffer (bb_put_range inp off (min len (bb_remaining (fo_buffer t)))) t = (q, u)" by fastforce
    have u: "fo_tidy u \<and> same_buffers t u" by (rule steady_eq [OF fo_buffer_steady(4) _ p]) (simp add: t)
    have su: "same_buffers s u" using t u writer.trans by blast
    let ?n = "min len (bb_remaining (fo_buffer t))"
    have IH: "fo_tidy (snd (fo_write_loop lib inp (off + ?n) (len - ?n) u))
        \<and> same_buffers u (snd (fo_write_loop lib inp (off + ?n) (len - ?n) u))" if "0 < len" "r = Inr ()" "q = Inr ()" "\<not> ?n \<le> 0"
      using that 1(2) t u by (intro 1(1) [of "Inr ()" t "()" ?n "Inr ()" u "()"]) (simp_all add: f p)
    show ?case
    proof (cases "0 < len \<and> r = Inr () \<and> q = Inr () \<and> \<not> ?n \<le> 0")
      case True
      then have "fo_write_loop lib inp off len s = fo_write_loop lib inp (off + ?n) (len - ?n) u"
        by (subst fo_write_loop.simps) (simp add: f p Let_def)
      then show ?thesis using IH True su writer.trans [OF su] by simp
    next
      case False
      then have "snd (fo_write_loop lib inp off len s) \<in> {s, t, u}"
        by (subst fo_write_loop.simps) (auto simp: f p Let_def split: sum.splits)
      then show ?thesis using 1(3) t u su writer.refl [of s] by (elim insertE) simp_all
    qed
  qed
qed

lemma fo_write_steady [fo_rules]:
  assumes lib: "lib_space lib"
  shows "fo_steady (fo_write_byte lib b)" "fo_steady (fo_write lib inp off len)"
proof -
  show "fo_steady (fo_write_byte lib b)"
    unfolding fo_write_byte_def
    by (intro steady_get steady_if writer.steady_idle writer.steady_bind flush_steady [OF lib] fo_buffer_steady)
  show "fo_steady (fo_write lib inp off len)"
    unfolding fo_write_def
    by (intro steady_get steady_if writer.steady_idle)
       (cases inp, simp_all only: option.case, (intro steady_if writer.steady_idle fo_write_loop_steady [OF lib])+)
qed

text \<open>Operations whose state is a source and the stream.\<close>

abbreviation pair_steady :: "('b \<times> SnappyFramedOutputStream, exc, 'a) op \<Rightarrow> bool" where
  "pair_steady \<equiv> steady (\<lambda>st. fo_tidy (snd st)) (\<lambda>st st'. same_buffers (snd st) (snd st'))"

interpretation pair: framing "\<lambda>st :: 'b \<times> SnappyFramedOutputStream. fo_tidy (snd st)" "\<lambda>st st'. same_buffers (snd st) (snd st')"
  by unfold_locales (auto intro: writer.refl writer.trans)

lemma pair_parts_steady:
  "fo_steady f \<Longrightarrow> pair_steady (on_stream f)" "pair_steady (src_limit n)" "pair_steady put_src"
proof -
  show "fo_steady f \<Longrightarrow> pair_steady (on_stream f)"
    by (auto simp: steady_def on_stream_def split: prod.splits)
  show "pair_steady (src_limit n)"
    by (auto simp: steady_def src_limit_def writer.refl split: prod.splits)
  show "pair_steady put_src"
  proof (rule steadyI)
    fix st :: "byte_buffer \<times> SnappyFramedOutputStream" assume st: "fo_tidy (snd st)"
    obtain src s where e: "st = (src, s)" by fastforce
    obtain r src' b where p: "bb_put_buffer (src, fo_buffer s) = (r, (src', b))" by (metis prod.collapse)
    have "bb_wf b \<and> same_size (fo_buffer s) b" using bb_put_buffer_data [OF _ p] st by (simp add: e fo_tidy_def)
    then show "fo_tidy (snd (snd (put_src st))) \<and> same_buffers (snd st) (snd (snd (put_src st)))"
      using fo_updates(2) st by (simp add: put_src_def e p)
  qed
qed

lemma fill_and_flush_steady: "lib_space lib \<Longrightarrow> pair_steady (fill_and_flush lib)"
  unfolding fill_and_flush_def by (intro pair.steady_bind steady_get pair_parts_steady flush_steady)

lemma src_loop_steady: "lib_space lib \<Longrightarrow> pair_steady (src_loop lib srcEnd)"
proof (rule steadyI)
  fix st :: "byte_buffer \<times> SnappyFramedOutputStream"
  assume "lib_space lib" and "fo_tidy (snd st)"
  then show "fo_tidy (snd (snd (src_loop lib srcEnd st))) \<and> same_buffers (snd st) (snd (snd (src_loop lib srcEnd st)))"
  proof (induction lib srcEnd st rule: src_loop.induct)
    case (1 lib srcEnd st)
    obtain r t where f: "fill_and_flush lib st = (r, t)"
      by (rule prod.exhaust [of "fill_and_flush lib st"])
    have t: "fo_tidy (snd t) \<and> same_buffers (snd st) (snd t)" by (rule steady_eq [OF fill_and_flush_steady [OF 1(2)] 1(3) f])
    let ?again = "bb_pos (fst st) + bb_remaining (fo_buffer (snd st)) \<le> srcEnd \<and> r = Inr ()
      \<and> \<not> (bb_pos (fst t) \<le> bb_pos (fst st) \<or> srcEnd < bb_pos (fst st))"
    show ?case
    proof (cases ?again)
      case True
      then have "src_loop lib srcEnd st = src_loop lib srcEnd t" by (subst src_loop.simps) (simp add: f)
      moreover have "fo_tidy (snd (snd (src_loop lib srcEnd t))) \<and> same_buffers (snd t) (snd (snd (src_loop lib srcEnd t)))"
        using True 1(2) t by (intro 1(1) [of "Inr ()" t "()"]) (simp_all add: f)
      ultimately show ?thesis using t writer.trans by simp blast
    next
      case False
      then have "snd (src_loop lib srcEnd st) \<in> {st, t}"
        by (subst src_loop.simps) (auto simp: f split: sum.splits)
      then show ?thesis using 1(3) t writer.refl [of "snd st"] by (elim insertE) simp_all
    qed
  qed
qed

lemma fo_write_buffer_steady: "lib_space lib \<Longrightarrow> pair_steady (fo_write_buffer lib)"
  unfolding fo_write_buffer_def Let_def case_prod_unfold
  by (intro steady_get steady_if pair.steady_idle pair.steady_bind pair_parts_steady flush_steady src_loop_steady)

lemma read_into_buffer_steady:
  assumes s: "fo_tidy s" and e: "read_into_buffer (src, s) = (n, (src', s'))"
  shows "fo_tidy s' \<and> same_buffers s s'"
proof -
  obtain b where c: "channel_read (fo_buffer s, src) = (n, (b, src'))" "s' = s\<lparr>fo_buffer := b\<rparr>"
    using e by (auto simp: read_into_buffer_def split: prod.splits)
  have "bb_wf b \<and> same_size (fo_buffer s) b" using channel_read_data [OF _ c(1)] s by (simp add: fo_tidy_def)
  then show ?thesis using fo_updates(2) [OF s] c(2) by simp
qed

lemma transfer_loop_steady: "lib_space lib \<Longrightarrow> pair_steady (transfer_loop lib tot)"
proof (rule steadyI)
  fix st :: "source \<times> SnappyFramedOutputStream"
  assume "lib_space lib" and "fo_tidy (snd st)"
  then show "fo_tidy (snd (snd (transfer_loop lib tot st))) \<and> same_buffers (snd st) (snd (snd (transfer_loop lib tot st)))"
  proof (induction lib tot st rule: transfer_loop.induct)
    case (1 lib tot src s)
    obtain n src' t where e: "read_into_buffer (src, s) = (n, (src', t))" by (metis prod.collapse)
    have t: "fo_tidy t \<and> same_buffers s t" using read_into_buffer_steady [OF _ e] 1(3) by simp
    obtain r u where f: "flush_if_zero lib t = (r, u)" by fastforce
    have u: "fo_tidy u \<and> same_buffers t u" using steady_eq [OF flush_steady(3) [OF 1(2)] _ f] t by simp
    have su: "same_buffers s u" using t u writer.trans by blast
    show ?case
    proof (cases "n \<noteq> - 1 \<and> \<not> n \<le> 0 \<and> r = Inr ()")
      case True
      then have "transfer_loop lib tot (src, s) = transfer_loop lib (tot + n) (src', u)"
        by (subst transfer_loop.simps) (simp add: e f)
      moreover have "fo_tidy (snd (snd (transfer_loop lib (tot + n) (src', u))))
          \<and> same_buffers u (snd (snd (transfer_loop lib (tot + n) (src', u))))"
        using True 1(2) u 1(1) [OF e [symmetric] refl _ _ f [symmetric]] by simp
      ultimately show ?thesis using writer.trans [OF su] by simp
    next
      case False
      then have "snd (snd (transfer_loop lib tot (src, s))) \<in> {s, t, u}"
        by (subst transfer_loop.simps) (auto simp: e f split: sum.splits)
      then show ?thesis using 1(3) t u su writer.refl [of s] by (elim insertE) simp_all
    qed
  qed
qed

lemma transferFrom_steady: "lib_space lib \<Longrightarrow> pair_steady (transferFrom lib)"
proof (rule steadyI)
  fix st :: "source \<times> SnappyFramedOutputStream"
  assume lib: "lib_space lib" and st: "fo_tidy (snd st)"
  obtain src s where p: "st = (src, s)" by fastforce
  obtain r t where f: "flush_if_zero lib s = (r, t)" by fastforce
  have t: "fo_tidy t \<and> same_buffers s t" using steady_eq [OF flush_steady(3) [OF lib] _ f] st by (simp add: p)
  have "fo_tidy (snd (snd (transfer_loop lib 0 (src, t)))) \<and> same_buffers t (snd (snd (transfer_loop lib 0 (src, t))))"
    using steadyD [OF transfer_loop_steady [OF lib], of "(src, t)"] t by simp
  then show "fo_tidy (snd (snd (transferFrom lib st))) \<and> same_buffers (snd st) (snd (snd (transferFrom lib st)))"
    using st t writer.refl [of s] writer.trans [of s t] by (auto simp: transferFrom_def p f split: sum.splits)
qed

lemma fo_do_steady: "lib_space lib \<Longrightarrow> fo_steady (fo_do lib c)"
proof -
  assume lib: "lib_space lib"
  show ?thesis
  proof (cases c)
    case (FBuffer src)
    have "fo_tidy (snd (fo_do lib c s)) \<and> same_buffers s (snd (fo_do lib c s))" if "fo_tidy s" for s
      using steadyD [OF fo_write_buffer_steady [OF lib], of "(src, s)"] that FBuffer by (auto split: prod.splits sum.splits)
    then show ?thesis by (rule steadyI)
  next
    case (FTransfer src)
    have "fo_tidy (snd (fo_do lib c s)) \<and> same_buffers s (snd (fo_do lib c s))" if "fo_tidy s" for s
      using steadyD [OF transferFrom_steady [OF lib], of "(src, s)"] that FTransfer by (auto split: prod.splits sum.splits)
    then show ?thesis by (rule steadyI)
  qed (use fo_write_steady [OF lib] flush_steady [OF lib] in \<open>simp_all add: steady_def\<close>)
qed

section \<open>A stream and its pool\<close>

lemma new_framed_tidy:
  assumes "good_pool pool" and n: "new_SnappyFramedOutputStream lib out bs r pool = Inr s"
  shows "fo_tidy s \<and> \<not> fo_closed s"
proof -
  have bs: "0 < bs" "bs \<le> int_max"
    using n by (auto simp: new_SnappyFramedOutputStream_def FRAMED_MAX_BLOCK_SIZE_def int_max_def split: if_splits)
  obtain a p1 where a: "allocateArray bs pool = (Inr a, p1)" "arr_len a = pool_size pool bs" "good_pool p1"
    using allocateArray_served [OF bs assms(1)] by blast
  obtain d p2 where d: "allocateDirect bs p1 = (Inr d, p2)" "bb_whole d"
    using allocateDirect_served [OF bs a(3)] by blast
  obtain o' p3 where o': "allocateDirect (s_maxCompressedLength lib bs) p2 = (o', p3)" by fastforce
  have "bs \<le> arr_len a" using pool_size_ge [OF bs] a(2) by simp
  then have w: "bb_wrap a 0 bs = Inr \<lparr>bb_data = a, bb_pos = 0, bb_limit = bs, bb_direct = False\<rparr>"
    using bs by (simp add: bb_wrap_def in_range_def arr_len_def)
  obtain u where u: "o' = Inr u"
    using n by (cases o') (simp_all add: new_SnappyFramedOutputStream_def a(1) w d(1) o' split: if_splits)
  obtain h where h: "bb_wrap HEADER_BYTES 0 (int (length HEADER_BYTES)) = Inr h"
    by (simp add: bb_wrap_def in_range_def)
  obtain q c where c: "channel_write h out = (q, c)" by fastforce
  have "headerBuffer s = \<lparr>bb_data = replicate 8 0, bb_pos = 0, bb_limit = 8, bb_direct = False\<rparr> \<and>
    fo_buffer s = \<lparr>bb_data = a, bb_pos = 0, bb_limit = bs, bb_direct = False\<rparr> \<and> directInputBuffer s = d \<and> \<not> fo_closed s"
    using n by (cases q) (auto simp: new_SnappyFramedOutputStream_def a(1) w d(1) o' u h c
      simp del: length_HEADER_BYTES split: if_splits)
  then show ?thesis
    using bs d(2) \<open>bs \<le> arr_len a\<close> by (simp add: fo_tidy_def bb_wf_def bb_capacity_def bb_whole_def arr_len_def)
qed

lemma new_framed_exists:
  assumes lib: "frame_lib lib" and pool: "good_pool pool" and bs: "0 < bs" "bs \<le> 65536"
    and r: "in_unit_range r" and out: "\<not> ch_fail out (ch_calls out)"
  shows "\<exists>s. new_SnappyFramedOutputStream lib out bs r pool = Inr s"
proof -
  let ?out = "out\<lparr>ch_fail := (\<lambda>_. False), ch_take := (\<lambda>_ n. n)\<rparr>"
  have "channel_ok ?out" by (simp add: channel_ok_def)
  then obtain s where s: "new_SnappyFramedOutputStream lib ?out bs r pool = Inr s"
    using new_framed_holds [OF lib _ bs r pool] by blast
  have w: "\<exists>y d. channel_write h out = (Inr y, d)" for h
    using out by (simp add: channel_write_def Let_def)
  obtain a p1 where a: "allocateArray bs pool = (a, p1)" by fastforce
  obtain d p2 where d: "allocateDirect bs p1 = (d, p2)" by fastforce
  obtain u p3 where u: "allocateDirect (s_maxCompressedLength lib bs) p2 = (u, p3)" by fastforce
  obtain h where h: "bb_wrap HEADER_BYTES 0 (int (length HEADER_BYTES)) = Inr h"
    by (simp add: bb_wrap_def in_range_def)
  obtain y c where c: "channel_write h out = (Inr y, c)" using w by blast
  have "\<exists>x b v z. a = Inr x \<and> bb_wrap x 0 bs = Inr b \<and> d = Inr v \<and> u = Inr z"
    using s by (auto simp: new_SnappyFramedOutputStream_def a d u h result_simps simp del: length_HEADER_BYTES split: if_splits)
  then show ?thesis
    using s by (auto simp: new_SnappyFramedOutputStream_def a d u h c simp del: length_HEADER_BYTES split: if_splits)
qed

lemma fo_close_tidy:
  assumes lib: "lib_space lib" and s: "fo_tidy s" "\<not> fo_closed s"
  obtains t where "same_buffers s t" and "fo_tidy t" and "snd (fo_close lib s) = fo_release t"
proof -
  have "fo_steady (bindS (fo_flush lib) (\<lambda>_. on_channel channel_close))"
    by (intro writer.steady_bind flush_steady [OF lib] fo_parts_steady)
  from steadyD [OF this s(1)]
  show thesis using s(2) that by (auto simp: fo_close_def getS_def finallyS_def split: prod.splits)
qed

lemma fo_release_tidy: "fo_tidy t \<Longrightarrow> fo_tidy (fo_release t)"
  by (simp add: fo_tidy_def fo_release_def)

text \<open>A call on the stream, \<open>None\<close> for \<open>close\<close>; the caller may ignore an exception and go on.\<close>

fun fo_call :: "snappy_lib \<Rightarrow> framed_write option \<Rightarrow> SnappyFramedOutputStream \<Rightarrow> SnappyFramedOutputStream" where
  "fo_call lib None s = snd (fo_close lib s)"
| "fo_call lib (Some c) s = snd (fo_do lib c s)"

text \<open>What has been handed back to the pool that \<open>s0\<close> was opened with.\<close>

definition returned_once :: "SnappyFramedOutputStream \<Rightarrow> SnappyFramedOutputStream \<Rightarrow> bool" where
  "returned_once s0 s \<longleftrightarrow> fo_closed s
    \<and> (\<exists>a d u. length a = length (bb_data (fo_buffer s0)) \<and> bb_capacity d = bb_capacity (directInputBuffer s0)
        \<and> bb_capacity u = bb_capacity (fo_outputBuffer s0)
        \<and> fo_pool s = releaseDirect u (releaseDirect d (releaseArray a (fo_pool s0))))"

lemma returned_once_keeps: "returned_once s0 s \<Longrightarrow> same_buffers s t \<Longrightarrow> returned_once s0 t"
  by (auto simp: returned_once_def same_buffers_def)

lemma returned_once_release:
  assumes "same_buffers s0 t" shows "returned_once s0 (fo_release t)"
proof -
  have "length (bb_data (fo_buffer t)) = length (bb_data (fo_buffer s0))" using assms by (simp add: same_buffers_def bb_capacity_def)
  then show ?thesis using assms unfolding returned_once_def same_buffers_def fo_release_def
    by (intro conjI exI [of _ "bb_data (fo_buffer t)"] exI [of _ "directInputBuffer t"] exI [of _ "fo_outputBuffer t"]) simp_all
qed

lemma fo_calls_state:
  assumes lib: "lib_space lib" and s0: "fo_tidy s0" "\<not> fo_closed s0"
  shows "fo_tidy (fold (fo_call lib) cs s0)
    \<and> (if None \<in> set cs then returned_once s0 (fold (fo_call lib) cs s0) else same_buffers s0 (fold (fo_call lib) cs s0))"
proof (induction cs rule: rev_induct)
  case Nil
  then show ?case using s0 writer.refl by simp
next
  case (snoc c cs)
  define s where "s = fold (fo_call lib) cs s0"
  have IH: "fo_tidy s" "if None \<in> set cs then returned_once s0 s else same_buffers s0 s" using snoc by (simp_all add: s_def)
  have e: "fold (fo_call lib) (cs @ [c]) s0 = fo_call lib c s" by (simp add: s_def)
  show ?case
  proof (cases c)
    case (Some w)
    have "fo_tidy (fo_call lib c s)" "same_buffers s (fo_call lib c s)"
      using steadyD [OF fo_do_steady [OF lib] IH(1)] Some by simp_all
    then show ?thesis
      unfolding e using IH(2) Some returned_once_keeps writer.trans by auto
  next
    case None
    show ?thesis
    proof (cases "None \<in> set cs")
      case True
      then have "fo_call lib c s = s" using IH(2) None by (simp add: returned_once_def fo_close_def getS_def returnS_def)
      then show ?thesis unfolding e using IH None True by simp
    next
      case False
      then have b: "same_buffers s0 s" using IH(2) by simp
      then have "\<not> fo_closed s" using s0(2) by (simp add: same_buffers_def)
      then obtain t where t: "same_buffers s t" "fo_tidy t" "snd (fo_close lib s) = fo_release t"
        by (rule fo_close_tidy [OF lib IH(1)])
      have "same_buffers s0 t" using b t(1) by (rule writer.trans)
      then show ?thesis unfolding e using None t(2,3) fo_release_tidy returned_once_release by simp
    qed
  qed
qed

text \<open>
  C13: The framed writer gives its buffers back to its pool once and only when it is closed. Whatever
  calls are made on it, in any order, before and after any number of \<open>close\<close> calls, on a channel that may
  fail or accept nothing, and with every exception ignored by the caller: before the first \<open>close\<close> the pool is
  the one creation left and the stream is open; from then on the stream is closed and the pool is that
  one after the array and the two direct buffers, with the sizes they were taken with, came back once.
\<close>

theorem framed_writer_returns_buffers:
  assumes "lib_space lib" and "good_pool pool" and "new_SnappyFramedOutputStream lib out bs r pool = Inr s0"
  shows "if None \<in> set cs then returned_once s0 (fold (fo_call lib) cs s0)
    else \<not> fo_closed (fold (fo_call lib) cs s0) \<and> fo_pool (fold (fo_call lib) cs s0) = fo_pool s0"
proof -
  have s0: "fo_tidy s0" "\<not> fo_closed s0" using new_framed_tidy [OF assms(2,3)] by simp_all
  from fo_calls_state [OF assms(1) s0, of cs] s0(2) show ?thesis by (auto simp: same_buffers_def split: if_splits)
qed

text \<open>A channel that fails on its second call, writes before, between and after two \<open>close\<close> calls.\<close>

definition failing_channel :: channel where
  "failing_channel = open_channel\<lparr>ch_fail := (\<lambda>k. k = 1)\<rparr>"

theorem framed_writer_returns_buffers_witness:
  "\<exists>s0. new_SnappyFramedOutputStream stored_lib failing_channel 4 demo_ratio (Caching new_CachingBufferPool) = Inr s0
    \<and> (let cs = map Some demo_writes @ [None, Some FFlush, None]
       in returned_once s0 (fold (fo_call stored_lib) cs s0))"
proof -
  have "\<exists>s0. new_SnappyFramedOutputStream stored_lib failing_channel 4 demo_ratio (Caching new_CachingBufferPool) = Inr s0"
    using new_framed_exists [OF stored_frame_lib demo_pool, of 4 demo_ratio failing_channel] demo_channel(3)
    by (simp add: failing_channel_def open_channel_def)
  then obtain s0 where s0: "new_SnappyFramedOutputStream stored_lib failing_channel 4 demo_ratio (Caching new_CachingBufferPool) = Inr s0" ..
  show ?thesis
    using framed_writer_returns_buffers [OF stored_lib_space demo_pool s0, of "map Some demo_writes @ [None, Some FFlush, None]"] s0
    by (auto simp: Let_def)
qed

end
