(* ===== verification/Framed_Entry.thy ===== *)
theory Framed_Entry
  imports Framed_Output Framed_Input
begin

text \<open>
  The public methods of the framed streams as a caller may call them, with \<open>None\<close> for a null argument.
  The reader rejects a null argument before it looks at its state, the writer after it has found out
  whether it is closed, and \<open>write(ByteBuffer)\<close> only after it has flushed a full buffer.
\<close>

section \<open>The writer\<close>

definition framed_output_new ::
    "snappy_lib \<Rightarrow> channel option \<Rightarrow> int \<Rightarrow> ratio \<Rightarrow> BufferPool option \<Rightarrow> SnappyFramedOutputStream result" where
  "framed_output_new lib out bs r pool =
     (case out of
        None \<Rightarrow> Inl NullPointerException
      | Some out \<Rightarrow>
          (case pool of
             None \<Rightarrow> Inl NullPointerException
           | Some pool \<Rightarrow> new_SnappyFramedOutputStream lib out bs r pool))"

text \<open>The state is the argument, which stays null, and the stream.\<close>

definition framed_write_buffer :: "snappy_lib \<Rightarrow> (byte_buffer option \<times> SnappyFramedOutputStream, exc, int) op" where
  "framed_write_buffer lib = (\<lambda>(src, s).
     case src of
       None \<Rightarrow>
         (if fo_closed s then (Inl ClosedChannelException, (None, s))
          else (case flush_if_full lib s of
                  (Inl e, s') \<Rightarrow> (Inl e, (None, s'))
                | (Inr _, s') \<Rightarrow> (Inl NullPointerException, (None, s'))))
     | Some src \<Rightarrow> (case fo_write_buffer lib (src, s) of (r, (src', s')) \<Rightarrow> (r, (Some src', s'))))"

definition framed_transferFrom :: "snappy_lib \<Rightarrow> (source option \<times> SnappyFramedOutputStream, exc, int) op" where
  "framed_transferFrom lib = (\<lambda>(src, s).
     if fo_closed s then (Inl ClosedChannelException, (src, s))
     else
       (case src of
          None \<Rightarrow> (Inl NullPointerException, (None, s))
        | Some src \<Rightarrow> (case transferFrom lib (src, s) of (r, (src', s')) \<Rightarrow> (r, (Some src', s')))))"

section \<open>The reader\<close>

definition framed_input_new ::
    "snappy_lib \<Rightarrow> source option \<Rightarrow> bool \<Rightarrow> BufferPool option \<Rightarrow> SnappyFramedInputStream result" where
  "framed_input_new lib src verify pool =
     (case src of
        None \<Rightarrow> Inl NullPointerException
      | Some src \<Rightarrow>
          (case pool of
             None \<Rightarrow> Inl NullPointerException
           | Some pool \<Rightarrow> new_SnappyFramedInputStream lib src verify pool))"

text \<open>A method that throws \<open>IllegalArgumentException\<close> for a null argument and else acts on the argument and the stream.\<close>

definition reader_argument :: "('b \<times> 's, exc, 'a) op \<Rightarrow> ('b option \<times> 's, exc, 'a) op" where
  "reader_argument f = (\<lambda>(x, s).
     case x of
       None \<Rightarrow> (Inl IllegalArgumentException, (None, s))
     | Some x \<Rightarrow> (case f (x, s) of (r, (x', s')) \<Rightarrow> (r, (Some x', s'))))"

definition framed_read :: "snappy_lib \<Rightarrow> int \<Rightarrow> int \<Rightarrow> (bytes option \<times> SnappyFramedInputStream, exc, int) op" where
  "framed_read lib off len = reader_argument (fi_read lib off len)"

definition framed_read_buffer :: "snappy_lib \<Rightarrow> (byte_buffer option \<times> SnappyFramedInputStream, exc, int) op" where
  "framed_read_buffer lib = reader_argument (fi_read_buffer lib)"

definition framed_transferTo :: "snappy_lib \<Rightarrow> (sink option \<times> SnappyFramedInputStream, exc, int) op" where
  "framed_transferTo lib = reader_argument (transferTo lib)"

definition framed_transferTo_channel ::
    "(nat \<Rightarrow> bytes) \<Rightarrow> snappy_lib \<Rightarrow> nat \<Rightarrow> (channel option \<times> SnappyFramedInputStream, exc, int) op" where
  "framed_transferTo_channel reused lib fuel = reader_argument (transferTo_channel reused lib fuel)"

section \<open>Lemmas\<close>

text \<open>A null argument does not change a reader, and of a writer only a full buffer.\<close>

lemma framed_null_reader:
  "framed_read lib off len (None, s) = (Inl IllegalArgumentException, (None, s))"
  "framed_read_buffer lib (None, s) = (Inl IllegalArgumentException, (None, s))"
  "framed_transferTo lib (None, s) = (Inl IllegalArgumentException, (None, s))"
  "framed_transferTo_channel reused lib fuel (None, s) = (Inl IllegalArgumentException, (None, s))"
  by (simp_all add: framed_read_def framed_read_buffer_def framed_transferTo_def framed_transferTo_channel_def reader_argument_def)

lemma framed_null_writer:
  "framed_transferFrom lib (None, s) = (Inl (if fo_closed s then ClosedChannelException else NullPointerException), (None, s))"
  "0 < bb_remaining (fo_buffer s) \<or> fo_closed s \<Longrightarrow>
    framed_write_buffer lib (None, s) = (Inl (if fo_closed s then ClosedChannelException else NullPointerException), (None, s))"
  "\<not> fo_closed s \<Longrightarrow> bb_remaining (fo_buffer s) \<le> 0 \<Longrightarrow>
    snd (framed_write_buffer lib (None, s)) = (None, snd (flushBuffer lib s))"
  by (auto simp: framed_transferFrom_def framed_write_buffer_def flush_if_full_def getS_def returnS_def
      split: prod.splits sum.splits)

text \<open>With arguments that are there, the methods are the operations the properties speak of.\<close>

lemma framed_write_buffer_Some:
  "framed_write_buffer lib (Some src, s) = (case fo_write_buffer lib (src, s) of (r, (src', s')) \<Rightarrow> (r, (Some src', s')))"
  by (simp add: framed_write_buffer_def)

lemma framed_transferFrom_Some:
  "framed_transferFrom lib (Some src, s) = (case transferFrom lib (src, s) of (r, (src', s')) \<Rightarrow> (r, (Some src', s')))"
  by (simp add: framed_transferFrom_def transferFrom_def)

end
