(* ===== verification/OS_Info.thy ===== *)
theory OS_Info
  imports Errors "HOL-Library.Sublist"
begin

text \<open>
  \<open>OSInfo.java\<close>: the folder of the native library, computed from system properties, the output of
  \<open>uname -m\<close> and probes of the machine. Characters are those of Latin-1. What the machine answers is the
  record \<open>machine\<close>; printing of warnings is left out.
\<close>

section \<open>Strings\<close>

text \<open>\<open>String.contains\<close>, the ASCII class \<open>\W\<close> of \<open>replaceAll\<close>, and \<open>toLowerCase(Locale.US)\<close>; the
  \<open>toLowerCase()\<close> of \<open>isAndroid\<close> is taken in the same locale.\<close>

fun contains :: "string \<Rightarrow> string \<Rightarrow> bool" where
  "contains p [] \<longleftrightarrow> p = []"
| "contains p (c # s) \<longleftrightarrow> prefix p (c # s) \<or> contains p s"

definition word_char :: "char \<Rightarrow> bool" where
  "word_char c \<longleftrightarrow> (let n = of_char c :: nat in
     48 \<le> n \<and> n \<le> 57 \<or> 65 \<le> n \<and> n \<le> 90 \<or> n = 95 \<or> 97 \<le> n \<and> n \<le> 122)"

definition strip_non_word :: "string \<Rightarrow> string" where
  "strip_non_word s = filter word_char s"

definition lower_char :: "char \<Rightarrow> char" where
  "lower_char c = (let n = of_char c :: nat in
     if 65 \<le> n \<and> n \<le> 90 \<or> 192 \<le> n \<and> n \<le> 222 \<and> n \<noteq> 215 then char_of (n + 32) else c)"

definition lower_case :: "string \<Rightarrow> string" where
  "lower_case s = map lower_char s"

section \<open>The machine\<close>

text \<open>
  \<open>uname_m\<close> is the output of the command; it, the exit codes of the two other commands and the answer of
  the file system are \<open>None\<close> when asking throws.
\<close>

record machine =
  sys_props :: "string \<Rightarrow> string option"
  uname_m :: "string option"
  which_readelf :: "int option"
  find_vfp_registers :: "int option"
  musl_exists :: "bool option"

section \<open>OSInfo\<close>

definition X86 :: string where "X86 = ''x86''"
definition X86_64 :: string where "X86_64 = ''x86_64''"
definition IA64_32 :: string where "IA64_32 = ''ia64_32''"
definition IA64 :: string where "IA64 = ''ia64''"
definition PPC :: string where "PPC = ''ppc''"
definition PPC64 :: string where "PPC64 = ''ppc64''"
definition PPC64LE :: string where "PPC64LE = ''ppc64le''"
definition IBMZ :: string where "IBMZ = ''s390''"
definition IBMZ_64 :: string where "IBMZ_64 = ''s390x''"
definition AARCH_64 :: string where "AARCH_64 = ''aarch64''"
definition RISCV_64 :: string where "RISCV_64 = ''riscv64''"
definition LOONGARCH_64 :: string where "LOONGARCH_64 = ''loongarch64''"

lemmas arch_defs = X86_def X86_64_def IA64_32_def IA64_def PPC_def PPC64_def PPC64LE_def IBMZ_def
  IBMZ_64_def AARCH_64_def RISCV_64_def LOONGARCH_64_def

definition archMapping :: "(string \<times> string) list" where
  "archMapping =
    [(X86, X86), (''i386'', X86), (''i486'', X86), (''i586'', X86), (''i686'', X86), (''pentium'', X86),
     (X86_64, X86_64), (''amd64'', X86_64), (''em64t'', X86_64), (''universal'', X86_64),
     (IA64, IA64), (''ia64w'', IA64), (IA64_32, IA64_32), (''ia64n'', IA64_32),
     (PPC, PPC), (''power'', PPC), (''powerpc'', PPC), (''power_pc'', PPC), (''power_rs'', PPC),
     (PPC64LE, PPC64LE),
     (PPC64, PPC64), (''power64'', PPC64), (''powerpc64'', PPC64), (''power_pc64'', PPC64), (''power_rs64'', PPC64),
     (IBMZ, IBMZ), (IBMZ_64, IBMZ_64), (AARCH_64, AARCH_64), (RISCV_64, RISCV_64), (LOONGARCH_64, LOONGARCH_64)]"

definition translateOSNameToFolderName :: "string \<Rightarrow> string" where
  "translateOSNameToFolderName osName =
     (if contains ''Windows'' osName then ''Windows''
      else if contains ''Mac'' osName then ''Mac''
      else if contains ''Linux'' osName then ''Linux''
      else if contains ''AIX'' osName then ''AIX''
      else strip_non_word osName)"

definition translateArchNameToFolderName :: "string \<Rightarrow> string" where
  "translateArchNameToFolderName archName = strip_non_word archName"

text \<open>A missing property is a null reference.\<close>

definition get_property :: "machine \<Rightarrow> string \<Rightarrow> string result" where
  "get_property m k = (case sys_props m k of None \<Rightarrow> Inl NullPointerException | Some v \<Rightarrow> Inr v)"

definition getOSName :: "machine \<Rightarrow> string result" where
  "getOSName m = bindE (get_property m ''os.name'') (\<lambda>n. Inr (translateOSNameToFolderName n))"

definition isAndroid :: "machine \<Rightarrow> bool" where
  "isAndroid m = contains ''android''
     (lower_case (case sys_props m ''java.runtime.name'' of None \<Rightarrow> [] | Some s \<Rightarrow> s))"

definition getHardwareName :: "machine \<Rightarrow> string" where
  "getHardwareName m = (case uname_m m of None \<Rightarrow> ''unknown'' | Some s \<Rightarrow> s)"

definition isX64Musl :: "machine \<Rightarrow> bool" where
  "isX64Musl m = (case musl_exists m of None \<Rightarrow> False | Some b \<Rightarrow> b)"

definition resolveArmArchType :: "machine \<Rightarrow> string result" where
  "resolveArmArchType m =
     bindE (get_property m ''os.name'') (\<lambda>osName.
     if contains ''Linux'' osName then
       (let armType = getHardwareName m in
        if prefix ''armv6'' armType then Inr ''armv6''
        else if prefix ''armv7'' armType then Inr ''armv7''
        else if (case sys_props m ''sun.arch.abi'' of None \<Rightarrow> False | Some abi \<Rightarrow> prefix ''gnueabihf'' abi)
        then Inr ''armv7''
        else case which_readelf m of
            None \<Rightarrow> Inr ''arm''
          | Some exitCode \<Rightarrow>
              if exitCode = 0 then
                (case find_vfp_registers m of
                   None \<Rightarrow> Inr ''arm''
                 | Some exitCode \<Rightarrow> if exitCode = 0 then Inr ''armv7'' else Inr ''arm'')
              else Inr ''arm'')
     else Inr ''arm'')"

definition getArchName :: "machine \<Rightarrow> string result" where
  "getArchName m =
     (if isAndroid m then Inr ''android-arm''
      else if isX64Musl m then Inr ''x86_64-musl''
      else
        bindE (get_property m ''os.arch'') (\<lambda>osArch.
        if prefix ''arm'' osArch then
          bindE (resolveArmArchType m) (\<lambda>osArch. Inr (translateArchNameToFolderName osArch))
        else case map_of archMapping (lower_case osArch) of
            Some a \<Rightarrow> Inr a
          | None \<Rightarrow> Inr (translateArchNameToFolderName osArch)))"

definition getNativeLibFolderPathForCurrentOS :: "machine \<Rightarrow> string result" where
  "getNativeLibFolderPathForCurrentOS m =
     bindE (getOSName m) (\<lambda>os. bindE (getArchName m) (\<lambda>arch. Inr (os @ ''/'' @ arch)))"

text \<open>What \<open>main\<close> prints, with which the build asks for the platform.\<close>

definition OSInfo_main :: "string list \<Rightarrow> machine \<Rightarrow> string result" where
  "OSInfo_main args m =
     (case args of
        [] \<Rightarrow> getNativeLibFolderPathForCurrentOS m
      | a # _ \<Rightarrow>
          if a = ''--os'' then getOSName m
          else if a = ''--arch'' then getArchName m
          else getNativeLibFolderPathForCurrentOS m)"

section \<open>Lemmas\<close>

lemma strip_word: "list_all word_char (strip_non_word s)"
  by (simp add: strip_non_word_def list_all_iff)

lemma strip_id: "list_all word_char s \<Longrightarrow> strip_non_word s = s"
  by (simp add: strip_non_word_def list_all_iff filter_id_conv)

lemma word_not_slash: "word_char c \<Longrightarrow> c \<noteq> CHR ''/''"
  by (auto simp: word_char_def)

lemma arch_values: "map_of archMapping s = Some a \<Longrightarrow> list_all word_char a \<and> map_of archMapping a = Some a \<and> lower_case a = a"
proof -
  assume "map_of archMapping s = Some a"
  then have "a \<in> snd ` set archMapping" by (metis map_of_SomeD image_eqI snd_conv)
  then have "a \<in> {X86, X86_64, IA64, IA64_32, PPC, PPC64LE, PPC64, IBMZ, IBMZ_64, AARCH_64, RISCV_64, LOONGARCH_64}"
    by (simp add: archMapping_def)
  then show ?thesis
    by (elim insertE; simp add: archMapping_def arch_defs lower_case_def lower_char_def word_char_def)
qed

lemma os_folder_word: "getOSName m = Inr os \<Longrightarrow> list_all word_char os"
  by (auto simp: getOSName_def bindE_Inr_iff translateOSNameToFolderName_def strip_word word_char_def)

text \<open>The folder names of the processor: word characters, or one of two names with a hyphen.\<close>

lemma arch_folder_word:
  assumes "getArchName m = Inr a"
  shows "a \<in> {''android-arm'', ''x86_64-musl''} \<or> list_all word_char a"
  using assms arch_values
  by (auto simp: getArchName_def bindE_Inr_iff translateArchNameToFolderName_def strip_word split: if_splits option.splits)

text \<open>
  C37: The folder of the native library is always two path components: the operating system and the
  processor, neither with a separator or a dot, whatever the system properties hold. A component may be
  empty, and the name of the file in the folder, which a property can set, is not restricted by this.
\<close>

theorem folder_path_confined:
  assumes "getNativeLibFolderPathForCurrentOS m = Inr p"
  shows "\<exists>os arch. p = os @ ''/'' @ arch \<and> getOSName m = Inr os \<and> getArchName m = Inr arch
    \<and> CHR ''/'' \<notin> set (os @ arch) \<and> CHR ''.'' \<notin> set (os @ arch) \<and> CHR 0x5C \<notin> set (os @ arch)"
proof -
  obtain os arch where p: "p = os @ ''/'' @ arch" "getOSName m = Inr os" "getArchName m = Inr arch"
    using assms by (auto simp: getNativeLibFolderPathForCurrentOS_def bindE_Inr_iff)
  have w: "c \<noteq> CHR ''/'' \<and> c \<noteq> CHR ''.'' \<and> c \<noteq> CHR 0x5C" if "word_char c" for c using that by (auto simp: word_char_def)
  have "c \<noteq> CHR ''/'' \<and> c \<noteq> CHR ''.'' \<and> c \<noteq> CHR 0x5C" if "c \<in> set arch" for c
    using arch_folder_word [OF p(3)] that w by (auto simp: list_all_iff)
  moreover have "c \<noteq> CHR ''/'' \<and> c \<noteq> CHR ''.'' \<and> c \<noteq> CHR 0x5C" if "c \<in> set os" for c
    using os_folder_word [OF p(2)] that w by (auto simp: list_all_iff)
  ultimately show ?thesis using p unfolding set_append by blast
qed

definition demo_machine :: machine where
  "demo_machine = \<lparr>sys_props = [''os.name'' \<mapsto> ''Linux'', ''os.arch'' \<mapsto> ''AMD64'', ''java.io.tmpdir'' \<mapsto> ''/tmp''],
     uname_m = Some ''x86_64'', which_readelf = None, find_vfp_registers = None, musl_exists = Some False\<rparr>"

lemma demo_folder: "getOSName demo_machine = Inr ''Linux''" "getArchName demo_machine = Inr ''x86_64''"
  "getNativeLibFolderPathForCurrentOS demo_machine = Inr ''Linux/x86_64''"
proof -
  have l: "lower_case ''AMD64'' = ''amd64''" "lower_case [] = []" by code_simp+
  show a: "getOSName demo_machine = Inr ''Linux''"
    by (simp add: getOSName_def get_property_def demo_machine_def translateOSNameToFolderName_def)
  show b: "getArchName demo_machine = Inr ''x86_64''"
    by (simp add: getArchName_def get_property_def demo_machine_def isAndroid_def isX64Musl_def l archMapping_def arch_defs)
  show "getNativeLibFolderPathForCurrentOS demo_machine = Inr ''Linux/x86_64''"
    by (simp add: getNativeLibFolderPathForCurrentOS_def a b)
qed

theorem folder_path_confined_witness:
  "\<exists>os arch. ''Linux/x86_64'' = os @ ''/'' @ arch \<and> getOSName demo_machine = Inr os \<and> getArchName demo_machine = Inr arch
    \<and> CHR ''/'' \<notin> set (os @ arch)"
  using folder_path_confined [OF demo_folder(3)] by blast

end
