(* ===== verification/Snappy_Loader.thy ===== *)
theory Snappy_Loader
  imports OS_Info Snappy_Input
begin

text \<open>
  \<open>SnappyLoader.java\<close>: finding the native library, extracting the bundled copy and loading it, with the
  static state of the class. Files and class-path resources are maps from paths to contents; the file
  system may fail at any operation and may store something else than was written. \<open>synchronized\<close> makes
  each call one step. Absolute paths are kept as they are; setting file permissions and creating the
  temporary folder have no effect here, since a failure shows in the operations that follow.
\<close>

section \<open>State\<close>

datatype SnappyApi = SnappyNative | OtherApi nat

text \<open>A library as the virtual machine got it: a file with its contents, or a name to search for.\<close>

datatype library = FileLibrary string bytes | NamedLibrary string

record loader =
  isLoaded :: bool
  snappyApi :: "SnappyApi option"
  bitshuffleApi :: bool
  nativeLibFile :: "string option"
  machine_of :: machine
  files :: "string \<Rightarrow> bytes option"
  deleteOnExit :: "string list"
  loads :: "library list"
  io_calls :: nat

text \<open>
  What lies outside: class-path resources and property files as parsed, \<open>mapLibraryName\<close>, fresh names,
  which call fails, what a write leaves on the disk, and which libraries the virtual machine can load.
\<close>

record host =
  resources :: "string \<Rightarrow> bytes option"
  property_files :: "string \<Rightarrow> (string \<Rightarrow> string option) option"
  mapLibraryName :: "string \<Rightarrow> string"
  randomUUID :: "nat \<Rightarrow> string"
  io_fail :: "nat \<Rightarrow> bool"
  disk :: "nat \<Rightarrow> bytes \<Rightarrow> bytes"
  portions :: "nat \<Rightarrow> nat"
  loadable :: "bytes \<Rightarrow> bool"
  installed :: "string \<Rightarrow> bool"

type_synonym 'a loading = "(loader, exc, 'a) op"

text \<open>One operation of the file system or of a stream.\<close>

definition io :: "host \<Rightarrow> unit loading" where
  "io H s = (if io_fail H (io_calls s) then Inl (IOException ''io'') else Inr (), s\<lparr>io_calls := Suc (io_calls s)\<rparr>)"

text \<open>\<open>try { m } finally { f }\<close> where \<open>f\<close> may throw as well.\<close>

definition tryS :: "('s, 'e, 'a) op \<Rightarrow> ('s, 'e, unit) op \<Rightarrow> ('s, 'e, 'a) op" where
  "tryS m f s = (case m s of (r, s') \<Rightarrow> (case f s' of (Inl e, s'') \<Rightarrow> (Inl e, s'') | (Inr _, s'') \<Rightarrow> (r, s'')))"

text \<open>The exception classes of the two \<open>catch\<close> clauses; the others are errors of the machine.\<close>

fun is_IOException :: "exc \<Rightarrow> bool" where
  "is_IOException (IOException _) = True"
| "is_IOException (SnappyIOException _) = True"
| "is_IOException EOFException = True"
| "is_IOException ClosedChannelException = True"
| "is_IOException UnsupportedEncodingException = True"
| "is_IOException _ = False"

fun is_Exception :: "exc \<Rightarrow> bool" where
  "is_Exception (SnappyErrorExc _) = False"
| "is_Exception UnsatisfiedLinkError = False"
| "is_Exception ExceptionInInitializerError = False"
| "is_Exception NativeFault = False"
| "is_Exception Diverges = False"
| "is_Exception _ = True"

definition catch_io :: "('s, exc, 'a option) op \<Rightarrow> ('s, exc, 'a option) op" where
  "catch_io m s = (case m s of (Inl e, s') \<Rightarrow> (if is_IOException e then Inr None else Inl e, s') | (Inr x, s') \<Rightarrow> (Inr x, s'))"

definition wrap_exceptions :: "('s, exc, 'a) op \<Rightarrow> ('s, exc, 'a) op" where
  "wrap_exceptions m s = (case m s of
     (Inl e, s') \<Rightarrow> (Inl (if is_Exception e then SnappyErrorExc FAILED_TO_LOAD_NATIVE_LIBRARY else e), s')
   | (Inr x, s') \<Rightarrow> (Inr x, s'))"

section \<open>Configuration\<close>

definition KEY_SNAPPY_LIB_PATH :: string where "KEY_SNAPPY_LIB_PATH = ''org.xerial.snappy.lib.path''"
definition KEY_SNAPPY_LIB_NAME :: string where "KEY_SNAPPY_LIB_NAME = ''org.xerial.snappy.lib.name''"
definition KEY_SNAPPY_TEMPDIR :: string where "KEY_SNAPPY_TEMPDIR = ''org.xerial.snappy.tempdir''"
definition KEY_SNAPPY_USE_SYSTEMLIB :: string where "KEY_SNAPPY_USE_SYSTEMLIB = ''org.xerial.snappy.use.systemlib''"
definition KEY_SNAPPY_DISABLE_BUNDLED_LIBS :: string where
  "KEY_SNAPPY_DISABLE_BUNDLED_LIBS = ''org.xerial.snappy.disable.bundled.libs''"

text \<open>\<open>Boolean.parseBoolean\<close> ignores the case; an unset property is false.\<close>

definition parseBoolean :: "string option \<Rightarrow> bool" where
  "parseBoolean v = (case v of None \<Rightarrow> False | Some s \<Rightarrow> lower_case s = ''true'')"

definition load_property :: "string \<times> string \<Rightarrow> machine \<Rightarrow> machine" where
  "load_property nv m =
     (if prefix ''org.xerial.snappy.'' (fst nv) \<and> sys_props m (fst nv) = None
      then m\<lparr>sys_props := (sys_props m)(fst nv \<mapsto> snd nv)\<rparr> else m)"

text \<open>The names and values of the configuration file, when there is one.\<close>

definition loadSnappySystemProperties :: "host \<Rightarrow> (string \<times> string) list option \<Rightarrow> loader \<Rightarrow> loader" where
  "loadSnappySystemProperties H props s =
     (case props of
        None \<Rightarrow> s
      | Some nvs \<Rightarrow>
          (case io H s of
             (Inl _, s') \<Rightarrow> s'
           | (Inr _, s') \<Rightarrow> s'\<lparr>machine_of := fold load_property nvs (machine_of s')\<rparr>))"

definition version_char :: "char \<Rightarrow> bool" where
  "version_char c \<longleftrightarrow> c \<in> set ''0123456789M.''"

text \<open>Trimming is part of the filter, which drops white space.\<close>

definition getVersion :: "host \<Rightarrow> string loading" where
  "getVersion H s =
     (case (case property_files H ''/META-INF/maven/org.xerial.snappy/snappy-java/pom.properties'' of
              Some p \<Rightarrow> Some p | None \<Rightarrow> property_files H ''/org/xerial/snappy/VERSION'') of
        None \<Rightarrow> (Inr ''unknown'', s)
      | Some p \<Rightarrow>
          (case io H s of
             (Inl _, s') \<Rightarrow> (Inr ''unknown'', s')
           | (Inr _, s') \<Rightarrow>
               (let v = (case p ''version'' of None \<Rightarrow> ''unknown'' | Some v \<Rightarrow> v);
                    v' = (if v = ''unknown'' then (case p ''SNAPPY_VERSION'' of None \<Rightarrow> v | Some v \<Rightarrow> v) else v)
                in (Inr (filter version_char v'), s'))))"

section \<open>Extraction\<close>

text \<open>\<open>url.openConnection()\<close> of a resource that is not there is a call on null.\<close>

definition getResourceAsInputStream :: "host \<Rightarrow> string \<Rightarrow> source loading" where
  "getResourceAsInputStream H path =
     (case resources H path of
        None \<Rightarrow> throwS NullPointerException
      | Some d \<Rightarrow> bindS (io H) (\<lambda>_. returnS \<lparr>src_data = d, src_chunk = portions H, src_calls = 0, src_closed = False\<rparr>))"

definition create_file :: "host \<Rightarrow> string \<Rightarrow> unit loading" where
  "create_file H f = bindS (io H) (\<lambda>_. modifyS (\<lambda>s. s\<lparr>files := (files s)(f \<mapsto> [])\<rparr>))"

definition write_file :: "host \<Rightarrow> string \<Rightarrow> bytes \<Rightarrow> unit loading" where
  "write_file H f b = getS (\<lambda>s0. bindS (io H) (\<lambda>_. modifyS (\<lambda>s.
     s\<lparr>files := (files s)(f \<mapsto> (case files s f of None \<Rightarrow> [] | Some d \<Rightarrow> d) @ disk H (io_calls s0) b)\<rparr>)))"

function copy_loop :: "host \<Rightarrow> string \<Rightarrow> source \<Rightarrow> unit loading" where
  "copy_loop H f reader s =
     (case io H s of
        (Inl e, s1) \<Rightarrow> (Inl e, s1)
      | (Inr _, s1) \<Rightarrow>
          (case source_read 8192 reader of
             (None, _) \<Rightarrow> (Inr (), s1)
           | (Some b, reader') \<Rightarrow>
               (case write_file H f b s1 of
                  (Inl e, s2) \<Rightarrow> (Inl e, s2)
                | (Inr _, s2) \<Rightarrow> copy_loop H f reader' s2)))"
  by pat_completeness auto
termination
  by (relation "measure (\<lambda>(H, f, reader, s). length (src_data reader))") (auto dest!: source_read_Some [OF sym])

declare copy_loop.simps [simp del]

fun contentsEquals :: "bytes \<Rightarrow> bytes \<Rightarrow> bool" where
  "contentsEquals [] in2 = (in2 = [])"
| "contentsEquals (ch # in1) in2 =
     (case in2 of [] \<Rightarrow> False | ch2 # in2' \<Rightarrow> if ch \<noteq> ch2 then False else contentsEquals in1 in2')"

definition register :: "string \<Rightarrow> unit loading" where
  "register f = modifyS (\<lambda>s. s\<lparr>deleteOnExit := f # deleteOnExit s\<rparr>)"

text \<open>The first block: copy the resource into the file, closing what was opened.\<close>

definition extract_copy :: "host \<Rightarrow> string \<Rightarrow> string \<Rightarrow> unit loading" where
  "extract_copy H path f s =
     (case getResourceAsInputStream H path s of
        (Inl e, s1) \<Rightarrow> tryS (throwS e) (register f) s1
      | (Inr reader, s1) \<Rightarrow>
          tryS (bindS (create_file H f) (\<lambda>_. tryS (copy_loop H f reader) (io H)))
            (bindS (io H) (\<lambda>_. register f)) s1)"

text \<open>The second block: read both back and compare.\<close>

definition verify_copy :: "host \<Rightarrow> string \<Rightarrow> string \<Rightarrow> unit loading" where
  "verify_copy H path f s =
     (case getResourceAsInputStream H path s of
        (Inl e, s1) \<Rightarrow> (Inl e, s1)
      | (Inr nativeIn, s1) \<Rightarrow>
          (case bindS (io H) (\<lambda>_. getS (\<lambda>s. case files s f of
               None \<Rightarrow> throwS (IOException ''FileNotFoundException'') | Some d \<Rightarrow> returnS d)) s1 of
             (Inl e, s2) \<Rightarrow> tryS (throwS e) (io H) s2
           | (Inr extracted, s2) \<Rightarrow>
               tryS (bindS (io H) (\<lambda>_.
                   if contentsEquals (src_data nativeIn) extracted then returnS ()
                   else throwS (SnappyErrorExc FAILED_TO_LOAD_NATIVE_LIBRARY)))
                 (bindS (io H) (\<lambda>_. io H)) s2))"

definition extractLibraryFile :: "host \<Rightarrow> string \<Rightarrow> string \<Rightarrow> string \<Rightarrow> string option loading" where
  "extractLibraryFile H libFolderForCurrentOS libraryFileName targetFolder = getS (\<lambda>s0.
     bindS (getVersion H) (\<lambda>version.
     let nativeLibraryFilePath = libFolderForCurrentOS @ ''/'' @ libraryFileName;
         extractedLibFile = targetFolder @ ''/snappy-'' @ version @ ''-'' @ randomUUID H (io_calls s0) @ ''-'' @ libraryFileName
     in catch_io
          (bindS (extract_copy H nativeLibraryFilePath extractedLibFile) (\<lambda>_.
           bindS (verify_copy H nativeLibraryFilePath extractedLibFile) (\<lambda>_.
           returnS (Some extractedLibFile))))))"

section \<open>Searching\<close>

definition hasResource :: "host \<Rightarrow> string \<Rightarrow> bool" where
  "hasResource H path \<longleftrightarrow> resources H path \<noteq> None"

definition library_name :: "host \<Rightarrow> loader \<Rightarrow> string" where
  "library_name H s = (case sys_props (machine_of s) KEY_SNAPPY_LIB_NAME of None \<Rightarrow> mapLibraryName H ''snappyjava'' | Some n \<Rightarrow> n)"

text \<open>The file named by the properties, when it exists.\<close>

definition configured_library :: "host \<Rightarrow> loader \<Rightarrow> string option" where
  "configured_library H s =
     (case sys_props (machine_of s) KEY_SNAPPY_LIB_PATH of
        None \<Rightarrow> None
      | Some d \<Rightarrow> (let f = d @ ''/'' @ library_name H s in if files s f \<noteq> None then Some f else None))"

text \<open>The name of the bundled library in its folder, with the alternative name on a Mac.\<close>

definition bundled_library :: "host \<Rightarrow> string \<Rightarrow> string \<Rightarrow> string \<Rightarrow> string option" where
  "bundled_library H os folder name =
     (if hasResource H (folder @ ''/'' @ name) then Some name
      else if os = ''Mac'' \<and> hasResource H (folder @ ''/'' @ ''libsnappyjava.dylib'') then Some ''libsnappyjava.dylib''
      else None)"

definition temp_folder :: "loader \<Rightarrow> string result" where
  "temp_folder s =
     (case sys_props (machine_of s) KEY_SNAPPY_TEMPDIR of
        Some d \<Rightarrow> Inr d | None \<Rightarrow> get_property (machine_of s) ''java.io.tmpdir'')"

definition findNativeLibrary :: "host \<Rightarrow> string option loading" where
  "findNativeLibrary H = getS (\<lambda>s.
     let p = sys_props (machine_of s) in
     if parseBoolean (p KEY_SNAPPY_USE_SYSTEMLIB) \<or> parseBoolean (p KEY_SNAPPY_DISABLE_BUNDLED_LIBS)
     then returnS None
     else case configured_library H s of
         Some f \<Rightarrow> returnS (Some f)
       | None \<Rightarrow>
           bindS (liftE (getNativeLibFolderPathForCurrentOS (machine_of s))) (\<lambda>path.
           bindS (liftE (getOSName (machine_of s))) (\<lambda>os.
           let folder = ''/org/xerial/snappy/native/'' @ path in
           case bundled_library H os folder (library_name H s) of
             None \<Rightarrow> throwS (SnappyErrorExc FAILED_TO_LOAD_NATIVE_LIBRARY)
           | Some name \<Rightarrow>
               bindS (liftE (temp_folder s)) (\<lambda>temp.
               extractLibraryFile H folder name temp))))"

section \<open>Loading\<close>

definition system_load :: "host \<Rightarrow> string \<Rightarrow> unit loading" where
  "system_load H f = getS (\<lambda>s.
     case files s f of
       None \<Rightarrow> throwS UnsatisfiedLinkError
     | Some d \<Rightarrow>
         if loadable H d then modifyS (\<lambda>s. s\<lparr>loads := FileLibrary f d # loads s\<rparr>) else throwS UnsatisfiedLinkError)"

definition system_loadLibrary :: "host \<Rightarrow> string \<Rightarrow> unit loading" where
  "system_loadLibrary H name =
     (if installed H name then modifyS (\<lambda>s. s\<lparr>loads := NamedLibrary name # loads s\<rparr>) else throwS UnsatisfiedLinkError)"

definition loadNativeLibrary :: "host \<Rightarrow> unit loading" where
  "loadNativeLibrary H = getS (\<lambda>s.
     if isLoaded s then returnS ()
     else
       bindS (wrap_exceptions
         (bindS (findNativeLibrary H) (\<lambda>f.
          bindS (modifyS (\<lambda>s. s\<lparr>nativeLibFile := f\<rparr>)) (\<lambda>_.
          case f of
            Some file \<Rightarrow> system_load H file
          | None \<Rightarrow> system_loadLibrary H ''snappyjava'')))) (\<lambda>_.
       modifyS (\<lambda>s. s\<lparr>isLoaded := True\<rparr>)))"

definition setSnappyApi :: "SnappyApi option \<Rightarrow> loader \<Rightarrow> loader" where
  "setSnappyApi apiImpl s = s\<lparr>snappyApi := apiImpl\<rparr>"

definition loadSnappyApi :: "host \<Rightarrow> SnappyApi loading" where
  "loadSnappyApi H = getS (\<lambda>s.
     case snappyApi s of
       Some a \<Rightarrow> returnS a
     | None \<Rightarrow>
         bindS (loadNativeLibrary H) (\<lambda>_.
         bindS (modifyS (setSnappyApi (Some SnappyNative))) (\<lambda>_.
         returnS SnappyNative)))"

definition loadBitShuffleApi :: "host \<Rightarrow> unit loading" where
  "loadBitShuffleApi H = getS (\<lambda>s.
     if bitshuffleApi s then returnS ()
     else bindS (loadNativeLibrary H) (\<lambda>_. modifyS (\<lambda>s. s\<lparr>bitshuffleApi := True\<rparr>)))"

text \<open>A failing deletion is ignored.\<close>

definition cleanUpExtractedNativeLib :: "host \<Rightarrow> loader \<Rightarrow> loader" where
  "cleanUpExtractedNativeLib H s =
     (case nativeLibFile s of
        None \<Rightarrow> s
      | Some f \<Rightarrow>
          if files s f = None then s
          else
            (case io H s of
               (r, s') \<Rightarrow>
                 s'\<lparr>files := (case r of Inl _ \<Rightarrow> files s' | Inr _ \<Rightarrow> (files s')(f := None)),
                    snappyApi := None, bitshuffleApi := False\<rparr>))"

text \<open>\<open>Snappy.cleanUp\<close>\<close>

definition s_cleanUp :: "host \<Rightarrow> loader \<Rightarrow> loader" where
  "s_cleanUp H s = setSnappyApi None (cleanUpExtractedNativeLib H s)"

text \<open>\<open>Snappy.init\<close>, which runs when the class is first used and keeps the interface in \<open>impl\<close>.\<close>

definition s_init :: "host \<Rightarrow> SnappyApi loading" where
  "s_init H s =
     (case loadSnappyApi H s of
        (Inl e, s') \<Rightarrow> (Inl (if is_Exception e then ExceptionInInitializerError else e), s')
      | (Inr a, s') \<Rightarrow> (Inr a, s'))"

text \<open>
  \<open>Snappy.getNativeLibraryVersion\<close>; the stream is closed in every case, and an error of closing it does
  not take back the version that was read.
\<close>

definition getNativeLibraryVersion :: "host \<Rightarrow> string loading" where
  "getNativeLibraryVersion H s =
     (case property_files H ''/org/xerial/snappy/VERSION'' of
        None \<Rightarrow> (Inr ''unknown'', s)
      | Some p \<Rightarrow>
          (case io H s of
             (Inl _, s1) \<Rightarrow> (Inr ''unknown'', s1)
           | (Inr _, s1) \<Rightarrow>
               (case io H s1 of
                  (Inl _, s2) \<Rightarrow> (Inr ''unknown'', snd (io H s2))
                | (Inr _, s2) \<Rightarrow>
                    (let v = (case p ''version'' of None \<Rightarrow> ''unknown'' | Some v \<Rightarrow> v);
                         v' = (if v = ''unknown'' then (case p ''SNAPPY_VERSION'' of None \<Rightarrow> v | Some v \<Rightarrow> v) else v)
                     in (Inr (filter (\<lambda>c. c \<in> set ''0123456789.'') v'), snd (io H s2))))))"

section \<open>The OSGi activator\<close>

text \<open>\<open>String.replace\<close> for a pattern that is not empty.\<close>

function replace_all :: "string \<Rightarrow> string \<Rightarrow> string \<Rightarrow> string" where
  "replace_all p q [] = []"
| "replace_all p q (c # s) =
     (if p \<noteq> [] \<and> prefix p (c # s) then q @ replace_all p q (drop (length p) (c # s)) else c # replace_all p q s)"
  by pat_completeness auto
termination
  by (relation "measure (\<lambda>(p, q, s). length s)") (auto simp: length_greater_0_conv [symmetric] simp del: length_greater_0_conv)

definition LIBRARY_NAME :: string where "LIBRARY_NAME = ''snappyjava''"

definition activator_library :: "host \<Rightarrow> loader \<Rightarrow> string" where
  "activator_library H s =
     (let library = mapLibraryName H LIBRARY_NAME in
      if suffix ''.dylib'' (lower_case library) \<and> sys_props (machine_of s) ''os.arch'' = Some X86
      then replace_all ''.dylib'' ''.jnilib'' library else library)"

definition activator_start :: "host \<Rightarrow> unit loading" where
  "activator_start H = getS (\<lambda>s.
     bindS (system_loadLibrary H (activator_library H s)) (\<lambda>_.
     modifyS (setSnappyApi (Some SnappyNative))))"

definition activator_stop :: "host \<Rightarrow> loader \<Rightarrow> loader" where
  "activator_stop H s = cleanUpExtractedNativeLib H (setSnappyApi None s)"

end
