(* ===== verification/Loader_Props.thy ===== *)
theory Loader_Props
  imports Snappy_Loader
begin

text \<open>
  The life of the library loader: calls of its methods, mixed with changes of the file system and of the
  system properties, as a step relation; what is loaded, how often, and what a failure leads to.
\<close>

section \<open>What searching and extracting leave alone\<close>

definition quiet :: "loader \<Rightarrow> loader \<Rightarrow> bool" where
  "quiet s s' \<longleftrightarrow> isLoaded s' = isLoaded s \<and> snappyApi s' = snappyApi s \<and> bitshuffleApi s' = bitshuffleApi s \<and>
     nativeLibFile s' = nativeLibFile s \<and> machine_of s' = machine_of s \<and> loads s' = loads s"

text \<open>What can go wrong: exceptions, or one of the two errors that report a missing library.\<close>

definition known :: "exc \<Rightarrow> bool" where
  "known e \<longleftrightarrow> is_Exception e \<or> e = SnappyErrorExc FAILED_TO_LOAD_NATIVE_LIBRARY \<or> e = UnsatisfiedLinkError"

definition quiets :: "'a loading \<Rightarrow> bool" where
  "quiets m \<longleftrightarrow> (\<forall>s. quiet s (snd (m s)) \<and> (\<forall>e. fst (m s) = Inl e \<longrightarrow> known e))"

named_theorems quiet_rules \<open>operations that change only files and counters and fail as expected\<close>

lemma known_simps [simp]:
  "known NullPointerException" "known (IOException m)" "known UnsatisfiedLinkError"
  "known (SnappyErrorExc FAILED_TO_LOAD_NATIVE_LIBRARY)"
  by (simp_all add: known_def)

lemma quiet_refl [simp]: "quiet s s"
  by (simp add: quiet_def)

lemma quiet_trans: "quiet s t \<Longrightarrow> quiet t u \<Longrightarrow> quiet s u"
  by (simp add: quiet_def)

lemma quietsD: "quiets m \<Longrightarrow> m s = (r, s') \<Longrightarrow> quiet s s'"
  by (metis quiets_def snd_conv)

lemma quiets_known: "quiets m \<Longrightarrow> m s = (Inl e, s') \<Longrightarrow> known e"
  by (metis quiets_def fst_conv)

lemma quietsI: "(\<And>s r s'. m s = (r, s') \<Longrightarrow> quiet s s' \<and> (\<forall>e. r = Inl e \<longrightarrow> known e)) \<Longrightarrow> quiets m"
  by (metis quiets_def prod.collapse)

lemma quietsI2: "(\<And>s. quiet s (snd (m s)) \<and> (\<forall>e. fst (m s) = Inl e \<longrightarrow> known e)) \<Longrightarrow> quiets m"
  by (simp add: quiets_def)

lemma quiets_bind [quiet_rules]: "quiets m \<Longrightarrow> (\<And>x. quiets (f x)) \<Longrightarrow> quiets (bindS m f)"
proof (rule quietsI)
  fix s q u
  assume m: "quiets m" and f: "\<And>x. quiets (f x)" and e: "bindS m f s = (q, u)"
  obtain r t where rt: "m s = (r, t)" by fastforce
  have t: "quiet s t" using quietsD [OF m rt] .
  show "quiet s u \<and> (\<forall>e. q = Inl e \<longrightarrow> known e)"
  proof (cases r)
    case (Inl x)
    then show ?thesis using e rt t quiets_known [OF m, of s x t] by (auto simp: bindS_def)
  next
    case (Inr x)
    then have fx: "f x t = (q, u)" using e rt by (simp add: bindS_def)
    show ?thesis using quiet_trans [OF t quietsD [OF f fx]] quiets_known [OF f] fx by blast
  qed
qed

lemma quiets_try [quiet_rules]: "quiets m \<Longrightarrow> quiets f \<Longrightarrow> quiets (tryS m f)"
proof (rule quietsI)
  fix s q v
  assume m: "quiets m" and f: "quiets f" and e: "tryS m f s = (q, v)"
  obtain r t where rt: "m s = (r, t)" by fastforce
  obtain q' u where u: "f t = (q', u)" by fastforce
  have "quiet s u" using quietsD [OF m rt] quietsD [OF f u] by (rule quiet_trans)
  then show "quiet s v \<and> (\<forall>e. q = Inl e \<longrightarrow> known e)"
    using e rt u quiets_known [OF m] quiets_known [OF f] by (cases q') (auto simp: tryS_def)
qed

lemma quiets_get [quiet_rules]: "(\<And>s. quiets (f s)) \<Longrightarrow> quiets (getS f)"
  by (simp add: quiets_def getS_def)

lemma quiets_return [quiet_rules]: "quiets (returnS x)" "quiets (Pair (Inr x))" "quiets (liftE (Inr x))"
  by (simp_all add: quiets_def op_simps)

lemma quiets_throw [quiet_rules]: "known e \<Longrightarrow> quiets (throwS e)" "known e \<Longrightarrow> quiets (Pair (Inl e))"
  by (simp_all add: quiets_def op_simps)

lemma quiets_base [quiet_rules]:
  "quiets (io H)" "quiets (register f)" "quiets (create_file H f)" "quiets (write_file H f b)" "quiets (getVersion H)"
  by (auto simp: quiets_def quiet_def op_simps io_def register_def create_file_def write_file_def getVersion_def Let_def
      split: option.splits)

lemma catch_state: "snd (catch_io m s) = snd (m s)" "snd (wrap_exceptions m s) = snd (m s)"
  by (simp_all add: catch_io_def wrap_exceptions_def split: prod.splits sum.splits)

lemma quiets_catch [quiet_rules]: "quiets m \<Longrightarrow> quiets (catch_io m)"
proof (rule quietsI)
  fix s q u
  assume m: "quiets m" and e: "catch_io m s = (q, u)"
  obtain r t where rt: "m s = (r, t)" by fastforce
  show "quiet s u \<and> (\<forall>e. q = Inl e \<longrightarrow> known e)"
    using e rt quietsD [OF m rt] quiets_known [OF m] by (cases r) (auto simp: catch_io_def split: if_splits)
qed

lemma quiets_resource [quiet_rules]: "quiets (getResourceAsInputStream H path)"
  unfolding getResourceAsInputStream_def by (cases "resources H path") (simp_all add: quiet_rules)

lemma quiets_copy [quiet_rules]: "quiets (copy_loop H f reader)"
proof (rule quietsI2)
  show "quiet s (snd (copy_loop H f reader s)) \<and> (\<forall>e. fst (copy_loop H f reader s) = Inl e \<longrightarrow> known e)" for s
  proof (induction H f reader s rule: copy_loop.induct)
    case (1 H f reader s)
    obtain r s1 where s1: "io H s = (r, s1)" by fastforce
    obtain b reader' where b: "source_read 8192 reader = (b, reader')" by fastforce
    have q1: "quiet s s1" using quiets_base(1) s1 by (rule quietsD)
    show ?case
    proof (cases r)
      case (Inl e)
      then show ?thesis using s1 q1 quiets_known [OF quiets_base(1), of H s e s1] by (subst (1 2) copy_loop.simps) simp
    next
      case r: (Inr u)
      show ?thesis
      proof (cases b)
        case None
        then show ?thesis using s1 q1 r b by (subst (1 2) copy_loop.simps) simp
      next
        case (Some x)
        obtain w s2 where w: "write_file H f x s1 = (w, s2)" by fastforce
        have q2: "quiet s s2" using quietsD [OF quiets_base(4) w] quiet_trans [OF q1] by blast
        show ?thesis
        proof (cases w)
          case (Inl e)
          then show ?thesis using s1 q2 r b Some w quiets_known [OF quiets_base(4), of H f x s1 e s2]
            by (subst (1 2) copy_loop.simps) simp
        next
          case (Inr v)
          have i: "quiet s2 (snd (copy_loop H f reader' s2)) \<and> (\<forall>e. fst (copy_loop H f reader' s2) = Inl e \<longrightarrow> known e)"
            using "1.IH" [OF s1 [symmetric] r b [symmetric] Some w [symmetric] Inr] .
          have "copy_loop H f reader s = copy_loop H f reader' s2"
            using s1 r b Some w Inr by (subst copy_loop.simps) simp
          then show ?thesis using i quiet_trans [OF q2] by simp
        qed
      qed
    qed
  qed
qed

lemma quiets_case_result:
  assumes "quiets m" and "\<And>e. known e \<Longrightarrow> quiets (g e)" and "\<And>x. quiets (h x)"
  shows "quiets (\<lambda>s. case m s of (Inl e, s1) \<Rightarrow> g e s1 | (Inr x, s1) \<Rightarrow> h x s1)"
proof (rule quietsI)
  fix s q u
  assume e: "(case m s of (Inl e, s1) \<Rightarrow> g e s1 | (Inr x, s1) \<Rightarrow> h x s1) = (q, u)"
  obtain r t where rt: "m s = (r, t)" by fastforce
  have t: "quiet s t" using quietsD [OF assms(1) rt] .
  show "quiet s u \<and> (\<forall>e. q = Inl e \<longrightarrow> known e)"
  proof (cases r)
    case (Inl x)
    then have g: "g x t = (q, u)" and x: "known x" using e rt quiets_known [OF assms(1), of s x t] by simp_all
    show ?thesis using quiet_trans [OF t quietsD [OF assms(2) [OF x] g]] quiets_known [OF assms(2) [OF x]] g by blast
  next
    case (Inr x)
    then have h: "h x t = (q, u)" using e rt by simp
    show ?thesis using quiet_trans [OF t quietsD [OF assms(3) h]] quiets_known [OF assms(3)] h by blast
  qed
qed

lemma quiets_extract_copy [quiet_rules]: "quiets (extract_copy H path f)"
  unfolding extract_copy_def by (intro quiets_case_result quiet_rules)

lemma quiets_verify [quiet_rules]: "quiets (verify_copy H path f)"
proof -
  have r: "quiets (bindS (io H) (\<lambda>_. getS (\<lambda>s. case files s f of
      None \<Rightarrow> throwS (IOException ''FileNotFoundException'') | Some d \<Rightarrow> returnS d)))"
    by (intro quiet_rules) (simp add: quiet_rules split: option.splits)
  have c: "quiets (if b then returnS () else throwS (SnappyErrorExc FAILED_TO_LOAD_NATIVE_LIBRARY))" for b
    by (simp add: quiet_rules)
  show ?thesis unfolding verify_copy_def by (intro quiets_case_result r quiet_rules c)
qed

lemma quiets_extract [quiet_rules]: "quiets (extractLibraryFile H folder name temp)"
  unfolding extractLibraryFile_def Let_def by (intro quiet_rules)

text \<open>The folder and the temporary directory can only be missing.\<close>

lemma quiets_property [quiet_rules]:
  "quiets (liftE (getNativeLibFolderPathForCurrentOS m))" "quiets (liftE (getOSName m))" "quiets (liftE (temp_folder s))"
  by (auto simp: quiets_def liftE_def getNativeLibFolderPathForCurrentOS_def getOSName_def getArchName_def resolveArmArchType_def
      temp_folder_def get_property_def bindE_Inl_iff Let_def split: option.splits if_splits)

lemma quiets_find [quiet_rules]: "quiets (findNativeLibrary H)"
  unfolding findNativeLibrary_def Let_def
  by (intro quiets_get) (auto intro!: quiet_rules split: option.splits)

section \<open>Extraction\<close>

lemma contentsEquals_iff: "contentsEquals xs ys \<longleftrightarrow> xs = ys"
  by (induction xs ys rule: contentsEquals.induct) (auto split: list.splits)

lemma io_files: "files (snd (io H s)) = files s"
  by (simp add: io_def)

lemma verify_copy_ok:
  assumes "verify_copy H path f s = (Inr (), s')"
  shows "files s' f = resources H path \<and> resources H path \<noteq> None"
proof -
  obtain d s1 where d: "getResourceAsInputStream H path s = (Inr d, s1)"
    using assms by (cases "getResourceAsInputStream H path s") (auto simp: verify_copy_def split: sum.splits)
  then have r: "resources H path = Some (src_data d)"
    by (auto simp: getResourceAsInputStream_def op_simps split: option.splits prod.splits sum.splits)
  define m where "m = bindS (io H) (\<lambda>_. getS (\<lambda>s. case files s f of
      None \<Rightarrow> throwS (IOException ''FileNotFoundException'') | Some d \<Rightarrow> returnS d))"
  obtain x s2 where x: "m s1 = (Inr x, s2)"
    using assms d by (cases "m s1") (auto simp: verify_copy_def m_def tryS_def throwS_def split: sum.splits prod.splits)
  then obtain s3 where "io H s1 = (Inr (), s3)" "files s3 f = Some x" "s2 = s3"
    by (auto simp: m_def op_simps split: option.splits prod.splits sum.splits)
  then have f2: "files s2 f = Some x" by simp
  define c where "c = bindS (io H) (\<lambda>_. if contentsEquals (src_data d) x then returnS ()
      else throwS (SnappyErrorExc FAILED_TO_LOAD_NATIVE_LIBRARY))"
  have t: "tryS c (bindS (io H) (\<lambda>_. io H)) s2 = (Inr (), s')"
    using assms d x by (simp add: verify_copy_def m_def c_def)
  obtain s4 where c: "c s2 = (Inr (), s4)" and g: "bindS (io H) (\<lambda>_. io H) s4 = (Inr (), s')"
    using t by (auto simp: tryS_def split: prod.splits sum.splits)
  have e: "contentsEquals (src_data d) x" and "files s4 = files s2"
    using c io_files [of H s2] by (auto simp: c_def op_simps split: prod.splits sum.splits if_splits)
  moreover have "files s' = files s4"
  proof -
    obtain s5 where s5: "io H s4 = (Inr (), s5)" "io H s5 = (Inr (), s')"
      using g by (auto simp: bindS_def split: prod.splits sum.splits)
    then show ?thesis using io_files [of H s4] io_files [of H s5] by simp
  qed
  ultimately show ?thesis using f2 r by (simp add: contentsEquals_iff)
qed

lemma catch_io_some: "catch_io m s = (Inr (Some x), s') \<longleftrightarrow> m s = (Inr (Some x), s')"
  by (cases "m s") (auto simp: catch_io_def split: sum.splits)

lemma extractLibraryFile_verified:
  assumes "extractLibraryFile H folder name temp s = (Inr (Some f), s')"
  shows "files s' f = resources H (folder @ ''/'' @ name) \<and> resources H (folder @ ''/'' @ name) \<noteq> None"
proof -
  obtain v t where v: "getVersion H s = (Inr v, t)" using assms
    by (auto simp: extractLibraryFile_def getS_def bindS_def split: prod.splits sum.splits)
  define p where "p = folder @ ''/'' @ name"
  define g where "g = temp @ ''/snappy-'' @ v @ ''-'' @ randomUUID H (io_calls s) @ ''-'' @ name"
  have "catch_io (bindS (extract_copy H p g) (\<lambda>_. bindS (verify_copy H p g) (\<lambda>_. returnS (Some g)))) t = (Inr (Some f), s')"
    using assms v by (simp add: extractLibraryFile_def getS_def bindS_def Let_def p_def g_def)
  then obtain u where u: "verify_copy H p g u = (Inr (), s')" "f = g"
    unfolding catch_io_some bindS_Inr_iff returnS_def by auto
  show ?thesis using verify_copy_ok [OF u(1)] unfolding p_def u(2) .
qed

text \<open>Where a file that \<open>findNativeLibrary\<close> returns comes from.\<close>

lemma findNativeLibrary_result:
  assumes "findNativeLibrary H s = (Inr (Some f), s')"
  shows "configured_library H s = Some f \<and> files s' = files s
    \<or> (\<exists>folder name. getNativeLibFolderPathForCurrentOS (machine_of s) = Inr folder
        \<and> files s' f = resources H (''/org/xerial/snappy/native/'' @ folder @ ''/'' @ name)
        \<and> resources H (''/org/xerial/snappy/native/'' @ folder @ ''/'' @ name) \<noteq> None)"
proof (cases "configured_library H s")
  case (Some g)
  then show ?thesis using assms
    by (auto simp: findNativeLibrary_def getS_def returnS_def Let_def split: if_splits)
next
  case None
  define p where "p = sys_props (machine_of s)"
  have nb: "\<not> (parseBoolean (p KEY_SNAPPY_USE_SYSTEMLIB) \<or> parseBoolean (p KEY_SNAPPY_DISABLE_BUNDLED_LIBS))"
    using assms by (auto simp: findNativeLibrary_def getS_def returnS_def Let_def p_def)
  obtain path os where po: "getNativeLibFolderPathForCurrentOS (machine_of s) = Inr path" "getOSName (machine_of s) = Inr os"
    using assms nb None
    by (auto simp: findNativeLibrary_def op_simps Let_def p_def split: sum.splits prod.splits)
  obtain name where name: "bundled_library H os (''/org/xerial/snappy/native/'' @ path) (library_name H s) = Some name"
    using assms nb None po
    by (auto simp: findNativeLibrary_def op_simps Let_def p_def split: option.splits)
  obtain temp where temp: "temp_folder s = Inr temp"
    using assms nb None po name
    by (auto simp: findNativeLibrary_def op_simps Let_def p_def split: sum.splits)
  have "extractLibraryFile H (''/org/xerial/snappy/native/'' @ path) name temp s = (Inr (Some f), s')"
    using assms nb None po name temp by (simp add: findNativeLibrary_def op_simps Let_def p_def)
  from extractLibraryFile_verified [OF this] show ?thesis using po(1) by auto
qed

section \<open>Configuration\<close>

text \<open>The configuration file sets properties of this library only, and none that is set already.\<close>

lemma load_property_keeps: "sys_props m k = Some v \<Longrightarrow> sys_props (load_property nv m) k = Some v"
  by (auto simp: load_property_def)

lemma load_property_other: "\<not> prefix ''org.xerial.snappy.'' k \<Longrightarrow> sys_props (load_property nv m) k = sys_props m k"
  by (auto simp: load_property_def)

lemma configuration_keeps:
  "sys_props (machine_of s) k = Some v \<Longrightarrow> sys_props (machine_of (loadSnappySystemProperties H nvs s)) k = Some v"
  "\<not> prefix ''org.xerial.snappy.'' k \<Longrightarrow>
     sys_props (machine_of (loadSnappySystemProperties H nvs s)) k = sys_props (machine_of s) k"
proof -
  have "sys_props m k = Some v \<Longrightarrow> sys_props (fold load_property xs m) k = Some v" for xs m
    by (induction xs arbitrary: m) (simp_all add: load_property_keeps)
  then show "sys_props (machine_of s) k = Some v \<Longrightarrow> sys_props (machine_of (loadSnappySystemProperties H nvs s)) k = Some v"
    by (simp add: loadSnappySystemProperties_def io_def split: option.splits)
  have "\<not> prefix ''org.xerial.snappy.'' k \<Longrightarrow> sys_props (fold load_property xs m) k = sys_props m k" for xs m
    by (induction xs arbitrary: m) (simp_all add: load_property_other)
  then show "\<not> prefix ''org.xerial.snappy.'' k \<Longrightarrow>
     sys_props (machine_of (loadSnappySystemProperties H nvs s)) k = sys_props (machine_of s) k"
    by (simp add: loadSnappySystemProperties_def io_def split: option.splits)
qed

section \<open>One load\<close>

definition load_found :: "host \<Rightarrow> unit loading" where
  "load_found H = bindS (findNativeLibrary H) (\<lambda>f. bindS (modifyS (\<lambda>s. s\<lparr>nativeLibFile := f\<rparr>)) (\<lambda>_.
     case f of Some file \<Rightarrow> system_load H file | None \<Rightarrow> system_loadLibrary H ''snappyjava''))"

lemma loadNativeLibrary_cases:
  "loadNativeLibrary H s =
     (if isLoaded s then (Inr (), s)
      else case load_found H s of
          (Inl e, s') \<Rightarrow> (Inl (if is_Exception e then SnappyErrorExc FAILED_TO_LOAD_NATIVE_LIBRARY else e), s')
        | (Inr _, s') \<Rightarrow> (Inr (), s'\<lparr>isLoaded := True\<rparr>))"
  by (auto simp: loadNativeLibrary_def load_found_def [symmetric] getS_def returnS_def bindS_def [of "wrap_exceptions _"]
      wrap_exceptions_def modifyS_def split: prod.splits sum.splits)

lemma load_found_failed:
  assumes "load_found H s = (Inl e, s')"
  shows "isLoaded s' = isLoaded s" and "loads s' = loads s"
proof -
  obtain r t where r: "findNativeLibrary H s = (r, t)" by fastforce
  have q: "quiet s t" using quiets_find r by (rule quietsD)
  show "isLoaded s' = isLoaded s" "loads s' = loads s"
    using assms r q
    by (auto simp: load_found_def bindS_def modifyS_def system_load_def system_loadLibrary_def getS_def throwS_def quiet_def
        split: sum.splits option.splits if_splits)
qed

lemma load_found_loaded:
  assumes "load_found H s = (Inr (), s')"
  obtains f t where "findNativeLibrary H s = (Inr f, t)" and "isLoaded s' = isLoaded s" and "files s' = files t"
    and "nativeLibFile s' = f"
    and "case f of None \<Rightarrow> loads s' = NamedLibrary ''snappyjava'' # loads s \<and> installed H ''snappyjava''
       | Some g \<Rightarrow> \<exists>d. loads s' = FileLibrary g d # loads s \<and> files t g = Some d \<and> loadable H d"
proof -
  obtain f t where f: "findNativeLibrary H s = (Inr f, t)"
    "bindS (modifyS (\<lambda>s. s\<lparr>nativeLibFile := f\<rparr>)) (\<lambda>_.
     case f of Some file \<Rightarrow> system_load H file | None \<Rightarrow> system_loadLibrary H ''snappyjava'') t = (Inr (), s')"
    using assms unfolding load_found_def bindS_Inr_iff [of "findNativeLibrary H"] by blast
  have q: "quiet s t" using quiets_find f(1) by (rule quietsD)
  show thesis
  proof (cases f)
    case None
    then show thesis using that [OF f(1)] f(2) q
      by (simp add: bindS_def modifyS_def system_loadLibrary_def throwS_def quiet_def split: if_splits) auto
  next
    case (Some g)
    then show thesis using that [OF f(1)] f(2) q
      by (simp add: bindS_def modifyS_def system_load_def getS_def throwS_def quiet_def split: if_splits option.splits) auto
  qed
qed

section \<open>The life of the loader\<close>

text \<open>
  The calls of \<open>SnappyLoader\<close> and \<open>Snappy\<close>, and anything that happens to files and properties in between.
  The OSGi activator, which does not go through \<open>loadNativeLibrary\<close>, comes in with \<open>lifetime\<close>.
\<close>

inductive loader_step :: "host \<Rightarrow> loader \<Rightarrow> loader \<Rightarrow> bool" for H where
  snappy: "loadSnappyApi H s = (r, s') \<Longrightarrow> loader_step H s s'"
| bitshuffle: "loadBitShuffleApi H s = (q, s') \<Longrightarrow> loader_step H s s'"
| configure: "loader_step H s (loadSnappySystemProperties H nvs s)"
| set_api: "loader_step H s (setSnappyApi a s)"
| clean: "loader_step H s (cleanUpExtractedNativeLib H s)"
| clean_up: "loader_step H s (s_cleanUp H s)"
| environment: "loader_step H s (s\<lparr>files := fs, machine_of := m\<rparr>)"

text \<open>A life of the class with \<open>n\<close> successful starts of the activator.\<close>

inductive lifetime :: "host \<Rightarrow> nat \<Rightarrow> loader \<Rightarrow> loader \<Rightarrow> bool" for H where
  begin_life: "lifetime H 0 s s"
| call: "lifetime H n s t \<Longrightarrow> loader_step H t u \<Longrightarrow> lifetime H n s u"
| start: "lifetime H n s t \<Longrightarrow> activator_start H t = (Inr (), u) \<Longrightarrow> lifetime H (Suc n) s u"
| failed_start: "lifetime H n s t \<Longrightarrow> activator_start H t = (Inl e, u) \<Longrightarrow> lifetime H n s u"
| stop: "lifetime H n s t \<Longrightarrow> lifetime H n s (activator_stop H t)"

text \<open>Every load is one of \<open>loadNativeLibrary\<close>, which the flag remembers, or of a start of the activator.\<close>

definition loads_sound :: "nat \<Rightarrow> loader \<Rightarrow> bool" where
  "loads_sound n s \<longleftrightarrow> length (loads s) = n + (if isLoaded s then 1 else 0)"

lemma loadNativeLibrary_keeps:
  assumes "loadNativeLibrary H s = (r, s')"
  shows "loads_sound n s \<Longrightarrow> loads_sound n s'" and "isLoaded s \<Longrightarrow> r = Inr () \<and> s' = s"
proof -
  show "isLoaded s \<Longrightarrow> r = Inr () \<and> s' = s" using assms by (simp add: loadNativeLibrary_cases)
  show "loads_sound n s'" if h: "loads_sound n s"
  proof (cases "isLoaded s")
    case True
    then show ?thesis using assms h by (simp add: loadNativeLibrary_cases)
  next
    case False
    then have l: "length (loads s) = n" using h by (simp add: loads_sound_def)
    obtain q t where q: "load_found H s = (q, t)" by fastforce
    show ?thesis
    proof (cases q)
      case (Inl e)
      then show ?thesis using assms False q l load_found_failed [of H s e t]
        by (auto simp: loadNativeLibrary_cases loads_sound_def)
    next
      case (Inr u)
      then have lf: "load_found H s = (Inr (), t)" using q by simp
      obtain f t' where "findNativeLibrary H s = (Inr f, t')" "isLoaded t = isLoaded s" "files t = files t'" "nativeLibFile t = f"
        and f: "case f of None \<Rightarrow> loads t = NamedLibrary ''snappyjava'' # loads s \<and> installed H ''snappyjava''
       | Some g \<Rightarrow> \<exists>d. loads t = FileLibrary g d # loads s \<and> files t' g = Some d \<and> loadable H d"
        by (rule load_found_loaded [OF lf])
      have "length (loads t) = Suc n" using f l by (cases f) auto
      then show ?thesis using assms False q Inr by (auto simp: loadNativeLibrary_cases loads_sound_def)
    qed
  qed
qed

lemma loadSnappyApi_native:
  "loadSnappyApi H s = (case snappyApi s of Some a \<Rightarrow> (Inr a, s)
     | None \<Rightarrow> (case loadNativeLibrary H s of (Inl e, t) \<Rightarrow> (Inl e, t)
         | (Inr _, t) \<Rightarrow> (Inr SnappyNative, t\<lparr>snappyApi := Some SnappyNative\<rparr>)))"
  by (auto simp: loadSnappyApi_def op_simps setSnappyApi_def split: option.splits prod.splits sum.splits)

lemma loadBitShuffleApi_native:
  "loadBitShuffleApi H s = (if bitshuffleApi s then (Inr (), s)
     else case loadNativeLibrary H s of (Inl e, t) \<Rightarrow> (Inl e, t) | (Inr _, t) \<Rightarrow> (Inr (), t\<lparr>bitshuffleApi := True\<rparr>))"
  by (auto simp: loadBitShuffleApi_def op_simps split: prod.splits sum.splits)

lemma loads_sound_cong: "isLoaded s' = isLoaded s \<Longrightarrow> loads s' = loads s \<Longrightarrow> loads_sound n s' = loads_sound n s"
  by (simp add: loads_sound_def)

text \<open>The steps that are no loading.\<close>

lemma other_steps:
  "isLoaded (loadSnappySystemProperties H nvs s) = isLoaded s" "loads (loadSnappySystemProperties H nvs s) = loads s"
  "isLoaded (setSnappyApi a s) = isLoaded s" "loads (setSnappyApi a s) = loads s"
  "isLoaded (cleanUpExtractedNativeLib H s) = isLoaded s" "loads (cleanUpExtractedNativeLib H s) = loads s"
  "isLoaded (s_cleanUp H s) = isLoaded s" "loads (s_cleanUp H s) = loads s"
  by (simp_all add: loadSnappySystemProperties_def setSnappyApi_def cleanUpExtractedNativeLib_def s_cleanUp_def io_def
      split: option.splits)

lemma step_sound: "loader_step H s s' \<Longrightarrow> loads_sound n s \<Longrightarrow> loads_sound n s'"
proof (induction rule: loader_step.induct)
  case (snappy s r s')
  obtain q t where q: "loadNativeLibrary H s = (q, t)" by fastforce
  show ?case using snappy q loadNativeLibrary_keeps(1) [OF q]
    by (auto simp: loadSnappyApi_native loads_sound_def split: option.splits sum.splits)
next
  case (bitshuffle s q s')
  obtain r t where r: "loadNativeLibrary H s = (r, t)" by fastforce
  show ?case using bitshuffle r loadNativeLibrary_keeps(1) [OF r]
    by (auto simp: loadBitShuffleApi_native loads_sound_def split: if_splits sum.splits)
qed (simp_all add: loads_sound_def other_steps)

lemma activator_sound:
  "activator_start H s = (r, s') \<Longrightarrow> loads_sound n s \<Longrightarrow> loads_sound (case r of Inl _ \<Rightarrow> n | Inr _ \<Rightarrow> Suc n) s'"
  "loads_sound n s \<Longrightarrow> loads_sound n (activator_stop H s)"
  by (auto simp: activator_start_def activator_stop_def system_loadLibrary_def op_simps setSnappyApi_def loads_sound_def
      cleanUpExtractedNativeLib_def io_def split: if_splits option.splits)

lemma step_loaded: "loader_step H s s' \<Longrightarrow> isLoaded s \<Longrightarrow> isLoaded s' \<and> loads s' = loads s"
proof (induction rule: loader_step.induct)
  case (snappy s r s')
  then show ?case by (auto simp: loadSnappyApi_native loadNativeLibrary_cases split: option.splits)
next
  case (bitshuffle s q s')
  then show ?case by (auto simp: loadBitShuffleApi_native loadNativeLibrary_cases split: if_splits)
qed (simp_all add: other_steps)

section \<open>A host for the witnesses\<close>

definition demo_host :: host where
  "demo_host = \<lparr>resources = [''/org/xerial/snappy/native/Linux/x86_64/libsnappyjava.so'' \<mapsto> [1, 2, 3]],
     property_files = (\<lambda>_. None), mapLibraryName = (\<lambda>n. ''lib'' @ n @ ''.so''), randomUUID = (\<lambda>_. ''0''),
     io_fail = (\<lambda>_. False), disk = (\<lambda>_ b. b), portions = (\<lambda>_. 2), loadable = (\<lambda>_. True),
     installed = (\<lambda>n. n = ''snappyjava'')\<rparr>"

definition demo_loader :: loader where
  "demo_loader = \<lparr>isLoaded = False, snappyApi = None, bitshuffleApi = False, nativeLibFile = None, machine_of = demo_machine,
     files = (\<lambda>_. None), deleteOnExit = [], loads = [], io_calls = 0\<rparr>"

text \<open>With a library named by the properties.\<close>

definition user_loader :: loader where
  "user_loader = demo_loader\<lparr>machine_of := demo_machine\<lparr>sys_props := [KEY_SNAPPY_LIB_PATH \<mapsto> ''/opt'']\<rparr>,
     files := [''/opt/libsnappyjava.so'' \<mapsto> [9]]\<rparr>"

lemma demo_loader_fields: "\<not> isLoaded demo_loader" "loads demo_loader = []" "machine_of demo_loader = demo_machine"
  "\<not> isLoaded user_loader" "snappyApi user_loader = None" "files user_loader ''/opt/libsnappyjava.so'' = Some [9]"
  by (simp_all add: demo_loader_def user_loader_def)

lemma demo_properties:
  "sys_props demo_machine KEY_SNAPPY_USE_SYSTEMLIB = None" "sys_props demo_machine KEY_SNAPPY_DISABLE_BUNDLED_LIBS = None"
  "sys_props demo_machine KEY_SNAPPY_LIB_PATH = None" "sys_props demo_machine KEY_SNAPPY_LIB_NAME = None"
  "sys_props demo_machine KEY_SNAPPY_TEMPDIR = None" "sys_props demo_machine ''java.io.tmpdir'' = Some ''/tmp''"
  "sys_props (machine_of user_loader) KEY_SNAPPY_USE_SYSTEMLIB = None"
  "sys_props (machine_of user_loader) KEY_SNAPPY_DISABLE_BUNDLED_LIBS = None"
  "configured_library demo_host user_loader = Some ''/opt/libsnappyjava.so''"
  by (simp_all add: demo_machine_def user_loader_def demo_loader_def configured_library_def library_name_def demo_host_def
      KEY_SNAPPY_USE_SYSTEMLIB_def KEY_SNAPPY_DISABLE_BUNDLED_LIBS_def KEY_SNAPPY_LIB_PATH_def KEY_SNAPPY_LIB_NAME_def
      KEY_SNAPPY_TEMPDIR_def)

section \<open>Properties\<close>

text \<open>
  C15: Every load of a native library is accounted for. Over any sequence of calls of \<open>SnappyLoader\<close> and
  \<open>Snappy\<close>, of starts and stops of the OSGi activator, and of changes of the file system and the properties
  in between, the libraries loaded are one for each successful start of the activator and one more exactly
  when \<open>isLoaded\<close> is set. So without the activator at most one is ever loaded, and the flag tells whether
  one is; with it, the flag may be unset although a library is loaded.
\<close>

theorem library_loaded_once:
  assumes "lifetime H n s0 s" and "\<not> isLoaded s0" and "loads s0 = []"
  shows "length (loads s) = n + (if isLoaded s then 1 else 0)"
proof -
  have "loads_sound n s" using assms
  proof (induction rule: lifetime.induct)
    case (start n s t u)
    then show ?case using activator_sound(1) [of H t "Inr ()" u n] by simp
  next
    case (failed_start n s t e u)
    then show ?case using activator_sound(1) [of H t "Inl e" u n] by simp
  qed (simp_all add: loads_sound_def [of _ s0] step_sound activator_sound(2), simp add: loads_sound_def)
  then show ?thesis by (simp add: loads_sound_def)
qed

text \<open>A load, a clean-up and another load; and a start of the activator before a request.\<close>

theorem library_loaded_once_witness:
  "length (loads (snd (loadSnappyApi demo_host (s_cleanUp demo_host (snd (loadSnappyApi demo_host demo_loader)))))) \<le> 1
   \<and> 1 \<le> length (loads (snd (loadBitShuffleApi (demo_host\<lparr>installed := (\<lambda>_. True)\<rparr>)
     (snd (activator_start (demo_host\<lparr>installed := (\<lambda>_. True)\<rparr>) demo_loader)))))"
proof -
  let ?load = "\<lambda>s. snd (loadSnappyApi demo_host s)"
  have step: "loader_step demo_host s (?load s)" for s
    by (rule loader_step.snappy [OF prod.collapse [symmetric]])
  have "lifetime demo_host 0 demo_loader (?load (s_cleanUp demo_host (?load demo_loader)))"
    by (intro lifetime.call [OF _ step] lifetime.call [OF _ loader_step.clean_up] lifetime.begin_life)
  from library_loaded_once [OF this demo_loader_fields(1,2)]
  have one: "length (loads (?load (s_cleanUp demo_host (?load demo_loader)))) \<le> 1" by simp
  let ?H = "demo_host\<lparr>installed := (\<lambda>_. True)\<rparr>"
  have "activator_start ?H demo_loader = (Inr (), snd (activator_start ?H demo_loader))"
    by (simp add: activator_start_def op_simps system_loadLibrary_def)
  then have "lifetime ?H (Suc 0) demo_loader (snd (loadBitShuffleApi ?H (snd (activator_start ?H demo_loader))))"
    by (rule lifetime.call [OF lifetime.start [OF lifetime.begin_life] loader_step.bitshuffle [OF prod.collapse [symmetric]]])
  from library_loaded_once [OF this demo_loader_fields(1,2)] one show ?thesis by simp
qed

text \<open>
  C34: Once the library is loaded, the two interfaces stay available: after any further calls and changes,
  clean-ups included, both requests succeed, and nothing is loaded again.
\<close>

theorem api_stays_available:
  assumes "isLoaded s" and "(loader_step H)\<^sup>*\<^sup>* s t"
  shows "\<exists>a t' u'. loadSnappyApi H t = (Inr a, t') \<and> snappyApi t' = Some a \<and> loads t' = loads s
    \<and> loadBitShuffleApi H t = (Inr (), u') \<and> bitshuffleApi u' \<and> loads u' = loads s"
proof -
  have "isLoaded t \<and> loads t = loads s" using assms(2)
  proof (induction rule: rtranclp_induct)
    case base
    then show ?case using assms(1) by simp
  next
    case (step y z)
    then show ?case using step_loaded by metis
  qed
  then show ?thesis
    by (cases "snappyApi t"; cases "bitshuffleApi t")
      (simp_all add: loadSnappyApi_native loadBitShuffleApi_native loadNativeLibrary_cases)
qed

theorem api_stays_available_witness:
  "\<exists>a t'. loadSnappyApi demo_host (s_cleanUp demo_host (demo_loader\<lparr>isLoaded := True\<rparr>)) = (Inr a, t') \<and> loads t' = []"
proof -
  let ?s = "demo_loader\<lparr>isLoaded := True\<rparr>"
  have l: "isLoaded ?s" "loads ?s = []" using demo_loader_fields(2) by simp_all
  have "(loader_step demo_host)\<^sup>*\<^sup>* ?s (s_cleanUp demo_host ?s)"
    by (rule r_into_rtranclp, rule loader_step.clean_up)
  from api_stays_available [OF l(1) this] show ?thesis unfolding l(2) by blast
qed

text \<open>
  C16: A library file that gets loaded is either the one the properties name, as it is on the disk, or has
  exactly the contents of a bundled resource of this platform's folder: a copy the file system did not
  store faithfully is never loaded. Otherwise the library installed in the system is loaded.
\<close>

theorem loaded_library_verified:
  assumes "loadNativeLibrary H s = (Inr (), s')" and "\<not> isLoaded s"
  shows "loads s' = NamedLibrary ''snappyjava'' # loads s \<and> installed H ''snappyjava''
    \<or> (\<exists>f d. loads s' = FileLibrary f d # loads s \<and> loadable H d
        \<and> (configured_library H s = Some f \<and> files s f = Some d
          \<or> (\<exists>folder name. getNativeLibFolderPathForCurrentOS (machine_of s) = Inr folder
               \<and> resources H (''/org/xerial/snappy/native/'' @ folder @ ''/'' @ name) = Some d)))"
proof -
  obtain t where t: "load_found H s = (Inr (), t)" "loads s' = loads t"
    using assms by (auto simp: loadNativeLibrary_cases split: prod.splits sum.splits)
  obtain f u where f1: "findNativeLibrary H s = (Inr f, u)" "isLoaded t = isLoaded s" "files t = files u" "nativeLibFile t = f"
    and f2: "case f of None \<Rightarrow> loads t = NamedLibrary ''snappyjava'' # loads s \<and> installed H ''snappyjava''
       | Some g \<Rightarrow> \<exists>d. loads t = FileLibrary g d # loads s \<and> files u g = Some d \<and> loadable H d"
    by (rule load_found_loaded [OF t(1)])
  note f = f1(1) f2
  show ?thesis
  proof (cases f)
    case None
    then show ?thesis using f(2) t(2) by simp
  next
    case (Some g)
    then obtain d where d: "loads s' = FileLibrary g d # loads s" "files u g = Some d" "loadable H d" using f(2) t(2) by auto
    from findNativeLibrary_result [of H s g u] f(1) Some d(2)
    have "configured_library H s = Some g \<and> files s g = Some d
          \<or> (\<exists>folder name. getNativeLibFolderPathForCurrentOS (machine_of s) = Inr folder
               \<and> resources H (''/org/xerial/snappy/native/'' @ folder @ ''/'' @ name) = Some d)" by auto
    then show ?thesis using d by blast
  qed
qed

theorem loaded_library_verified_witness:
  "\<exists>s'. loadNativeLibrary demo_host user_loader = (Inr (), s')
    \<and> (loads s' = [NamedLibrary ''snappyjava''] \<or> (\<exists>f d. loads s' = [FileLibrary f d] \<and> loadable demo_host d))"
proof -
  have "findNativeLibrary demo_host user_loader = (Inr (Some ''/opt/libsnappyjava.so''), user_loader)"
    by (simp add: findNativeLibrary_def op_simps Let_def parseBoolean_def demo_properties(7-9))
  moreover have "loadable demo_host [9]" by (simp add: demo_host_def)
  ultimately obtain s' where s': "loadNativeLibrary demo_host user_loader = (Inr (), s')"
    by (simp add: loadNativeLibrary_cases load_found_def op_simps system_load_def demo_loader_fields(4,6))
  have "loads user_loader = []" by (simp add: user_loader_def demo_loader_def)
  from loaded_library_verified [OF s' demo_loader_fields(4), unfolded this] show ?thesis using s' by blast
qed

text \<open>
  \<open>cleanUp\<close>, which is to delete the temporary copy of the library, deletes the file that was loaded,
  also when that is the library the user named with the properties.
\<close>

theorem clean_up_deletes_users_library:
  assumes "\<not> isLoaded s" and "snappyApi s = None" and "sys_props (machine_of s) KEY_SNAPPY_USE_SYSTEMLIB = None"
    and "sys_props (machine_of s) KEY_SNAPPY_DISABLE_BUNDLED_LIBS = None"
    and "configured_library H s = Some f" and "files s f = Some d" and "loadable H d" and "\<not> io_fail H (io_calls s)"
  shows "\<exists>t. loadSnappyApi H s = (Inr SnappyNative, t) \<and> files t f = Some d \<and> files (s_cleanUp H t) f = None"
proof -
  have f: "findNativeLibrary H s = (Inr (Some f), s)"
    using assms(3-5) by (simp add: findNativeLibrary_def op_simps Let_def parseBoolean_def)
  define t where "t = s\<lparr>nativeLibFile := Some f, loads := FileLibrary f d # loads s, isLoaded := True, snappyApi := Some SnappyNative\<rparr>"
  have "loadSnappyApi H s = (Inr SnappyNative, t)"
    using assms(1,2,6,7)
    by (simp add: loadSnappyApi_native loadNativeLibrary_cases load_found_def f op_simps system_load_def t_def)
  moreover have "files t f = Some d" using assms(6) by (simp add: t_def)
  moreover have "files (s_cleanUp H t) f = None"
    using assms(6,8) by (simp add: s_cleanUp_def setSnappyApi_def cleanUpExtractedNativeLib_def io_def t_def)
  ultimately show ?thesis by blast
qed

theorem clean_up_deletes_users_library_witness:
  "\<exists>t. loadSnappyApi demo_host user_loader = (Inr SnappyNative, t) \<and> files t ''/opt/libsnappyjava.so'' = Some [9]
    \<and> files (s_cleanUp demo_host t) ''/opt/libsnappyjava.so'' = None"
  by (rule clean_up_deletes_users_library [OF demo_loader_fields(4,5) demo_properties(7-9) demo_loader_fields(6)])
    (simp_all add: demo_host_def)

section \<open>The regular case\<close>

definition sound_host :: "host \<Rightarrow> bool" where
  "sound_host H \<longleftrightarrow> (\<forall>k. \<not> io_fail H k) \<and> (\<forall>k b. disk H k b = b)"

lemma io_ok: "sound_host H \<Longrightarrow> io H s = (Inr (), s\<lparr>io_calls := Suc (io_calls s)\<rparr>)"
  by (simp add: io_def sound_host_def)

lemma copy_loop_ok:
  assumes H: "sound_host H"
  shows "files s f = Some d \<Longrightarrow>
    \<exists>n. copy_loop H f reader s = (Inr (), s\<lparr>files := (files s)(f \<mapsto> d @ src_data reader), io_calls := n\<rparr>)"
proof (induction "length (src_data reader)" arbitrary: reader s d rule: less_induct)
  case less
  obtain b reader' where b: "source_read 8192 reader = (b, reader')" by fastforce
  define s1 where "s1 = s\<lparr>io_calls := Suc (io_calls s)\<rparr>"
  have s1: "io H s = (Inr (), s1)" by (simp add: io_ok [OF H] s1_def)
  show ?case
  proof (cases b)
    case None
    then have "src_data reader = []" using source_read_None [of 8192 reader reader'] b by simp
    moreover have "copy_loop H f reader s = (Inr (), s1)" using s1 b None by (subst copy_loop.simps) simp
    moreover have "s1 = s\<lparr>files := (files s)(f \<mapsto> d @ []), io_calls := io_calls s1\<rparr>"
      using less.prems by (simp add: s1_def fun_upd_idem)
    ultimately show ?thesis by (metis append_Nil2)
  next
    case (Some x)
    have x: "x \<noteq> []" "src_data reader = x @ src_data reader'" using source_read_Some [of 8192 reader x reader'] b Some by simp_all
    define s2 where "s2 = s1\<lparr>files := (files s)(f \<mapsto> d @ x), io_calls := Suc (io_calls s1)\<rparr>"
    have w: "write_file H f x s1 = (Inr (), s2)"
      using less.prems H by (simp add: write_file_def op_simps io_ok [OF H] s1_def s2_def sound_host_def)
    have "length (src_data reader') < length (src_data reader)" "files s2 f = Some (d @ x)" using x by (simp_all add: s2_def)
    from less.hyps [OF this] obtain n where
      "copy_loop H f reader' s2 = (Inr (), s2\<lparr>files := (files s2)(f \<mapsto> (d @ x) @ src_data reader'), io_calls := n\<rparr>)" by blast
    then have "copy_loop H f reader s = (Inr (), s\<lparr>files := (files s)(f \<mapsto> d @ src_data reader), io_calls := n\<rparr>)"
      using s1 b Some w x(2) by (subst copy_loop.simps) (simp add: s2_def s1_def)
    then show ?thesis by blast
  qed
qed

lemma extract_copy_ok:
  assumes H: "sound_host H" and d: "resources H path = Some d"
  obtains n where "extract_copy H path f s
    = (Inr (), s\<lparr>files := (files s)(f \<mapsto> d), io_calls := n, deleteOnExit := f # deleteOnExit s\<rparr>)"
proof -
  define reader where "reader = \<lparr>src_data = d, src_chunk = portions H, src_calls = 0, src_closed = False\<rparr>"
  obtain s1 where s1_def: "s1 = s\<lparr>io_calls := Suc (io_calls s)\<rparr>" by blast
  have r: "getResourceAsInputStream H path s = (Inr reader, s1)"
    by (simp add: getResourceAsInputStream_def d op_simps io_ok [OF H] reader_def s1_def)
  define s2 where "s2 = s1\<lparr>io_calls := Suc (io_calls s1), files := (files s)(f \<mapsto> [])\<rparr>"
  have c: "create_file H f s1 = (Inr (), s2)" by (simp add: create_file_def op_simps io_ok [OF H] s1_def s2_def)
  have "files s2 f = Some []" by (simp add: s2_def)
  from copy_loop_ok [OF H this, of reader] obtain n where
    n: "copy_loop H f reader s2 = (Inr (), s2\<lparr>files := (files s2)(f \<mapsto> d), io_calls := n\<rparr>)"
    by (auto simp: reader_def)
  show thesis
    by (rule that [of "Suc (Suc n)"])
      (simp add: extract_copy_def r bindS_def c n tryS_def io_ok [OF H] register_def modifyS_def, simp add: s2_def s1_def)
qed

lemma verify_copy_same:
  assumes H: "sound_host H" and d: "resources H path = Some d" "files s f = Some d"
  shows "\<exists>n. verify_copy H path f s = (Inr (), s\<lparr>io_calls := n\<rparr>)"
  using d by (simp add: verify_copy_def getResourceAsInputStream_def op_simps io_ok [OF H] tryS_def contentsEquals_iff)
    (rule exI, rule refl)

lemma extractLibraryFile_ok:
  assumes H: "sound_host H" and d: "resources H (folder @ ''/'' @ name) = Some d"
  obtains f s' where "extractLibraryFile H folder name temp s = (Inr (Some f), s')" and "files s' f = Some d"
    and "f \<in> set (deleteOnExit s')"
proof -
  have "\<exists>v t. getVersion H s = (Inr v, t)"
    by (simp add: getVersion_def io_ok [OF H] Let_def split: option.split)
  then obtain v t where v: "getVersion H s = (Inr v, t)" by blast
  define p where "p = folder @ ''/'' @ name"
  define g where "g = temp @ ''/snappy-'' @ v @ ''-'' @ randomUUID H (io_calls s) @ ''-'' @ name"
  have dp: "resources H p = Some d" using d by (simp add: p_def)
  obtain n where n: "extract_copy H p g t = (Inr (), t\<lparr>files := (files t)(g \<mapsto> d), io_calls := n, deleteOnExit := g # deleteOnExit t\<rparr>)"
    by (rule extract_copy_ok [OF H dp])
  define u where "u = t\<lparr>files := (files t)(g \<mapsto> d), io_calls := n, deleteOnExit := g # deleteOnExit t\<rparr>"
  obtain k where k: "verify_copy H p g u = (Inr (), u\<lparr>io_calls := k\<rparr>)"
    using verify_copy_same [OF H dp, of u g] by (auto simp: u_def)
  have "extractLibraryFile H folder name temp s
      = catch_io (bindS (extract_copy H p g) (\<lambda>_. bindS (verify_copy H p g) (\<lambda>_. returnS (Some g)))) t"
    by (simp add: extractLibraryFile_def getS_def bindS_def v Let_def p_def g_def)
  also have "\<dots> = (Inr (Some g), u\<lparr>io_calls := k\<rparr>)"
    by (simp add: catch_io_def bindS_def n u_def [symmetric] k returnS_def)
  finally have "extractLibraryFile H folder name temp s = (Inr (Some g), u\<lparr>io_calls := k\<rparr>)" .
  then show thesis by (rule that) (simp_all add: u_def)
qed

text \<open>
  C17: On a file system that works, a request without special configuration extracts the bundled library
  of the platform to the temporary folder, loads a file with exactly its contents and arranges for its deletion.
\<close>

theorem bundled_library_loaded:
  assumes "sound_host H" and "\<not> isLoaded s" and "snappyApi s = None"
    and "sys_props (machine_of s) KEY_SNAPPY_USE_SYSTEMLIB = None"
    and "sys_props (machine_of s) KEY_SNAPPY_DISABLE_BUNDLED_LIBS = None" and "configured_library H s = None"
    and "getNativeLibFolderPathForCurrentOS (machine_of s) = Inr path" and "temp_folder s = Inr temp"
    and "resources H (''/org/xerial/snappy/native/'' @ path @ ''/'' @ library_name H s) = Some d" and "loadable H d"
  shows "\<exists>f t. loadSnappyApi H s = (Inr SnappyNative, t) \<and> isLoaded t \<and> nativeLibFile t = Some f
    \<and> loads t = FileLibrary f d # loads s \<and> f \<in> set (deleteOnExit t)"
proof -
  obtain os where os: "getOSName (machine_of s) = Inr os"
    using assms(7) by (auto simp: getNativeLibFolderPathForCurrentOS_def bindE_Inr_iff)
  define folder where "folder = ''/org/xerial/snappy/native/'' @ path"
  have r: "resources H (folder @ ''/'' @ library_name H s) = Some d" using assms(9) by (simp add: folder_def)
  obtain f u where u: "extractLibraryFile H folder (library_name H s) temp s = (Inr (Some f), u)" "files u f = Some d"
    "f \<in> set (deleteOnExit u)"
    by (rule extractLibraryFile_ok [OF assms(1) r])
  have f: "findNativeLibrary H s = (Inr (Some f), u)"
    using assms(4-8) os r u(1)
    by (simp add: findNativeLibrary_def op_simps Let_def parseBoolean_def bundled_library_def hasResource_def folder_def)
  have q: "loads u = loads s" using quietsD [OF quiets_find f] by (simp add: quiet_def)
  define t where "t = u\<lparr>nativeLibFile := Some f, loads := FileLibrary f d # loads s, isLoaded := True, snappyApi := Some SnappyNative\<rparr>"
  have "loadSnappyApi H s = (Inr SnappyNative, t)"
    using assms(2,3,10) u(2) q
    by (simp add: loadSnappyApi_native loadNativeLibrary_cases load_found_def f op_simps system_load_def t_def)
  then show ?thesis using u(3) by (simp add: t_def)
qed

theorem bundled_library_loaded_witness:
  "\<exists>f t. loadSnappyApi demo_host demo_loader = (Inr SnappyNative, t) \<and> loads t = [FileLibrary f [1, 2, 3]]"
proof -
  have c: "configured_library demo_host demo_loader = None" "temp_folder demo_loader = Inr ''/tmp''"
    "library_name demo_host demo_loader = ''libsnappyjava.so''" "sound_host demo_host" "snappyApi demo_loader = None"
    by (simp_all add: configured_library_def temp_folder_def library_name_def demo_loader_fields(3) demo_properties
        get_property_def demo_host_def sound_host_def) (simp add: demo_loader_def)
  have r: "resources demo_host (''/org/xerial/snappy/native/'' @ ''Linux/x86_64'' @ ''/'' @ library_name demo_host demo_loader) = Some [1, 2, 3]"
    "loadable demo_host [1, 2, 3]"
    unfolding c(3) by (simp_all add: demo_host_def)
  have m: "sys_props (machine_of demo_loader) KEY_SNAPPY_USE_SYSTEMLIB = None"
    "sys_props (machine_of demo_loader) KEY_SNAPPY_DISABLE_BUNDLED_LIBS = None"
    "getNativeLibFolderPathForCurrentOS (machine_of demo_loader) = Inr ''Linux/x86_64''"
    unfolding demo_loader_fields(3) using demo_properties(1,2) demo_folder(3) by simp_all
  show ?thesis
    using bundled_library_loaded [OF c(4) demo_loader_fields(1) c(5) m(1,2) c(1) m(3) c(2) r] unfolding demo_loader_fields(2)
    by blast
qed

section \<open>First use\<close>

lemma loadNativeLibrary_errors:
  assumes "loadNativeLibrary H s = (Inl e, s')"
  shows "e = SnappyErrorExc FAILED_TO_LOAD_NATIVE_LIBRARY \<or> e = UnsatisfiedLinkError"
    and "\<not> isLoaded s" and "isLoaded s' = isLoaded s" and "loads s' = loads s"
proof -
  have n: "\<not> isLoaded s" using assms by (auto simp: loadNativeLibrary_cases)
  obtain x t where x: "load_found H s = (Inl x, t)"
    "e = (if is_Exception x then SnappyErrorExc FAILED_TO_LOAD_NATIVE_LIBRARY else x)" "s' = t"
    using assms n by (auto simp: loadNativeLibrary_cases split: prod.splits sum.splits)
  obtain r u where r: "findNativeLibrary H s = (r, u)" by fastforce
  have "known x"
  proof (cases r)
    case (Inl y)
    then show ?thesis using x(1) r quiets_known [OF quiets_find, of H s y u] by (simp add: load_found_def bindS_def)
  next
    case (Inr f)
    then show ?thesis using x(1) r
      by (auto simp: load_found_def bindS_def modifyS_def system_load_def system_loadLibrary_def getS_def throwS_def
          split: option.splits if_splits)
  qed
  then show "e = SnappyErrorExc FAILED_TO_LOAD_NATIVE_LIBRARY \<or> e = UnsatisfiedLinkError" using x(2) by (auto simp: known_def)
  show "\<not> isLoaded s" "isLoaded s' = isLoaded s" "loads s' = loads s"
    using n load_found_failed [OF x(1)] x(3) by simp_all
qed

text \<open>
  The first use of \<open>Snappy\<close> fails with one of two errors, \<open>SnappyError\<close> or \<open>UnsatisfiedLinkError\<close>, and
  then nothing has been loaded. The \<open>ExceptionInInitializerError\<close> that the documentation of the class
  announces is never thrown: the clause that makes it catches exceptions only, and none arrives.
\<close>

theorem init_throws_errors:
  assumes "s_init H s = (Inl e, s')"
  shows "e \<in> {SnappyErrorExc FAILED_TO_LOAD_NATIVE_LIBRARY, UnsatisfiedLinkError}
    \<and> isLoaded s' = isLoaded s \<and> loads s' = loads s"
proof -
  obtain x where x: "loadSnappyApi H s = (Inl x, s')" "e = (if is_Exception x then ExceptionInInitializerError else x)"
    using assms by (auto simp: s_init_def split: prod.splits sum.splits)
  then have l: "loadNativeLibrary H s = (Inl x, s')"
    by (auto simp: loadSnappyApi_def op_simps split: option.splits prod.splits sum.splits)
  show ?thesis using loadNativeLibrary_errors(1,3,4) [OF l] x(2) by auto
qed

lemma configured_same:
  "configured_library (H\<lparr>loadable := ld\<rparr>) s = configured_library H s"
  "configured_library (H\<lparr>installed := ins\<rparr>) s = configured_library H s"
  "configured_library H (s\<lparr>loads := ls, snappyApi := a\<rparr>) = configured_library H s"
  by (simp_all add: configured_library_def library_name_def Let_def cong: option.case_cong)

theorem init_throws_errors_witness:
  "\<exists>t. s_init (demo_host\<lparr>loadable := (\<lambda>_. False)\<rparr>) user_loader = (Inl UnsatisfiedLinkError, t) \<and> loads t = []"
proof -
  let ?H = "demo_host\<lparr>loadable := (\<lambda>_. False)\<rparr>"
  have "configured_library ?H user_loader = Some ''/opt/libsnappyjava.so''"
    unfolding configured_same by (rule demo_properties(9))
  then have "findNativeLibrary ?H user_loader = (Inr (Some ''/opt/libsnappyjava.so''), user_loader)"
    by (simp add: findNativeLibrary_def op_simps Let_def parseBoolean_def demo_properties(7,8))
  then have "\<exists>t. s_init ?H user_loader = (Inl UnsatisfiedLinkError, t)"
    by (simp add: s_init_def loadSnappyApi_native loadNativeLibrary_cases load_found_def op_simps system_load_def demo_loader_fields(4-6))
  then obtain t where t: "s_init ?H user_loader = (Inl UnsatisfiedLinkError, t)" by blast
  have "loads user_loader = []" by (simp add: user_loader_def demo_loader_def)
  with init_throws_errors [OF t] t show ?thesis by auto
qed

section \<open>The OSGi activator\<close>

text \<open>
  C36: Starting the OSGi bundle loads the library without telling the loader, so the next request for the
  bit-shuffling interface searches and loads a library again.
\<close>

theorem activator_loads_twice:
  assumes "\<not> isLoaded s" and "\<not> bitshuffleApi s"
    and "activator_start H s = (Inr (), t)" and "loadBitShuffleApi H t = (Inr (), u)"
  shows "loadSnappyApi H t = (Inr SnappyNative, t)
    \<and> (\<exists>l. loads u = [l, NamedLibrary (activator_library H s)] @ loads s)"
proof -
  have t: "t = s\<lparr>loads := NamedLibrary (activator_library H s) # loads s, snappyApi := Some SnappyNative\<rparr>"
    using assms(3) by (auto simp: activator_start_def system_loadLibrary_def setSnappyApi_def op_simps split: if_splits)
  have "\<not> isLoaded t" "\<not> bitshuffleApi t" using assms(1,2) by (simp_all add: t)
  then obtain v where v: "load_found H t = (Inr (), v)" "loads u = loads v"
    using assms(4) by (auto simp: loadBitShuffleApi_def loadNativeLibrary_cases op_simps split: prod.splits sum.splits)
  have "\<exists>l. loads v = l # loads t" by (rule load_found_loaded [OF v(1)]) (auto split: option.splits)
  then show ?thesis by (simp add: v(2) t loadSnappyApi_def op_simps)
qed

theorem activator_loads_twice_witness:
  "\<exists>t u. activator_start (demo_host\<lparr>installed := (\<lambda>_. True)\<rparr>) user_loader = (Inr (), t)
    \<and> loadBitShuffleApi (demo_host\<lparr>installed := (\<lambda>_. True)\<rparr>) t = (Inr (), u) \<and> length (loads u) = 2"
proof -
  let ?H = "demo_host\<lparr>installed := (\<lambda>_. True)\<rparr>"
  obtain t where t: "activator_start ?H user_loader = (Inr (), t)"
    "t = user_loader\<lparr>loads := NamedLibrary (activator_library ?H user_loader) # loads user_loader, snappyApi := Some SnappyNative\<rparr>"
    by (simp add: activator_start_def system_loadLibrary_def setSnappyApi_def op_simps demo_host_def)
  have c: "configured_library ?H t = Some ''/opt/libsnappyjava.so''"
    unfolding t(2) configured_same by (rule demo_properties(9))
  then have f: "findNativeLibrary ?H t = (Inr (Some ''/opt/libsnappyjava.so''), t)"
    using demo_properties(7,8) by (simp add: findNativeLibrary_def op_simps Let_def parseBoolean_def t(2))
  have n: "\<not> isLoaded user_loader" "\<not> bitshuffleApi user_loader" "loads user_loader = []"
    by (simp_all add: user_loader_def demo_loader_def)
  have "\<exists>u. loadBitShuffleApi ?H t = (Inr (), u)"
    using n(1,2) f demo_loader_fields(6)
    by (simp add: loadBitShuffleApi_native loadNativeLibrary_cases load_found_def op_simps system_load_def t(2) demo_host_def)
  then obtain u where u: "loadBitShuffleApi ?H t = (Inr (), u)" by blast
  have "\<exists>l. loads u = [l, NamedLibrary (activator_library ?H user_loader)]"
    using activator_loads_twice [OF n(1,2) t(1) u] unfolding n(3) by simp
  with t(1) u show ?thesis by auto
qed

end
