(* ===== verification/Loader_Failures.thy ===== *)
theory Loader_Failures
  imports Loader_Props
begin

text \<open>
  What becomes of a failing operation of the file system while the bundled library is extracted:
  \<open>reports\<close> says that an operation ends with an \<open>IOException\<close> whenever one of the operations it performs
  fails, also in its clean-up, and the extraction turns that exception into null.
\<close>

section \<open>Operations that report failures\<close>

text \<open>One of the operations performed between two states failed.\<close>

definition io_failed :: "host \<Rightarrow> loader \<Rightarrow> loader \<Rightarrow> bool" where
  "io_failed H s t \<longleftrightarrow> (\<exists>k. io_calls s \<le> k \<and> k < io_calls t \<and> io_fail H k)"

definition reports :: "host \<Rightarrow> 'a loading \<Rightarrow> bool" where
  "reports H m \<longleftrightarrow> (\<forall>s. io_calls s \<le> io_calls (snd (m s))
     \<and> (io_failed H s (snd (m s)) \<longrightarrow> (\<exists>e. fst (m s) = Inl e \<and> is_IOException e)))"

named_theorems report_rules \<open>operations that report failures\<close>

lemma reportsI:
  "(\<And>s r t. m s = (r, t) \<Longrightarrow> io_calls s \<le> io_calls t \<and> (io_failed H s t \<longrightarrow> (\<exists>e. r = Inl e \<and> is_IOException e)))
    \<Longrightarrow> reports H m"
  by (simp add: reports_def prod_eq_iff)

lemma reportsD:
  assumes "reports H m" and "m s = (r, t)"
  shows "io_calls s \<le> io_calls t" and "io_failed H s t \<Longrightarrow> \<exists>e. r = Inl e \<and> is_IOException e"
  using assms unfolding reports_def by (metis fst_conv snd_conv)+

lemma io_failed_split:
  "io_calls s \<le> io_calls t \<Longrightarrow> io_calls t \<le> io_calls u \<Longrightarrow> io_failed H s u \<longleftrightarrow> io_failed H s t \<or> io_failed H t u"
  unfolding io_failed_def by (meson le_trans less_le_trans not_le)

lemma io_failed_same: "\<not> io_failed H s s"
  by (simp add: io_failed_def)

lemma reports_bind [report_rules]:
  assumes m: "reports H m" and f: "\<And>x. reports H (f x)"
  shows "reports H (bindS m f)"
proof (rule reportsI)
  fix s r u assume e: "bindS m f s = (r, u)"
  obtain q t where q: "m s = (q, t)" by fastforce
  note t = reportsD [OF m q]
  show "io_calls s \<le> io_calls u \<and> (io_failed H s u \<longrightarrow> (\<exists>e. r = Inl e \<and> is_IOException e))"
  proof (cases q)
    case (Inl x)
    then show ?thesis using e q t by (auto simp: bindS_def)
  next
    case (Inr x)
    then have x: "f x t = (r, u)" using e q by (simp add: bindS_def)
    note u = reportsD [OF f x]
    show ?thesis using t u io_failed_split [OF t(1) u(1), of H] Inr by auto
  qed
qed

text \<open>What the \<open>finally\<close> block throws replaces what the body threw; it should be an \<open>IOException\<close>.\<close>

definition throws_io :: "(loader, exc, 'a) op \<Rightarrow> bool" where
  "throws_io f \<longleftrightarrow> (\<forall>s e. fst (f s) = Inl e \<longrightarrow> is_IOException e)"

lemma throws_io_simps [report_rules]: "throws_io (io H)" "throws_io (register g)"
  by (auto simp: throws_io_def io_def register_def modifyS_def)

lemma throws_io_bind [report_rules]: "throws_io m \<Longrightarrow> (\<And>x. throws_io (f x)) \<Longrightarrow> throws_io (bindS m f)"
  unfolding throws_io_def bindS_def by (auto split: prod.splits sum.splits) (metis fst_conv)+

lemma reports_try [report_rules]:
  assumes m: "reports H m" and f: "reports H f" "throws_io f"
  shows "reports H (tryS m f)"
proof (rule reportsI)
  fix s r v assume e: "tryS m f s = (r, v)"
  obtain q t where q: "m s = (q, t)" by fastforce
  obtain p u where p: "f t = (p, u)" by fastforce
  note t = reportsD [OF m q] and u = reportsD [OF f(1) p]
  have v: "v = u" "r = (case p of Inl e \<Rightarrow> Inl e | Inr _ \<Rightarrow> q)" using e q p by (auto simp: tryS_def split: sum.splits)
  have x: "is_IOException e" if "p = Inl e" for e using f(2) p that unfolding throws_io_def by (metis fst_conv)
  show "io_calls s \<le> io_calls v \<and> (io_failed H s v \<longrightarrow> (\<exists>e. r = Inl e \<and> is_IOException e))"
    using t u x io_failed_split [OF t(1) u(1), of H] v by (cases p) auto
qed

lemma reports_idle [report_rules]:
  "reports H (returnS x)" "reports H (throwS e)" "reports H (liftE q)" "reports H (register f)"
  by (simp_all add: reports_def op_simps io_failed_same register_def) (simp add: io_failed_def)

lemma reports_get [report_rules]: "(\<And>s. reports H (h s)) \<Longrightarrow> reports H (getS h)"
  by (simp add: reports_def getS_def)

lemma reports_modify [report_rules]: "(\<And>s. io_calls (m s) = io_calls s) \<Longrightarrow> reports H (modifyS m)"
  by (simp add: reports_def modifyS_def io_failed_def)

lemma reports_io [report_rules]: "reports H (io H)"
  by (auto simp: reports_def io_def io_failed_def less_Suc_eq_le)

text \<open>A \<open>catch\<close> that throws an \<open>IOException\<close> when it gets one.\<close>

lemma reports_case:
  assumes m: "reports H m" and h: "\<And>x. reports H (h x)"
    and g: "\<And>e. reports H (g e)" "\<And>e s. is_IOException e \<Longrightarrow> \<exists>e'. fst (g e s) = Inl e' \<and> is_IOException e'"
  shows "reports H (\<lambda>s. case m s of (Inl e, s1) \<Rightarrow> g e s1 | (Inr x, s1) \<Rightarrow> h x s1)"
proof (rule reportsI)
  fix s r u assume e: "(case m s of (Inl e, s1) \<Rightarrow> g e s1 | (Inr x, s1) \<Rightarrow> h x s1) = (r, u)"
  obtain q t where q: "m s = (q, t)" by fastforce
  note t = reportsD [OF m q]
  show "io_calls s \<le> io_calls u \<and> (io_failed H s u \<longrightarrow> (\<exists>e. r = Inl e \<and> is_IOException e))"
  proof (cases q)
    case (Inl x)
    then have x: "g x t = (r, u)" using e q by simp
    note u = reportsD [OF g(1) x]
    have "\<exists>e'. r = Inl e' \<and> is_IOException e'" if "is_IOException x" using g(2) [OF that, of t] x by simp
    then show ?thesis using t u io_failed_split [OF t(1) u(1), of H] Inl by auto
  next
    case (Inr x)
    then have x: "h x t = (r, u)" using e q by simp
    note u = reportsD [OF h x]
    show ?thesis using t u io_failed_split [OF t(1) u(1), of H] Inr by auto
  qed
qed

lemma tryS_throws: "is_IOException e \<Longrightarrow> throws_io f \<Longrightarrow> \<exists>e'. fst (tryS (throwS e) f s) = Inl e' \<and> is_IOException e'"
  unfolding throws_io_def by (auto simp: tryS_def throwS_def split: prod.splits sum.splits) (metis fst_conv)

section \<open>Extraction\<close>

lemma reports_files [report_rules]: "reports H (create_file H f)" "reports H (write_file H f b)"
  unfolding create_file_def write_file_def by ((intro report_rules; simp)+)

lemma reports_resource [report_rules]: "reports H (getResourceAsInputStream H path)"
  unfolding getResourceAsInputStream_def by (cases "resources H path") (simp_all add: report_rules)

lemma reports_copy [report_rules]: "reports H (copy_loop H f reader)"
proof (induction "length (src_data reader)" arbitrary: reader rule: less_induct)
  case less
  obtain b reader' where b: "source_read 8192 reader = (b, reader')" by fastforce
  define rest where "rest = (case b of None \<Rightarrow> returnS () | Some x \<Rightarrow> bindS (write_file H f x) (\<lambda>_. copy_loop H f reader'))"
  have "copy_loop H f reader = bindS (io H) (\<lambda>_. rest)"
    by (rule ext, subst copy_loop.simps)
      (cases b; simp add: rest_def b bindS_def returnS_def split: prod.splits sum.splits)
  moreover have "reports H rest"
  proof (cases b)
    case (Some x)
    then have "length (src_data reader') < length (src_data reader)" using source_read_Some [of 8192 reader x reader'] b by simp
    then show ?thesis unfolding rest_def Some by (simp add: report_rules less)
  qed (simp add: rest_def report_rules)
  ultimately show ?case by (simp add: report_rules)
qed

lemma reports_extract_copy [report_rules]: "reports H (extract_copy H path f)"
  unfolding extract_copy_def
  by (intro reports_case report_rules tryS_throws)

lemma reports_verify [report_rules]: "reports H (verify_copy H path f)"
proof -
  have r: "reports H (bindS (io H) (\<lambda>_. getS (\<lambda>s. case files s f of
      None \<Rightarrow> throwS (IOException ''FileNotFoundException'') | Some d \<Rightarrow> returnS d)))"
    by (intro report_rules) (simp add: report_rules split: option.splits)
  have c: "reports H (if b then returnS () else throwS (SnappyErrorExc FAILED_TO_LOAD_NATIVE_LIBRARY))" for b
    by (simp add: report_rules)
  have t: "is_IOException e \<Longrightarrow> \<exists>e'. fst (Inl e, s) = Inl e' \<and> is_IOException e'" for e and s :: loader by simp
  have p: "reports H (Pair (Inl e))" for e by (simp add: reports_def io_failed_same)
  show ?thesis unfolding verify_copy_def by (intro reports_case [OF _ _ p t] reports_case r report_rules c tryS_throws)
qed

text \<open>An extraction in which an operation fails returns null.\<close>

lemma extractLibraryFile_failed:
  assumes "io_failed H (snd (getVersion H s)) (snd (extractLibraryFile H folder name temp s))"
  shows "fst (extractLibraryFile H folder name temp s) = Inr None"
proof -
  obtain v t where v: "getVersion H s = (Inr v, t)"
    by (cases "getVersion H s")
      (auto simp: getVersion_def Let_def split: option.splits prod.splits sum.splits)
  define m where "m = (\<lambda>p g. bindS (extract_copy H p g) (\<lambda>_. bindS (verify_copy H p g) (\<lambda>_. returnS (Some g))))"
  have m: "reports H (m p g)" for p g unfolding m_def by (intro report_rules)
  obtain p g where e: "extractLibraryFile H folder name temp s = catch_io (m p g) t"
    by (simp add: extractLibraryFile_def getS_def bindS_def [of "getVersion H"] v Let_def m_def)
  obtain r u where u: "m p g t = (r, u)" by fastforce
  have "snd (catch_io (m p g) t) = u" using u by (simp add: catch_io_def split: sum.splits)
  then have "io_failed H t u" using assms e v by simp
  then show ?thesis using reportsD(2) [OF m u] u e by (auto simp: catch_io_def)
qed

section \<open>The failure and its consequence\<close>

text \<open>
  C35: When any operation of the file system fails while the bundled library is extracted (opening the
  resource, creating the file, reading or writing a portion, closing either, reading the copy back),
  \<open>extractLibraryFile\<close> returns null, which \<open>loadNativeLibrary\<close> takes for the request to use an installed
  library: the failure is not reported, and whatever library of that name the system has is loaded instead.
\<close>

theorem extraction_failure_loads_installed:
  assumes "\<not> isLoaded s" and "sys_props (machine_of s) KEY_SNAPPY_USE_SYSTEMLIB = None"
    and "sys_props (machine_of s) KEY_SNAPPY_DISABLE_BUNDLED_LIBS = None" and "configured_library H s = None"
    and "getNativeLibFolderPathForCurrentOS (machine_of s) = Inr path" and "temp_folder s = Inr temp"
    and "resources H (''/org/xerial/snappy/native/'' @ path @ ''/'' @ library_name H s) = Some d"
    and "extractLibraryFile H (''/org/xerial/snappy/native/'' @ path) (library_name H s) temp s = (r, u)"
    and "io_calls (snd (getVersion H s)) \<le> k" and "k < io_calls u" and "io_fail H k"
  shows "\<exists>t. loadNativeLibrary H s = (if installed H ''snappyjava'' then Inr () else Inl UnsatisfiedLinkError, t)
    \<and> loads t = (if installed H ''snappyjava'' then [NamedLibrary ''snappyjava''] else []) @ loads s"
proof -
  obtain os where os: "getOSName (machine_of s) = Inr os"
    using assms(5) by (auto simp: getNativeLibFolderPathForCurrentOS_def bindE_Inr_iff)
  have "io_failed H (snd (getVersion H s)) u" using assms(9-11) by (auto simp: io_failed_def)
  then have r: "r = Inr None"
    using extractLibraryFile_failed [of H s "''/org/xerial/snappy/native/'' @ path" "library_name H s" temp] assms(8) by simp
  have f: "findNativeLibrary H s = (Inr None, u)"
    using assms(2-8) os r
    by (simp add: findNativeLibrary_def op_simps Let_def parseBoolean_def bundled_library_def hasResource_def)
  have q: "loads u = loads s" using quietsD [OF quiets_find f] by (simp add: quiet_def)
  then show ?thesis using assms(1)
    by (auto simp: loadNativeLibrary_cases load_found_def f op_simps system_loadLibrary_def)
qed

text \<open>The resource is opened and the file created, the first portion is read and its write fails.\<close>

theorem extraction_failure_loads_installed_witness:
  "\<exists>t. loadNativeLibrary (demo_host\<lparr>io_fail := (\<lambda>k. k = 3)\<rparr>) demo_loader = (Inr (), t) \<and> loads t = [NamedLibrary ''snappyjava'']"
proof -
  let ?H = "demo_host\<lparr>io_fail := (\<lambda>k. k = 3)\<rparr>"
  have c: "configured_library ?H demo_loader = None" "temp_folder demo_loader = Inr ''/tmp''"
    "library_name ?H demo_loader = ''libsnappyjava.so''"
    by (simp_all add: configured_library_def temp_folder_def library_name_def demo_loader_fields(3) demo_properties
        get_property_def demo_host_def)
  obtain r u where u: "extractLibraryFile ?H (''/org/xerial/snappy/native/'' @ ''Linux/x86_64'') ''libsnappyjava.so'' ''/tmp'' demo_loader
      = (r, u)" by fastforce
  then have n: "io_calls u = 6"
    by (auto simp: extractLibraryFile_def getVersion_def catch_io_def extract_copy_def getResourceAsInputStream_def op_simps
        Let_def io_def tryS_def register_def create_file_def copy_loop.simps write_file_def source_read_def
        demo_host_def demo_loader_def split: prod.splits)
  have v: "io_calls (snd (getVersion ?H demo_loader)) \<le> 3"
    by (simp add: getVersion_def demo_host_def demo_loader_def)
  show ?thesis
    using extraction_failure_loads_installed [of demo_loader ?H "''Linux/x86_64''" "''/tmp''" "[1, 2, 3]" r u 3]
      c u n v demo_loader_fields(1-3) demo_properties(1,2) demo_folder(3) by (simp add: demo_host_def)
qed

end
