(* ===== verification/Snappy_Strings.thy ===== *)
theory Snappy_Strings
  imports Api_Props
begin

text \<open>
  \<open>Snappy.java\<close>, the methods on strings, and those that only pass their arguments on. A Java string is a
  list of 16-bit code units. Which character sets there are and what they do is the environment's; UTF-8,
  which every Java platform has, is written out for the strings and byte sequences that are well formed,
  and left open for the others.
\<close>

type_synonym jstring = "16 word list"

section \<open>UTF-8\<close>

definition high_surrogate :: "16 word \<Rightarrow> bool" where
  "high_surrogate c \<longleftrightarrow> 0xD800 \<le> uint c \<and> uint c < 0xDC00"

definition low_surrogate :: "16 word \<Rightarrow> bool" where
  "low_surrogate c \<longleftrightarrow> 0xDC00 \<le> uint c \<and> uint c < 0xE000"

definition utf8_point :: "int \<Rightarrow> bytes" where
  "utf8_point n =
     (if n < 0x80 then [word_of_int n]
      else if n < 0x800 then [word_of_int (0xC0 + n div 64), word_of_int (0x80 + n mod 64)]
      else if n < 0x10000 then
        [word_of_int (0xE0 + n div 4096), word_of_int (0x80 + n div 64 mod 64), word_of_int (0x80 + n mod 64)]
      else
        [word_of_int (0xF0 + n div 262144), word_of_int (0x80 + n div 4096 mod 64),
         word_of_int (0x80 + n div 64 mod 64), word_of_int (0x80 + n mod 64)])"

text \<open>\<open>None\<close>: a surrogate without its partner.\<close>

fun utf8_encode :: "jstring \<Rightarrow> bytes option" where
  "utf8_encode [] = Some []"
| "utf8_encode (c # s) =
     (if high_surrogate c then
        (case s of
           [] \<Rightarrow> None
         | d # s' \<Rightarrow>
             if low_surrogate d then
               map_option ((@) (utf8_point (0x10000 + (uint c - 0xD800) * 1024 + (uint d - 0xDC00)))) (utf8_encode s')
             else None)
      else if low_surrogate c then None
      else map_option ((@) (utf8_point (uint c))) (utf8_encode s))"

definition continuation :: "byte \<Rightarrow> bool" where
  "continuation b \<longleftrightarrow> 0x80 \<le> uint b \<and> uint b < 0xC0"

text \<open>\<open>None\<close>: not a shortest encoding of Unicode scalar values.\<close>

fun utf8_decode :: "bytes \<Rightarrow> jstring option" where
  "utf8_decode [] = Some []"
| "utf8_decode (b # bs) =
     (if uint b < 0x80 then map_option (Cons (word_of_int (uint b))) (utf8_decode bs)
      else if 0xC0 \<le> uint b \<and> uint b < 0xE0 then
        (case bs of
           b1 # r \<Rightarrow>
             let n = (uint b - 0xC0) * 64 + (uint b1 - 0x80) in
             if continuation b1 \<and> 0x80 \<le> n then map_option (Cons (word_of_int n)) (utf8_decode r) else None
         | _ \<Rightarrow> None)
      else if 0xE0 \<le> uint b \<and> uint b < 0xF0 then
        (case bs of
           b1 # b2 # r \<Rightarrow>
             let n = (uint b - 0xE0) * 4096 + (uint b1 - 0x80) * 64 + (uint b2 - 0x80) in
             if continuation b1 \<and> continuation b2 \<and> 0x800 \<le> n \<and> \<not> (0xD800 \<le> n \<and> n < 0xE000)
             then map_option (Cons (word_of_int n)) (utf8_decode r) else None
         | _ \<Rightarrow> None)
      else if 0xF0 \<le> uint b \<and> uint b < 0xF8 then
        (case bs of
           b1 # b2 # b3 # r \<Rightarrow>
             let n = (uint b - 0xF0) * 262144 + (uint b1 - 0x80) * 4096 + (uint b2 - 0x80) * 64 + (uint b3 - 0x80) in
             if continuation b1 \<and> continuation b2 \<and> continuation b3 \<and> 0x10000 \<le> n \<and> n < 0x110000
             then map_option (\<lambda>s. word_of_int (0xD800 + (n - 0x10000) div 1024) # word_of_int (0xDC00 + (n - 0x10000) mod 1024) # s)
                    (utf8_decode r)
             else None
         | _ \<Rightarrow> None)
      else None)"

declare utf8_decode.simps(2) [simp del]

lemma byte_value: "0 \<le> n \<Longrightarrow> n < 256 \<Longrightarrow> uint (word_of_int n :: byte) = n"
  by (simp add: uint_word_of_int)

lemma unit_value: "word_of_int (uint (c :: 16 word)) = c" "0 \<le> uint c" "uint c < 65536"
  using uint_bounded [of c] by simp_all

lemma decode_point_1: "0 \<le> n \<Longrightarrow> n < 0x80 \<Longrightarrow>
    utf8_decode (utf8_point n @ r) = map_option (Cons (word_of_int n)) (utf8_decode r)"
  by (simp add: utf8_point_def utf8_decode.simps(2) byte_value)

text \<open>The sextets of a number.\<close>

lemma sextet: "0 \<le> n mod 64" "n mod 64 < 64" "n div 64 * 64 + n mod 64 = n" for n :: int
  by simp_all

lemma quotients: "n div 4096 = n div 64 div 64" "n div 262144 = n div 64 div 64 div 64" for n :: int
  using zdiv_zmult2_eq [of 64 n 64] zdiv_zmult2_eq [of 4096 n 64] zdiv_zmult2_eq [of 64 "n div 64" 64] by simp_all

lemma decode_point_2: "0x80 \<le> n \<Longrightarrow> n < 0x800 \<Longrightarrow>
    utf8_decode (utf8_point n @ r) = map_option (Cons (word_of_int n)) (utf8_decode r)"
proof -
  assume n: "0x80 \<le> n" "n < 0x800"
  define a where "a = n div 64" define b where "b = n mod 64"
  have p: "utf8_point n = [word_of_int (0xC0 + a), word_of_int (0x80 + b)]" using n by (simp add: utf8_point_def a_def b_def)
  have b: "0 \<le> b" "b < 64" "a * 64 + b = n" unfolding a_def b_def by (rule sextet)+
  have a: "2 \<le> a" "a < 32" using b n by linarith+
  have v: "uint (word_of_int (0xC0 + a) :: byte) = 0xC0 + a" "uint (word_of_int (0x80 + b) :: byte) = 0x80 + b"
    by (rule byte_value; use a b in linarith)+
  show ?thesis using a b n unfolding p by (simp add: utf8_decode.simps(2) v continuation_def del: of_int_add)
qed

lemma decode_point_3: "0x800 \<le> n \<Longrightarrow> n < 0x10000 \<Longrightarrow> \<not> (0xD800 \<le> n \<and> n < 0xE000) \<Longrightarrow>
    utf8_decode (utf8_point n @ r) = map_option (Cons (word_of_int n)) (utf8_decode r)"
proof -
  assume n: "0x800 \<le> n" "n < 0x10000" "\<not> (0xD800 \<le> n \<and> n < 0xE000)"
  define q where "q = n div 64" define c where "c = n mod 64" define a where "a = q div 64" define b where "b = q mod 64"
  have p: "utf8_point n = [word_of_int (0xE0 + a), word_of_int (0x80 + b), word_of_int (0x80 + c)]"
    using n by (simp add: utf8_point_def a_def b_def c_def q_def quotients)
  have c: "0 \<le> c" "c < 64" "q * 64 + c = n" unfolding q_def c_def by (rule sextet)+
  have b: "0 \<le> b" "b < 64" "a * 64 + b = q" unfolding a_def b_def by (rule sextet)+
  have a: "0 \<le> a" "a < 16" using b c n by linarith+
  have v: "uint (word_of_int (0xE0 + a) :: byte) = 0xE0 + a" "uint (word_of_int (0x80 + b) :: byte) = 0x80 + b"
    "uint (word_of_int (0x80 + c) :: byte) = 0x80 + c"
    by (rule byte_value; use a b c in linarith)+
  have e: "a * 4096 + (b * 64 + c) = n" "a * 4096 + b * 64 + c = n" using b c by linarith+
  show ?thesis using a b(1,2) c(1,2) n unfolding p by (simp add: utf8_decode.simps(2) v continuation_def e del: of_int_add)
qed

lemma decode_point_4: "0x10000 \<le> n \<Longrightarrow> n < 0x110000 \<Longrightarrow>
    utf8_decode (utf8_point n @ r) = map_option (\<lambda>s. word_of_int (0xD800 + (n - 0x10000) div 1024)
      # word_of_int (0xDC00 + (n - 0x10000) mod 1024) # s) (utf8_decode r)"
proof -
  assume n: "0x10000 \<le> n" "n < 0x110000"
  define q where "q = n div 64" define d where "d = n mod 64" define m where "m = q div 64" define c where "c = q mod 64"
  define a where "a = m div 64" define b where "b = m mod 64"
  have p: "utf8_point n = [word_of_int (0xF0 + a), word_of_int (0x80 + b), word_of_int (0x80 + c), word_of_int (0x80 + d)]"
    using n by (simp add: utf8_point_def a_def b_def c_def d_def q_def m_def quotients)
  have d: "0 \<le> d" "d < 64" "q * 64 + d = n" unfolding q_def d_def by (rule sextet)+
  have c: "0 \<le> c" "c < 64" "m * 64 + c = q" unfolding m_def c_def by (rule sextet)+
  have b: "0 \<le> b" "b < 64" "a * 64 + b = m" unfolding a_def b_def by (rule sextet)+
  have a: "0 \<le> a" "a < 5" using b c d n by linarith+
  have v: "uint (word_of_int (0xF0 + a) :: byte) = 0xF0 + a" "uint (word_of_int (0x80 + b) :: byte) = 0x80 + b"
    "uint (word_of_int (0x80 + c) :: byte) = 0x80 + c" "uint (word_of_int (0x80 + d) :: byte) = 0x80 + d"
    by (rule byte_value; use a b c d in linarith)+
  have e: "a * 262144 + (b * 4096 + (c * 64 + d)) = n" using b c d by linarith
  show ?thesis using a b(1,2) c(1,2) d(1,2) n unfolding p
    by (simp add: utf8_decode.simps(2) v continuation_def e Let_def del: of_int_add)
qed

lemma surrogate_halves: "0 \<le> y \<Longrightarrow> y < 1024 \<Longrightarrow> (x * 1024 + y) div 1024 = x \<and> (x * 1024 + y) mod 1024 = y" for x :: int
  by simp

text \<open>Decoding inverts encoding.\<close>

lemma utf8_roundtrip: "utf8_encode s = Some b \<Longrightarrow> utf8_decode b = Some s"
proof (induction s arbitrary: b rule: utf8_encode.induct)
  case 1
  then show ?case by simp
next
  case (2 c s)
  note u = unit_value(2,3) [of c]
  show ?case
  proof (cases "high_surrogate c")
    case True
    then obtain d s' b' where d: "s = d # s'" "low_surrogate d" "utf8_encode s' = Some b'"
      and b: "b = utf8_point (0x10000 + (uint c - 0xD800) * 1024 + (uint d - 0xDC00)) @ b'"
      using "2.prems" by (auto split: list.splits if_splits)
    define n where "n = 0x10000 + (uint c - 0xD800) * 1024 + (uint d - 0xDC00)"
    define x where "x = uint c - 0xD800" define y where "y = uint d - 0xDC00"
    have xy: "0 \<le> x" "x < 1024" "0 \<le> y" "y < 1024"
      using True d(2) by (auto simp: x_def y_def high_surrogate_def low_surrogate_def)
    have nx: "n = 0x10000 + (x * 1024 + y)" by (simp add: n_def x_def y_def)
    have n: "0x10000 \<le> n" "n < 0x110000" using xy nx by linarith+
    have n34: "0xD800 + (n - 0x10000) div 1024 = uint c" "0xDC00 + (n - 0x10000) mod 1024 = uint d"
      using surrogate_halves [OF xy(3,4), of x] by (simp_all add: nx) (simp_all add: x_def y_def)
    have "utf8_decode b' = Some s'" using "2.IH"(1) [OF True d(1,2,3)] .
    then show ?thesis unfolding b n_def [symmetric] decode_point_4 [OF n] n34 by (simp add: d(1))
  next
    case False
    then obtain b' where b: "\<not> low_surrogate c" "utf8_encode s = Some b'" "b = utf8_point (uint c) @ b'"
      using "2.prems" by (auto split: if_splits)
    have IH: "utf8_decode b' = Some s" using "2.IH"(2) [OF False b(1,2)] .
    have "\<not> (0xD800 \<le> uint c \<and> uint c < 0xE000)" using False b(1) by (auto simp: high_surrogate_def low_surrogate_def)
    then have "utf8_decode b = map_option (Cons (word_of_int (uint c))) (utf8_decode b')"
      unfolding b(3) using u decode_point_1 decode_point_2 decode_point_3 by (metis not_le)
    then show ?thesis by (simp add: IH)
  qed
qed

lemma utf8_point_length: "length (utf8_point n) \<le> 4" "n < 0x10000 \<Longrightarrow> length (utf8_point n) \<le> 3"
  by (simp_all add: utf8_point_def)

text \<open>A code unit takes three bytes at most.\<close>

lemma utf8_length: "utf8_encode s = Some b \<Longrightarrow> length b \<le> 3 * length s"
proof (induction s arbitrary: b rule: utf8_encode.induct)
  case 1
  then show ?case by simp
next
  case (2 c s)
  show ?case
  proof (cases "high_surrogate c")
    case True
    then obtain d s' b' n where d: "s = d # s'" "low_surrogate d" "utf8_encode s' = Some b'" and b: "b = utf8_point n @ b'"
      using "2.prems" by (auto split: list.splits if_splits)
    have "length b' \<le> 3 * length s'" using "2.IH"(1) [OF True d(1,2,3)] .
    then show ?thesis using utf8_point_length(1) [of n] by (simp add: b d(1))
  next
    case False
    then obtain b' where b: "\<not> low_surrogate c" "utf8_encode s = Some b'" "b = utf8_point (uint c) @ b'"
      using "2.prems" by (auto split: if_splits)
    have "length b' \<le> 3 * length s" using "2.IH"(2) [OF False b(1,2)] .
    then show ?thesis using utf8_point_length(2) [of "uint c"] unit_value(3) [of c] by (simp add: b(3))
  qed
qed

section \<open>Character sets\<close>

record charset =
  cs_encode :: "jstring \<Rightarrow> bytes"
  cs_decode :: "bytes \<Rightarrow> jstring"

type_synonym charsets = "string \<Rightarrow> charset option"

definition charset_named :: "charsets \<Rightarrow> string \<Rightarrow> charset result" where
  "charset_named css encoding = (case css encoding of None \<Rightarrow> Inl UnsupportedEncodingException | Some cs \<Rightarrow> Inr cs)"

definition is_utf8 :: "charset \<Rightarrow> bool" where
  "is_utf8 cs \<longleftrightarrow> (\<forall>s b. utf8_encode s = Some b \<longrightarrow> cs_encode cs s = b) \<and> (\<forall>b s. utf8_decode b = Some s \<longrightarrow> cs_decode cs b = s)"

section \<open>Compressing strings\<close>

definition s_compress_charset :: "snappy_lib \<Rightarrow> jstring \<Rightarrow> charset \<Rightarrow> bytes result" where
  "s_compress_charset lib s encoding = s_compress_bytes lib (cs_encode encoding s)"

definition s_compress_encoding :: "snappy_lib \<Rightarrow> charsets \<Rightarrow> jstring \<Rightarrow> string \<Rightarrow> bytes result" where
  "s_compress_encoding lib css s encoding =
     bindE (charset_named css encoding) (\<lambda>cs. s_compress_bytes lib (cs_encode cs s))"

text \<open>The clause for a missing UTF-8.\<close>

definition utf8_found :: "'a result \<Rightarrow> 'a result" where
  "utf8_found r = (case r of
     Inl e \<Rightarrow> Inl (if e = UnsupportedEncodingException then IllegalStateException else e) | Inr x \<Rightarrow> Inr x)"

definition s_compress_string :: "snappy_lib \<Rightarrow> charsets \<Rightarrow> jstring \<Rightarrow> bytes result" where
  "s_compress_string lib css s = utf8_found (s_compress_encoding lib css s ''UTF-8'')"

section \<open>Uncompressing strings\<close>

definition uncompress_range :: "snappy_lib \<Rightarrow> bytes \<Rightarrow> int \<Rightarrow> int \<Rightarrow> bytes result" where
  "uncompress_range lib input offset len =
     bindE (s_uncompressedLength lib (Some input) offset len) (\<lambda>n.
     bindE (new_array n) (\<lambda>uncompressed.
     case s_uncompress lib (Some input) offset len 0 (Some uncompressed) of
       (Inl e, _) \<Rightarrow> Inl e | (Inr _, uncompressed') \<Rightarrow> Inr (the uncompressed')))"

definition s_uncompressString_range_charset :: "snappy_lib \<Rightarrow> bytes \<Rightarrow> int \<Rightarrow> int \<Rightarrow> charset \<Rightarrow> jstring result" where
  "s_uncompressString_range_charset lib input offset len encoding =
     bindE (uncompress_range lib input offset len) (\<lambda>u. Inr (cs_decode encoding u))"

definition s_uncompressString_range_encoding ::
    "snappy_lib \<Rightarrow> charsets \<Rightarrow> bytes \<Rightarrow> int \<Rightarrow> int \<Rightarrow> string \<Rightarrow> jstring result" where
  "s_uncompressString_range_encoding lib css input offset len encoding =
     bindE (uncompress_range lib input offset len) (\<lambda>u.
     bindE (charset_named css encoding) (\<lambda>cs. Inr (cs_decode cs u)))"

definition s_uncompressString_range :: "snappy_lib \<Rightarrow> charsets \<Rightarrow> bytes \<Rightarrow> int \<Rightarrow> int \<Rightarrow> jstring result" where
  "s_uncompressString_range lib css input offset len =
     utf8_found (s_uncompressString_range_encoding lib css input offset len ''UTF-8'')"

definition s_uncompressString_charset :: "snappy_lib \<Rightarrow> bytes \<Rightarrow> charset \<Rightarrow> jstring result" where
  "s_uncompressString_charset lib input encoding =
     bindE (s_uncompress_bytes lib input) (\<lambda>u. Inr (cs_decode encoding u))"

definition s_uncompressString_encoding :: "snappy_lib \<Rightarrow> charsets \<Rightarrow> bytes \<Rightarrow> string \<Rightarrow> jstring result" where
  "s_uncompressString_encoding lib css input encoding =
     bindE (s_uncompress_bytes lib input) (\<lambda>u.
     bindE (charset_named css encoding) (\<lambda>cs. Inr (cs_decode cs u)))"

definition s_uncompressString :: "snappy_lib \<Rightarrow> charsets \<Rightarrow> bytes \<Rightarrow> jstring result" where
  "s_uncompressString lib css input = utf8_found (s_uncompressString_encoding lib css input ''UTF-8'')"

section \<open>Round trip\<close>

lemma uncompress_range_eq:
  assumes "lib_roundtrip lib" and "int (length x) \<le> int_max"
  shows "uncompress_range lib (xs @ compress_raw lib x @ zs) (int (length xs)) (int (length (compress_raw lib x))) = Inr x"
proof -
  define a where "a = xs @ compress_raw lib x @ zs"
  have r: "in_range (int (length xs)) (int (length (compress_raw lib x))) (length a)" by (simp add: in_range_def a_def)
  have s: "segment (int (length xs)) (int (length (compress_raw lib x))) a = compress_raw lib x"
    by (simp add: segment_def a_def)
  have l: "s_uncompressedLength lib (Some a) (int (length xs)) (int (length (compress_raw lib x))) = Inr (int (length x))"
    using impl_uncompressedLength_compressed [OF assms r s] by (simp add: s_uncompressedLength_def)
  have "impl_rawUncompress lib a (int (length xs)) (int (length (compress_raw lib x))) 0 (replicate (length x) 0)
      = (Inr (int (length x)), x)"
    using impl_rawUncompress_compressed [OF assms r s, of 0 "replicate (length x) 0"] by (simp add: in_range_def blit_def)
  then show ?thesis unfolding a_def [symmetric] by (simp add: uncompress_range_def l s_uncompress_def s_rawUncompress_def)
qed

text \<open>
  C31: Strings survive: every string of whole Unicode characters that is compressed in UTF-8, by any of the
  three forms of \<open>compress(String)\<close>, is given back by each of the six forms of \<open>uncompressString\<close>: of a whole
  array and of a range in the middle of a larger one, with no character set, with one or with its name.
\<close>

theorem string_roundtrip:
  assumes "lib_ok lib" and "css ''UTF-8'' = Some cs" and "is_utf8 cs" and "utf8_encode s = Some b"
    and "int (length b) \<le> int_max" and "int (max_compressed lib (length b)) \<le> int_max"
  shows "\<exists>y. s_compress_string lib css s = Inr y \<and> s_compress_charset lib s cs = Inr y
    \<and> s_compress_encoding lib css s ''UTF-8'' = Inr y
    \<and> s_uncompressString lib css y = Inr s \<and> s_uncompressString_charset lib y cs = Inr s
    \<and> s_uncompressString_encoding lib css y ''UTF-8'' = Inr s
    \<and> (\<forall>xs zs. s_uncompressString_range lib css (xs @ y @ zs) (int (length xs)) (int (length y)) = Inr s
        \<and> s_uncompressString_range_charset lib (xs @ y @ zs) (int (length xs)) (int (length y)) cs = Inr s
        \<and> s_uncompressString_range_encoding lib css (xs @ y @ zs) (int (length xs)) (int (length y)) ''UTF-8'' = Inr s)"
proof -
  have lib: "lib_roundtrip lib" "lib_space lib" using assms(1) by (simp_all add: lib_ok_def)
  have e: "cs_encode cs s = b" "cs_decode cs b = s"
    using assms(3,4) utf8_roundtrip [OF assms(4)] by (simp_all add: is_utf8_def)
  have c: "charset_named css ''UTF-8'' = Inr cs" using assms(2) by (simp add: charset_named_def)
  have y: "s_compress_bytes lib b = Inr (compress_raw lib b)" "s_uncompress_bytes lib (compress_raw lib b) = Inr b"
    using compress_bytes_eq [OF lib(2) assms(5,6)] uncompress_bytes_eq [OF lib(1) assms(5)] by simp_all
  show ?thesis
    by (rule exI [of _ "compress_raw lib b"])
      (simp add: s_compress_string_def s_compress_encoding_def s_compress_charset_def s_uncompressString_def
        s_uncompressString_encoding_def s_uncompressString_charset_def s_uncompressString_range_def
        s_uncompressString_range_encoding_def s_uncompressString_range_charset_def utf8_found_def c e y uncompress_range_eq [OF lib(1) assms(5)])
qed

definition demo_utf8 :: charset where
  "demo_utf8 = \<lparr>cs_encode = (\<lambda>s. case utf8_encode s of Some b \<Rightarrow> b | None \<Rightarrow> [63]),
     cs_decode = (\<lambda>b. case utf8_decode b of Some s \<Rightarrow> s | None \<Rightarrow> [0xFFFD])\<rparr>"

text \<open>A Latin letter, one with an accent, a currency sign and a character outside the basic plane.\<close>

theorem string_roundtrip_witness:
  "\<exists>y. s_compress_string stored_lib [''UTF-8'' \<mapsto> demo_utf8] [0x61, 0xE9, 0x20AC, 0xD83D, 0xDE00] = Inr y
    \<and> s_uncompressString stored_lib [''UTF-8'' \<mapsto> demo_utf8] y = Inr [0x61, 0xE9, 0x20AC, 0xD83D, 0xDE00]"
proof -
  have "is_utf8 demo_utf8" by (simp add: is_utf8_def demo_utf8_def)
  moreover have "utf8_encode [0x61, 0xE9, 0x20AC, 0xD83D, 0xDE00]
      = Some [0x61, 0xC3, 0xA9, 0xE2, 0x82, 0xAC, 0xF0, 0x9F, 0x98, 0x80]"
    by (simp add: high_surrogate_def low_surrogate_def utf8_point_def)
  ultimately show ?thesis
    using string_roundtrip [OF stored_lib_ok, of "[''UTF-8'' \<mapsto> demo_utf8]" demo_utf8] by (fastforce simp: int_max_def)
qed

section \<open>Methods that pass their arguments on\<close>

definition s_arrayCopy :: "bytes \<Rightarrow> int \<Rightarrow> int \<Rightarrow> int \<Rightarrow> (bytes, exc, unit) op" where
  "s_arrayCopy src offset byteLength dest_offset = impl_arrayCopy src offset byteLength dest_offset"

definition s_isValidCompressedBuffer_bytes :: "snappy_lib \<Rightarrow> bytes \<Rightarrow> bool result" where
  "s_isValidCompressedBuffer_bytes lib input = s_isValidCompressedBuffer lib (Some input) 0 (int (length input))"

definition s_uncompressedLength_bytes :: "snappy_lib \<Rightarrow> bytes \<Rightarrow> int result" where
  "s_uncompressedLength_bytes lib input = impl_uncompressedLength lib input 0 (int (length input))"

definition s_rawCompress_address :: "snappy_lib \<Rightarrow> nat \<Rightarrow> int \<Rightarrow> int \<Rightarrow> int \<Rightarrow> int native" where
  "s_rawCompress_address lib impl inputAddr inputSize destAddr = rawCompress_JJJ lib impl inputAddr inputSize destAddr"

definition s_rawUncompress_address :: "snappy_lib \<Rightarrow> nat \<Rightarrow> int \<Rightarrow> int \<Rightarrow> int \<Rightarrow> int native" where
  "s_rawUncompress_address lib impl inputAddr inputSize destAddr = rawUncompress_JJJ lib impl inputAddr inputSize destAddr"

definition s_uncompressedLength_address :: "snappy_lib \<Rightarrow> nat \<Rightarrow> int \<Rightarrow> int \<Rightarrow> int native" where
  "s_uncompressedLength_address lib impl inputAddr len = uncompressedLength_JJ lib impl inputAddr len"

definition s_isValidCompressedBuffer_address :: "snappy_lib \<Rightarrow> nat \<Rightarrow> int \<Rightarrow> int \<Rightarrow> int \<Rightarrow> bool native" where
  "s_isValidCompressedBuffer_address lib impl inputAddr offset len = isValidCompressedBuffer_JJJ lib impl inputAddr offset len"

end
