(* ===== verification/Snappy_Exceptions.thy ===== *)
theory Snappy_Exceptions
  imports Errors
begin

text \<open>
  \<open>SnappyError.java\<close>, \<open>SnappyException.java\<close> and \<open>SnappyIOException.java\<close>: what an exception object of the
  library carries and the message it shows. \<open>detail\<close> is the message given to the superclass, \<open>None\<close> for
  null; a cause gives its own rendering as the message.
\<close>

section \<open>The exception objects\<close>

datatype throwable_class = SnappyErrorClass | SnappyExceptionClass | SnappyIOExceptionClass

record snappy_throwable =
  thrown_class :: throwable_class
  errorCode :: SnappyErrorCode
  detail :: "string option"

definition new_SnappyError :: "SnappyErrorCode \<Rightarrow> string option \<Rightarrow> snappy_throwable" where
  "new_SnappyError code d = \<lparr>thrown_class = SnappyErrorClass, errorCode = code, detail = d\<rparr>"

definition new_SnappyException :: "SnappyErrorCode \<Rightarrow> string option \<Rightarrow> snappy_throwable" where
  "new_SnappyException code d = \<lparr>thrown_class = SnappyExceptionClass, errorCode = code, detail = d\<rparr>"

definition new_SnappyException_id :: "int \<Rightarrow> snappy_throwable" where
  "new_SnappyException_id code = new_SnappyException (getErrorCode code) None"

definition new_SnappyIOException :: "SnappyErrorCode \<Rightarrow> string \<Rightarrow> snappy_throwable" where
  "new_SnappyIOException code message = \<lparr>thrown_class = SnappyIOExceptionClass, errorCode = code, detail = Some message\<rparr>"

text \<open>The three classes override \<open>getMessage\<close> in the same way; \<open>%s\<close> shows null as \<open>null\<close>.\<close>

definition getMessage :: "snappy_throwable \<Rightarrow> string" where
  "getMessage t = ''['' @ error_name (errorCode t) @ ''] '' @ (case detail t of None \<Rightarrow> ''null'' | Some m \<Rightarrow> m)"

definition throwException :: "int \<Rightarrow> snappy_throwable + unit" where
  "throwException code = Inl (new_SnappyException_id code)"

section \<open>Reading a message back\<close>

definition message_code :: "string \<Rightarrow> string" where
  "message_code m = takeWhile (\<lambda>c. c \<noteq> CHR '']'') (drop 1 m)"

lemma error_name_plain: "CHR '']'' \<notin> set (error_name code)"
  by (cases code) simp_all

lemma error_name_inj: "error_name a = error_name b \<longleftrightarrow> a = b"
  by (cases a; cases b) simp_all

text \<open>The message determines the error code, whatever text follows it.\<close>

lemma takeWhile_stop: "x \<notin> set xs \<Longrightarrow> takeWhile (\<lambda>c. c \<noteq> x) (xs @ x # ys) = xs"
  by (induction xs) auto

lemma message_code_of: "message_code (getMessage t) = error_name (errorCode t)"
  by (simp add: message_code_def getMessage_def takeWhile_stop error_name_plain)

lemma message_tells_code: "getMessage t = getMessage u \<Longrightarrow> errorCode t = errorCode u"
  by (metis message_code_of error_name_inj)

lemma thrown_by_id: "throwException (error_id code) = Inl (new_SnappyException code None)"
  by (simp add: throwException_def new_SnappyException_id_def getErrorCode_id)

end
