(* ===== verification/Spec2Isabelle.thy ===== *)
theory Spec2Isabelle
  imports Crc32c Snappy_Config Jni_Linkage Native_Props Native_Exports Input_Safety Direct_Buffers Pool_Threads BitShuffle_Api
    Framed_Channel Framed_Closing Framed_Entry Loader_Failures Snappy_Strings Snappy_Exceptions
begin

text \<open>
  Verification of snappy-java, the Java binding of the snappy compression library, with its own
  stream formats, its checksum, its buffer pools and the loading of its native part. Paths below are
  relative to \<open>src/main/java/org/xerial/snappy\<close> unless they start with \<open>lib\<close>.

  \<^bold>\<open>The program.\<close> \<open>Snappy.java\<close> and \<open>BitShuffle.java\<close> are static methods that check their arguments and
  call the native methods of \<open>SnappyNative.java\<close> and \<open>BitShuffleNative.java\<close>. These are C++ functions
  (\<open>SnappyNative.cpp\<close>, \<open>BitShuffleNative.cpp\<close>) that reach Java arrays and direct buffers through the JNI
  function table of \<open>lib/inc_*/jni.h\<close> and hand their ranges to the snappy and bitshuffle libraries.
  Two pairs of stream classes sit on top: \<open>SnappyOutputStream\<close> and \<open>SnappyInputStream\<close> with the header of
  \<open>SnappyCodec\<close> and buffers from the package \<open>buffer\<close>, and \<open>SnappyFramedOutputStream\<close> and
  \<open>SnappyFramedInputStream\<close> with the frame format and checksum of \<open>SnappyFramed\<close> and \<open>PureJavaCrc32C\<close> and
  buffers from the package \<open>pool\<close>. \<open>SnappyLoader\<close> and \<open>OSInfo\<close> find, extract and load the native library
  before the first call.

  \<^bold>\<open>Conventions.\<close> A Java \<open>byte\<close> is an 8-bit word; an \<open>int\<close> is a 32-bit word where the code works on bits and
  a HOL \<open>int\<close> with \<open>i32\<close> at every step that can wrap where it counts. Arrays are lists; an access outside
  throws as Java does, and in native code it is the value \<open>NativeFault\<close>. Code that may throw returns
  \<open>Inl e\<close> or \<open>Inr x\<close>; an operation on an object also returns the state it leaves, on every exit
  (\<open>op\<close>, \<open>bindS\<close>, \<open>getS\<close>, \<open>finallyS\<close> of \<open>Base\<close>). A null reference is \<open>None\<close>.

  \<^bold>\<open>Theories.\<close>
  \<^item> \<open>Base\<close>, \<open>Steady\<close>, \<open>Errors\<close>, \<open>Snappy_Exceptions\<close>: the prelude (wrap-around, segments and block copies of
    arrays, the result and state combinators, what an operation leaves alone); \<open>SnappyErrorCode.java\<close> and \<open>SnappyNative.throw_error\<close>; the exception
    classes and their messages.
  \<^item> \<open>Crc32c_Tables\<close>, \<open>Crc32c\<close>: \<open>PureJavaCrc32C.java\<close>. Every table entry is the one the polynomial gives, and
    the slicing loop computes the bit-serial checksum of exactly the bytes in range.
  \<^item> \<open>Jni_Types\<close>, \<open>Jni_Linux\<close>, \<open>Jni_Mac\<close>, \<open>Jni_Win\<close>, \<open>Jni_Interface\<close>: the function tables, inline methods
    and machine types of \<open>lib/inc_*\<close>. The three headers lay out one table, and each inline method forwards
    to its own slot.
  \<^item> \<open>Jni_Vocabulary\<close>, \<open>Jni_Linkage\<close>, \<open>Snappy_Config\<close>: what the headers declare besides (the class hierarchy,
    typedefs, structures, constants), their linkage macros as functions on the macros defined so far, and
    \<open>config.h\<close> and \<open>snappy-stubs-public.h\<close> of Linux. The C and the C++ view of the types fit together, exported
    functions are visible on every platform, and the two configuration headers describe one machine.
  \<^item> \<open>Native_Jvm\<close>, \<open>Snappy_Native\<close>, \<open>Native_Props\<close>, \<open>BitShuffle_Native\<close>, \<open>Native_Exports\<close>: the JVM as JNI
    shows it (arrays, buffers, pinning, a pending exception), the C++ functions line by line, their outcome
    on every branch, the JNI rules, and the names that link them to the Java declarations. The snappy and
    bitshuffle libraries are parameters; \<open>lib_roundtrip\<close>, \<open>lib_space\<close>, \<open>lib_lengths\<close> and \<open>lib_mono\<close> are their
    documented behaviour (\<open>Snappy.java\<close>, \<open>snappy.h\<close>), and \<open>frame_lib\<close> adds the bounds on \<open>32 + n + n / 6\<close> that
    the framed streams rely on. \<open>stored_lib\<close> satisfies all of them in the witnesses.
  \<^item> \<open>Snappy_Api\<close>, \<open>Api_Props\<close>, \<open>Snappy_Strings\<close>, \<open>BitShuffle_Api\<close>: \<open>Snappy.java\<close> and \<open>BitShuffle.java\<close>. The
    array operations are refined by the C++ functions; byte arrays, typed arrays and strings round-trip.
  \<^item> \<open>Snappy_Codec\<close>, \<open>Buffer_Alloc\<close>, \<open>Snappy_Output\<close>, \<open>Snappy_Output_Proofs\<close>, \<open>Output_Props\<close>: the header,
    the allocators, and the output stream. \<open>os_rel\<close> relates its buffers to the abstract stream, a list of
    blocks and the gathered bytes, and every operation keeps the relation.
  \<^item> \<open>Snappy_Input\<close>, \<open>Snappy_Input_Proofs\<close>, \<open>Stream_Props\<close>, \<open>Input_Safety\<close>: the input stream. \<open>is_rel\<close>
    relates it to the items before it; on arbitrary data a Hoare-style predicate \<open>runs\<close> shows that only
    orderly exceptions leave it.
  \<^item> \<open>Buffer_Pool\<close>, \<open>Pool_Threads\<close>: the package \<open>pool\<close>, sequentially and as interleaved atomic steps of
    threads with a garbage collector. The invariant gives every buffer and every reference one place.
    \<open>Direct_Buffers\<close>: \<open>DirectByteBuffers.java\<close> on a virtual machine whose reflection may fail at every call.
  \<^item> \<open>Byte_Buffer\<close>, \<open>Snappy_Framed\<close>, \<open>Framed_Output\<close>, \<open>Framed_Output_Proofs\<close>, \<open>Framed_Input\<close>,
    \<open>Framed_Input_Proofs\<close>, \<open>Framed_Sessions\<close>, \<open>Framed_Props\<close>, \<open>Framed_Channel\<close>, \<open>Framed_Closing\<close>, \<open>Framed_Entry\<close>:
    the framed streams over \<open>ByteBuffer\<close> and channels, and their methods with null arguments. \<open>decode_stream\<close>
    is the specification of the frame format: \<open>stream_identifier\<close>, \<open>chunk_header\<close> and \<open>masked_crc\<close> are written
    from the format alone and proved equal to the constants, \<open>getFrameMetaData\<close> and the masking of the code.
    The writer produces what it decodes and the reader computes it, whatever portions the channel delivers. On any channel the writer returns its buffers once.
  \<^item> \<open>OS_Info\<close>, \<open>Snappy_Loader\<close>, \<open>Loader_Props\<close>, \<open>Loader_Failures\<close>: \<open>OSInfo.java\<close>, \<open>SnappyLoader.java\<close>, the OSGi
    activator and \<open>Snappy.init\<close>. \<open>loader_step\<close> is a call of the loader in a changing environment, \<open>lifetime\<close> adds
    the starts and stops of the activator, and \<open>reports\<close> follows a failing file operation through the extraction.

  \<^bold>\<open>Interfaces.\<close> \<open>buffer_allocator\<close> (interpreted on both allocators), \<open>buffer_pool\<close> (on the arrays and on the
  direct buffers of the pools), \<open>int_code\<close> (on the big-endian integers of the block streams and the
  little-endian ones of the frames), \<open>buffer_copy\<close> and \<open>chunk_copy\<close> (on \<open>System.arraycopy\<close> and on the native
  copy, the two ways in which the streams move bytes), \<open>framing\<close> (on byte buffers, on the
  output stream while it is flushed, on the framed writer, alone and with a source, and on the array of the
  framed reader: what every operation leaves alone).

  \<^bold>\<open>Loops.\<close> \<open>write_loop\<close> runs with fuel \<open>n + 2\<close> for \<open>n\<close> bytes, of which each round consumes one at least,
  and \<open>grow_loop\<close> with one more than the bytes left in the stream; that the fuel suffices is part of the
  round trips. The loops of the framed streams, of \<open>readBytes\<close>, \<open>skip\<close> and of the extraction recurse on the
  bytes still to come; where the code would repeat without progress they return \<open>Diverges\<close>, and
  \<open>framed_reader_refines\<close> and \<open>input_stays_in_bounds\<close> show that it is not reached. A thread of the pool
  that runs alone comes to its end (\<open>pool_threads_refine\<close>). A channel may take nothing of what it is
  offered for ever, so \<open>transferTo_channel\<close> has fuel; with a channel that takes a byte at a time, one round
  for each byte and each chunk is enough (\<open>channel_transfer_refines\<close>).

  \<^bold>\<open>What is not as its documentation says\<close> is stated as theorems too: chunks that claim \<open>2 ^ 31\<close> bytes and
  more, bytes of a chunk whose checksum failed, the array that
  \<open>transferTo(WritableByteChannel)\<close> wraps once, block sizes below 1024, full blocks that do not shrink,
  the offset of \<open>BitShuffle.unshuffle\<close>, the version of the first header, a failed extraction, the errors of a
  failed initialization, the library loaded twice after the OSGi activator, the user's library deleted
  by \<open>cleanUp\<close>, the version macro of the snappy library, the error
  paths of the bit-shuffling functions.

  \<^bold>\<open>Not modelled.\<close>
  \<^item> Threads inside one stream object: the classes are not made for sharing. \<open>synchronized\<close> makes each call
    of the loader one step. Out-of-memory errors of the virtual machine, except those JNI reports.
  \<^item> Character sets other than UTF-8 and malformed text, which are parameters; lower-casing and file names
    beyond Latin-1, and lower-casing in a default locale other than the US one; file permissions; messages of exceptions beyond their fixed part.
\<close>

end
